(* ===== verification/Prelude.thy ===== *)
theory Prelude
  imports Main "HOL-Library.Word"
begin

text \<open>
  The vocabulary every component shares: Go byte slices and strings, the closed world of
  Go error values with \<open>errors.Is\<close>, \<open>copy\<close> into fixed arrays, hexadecimal text,
  little-endian fields, and the string functions of the standard library that the code
  calls. Machine integers are words; \<open>[]byte\<close> is a list of 8-bit words; a Go string is
  its list of bytes, written as a HOL \<open>string\<close>.
\<close>

named_theorems err_simps \<open>rewriting of error values\<close>
named_theorems codec_simps \<open>round trips and lengths of encodings\<close>

type_synonym byte = "8 word"
type_synonym bytes = "byte list"

section \<open>Errors\<close>

text \<open>
  \<open>Sentinel\<close> is a package level \<open>errors.New\<close> variable, \<open>Msg\<close> an error made on the
  spot, \<open>Wrap p e\<close> is \<open>fmt.Errorf("p: %w", e)\<close>, \<open>Both a b\<close> is
  \<open>fmt.Errorf("%w: %w", a, b)\<close>, \<open>Joined\<close> is \<open>errors.Join\<close>, \<open>Status\<close> a gRPC
  status with its code. \<open>Invalid\<close> and \<open>ExpectedMissing\<close> are the manifest package's
  \<open>ValidationError\<close> and \<open>ExpectedMissingReferenceValueError\<close>; \<open>Panic\<close> is a
  run-time panic, which the model returns as a value so that it cannot be overlooked.
\<close>

datatype grpc_code = FailedPrecondition | PermissionDenied | InvalidArgument | Internal

datatype goerr =
    Sentinel string
  | Msg string
  | HashMismatch bytes bytes
  | Status grpc_code string
  | Panic string
  | Wrap string goerr
  | Both goerr goerr
  | Joined "goerr list"
  | Invalid string "goerr list"
  | ExpectedMissing goerr

type_synonym 'a result = "goerr + 'a"

text \<open>\<open>errors.Is(err, target)\<close> for a sentinel target: the chain of \<open>Unwrap\<close> calls.\<close>

fun err_is :: "goerr \<Rightarrow> goerr \<Rightarrow> bool" where
  "err_is (Wrap p e) t \<longleftrightarrow> Wrap p e = t \<or> err_is e t"
| "err_is (Both a b) t \<longleftrightarrow> Both a b = t \<or> err_is a t \<or> err_is b t"
| "err_is (Joined es) t \<longleftrightarrow> Joined es = t \<or> list_ex (\<lambda>e. err_is e t) es"
| "err_is (Invalid p es) t \<longleftrightarrow> Invalid p es = t \<or> list_ex (\<lambda>e. err_is e t) es"
| "err_is e t \<longleftrightarrow> e = t"

text \<open>\<open>err.Error()\<close>, the text the code searches with \<open>strings.Contains\<close>.\<close>

fun join_with :: "string \<Rightarrow> string list \<Rightarrow> string" where
  "join_with sep [] = []"
| "join_with sep [x] = x"
| "join_with sep (x # y # xs) = x @ sep @ join_with sep (y # xs)"

lemma join_with_Cons: "ws \<noteq> [] \<Longrightarrow> join_with sep (w # ws) = w @ sep @ join_with sep ws"
  by (cases ws) auto

lemma join_with_Cons_head: "join_with sep ((c # w) # ws) = c # join_with sep (w # ws)"
  by (cases ws) auto

fun err_text :: "goerr \<Rightarrow> string" where
  "err_text (Sentinel s) = s"
| "err_text (Msg s) = s"
| "err_text (HashMismatch a b) = ''hash mismatch''"
| "err_text (Status c s) = s"
| "err_text (Panic s) = s"
| "err_text (Wrap p e) = p @ '': '' @ err_text e"
| "err_text (Both a b) = err_text a @ '': '' @ err_text b"
| "err_text (Joined es) = join_with [CHR 0x0A] (map err_text es)"
| "err_text (Invalid p es) = p @ '': '' @ join_with [CHR 0x0A] (map err_text es)"
| "err_text (ExpectedMissing e) = ''Please fill in all reference values for '' @ err_text e"

section \<open>Slices and arrays\<close>

text \<open>
  Go's \<open>copy(dst, src)\<close>: as many elements as the shorter of the two holds; the rest of
  \<open>dst\<close> stays. \<open>copy_at off src dst\<close> is \<open>copy(dst[off:], src)\<close>.
\<close>

definition copy_into :: "'a list \<Rightarrow> 'a list \<Rightarrow> 'a list" where
  "copy_into dst src = take (length dst) src @ drop (length src) dst"

definition copy_at :: "nat \<Rightarrow> 'a list \<Rightarrow> 'a list \<Rightarrow> 'a list" where
  "copy_at off src dst = take off dst @ copy_into (drop off dst) src"

lemma length_copy_into [simp]: "length (copy_into dst src) = length dst"
  by (simp add: copy_into_def)

lemma copy_into_same [simp]: "length src = length dst \<Longrightarrow> copy_into dst src = src"
  by (simp add: copy_into_def)

lemma length_copy_at [simp]: "length (copy_at off src dst) = length dst"
  by (simp add: copy_at_def)

text \<open>A field that lies wholly inside the buffer: what is read back, and what is kept.\<close>

lemma copy_at_inside:
  "off + length src \<le> length dst \<Longrightarrow>
     copy_at off src dst = take off dst @ src @ drop (off + length src) dst"
  by (simp add: copy_at_def copy_into_def add.commute)

lemma copy_at_read:
  assumes "off + length src \<le> length dst"
  shows "take (length src) (drop off (copy_at off src dst)) = src"
  using assms by (simp add: copy_at_inside)

lemma copy_at_keeps_before:
  assumes "off + length src \<le> length dst" and "a + n \<le> off"
  shows "take n (drop a (copy_at off src dst)) = take n (drop a dst)"
proof -
  have "min n (off - a) = n" and "n - (length dst - a) = 0" using assms by auto
  then show ?thesis using assms by (simp add: copy_at_inside take_drop)
qed

lemma copy_at_keeps_after:
  assumes "off + length src \<le> length dst" and "off + length src \<le> a"
  shows "take n (drop a (copy_at off src dst)) = take n (drop a dst)"
proof -
  have "drop a (copy_at off src dst) = drop a dst"
    using assms by (simp add: copy_at_inside)
  then show ?thesis by simp
qed

section \<open>Strings\<close>

definition bytes_of_string :: "string \<Rightarrow> bytes" where
  "bytes_of_string s = map (\<lambda>c. of_nat (of_char c)) s"

definition string_of_bytes :: "bytes \<Rightarrow> string" where
  "string_of_bytes bs = map (\<lambda>b. char_of (unat b)) bs"

lemma length_bytes_of_string [simp]: "length (bytes_of_string s) = length s"
  by (simp add: bytes_of_string_def)

lemma unat_byte_lt [simp]: "unat (b :: byte) < 256"
  proof -
  have "unat b < 2 ^ LENGTH(8)" by (rule unsigned_less)
  then show ?thesis by simp
qed

lemma byte_of_char_inverse [simp]: "char_of (unat (of_nat (of_char c) :: byte)) = (c :: char)"
proof -
  have "of_char c < (256 :: nat)" by simp
  then have "unat (of_nat (of_char c) :: byte) = of_char c"
    by (simp add: unat_of_nat take_bit_eq_mod)
  then show ?thesis by simp
qed

lemma string_of_bytes_of_string [simp, codec_simps]: "string_of_bytes (bytes_of_string s) = s"
  by (simp add: string_of_bytes_def bytes_of_string_def o_def)

lemma bytes_of_string_inject [simp]: "bytes_of_string s = bytes_of_string t \<longleftrightarrow> s = t"
  by (metis string_of_bytes_of_string)

definition has_prefix :: "string \<Rightarrow> string \<Rightarrow> bool" where
  "has_prefix p s \<longleftrightarrow> take (length p) s = p"

text \<open>\<open>strings.CutPrefix\<close> and \<open>strings.CutSuffix\<close>: the rest and whether it was found.\<close>

definition cut_prefix :: "string \<Rightarrow> string \<Rightarrow> string option" where
  "cut_prefix p s = (if has_prefix p s then Some (drop (length p) s) else None)"

definition cut_suffix :: "string \<Rightarrow> string \<Rightarrow> string option" where
  "cut_suffix p s = map_option rev (cut_prefix (rev p) (rev s))"

fun contains :: "string \<Rightarrow> string \<Rightarrow> bool" where
  "contains sub [] \<longleftrightarrow> sub = []"
| "contains sub (c # s) \<longleftrightarrow> has_prefix sub (c # s) \<or> contains sub s"

text \<open>\<open>strings.Split(s, sep)\<close> for a separator of one byte.\<close>

fun split_on :: "char \<Rightarrow> string \<Rightarrow> string list" where
  "split_on sep [] = [[]]"
| "split_on sep (c # s) =
     (if c = sep then [] # split_on sep s
      else (case split_on sep s of [] \<Rightarrow> [[c]] | w # ws \<Rightarrow> (c # w) # ws))"

text \<open>
  \<open>strings.ToLower\<close>, exact for comparison with ASCII text: the ASCII letters, and the two
  runes outside ASCII whose lower case is an ASCII letter, U+0130 and U+212A. Any other rune
  stays outside ASCII, so it can equal no character of an ASCII literal either way.
\<close>

definition lower_char :: "char \<Rightarrow> char" where
  "lower_char c = (if 65 \<le> (of_char c :: nat) \<and> (of_char c :: nat) \<le> 90
     then char_of (of_char c + 32 :: nat) else c)"

fun to_lower :: "string \<Rightarrow> string" where
  "to_lower [] = []"
| "to_lower (c # s) =
     (if c = CHR 0xC4 \<and> take 1 s = [CHR 0xB0] then CHR ''i'' # to_lower (drop 1 s)
      else if c = CHR 0xE2 \<and> take 2 s = [CHR 0x84, CHR 0xAA] then CHR ''k'' # to_lower (drop 2 s)
      else lower_char c # to_lower s)"

lemma has_prefix_append [simp]: "has_prefix p (p @ s)"
  by (simp add: has_prefix_def)

lemma cut_prefix_append [simp]: "cut_prefix p (p @ s) = Some s"
  by (simp add: cut_prefix_def)

lemma cut_prefix_Some: "cut_prefix p s = Some r \<longleftrightarrow> s = p @ r"
  by (auto simp: cut_prefix_def has_prefix_def) (metis append_take_drop_id)

lemma has_prefix_contains: "has_prefix p s \<Longrightarrow> contains p s"
  by (cases s) (auto simp: has_prefix_def)

lemma contains_self [simp]: "contains s (s @ b)"
  by (simp add: has_prefix_contains)

lemma contains_append: "contains s (a @ s @ b)"
  by (induction a) auto

lemma split_on_none: "sep \<notin> set s \<Longrightarrow> split_on sep s = [s]"
  by (induction s) auto

lemma split_on_word: "sep \<notin> set w \<Longrightarrow> split_on sep (w @ sep # s) = w # split_on sep s"
  by (induction w) auto

lemma split_on_nonempty [simp]: "split_on sep s \<noteq> []"
  by (induction s) (auto split: list.splits)

lemma join_split_on: "join_with [sep] (split_on sep s) = s"
proof (induction s)
  case (Cons c s)
  then show ?case by (auto simp: join_with_Cons join_with_Cons_head split: list.splits)
qed simp

lemma split_on_join: "ws \<noteq> [] \<Longrightarrow> \<forall>w\<in>set ws. sep \<notin> set w \<Longrightarrow> split_on sep (join_with [sep] ws) = ws"
  by (induction "[sep]" ws rule: join_with.induct) (auto simp: split_on_none split_on_word)

text \<open>\<open>strconv.Itoa\<close> of a non-negative number, and a Go \<open>%q\<close> of printable text.\<close>

fun dec_string :: "nat \<Rightarrow> string" where
  "dec_string n = (if n < 10 then [char_of (48 + n)]
     else dec_string (n div 10) @ [char_of (48 + n mod 10)])"

declare dec_string.simps [simp del]

definition quoted :: "string \<Rightarrow> string" where
  "quoted s = [CHR 0x22] @ s @ [CHR 0x22]"

section \<open>Hexadecimal text\<close>

text \<open>
  \<open>hex.EncodeToString\<close> writes two lower case digits per byte. \<open>hex.DecodeString\<close>
  accepts digits of either case; it reports the first byte that is no digit, and an odd
  length only when every byte is one.
\<close>

definition hex_digit :: "nat \<Rightarrow> char" where
  "hex_digit n = (if n < 10 then char_of (48 + n) else char_of (87 + n))"

definition hex_value :: "char \<Rightarrow> nat option" where
  "hex_value c = (let n = of_char c in
     if 48 \<le> n \<and> n \<le> 57 then Some (n - 48)
     else if 97 \<le> n \<and> n \<le> 102 then Some (n - 87)
     else if 65 \<le> n \<and> n \<le> 70 then Some (n - 55)
     else None)"

definition hex_encode :: "bytes \<Rightarrow> string" where
  "hex_encode bs = concat (map (\<lambda>b. [hex_digit (unat b div 16), hex_digit (unat b mod 16)]) bs)"

fun hex_decode :: "string \<Rightarrow> bytes result" where
  "hex_decode [] = Inr []"
| "hex_decode [c] = (case hex_value c of
     None \<Rightarrow> Inl (Msg ''encoding/hex: invalid byte'')
   | Some _ \<Rightarrow> Inl (Sentinel ''encoding/hex: odd length hex string''))"
| "hex_decode (c # d # s) = (case hex_value c of
     None \<Rightarrow> Inl (Msg ''encoding/hex: invalid byte'')
   | Some h \<Rightarrow> (case hex_value d of
       None \<Rightarrow> Inl (Msg ''encoding/hex: invalid byte'')
     | Some l \<Rightarrow> (case hex_decode s of
         Inl e \<Rightarrow> Inl e
       | Inr bs \<Rightarrow> Inr (of_nat (16 * h + l) # bs))))"

lemma hex_value_digit [simp]: "n < 16 \<Longrightarrow> hex_value (hex_digit n) = Some n"
  by (simp add: hex_value_def hex_digit_def Let_def of_char_of take_bit_eq_mod)

lemma hex_encode_simps [simp]:
  "hex_encode [] = []"
  "hex_encode (b # bs) = hex_digit (unat b div 16) # hex_digit (unat b mod 16) # hex_encode bs"
  by (simp_all add: hex_encode_def)

lemma length_hex_encode [simp, codec_simps]: "length (hex_encode bs) = 2 * length bs"
  by (induction bs) simp_all

lemma hex_decode_encode [simp, codec_simps]: "hex_decode (hex_encode bs) = Inr bs"
proof (induction bs)
  case Nil
  then show ?case by simp
next
  case (Cons b bs)
  have d: "unat b div 16 < 16" "unat b mod 16 < 16"
    using unat_byte_lt [of b] by (simp_all add: less_mult_imp_div_less)
  then show ?case using Cons.IH by simp
qed

lemma hex_encode_inject [simp]: "hex_encode a = hex_encode b \<longleftrightarrow> a = b"
  by (metis hex_decode_encode sum.inject(2))

lemma hex_decode_length: "hex_decode s = Inr bs \<Longrightarrow> length s = 2 * length bs"
  by (induction s arbitrary: bs rule: hex_decode.induct) (auto split: option.splits sum.splits)

section \<open>Little-endian fields\<close>

definition le_bytes :: "nat \<Rightarrow> 'a::len word \<Rightarrow> bytes" where
  "le_bytes n x = map (\<lambda>i. ucast (drop_bit (8 * i) x)) [0..<n]"

fun le_value :: "bytes \<Rightarrow> nat" where
  "le_value [] = 0"
| "le_value (b # bs) = unat b + 256 * le_value bs"

lemma length_le_bytes [simp]: "length (le_bytes n x) = n"
  by (simp add: le_bytes_def)

lemma le_bytes_Suc: "le_bytes (Suc n) x = ucast x # le_bytes n (drop_bit 8 x)"
proof -
  have "[0..<Suc n] = 0 # map Suc [0..<n]"
    by (subst upt_conv_Cons) (simp_all only: map_Suc_upt zero_less_Suc)
  then show ?thesis
    by (simp only: le_bytes_def list.map map_map o_def) (simp add: add.commute)
qed

lemma le_value_le_bytes: "le_value (le_bytes n x) = unat x mod 256 ^ n"
proof (induction n arbitrary: x)
  case 0
  then show ?case by (simp add: le_bytes_def)
next
  case (Suc n)
  have lo: "unat (ucast x :: byte) = unat x mod 256"
    by (simp add: unsigned_ucast_eq take_bit_eq_mod)
  have hi: "unat (drop_bit 8 x) = unat x div 256"
    using drop_bit_eq_div [of 8 "unat x"] by (simp only: unat_drop_bit_eq) simp
  have "le_value (le_bytes (Suc n) x) = unat x mod 256 + 256 * (unat x div 256 mod 256 ^ n)"
    by (simp only: le_bytes_Suc le_value.simps Suc.IH lo hi)
  then show ?case by (simp only: power_Suc mod_mult2_eq add.commute)
qed

lemma le_value_bound: "le_value bs < 256 ^ length bs"
proof (induction bs)
  case (Cons b bs)
  have "unat b + 256 * le_value bs < 256 + 256 * le_value bs"
    using unat_byte_lt [of b] by simp
  also have "\<dots> \<le> 256 * 256 ^ length bs" using Cons.IH by (simp add: Suc_leI)
  finally show ?case by simp
qed simp

end
