(* ===== verification/Platforms.thy ===== *)
theory Platforms
  imports Prelude
begin

text \<open>
  The deployment platforms of \<open>internal/platforms/platforms.go\<close> and the runtime handler
  names of \<open>internal/manifest/runtimehandler.go\<close>. A platform is an enumeration; its
  text forms are parsed case-insensitively. The lemmas show that every text form written by
  the code is read back, that the predicates partition the platforms, and that the two
  parsers of runtime class names agree on every name built from a platform and a hash.
\<close>

datatype platform =
    Unknown
  | MetalQEMUSNP
  | MetalQEMUTDX
  | MetalQEMUSNPGPU
  | MetalQEMUTDXGPU
  | MetalQEMUInsecure
  | MetalQEMUInsecureGPU

definition all_platforms :: "platform list" where
  "all_platforms = [MetalQEMUSNP, MetalQEMUTDX, MetalQEMUSNPGPU, MetalQEMUTDXGPU,
     MetalQEMUInsecure, MetalQEMUInsecureGPU]"

fun platform_string :: "platform \<Rightarrow> string" where
  "platform_string MetalQEMUSNP = ''Metal-QEMU-SNP''"
| "platform_string MetalQEMUSNPGPU = ''Metal-QEMU-SNP-GPU''"
| "platform_string MetalQEMUTDX = ''Metal-QEMU-TDX''"
| "platform_string MetalQEMUTDXGPU = ''Metal-QEMU-TDX-GPU''"
| "platform_string MetalQEMUInsecure = ''Metal-QEMU-Insecure''"
| "platform_string MetalQEMUInsecureGPU = ''Metal-QEMU-Insecure-GPU''"
| "platform_string Unknown = ''Unknown''"

definition all_strings :: "string list" where
  "all_strings = map platform_string all_platforms"

fun insecure_variant :: "platform \<Rightarrow> platform" where
  "insecure_variant MetalQEMUSNP = MetalQEMUInsecure"
| "insecure_variant MetalQEMUTDX = MetalQEMUInsecure"
| "insecure_variant MetalQEMUSNPGPU = MetalQEMUInsecureGPU"
| "insecure_variant MetalQEMUTDXGPU = MetalQEMUInsecureGPU"
| "insecure_variant _ = Unknown"

section \<open>Text forms\<close>

definition from_string :: "string \<Rightarrow> platform result" where
  "from_string s =
     (let l = to_lower s in
      if l = ''metal-qemu-snp'' then Inr MetalQEMUSNP
      else if l = ''metal-qemu-snp-gpu'' then Inr MetalQEMUSNPGPU
      else if l = ''metal-qemu-tdx'' then Inr MetalQEMUTDX
      else if l = ''metal-qemu-tdx-gpu'' then Inr MetalQEMUTDXGPU
      else if l = ''metal-qemu-insecure'' then Inr MetalQEMUInsecure
      else if l = ''metal-qemu-insecure-gpu'' then Inr MetalQEMUInsecureGPU
      else Inl (Msg (''unknown platform: '' @ s)))"

definition from_string_or_empty :: "string \<Rightarrow> platform result" where
  "from_string_or_empty s = (if s = '''' then Inr Unknown else from_string s)"

definition from_runtime_class_string :: "string \<Rightarrow> platform result" where
  "from_runtime_class_string s0 =
     (let s = to_lower s0 in
      if has_prefix ''contrast-cc-metal-qemu-snp-gpu'' s then Inr MetalQEMUSNPGPU
      else if has_prefix ''contrast-cc-metal-qemu-snp'' s then Inr MetalQEMUSNP
      else if has_prefix ''contrast-cc-metal-qemu-tdx-gpu'' s then Inr MetalQEMUTDXGPU
      else if has_prefix ''contrast-cc-metal-qemu-tdx'' s then Inr MetalQEMUTDX
      else if has_prefix ''contrast-insecure-metal-qemu-gpu'' s then Inr MetalQEMUInsecureGPU
      else if has_prefix ''contrast-insecure-metal-qemu'' s then Inr MetalQEMUInsecure
      else Inl (Msg (''unknown platform: '' @ s)))"

definition dquote :: char where
  "dquote = CHR 0x22"

text \<open>\<open>strings.Trim(s, "\"")\<close>: every quote at either end goes.\<close>

definition trim_quotes :: "string \<Rightarrow> string" where
  "trim_quotes s = rev (dropWhile (\<lambda>c. c = dquote) (rev (dropWhile (\<lambda>c. c = dquote) s)))"

definition platform_marshal_json :: "platform \<Rightarrow> string" where
  "platform_marshal_json p = [dquote] @ platform_string p @ [dquote]"

definition platform_unmarshal_json :: "string \<Rightarrow> platform result" where
  "platform_unmarshal_json data = from_string (trim_quotes data)"

definition platform_marshal_text :: "platform \<Rightarrow> string" where
  "platform_marshal_text p = platform_string p"

definition platform_unmarshal_text :: "string \<Rightarrow> platform result" where
  "platform_unmarshal_text data = from_string data"

section \<open>Predicates and variants\<close>

fun default_memory_mib :: "platform \<Rightarrow> int" where
  "default_memory_mib MetalQEMUSNPGPU = 1024"
| "default_memory_mib MetalQEMUTDXGPU = 1024"
| "default_memory_mib MetalQEMUInsecureGPU = 1024"
| "default_memory_mib _ = 512"

fun is_insecure :: "platform \<Rightarrow> bool" where
  "is_insecure MetalQEMUInsecure = True"
| "is_insecure MetalQEMUInsecureGPU = True"
| "is_insecure _ = False"

fun is_snp :: "platform \<Rightarrow> bool" where
  "is_snp MetalQEMUSNP = True"
| "is_snp MetalQEMUSNPGPU = True"
| "is_snp _ = False"

fun is_tdx :: "platform \<Rightarrow> bool" where
  "is_tdx MetalQEMUTDX = True"
| "is_tdx MetalQEMUTDXGPU = True"
| "is_tdx _ = False"

fun is_gpu :: "platform \<Rightarrow> bool" where
  "is_gpu MetalQEMUSNPGPU = True"
| "is_gpu MetalQEMUTDXGPU = True"
| "is_gpu MetalQEMUInsecureGPU = True"
| "is_gpu _ = False"

fun is_qemu :: "platform \<Rightarrow> bool" where
  "is_qemu Unknown = False"
| "is_qemu _ = True"

fun with_gpu :: "platform \<Rightarrow> platform" where
  "with_gpu MetalQEMUSNP = MetalQEMUSNPGPU"
| "with_gpu MetalQEMUSNPGPU = MetalQEMUSNPGPU"
| "with_gpu MetalQEMUTDX = MetalQEMUTDXGPU"
| "with_gpu MetalQEMUTDXGPU = MetalQEMUTDXGPU"
| "with_gpu MetalQEMUInsecure = MetalQEMUInsecureGPU"
| "with_gpu MetalQEMUInsecureGPU = MetalQEMUInsecureGPU"
| "with_gpu Unknown = Unknown"

section \<open>Runtime handlers\<close>

text \<open>
  \<open>PlatformFromHandler\<close>: the prefix decides whether the class is insecure, the last
  part is the hash, and the parts between spell the platform.
\<close>

definition handler_raw_platform :: "bool \<Rightarrow> string list \<Rightarrow> string" where
  "handler_raw_platform insecure parts =
     (let raw = join_with ''-'' (take (length parts - 1) parts) in
      if insecure then
        (case cut_suffix ''-gpu'' raw of
           Some before \<Rightarrow> before @ ''-insecure-gpu''
         | None \<Rightarrow> raw @ ''-insecure'')
      else raw)"

definition platform_from_handler :: "string \<Rightarrow> platform result" where
  "platform_from_handler handler =
     (let bad = Inl (Msg (''invalid handler name: '' @ handler));
          found = (case cut_prefix ''contrast-cc-'' handler of
             Some rest \<Rightarrow> Some (rest, False)
           | None \<Rightarrow> (case cut_prefix ''contrast-insecure-'' handler of
               Some rest \<Rightarrow> Some (rest, True)
             | None \<Rightarrow> None))
      in case found of
           None \<Rightarrow> bad
         | Some (rest, insecure) \<Rightarrow>
             (let parts = split_on CHR ''-'' rest in
              if length parts < 3 \<or> length parts > 5 then bad
              else (case from_string (handler_raw_platform insecure parts) of
                  Inl e \<Rightarrow> Inl (Wrap ''invalid platform in handler name'' e)
                | Inr p \<Rightarrow> Inr p)))"

text \<open>
  \<open>RuntimeHandler\<close> ranges over the embedded reference values, a map from handler names:
  the argument lists the names in the order the range visits them.
\<close>

fun runtime_handler_in :: "string list \<Rightarrow> platform \<Rightarrow> string result" where
  "runtime_handler_in [] p = Inl (Msg (''no runtime handler found for platform '' @ platform_string p))"
| "runtime_handler_in (h # hs) p = (case platform_from_handler h of
     Inl e \<Rightarrow> Inl (Wrap (''invalid runtime handler name '' @ h) e)
   | Inr q \<Rightarrow> if q = p then Inr h else runtime_handler_in hs p)"

definition runtime_handler :: "string list result \<Rightarrow> platform \<Rightarrow> string result" where
  "runtime_handler embedded p = (case embedded of
     Inl e \<Rightarrow> Inl e
   | Inr handlers \<Rightarrow> runtime_handler_in handlers p)"

section \<open>Lemmas\<close>

lemma from_string_literals [simp]:
  "from_string ''Metal-QEMU-SNP'' = Inr MetalQEMUSNP"
  "from_string ''Metal-QEMU-SNP-GPU'' = Inr MetalQEMUSNPGPU"
  "from_string ''Metal-QEMU-TDX'' = Inr MetalQEMUTDX"
  "from_string ''Metal-QEMU-TDX-GPU'' = Inr MetalQEMUTDXGPU"
  "from_string ''Metal-QEMU-Insecure'' = Inr MetalQEMUInsecure"
  "from_string ''Metal-QEMU-Insecure-GPU'' = Inr MetalQEMUInsecureGPU"
  "from_string ''metal-qemu-snp'' = Inr MetalQEMUSNP"
  "from_string ''metal-qemu-snp-gpu'' = Inr MetalQEMUSNPGPU"
  "from_string ''metal-qemu-tdx'' = Inr MetalQEMUTDX"
  "from_string ''metal-qemu-tdx-gpu'' = Inr MetalQEMUTDXGPU"
  "from_string ''metal-qemu-insecure'' = Inr MetalQEMUInsecure"
  "from_string ''metal-qemu-insecure-gpu'' = Inr MetalQEMUInsecureGPU"
  by code_simp+

lemma from_string_platform_string: "p \<noteq> Unknown \<Longrightarrow> from_string (platform_string p) = Inr p"
  by (cases p) simp_all

lemma platform_string_not_quoted: "trim_quotes (platform_marshal_json p) = platform_string p"
  by (cases p) (simp_all add: trim_quotes_def platform_marshal_json_def dquote_def)

lemma from_string_known: "from_string s = Inr p \<Longrightarrow> p \<noteq> Unknown"
  by (auto simp: from_string_def Let_def split: if_splits)

lemma platform_security: "is_insecure p \<longleftrightarrow> p \<noteq> Unknown \<and> \<not> is_snp p \<and> \<not> is_tdx p"
  by (cases p) simp_all

lemma with_gpu_idem [simp]: "with_gpu (with_gpu p) = with_gpu p"
  by (cases p) simp_all

lemma with_gpu_keeps: "is_snp (with_gpu p) = is_snp p" "is_tdx (with_gpu p) = is_tdx p"
    "is_insecure (with_gpu p) = is_insecure p"
  by (cases p; simp)+

lemma platform_from_handler_known: "platform_from_handler h = Inr p \<Longrightarrow> p \<noteq> Unknown"
  by (auto simp: platform_from_handler_def Let_def dest: from_string_known
      split: option.splits sum.splits if_splits)

lemma runtime_handler_in_sound:
  "runtime_handler_in hs p = Inr h \<Longrightarrow> h \<in> set hs \<and> platform_from_handler h = Inr p"
  by (induction hs) (auto split: sum.splits if_splits)

text \<open>
  The runtime class name of a platform: the class prefix, the platform's words, and a hash
  as the last word.
\<close>

fun handler_words :: "platform \<Rightarrow> string list" where
  "handler_words MetalQEMUSNP = [''metal'', ''qemu'', ''snp'']"
| "handler_words MetalQEMUSNPGPU = [''metal'', ''qemu'', ''snp'', ''gpu'']"
| "handler_words MetalQEMUTDX = [''metal'', ''qemu'', ''tdx'']"
| "handler_words MetalQEMUTDXGPU = [''metal'', ''qemu'', ''tdx'', ''gpu'']"
| "handler_words MetalQEMUInsecure = [''metal'', ''qemu'']"
| "handler_words MetalQEMUInsecureGPU = [''metal'', ''qemu'', ''gpu'']"
| "handler_words Unknown = []"

definition handler_class :: "platform \<Rightarrow> string" where
  "handler_class p = (if is_insecure p then ''contrast-insecure-'' else ''contrast-cc-'')"

definition handler_name :: "platform \<Rightarrow> string \<Rightarrow> string" where
  "handler_name p hash = handler_class p @ join_with ''-'' (handler_words p @ [hash])"

lemma to_lower_ascii: "\<forall>c\<in>set a. (of_char c :: nat) < 128 \<Longrightarrow> to_lower (a @ s) = map lower_char a @ to_lower s"
  by (induction a) auto

lemma handler_words_split:
  assumes "CHR ''-'' \<notin> set hash"
  shows "split_on CHR ''-'' (join_with ''-'' (handler_words p @ [hash])) = handler_words p @ [hash]"
  using assms by (intro split_on_join) (cases p; simp)+

lemma handler_raw_words [simp]:
  "handler_raw_platform False [''metal'', ''qemu'', ''snp'', h] = ''metal-qemu-snp''"
  "handler_raw_platform False [''metal'', ''qemu'', ''snp'', ''gpu'', h] = ''metal-qemu-snp-gpu''"
  "handler_raw_platform False [''metal'', ''qemu'', ''tdx'', h] = ''metal-qemu-tdx''"
  "handler_raw_platform False [''metal'', ''qemu'', ''tdx'', ''gpu'', h] = ''metal-qemu-tdx-gpu''"
  "handler_raw_platform True [''metal'', ''qemu'', h] = ''metal-qemu-insecure''"
  "handler_raw_platform True [''metal'', ''qemu'', ''gpu'', h] = ''metal-qemu-insecure-gpu''"
  by (simp_all add: handler_raw_platform_def cut_suffix_def cut_prefix_def has_prefix_def)

lemma cut_handler_class:
  "cut_prefix ''contrast-cc-'' (handler_class p @ s) = (if is_insecure p then None else Some s)"
  "cut_prefix ''contrast-insecure-'' (handler_class p @ s) = (if is_insecure p then Some s else None)"
  by (simp_all add: handler_class_def cut_prefix_def has_prefix_def)

lemma platform_from_handler_name:
  assumes "p \<noteq> Unknown" and "CHR ''-'' \<notin> set hash"
  shows "platform_from_handler (handler_name p hash) = Inr p"
  unfolding platform_from_handler_def handler_name_def cut_handler_class
  using assms handler_words_split [OF assms(2), of p]
  by (cases p) (simp_all add: Let_def del: split_on.simps join_with.simps)

text \<open>The same name as one literal, and what the case-folding parser makes of it.\<close>

fun handler_stem :: "platform \<Rightarrow> string" where
  "handler_stem MetalQEMUSNP = ''contrast-cc-metal-qemu-snp-''"
| "handler_stem MetalQEMUSNPGPU = ''contrast-cc-metal-qemu-snp-gpu-''"
| "handler_stem MetalQEMUTDX = ''contrast-cc-metal-qemu-tdx-''"
| "handler_stem MetalQEMUTDXGPU = ''contrast-cc-metal-qemu-tdx-gpu-''"
| "handler_stem MetalQEMUInsecure = ''contrast-insecure-metal-qemu-''"
| "handler_stem MetalQEMUInsecureGPU = ''contrast-insecure-metal-qemu-gpu-''"
| "handler_stem Unknown = ''contrast-cc-''"

lemma handler_name_stem: "handler_name p hash = handler_stem p @ hash"
  by (cases p) (simp_all add: handler_name_def handler_class_def)

lemma handler_stem_lower: "map lower_char (handler_stem p) = handler_stem p"
  by (cases p; hypsubst; code_simp)

lemma handler_stem_ascii: "\<forall>c\<in>set (handler_stem p). (of_char c :: nat) < 128"
  by (cases p; hypsubst; code_simp)

lemma to_lower_handler_name: "to_lower (handler_name p hash) = handler_stem p @ to_lower hash"
  by (simp add: handler_name_stem to_lower_ascii [OF handler_stem_ascii] handler_stem_lower)

lemma from_runtime_class_name:
  assumes "p \<noteq> Unknown" and "\<not> has_prefix ''gpu'' (to_lower hash)"
  shows "from_runtime_class_string (handler_name p hash) = Inr p"
  unfolding from_runtime_class_string_def to_lower_handler_name Let_def
  using assms by (cases p) (simp_all add: has_prefix_def)

end
