(* ===== verification/History.thy ===== *)
theory History
  imports Prelude
begin

text \<open>
  \<open>internal/history/history.go\<close>: the Coordinator's history. All state lives in an
  untrusted key-value store; manifests, policies and transitions are stored under their
  hash, the latest transition under a fixed key with a signature. The store is a record of
  operations over an abstract state, and every operation returns the state it leaves, so a
  store that other Coordinators write, or one that lies, is an instance.

  The hash function is the argument \<open>H\<close> (the code's variable \<open>hashFun\<close>), the
  signature scheme a record \<open>sigs\<close>; nothing is assumed of either unless a lemma says so.
\<close>

named_theorems hist_simps \<open>unfolding of history operations\<close>

type_synonym hash = bytes

definition hash_size :: nat where
  "hash_size = 32"

definition zero_hash :: hash where
  "zero_hash = replicate hash_size 0"

lemma length_zero_hash [simp]: "length zero_hash = 32"
  by (simp add: zero_hash_def hash_size_def)

text \<open>\<open>Digest\<close> copies the sum into a fixed array, so its length never depends on \<open>H\<close>.\<close>

definition digest :: "(bytes \<Rightarrow> bytes) \<Rightarrow> bytes \<Rightarrow> hash" where
  "digest H inp = copy_into zero_hash (H inp)"

lemma length_digest [simp]: "length (digest H x) = 32"
  by (simp add: digest_def)

section \<open>Transitions\<close>

record transition =
  manifest_hash :: hash
  previous_transition_hash :: hash

definition unmarshal_transition :: "bytes \<Rightarrow> transition result" where
  "unmarshal_transition data =
     (if length data \<noteq> 2 * hash_size then Inl (Msg ''transition has invalid length'')
      else Inr \<lparr>manifest_hash = copy_into zero_hash (take hash_size data),
                previous_transition_hash = copy_into zero_hash (drop hash_size data)\<rparr>)"

definition marshal_transition :: "transition \<Rightarrow> bytes" where
  "marshal_transition t =
     (let data = replicate (2 * hash_size) 0
      in copy_into (take hash_size data) (manifest_hash t)
         @ copy_into (drop hash_size data) (previous_transition_hash t))"

definition transition_digest :: "(bytes \<Rightarrow> bytes) \<Rightarrow> transition \<Rightarrow> hash" where
  "transition_digest H t = digest H (marshal_transition t)"

text \<open>The latest transition; \<open>None\<close> is the nil pointer, which marshals to no bytes.\<close>

record latest_transition =
  transition_hash :: hash
  signature :: bytes

definition unmarshal_latest :: "bytes \<Rightarrow> latest_transition result" where
  "unmarshal_latest data =
     (if length data \<le> hash_size then Inl (Msg ''latest transition has invalid length'')
      else Inr \<lparr>transition_hash = copy_into zero_hash (take hash_size data),
                signature = copy_into (replicate (length data - hash_size) 0) (drop hash_size data)\<rparr>)"

fun marshal_latest :: "latest_transition option \<Rightarrow> bytes" where
  "marshal_latest None = []"
| "marshal_latest (Some l) =
     (let data = replicate (hash_size + length (signature l)) 0
      in copy_into (take hash_size data) (transition_hash l)
         @ copy_into (drop hash_size data) (signature l))"

definition latest_digest :: "(bytes \<Rightarrow> bytes) \<Rightarrow> latest_transition option \<Rightarrow> hash" where
  "latest_digest H l = digest H (marshal_latest l)"

text \<open>Arrays have their static length: the invariant of the two record types.\<close>

definition wf_transition :: "transition \<Rightarrow> bool" where
  "wf_transition t \<longleftrightarrow> length (manifest_hash t) = 32 \<and> length (previous_transition_hash t) = 32"

definition wf_latest :: "latest_transition \<Rightarrow> bool" where
  "wf_latest l \<longleftrightarrow> length (transition_hash l) = 32"

lemma marshal_transition_wf [codec_simps]:
  "wf_transition t \<Longrightarrow> marshal_transition t = manifest_hash t @ previous_transition_hash t"
  by (simp add: marshal_transition_def wf_transition_def hash_size_def)

lemma length_marshal_transition [simp]: "length (marshal_transition t) = 64"
  by (simp add: marshal_transition_def hash_size_def)

lemma unmarshal_marshal_transition [codec_simps]:
  "wf_transition t \<Longrightarrow> unmarshal_transition (marshal_transition t) = Inr t"
  by (simp add: marshal_transition_wf unmarshal_transition_def wf_transition_def hash_size_def)

lemma unmarshal_transition_wf: "unmarshal_transition d = Inr t \<Longrightarrow> wf_transition t"
  by (auto simp: unmarshal_transition_def wf_transition_def hash_size_def split: if_splits)

lemma marshal_unmarshal_transition [codec_simps]:
  "unmarshal_transition d = Inr t \<Longrightarrow> marshal_transition t = d"
  by (auto simp: unmarshal_transition_def marshal_transition_def hash_size_def split: if_splits)

lemma marshal_transition_inject:
  "wf_transition t \<Longrightarrow> wf_transition u \<Longrightarrow> marshal_transition t = marshal_transition u \<Longrightarrow> t = u"
  by (metis unmarshal_marshal_transition sum.inject(2))

lemma marshal_latest_wf [codec_simps]:
  "wf_latest l \<Longrightarrow> marshal_latest (Some l) = transition_hash l @ signature l"
  by (simp add: wf_latest_def hash_size_def)

lemma unmarshal_marshal_latest [codec_simps]:
  "wf_latest l \<Longrightarrow> signature l \<noteq> [] \<Longrightarrow> unmarshal_latest (marshal_latest (Some l)) = Inr l"
  by (simp add: marshal_latest_wf unmarshal_latest_def wf_latest_def hash_size_def
      del: marshal_latest.simps)

lemma unmarshal_latest_wf: "unmarshal_latest d = Inr l \<Longrightarrow> wf_latest l \<and> signature l \<noteq> []"
  by (auto simp: unmarshal_latest_def wf_latest_def hash_size_def split: if_splits)

lemma marshal_unmarshal_latest [codec_simps]:
  "unmarshal_latest d = Inr l \<Longrightarrow> marshal_latest (Some l) = d"
  by (auto simp: unmarshal_latest_def hash_size_def split: if_splits)

section \<open>The store and the history state\<close>

record 's store =
  st_get :: "'s \<Rightarrow> string \<Rightarrow> bytes result \<times> 's"
  st_set :: "'s \<Rightarrow> string \<Rightarrow> bytes \<Rightarrow> unit result \<times> 's"
  st_has :: "'s \<Rightarrow> string \<Rightarrow> bool result \<times> 's"
  st_cas :: "'s \<Rightarrow> string \<Rightarrow> bytes \<Rightarrow> bytes \<Rightarrow> unit result \<times> 's"
  st_watch :: "'s \<Rightarrow> string \<Rightarrow> unit result \<times> 's"

record 's hist =
  h_store :: 's
  h_cache :: "hash \<Rightarrow> bytes option"

definition new_with_store :: "'s \<Rightarrow> 's hist" where
  "new_with_store s = \<lparr>h_store = s, h_cache = (\<lambda>_. None)\<rparr>"

text \<open>
  ECDSA over the hash. Signing takes the bytes \<open>rand.Reader\<close> yields for the call as its
  last argument.
\<close>

record ('sk, 'pk) sigs =
  sign_asn1 :: "'sk \<Rightarrow> bytes \<Rightarrow> bytes \<Rightarrow> bytes result"
  verify_asn1 :: "'pk \<Rightarrow> bytes \<Rightarrow> bytes \<Rightarrow> bool"
  public_key :: "'sk \<Rightarrow> 'pk"

definition get_from_cache :: "'s hist \<Rightarrow> hash \<Rightarrow> bytes option" where
  "get_from_cache h hsh = h_cache h hsh"

definition add_to_cache :: "hash \<Rightarrow> bytes \<Rightarrow> 's hist \<Rightarrow> 's hist" where
  "add_to_cache hsh data h = h\<lparr>h_cache := (h_cache h)(hsh \<mapsto> data)\<rparr>"

definition content_path :: "string \<Rightarrow> hash \<Rightarrow> string" where
  "content_path kind hsh = kind @ ''/'' @ hex_encode hsh"

definition get_contentaddressed ::
  "(bytes \<Rightarrow> bytes) \<Rightarrow> 's store \<Rightarrow> string \<Rightarrow> hash \<Rightarrow> 's hist \<Rightarrow> bytes result \<times> 's hist" where
  "get_contentaddressed H S kind hsh h =
     (case get_from_cache h hsh of
        Some data \<Rightarrow> (Inr data, h)
      | None \<Rightarrow>
          (case st_get S (h_store h) (content_path kind hsh) of
             (Inl e, s) \<Rightarrow> (Inl e, h\<lparr>h_store := s\<rparr>)
           | (Inr data, s) \<Rightarrow>
               (let h1 = h\<lparr>h_store := s\<rparr>; data_hash = digest H data in
                if hsh \<noteq> data_hash then (Inl (HashMismatch hsh data_hash), h1)
                else (Inr data, add_to_cache hsh data h1))))"

definition set_contentaddressed ::
  "(bytes \<Rightarrow> bytes) \<Rightarrow> 's store \<Rightarrow> string \<Rightarrow> bytes \<Rightarrow> 's hist \<Rightarrow> hash result \<times> 's hist" where
  "set_contentaddressed H S kind data h =
     (let hsh = digest H data in
      case st_set S (h_store h) (content_path kind hsh) data of
        (Inl e, s) \<Rightarrow> (Inl e, h\<lparr>h_store := s\<rparr>)
      | (Inr _, s) \<Rightarrow> (Inr hsh, add_to_cache hsh data (h\<lparr>h_store := s\<rparr>)))"

definition get_manifest ::
  "(bytes \<Rightarrow> bytes) \<Rightarrow> 's store \<Rightarrow> hash \<Rightarrow> 's hist \<Rightarrow> bytes result \<times> 's hist" where
  "get_manifest H S hsh h = get_contentaddressed H S ''manifests'' hsh h"

definition set_manifest ::
  "(bytes \<Rightarrow> bytes) \<Rightarrow> 's store \<Rightarrow> bytes \<Rightarrow> 's hist \<Rightarrow> hash result \<times> 's hist" where
  "set_manifest H S m h = set_contentaddressed H S ''manifests'' m h"

definition get_policy ::
  "(bytes \<Rightarrow> bytes) \<Rightarrow> 's store \<Rightarrow> hash \<Rightarrow> 's hist \<Rightarrow> bytes result \<times> 's hist" where
  "get_policy H S hsh h = get_contentaddressed H S ''policies'' hsh h"

definition set_policy ::
  "(bytes \<Rightarrow> bytes) \<Rightarrow> 's store \<Rightarrow> bytes \<Rightarrow> 's hist \<Rightarrow> hash result \<times> 's hist" where
  "set_policy H S p h = set_contentaddressed H S ''policies'' p h"

definition get_transition ::
  "(bytes \<Rightarrow> bytes) \<Rightarrow> 's store \<Rightarrow> hash \<Rightarrow> 's hist \<Rightarrow> transition result \<times> 's hist" where
  "get_transition H S hsh h =
     (case get_contentaddressed H S ''transitions'' hsh h of
        (Inl e, h1) \<Rightarrow> (Inl e, h1)
      | (Inr data, h1) \<Rightarrow>
          (case unmarshal_transition data of
             Inl e \<Rightarrow> (Inl (Wrap ''unmarshaling transition'' e), h1)
           | Inr t \<Rightarrow> (Inr t, h1)))"

definition set_transition ::
  "(bytes \<Rightarrow> bytes) \<Rightarrow> 's store \<Rightarrow> transition \<Rightarrow> 's hist \<Rightarrow> hash result \<times> 's hist" where
  "set_transition H S t h = set_contentaddressed H S ''transitions'' (marshal_transition t) h"

section \<open>The latest transition\<close>

definition latest_key :: string where
  "latest_key = ''transitions/latest''"

definition verify_latest :: "('sk, 'pk) sigs \<Rightarrow> 'pk \<Rightarrow> latest_transition \<Rightarrow> unit result" where
  "verify_latest C pub l =
     (if \<not> verify_asn1 C pub (transition_hash l) (signature l)
      then Inl (Msg ''latest transition signature is invalid'') else Inr ())"

definition sign_latest ::
  "('sk, 'pk) sigs \<Rightarrow> 'sk \<Rightarrow> bytes \<Rightarrow> latest_transition \<Rightarrow> latest_transition result" where
  "sign_latest C key rnd l =
     (case sign_asn1 C key (transition_hash l) rnd of
        Inl e \<Rightarrow> Inl e
      | Inr sig \<Rightarrow> Inr (l\<lparr>signature := sig\<rparr>))"

definition get_latest_insecure :: "'s store \<Rightarrow> 's hist \<Rightarrow> latest_transition result \<times> 's hist" where
  "get_latest_insecure S h =
     (case st_get S (h_store h) latest_key of
        (Inl e, s) \<Rightarrow> (Inl (Wrap ''getting latest transition'' e), h\<lparr>h_store := s\<rparr>)
      | (Inr data, s) \<Rightarrow>
          (case unmarshal_latest data of
             Inl e \<Rightarrow> (Inl (Wrap ''unmarshaling latest transition'' e), h\<lparr>h_store := s\<rparr>)
           | Inr l \<Rightarrow> (Inr l, h\<lparr>h_store := s\<rparr>)))"

definition get_latest ::
  "('sk, 'pk) sigs \<Rightarrow> 's store \<Rightarrow> 'pk \<Rightarrow> 's hist \<Rightarrow> latest_transition result \<times> 's hist" where
  "get_latest C S pub h =
     (case get_latest_insecure S h of
        (Inl e, h1) \<Rightarrow> (Inl e, h1)
      | (Inr l, h1) \<Rightarrow>
          (case verify_latest C pub l of
             Inl e \<Rightarrow> (Inl (Wrap ''verifying latest transition'' e), h1)
           | Inr _ \<Rightarrow> (Inr l, h1)))"

definition has_latest :: "'s store \<Rightarrow> 's hist \<Rightarrow> bool result \<times> 's hist" where
  "has_latest S h =
     (case st_has S (h_store h) latest_key of (r, s) \<Rightarrow> (r, h\<lparr>h_store := s\<rparr>))"

text \<open>
  \<open>SetLatest\<close> signs \<open>newT\<close> in place, so on success the caller holds the signed value:
  the model returns it.
\<close>

definition set_latest ::
  "('sk, 'pk) sigs \<Rightarrow> 's store \<Rightarrow> latest_transition option \<Rightarrow> latest_transition \<Rightarrow> 'sk \<Rightarrow> bytes
   \<Rightarrow> 's hist \<Rightarrow> latest_transition result \<times> 's hist" where
  "set_latest C S old_t new_t key rnd h =
     (case sign_latest C key rnd new_t of
        Inl e \<Rightarrow> (Inl (Wrap ''signing latest transition'' e), h)
      | Inr new_s \<Rightarrow>
          (case st_cas S (h_store h) latest_key (marshal_latest old_t) (marshal_latest (Some new_s)) of
             (Inl e, s) \<Rightarrow> (Inl (Wrap ''setting latest transition'' e), h\<lparr>h_store := s\<rparr>)
           | (Inr _, s) \<Rightarrow> (Inr new_s, h\<lparr>h_store := s\<rparr>)))"

text \<open>
  The goroutine of \<open>WatchLatestTransitions\<close>, over the events its \<open>select\<close> sees: a value
  from the store's channel, the channel closed, or the context done. It returns what it sends
  and whether it has closed its own channel. A value that does not parse is skipped.
\<close>

datatype watch_event = WatchValue bytes | WatchClosed | WatchDone

fun watch_loop :: "watch_event list \<Rightarrow> latest_transition list \<times> bool" where
  "watch_loop [] = ([], False)"
| "watch_loop (WatchClosed # es) = ([], True)"
| "watch_loop (WatchDone # es) = ([], True)"
| "watch_loop (WatchValue buf # es) =
     (case unmarshal_latest buf of
        Inl _ \<Rightarrow> watch_loop es
      | Inr l \<Rightarrow> (case watch_loop es of (ls, closed) \<Rightarrow> (l # ls, closed)))"

definition watch_latest_transitions ::
  "'s store \<Rightarrow> watch_event list \<Rightarrow> 's hist \<Rightarrow> (latest_transition list \<times> bool) result \<times> 's hist" where
  "watch_latest_transitions S es h =
     (case st_watch S (h_store h) latest_key of
        (Inl e, s) \<Rightarrow> (Inl (Wrap ''watching latest transitions'' e), h\<lparr>h_store := s\<rparr>)
      | (Inr _, s) \<Rightarrow> (Inr (watch_loop es), h\<lparr>h_store := s\<rparr>))"

section \<open>Walking and building chains\<close>

text \<open>
  The loop follows hashes that the store hands out, so it need not end by itself; \<open>None\<close>
  is a walk that never returns. The closure gets the accumulator and the history it shares.
\<close>

type_synonym ('a, 's) consumer =
  "hash \<Rightarrow> transition \<Rightarrow> 'a \<Rightarrow> 's hist \<Rightarrow> unit result \<times> 'a \<times> 's hist"

partial_function (option) walk_transitions ::
  "(bytes \<Rightarrow> bytes) \<Rightarrow> 's store \<Rightarrow> ('a, 's) consumer \<Rightarrow> hash \<Rightarrow> 'a \<Rightarrow> 's hist
   \<Rightarrow> (unit result \<times> 'a \<times> 's hist) option" where
  "walk_transitions H S consume th acc h =
     (if th = zero_hash then Some (Inr (), acc, h)
      else (case get_transition H S th h of
          (Inl e, h1) \<Rightarrow> Some (Inl (Wrap ''getting transition'' e), acc, h1)
        | (Inr t, h1) \<Rightarrow>
            (case consume th t acc h1 of
               (Inl e, acc1, h2) \<Rightarrow> Some (Inl (Wrap ''running consume function for transition'' e), acc1, h2)
             | (Inr _, acc1, h2) \<Rightarrow>
                 walk_transitions H S consume (previous_transition_hash t) acc1 h2)))"

declare walk_transitions.simps [code]

text \<open>\<open>BuildTransitionChain\<close>, the loop with its running hash.\<close>

fun build_chain_from :: "(bytes \<Rightarrow> bytes) \<Rightarrow> hash \<Rightarrow> bytes list \<Rightarrow> transition list" where
  "build_chain_from H prev [] = []"
| "build_chain_from H prev (m # ms) =
     (let t = \<lparr>manifest_hash = digest H m, previous_transition_hash = prev\<rparr>
      in t # build_chain_from H (transition_digest H t) ms)"

definition build_transition_chain :: "(bytes \<Rightarrow> bytes) \<Rightarrow> bytes list \<Rightarrow> transition list" where
  "build_transition_chain H ms = build_chain_from H zero_hash ms"

definition chain_tip :: "(bytes \<Rightarrow> bytes) \<Rightarrow> bytes list \<Rightarrow> hash" where
  "chain_tip H ms = (case rev (build_transition_chain H ms) of
     [] \<Rightarrow> zero_hash | t # _ \<Rightarrow> transition_digest H t)"

section \<open>Integrity against any store\<close>

text \<open>
  The cache invariant: whatever is cached hashes to its key. Every operation keeps it
  whatever the store answers, and it makes every content-addressed read authentic.
\<close>

definition cache_ok :: "(bytes \<Rightarrow> bytes) \<Rightarrow> 's hist \<Rightarrow> bool" where
  "cache_ok H h \<longleftrightarrow> (\<forall>k d. h_cache h k = Some d \<longrightarrow> digest H d = k)"

lemma cache_ok_new [simp]: "cache_ok H (new_with_store s)"
  by (simp add: cache_ok_def new_with_store_def)

lemma cache_ok_store [simp]: "cache_ok H (h\<lparr>h_store := s\<rparr>) = cache_ok H h"
  by (simp add: cache_ok_def)

lemma cache_ok_add: "cache_ok H h \<Longrightarrow> digest H d = k \<Longrightarrow> cache_ok H (add_to_cache k d h)"
  by (simp add: cache_ok_def add_to_cache_def)

lemma get_contentaddressed_cache_ok:
  "cache_ok H h \<Longrightarrow> get_contentaddressed H S kind k h = (r, h') \<Longrightarrow> cache_ok H h'"
  by (auto simp: get_contentaddressed_def Let_def cache_ok_add
      split: option.splits sum.splits prod.splits if_splits)

lemma get_contentaddressed_digest:
  "cache_ok H h \<Longrightarrow> get_contentaddressed H S kind k h = (Inr d, h') \<Longrightarrow> digest H d = k"
  by (auto simp: get_contentaddressed_def Let_def get_from_cache_def cache_ok_def
      split: option.splits sum.splits prod.splits if_splits)

lemma get_contentaddressed_caches:
  "get_contentaddressed H S kind k h = (Inr d, h') \<Longrightarrow> h_cache h' k = Some d"
  by (auto simp: get_contentaddressed_def Let_def get_from_cache_def add_to_cache_def
      split: option.splits sum.splits prod.splits if_splits)

lemma set_contentaddressed_cache_ok:
  "cache_ok H h \<Longrightarrow> set_contentaddressed H S kind d h = (r, h') \<Longrightarrow> cache_ok H h'"
  by (auto simp: set_contentaddressed_def Let_def cache_ok_add split: sum.splits prod.splits)

lemma set_contentaddressed_result:
  "set_contentaddressed H S kind d h = (Inr k, h') \<Longrightarrow> k = digest H d \<and> h_cache h' k = Some d"
  by (auto simp: set_contentaddressed_def Let_def add_to_cache_def split: sum.splits prod.splits)

lemma cached_read: "h_cache h k = Some d \<Longrightarrow> get_contentaddressed H S kind k h = (Inr d, h)"
  by (simp add: get_contentaddressed_def get_from_cache_def)

lemma get_manifest_facts:
  assumes "cache_ok H h" and "get_manifest H S k h = (r, h')"
  shows "cache_ok H h'" and "r = Inr d \<Longrightarrow> digest H d = k"
  using assms get_contentaddressed_cache_ok get_contentaddressed_digest
  by (fastforce simp: get_manifest_def)+

lemma get_policy_facts:
  assumes "cache_ok H h" and "get_policy H S k h = (r, h')"
  shows "cache_ok H h'" and "r = Inr d \<Longrightarrow> digest H d = k"
  using assms get_contentaddressed_cache_ok get_contentaddressed_digest
  by (fastforce simp: get_policy_def)+

lemma get_transition_facts:
  assumes "cache_ok H h" and "get_transition H S k h = (r, h')"
  shows "cache_ok H h'" and "r = Inr t \<Longrightarrow> transition_digest H t = k \<and> wf_transition t"
  using assms get_contentaddressed_cache_ok [of H h S "''transitions''" k]
    get_contentaddressed_digest [of H h S "''transitions''" k] unmarshal_transition_wf
  by (auto simp: get_transition_def transition_digest_def marshal_unmarshal_transition
      split: sum.splits prod.splits)

lemma latest_reads_keep_cache:
  "get_latest_insecure S h = (r, h') \<Longrightarrow> h_cache h' = h_cache h"
  "get_latest C S pub h = (r, h') \<Longrightarrow> h_cache h' = h_cache h"
  "has_latest S h = (b, h') \<Longrightarrow> h_cache h' = h_cache h"
  by (auto simp: get_latest_insecure_def get_latest_def has_latest_def
      split: sum.splits prod.splits)

lemma set_latest_keeps_cache: "set_latest C S l l' k rnd h = (r, h') \<Longrightarrow> h_cache h' = h_cache h"
  by (auto simp: set_latest_def split: sum.splits prod.splits)

lemma cache_ok_cong: "h_cache h' = h_cache h \<Longrightarrow> cache_ok H h' = cache_ok H h"
  by (simp add: cache_ok_def)

lemma set_ops_cache_ok:
  assumes "cache_ok H h"
  shows "set_manifest H S d h = (r, h') \<Longrightarrow> cache_ok H h'"
    and "set_policy H S d h = (r, h') \<Longrightarrow> cache_ok H h'"
    and "set_transition H S t h = (r, h') \<Longrightarrow> cache_ok H h'"
  using assms by (simp_all add: set_manifest_def set_policy_def set_transition_def
      set_contentaddressed_cache_ok)

text \<open>A latest transition that was read verified is signed by the key it was verified with.\<close>

lemma get_latest_verified:
  assumes "get_latest C S pub h = (Inr l, h')"
  shows "verify_asn1 C pub (transition_hash l) (signature l)" and "wf_latest l"
  using assms unmarshal_latest_wf
  by (fastforce simp: get_latest_def get_latest_insecure_def verify_latest_def
      split: sum.splits prod.splits if_splits)+

lemma set_latest_hash: "set_latest C S old l key rnd h = (Inr l', h') \<Longrightarrow> transition_hash l' = transition_hash l"
  by (auto simp: set_latest_def sign_latest_def split: sum.splits prod.splits)

end
