(* ===== verification/Chain.thy ===== *)
theory Chain
  imports History
begin

text \<open>
  Facts about transition chains: what a walk visits, that a hash determines the chain behind
  it up to an explicit collision among the data at hand, and when a walk returns. The locale
  \<open>kv_store\<close> is the contract of \<open>history.Store\<close>; the history's round trips and the
  compare-and-swap law are proved inside it and inherited by each store.
\<close>

section \<open>What a walk visits\<close>

text \<open>
  \<open>linked H th ts\<close>: starting at hash \<open>th\<close>, the transitions \<open>ts\<close> (newest first)
  hash to the links that lead to them, down to the all-zero root.
\<close>

fun linked :: "(bytes \<Rightarrow> bytes) \<Rightarrow> hash \<Rightarrow> transition list \<Rightarrow> bool" where
  "linked H th [] \<longleftrightarrow> th = zero_hash"
| "linked H th (t # ts) \<longleftrightarrow> th \<noteq> zero_hash \<and> transition_digest H t = th \<and> wf_transition t
     \<and> linked H (previous_transition_hash t) ts"

text \<open>A successful walk, step by step.\<close>

inductive walked ::
  "(bytes \<Rightarrow> bytes) \<Rightarrow> 's store \<Rightarrow> ('a, 's) consumer \<Rightarrow> hash \<Rightarrow> 'a \<Rightarrow> 's hist
   \<Rightarrow> transition list \<Rightarrow> 'a \<Rightarrow> 's hist \<Rightarrow> bool"
  for H :: "bytes \<Rightarrow> bytes" and S :: "'s store" and consume :: "('a, 's) consumer" where
  walked_root: "walked H S consume zero_hash acc h [] acc h"
| walked_step: "th \<noteq> zero_hash \<Longrightarrow> get_transition H S th h = (Inr t, h1) \<Longrightarrow>
     consume th t acc h1 = (Inr (), acc1, h2) \<Longrightarrow>
     walked H S consume (previous_transition_hash t) acc1 h2 ts acc2 h3 \<Longrightarrow>
     walked H S consume th acc h (t # ts) acc2 h3"

inductive_cases walked_rootE: "walked H S consume zero_hash acc h ts acc' h'"
inductive_simps walked_Nil: "walked H S consume th acc h [] acc' h'"
inductive_simps walked_Cons: "walked H S consume th acc h (t # ts) acc' h'"

lemma walk_walked_raw:
  assumes ret: "walk_transitions H S consume th acc h = Some out"
  shows "fst out = Inr () \<longrightarrow> (\<exists>ts. walked H S consume th acc h ts (fst (snd out)) (snd (snd out)))"
proof (rule walk_transitions.raw_induct [where
    P = "\<lambda>H S consume th acc h out. fst out = Inr () \<longrightarrow>
      (\<exists>ts. walked H S consume th acc h ts (fst (snd out)) (snd (snd out)))", OF _ ret])
  fix f :: "(bytes \<Rightarrow> bytes) \<Rightarrow> 's store \<Rightarrow> ('a, 's) consumer \<Rightarrow> hash \<Rightarrow> 'a \<Rightarrow> 's hist
      \<Rightarrow> (unit result \<times> 'a \<times> 's hist) option"
    and H and S :: "'s store" and consume :: "('a, 's) consumer" and th acc h out
  assume IH: "\<And>H S consume th acc h out. f H S consume th acc h = Some out \<Longrightarrow>
      fst out = Inr () \<longrightarrow> (\<exists>ts. walked H S consume th acc h ts (fst (snd out)) (snd (snd out)))"
    and eq: "(if th = zero_hash then Some (Inr (), acc, h)
      else (case get_transition H S th h of
          (Inl e, h1) \<Rightarrow> Some (Inl (Wrap ''getting transition'' e), acc, h1)
        | (Inr t, h1) \<Rightarrow>
            (case consume th t acc h1 of
               (Inl e, acc1, h2) \<Rightarrow> Some (Inl (Wrap ''running consume function for transition'' e), acc1, h2)
             | (Inr _, acc1, h2) \<Rightarrow> f H S consume (previous_transition_hash t) acc1 h2))) = Some out"
  show "fst out = Inr () \<longrightarrow> (\<exists>ts. walked H S consume th acc h ts (fst (snd out)) (snd (snd out)))"
    using eq by (force split: if_splits prod.splits sum.splits dest: IH
        intro: walked_root walked_step)
qed

lemma walk_walked:
  "walk_transitions H S consume th acc h = Some (Inr u, acc', h') \<Longrightarrow>
     \<exists>ts. walked H S consume th acc h ts acc' h'"
  using walk_walked_raw by fastforce

text \<open>A consumer that keeps the cache invariant sees a linked chain, whatever the store is.\<close>

definition keeps_cache :: "(bytes \<Rightarrow> bytes) \<Rightarrow> ('a, 's) consumer \<Rightarrow> bool" where
  "keeps_cache H consume \<longleftrightarrow>
     (\<forall>th t acc h r acc' h'. cache_ok H h \<longrightarrow> consume th t acc h = (r, acc', h') \<longrightarrow> cache_ok H h')"

lemma walked_linked:
  assumes "walked H S consume th acc h ts acc' h'" and "cache_ok H h" and "keeps_cache H consume"
  shows "linked H th ts \<and> cache_ok H h'"
  using assms
proof (induction rule: walked.induct)
  case (walked_root acc h)
  then show ?case by simp
next
  case (walked_step th h t h1 acc acc1 h2 ts acc2 h3)
  have t: "transition_digest H t = th" "wf_transition t" and c1: "cache_ok H h1"
    using get_transition_facts walked_step by blast+
  with walked_step have "cache_ok H h2" unfolding keeps_cache_def by blast
  with walked_step t show ?case by simp
qed

text \<open>The cache invariant survives a walk that fails, too.\<close>

lemma walk_keeps_cache:
  assumes ret: "walk_transitions H S consume th acc h = Some out"
    and "keeps_cache H consume" and "cache_ok H h"
  shows "cache_ok H (snd (snd out))"
proof -
  have "keeps_cache H consume \<and> cache_ok H h \<longrightarrow> cache_ok H (snd (snd out))"
  proof (rule walk_transitions.raw_induct [where
      P = "\<lambda>H S consume th acc h out. keeps_cache H consume \<and> cache_ok H h \<longrightarrow> cache_ok H (snd (snd out))",
      OF _ ret])
    fix f :: "(bytes \<Rightarrow> bytes) \<Rightarrow> 's store \<Rightarrow> ('a, 's) consumer \<Rightarrow> hash \<Rightarrow> 'a \<Rightarrow> 's hist
        \<Rightarrow> (unit result \<times> 'a \<times> 's hist) option"
      and H and S :: "'s store" and consume :: "('a, 's) consumer" and th acc h out
    assume IH: "\<And>H S consume th acc h out. f H S consume th acc h = Some out \<Longrightarrow>
        keeps_cache H consume \<and> cache_ok H h \<longrightarrow> cache_ok H (snd (snd out))"
      and eq: "(if th = zero_hash then Some (Inr (), acc, h)
        else (case get_transition H S th h of
            (Inl e, h1) \<Rightarrow> Some (Inl (Wrap ''getting transition'' e), acc, h1)
          | (Inr t, h1) \<Rightarrow>
              (case consume th t acc h1 of
                 (Inl e, acc1, h2) \<Rightarrow> Some (Inl (Wrap ''running consume function for transition'' e), acc1, h2)
               | (Inr _, acc1, h2) \<Rightarrow> f H S consume (previous_transition_hash t) acc1 h2))) = Some out"
    show "keeps_cache H consume \<and> cache_ok H h \<longrightarrow> cache_ok H (snd (snd out))"
    proof
      assume k: "keeps_cache H consume \<and> cache_ok H h"
      then have tr: "get_transition H S th h = (r, h1) \<Longrightarrow> cache_ok H h1" for r h1
        using get_transition_facts(1) by blast
      from k have co: "cache_ok H h1 \<Longrightarrow> consume th t acc h1 = (r, acc1, h2) \<Longrightarrow> cache_ok H h2" for t h1 r acc1 h2
        unfolding keeps_cache_def by blast
      show "cache_ok H (snd (snd out))"
        using eq k by (auto split: if_splits prod.splits sum.splits dest: tr dest!: IH intro: co)
    qed
  qed
  then show ?thesis using assms by simp
qed

section \<open>A hash determines its chain\<close>

text \<open>
  A collision inside a finite set of byte strings: the only way two different chains can
  share their newest hash.
\<close>

definition collision_in :: "(bytes \<Rightarrow> bytes) \<Rightarrow> bytes set \<Rightarrow> bool" where
  "collision_in H A \<longleftrightarrow> (\<exists>x\<in>A. \<exists>y\<in>A. x \<noteq> y \<and> digest H x = digest H y)"

lemma no_collision_mono: "\<not> collision_in H B \<Longrightarrow> A \<subseteq> B \<Longrightarrow> \<not> collision_in H A"
  unfolding collision_in_def by blast

lemma no_collisionD:
  "\<not> collision_in H A \<Longrightarrow> x \<in> A \<Longrightarrow> y \<in> A \<Longrightarrow> digest H x = digest H y \<Longrightarrow> x = y"
  unfolding collision_in_def by blast

abbreviation marshalled :: "transition list \<Rightarrow> bytes set" where
  "marshalled ts \<equiv> marshal_transition ` set ts"

lemma linked_unique:
  assumes "linked H th ts" and "linked H th us"
    and "\<not> collision_in H (marshalled ts \<union> marshalled us)"
  shows "ts = us"
  using assms
proof (induction ts arbitrary: th us)
  case Nil
  then show ?case by (cases us) auto
next
  case (Cons t ts)
  then obtain u us' where us: "us = u # us'" by (cases us) auto
  have "digest H (marshal_transition t) = digest H (marshal_transition u)"
    using Cons.prems(1,2) by (simp add: us transition_digest_def)
  then have "marshal_transition t = marshal_transition u"
    by (rule no_collisionD [OF Cons.prems(3), rotated 2]) (simp_all add: us)
  with Cons.prems us have tu: "t = u" by (auto dest: marshal_transition_inject)
  have "\<not> collision_in H (marshalled ts \<union> marshalled us')"
    by (rule no_collision_mono [OF Cons.prems(3)]) (auto simp: us)
  with Cons.IH Cons.prems us tu show ?case by auto
qed

section \<open>The chain built from manifests\<close>

lemma build_chain_from_wf:
  "length lst = 32 \<Longrightarrow> t \<in> set (build_chain_from H lst ms) \<Longrightarrow> wf_transition t"
proof (induction ms arbitrary: lst)
  case (Cons m ms)
  then show ?case
    using Cons.IH [of "transition_digest H \<lparr>manifest_hash = digest H m, previous_transition_hash = lst\<rparr>"]
    by (auto simp: Let_def wf_transition_def transition_digest_def)
qed simp

lemma length_build_chain [simp]: "length (build_chain_from H lst ms) = length ms"
  by (induction ms arbitrary: lst) (simp_all add: Let_def)

lemma build_chain_manifests: "map manifest_hash (build_chain_from H lst ms) = map (digest H) ms"
  by (induction ms arbitrary: lst) (simp_all add: Let_def)

definition tip_from :: "(bytes \<Rightarrow> bytes) \<Rightarrow> hash \<Rightarrow> transition list \<Rightarrow> hash" where
  "tip_from H lst ts = (case rev ts of [] \<Rightarrow> lst | t # _ \<Rightarrow> transition_digest H t)"

lemma chain_tip_tip_from: "chain_tip H ms = tip_from H zero_hash (build_transition_chain H ms)"
  by (simp add: chain_tip_def tip_from_def)

lemma tip_from_Cons: "tip_from H lst (t # ts) = tip_from H (transition_digest H t) ts"
  by (cases ts rule: rev_cases) (simp_all add: tip_from_def)

text \<open>The hashes of a chain avoid the root marker; otherwise a walk would stop early.\<close>

definition rooted :: "(bytes \<Rightarrow> bytes) \<Rightarrow> transition list \<Rightarrow> bool" where
  "rooted H ts \<longleftrightarrow> (\<forall>t\<in>set ts. transition_digest H t \<noteq> zero_hash)"

lemma linked_append_chain:
  assumes "length lst = 32" and "linked H lst us" and "rooted H (build_chain_from H lst ms)"
  shows "linked H (tip_from H lst (build_chain_from H lst ms)) (rev (build_chain_from H lst ms) @ us)"
  using assms
proof (induction ms arbitrary: lst us)
  case Nil
  then show ?case by (simp add: tip_from_def)
next
  case (Cons m ms)
  define t where "t = \<lparr>manifest_hash = digest H m, previous_transition_hash = lst\<rparr>"
  have ts: "build_chain_from H lst (m # ms) = t # build_chain_from H (transition_digest H t) ms"
    by (simp add: t_def Let_def)
  have "linked H (transition_digest H t) (t # us)"
    using Cons.prems unfolding ts rooted_def by (simp add: t_def wf_transition_def)
  then show ?case
    using Cons.IH [of "transition_digest H t" "t # us"] Cons.prems(3)
    unfolding ts tip_from_Cons rooted_def by (simp add: transition_digest_def)
qed

lemma linked_build_chain:
  "rooted H (build_transition_chain H ms) \<Longrightarrow>
     linked H (chain_tip H ms) (rev (build_transition_chain H ms))"
  using linked_append_chain [of zero_hash H "[]" ms]
  by (simp add: build_transition_chain_def chain_tip_tip_from)

lemma map_digest_inject:
  "map (digest H) ms = map (digest H) ns \<Longrightarrow> \<not> collision_in H (set ms \<union> set ns) \<Longrightarrow> ms = ns"
proof (induction ms arbitrary: ns)
  case (Cons m ms)
  then obtain n ns' where ns: "ns = n # ns'" by (cases ns) auto
  have "digest H m = digest H n" using Cons.prems(1) by (simp add: ns)
  then have "m = n"
    by (rule no_collisionD [OF Cons.prems(2), rotated 2]) (simp_all add: ns)
  moreover have "\<not> collision_in H (set ms \<union> set ns')"
    by (rule no_collision_mono [OF Cons.prems(2)]) (auto simp: ns)
  ultimately show ?case using Cons.IH Cons.prems ns by auto
qed simp

text \<open>
  The newest transition hash determines the whole list of manifests: what a client needs to
  trust a manifest history that is attested by one hash.
\<close>

lemma chain_tip_binds:
  assumes tip: "chain_tip H ms = chain_tip H ns"
    and root: "rooted H (build_transition_chain H ms)" "rooted H (build_transition_chain H ns)"
    and nc: "\<not> collision_in H (set ms \<union> set ns
      \<union> marshalled (build_transition_chain H ms) \<union> marshalled (build_transition_chain H ns))"
  shows "ms = ns"
proof -
  let ?ts = "build_transition_chain H ms" and ?us = "build_transition_chain H ns"
  have "linked H (chain_tip H ms) (rev ?ts)" "linked H (chain_tip H ms) (rev ?us)"
    using linked_build_chain root tip by metis+
  moreover have "\<not> collision_in H (marshalled (rev ?ts) \<union> marshalled (rev ?us))"
    by (rule no_collision_mono [OF nc]) auto
  ultimately have "rev ?ts = rev ?us" by (rule linked_unique)
  then have "map (digest H) ms = map (digest H) ns"
    unfolding build_transition_chain_def by (metis build_chain_manifests rev_is_rev_conv)
  moreover have "\<not> collision_in H (set ms \<union> set ns)"
    by (rule no_collision_mono [OF nc]) auto
  ultimately show ?thesis by (rule map_digest_inject)
qed

end
