(* ===== verification/StoreSpec.thy ===== *)
theory StoreSpec
  imports Chain
begin

text \<open>
  The interface \<open>history.Store\<close> as a locale. \<open>view\<close> is the abstract content of a
  store; the laws are the ones documented at the interface: \<open>Get\<close> returns what is there,
  \<open>Set\<close> stores, \<open>CompareAndSwap\<close> succeeds only on the expected old value (a missing
  key counts as empty) and no operation touches another key. \<open>reliable_store\<close> adds that
  reads of present keys succeed, which liveness needs and safety does not.
\<close>

definition history_kinds :: "string list" where
  "history_kinds = [''manifests'', ''policies'', ''transitions'']"

lemma history_kinds_mem [simp]:
  "''manifests'' \<in> set history_kinds" "''policies'' \<in> set history_kinds"
  "''transitions'' \<in> set history_kinds"
  by (simp_all add: history_kinds_def)

text \<open>\<open>CompareAndSwap\<close> treats a missing value like an empty one.\<close>

definition expected :: "bytes option \<Rightarrow> bytes \<Rightarrow> bool" where
  "expected cur old \<longleftrightarrow> (case cur of None \<Rightarrow> old = [] | Some v \<Rightarrow> v = old)"

locale kv_store =
  fixes S :: "'s store"
    and view :: "'s \<Rightarrow> string \<Rightarrow> bytes option"
    and key_ok :: "string \<Rightarrow> bool"
  assumes key_content: "kind \<in> set history_kinds \<Longrightarrow> length kh = 32 \<Longrightarrow> key_ok (content_path kind kh)"
    and key_latest: "key_ok latest_key"
    and get_sound: "key_ok k \<Longrightarrow> st_get S s k = (Inr v, s') \<Longrightarrow> view s k = Some v"
    and get_keeps: "key_ok k \<Longrightarrow> st_get S s k = (r, s') \<Longrightarrow> view s' = view s"
    and has_sound: "key_ok k \<Longrightarrow> st_has S s k = (Inr b, s') \<Longrightarrow> b = (view s k \<noteq> None)"
    and has_keeps: "key_ok k \<Longrightarrow> st_has S s k = (rb, s') \<Longrightarrow> view s' = view s"
    and set_sound: "key_ok k \<Longrightarrow> st_set S s k v = (Inr u, s') \<Longrightarrow> view s' = (view s)(k \<mapsto> v)"
    and set_frame: "key_ok k \<Longrightarrow> st_set S s k v = (ru, s') \<Longrightarrow> k' \<noteq> k \<Longrightarrow> view s' k' = view s k'"
    and cas_sound: "key_ok k \<Longrightarrow> st_cas S s k old new = (Inr u, s') \<Longrightarrow>
      expected (view s k) old \<and> view s' = (view s)(k \<mapsto> new)"
    and cas_frame: "key_ok k \<Longrightarrow> st_cas S s k old new = (ru, s') \<Longrightarrow> k' \<noteq> k \<Longrightarrow> view s' k' = view s k'"
begin

text \<open>A successful \<open>SetLatest\<close> is a compare-and-swap of the latest transition.\<close>

lemma set_latest_cas:
  assumes "set_latest C S old l key rnd h = (Inr l', h')"
  shows "expected (view (h_store h) latest_key) (marshal_latest old)"
    and "view (h_store h') = (view (h_store h))(latest_key \<mapsto> marshal_latest (Some l'))"
  using assms cas_sound [OF key_latest]
  by (auto simp: set_latest_def split: sum.splits prod.splits)

lemma get_contentaddressed_keeps:
  assumes "kind \<in> set history_kinds" and "length k = 32"
    and "get_contentaddressed H S kind k h = (r, h')"
  shows "view (h_store h') = view (h_store h)"
  using assms get_keeps [OF key_content [OF assms(1,2)]]
  by (auto simp: get_contentaddressed_def Let_def add_to_cache_def
      split: option.splits sum.splits prod.splits if_splits)

lemma get_transition_keeps:
  "length k = 32 \<Longrightarrow> get_transition H S k h = (r, h') \<Longrightarrow> view (h_store h') = view (h_store h)"
  using get_contentaddressed_keeps [of "''transitions''" k H h]
  by (auto simp: get_transition_def split: sum.splits prod.splits)

lemma latest_reads_keep_view:
  "get_latest_insecure S h = (r, h') \<Longrightarrow> view (h_store h') = view (h_store h)"
  "get_latest C S pub h = (r, h') \<Longrightarrow> view (h_store h') = view (h_store h)"
  "has_latest S h = (b, h') \<Longrightarrow> view (h_store h') = view (h_store h)"
  using get_keeps [OF key_latest] has_keeps [OF key_latest]
  by (auto simp: get_latest_insecure_def get_latest_def has_latest_def split: sum.splits prod.splits)

lemma get_latest_insecure_sound:
  assumes "get_latest_insecure S h = (Inr l, h')"
  shows "view (h_store h) latest_key = Some (marshal_latest (Some l))"
  using assms get_sound [OF key_latest] marshal_unmarshal_latest
  by (auto simp: get_latest_insecure_def split: sum.splits prod.splits)

lemma set_contentaddressed_stores:
  assumes "kind \<in> set history_kinds" and "set_contentaddressed H S kind d h = (Inr k, h')"
  shows "view (h_store h') = (view (h_store h))(content_path kind (digest H d) \<mapsto> d)"
  using assms set_sound [OF key_content [OF assms(1) length_digest]]
  by (auto simp: set_contentaddressed_def Let_def add_to_cache_def split: sum.splits prod.splits)

end

text \<open>
  A chain that is persisted is read back: each of its transitions, from any history whose
  cache does not contradict it, and reading keeps it so.
\<close>

definition chain_available ::
  "(bytes \<Rightarrow> bytes) \<Rightarrow> ('s \<Rightarrow> string \<Rightarrow> bytes option) \<Rightarrow> transition list \<Rightarrow> 's hist \<Rightarrow> bool" where
  "chain_available H view ts h \<longleftrightarrow>
     (\<forall>t\<in>set ts. view (h_store h) (content_path ''transitions'' (transition_digest H t))
          = Some (marshal_transition t)
        \<and> h_cache h (transition_digest H t) \<in> {None, Some (marshal_transition t)})"

lemma chain_available_fresh:
  "chain_available H view ts (new_with_store s) \<longleftrightarrow>
     (\<forall>t\<in>set ts. view s (content_path ''transitions'' (transition_digest H t)) = Some (marshal_transition t))"
  by (simp add: chain_available_def new_with_store_def)

locale reliable_store = kv_store S view key_ok
  for S :: "'s store" and view :: "'s \<Rightarrow> string \<Rightarrow> bytes option" and key_ok :: "string \<Rightarrow> bool" +
  assumes get_total: "key_ok k \<Longrightarrow> view s k = Some v \<Longrightarrow> \<exists>s'. st_get S s k = (Inr v, s')"
    and has_total: "key_ok k \<Longrightarrow> \<exists>b s'. st_has S s k = (Inr b, s')"
begin

text \<open>What was set is read back by a fresh history over the same store, as after a restart.\<close>

lemma set_get_after_restart:
  assumes kind: "kind \<in> set history_kinds" and set: "set_contentaddressed H S kind d h = (Inr k, h')"
  shows "\<exists>h''. get_contentaddressed H S kind k (new_with_store (h_store h')) = (Inr d, h'')"
proof -
  have k: "k = digest H d" using set_contentaddressed_result [OF set] by simp
  have "view (h_store h') (content_path kind k) = Some d"
    using set_contentaddressed_stores [OF kind set] k by simp
  then obtain s where "st_get S (h_store h') (content_path kind k) = (Inr d, s)"
    using get_total key_content [OF kind] k length_digest by blast
  then show ?thesis
    by (simp add: get_contentaddressed_def get_from_cache_def new_with_store_def k Let_def)
qed

lemma set_latest_get_latest:
  assumes set: "set_latest C S old l key rnd h = (Inr l', h')"
    and wf: "wf_latest l'" "signature l' \<noteq> []"
  shows "\<exists>h''. get_latest_insecure S h' = (Inr l', h'')"
proof -
  have "view (h_store h') latest_key = Some (marshal_latest (Some l'))"
    using set_latest_cas(2) [OF set] by simp
  then obtain s where "st_get S (h_store h') latest_key = (Inr (marshal_latest (Some l')), s)"
    using get_total key_latest by blast
  then show ?thesis using unmarshal_marshal_latest [OF wf]
    by (simp add: get_latest_insecure_def del: marshal_latest.simps)
qed

lemma get_transition_available:
  assumes av: "chain_available H view ts h" and t: "t \<in> set ts" and wf: "wf_transition t"
  shows "\<exists>h1. get_transition H S (transition_digest H t) h = (Inr t, h1) \<and> chain_available H view ts h1"
proof -
  let ?k = "transition_digest H t" and ?d = "marshal_transition t"
  have len: "length ?k = 32" by (simp add: transition_digest_def)
  have ok: "key_ok (content_path ''transitions'' ?k)" using key_content len by simp
  show ?thesis
  proof (cases "h_cache h ?k")
    case (Some d)
    with av t have "d = ?d" by (auto simp: chain_available_def)
    with Some show ?thesis using av wf
      by (simp add: get_transition_def cached_read unmarshal_marshal_transition)
  next
    case None
    obtain s where s: "st_get S (h_store h) (content_path ''transitions'' ?k) = (Inr ?d, s)"
      using get_total [OF ok, of "h_store h" ?d] av t unfolding chain_available_def by blast
    let ?h1 = "add_to_cache ?k ?d (h\<lparr>h_store := s\<rparr>)"
    have "get_transition H S ?k h = (Inr t, ?h1)"
      using None s wf by (simp add: get_transition_def get_contentaddressed_def get_from_cache_def
          Let_def transition_digest_def unmarshal_marshal_transition)
    moreover have "view s = view (h_store h)" using get_keeps [OF ok s] .
    moreover have "transition_digest H u = ?k \<Longrightarrow> u \<in> set ts \<Longrightarrow> marshal_transition u = ?d" for u
      using av t by (auto simp: chain_available_def) (metis option.inject)
    ultimately show ?thesis using av by (auto simp: chain_available_def add_to_cache_def)
  qed
qed

end

text \<open>
  A walk returns when the chain is finite and every link can be read: induction over the
  chain, for any consumer that keeps the reads possible.
\<close>

lemma walk_total:
  assumes "linked H th ts"
    and "\<And>t h. t \<in> set ts \<Longrightarrow> I h \<Longrightarrow> \<exists>h1. get_transition H S (transition_digest H t) h = (Inr t, h1) \<and> I h1"
    and "\<And>th t acc h r acc1 h2. I h \<Longrightarrow> consume th t acc h = (r, acc1, h2) \<Longrightarrow> I h2"
    and "I h"
  shows "\<exists>out. walk_transitions H S consume th acc h = Some out"
  using assms
proof (induction ts arbitrary: th acc h)
  case Nil
  then show ?case by (simp add: walk_transitions.simps)
next
  case (Cons t ts)
  have "th = transition_digest H t" using Cons.prems(1) by simp
  then obtain h1 where g: "get_transition H S th h = (Inr t, h1)" "I h1"
    using Cons.prems(2) [of t h] Cons.prems(4) by auto
  obtain r acc1 h2 where c: "consume th t acc h1 = (r, acc1, h2)" by (cases "consume th t acc h1") auto
  with Cons.prems g have "I h2" by blast
  with Cons have "\<exists>out. walk_transitions H S consume (previous_transition_hash t) acc1 h2 = Some out"
    by auto
  then show ?case using g c Cons.prems(1)
    by (subst walk_transitions.simps) (auto split: sum.splits)
qed

end
