(* ===== verification/AferoStore.thy ===== *)
theory AferoStore
  imports StoreSpec
begin

text \<open>
  \<open>internal/history/aferostore/aferostore.go\<close>: the store over a filesystem. The
  filesystem is the third-party package afero, so it is a record of operations, with its
  documented behaviour as the locale \<open>filesystem\<close>. Under these laws the store meets the
  contract \<open>reliable_store\<close>.
\<close>

definition key_char :: "char \<Rightarrow> bool" where
  "key_char c = (let n = of_char c :: nat in
     (97 \<le> n \<and> n \<le> 122) \<or> (65 \<le> n \<and> n \<le> 90) \<or> (48 \<le> n \<and> n \<le> 57) \<or> n = 45)"

text \<open>The regular expression \<open>^[a-zA-Z0-9-]+/[a-zA-Z0-9-]+$\<close>.\<close>

definition key_re :: "string \<Rightarrow> bool" where
  "key_re key = (case split_on CHR ''/'' key of
     [a, b] \<Rightarrow> a \<noteq> [] \<and> b \<noteq> [] \<and> list_all key_char a \<and> list_all key_char b
   | _ \<Rightarrow> False)"

definition invalid_key :: "string \<Rightarrow> goerr" where
  "invalid_key key = Msg (''invalid key '' @ [CHR 0x22] @ key @ [CHR 0x22])"

definition changed_since_read :: "string \<Rightarrow> goerr" where
  "changed_since_read key = Msg (''object '' @ [CHR 0x22] @ key @ [CHR 0x22] @ '' has changed since last read'')"

definition err_not_exist :: goerr where
  "err_not_exist = Sentinel ''file does not exist''"

text \<open>\<open>filepath.Dir\<close> and \<open>filepath.Base\<close> of a key that matches the expression.\<close>

definition key_dir :: "string \<Rightarrow> string" where
  "key_dir key = hd (split_on CHR ''/'' key)"

definition key_base :: "string \<Rightarrow> string" where
  "key_base key = List.last (split_on CHR ''/'' key)"

record 'f fs =
  fs_read_file :: "'f \<Rightarrow> string \<Rightarrow> bytes result"
  fs_write_file :: "'f \<Rightarrow> string \<Rightarrow> bytes \<Rightarrow> unit result \<times> 'f"
  fs_mkdir_all :: "'f \<Rightarrow> string \<Rightarrow> unit result \<times> 'f"
  fs_stat :: "'f \<Rightarrow> string \<Rightarrow> unit result"

definition afero_get :: "'f fs \<Rightarrow> 'f \<Rightarrow> string \<Rightarrow> bytes result \<times> 'f" where
  "afero_get F s key = (if \<not> key_re key then (Inl (invalid_key key), s) else (fs_read_file F s key, s))"

definition afero_write :: "'f fs \<Rightarrow> 'f \<Rightarrow> string \<Rightarrow> bytes \<Rightarrow> unit result \<times> 'f" where
  "afero_write F s key val = (case fs_mkdir_all F s (key_dir key) of
     (Inl e, s1) \<Rightarrow> (Inl (Wrap ''creating directory'' e), s1)
   | (Inr _, s1) \<Rightarrow> fs_write_file F s1 key val)"

definition afero_set :: "'f fs \<Rightarrow> 'f \<Rightarrow> string \<Rightarrow> bytes \<Rightarrow> unit result \<times> 'f" where
  "afero_set F s key val =
     (if \<not> key_re key then (Inl (invalid_key key), s) else afero_write F s key val)"

definition afero_has :: "'f fs \<Rightarrow> 'f \<Rightarrow> string \<Rightarrow> bool result \<times> 'f" where
  "afero_has F s key =
     (if \<not> key_re key then (Inl (invalid_key key), s)
      else (case fs_stat F s key of
          Inl e \<Rightarrow> (if err_is e err_not_exist then Inr False else Inl e, s)
        | Inr _ \<Rightarrow> (Inr True, s)))"

definition afero_cas :: "'f fs \<Rightarrow> 'f \<Rightarrow> string \<Rightarrow> bytes \<Rightarrow> bytes \<Rightarrow> unit result \<times> 'f" where
  "afero_cas F s key old new =
     (if \<not> key_re key then (Inl (invalid_key key), s)
      else (let swap = (\<lambda>current.
              if current \<noteq> old then (Inl (changed_since_read key), s) else afero_write F s key new)
        in case fs_read_file F s key of
             Inl e \<Rightarrow> if \<not> err_is e err_not_exist \<or> old \<noteq> [] then (Inl e, s) else swap []
           | Inr current \<Rightarrow> swap current))"

definition afero_watch :: "'f fs \<Rightarrow> 'f \<Rightarrow> string \<Rightarrow> unit result \<times> 'f" where
  "afero_watch F s key = (if \<not> key_re key then (Inl (invalid_key key), s) else (Inr (), s))"

definition afero_store :: "'f fs \<Rightarrow> 'f store" where
  "afero_store F = \<lparr>st_get = afero_get F, st_set = afero_set F, st_has = afero_has F,
     st_cas = afero_cas F, st_watch = afero_watch F\<rparr>"

section \<open>Keys\<close>

lemma key_re_parts:
  assumes "a \<noteq> []" and "b \<noteq> []" and "list_all key_char a" and "list_all key_char b"
  shows "key_re (a @ ''/'' @ b)"
proof -
  have "CHR ''/'' \<notin> set a" "CHR ''/'' \<notin> set b"
    using assms(3,4) by (auto simp: list_all_iff key_char_def Let_def)
  then have "split_on CHR ''/'' (a @ ''/'' @ b) = [a, b]"
    by (simp add: split_on_word split_on_none)
  then show ?thesis using assms by (simp add: key_re_def)
qed

lemma key_char_hex: "n < 16 \<Longrightarrow> key_char (hex_digit n)"
  by (simp add: key_char_def hex_digit_def Let_def of_char_of take_bit_eq_mod)

lemma hex_encode_key_chars: "list_all key_char (hex_encode bs)"
proof (induction bs)
  case (Cons b bs)
  have "unat b div 16 < 16" "unat b mod 16 < 16"
    using unat_byte_lt [of b] by (simp_all add: less_mult_imp_div_less)
  then show ?case using Cons.IH by (simp add: key_char_hex)
qed simp

lemma content_path_key_re:
  assumes "kind \<in> set history_kinds" and "length k = 32"
  shows "key_re (content_path kind k)"
proof -
  have "hex_encode k \<noteq> []" using assms(2) length_hex_encode [of k] by (metis list.size(3) mult_eq_0_iff zero_neq_numeral)
  moreover have "kind \<noteq> []" "list_all key_char kind"
    using assms(1) by (auto simp: history_kinds_def key_char_def)
  ultimately show ?thesis
    unfolding content_path_def by (intro key_re_parts hex_encode_key_chars)
qed

lemma latest_key_re: "key_re latest_key"
  by code_simp

section \<open>The filesystem's contract and the store's\<close>

locale filesystem =
  fixes F :: "'f fs" and files :: "'f \<Rightarrow> string \<Rightarrow> bytes option"
  assumes read_some: "files s p = Some b \<Longrightarrow> fs_read_file F s p = Inr b"
    and read_none: "files s p = None \<Longrightarrow> \<exists>e. fs_read_file F s p = Inl e"
    and stat_some: "files s p = Some b \<Longrightarrow> fs_stat F s p = Inr ()"
    and stat_none: "files s p = None \<Longrightarrow> \<exists>e. fs_stat F s p = Inl e \<and> err_is e err_not_exist"
    and mkdir_keeps: "fs_mkdir_all F s d = (r, s') \<Longrightarrow> files s' = files s"
    and write_sound: "fs_write_file F s p b = (Inr u, s') \<Longrightarrow> files s' = (files s)(p \<mapsto> b)"
    and write_frame: "fs_write_file F s p b = (ru, s') \<Longrightarrow> q \<noteq> p \<Longrightarrow> files s' q = files s q"
begin

lemma afero_write_sound: "afero_write F s k v = (Inr u, s') \<Longrightarrow> files s' = (files s)(k \<mapsto> v)"
  by (auto simp: afero_write_def mkdir_keeps split: prod.splits sum.splits dest!: write_sound mkdir_keeps)

lemma afero_write_frame: "afero_write F s k v = (r, s') \<Longrightarrow> k' \<noteq> k \<Longrightarrow> files s' k' = files s k'"
  by (auto simp: afero_write_def split: prod.splits sum.splits dest!: mkdir_keeps dest: write_frame)

lemma read_file_cases:
  obtains b where "files s p = Some b" "fs_read_file F s p = Inr b"
  | e where "files s p = None" "fs_read_file F s p = Inl e"
  using read_some read_none by (metis option.exhaust)

lemma afero_cas_sound:
  assumes "key_re k" and "afero_cas F s k old new = (Inr u, s')"
  shows "expected (files s k) old \<and> files s' = (files s)(k \<mapsto> new)"
  using assms
  by (cases rule: read_file_cases [of s k])
    (auto simp: afero_cas_def Let_def expected_def split: if_splits dest: afero_write_sound)

lemma afero_cas_frame:
  assumes "key_re k" and "afero_cas F s k old new = (r, s')" and "k' \<noteq> k"
  shows "files s' k' = files s k'"
  using assms
  by (cases rule: read_file_cases [of s k])
    (auto simp: afero_cas_def Let_def split: if_splits dest: afero_write_frame)

lemma afero_has_sound: "key_re k \<Longrightarrow> afero_has F s k = (Inr b, s') \<Longrightarrow> b = (files s k \<noteq> None)"
  using stat_some [of s k] stat_none [of s k]
  by (cases "files s k") (auto simp: afero_has_def split: sum.splits if_splits)

lemma afero_has_total: "key_re k \<Longrightarrow> \<exists>b s'. afero_has F s k = (Inr b, s')"
  using stat_some [of s k] stat_none [of s k]
  by (cases "files s k") (auto simp: afero_has_def split: sum.splits)

lemma afero_has_keeps: "afero_has F s k = (r, s') \<Longrightarrow> s' = s"
  by (auto simp: afero_has_def split: if_splits sum.splits)

end

sublocale filesystem \<subseteq> astore: reliable_store "afero_store F" files key_re
proof unfold_locales
  fix k s v s' assume "key_re k" and "st_get (afero_store F) s k = (Inr v, s')"
  then show "files s k = Some v"
    by (cases rule: read_file_cases [of s k]) (auto simp: afero_store_def afero_get_def)
next
  fix k s b s' assume "key_re k" and "st_has (afero_store F) s k = (Inr b, s')"
  then show "b = (files s k \<noteq> None)" by (intro afero_has_sound) (simp_all add: afero_store_def)
next
  fix k s assume "key_re k"
  then show "\<exists>b s'. st_has (afero_store F) s k = (Inr b, s')"
    using afero_has_total by (simp add: afero_store_def)
qed (auto simp: afero_store_def afero_get_def afero_set_def content_path_key_re latest_key_re
    read_some afero_cas_sound
    dest: afero_write_sound afero_write_frame afero_cas_frame afero_has_keeps split: if_splits)

context filesystem
begin

lemma is_reliable: "reliable_store (afero_store F) files key_re"
  by (rule astore.reliable_store_axioms)

end

text \<open>
  The contract has an instance: a filesystem that is a map from paths to contents, as
  afero's in-memory filesystem is.
\<close>

definition mem_fs :: "(string \<Rightarrow> bytes option) fs" where
  "mem_fs = \<lparr>
     fs_read_file = (\<lambda>s p. case s p of None \<Rightarrow> Inl err_not_exist | Some b \<Rightarrow> Inr b),
     fs_write_file = (\<lambda>s p b. (Inr (), s(p \<mapsto> b))),
     fs_mkdir_all = (\<lambda>s p. (Inr (), s)),
     fs_stat = (\<lambda>s p. case s p of None \<Rightarrow> Inl err_not_exist | Some b \<Rightarrow> Inr ())\<rparr>"

interpretation memfs: filesystem mem_fs "\<lambda>s. s"
  by unfold_locales (auto simp: mem_fs_def err_not_exist_def)

end
