(* ===== verification/ConfigMapStore.thy ===== *)
theory ConfigMapStore
  imports AferoStore
begin

text \<open>
  \<open>internal/history/configmapstore/configmapstore.go\<close>: the store over Kubernetes config
  maps. The API server is a record of operations; its documented behaviour (objects are
  found by namespace and name, a create needs an absent name, an update needs the current
  resource version) is the locale \<open>kube_api\<close>. \<open>BinaryData\<close> is an optional map, because
  a nil map can be read but not assigned. Under the laws the store meets \<open>kv_store\<close> for the
  keys the history uses. \<open>RecoverConfigMaps\<close> rebuilds a store from a history.
\<close>

record configmap =
  cm_name :: string
  cm_namespace :: string
  cm_labels :: "(string \<times> string) list"
  cm_data :: "(string \<Rightarrow> bytes option) option"
  cm_version :: nat

record 'k kube =
  kube_get :: "'k \<Rightarrow> string \<Rightarrow> string \<Rightarrow> configmap result \<times> 'k"
  kube_create :: "'k \<Rightarrow> configmap \<Rightarrow> configmap result \<times> 'k"
  kube_update :: "'k \<Rightarrow> configmap \<Rightarrow> configmap result \<times> 'k"
  kube_watch :: "'k \<Rightarrow> string \<Rightarrow> string \<Rightarrow> unit result \<times> 'k"

definition err_not_found :: goerr where
  "err_not_found = Sentinel ''NotFound''"

definition is_not_found :: "goerr \<Rightarrow> bool" where
  "is_not_found e = err_is e err_not_found"

text \<open>The configuration of one store: the namespace and the version label of the build.\<close>

record cmconf =
  cf_namespace :: string
  cf_version :: string

definition contrast_labels :: "string \<Rightarrow> string \<Rightarrow> string \<Rightarrow> (string \<times> string) list" where
  "contrast_labels version name component =
     [(''app.kubernetes.io/name'', name),
      (''app.kubernetes.io/component'', component),
      (''app.kubernetes.io/part-of'', ''contrast''),
      (''app.kubernetes.io/version'',
         (case cut_prefix ''v'' version of Some v \<Rightarrow> v | None \<Rightarrow> version))]"

definition object_name :: "string \<Rightarrow> string result" where
  "object_name key =
     (if \<not> key_re key then Inl (invalid_key key)
      else Inr (''contrast-store-'' @ map (\<lambda>c. if c = CHR ''/'' then CHR ''-'' else c) key))"

definition new_entry :: "string \<Rightarrow> string \<Rightarrow> string \<Rightarrow> string \<Rightarrow> bytes \<Rightarrow> configmap" where
  "new_entry version namespace name key val =
     \<lparr>cm_name = name, cm_namespace = namespace,
      cm_labels = contrast_labels version ''kvstore'' ''coordinator''
        @ [(''app.kubernetes.io/managed-by'', ''contrast.edgeless.systems'')],
      cm_data = Some [key_base key \<mapsto> val], cm_version = 0\<rparr>"

text \<open>Reading a key of a possibly nil map.\<close>

definition data_lookup :: "configmap \<Rightarrow> string \<Rightarrow> bytes option" where
  "data_lookup cm k = (case cm_data cm of None \<Rightarrow> None | Some m \<Rightarrow> m k)"

definition or_empty :: "bytes option \<Rightarrow> bytes" where
  "or_empty v = (case v of None \<Rightarrow> [] | Some b \<Rightarrow> b)"

definition cm_get :: "'k kube \<Rightarrow> cmconf \<Rightarrow> 'k \<Rightarrow> string \<Rightarrow> bytes result \<times> 'k" where
  "cm_get K cf s key =
     (case object_name key of
        Inl e \<Rightarrow> (Inl e, s)
      | Inr name \<Rightarrow>
          (case kube_get K s (cf_namespace cf) name of
             (Inl e, s1) \<Rightarrow> (Inl e, s1)
           | (Inr cm, s1) \<Rightarrow> (Inr (or_empty (data_lookup cm (key_base key))), s1)))"

definition cm_has :: "'k kube \<Rightarrow> cmconf \<Rightarrow> 'k \<Rightarrow> string \<Rightarrow> bool result \<times> 'k" where
  "cm_has K cf s key =
     (case object_name key of
        Inl e \<Rightarrow> (Inl e, s)
      | Inr name \<Rightarrow>
          (case kube_get K s (cf_namespace cf) name of
             (Inl e, s1) \<Rightarrow> (if is_not_found e then Inr False else Inl e, s1)
           | (Inr cm, s1) \<Rightarrow> (Inr True, s1)))"

text \<open>The API call that stores an object; only its error reaches the caller.\<close>

definition discard :: "configmap result \<times> 'k \<Rightarrow> unit result \<times> 'k" where
  "discard rs = (case rs of (Inl e, s) \<Rightarrow> (Inl e, s) | (Inr _, s) \<Rightarrow> (Inr (), s))"

definition cm_set :: "'k kube \<Rightarrow> cmconf \<Rightarrow> 'k \<Rightarrow> string \<Rightarrow> bytes \<Rightarrow> unit result \<times> 'k" where
  "cm_set K cf s key val =
     (case object_name key of
        Inl e \<Rightarrow> (Inl e, s)
      | Inr name \<Rightarrow>
          (case kube_get K s (cf_namespace cf) name of
             (Inl e, s1) \<Rightarrow>
               if \<not> is_not_found e then (Inl e, s1)
               else discard (kube_create K s1 (new_entry (cf_version cf) (cf_namespace cf) name key val))
           | (Inr cm, s1) \<Rightarrow>
               (case cm_data cm of
                  None \<Rightarrow> (Inl (Panic ''assignment to entry in nil map''), s1)
                | Some m \<Rightarrow> discard (kube_update K s1 (cm\<lparr>cm_data := Some (m(key_base key \<mapsto> val))\<rparr>)))))"

text \<open>
  \<open>CompareAndSwap\<close> in its two API calls: the read with the comparison decides what to
  write, the write is conditional on the resource version that was read.
\<close>

datatype cm_write = CreateCM configmap | UpdateCM configmap

definition cm_cas_read ::
  "'k kube \<Rightarrow> cmconf \<Rightarrow> 'k \<Rightarrow> string \<Rightarrow> bytes \<Rightarrow> bytes \<Rightarrow> cm_write result \<times> 'k" where
  "cm_cas_read K cf s key old new =
     (case object_name key of
        Inl e \<Rightarrow> (Inl e, s)
      | Inr name \<Rightarrow>
          (case kube_get K s (cf_namespace cf) name of
             (Inl e, s1) \<Rightarrow>
               if \<not> is_not_found e \<or> old \<noteq> [] then (Inl e, s1)
               else (Inr (CreateCM (new_entry (cf_version cf) (cf_namespace cf) name key new)), s1)
           | (Inr cm, s1) \<Rightarrow>
               (case data_lookup cm (key_base key) of
                  None \<Rightarrow> (Inl (Msg (''key '' @ [CHR 0x22] @ key @ [CHR 0x22] @ '' not found'')), s1)
                | Some current \<Rightarrow>
                    if current \<noteq> old then (Inl (changed_since_read key), s1)
                    else (Inr (UpdateCM (cm\<lparr>cm_data :=
                        map_option (\<lambda>m. m(key_base key \<mapsto> new)) (cm_data cm)\<rparr>)), s1))))"

fun cm_cas_write :: "'k kube \<Rightarrow> 'k \<Rightarrow> cm_write \<Rightarrow> unit result \<times> 'k" where
  "cm_cas_write K s (CreateCM cm) = discard (kube_create K s cm)"
| "cm_cas_write K s (UpdateCM cm) = discard (kube_update K s cm)"

definition cm_cas :: "'k kube \<Rightarrow> cmconf \<Rightarrow> 'k \<Rightarrow> string \<Rightarrow> bytes \<Rightarrow> bytes \<Rightarrow> unit result \<times> 'k" where
  "cm_cas K cf s key old new =
     (case cm_cas_read K cf s key old new of
        (Inl e, s1) \<Rightarrow> (Inl e, s1)
      | (Inr w, s1) \<Rightarrow> cm_cas_write K s1 w)"

definition cm_watch :: "'k kube \<Rightarrow> cmconf \<Rightarrow> 'k \<Rightarrow> string \<Rightarrow> unit result \<times> 'k" where
  "cm_watch K cf s key =
     (case object_name key of
        Inl e \<Rightarrow> (Inl e, s)
      | Inr name \<Rightarrow> kube_watch K s (cf_namespace cf) name)"

text \<open>
  The goroutine behind \<open>Watch\<close>, over the events its \<open>select\<close> sees. An event that is
  neither an addition nor a modification is ignored.
\<close>

datatype kube_event =
    KubeAdded configmap | KubeModified configmap | KubeOddObject | KubeOther
  | KubeError | KubeClosed | KubeCancelled

fun cm_watch_loop :: "string \<Rightarrow> kube_event list \<Rightarrow> watch_event list" where
  "cm_watch_loop key [] = []"
| "cm_watch_loop key (KubeCancelled # es) = [WatchClosed]"
| "cm_watch_loop key (KubeClosed # es) = [WatchClosed]"
| "cm_watch_loop key (KubeError # es) = [WatchClosed]"
| "cm_watch_loop key (KubeOddObject # es) = cm_watch_loop key es"
| "cm_watch_loop key (KubeOther # es) = cm_watch_loop key es"
| "cm_watch_loop key (KubeAdded cm # es) =
     WatchValue (or_empty (data_lookup cm (key_base key))) # cm_watch_loop key es"
| "cm_watch_loop key (KubeModified cm # es) =
     WatchValue (or_empty (data_lookup cm (key_base key))) # cm_watch_loop key es"

definition configmap_store :: "'k kube \<Rightarrow> cmconf \<Rightarrow> 'k store" where
  "configmap_store K cf = \<lparr>st_get = cm_get K cf, st_set = cm_set K cf, st_has = cm_has K cf,
     st_cas = cm_cas K cf, st_watch = cm_watch K cf\<rparr>"

section \<open>Recovering a store\<close>

definition append_cm :: "string \<Rightarrow> string \<Rightarrow> hash \<Rightarrow> bytes \<Rightarrow> configmap list \<Rightarrow> configmap list result" where
  "append_cm version kind hsh content hist =
     (case object_name (content_path kind hsh) of
        Inl e \<Rightarrow> Inl e
      | Inr name \<Rightarrow> Inr (hist @ [new_entry version [] name (hex_encode hsh) content]))"

fun append_cms ::
  "string \<Rightarrow> string \<Rightarrow> string \<Rightarrow> (hash \<times> bytes) list \<Rightarrow> configmap list \<Rightarrow> configmap list result" where
  "append_cms version what kind [] hist = Inr hist"
| "append_cms version what kind ((hsh, content) # xs) hist =
     (case append_cm version kind hsh content hist of
        Inl e \<Rightarrow> Inl (Wrap what e)
      | Inr hist' \<Rightarrow> append_cms version what kind xs hist')"

definition recover_config_maps ::
  "(bytes \<Rightarrow> bytes) \<Rightarrow> string \<Rightarrow> bytes list \<Rightarrow> bytes list \<Rightarrow> bytes \<Rightarrow> bytes \<Rightarrow> configmap list result" where
  "recover_config_maps H version manifests policies latest_hash latest_sig =
     (case append_cms version ''creating config map for manifest'' ''manifests''
             (map (\<lambda>m. (digest H m, m)) manifests) [] of
        Inl e \<Rightarrow> Inl e
      | Inr h1 \<Rightarrow>
     (case append_cms version ''creating config map for policy'' ''policies''
             (map (\<lambda>p. (digest H p, p)) policies) h1 of
        Inl e \<Rightarrow> Inl e
      | Inr h2 \<Rightarrow>
     (case append_cms version ''creating config map for transition'' ''transitions''
             (map (\<lambda>t. (transition_digest H t, marshal_transition t)) (build_transition_chain H manifests)) h2 of
        Inl e \<Rightarrow> Inl e
      | Inr h3 \<Rightarrow>
          if length latest_hash < hash_size
          then Inl (Panic ''cannot convert slice to array: slice too short'')
          else (let latest = \<lparr>transition_hash = take hash_size latest_hash, signature = latest_sig\<rparr> in
            case object_name latest_key of
              Inl e \<Rightarrow> Inl (Wrap ''creating config map for latest transition'' e)
            | Inr name \<Rightarrow>
                Inr (h3 @ [new_entry version [] name ''latest'' (marshal_latest (Some latest))])))))"

end
