(* ===== verification/ConfigMapStoreFacts.thy ===== *)
theory ConfigMapStoreFacts
  imports ConfigMapStore
begin

text \<open>
  The config map store meets the store contract, and its compare-and-swap is atomic even
  when other clients write between its two API calls: the conditional update makes the
  comparison hold at the moment of the write.
\<close>

section \<open>Object names\<close>

text \<open>
  Keys whose first part has no dash, as all of the history's have, name distinct objects.
  (\<open>a-b/c\<close> and \<open>a/b-c\<close> would share one.)
\<close>

definition store_key :: "string \<Rightarrow> bool" where
  "store_key k \<longleftrightarrow> key_re k \<and> CHR ''-'' \<notin> set (key_dir k)"

definition name_of :: "string \<Rightarrow> string" where
  "name_of key = ''contrast-store-'' @ map (\<lambda>c. if c = CHR ''/'' then CHR ''-'' else c) key"

lemma key_re_join:
  assumes "key_re k"
  shows "k = key_dir k @ CHR ''/'' # key_base k \<and> CHR ''/'' \<notin> set (key_dir k) \<and> CHR ''/'' \<notin> set (key_base k)"
proof -
  obtain a b where ab: "split_on CHR ''/'' k = [a, b]" "list_all key_char a" "list_all key_char b"
    using assms by (auto simp: key_re_def split: list.splits)
  have no: "CHR ''/'' \<notin> set a" "CHR ''/'' \<notin> set b"
    using ab(2,3) by (auto simp: list_all_iff key_char_def Let_def)
  from join_split_on [of "CHR ''/''" k] ab no show ?thesis by (simp add: key_dir_def key_base_def)
qed

lemma map_no_slash: "CHR ''/'' \<notin> set s \<Longrightarrow> map (\<lambda>c. if c = CHR ''/'' then CHR ''-'' else c) s = s"
  by (induction s) auto

lemma append_dash_inject:
  "a @ x # b = c @ x # d \<Longrightarrow> x \<notin> set a \<Longrightarrow> x \<notin> set c \<Longrightarrow> a = c \<and> b = d"
proof (induction a arbitrary: c)
  case Nil
  then show ?case by (cases c) auto
next
  case (Cons y a)
  then show ?case by (cases c) auto
qed

lemma name_of_join:
  "CHR ''/'' \<notin> set a \<Longrightarrow> CHR ''/'' \<notin> set b \<Longrightarrow>
     name_of (a @ CHR ''/'' # b) = ''contrast-store-'' @ a @ CHR ''-'' # b"
  by (simp add: name_of_def map_no_slash)

lemma name_of_inject: "store_key k \<Longrightarrow> store_key k' \<Longrightarrow> name_of k = name_of k' \<Longrightarrow> k = k'"
proof -
  assume k: "store_key k" and k': "store_key k'" and eq: "name_of k = name_of k'"
  have nm: "name_of j = ''contrast-store-'' @ key_dir j @ CHR ''-'' # key_base j" if "store_key j" for j
    using key_re_join [of j] name_of_join [of "key_dir j" "key_base j"] that
    unfolding store_key_def by metis
  have "key_dir k @ CHR ''-'' # key_base k = key_dir k' @ CHR ''-'' # key_base k'"
    using eq nm [OF k] nm [OF k'] by simp
  then have "key_dir k = key_dir k' \<and> key_base k = key_base k'"
    using k k' unfolding store_key_def by (intro append_dash_inject) auto
  then show ?thesis using key_re_join k k' unfolding store_key_def by metis
qed

lemma object_name_of: "key_re k \<Longrightarrow> object_name k = Inr (name_of k)"
  by (simp add: object_name_def name_of_def)

lemma store_key_object: "store_key k \<Longrightarrow> object_name k = Inr (name_of k)"
  by (simp add: store_key_def object_name_of)

lemma content_path_store_key:
  assumes "kind \<in> set history_kinds" and "length k = 32"
  shows "store_key (content_path kind k)"
proof -
  have "CHR ''/'' \<notin> set kind" "CHR ''-'' \<notin> set kind" using assms(1) by (auto simp: history_kinds_def)
  then show ?thesis using content_path_key_re [OF assms]
    by (simp add: store_key_def key_dir_def content_path_def split_on_word)
qed

lemma latest_store_key: "store_key latest_key"
  unfolding store_key_def using latest_key_re by (simp add: key_dir_def latest_key_def)

section \<open>The API server's contract\<close>

text \<open>
  An object carries a resource version. An update with one succeeds only while the stored object has the
  same; an update without one, here version 0, is unconditional.
\<close>

locale kube_api =
  fixes K :: "'k kube" and cms :: "'k \<Rightarrow> string \<Rightarrow> string \<Rightarrow> configmap option"
  assumes kget_ok: "kube_get K s ns n = (Inr cm, s') \<Longrightarrow> cms s ns n = Some cm"
    and kget_missing: "kube_get K s ns n = (Inl e, s') \<Longrightarrow> is_not_found e \<Longrightarrow> cms s ns n = None"
    and kget_keeps: "kube_get K s ns n = (r, s') \<Longrightarrow> cms s' = cms s"
    and cms_named: "cms s ns n = Some cm \<Longrightarrow> cm_name cm = n \<and> cm_namespace cm = ns \<and> cm_version cm \<noteq> 0"
    and kcreate_ok: "kube_create K s cm = (Inr c, s') \<Longrightarrow> cms s (cm_namespace cm) (cm_name cm) = None \<and>
      (\<exists>v. cms s' (cm_namespace cm) (cm_name cm) = Some (cm\<lparr>cm_version := v\<rparr>))"
    and kcreate_frame: "kube_create K s cm = (r, s') \<Longrightarrow> (ns, n) \<noteq> (cm_namespace cm, cm_name cm) \<Longrightarrow>
      cms s' ns n = cms s ns n"
    and kupdate_ok: "kube_update K s cm = (Inr c, s') \<Longrightarrow>
      (\<exists>cur v. cms s (cm_namespace cm) (cm_name cm) = Some cur \<and> (cm_version cm = 0 \<or> cm_version cur = cm_version cm)
        \<and> cms s' (cm_namespace cm) (cm_name cm) = Some (cm\<lparr>cm_version := v\<rparr>))"
    and kupdate_frame: "kube_update K s cm = (r, s') \<Longrightarrow> (ns, n) \<noteq> (cm_namespace cm, cm_name cm) \<Longrightarrow>
      cms s' ns n = cms s ns n"

text \<open>The abstract content of a config map store.\<close>

definition cm_view :: "('k \<Rightarrow> string \<Rightarrow> string \<Rightarrow> configmap option) \<Rightarrow> cmconf \<Rightarrow> 'k \<Rightarrow> string \<Rightarrow> bytes option" where
  "cm_view cms cf s k =
     (if store_key k
      then map_option (\<lambda>cm. or_empty (data_lookup cm (key_base k))) (cms s (cf_namespace cf) (name_of k))
      else None)"

lemma new_entry_simps [simp]:
  "cm_name (new_entry v ns n k b) = n" "cm_namespace (new_entry v ns n k b) = ns"
  "cm_version (new_entry v ns n k b) = 0" "data_lookup (new_entry v ns n k b) (key_base k) = Some b"
  by (simp_all add: new_entry_def data_lookup_def)

lemma data_lookup_version [simp]: "data_lookup (cm\<lparr>cm_version := v\<rparr>) k = data_lookup cm k"
  by (simp add: data_lookup_def)

lemma data_lookup_update [simp]: "data_lookup (cm\<lparr>cm_data := Some m\<rparr>) k = m k"
  by (simp add: data_lookup_def)

lemma discard_Inr: "discard p = (Inr u, s) \<longleftrightarrow> (\<exists>c. p = (Inr c, s))"
  by (cases p) (auto simp: discard_def split: sum.splits)

lemma discard_state: "discard p = (r, s) \<Longrightarrow> \<exists>q. p = (q, s)"
  by (cases p) (auto simp: discard_def split: sum.splits)

text \<open>A write of one object changes the view at its key only.\<close>

lemma cm_view_upd:
  assumes "store_key k"
    and "cms s' (cf_namespace cf) (name_of k) = Some cm"
    and "\<And>n. n \<noteq> name_of k \<Longrightarrow> cms s' (cf_namespace cf) n = cms s (cf_namespace cf) n"
  shows "cm_view cms cf s' = (cm_view cms cf s)(k \<mapsto> or_empty (data_lookup cm (key_base k)))"
proof
  fix j
  show "cm_view cms cf s' j = ((cm_view cms cf s)(k \<mapsto> or_empty (data_lookup cm (key_base k)))) j"
  proof (cases "j = k")
    case True
    show ?thesis unfolding True using assms(1,2) by (simp add: cm_view_def)
  next
    case False
    have "store_key j \<Longrightarrow> name_of j \<noteq> name_of k" using name_of_inject assms(1) False by blast
    with False assms(3) show ?thesis by (simp add: cm_view_def)
  qed
qed

lemma cm_view_frame:
  assumes "store_key k" and "\<And>n. n \<noteq> name_of k \<Longrightarrow> cms s' (cf_namespace cf) n = cms s (cf_namespace cf) n"
    and "k' \<noteq> k"
  shows "cm_view cms cf s' k' = cm_view cms cf s k'"
proof (cases "store_key k'")
  case True
  then have "name_of k' \<noteq> name_of k" using name_of_inject assms(1,3) by blast
  with assms(2) show ?thesis by (simp add: cm_view_def)
qed (simp add: cm_view_def)

text \<open>What the first call of a compare-and-swap leaves for the second.\<close>

lemma cm_cas_read_cases:
  assumes k: "store_key k" and read: "cm_cas_read K cf s k old new = (Inr w, s1)"
  shows "(\<exists>e. kube_get K s (cf_namespace cf) (name_of k) = (Inl e, s1) \<and> is_not_found e \<and> old = [] \<and>
        w = CreateCM (new_entry (cf_version cf) (cf_namespace cf) (name_of k) k new)) \<or>
    (\<exists>cm m. kube_get K s (cf_namespace cf) (name_of k) = (Inr cm, s1) \<and> cm_data cm = Some m \<and>
        m (key_base k) = Some old \<and> w = UpdateCM (cm\<lparr>cm_data := Some (m(key_base k \<mapsto> new))\<rparr>))"
proof -
  obtain r s0 where g: "kube_get K s (cf_namespace cf) (name_of k) = (r, s0)" by fastforce
  show ?thesis
  proof (cases r)
    case (Inl e)
    with read g show ?thesis
      by (simp add: cm_cas_read_def store_key_object [OF k] split: if_splits)
  next
    case (Inr cm)
    with read g show ?thesis
      by (cases "cm_data cm")
        (simp_all add: cm_cas_read_def store_key_object [OF k] data_lookup_def split: option.splits if_splits)
  qed
qed

context kube_api begin

text \<open>
  Between the read in \<open>s1\<close> and the write in \<open>s2\<close> others may change the store at will, as
  long as a resource version stands for one content: a successful write still found the old
  value, and installed the new one.
\<close>

lemma cm_cas_atomic:
  assumes k: "store_key k"
    and read: "cm_cas_read K cf s k old new = (Inr w, s1)"
    and versions: "\<And>c1 c2. cms s1 (cf_namespace cf) (name_of k) = Some c1 \<Longrightarrow>
      cms s2 (cf_namespace cf) (name_of k) = Some c2 \<Longrightarrow> cm_version c1 = cm_version c2 \<Longrightarrow> c1 = c2"
    and written: "cm_cas_write K s2 w = (Inr u, s3)"
  shows "expected (cm_view cms cf s2 k) old \<and> cm_view cms cf s3 = (cm_view cms cf s2)(k \<mapsto> new)"
  using cm_cas_read_cases [OF k read]
proof (elim disjE exE conjE)
  fix e
  assume "old = []" and w: "w = CreateCM (new_entry (cf_version cf) (cf_namespace cf) (name_of k) k new)"
  let ?n = "new_entry (cf_version cf) (cf_namespace cf) (name_of k) k new"
  obtain c where cr: "kube_create K s2 ?n = (Inr c, s3)" using written w by (auto simp: discard_Inr)
  then obtain v where none: "cms s2 (cf_namespace cf) (name_of k) = None"
    and put: "cms s3 (cf_namespace cf) (name_of k) = Some (?n\<lparr>cm_version := v\<rparr>)"
    using kcreate_ok [OF cr] by auto
  have "cms s3 (cf_namespace cf) n = cms s2 (cf_namespace cf) n" if "n \<noteq> name_of k" for n
    using kcreate_frame [OF cr] that by simp
  from cm_view_upd [OF k, of cms s3 cf, OF put this] show ?thesis
    using none k \<open>old = []\<close> by (simp add: cm_view_def expected_def or_empty_def)
next
  fix cm m
  assume g: "kube_get K s (cf_namespace cf) (name_of k) = (Inr cm, s1)" and m: "cm_data cm = Some m"
    "m (key_base k) = Some old" and w: "w = UpdateCM (cm\<lparr>cm_data := Some (m(key_base k \<mapsto> new))\<rparr>)"
  let ?n = "cm\<lparr>cm_data := Some (m(key_base k \<mapsto> new))\<rparr>"
  have at: "cms s1 (cf_namespace cf) (name_of k) = Some cm" using kget_ok [OF g] kget_keeps [OF g] by simp
  then have nm: "cm_name ?n = name_of k" "cm_namespace ?n = cf_namespace cf" "cm_version ?n \<noteq> 0" using cms_named by auto
  obtain c where up: "kube_update K s2 ?n = (Inr c, s3)" using written w by (auto simp: discard_Inr)
  then obtain cur v where cur: "cms s2 (cf_namespace cf) (name_of k) = Some cur" "cm_version cur = cm_version cm"
    and put: "cms s3 (cf_namespace cf) (name_of k) = Some (?n\<lparr>cm_version := v\<rparr>)"
    using kupdate_ok [OF up] nm by auto
  have "cur = cm" using versions [OF at cur(1)] cur(2) by simp
  have "cms s3 (cf_namespace cf) n = cms s2 (cf_namespace cf) n" if "n \<noteq> name_of k" for n
    using kupdate_frame [OF up] that nm by simp
  from cm_view_upd [OF k, of cms s3 cf, OF put this] show ?thesis
    using cur \<open>cur = cm\<close> m k by (simp add: cm_view_def expected_def or_empty_def data_lookup_def)
qed

lemma cm_cas_sound:
  assumes k: "store_key k" and "cm_cas K cf s k old new = (Inr u, s')"
  shows "expected (cm_view cms cf s k) old \<and> cm_view cms cf s' = (cm_view cms cf s)(k \<mapsto> new)"
proof -
  obtain w s1 where r: "cm_cas_read K cf s k old new = (Inr w, s1)" and wr: "cm_cas_write K s1 w = (Inr u, s')"
    using assms(2) by (auto simp: cm_cas_def split: prod.splits sum.splits)
  have "cms s1 = cms s" using cm_cas_read_cases [OF k r] kget_keeps by blast
  then have "cm_view cms cf s1 = cm_view cms cf s" by (simp add: cm_view_def fun_eq_iff)
  with cm_cas_atomic [OF k r _ wr] show ?thesis by simp
qed

lemma cm_get_sound:
  "store_key k \<Longrightarrow> cm_get K cf s k = (Inr v, s') \<Longrightarrow> cm_view cms cf s k = Some v"
  by (auto simp: cm_get_def store_key_object cm_view_def split: prod.splits sum.splits dest!: kget_ok)

lemma kget_keeps_view: "kube_get K s ns n = (r, s') \<Longrightarrow> cm_view cms cf s' = cm_view cms cf s"
  using kget_keeps by (fastforce simp: cm_view_def fun_eq_iff)

lemma cm_get_keeps: "cm_get K cf s k = (r, s') \<Longrightarrow> cm_view cms cf s' = cm_view cms cf s"
  by (auto simp: cm_get_def split: prod.splits sum.splits dest!: kget_keeps_view [where cf = cf])

lemma cm_has_keeps: "cm_has K cf s k = (r, s') \<Longrightarrow> cm_view cms cf s' = cm_view cms cf s"
  by (auto simp: cm_has_def split: prod.splits sum.splits if_splits dest!: kget_keeps_view [where cf = cf])

lemma cm_has_sound:
  "store_key k \<Longrightarrow> cm_has K cf s k = (Inr b, s') \<Longrightarrow> b = (cm_view cms cf s k \<noteq> None)"
  by (auto simp: cm_has_def store_key_object cm_view_def split: prod.splits sum.splits if_splits
      dest!: kget_ok kget_missing)

lemma cm_set_sound:
  assumes k: "store_key k" and set: "cm_set K cf s k v = (Inr u, s')"
  shows "cm_view cms cf s' = (cm_view cms cf s)(k \<mapsto> v)"
proof -
  obtain r s1 where g: "kube_get K s (cf_namespace cf) (name_of k) = (r, s1)" by fastforce
  have v1: "cm_view cms cf s1 = cm_view cms cf s" by (rule kget_keeps_view [OF g])
  show ?thesis
  proof (cases r)
    case (Inl e)
    let ?n = "new_entry (cf_version cf) (cf_namespace cf) (name_of k) k v"
    obtain c where cr: "kube_create K s1 ?n = (Inr c, s')"
      using set g Inl by (auto simp: cm_set_def store_key_object [OF k] discard_Inr split: if_splits)
    then obtain x where put: "cms s' (cf_namespace cf) (name_of k) = Some (?n\<lparr>cm_version := x\<rparr>)"
      using kcreate_ok [OF cr] by auto
    have "cms s' (cf_namespace cf) n = cms s1 (cf_namespace cf) n" if "n \<noteq> name_of k" for n
      using kcreate_frame [OF cr] that by simp
    from cm_view_upd [OF k, of cms s' cf, OF put this] v1 show ?thesis by (simp add: or_empty_def)
  next
    case (Inr cm)
    then obtain m c where m: "cm_data cm = Some m"
      and up: "kube_update K s1 (cm\<lparr>cm_data := Some (m(key_base k \<mapsto> v))\<rparr>) = (Inr c, s')"
      using set g by (cases "cm_data cm") (auto simp: cm_set_def store_key_object [OF k] discard_Inr)
    let ?n = "cm\<lparr>cm_data := Some (m(key_base k \<mapsto> v))\<rparr>"
    have nm: "cm_name ?n = name_of k" "cm_namespace ?n = cf_namespace cf"
      using kget_ok [of s "cf_namespace cf" "name_of k" cm s1] g Inr cms_named by auto
    obtain x where put: "cms s' (cf_namespace cf) (name_of k) = Some (?n\<lparr>cm_version := x\<rparr>)"
      using kupdate_ok [OF up] nm by auto
    have "cms s' (cf_namespace cf) n = cms s1 (cf_namespace cf) n" if "n \<noteq> name_of k" for n
      using kupdate_frame [OF up] that nm by simp
    from cm_view_upd [OF k, of cms s' cf, OF put this] v1 show ?thesis by (simp add: or_empty_def)
  qed
qed

text \<open>Whatever a write does, it does to the object of its key.\<close>

lemma kwrite_frame:
  assumes k: "store_key k" and nm: "cm_name cm = name_of k" "cm_namespace cm = cf_namespace cf"
    and ne: "k' \<noteq> k"
  shows "discard (kube_create K s cm) = (r, s') \<Longrightarrow> cm_view cms cf s' k' = cm_view cms cf s k'"
    and "discard (kube_update K s cm) = (r, s') \<Longrightarrow> cm_view cms cf s' k' = cm_view cms cf s k'"
proof -
  assume d: "discard (kube_create K s cm) = (r, s')"
  from discard_state [OF d] obtain q where "kube_create K s cm = (q, s')" by (elim exE)
  then show "cm_view cms cf s' k' = cm_view cms cf s k'"
    using kcreate_frame [of s cm q s' "cf_namespace cf"] nm
    by (intro cm_view_frame [OF k _ ne]) simp
next
  assume d: "discard (kube_update K s cm) = (r, s')"
  from discard_state [OF d] obtain q where "kube_update K s cm = (q, s')" by (elim exE)
  then show "cm_view cms cf s' k' = cm_view cms cf s k'"
    using kupdate_frame [of s cm q s' "cf_namespace cf"] nm
    by (intro cm_view_frame [OF k _ ne]) simp
qed

lemma cm_set_frame:
  assumes k: "store_key k" and set: "cm_set K cf s k v = (r, s')" and ne: "k' \<noteq> k"
  shows "cm_view cms cf s' k' = cm_view cms cf s k'"
proof -
  obtain q s1 where g: "kube_get K s (cf_namespace cf) (name_of k) = (q, s1)" by fastforce
  have v1: "cm_view cms cf s1 = cm_view cms cf s" by (rule kget_keeps_view [OF g])
  show ?thesis
  proof (cases q)
    case (Inl e)
    with set g v1 show ?thesis
      using kwrite_frame(1) [OF k _ _ ne, of "new_entry (cf_version cf) (cf_namespace cf) (name_of k) k v" cf s1 r s']
      by (auto simp: cm_set_def store_key_object [OF k] split: if_splits)
  next
    case (Inr cm)
    then have nm: "cm_name cm = name_of k" "cm_namespace cm = cf_namespace cf"
      using kget_ok [of s "cf_namespace cf" "name_of k" cm s1] g cms_named by auto
    show ?thesis
    proof (cases "cm_data cm")
      case (Some m)
      with set g Inr v1 nm show ?thesis
        using kwrite_frame(2) [OF k _ _ ne, of "cm\<lparr>cm_data := Some (m(key_base k \<mapsto> v))\<rparr>" cf s1 r s']
        by (simp add: cm_set_def store_key_object [OF k])
    qed (use set g Inr v1 in \<open>simp add: cm_set_def store_key_object [OF k]\<close>)
  qed
qed

lemma cm_cas_frame:
  assumes k: "store_key k" and cas: "cm_cas K cf s k old new = (r, s')" and ne: "k' \<noteq> k"
  shows "cm_view cms cf s' k' = cm_view cms cf s k'"
proof -
  obtain q s1 where rd: "cm_cas_read K cf s k old new = (q, s1)" by fastforce
  have v1: "cm_view cms cf s1 = cm_view cms cf s"
    using rd by (auto simp: cm_cas_read_def split: prod.splits sum.splits if_splits option.splits
        dest!: kget_keeps_view [where cf = cf])
  show ?thesis
  proof (cases q)
    case (Inl e)
    with cas rd v1 show ?thesis by (simp add: cm_cas_def)
  next
    case (Inr w)
    with cas rd have wr: "cm_cas_write K s1 w = (r, s')" by (simp add: cm_cas_def)
    from rd Inr have "cm_cas_read K cf s k old new = (Inr w, s1)" by simp
    from cm_cas_read_cases [OF k this]
    consider "w = CreateCM (new_entry (cf_version cf) (cf_namespace cf) (name_of k) k new)"
      | cm m where "kube_get K s (cf_namespace cf) (name_of k) = (Inr cm, s1)"
          "w = UpdateCM (cm\<lparr>cm_data := Some m\<rparr>)"
      by blast
    then show ?thesis
    proof cases
      case 1
      with wr v1 show ?thesis
        using kwrite_frame(1) [OF k _ _ ne, of "new_entry (cf_version cf) (cf_namespace cf) (name_of k) k new" cf s1 r s']
        by simp
    next
      case (2 cm m)
      then have "cm_name cm = name_of k" "cm_namespace cm = cf_namespace cf"
        using kget_ok [OF 2(1)] cms_named by auto
      with 2 wr v1 show ?thesis
        using kwrite_frame(2) [OF k _ _ ne, of "cm\<lparr>cm_data := Some m\<rparr>" cf s1 r s'] by simp
    qed
  qed
qed

end

sublocale kube_api \<subseteq> cmstore: kv_store "configmap_store K cf" "cm_view cms cf" store_key for cf
proof unfold_locales
  fix k s v u s' assume k: "store_key k" and "st_set (configmap_store K cf) s k v = (Inr u, s')"
  then show "cm_view cms cf s' = (cm_view cms cf s)(k \<mapsto> v)"
    using cm_set_sound by (simp add: configmap_store_def)
next
  fix k s b s' assume "store_key k" and "st_has (configmap_store K cf) s k = (Inr b, s')"
  then show "b = (cm_view cms cf s k \<noteq> None)" by (intro cm_has_sound) (simp_all add: configmap_store_def)
next
  fix k s r s' assume "st_get (configmap_store K cf) s k = (r, s')"
  then show "cm_view cms cf s' = cm_view cms cf s" by (intro cm_get_keeps) (simp add: configmap_store_def)
next
  fix k s r s' assume "st_has (configmap_store K cf) s k = (r, s')"
  then show "cm_view cms cf s' = cm_view cms cf s" by (intro cm_has_keeps) (simp add: configmap_store_def)
qed (simp_all add: configmap_store_def content_path_store_key latest_store_key cm_get_sound
    cm_cas_sound cm_set_frame cm_cas_frame)

context kube_api
begin

lemma is_kv_store: "kv_store (configmap_store K cf) (cm_view cms cf) store_key"
  by (rule cmstore.kv_store_axioms)

end

section \<open>An instance of the API contract\<close>

text \<open>
  An API server as the log of the objects written, newest first. The version of an object is its position
  in the log, so that no version is used twice.
\<close>

type_synonym mem_kube_state = "configmap list"

fun mk_found :: "mem_kube_state \<Rightarrow> string \<Rightarrow> string \<Rightarrow> configmap option" where
  "mk_found [] ns n = None"
| "mk_found (cm # s) ns n =
     (if cm_namespace cm = ns \<and> cm_name cm = n then Some (cm\<lparr>cm_version := Suc (length s)\<rparr>) else mk_found s ns n)"

definition mk_put :: "configmap \<Rightarrow> mem_kube_state \<Rightarrow> configmap result \<times> mem_kube_state" where
  "mk_put cm s = (Inr (cm\<lparr>cm_version := Suc (length s)\<rparr>), cm # s)"

definition mem_kube :: "mem_kube_state kube" where
  "mem_kube = \<lparr>
     kube_get = (\<lambda>s ns n. (case mk_found s ns n of None \<Rightarrow> Inl err_not_found | Some cm \<Rightarrow> Inr cm, s)),
     kube_create = (\<lambda>s cm. case mk_found s (cm_namespace cm) (cm_name cm) of
        Some _ \<Rightarrow> (Inl (Sentinel ''AlreadyExists''), s) | None \<Rightarrow> mk_put cm s),
     kube_update = (\<lambda>s cm. case mk_found s (cm_namespace cm) (cm_name cm) of
        None \<Rightarrow> (Inl err_not_found, s)
      | Some cur \<Rightarrow> if cm_version cm \<noteq> 0 \<and> cm_version cur \<noteq> cm_version cm
                    then (Inl (Sentinel ''Conflict''), s) else mk_put cm s),
     kube_watch = (\<lambda>s ns n. (Inr (), s))\<rparr>"

lemma mk_found_named:
  "mk_found s ns n = Some cm \<Longrightarrow> cm_name cm = n \<and> cm_namespace cm = ns \<and> 0 < cm_version cm \<and> cm_version cm \<le> length s"
  by (induction s) (auto split: if_splits)

interpretation memkube: kube_api mem_kube mk_found
  by unfold_locales
    (auto simp: mem_kube_def mk_put_def dest: mk_found_named split: option.splits if_splits)

end
