(* ===== verification/SwapSystem.thy ===== *)
theory SwapSystem
  imports ConfigMapStoreFacts
begin

text \<open>
  \<open>SetLatest\<close> by several Coordinators on one Kubernetes cluster. The call is split at its two
  requests to the API server, and between the requests of one Coordinator the others and any further
  client of the API may make theirs. Under the API's law that no resource version is used twice, the
  calls that take effect form a chain: each found in place what it expected, which is what the one before wrote.
\<close>

section \<open>SetLatest in two requests\<close>

definition set_latest_read ::
  "('sk, 'pk) sigs \<Rightarrow> 'k kube \<Rightarrow> cmconf \<Rightarrow> latest_transition option \<Rightarrow> latest_transition \<Rightarrow> 'sk \<Rightarrow> bytes
   \<Rightarrow> 'k \<Rightarrow> (latest_transition \<times> cm_write) result \<times> 'k" where
  "set_latest_read C K cf old_t new_t key rnd s =
     (case sign_latest C key rnd new_t of
        Inl e \<Rightarrow> (Inl (Wrap ''signing latest transition'' e), s)
      | Inr l \<Rightarrow>
          (case cm_cas_read K cf s latest_key (marshal_latest old_t) (marshal_latest (Some l)) of
             (Inl e, s1) \<Rightarrow> (Inl (Wrap ''setting latest transition'' e), s1)
           | (Inr w, s1) \<Rightarrow> (Inr (l, w), s1)))"

definition set_latest_write ::
  "'k kube \<Rightarrow> 'k \<Rightarrow> latest_transition \<Rightarrow> cm_write \<Rightarrow> latest_transition result \<times> 'k" where
  "set_latest_write K s l w = (case cm_cas_write K s w of
     (Inl e, s1) \<Rightarrow> (Inl (Wrap ''setting latest transition'' e), s1)
   | (Inr _, s1) \<Rightarrow> (Inr l, s1))"

text \<open>Without anyone in between, the two requests are the call.\<close>

lemma set_latest_calls:
  "set_latest C (configmap_store K cf) old_t new_t key rnd h =
     (case set_latest_read C K cf old_t new_t key rnd (h_store h) of
        (Inl e, s) \<Rightarrow> (Inl e, h\<lparr>h_store := s\<rparr>)
      | (Inr (l, w), s) \<Rightarrow> (case set_latest_write K s l w of (r, s') \<Rightarrow> (r, h\<lparr>h_store := s'\<rparr>)))"
  by (simp add: set_latest_def set_latest_read_def set_latest_write_def configmap_store_def cm_cas_def
      split: sum.split prod.split)

section \<open>The API server with several clients\<close>

text \<open>
  A request can only add versions that were not used before. \<open>used\<close> are the versions that were ever given
  out; versions are compared for equality only, as the API documents.
\<close>

definition advances ::
  "('k \<Rightarrow> string \<Rightarrow> string \<Rightarrow> configmap option) \<Rightarrow> ('k \<Rightarrow> nat set) \<Rightarrow> 'k \<Rightarrow> 'k \<Rightarrow> bool" where
  "advances cms used s s' \<longleftrightarrow> used s \<subseteq> used s' \<and>
     (\<forall>ns n cm. cms s' ns n = Some cm \<longrightarrow> cms s ns n = Some cm \<or> cm_version cm \<notin> used s)"

text \<open>
  A failed write has done nothing, or it took effect and only its answer was lost.
\<close>

locale kube_revisions = kube_api K cms
  for K :: "'k kube" and cms :: "'k \<Rightarrow> string \<Rightarrow> string \<Rightarrow> configmap option" +
  fixes used :: "'k \<Rightarrow> nat set"
  assumes stored_used: "cms s ns n = Some cm \<Longrightarrow> cm_version cm \<in> used s"
    and get_advances: "kube_get K s ns n = (r, s') \<Longrightarrow> advances cms used s s'"
    and create_advances: "kube_create K s cm = (r, s') \<Longrightarrow> advances cms used s s'"
    and update_advances: "kube_update K s cm = (r, s') \<Longrightarrow> advances cms used s s'"
    and create_failed: "kube_create K s cm = (Inl e, s') \<Longrightarrow> cms s' = cms s \<or>
      cms s (cm_namespace cm) (cm_name cm) = None \<and> (\<exists>v. cms s' (cm_namespace cm) (cm_name cm) = Some (cm\<lparr>cm_version := v\<rparr>))"
    and update_failed: "kube_update K s cm = (Inl e, s') \<Longrightarrow> cms s' = cms s \<or>
      (\<exists>cur v. cms s (cm_namespace cm) (cm_name cm) = Some cur \<and> (cm_version cm = 0 \<or> cm_version cur = cm_version cm)
        \<and> cms s' (cm_namespace cm) (cm_name cm) = Some (cm\<lparr>cm_version := v\<rparr>))"

text \<open>
  The state of a cluster: the API server, the calls whose first request was answered, by caller, with what they expect and
  what they will write, and, for the statement only, the calls that took effect, newest first.
\<close>

type_synonym pending_call = "latest_transition option \<times> latest_transition \<times> cm_write"

record 'k kube_cluster =
  api :: 'k
  calls :: "nat \<Rightarrow> pending_call option"
  swaps :: "(latest_transition option \<times> latest_transition) list"

definition fresh_cluster :: "'k \<Rightarrow> 'k kube_cluster" where
  "fresh_cluster s = \<lparr>api = s, calls = (\<lambda>_. None), swaps = []\<rparr>"

text \<open>
  A step: a caller's first request, which leads to a pending call or an error; the second request of a pending
  call; or anything else that happens at the API server and leaves the content of the latest transition alone.
\<close>

inductive cluster_step ::
  "('sk, 'pk) sigs \<Rightarrow> 'k kube \<Rightarrow> cmconf \<Rightarrow> ('k \<Rightarrow> string \<Rightarrow> string \<Rightarrow> configmap option) \<Rightarrow> ('k \<Rightarrow> nat set)
   \<Rightarrow> 'k kube_cluster \<Rightarrow> 'k kube_cluster \<Rightarrow> bool" for C K cf cms used where
  call_begins: "calls a c = None \<Longrightarrow> set_latest_read C K cf old_t new_t key rnd (api a) = (Inr (l, w), s)
    \<Longrightarrow> cluster_step C K cf cms used a (a\<lparr>api := s, calls := (calls a)(c \<mapsto> (old_t, l, w))\<rparr>)"
| call_refused: "set_latest_read C K cf old_t new_t key rnd (api a) = (Inl e, s)
    \<Longrightarrow> cluster_step C K cf cms used a (a\<lparr>api := s\<rparr>)"
| call_ends: "calls a c = Some (old_t, l, w) \<Longrightarrow> set_latest_write K (api a) l w = (r, s)
    \<Longrightarrow> cluster_step C K cf cms used a (a\<lparr>api := s, calls := (calls a)(c := None),
          swaps := (if (\<exists>l'. r = Inr l') \<or> cm_view cms cf s latest_key \<noteq> cm_view cms cf (api a) latest_key
                    then (old_t, l) # swaps a else swaps a)\<rparr>)"
| others_act: "advances cms used (api a) s \<Longrightarrow> cm_view cms cf s latest_key = cm_view cms cf (api a) latest_key
    \<Longrightarrow> cluster_step C K cf cms used a (a\<lparr>api := s\<rparr>)"

abbreviation cluster_steps where
  "cluster_steps C K cf cms used \<equiv> (cluster_step C K cf cms used)\<^sup>*\<^sup>*"

section \<open>The chain of swaps\<close>

text \<open>What the latest transition is after the swaps, and that each found what it expected.\<close>

fun value_after :: "bytes option \<Rightarrow> (latest_transition option \<times> latest_transition) list \<Rightarrow> bytes option" where
  "value_after v [] = v"
| "value_after v ((old_t, l) # xs) = Some (marshal_latest (Some l))"

fun swap_chain :: "bytes option \<Rightarrow> (latest_transition option \<times> latest_transition) list \<Rightarrow> bool" where
  "swap_chain v [] \<longleftrightarrow> True"
| "swap_chain v ((old_t, l) # xs) \<longleftrightarrow> expected (value_after v xs) (marshal_latest old_t) \<and> swap_chain v xs"

text \<open>
  What a pending call knows: for the first transition, that it expected nothing; otherwise the object it read, which is
  still the stored one if the stored one has its version.
\<close>

definition pending_ok ::
  "cmconf \<Rightarrow> ('k \<Rightarrow> string \<Rightarrow> string \<Rightarrow> configmap option) \<Rightarrow> ('k \<Rightarrow> nat set) \<Rightarrow> 'k \<Rightarrow> pending_call \<Rightarrow> bool" where
  "pending_ok cf cms used s p \<longleftrightarrow> (case p of (old_t, l, w) \<Rightarrow>
     (marshal_latest old_t = [] \<and>
        w = CreateCM (new_entry (cf_version cf) (cf_namespace cf) (name_of latest_key) latest_key (marshal_latest (Some l))))
   \<or> (\<exists>cm m. cm_data cm = Some m \<and> m (key_base latest_key) = Some (marshal_latest old_t)
        \<and> w = UpdateCM (cm\<lparr>cm_data := Some (m(key_base latest_key \<mapsto> marshal_latest (Some l)))\<rparr>)
        \<and> cm_name cm = name_of latest_key \<and> cm_namespace cm = cf_namespace cf \<and> cm_version cm \<noteq> 0
        \<and> cm_version cm \<in> used s
        \<and> (\<forall>cur. cms s (cf_namespace cf) (name_of latest_key) = Some cur \<longrightarrow> cm_version cur = cm_version cm \<longrightarrow> cur = cm)))"

lemma pending_ok_advances:
  assumes "pending_ok cf cms used s p" and "advances cms used s s'"
  shows "pending_ok cf cms used s' p"
proof -
  obtain old_t l w where p: "p = (old_t, l, w)" by (cases p)
  show ?thesis using assms unfolding p pending_ok_def prod.case advances_def by fastforce
qed

lemma pending_calls_advance:
  assumes "\<forall>c p. P c = Some p \<longrightarrow> pending_ok cf cms used s p" and "advances cms used s s'"
  shows "\<forall>c p. P c = Some p \<longrightarrow> pending_ok cf cms used s' p"
proof (intro allI impI)
  fix c p
  assume "P c = Some p"
  with assms(1) have "pending_ok cf cms used s p" by (elim allE impE)
  then show "pending_ok cf cms used s' p" by (rule pending_ok_advances [OF _ assms(2)])
qed

text \<open>The swap of the latest transition from one state of the API server to the next.\<close>

definition swapped ::
  "cmconf \<Rightarrow> ('k \<Rightarrow> string \<Rightarrow> string \<Rightarrow> configmap option) \<Rightarrow> latest_transition option \<Rightarrow> latest_transition \<Rightarrow> 'k \<Rightarrow> 'k \<Rightarrow> bool" where
  "swapped cf cms old_t l s s' \<longleftrightarrow> expected (cm_view cms cf s latest_key) (marshal_latest old_t)
     \<and> cm_view cms cf s' = (cm_view cms cf s)(latest_key \<mapsto> marshal_latest (Some l))"

text \<open>The invariant of a cluster: pending calls are as their reads left them, and the swaps are a chain.\<close>

definition cluster_ok ::
  "cmconf \<Rightarrow> ('k \<Rightarrow> string \<Rightarrow> string \<Rightarrow> configmap option) \<Rightarrow> ('k \<Rightarrow> nat set) \<Rightarrow> 'k \<Rightarrow> 'k kube_cluster \<Rightarrow> bool" where
  "cluster_ok cf cms used s0 a \<longleftrightarrow> (\<forall>c p. calls a c = Some p \<longrightarrow> pending_ok cf cms used (api a) p)
     \<and> swap_chain (cm_view cms cf s0 latest_key) (swaps a)
     \<and> cm_view cms cf (api a) latest_key = value_after (cm_view cms cf s0 latest_key) (swaps a)"

context kube_revisions
begin

lemma read_advances:
  assumes "set_latest_read C K cf old_t new_t key rnd s = (r, s1)"
  shows "advances cms used s s1 \<and> cm_view cms cf s1 = cm_view cms cf s"
proof -
  have refl: "advances cms used s s" by (simp add: advances_def)
  show ?thesis
    using assms refl get_advances kget_keeps_view [where cf = cf]
    by (auto simp: set_latest_read_def cm_cas_read_def store_key_object [OF latest_store_key]
        split: sum.splits prod.splits if_splits option.splits)
qed

lemma read_pending:
  assumes "set_latest_read C K cf old_t new_t key rnd s = (Inr (l, w), s1)"
  shows "pending_ok cf cms used s1 (old_t, l, w)"
proof -
  have r: "cm_cas_read K cf s latest_key (marshal_latest old_t) (marshal_latest (Some l)) = (Inr w, s1)"
    using assms by (auto simp: set_latest_read_def split: sum.splits prod.splits)
  from cm_cas_read_cases [OF latest_store_key r] show ?thesis
  proof (elim disjE exE conjE)
    fix cm m
    assume g: "kube_get K s (cf_namespace cf) (name_of latest_key) = (Inr cm, s1)" and m: "cm_data cm = Some m"
      "m (key_base latest_key) = Some (marshal_latest old_t)"
      "w = UpdateCM (cm\<lparr>cm_data := Some (m(key_base latest_key \<mapsto> marshal_latest (Some l)))\<rparr>)"
    have at: "cms s1 (cf_namespace cf) (name_of latest_key) = Some cm" using kget_ok [OF g] kget_keeps [OF g] by simp
    then show ?thesis using m cms_named [OF at] stored_used [OF at] by (auto simp: pending_ok_def)
  qed (auto simp: pending_ok_def)
qed

text \<open>A second request swaps the latest transition, or it fails and changes nothing.\<close>

lemma create_swaps:
  assumes "marshal_latest old_t = []"
    and w: "w = CreateCM (new_entry (cf_version cf) (cf_namespace cf) (name_of latest_key) latest_key (marshal_latest (Some l)))"
    and wr: "cm_cas_write K s w = (r, s1)"
  shows "advances cms used s s1 \<and> (swapped cf cms old_t l s s1 \<or> (\<exists>e. r = Inl e) \<and> cms s1 = cms s)"
proof -
  let ?n = "new_entry (cf_version cf) (cf_namespace cf) (name_of latest_key) latest_key (marshal_latest (Some l))"
  obtain q where q: "kube_create K s ?n = (q, s1)" "q = Inr c \<Longrightarrow> r = Inr ()" "q = Inl e \<Longrightarrow> r = Inl e" for c e
    using wr unfolding w by (cases "kube_create K s ?n") (auto simp: discard_def split: sum.splits)
  have adv: "advances cms used s s1" by (rule create_advances [OF q(1)])
  have "(\<exists>e. r = Inl e) \<and> cms s1 = cms s \<or> cms s (cf_namespace cf) (name_of latest_key) = None
      \<and> (\<exists>v. cms s1 (cf_namespace cf) (name_of latest_key) = Some (?n\<lparr>cm_version := v\<rparr>))"
  proof (cases q)
    case (Inl e)
    then show ?thesis using create_failed [of s ?n e s1] q(1,3) by auto
  next
    case (Inr c)
    then show ?thesis using kcreate_ok [of s ?n c s1] q(1) by auto
  qed
  then show ?thesis
  proof (elim disjE conjE exE)
    fix v
    assume none: "cms s (cf_namespace cf) (name_of latest_key) = None"
      and put: "cms s1 (cf_namespace cf) (name_of latest_key) = Some (?n\<lparr>cm_version := v\<rparr>)"
    have "cms s1 (cf_namespace cf) n = cms s (cf_namespace cf) n" if "n \<noteq> name_of latest_key" for n
      using kcreate_frame [OF q(1)] that by simp
    from cm_view_upd [OF latest_store_key, of cms s1 cf, OF put this]
    have "swapped cf cms old_t l s s1"
      using none assms(1) by (simp add: swapped_def cm_view_def expected_def or_empty_def)
    with adv show ?thesis by blast
  qed (use adv in blast)
qed

lemma update_swaps:
  assumes m: "cm_data cm = Some m" "m (key_base latest_key) = Some (marshal_latest old_t)"
    and w: "w = UpdateCM (cm\<lparr>cm_data := Some (m(key_base latest_key \<mapsto> marshal_latest (Some l)))\<rparr>)"
    and nm: "cm_name cm = name_of latest_key" "cm_namespace cm = cf_namespace cf" "cm_version cm \<noteq> 0"
    and at: "\<And>cur. cms s (cf_namespace cf) (name_of latest_key) = Some cur \<Longrightarrow> cm_version cur = cm_version cm \<Longrightarrow> cur = cm"
    and wr: "cm_cas_write K s w = (r, s1)"
  shows "advances cms used s s1 \<and> (swapped cf cms old_t l s s1 \<or> (\<exists>e. r = Inl e) \<and> cms s1 = cms s)"
proof -
  let ?n = "cm\<lparr>cm_data := Some (m(key_base latest_key \<mapsto> marshal_latest (Some l)))\<rparr>"
  obtain q where q: "kube_update K s ?n = (q, s1)" "q = Inr c \<Longrightarrow> r = Inr ()" "q = Inl e \<Longrightarrow> r = Inl e" for c e
    using wr unfolding w by (cases "kube_update K s ?n") (auto simp: discard_def split: sum.splits)
  have adv: "advances cms used s s1" by (rule update_advances [OF q(1)])
  have "(\<exists>e. r = Inl e) \<and> cms s1 = cms s \<or> cms s (cf_namespace cf) (name_of latest_key) = Some cm
      \<and> (\<exists>v. cms s1 (cf_namespace cf) (name_of latest_key) = Some (?n\<lparr>cm_version := v\<rparr>))"
  proof (cases q)
    case (Inl e)
    then show ?thesis using update_failed [of s ?n e s1] q(1,3) nm at by auto
  next
    case (Inr c)
    then show ?thesis using kupdate_ok [of s ?n c s1] q(1) nm at by auto
  qed
  then show ?thesis
  proof (elim disjE conjE exE)
    fix v
    assume cur: "cms s (cf_namespace cf) (name_of latest_key) = Some cm"
      and put: "cms s1 (cf_namespace cf) (name_of latest_key) = Some (?n\<lparr>cm_version := v\<rparr>)"
    have "cms s1 (cf_namespace cf) n = cms s (cf_namespace cf) n" if "n \<noteq> name_of latest_key" for n
      using kupdate_frame [OF q(1)] that nm by simp
    from cm_view_upd [OF latest_store_key, of cms s1 cf, OF put this]
    have "swapped cf cms old_t l s s1"
      using cur m latest_store_key by (simp add: swapped_def cm_view_def expected_def or_empty_def data_lookup_def)
    with adv show ?thesis by blast
  qed (use adv in blast)
qed

lemma write_swaps:
  assumes p: "pending_ok cf cms used s (old_t, l, w)" and wr: "set_latest_write K s l w = (r, s1)"
  shows "advances cms used s s1 \<and> (swapped cf cms old_t l s s1 \<or> (\<exists>e. r = Inl e) \<and> cms s1 = cms s)
    \<and> (\<forall>l'. r = Inr l' \<longrightarrow> l' = l)"
proof -
  obtain q where q: "cm_cas_write K s w = (q, s1)" "q = Inr u \<Longrightarrow> r = Inr l" "q = Inl e \<Longrightarrow> \<exists>e'. r = Inl e'" for u e
    using wr by (cases "cm_cas_write K s w") (auto simp: set_latest_write_def split: sum.splits)
  then have r: "(\<exists>e. q = Inl e) \<Longrightarrow> (\<exists>e. r = Inl e)" "\<forall>l'. r = Inr l' \<longrightarrow> l' = l" by (cases q; auto)+
  from p have "advances cms used s s1 \<and> (swapped cf cms old_t l s s1 \<or> (\<exists>e. q = Inl e) \<and> cms s1 = cms s)"
    unfolding pending_ok_def prod.case
  proof (elim disjE exE conjE)
    fix cm m
    assume *: "cm_data cm = Some m" "m (key_base latest_key) = Some (marshal_latest old_t)"
      "w = UpdateCM (cm\<lparr>cm_data := Some (m(key_base latest_key \<mapsto> marshal_latest (Some l)))\<rparr>)"
      "cm_name cm = name_of latest_key" "cm_namespace cm = cf_namespace cf" "cm_version cm \<noteq> 0"
      "\<forall>cur. cms s (cf_namespace cf) (name_of latest_key) = Some cur \<longrightarrow> cm_version cur = cm_version cm \<longrightarrow> cur = cm"
    show ?thesis by (rule update_swaps [OF *(1-6) _ q(1)]) (use *(7) in blast)
  qed (rule create_swaps [OF _ _ q(1)])
  with r show ?thesis by blast
qed

lemma cluster_step_ok:
  assumes "cluster_step C K cf cms used a b" and "cluster_ok cf cms used s0 a"
  shows "cluster_ok cf cms used s0 b"
  using assms
proof (induction rule: cluster_step.induct)
  case (call_begins a c old_t new_t key rnd l w s)
  have "\<forall>c p. calls a c = Some p \<longrightarrow> pending_ok cf cms used s p"
    using call_begins.prems read_advances [OF call_begins.hyps(2)] unfolding cluster_ok_def
    by (elim conjE) (rule pending_calls_advance)
  with call_begins.prems show ?case
    using read_advances [OF call_begins.hyps(2)] read_pending [OF call_begins.hyps(2)]
    by (simp add: cluster_ok_def)
next
  case (call_refused old_t new_t key rnd a e s)
  have "\<forall>c p. calls a c = Some p \<longrightarrow> pending_ok cf cms used s p"
    using call_refused.prems read_advances [OF call_refused.hyps(1)] unfolding cluster_ok_def
    by (elim conjE) (rule pending_calls_advance)
  with call_refused.prems show ?case using read_advances [OF call_refused.hyps(1)] by (simp add: cluster_ok_def)
next
  case (call_ends a c old_t l w r s)
  have "pending_ok cf cms used (api a) (old_t, l, w)" using call_ends by (simp add: cluster_ok_def)
  note wr = write_swaps [OF this call_ends.hyps(2)]
  have "\<forall>d p. calls a d = Some p \<longrightarrow> pending_ok cf cms used s p"
    using call_ends.prems wr unfolding cluster_ok_def by (elim conjE) (rule pending_calls_advance)
  then have pend: "\<forall>d p. ((calls a)(c := None)) d = Some p \<longrightarrow> pending_ok cf cms used s p" by simp
  have rest: "swap_chain (cm_view cms cf s0 latest_key) (swaps a)"
    "cm_view cms cf (api a) latest_key = value_after (cm_view cms cf s0 latest_key) (swaps a)"
    using call_ends.prems by (simp_all add: cluster_ok_def)
  show ?case
  proof (cases "swapped cf cms old_t l (api a) s")
    case True
    then have "cm_view cms cf s latest_key = Some (marshal_latest (Some l))"
      "expected (value_after (cm_view cms cf s0 latest_key) (swaps a)) (marshal_latest old_t)"
      using rest(2) by (simp_all add: swapped_def)
    then show ?thesis using pend rest by (simp add: cluster_ok_def)
  next
    case False
    with wr have f: "\<exists>e. r = Inl e" "cms s = cms (api a)" by blast+
    then have "cm_view cms cf s = cm_view cms cf (api a)" by (simp add: cm_view_def fun_eq_iff)
    with f(1) show ?thesis using pend rest by (auto simp: cluster_ok_def)
  qed
next
  case (others_act a s)
  have "\<forall>c p. calls a c = Some p \<longrightarrow> pending_ok cf cms used s p"
    using others_act unfolding cluster_ok_def by (elim conjE) (rule pending_calls_advance)
  with others_act show ?case by (simp add: cluster_ok_def)
qed

lemma cluster_steps_ok:
  assumes "cluster_steps C K cf cms used (fresh_cluster s0) a"
  shows "cluster_ok cf cms used s0 a"
  using assms
proof (induction rule: rtranclp_induct)
  case base
  show ?case by (simp add: cluster_ok_def fresh_cluster_def)
next
  case (step a b)
  then show ?case by (blast intro: cluster_step_ok)
qed

lemma cluster_steps_chain:
  assumes "cluster_steps C K cf cms used (fresh_cluster s0) a"
  shows "swap_chain (cm_view cms cf s0 latest_key) (swaps a)
    \<and> cm_view cms cf (api a) latest_key = value_after (cm_view cms cf s0 latest_key) (swaps a)"
  using cluster_steps_ok [OF assms] by (simp add: cluster_ok_def)

text \<open>Every second request of a reachable cluster is a swap, or a failure that changes nothing.\<close>

lemma cluster_writes_swap:
  assumes "cluster_steps C K cf cms used (fresh_cluster s0) a"
    and "calls a c = Some (old_t, l, w)" and "set_latest_write K (api a) l w = (r, s)"
  shows "(swapped cf cms old_t l (api a) s \<or> (\<exists>e. r = Inl e) \<and> cm_view cms cf s = cm_view cms cf (api a))
    \<and> (\<forall>l'. r = Inr l' \<longrightarrow> l' = l)"
proof -
  have "pending_ok cf cms used (api a) (old_t, l, w)"
    using cluster_steps_ok [OF assms(1)] assms(2) by (simp add: cluster_ok_def)
  from write_swaps [OF this assms(3)] show ?thesis by (auto simp: cm_view_def fun_eq_iff)
qed

end

section \<open>An API server that numbers its versions\<close>

definition mk_used :: "mem_kube_state \<Rightarrow> nat set" where
  "mk_used s = {v. v \<le> length s}"

lemma mk_found_push: "mk_found (cm # s) ns n = Some c \<Longrightarrow> mk_found s ns n = Some c \<or> cm_version c = Suc (length s)"
  by (auto split: if_splits)

lemma mk_put_advances: "mk_put cm s = (r, s') \<Longrightarrow> advances mk_found mk_used s s'"
  by (auto simp: mk_put_def advances_def mk_used_def split: if_splits)

lemma mk_refl_advances: "advances mk_found mk_used s s"
  by (simp add: advances_def)

interpretation memrev: kube_revisions mem_kube mk_found mk_used
  by unfold_locales
    (auto simp: mem_kube_def mk_refl_advances mk_used_def dest: mk_found_named intro: mk_put_advances
      split: option.splits if_splits, auto simp: mk_put_def)

end
