(* ===== verification/ManifestErrors.thy ===== *)
theory ManifestErrors
  imports Platforms
begin

text \<open>
  Hex strings, roles and validation errors of \<open>internal/manifest/manifest.go\<close>. An
  \<open>error\<close> result that may be nil is a \<open>goerr option\<close>; validation errors form a tree
  whose inner nodes carry a JSON path. \<open>errors.As\<close> for the two error types of the package
  is a search of that tree in Go's order.
\<close>

section \<open>Hex strings and roles\<close>

type_synonym hexstring = string

definition new_hex_string :: "bytes \<Rightarrow> hexstring" where
  "new_hex_string b = hex_encode b"

definition hex_bytes :: "hexstring \<Rightarrow> bytes result" where
  "hex_bytes h = hex_decode h"

fun byte_slices :: "hexstring list \<Rightarrow> bytes list result" where
  "byte_slices [] = Inr []"
| "byte_slices (s # ss) = (case hex_bytes s of
     Inl e \<Rightarrow> Inl e
   | Inr b \<Rightarrow> (case byte_slices ss of Inl e \<Rightarrow> Inl e | Inr bs \<Rightarrow> Inr (b # bs)))"

definition validate_hex_string :: "hexstring \<Rightarrow> nat \<Rightarrow> goerr option" where
  "validate_hex_string v n =
     (if length v \<noteq> n * 2 then Some (Msg ''invalid length'')
      else (case hex_bytes v of Inl e \<Rightarrow> Some e | Inr _ \<Rightarrow> None))"

definition role_none :: string where "role_none = ''''"
definition role_coordinator :: string where "role_coordinator = ''coordinator''"
definition role_node_installer :: string where "role_node_installer = ''contrast-node-installer''"

definition validate_role :: "string \<Rightarrow> goerr option" where
  "validate_role r =
     (if r = role_none \<or> r = role_coordinator then None else Some (Msg (''unknown role: '' @ r)))"

section \<open>Joining and flattening errors\<close>

text \<open>\<open>errors.Join\<close> drops nil errors and is nil when nothing is left.\<close>

definition errors_join :: "goerr option list \<Rightarrow> goerr option" where
  "errors_join es = (case map the (filter (\<lambda>e. e \<noteq> None) es) of [] \<Rightarrow> None | xs \<Rightarrow> Some (Joined xs))"

fun flatten_validation_error :: "goerr \<Rightarrow> goerr list" where
  "flatten_validation_error (Invalid p es) = [Invalid p es]"
| "flatten_validation_error (Joined es) = concat (map flatten_validation_error es)"
| "flatten_validation_error (Both a b) = flatten_validation_error a @ flatten_validation_error b"
| "flatten_validation_error e = [e]"

definition new_validation_error :: "string \<Rightarrow> goerr option list \<Rightarrow> goerr option" where
  "new_validation_error path errs =
     (let es = concat (map (\<lambda>e. case e of None \<Rightarrow> [] | Some x \<Rightarrow> flatten_validation_error x) errs)
      in if es = [] then None else Some (Invalid path es))"

section \<open>errors.As\<close>

text \<open>The first element of a list where a search succeeds.\<close>

fun first_some :: "('a \<Rightarrow> 'b option) \<Rightarrow> 'a list \<Rightarrow> 'b option" where
  "first_some f [] = None"
| "first_some f (x # xs) = (case f x of None \<Rightarrow> first_some f xs | Some y \<Rightarrow> Some y)"

lemma first_some_cong [fundef_cong]:
  "xs = ys \<Longrightarrow> (\<And>x. x \<in> set ys \<Longrightarrow> f x = g x) \<Longrightarrow> first_some f xs = first_some g ys"
  by (induction ys arbitrary: xs) (auto split: option.splits)

lemma first_some_Some: "first_some f xs = Some y \<Longrightarrow> \<exists>x\<in>set xs. f x = Some y"
  by (induction xs) (auto split: option.splits)

fun as_validation :: "goerr \<Rightarrow> goerr option" where
  "as_validation (Invalid p es) = Some (Invalid p es)"
| "as_validation (Wrap p e) = as_validation e"
| "as_validation (Both a b) = (case as_validation a of None \<Rightarrow> as_validation b | Some v \<Rightarrow> Some v)"
| "as_validation (Joined es) = first_some as_validation es"
| "as_validation e = None"

fun as_expected_missing :: "goerr \<Rightarrow> goerr option" where
  "as_expected_missing (ExpectedMissing e) = Some (ExpectedMissing e)"
| "as_expected_missing (Wrap p e) = as_expected_missing e"
| "as_expected_missing (Both a b) =
     (case as_expected_missing a of None \<Rightarrow> as_expected_missing b | Some v \<Rightarrow> Some v)"
| "as_expected_missing (Joined es) = first_some as_expected_missing es"
| "as_expected_missing (Invalid p es) = first_some as_expected_missing es"
| "as_expected_missing e = None"

lemma as_validation_size: "as_validation e = Some v \<Longrightarrow> size v \<le> size e"
proof (induction e rule: as_validation.induct)
  case (4 es)
  then obtain x where "x \<in> set es" "as_validation x = Some v" by (auto dest: first_some_Some)
  with 4 have "size v \<le> size x" by blast
  also have "\<dots> < size (Joined es)" using \<open>x \<in> set es\<close> by (simp add: less_Suc_eq_le size_list_estimation' )
  finally show ?case by simp
qed (auto split: option.splits)

text \<open>
  \<open>OnlyExpectedMissingReferenceValues\<close>: every error below must contain an expected-missing
  error, and a validation error found in it must itself be of that kind.
\<close>

function only_expected_missing :: "goerr \<Rightarrow> bool" where
  "only_expected_missing (Invalid p es) = list_all (\<lambda>e.
     (case as_validation e of None \<Rightarrow> True | Some v \<Rightarrow> only_expected_missing v)
     \<and> as_expected_missing e \<noteq> None) es"
| "only_expected_missing (Sentinel s) = True"
| "only_expected_missing (Msg s) = True"
| "only_expected_missing (HashMismatch a b) = True"
| "only_expected_missing (Status c s) = True"
| "only_expected_missing (Panic s) = True"
| "only_expected_missing (Wrap s e) = True"
| "only_expected_missing (Both a b) = True"
| "only_expected_missing (Joined es) = True"
| "only_expected_missing (ExpectedMissing e) = True"
  by pat_completeness auto
termination
proof (relation "measure size")
  fix p es e v
  assume "e \<in> set es" and "as_validation e = Some v"
  then have "size v \<le> size e" by (simp add: as_validation_size)
  also have "\<dots> < size (Invalid p es)"
    using \<open>e \<in> set es\<close> by (simp add: less_Suc_eq_le size_list_estimation')
  finally show "(v, Invalid p es) \<in> measure size" by simp
qed simp

text \<open>
  The test made by the callers: \<open>errors.As(err, &ve) && ve.OnlyExpected...()\<close>.
\<close>

definition only_missing :: "goerr option \<Rightarrow> bool" where
  "only_missing err = (case err of None \<Rightarrow> False
     | Some e \<Rightarrow> (case as_validation e of None \<Rightarrow> False | Some v \<Rightarrow> only_expected_missing v))"

section \<open>Lemmas\<close>

lemma errors_join_None [err_simps]: "errors_join es = None \<longleftrightarrow> (\<forall>e\<in>set es. e = None)"
proof -
  have "errors_join es = None \<longleftrightarrow> filter (\<lambda>e. e \<noteq> None) es = []"
    by (cases "filter (\<lambda>e. e \<noteq> None) es") (simp_all add: errors_join_def)
  then show ?thesis by (simp add: filter_empty_conv)
qed

lemma validate_hex_string_None [err_simps]:
  "validate_hex_string v n = None \<longleftrightarrow> (\<exists>b. hex_decode v = Inr b \<and> length b = n)"
  by (auto simp: validate_hex_string_def hex_bytes_def split: sum.splits dest: hex_decode_length)

lemma validate_role_None [err_simps]:
  "validate_role r = None \<longleftrightarrow> r = role_none \<or> r = role_coordinator"
  by (simp add: validate_role_def)

lemma hex_bytes_new [simp]: "hex_bytes (new_hex_string b) = Inr b"
  by (simp add: hex_bytes_def new_hex_string_def)

end
