(* ===== verification/OwnerKeys.thy ===== *)
theory OwnerKeys
  imports ManifestErrors
begin

text \<open>
  The workload-owner and seedshare-owner keys of \<open>internal/manifest/crypto.go\<close>. The
  PEM, X.509 and RSA-OAEP functions of the Go library are the record \<open>keylib\<close>; the
  types of keys are its type parameters.
\<close>

datatype ('ec, 'rsa) pubkey = ECDSAKey 'ec | RSAKey 'rsa | OtherKey

record pem_block =
  pem_type :: string
  pem_bytes :: bytes

text \<open>
  \<open>lib_pem_encode\<close> and \<open>lib_pem_decode\<close> are the PEM codec (\<open>None\<close> is the nil
  block), the \<open>parse\<close> and \<open>marshal\<close> fields the functions of \<open>crypto/x509\<close>. The
  functions that read \<open>rand.Reader\<close> take the bytes it yields for the call.
\<close>

record ('ec, 'rsa, 'ecsk, 'rsask) keylib =
  lib_pem_decode :: "bytes \<Rightarrow> pem_block option"
  lib_pem_encode :: "pem_block \<Rightarrow> bytes"
  lib_parse_pkix_public :: "bytes \<Rightarrow> ('ec, 'rsa) pubkey result"
  lib_marshal_pkix_ec :: "'ec \<Rightarrow> bytes result"
  lib_parse_pkcs1_public :: "bytes \<Rightarrow> 'rsa result"
  lib_marshal_pkcs1_public :: "'rsa \<Rightarrow> bytes"
  lib_parse_pkcs1_private :: "bytes \<Rightarrow> 'rsask result"
  lib_marshal_pkcs1_private :: "'rsask \<Rightarrow> bytes"
  lib_parse_ec_private :: "bytes \<Rightarrow> 'ecsk result"
  lib_marshal_ec_private :: "'ecsk \<Rightarrow> bytes result"
  lib_rsa_public :: "'rsask \<Rightarrow> 'rsa"
  lib_ec_public :: "'ecsk \<Rightarrow> 'ec"
  lib_rsa_generate :: "bytes \<Rightarrow> nat \<Rightarrow> 'rsask result"
  lib_ec_generate_p384 :: "bytes \<Rightarrow> 'ecsk result"
  lib_encrypt_oaep :: "bytes \<Rightarrow> 'rsa \<Rightarrow> bytes \<Rightarrow> bytes \<Rightarrow> bytes result"
  lib_decrypt_oaep :: "'rsask \<Rightarrow> bytes \<Rightarrow> bytes \<Rightarrow> bytes result"

section \<open>Seedshare owner keys\<close>

definition pem_public_key :: string where "pem_public_key = ''PUBLIC KEY''"
definition pem_rsa_private_key :: string where "pem_rsa_private_key = ''RSA PRIVATE KEY''"
definition pem_ec_private_key :: string where "pem_ec_private_key = ''EC PRIVATE KEY''"

definition new_seedshare_owner_private_key ::
  "('ec, 'rsa, 'ecsk, 'rsask) keylib \<Rightarrow> bytes \<Rightarrow> bytes result" where
  "new_seedshare_owner_private_key K rnd =
     (case lib_rsa_generate K rnd 4096 of
        Inl e \<Rightarrow> Inl (Wrap ''generating private key'' e)
      | Inr sk \<Rightarrow> Inr (lib_pem_encode K
          \<lparr>pem_type = pem_rsa_private_key, pem_bytes = lib_marshal_pkcs1_private K sk\<rparr>))"

definition marshal_seedshare_owner_key ::
  "('ec, 'rsa, 'ecsk, 'rsask) keylib \<Rightarrow> 'rsa \<Rightarrow> hexstring" where
  "marshal_seedshare_owner_key K pk = new_hex_string (lib_marshal_pkcs1_public K pk)"

definition extract_seedshare_owner_public_key ::
  "('ec, 'rsa, 'ecsk, 'rsask) keylib \<Rightarrow> bytes \<Rightarrow> hexstring result" where
  "extract_seedshare_owner_public_key K data =
     (case lib_pem_decode K data of
        None \<Rightarrow> Inl (Msg ''decoding seedshare owner key: no key found'')
      | Some blk \<Rightarrow>
          (if pem_type blk = pem_public_key then Inr (new_hex_string (pem_bytes blk))
           else if pem_type blk = pem_rsa_private_key then
             (case lib_parse_pkcs1_private K (pem_bytes blk) of
                Inl e \<Rightarrow> Inl (Wrap ''parsing seedshare owner key'' e)
              | Inr sk \<Rightarrow> Inr (marshal_seedshare_owner_key K (lib_rsa_public K sk)))
           else Inl (Msg (''unsupported PEM block type: '' @ pem_type blk))))"

definition parse_seedshare_owner_private_key ::
  "('ec, 'rsa, 'ecsk, 'rsask) keylib \<Rightarrow> bytes \<Rightarrow> 'rsask result" where
  "parse_seedshare_owner_private_key K data =
     (case lib_pem_decode K data of
        None \<Rightarrow> Inl (Msg ''decoding seedshare owner key: no key found'')
      | Some blk \<Rightarrow>
          (if pem_type blk \<noteq> pem_rsa_private_key
           then Inl (Msg (''decoding seedshare owner key: invalid key type '' @ pem_type blk))
           else (case lib_parse_pkcs1_private K (pem_bytes blk) of
               Inl e \<Rightarrow> Inl (Wrap ''parsing seedshare owner key'' e)
             | Inr sk \<Rightarrow> Inr sk)))"

definition parse_seedshare_owner_key ::
  "('ec, 'rsa, 'ecsk, 'rsask) keylib \<Rightarrow> hexstring \<Rightarrow> 'rsa result" where
  "parse_seedshare_owner_key K h =
     (case hex_bytes h of
        Inl e \<Rightarrow> Inl (Wrap ''parsing from hex'' e)
      | Inr b \<Rightarrow>
          (case lib_parse_pkcs1_public K b of
             Inl e \<Rightarrow> Inl (Wrap ''parsing from PKCS1'' e)
           | Inr pk \<Rightarrow> Inr pk))"

section \<open>Seed shares\<close>

record seed_share =
  encrypted_seed :: bytes
  share_public_key :: string

definition seedshare_label :: bytes where
  "seedshare_label = bytes_of_string ''seedshare''"

text \<open>One key after the other; \<open>rnd i\<close> is what \<open>rand.Reader\<close> yields for owner \<open>i\<close>.\<close>

fun encrypt_seed_shares ::
  "('ec, 'rsa, 'ecsk, 'rsask) keylib \<Rightarrow> (nat \<Rightarrow> bytes) \<Rightarrow> bytes \<Rightarrow> hexstring list
   \<Rightarrow> seed_share list result" where
  "encrypt_seed_shares K rnd seed [] = Inr []"
| "encrypt_seed_shares K rnd seed (h # hs) =
     (case parse_seedshare_owner_key K h of
        Inl e \<Rightarrow> Inl (Wrap ''parsing seed share owner key'' e)
      | Inr pk \<Rightarrow>
          (case lib_encrypt_oaep K (rnd 0) pk seed seedshare_label of
             Inl e \<Rightarrow> Inl (Wrap ''encrypting seed share'' e)
           | Inr ct \<Rightarrow>
               (case encrypt_seed_shares K (\<lambda>i. rnd (Suc i)) seed hs of
                  Inl e \<Rightarrow> Inl e
                | Inr rest \<Rightarrow> Inr (\<lparr>encrypted_seed = ct, share_public_key = h\<rparr> # rest))))"

definition decrypt_seed_share ::
  "('ec, 'rsa, 'ecsk, 'rsask) keylib \<Rightarrow> 'rsask \<Rightarrow> seed_share \<Rightarrow> bytes result" where
  "decrypt_seed_share K sk s = lib_decrypt_oaep K sk (encrypted_seed s) seedshare_label"

section \<open>Workload owner keys\<close>

definition new_workload_owner_key ::
  "('ec, 'rsa, 'ecsk, 'rsask) keylib \<Rightarrow> bytes \<Rightarrow> bytes result" where
  "new_workload_owner_key K rnd =
     (case lib_ec_generate_p384 K rnd of
        Inl e \<Rightarrow> Inl (Wrap ''generating private key'' e)
      | Inr sk \<Rightarrow>
          (case lib_marshal_ec_private K sk of
             Inl e \<Rightarrow> Inl (Wrap ''marshaling private key'' e)
           | Inr b \<Rightarrow> Inr (lib_pem_encode K \<lparr>pem_type = pem_ec_private_key, pem_bytes = b\<rparr>)))"

definition parse_workload_owner_public_key ::
  "('ec, 'rsa, 'ecsk, 'rsask) keylib \<Rightarrow> hexstring \<Rightarrow> 'ec result" where
  "parse_workload_owner_public_key K h =
     (case hex_bytes h of
        Inl e \<Rightarrow> Inl (Wrap ''parsing from hex'' e)
      | Inr b \<Rightarrow>
          (case lib_parse_pkix_public K b of
             Inl e \<Rightarrow> Inl (Wrap ''parsing workload owner public key'' e)
           | Inr (ECDSAKey pk) \<Rightarrow> Inr pk
           | Inr _ \<Rightarrow> Inl (Msg ''workload owner public key is not an ECDSA public key'')))"

definition parse_workload_owner_private_key ::
  "('ec, 'rsa, 'ecsk, 'rsask) keylib \<Rightarrow> bytes \<Rightarrow> 'ecsk result" where
  "parse_workload_owner_private_key K data =
     (case lib_pem_decode K data of
        None \<Rightarrow> Inl (Msg ''decoding workload owner key: no key found'')
      | Some blk \<Rightarrow>
          (if pem_type blk \<noteq> pem_ec_private_key
           then Inl (Msg ''workload owner key is not an EC private key'')
           else (case lib_parse_ec_private K (pem_bytes blk) of
               Inl e \<Rightarrow> Inl (Wrap ''parsing workload owner key'' e)
             | Inr sk \<Rightarrow> Inr sk)))"

definition marshal_workload_owner_pub_key ::
  "('ec, 'rsa, 'ecsk, 'rsask) keylib \<Rightarrow> 'ec \<Rightarrow> hexstring result" where
  "marshal_workload_owner_pub_key K pk =
     (case lib_marshal_pkix_ec K pk of
        Inl e \<Rightarrow> Inl (Panic ''failed to marshal key'')
      | Inr b \<Rightarrow> Inr (new_hex_string b))"

definition extract_workload_owner_public_key ::
  "('ec, 'rsa, 'ecsk, 'rsask) keylib \<Rightarrow> bytes \<Rightarrow> bytes result" where
  "extract_workload_owner_public_key K data =
     (case lib_pem_decode K data of
        None \<Rightarrow> Inl (Msg ''failed to decode PEM block'')
      | Some blk \<Rightarrow>
          (if pem_type blk = pem_public_key then Inr (pem_bytes blk)
           else if pem_type blk = pem_ec_private_key then
             (case lib_parse_ec_private K (pem_bytes blk) of
                Inl e \<Rightarrow> Inl (Wrap ''parsing EC private key'' e)
              | Inr sk \<Rightarrow>
                  (case lib_marshal_pkix_ec K (lib_ec_public K sk) of
                     Inl e \<Rightarrow> Inl (Wrap ''marshaling public key'' e)
                   | Inr b \<Rightarrow> Inr b))
           else Inl (Msg (''unsupported PEM block type: '' @ pem_type blk))))"

section \<open>The contract of the key library\<close>

text \<open>
  What the documentation of the Go packages promises: a block that was encoded is decoded, a
  key that was marshalled is parsed, and OAEP with one label inverts itself for a key pair.
  Everything a manifest author does with owner keys follows from these laws.
\<close>

locale key_codec =
  fixes K :: "('ec, 'rsa, 'ecsk, 'rsask) keylib"
  assumes pem_round: "lib_pem_decode K (lib_pem_encode K blk) = Some blk"
    and pkcs1_private_round: "lib_parse_pkcs1_private K (lib_marshal_pkcs1_private K rsk) = Inr rsk"
    and pkcs1_public_round: "lib_parse_pkcs1_public K (lib_marshal_pkcs1_public K rpk) = Inr rpk"
    and ec_private_round: "lib_marshal_ec_private K esk = Inr b \<Longrightarrow> lib_parse_ec_private K b = Inr esk"
    and pkix_round: "lib_marshal_pkix_ec K epk = Inr b \<Longrightarrow> lib_parse_pkix_public K b = Inr (ECDSAKey epk)"
    and pkix_total: "\<exists>b. lib_marshal_pkix_ec K epk = Inr b"
    and oaep_round: "lib_encrypt_oaep K r (lib_rsa_public K rsk) msg lbl = Inr ct \<Longrightarrow>
          lib_decrypt_oaep K rsk ct lbl = Inr msg"
begin

lemma seedshare_key_parses:
  "parse_seedshare_owner_key K (marshal_seedshare_owner_key K pk) = Inr pk"
  by (simp add: parse_seedshare_owner_key_def marshal_seedshare_owner_key_def pkcs1_public_round)

lemma new_seedshare_key_usable:
  assumes "new_seedshare_owner_private_key K rnd = Inr data"
  shows "\<exists>sk. parse_seedshare_owner_private_key K data = Inr sk
      \<and> extract_seedshare_owner_public_key K data = Inr (marshal_seedshare_owner_key K (lib_rsa_public K sk))"
  using assms by (auto simp: new_seedshare_owner_private_key_def parse_seedshare_owner_private_key_def
      extract_seedshare_owner_public_key_def pem_round pkcs1_private_round
      pem_public_key_def pem_rsa_private_key_def split: sum.splits)

lemma workload_key_marshals:
  "\<exists>h. marshal_workload_owner_pub_key K pk = Inr h \<and> parse_workload_owner_public_key K h = Inr pk"
proof -
  obtain b where b: "lib_marshal_pkix_ec K pk = Inr b" using pkix_total by blast
  then show ?thesis
    by (simp add: marshal_workload_owner_pub_key_def parse_workload_owner_public_key_def
        pkix_round [OF b])
qed

lemma new_workload_key_usable:
  assumes "new_workload_owner_key K rnd = Inr data"
  shows "\<exists>sk b. parse_workload_owner_private_key K data = Inr sk
      \<and> extract_workload_owner_public_key K data = Inr b
      \<and> parse_workload_owner_public_key K (new_hex_string b) = Inr (lib_ec_public K sk)"
proof -
  obtain sk b where sk: "lib_marshal_ec_private K sk = Inr b"
    and data: "data = lib_pem_encode K \<lparr>pem_type = pem_ec_private_key, pem_bytes = b\<rparr>"
    using assms by (auto simp: new_workload_owner_key_def split: sum.splits)
  obtain c where c: "lib_marshal_pkix_ec K (lib_ec_public K sk) = Inr c"
    using pkix_total by blast
  show ?thesis
    by (rule exI [of _ sk], rule exI [of _ c])
      (simp add: data parse_workload_owner_private_key_def extract_workload_owner_public_key_def
        parse_workload_owner_public_key_def pem_round ec_private_round [OF sk] c pkix_round [OF c]
        pem_public_key_def pem_ec_private_key_def)
qed

lemma encrypt_seed_shares_keys:
  "encrypt_seed_shares K rnd seed hs = Inr ss \<Longrightarrow> map share_public_key ss = hs"
  by (induction hs arbitrary: rnd ss) (auto split: sum.splits)

text \<open>Each owner recovers the seed from the share at its position.\<close>

lemma seed_share_decrypts:
  assumes "encrypt_seed_shares K rnd seed hs = Inr ss" and "i < length hs"
    and "parse_seedshare_owner_key K (hs ! i) = Inr (lib_rsa_public K sk)"
  shows "decrypt_seed_share K sk (ss ! i) = Inr seed"
  using assms
proof (induction hs arbitrary: rnd ss i)
  case (Cons h hs)
  then show ?case
    by (cases i) (auto simp: decrypt_seed_share_def split: sum.splits dest: oaep_round)
qed simp

end

text \<open>
  An instance: keys are byte strings, a private key is its public key, PEM is the type's
  length followed by both parts, and OAEP prepends the label's length and the key's. It says
  nothing about secrecy; the laws speak of correctness only.
\<close>

definition frame :: "bytes \<Rightarrow> bytes \<Rightarrow> bytes" where
  "frame a b = replicate (length a) 1 @ 0 # a @ b"

definition unframe :: "bytes \<Rightarrow> (bytes \<times> bytes) option" where
  "unframe x = (let n = length (takeWhile (\<lambda>b. b = 1) x); r = drop (Suc n) x in
     if n < length x \<and> n \<le> length r then Some (take n r, drop n r) else None)"

lemma unframe_frame [simp]: "unframe (frame a b) = Some (a, b)"
proof -
  have "takeWhile (\<lambda>b. b = 1) (replicate n 1 @ 0 # r) = replicate n (1 :: byte)" for n r
    by (induction n) simp_all
  then have "takeWhile (\<lambda>b. b = 1) (frame a b) = replicate (length a) 1"
    by (simp add: frame_def)
  then show ?thesis by (simp add: unframe_def Let_def frame_def)
qed

definition plain_keylib :: "(bytes, bytes, bytes, bytes) keylib" where
  "plain_keylib = \<lparr>
     lib_pem_decode = (\<lambda>x. case unframe x of None \<Rightarrow> None
        | Some (t, b) \<Rightarrow> Some \<lparr>pem_type = string_of_bytes t, pem_bytes = b\<rparr>),
     lib_pem_encode = (\<lambda>blk. frame (bytes_of_string (pem_type blk)) (pem_bytes blk)),
     lib_parse_pkix_public = (\<lambda>b. if b = [] then Inl (Msg ''asn1'') else
        if hd b = 48 then Inr (ECDSAKey (tl b)) else Inr OtherKey),
     lib_marshal_pkix_ec = (\<lambda>k. Inr (48 # k)),
     lib_parse_pkcs1_public = (\<lambda>b. if b = [] then Inl (Msg ''asn1'') else Inr (tl b)),
     lib_marshal_pkcs1_public = (\<lambda>k. 48 # k),
     lib_parse_pkcs1_private = (\<lambda>b. if b = [] then Inl (Msg ''asn1'') else Inr (tl b)),
     lib_marshal_pkcs1_private = (\<lambda>k. 2 # k),
     lib_parse_ec_private = (\<lambda>b. if b = [] then Inl (Msg ''asn1'') else Inr (tl b)),
     lib_marshal_ec_private = (\<lambda>k. Inr (2 # k)),
     lib_rsa_public = (\<lambda>k. k), lib_ec_public = (\<lambda>k. k),
     lib_rsa_generate = (\<lambda>r n. Inr r), lib_ec_generate_p384 = (\<lambda>r. Inr r),
     lib_encrypt_oaep = (\<lambda>r k m l. Inr (frame k (frame l m))),
     lib_decrypt_oaep = (\<lambda>k c l. case unframe c of None \<Rightarrow> Inl (Sentinel ''crypto/rsa: decryption error'')
        | Some (k', c') \<Rightarrow> (case unframe c' of None \<Rightarrow> Inl (Sentinel ''crypto/rsa: decryption error'')
            | Some (l', m) \<Rightarrow> if k = k' \<and> l = l' then Inr m
                else Inl (Sentinel ''crypto/rsa: decryption error'')))\<rparr>"

interpretation plain_keys: key_codec plain_keylib
  by unfold_locales (auto simp: plain_keylib_def)

end
