(* ===== verification/Manifest.thy ===== *)
theory Manifest
  imports OwnerKeys
begin

text \<open>
  \<open>internal/manifest/manifest.go\<close> and \<open>referencevalues.go\<close>: the manifest, its
  reference values and their validation, the default manifest, JSON patches and the removal of
  reference values that were not filled in. A Go map is the list of its entries in the order
  the code happens to range over it; lemmas that depend on lookups ask for distinct keys.

  The types of \<open>go-sev-guest/abi\<close> are opaque; the manifest only carries them.
\<close>

typedecl snp_guest_policy
typedecl snp_platform_info

section \<open>Data\<close>

record policy_entry =
  sans :: "string list"
  workload_secret_id :: string
  role :: string

type_synonym svn = "8 word"

record snp_tcb =
  bootloader_version :: "svn option"
  tee_version :: "svn option"
  snp_version :: "svn option"
  microcode_version :: "svn option"

record snp_reference_values =
  snp_platform :: string
  product_name :: string
  trusted_measurement :: hexstring
  apeip :: hexstring
  minimum_tcb :: snp_tcb
  guest_policy :: snp_guest_policy
  platform_info :: snp_platform_info
  minimum_mitigation_vector :: "64 word"
  allowed_chip_ids :: "hexstring list"

text \<open>\<open>Rtmrs\<close> is an array of four; \<open>wf_tdx\<close> is that type invariant.\<close>

record tdx_reference_values =
  tdx_platform :: string
  min_tcb_evaluation_data_number :: int
  mr_td :: hexstring
  mr_seam :: hexstring
  rtmrs :: "hexstring list"
  xfam :: hexstring
  allowed_piids :: "hexstring list"
  memory_integrity :: bool
  smt_disabled :: bool
  static_platform :: bool

definition wf_tdx :: "tdx_reference_values \<Rightarrow> bool" where
  "wf_tdx r \<longleftrightarrow> length (rtmrs r) = 4"

record reference_values =
  snp :: "snp_reference_values list"
  tdx :: "tdx_reference_values list"

record manifest =
  policies :: "(hexstring \<times> policy_entry) list"
  refvals :: reference_values
  workload_owner_pub_keys :: "hexstring list"
  seedshare_owner_pub_keys :: "hexstring list"

definition wf_manifest :: "manifest \<Rightarrow> bool" where
  "wf_manifest m \<longleftrightarrow> distinct (map fst (policies m)) \<and> (\<forall>r\<in>set (tdx (refvals m)). wf_tdx r)"

section \<open>Policies\<close>

definition policy_hash :: "(bytes \<Rightarrow> bytes) \<Rightarrow> bytes \<Rightarrow> hexstring" where
  "policy_hash sha256 p = new_hex_string (sha256 p)"

definition policy_entry_validate :: "policy_entry \<Rightarrow> hexstring \<Rightarrow> goerr option" where
  "policy_entry_validate e h = errors_join
     [case hex_bytes h of
        Inl er \<Rightarrow> Some (Wrap (''decoding policy hash '' @ quoted h) er)
      | Inr _ \<Rightarrow> (if length h \<noteq> 2 * 32 then Some (Msg ''invalid policy hash length'') else None),
      (case validate_role (role e) of
         None \<Rightarrow> None | Some er \<Rightarrow> new_validation_error ''Role'' [Some er])]"

definition err_missing_coordinator :: goerr where
  "err_missing_coordinator = Sentinel (''expected at least 1 policy with role '' @
     [CHR 0x27] @ ''coordinator'' @ [CHR 0x27])"

definition coordinator_policy_hashes :: "manifest \<Rightarrow> hexstring list result" where
  "coordinator_policy_hashes m =
     (let found = map fst (filter (\<lambda>(h, e). role e = role_coordinator) (policies m))
      in if found = [] then Inl err_missing_coordinator else Inr found)"

section \<open>Reference values\<close>

definition milan :: string where "milan = ''Milan''"
definition genoa :: string where "genoa = ''Genoa''"

text \<open>\<open>p, err := platforms.FromString(s); err == nil && platforms.IsInsecure(p)\<close>\<close>

definition names_insecure :: "string \<Rightarrow> bool" where
  "names_insecure s = (case from_string s of Inl _ \<Rightarrow> False | Inr p \<Rightarrow> is_insecure p)"

definition tcb_missing :: "string \<Rightarrow> svn option \<Rightarrow> goerr option" where
  "tcb_missing name v = (if v = None
     then new_validation_error name [Some (ExpectedMissing (Msg ''field cannot be empty''))] else None)"

definition labelled :: "string \<Rightarrow> goerr option \<Rightarrow> goerr option" where
  "labelled path err = (case err of None \<Rightarrow> None | Some e \<Rightarrow> new_validation_error path [Some e])"

fun indexed :: "(nat \<Rightarrow> string) \<Rightarrow> ('a \<Rightarrow> goerr option) \<Rightarrow> nat \<Rightarrow> 'a list \<Rightarrow> goerr option list" where
  "indexed path f i [] = []"
| "indexed path f i (x # xs) = labelled (path i) (f x) # indexed path f (Suc i) xs"

definition tcb_validate :: "snp_tcb \<Rightarrow> goerr option" where
  "tcb_validate t = new_validation_error ''MinimumTCB''
     [tcb_missing ''BootloaderVersion'' (bootloader_version t),
      tcb_missing ''TEEVersion'' (tee_version t),
      tcb_missing ''SNPVersion'' (snp_version t),
      tcb_missing ''MicrocodeVersion'' (microcode_version t)]"

definition snp_validate :: "snp_reference_values \<Rightarrow> goerr option" where
  "snp_validate r =
     (if names_insecure (snp_platform r) then None
      else errors_join
        ([tcb_validate (minimum_tcb r),
          labelled ''ProductName'' (if product_name r = milan \<or> product_name r = genoa then None
            else Some (Msg (''unknown product name: '' @ product_name r))),
          (if trusted_measurement r = ''''
           then new_validation_error ''TrustedMeasurement'' [Some (Msg ''field cannot be empty'')]
           else labelled ''TrustedMeasurement'' (validate_hex_string (trusted_measurement r) 48)),
          (if apeip r \<noteq> '''' then labelled ''APEIP'' (validate_hex_string (apeip r) 4) else None)]
         @ indexed (\<lambda>i. ''AllowedChipIDs['' @ dec_string i @ '']'')
             (\<lambda>c. validate_hex_string c 64) 0 (allowed_chip_ids r)))"

definition tdx_validate :: "tdx_reference_values \<Rightarrow> goerr option" where
  "tdx_validate r =
     (if names_insecure (tdx_platform r) then None
      else errors_join
        ([labelled ''MrTd'' (validate_hex_string (mr_td r) 48),
          labelled ''MrSeam'' (map_option ExpectedMissing (validate_hex_string (mr_seam r) 48)),
          labelled ''Xfam'' (validate_hex_string (xfam r) 8)]
         @ indexed (\<lambda>i. ''RTMR['' @ dec_string (i + 1) @ '']'')
             (\<lambda>v. validate_hex_string v 48) 0 (rtmrs r)))"

text \<open>The classification each reference value gets in \<open>ReferenceValues.Validate\<close>.\<close>

fun classify :: "string \<Rightarrow> ('a \<Rightarrow> goerr option) \<Rightarrow> nat \<Rightarrow> 'a list \<Rightarrow> goerr option list" where
  "classify name f i [] = []"
| "classify name f i (v # vs) =
     (let path = name @ ''['' @ dec_string i @ '']''
      in (if only_missing (f v) then Some (ExpectedMissing (Msg path)) else labelled path (f v)))
     # classify name f (Suc i) vs"

definition reference_values_validate :: "reference_values \<Rightarrow> goerr option" where
  "reference_values_validate r = errors_join
     (classify ''snp'' snp_validate 0 (snp r) @ classify ''tdx'' tdx_validate 0 (tdx r)
      @ [if length (snp r) + length (tdx r) = 0
         then Some (Msg ''reference values in manifest cannot be empty. Is the chosen platform supported?'')
         else None])"

definition purge_empty :: "reference_values \<Rightarrow> reference_values" where
  "purge_empty r = r\<lparr>snp := filter (\<lambda>v. \<not> only_missing (snp_validate v)) (snp r),
                    tdx := filter (\<lambda>v. \<not> only_missing (tdx_validate v)) (tdx r)\<rparr>"

section \<open>The manifest\<close>

definition any_reference_value :: "(platform result \<Rightarrow> bool) \<Rightarrow> manifest \<Rightarrow> bool" where
  "any_reference_value pred m \<longleftrightarrow>
     list_ex (\<lambda>v. pred (from_string (snp_platform v))) (snp (refvals m))
     \<or> list_ex (\<lambda>v. pred (from_string (tdx_platform v))) (tdx (refvals m))"

definition has_insecure_platforms :: "manifest \<Rightarrow> bool" where
  "has_insecure_platforms m = any_reference_value
     (\<lambda>r. case r of Inl _ \<Rightarrow> False | Inr p \<Rightarrow> is_insecure p) m"

definition has_secure_platforms :: "manifest \<Rightarrow> bool" where
  "has_secure_platforms m = any_reference_value
     (\<lambda>r. case r of Inl _ \<Rightarrow> True | Inr p \<Rightarrow> \<not> is_insecure p) m"

definition error_of :: "'a result \<Rightarrow> goerr option" where
  "error_of r = (case r of Inl e \<Rightarrow> Some e | Inr _ \<Rightarrow> None)"

definition manifest_validate ::
  "('ec, 'rsa, 'ecsk, 'rsask) keylib \<Rightarrow> manifest \<Rightarrow> goerr option" where
  "manifest_validate K m =
     (case coordinator_policy_hashes m of
        Inl e \<Rightarrow> Some e
      | Inr _ \<Rightarrow> errors_join
          (map (\<lambda>(h, e). labelled (''Policies['' @ quoted h @ '']'') (policy_entry_validate e h)) (policies m)
           @ [labelled ''ReferenceValues'' (reference_values_validate (refvals m)),
              (if has_insecure_platforms m \<and> has_secure_platforms m
               then new_validation_error ''ReferenceValues''
                 [Some (Msg ''manifest must not mix secure and insecure platforms'')]
               else None)]
           @ indexed (\<lambda>i. ''WorkloadOwnerPubKeys['' @ dec_string i @ '']'')
               (\<lambda>k. error_of (parse_workload_owner_public_key K k)) 0 (workload_owner_pub_keys m)
           @ indexed (\<lambda>i. ''SeedshareOwnerPubKeys['' @ dec_string i @ '']'')
               (\<lambda>k. error_of (parse_seedshare_owner_key K k)) 0 (seedshare_owner_pub_keys m)))"

section \<open>Embedded reference values, the default manifest, patches\<close>

text \<open>
  The reference values compiled into the binary are JSON: the decoded map, or the decoder's
  error, is the argument \<open>emb\<close>, with the entries in the order the loop sees them. The
  method ignores its receiver and decodes the embedded bytes again.
\<close>

fun find_platform :: "platform \<Rightarrow> (string \<times> reference_values) list \<Rightarrow> reference_values result" where
  "find_platform p [] = Inl (Msg (''no embedded reference values found for platform: '' @ platform_string p))"
| "find_platform p ((handler, rv) # rest) =
     (case platform_from_handler handler of
        Inl e \<Rightarrow> Inl (Wrap ''invalid handler name'' e)
      | Inr q \<Rightarrow> (if q = p then Inr rv else find_platform p rest))"

definition for_platform ::
  "(string \<times> reference_values) list result \<Rightarrow> platform \<Rightarrow> reference_values result" where
  "for_platform emb p = (case emb of Inl e \<Rightarrow> Inl e | Inr mapping \<Rightarrow> find_platform p mapping)"

definition mark_platform :: "platform \<Rightarrow> reference_values \<Rightarrow> reference_values" where
  "mark_platform p rv = rv\<lparr>snp := map (\<lambda>v. v\<lparr>snp_platform := platform_string p\<rparr>) (snp rv),
                          tdx := map (\<lambda>v. v\<lparr>tdx_platform := platform_string p\<rparr>) (tdx rv)\<rparr>"

definition no_values :: reference_values where
  "no_values = \<lparr>snp = [], tdx = []\<rparr>"

definition append_values :: "reference_values \<Rightarrow> reference_values \<Rightarrow> reference_values" where
  "append_values a b = \<lparr>snp = snp a @ snp b, tdx = tdx a @ tdx b\<rparr>"

fun merge_platforms ::
  "(string \<times> reference_values) list result \<Rightarrow> reference_values \<Rightarrow> platform list
   \<Rightarrow> reference_values result" where
  "merge_platforms emb merged [] = Inr merged"
| "merge_platforms emb merged (p # ps) =
     (case for_platform emb p of
        Inl e \<Rightarrow> Inl (Wrap (''get reference values for platform '' @ platform_string p) e)
      | Inr rv \<Rightarrow> merge_platforms emb (append_values merged (mark_platform p rv)) ps)"

definition default_manifest ::
  "(string \<times> reference_values) list result \<Rightarrow> platform list \<Rightarrow> manifest result" where
  "default_manifest emb ps =
     (case emb of
        Inl e \<Rightarrow> Inl (Wrap ''get embedded reference values'' e)
      | Inr _ \<Rightarrow>
          (case merge_platforms emb no_values ps of
             Inl e \<Rightarrow> Inl e
           | Inr merged \<Rightarrow> Inr \<lparr>policies = [], refvals = merged,
               workload_owner_pub_keys = [], seedshare_owner_pub_keys = []\<rparr>))"

text \<open>
  JSON patches. \<open>encoding/json\<close> and the patch library are the fields of \<open>patchlib\<close>;
  \<open>json.Unmarshal\<close> writes into its target even when it fails, so it returns the target
  next to its error. \<open>err_test_failed\<close> is the library's \<open>ErrTestFailed\<close>.
\<close>

record 'p patchlib =
  decode_patch :: "bytes \<Rightarrow> 'p result"
  patch_paths :: "'p \<Rightarrow> string result list"
  patch_apply :: "'p \<Rightarrow> bytes \<Rightarrow> bytes result"
  err_test_failed :: goerr
  json_refvals :: "reference_values \<Rightarrow> bytes result"
  json_snp :: "snp_reference_values \<Rightarrow> bytes result"
  json_tdx :: "tdx_reference_values \<Rightarrow> bytes result"
  unjson_refvals :: "bytes \<Rightarrow> reference_values \<Rightarrow> goerr option \<times> reference_values"
  unjson_snp :: "bytes \<Rightarrow> snp_reference_values \<Rightarrow> goerr option \<times> snp_reference_values"
  unjson_tdx :: "bytes \<Rightarrow> tdx_reference_values \<Rightarrow> goerr option \<times> tdx_reference_values"

definition apply_patch ::
  "'p patchlib \<Rightarrow> ('a \<Rightarrow> bytes result) \<Rightarrow> (bytes \<Rightarrow> 'a \<Rightarrow> goerr option \<times> 'a) \<Rightarrow> 'p \<Rightarrow> 'a
   \<Rightarrow> goerr option \<times> 'a" where
  "apply_patch L to_json from_json p v =
     (case to_json v of
        Inl e \<Rightarrow> (Some (Wrap ''marshaling reference values for patching'' e), v)
      | Inr b \<Rightarrow>
          (case patch_apply L p b of
             Inl e \<Rightarrow> (if err_is e (err_test_failed L) then (None, v)
                       else (Some (Wrap ''applying specs patch to reference values'' e), v))
           | Inr b' \<Rightarrow>
               (case from_json b' v of
                  (Some e, v') \<Rightarrow> (Some (Wrap ''unmarshaling patched reference values'' e), v')
                | (None, v') \<Rightarrow> (None, v'))))"

fun patch_each :: "string \<Rightarrow> ('a \<Rightarrow> goerr option \<times> 'a) \<Rightarrow> 'a list \<Rightarrow> goerr option \<times> 'a list" where
  "patch_each what f [] = (None, [])"
| "patch_each what f (v # vs) =
     (case f v of
        (Some e, v') \<Rightarrow> (Some (Wrap what e), v' # vs)
      | (None, v') \<Rightarrow> (case patch_each what f vs of (r, vs') \<Rightarrow> (r, v' # vs')))"

text \<open>Whether a patch addresses the collection: the loop over its operations, which stops at the
  first path of that kind or at the first path that cannot be decoded.\<close>

fun collection_patch :: "string result list \<Rightarrow> bool result" where
  "collection_patch [] = Inr False"
| "collection_patch (Inl e # ps) = Inl (Wrap ''decoding specs patch operation path'' e)"
| "collection_patch (Inr path # ps) =
     (if path = ''/snp'' \<or> has_prefix ''/snp/'' path \<or> path = ''/tdx'' \<or> has_prefix ''/tdx/'' path
      then Inr True else collection_patch ps)"

definition patch_one :: "'p patchlib \<Rightarrow> bytes \<Rightarrow> reference_values \<Rightarrow> goerr option \<times> reference_values" where
  "patch_one L raw r =
     (case decode_patch L raw of
        Inl e \<Rightarrow> (Some (Wrap ''decoding specs patch'' e), r)
      | Inr p \<Rightarrow>
          (case collection_patch (patch_paths L p) of
             Inl e \<Rightarrow> (Some e, r)
           | Inr True \<Rightarrow>
               (case apply_patch L (json_refvals L) (unjson_refvals L) p r of
                  (Some e, r') \<Rightarrow> (Some (Wrap ''applying patch to reference values'' e), r')
                | (None, r') \<Rightarrow> (None, r'))
           | Inr False \<Rightarrow>
               (case patch_each ''applying patch to SNP reference values''
                       (apply_patch L (json_snp L) (unjson_snp L) p) (snp r) of
                  (Some e, ss) \<Rightarrow> (Some e, r\<lparr>snp := ss\<rparr>)
                | (None, ss) \<Rightarrow>
                    (case patch_each ''applying patch to TDX reference values''
                            (apply_patch L (json_tdx L) (unjson_tdx L) p) (tdx r) of
                       (err, ts) \<Rightarrow> (err, r\<lparr>snp := ss, tdx := ts\<rparr>)))))"

fun patch_reference_values ::
  "'p patchlib \<Rightarrow> bytes list \<Rightarrow> reference_values \<Rightarrow> goerr option \<times> reference_values" where
  "patch_reference_values L [] r = (None, r)"
| "patch_reference_values L (raw # raws) r =
     (case patch_one L raw r of
        (Some e, r') \<Rightarrow> (Some e, r')
      | (None, r') \<Rightarrow> patch_reference_values L raws r')"

end
