(* ===== verification/ManifestFacts.thy ===== *)
theory ManifestFacts
  imports Manifest
begin

text \<open>
  What manifest validation decides. The error trees are taken apart once, by the lemmas on
  \<open>errors_join\<close>, \<open>labelled\<close> and \<open>indexed\<close>; each component's \<open>Validate\<close> is then an
  equivalence with the condition it checks, and the class of errors \<open>PurgeEmpty\<close> acts on is
  computed exactly.
\<close>

section \<open>Errors that survive flattening\<close>

definition flat_nonempty :: "goerr \<Rightarrow> bool" where
  "flat_nonempty e \<longleftrightarrow> flatten_validation_error e \<noteq> []"

fun plain_error :: "goerr \<Rightarrow> bool" where
  "plain_error (Msg s) = True"
| "plain_error (Sentinel s) = True"
| "plain_error (Wrap p e) = plain_error e"
| "plain_error e = False"

lemma plain_flat: "plain_error e \<Longrightarrow> flatten_validation_error e = [e]"
  by (cases e) simp_all

lemma plain_as: "plain_error e \<Longrightarrow> as_validation e = None \<and> as_expected_missing e = None"
  by (induction e rule: plain_error.induct) simp_all

lemma flat_nonempty_simps [simp]:
  "flat_nonempty (Sentinel s)" "flat_nonempty (Msg s)" "flat_nonempty (Wrap s e)"
  "flat_nonempty (Invalid s es)" "flat_nonempty (ExpectedMissing e)" "flat_nonempty (Panic s)"
  "flat_nonempty (Joined es) \<longleftrightarrow> (\<exists>e\<in>set es. flat_nonempty e)"
  by (simp_all add: flat_nonempty_def)

lemma hex_decode_plain: "hex_decode s = Inl e \<Longrightarrow> plain_error e"
  by (induction s rule: hex_decode.induct) (auto split: option.splits sum.splits)

lemma validate_hex_string_plain: "validate_hex_string v n = Some e \<Longrightarrow> plain_error e"
  by (auto simp: validate_hex_string_def hex_bytes_def hex_decode_plain split: if_splits sum.splits)

lemma labelled_simps [simp]:
  "labelled path None = None"
  "labelled path (Some e) = None \<longleftrightarrow> \<not> flat_nonempty e"
  by (simp_all add: labelled_def new_validation_error_def flat_nonempty_def Let_def)

lemma labelled_missing: "labelled p (map_option ExpectedMissing err) =
  (case err of None \<Rightarrow> None | Some e \<Rightarrow> Some (Invalid p [ExpectedMissing e]))"
  by (simp add: labelled_def new_validation_error_def split: option.split)

lemma labelled_None [err_simps]:
  "(\<And>e. err = Some e \<Longrightarrow> flat_nonempty e) \<Longrightarrow> labelled path err = None \<longleftrightarrow> err = None"
  by (cases err) auto

lemma labelled_plain: "plain_error e \<Longrightarrow> labelled path (Some e) = Some (Invalid path [e])"
  by (simp add: labelled_def new_validation_error_def plain_flat)

lemma labelled_Invalid: "labelled path err = Some e \<Longrightarrow> \<exists>es. e = Invalid path es"
  by (auto simp: labelled_def new_validation_error_def Let_def split: option.splits if_splits)

lemma indexed_None [err_simps]:
  assumes "\<And>x e. x \<in> set xs \<Longrightarrow> f x = Some e \<Longrightarrow> flat_nonempty e"
  shows "(\<forall>r\<in>set (indexed path f i xs). r = None) \<longleftrightarrow> (\<forall>x\<in>set xs. f x = None)"
  using assms
proof (induction xs arbitrary: i)
  case (Cons x xs)
  have "labelled (path i) (f x) = None \<longleftrightarrow> f x = None"
    by (rule labelled_None) (rule Cons.prems [of x], simp)
  moreover have "(\<forall>r\<in>set (indexed path f (Suc i) xs). r = None) \<longleftrightarrow> (\<forall>x\<in>set xs. f x = None)"
    by (rule Cons.IH) (rule Cons.prems, simp_all)
  ultimately show ?case by simp
qed simp

section \<open>Which errors count as expected\<close>

text \<open>
  A hard error: no error, or a validation error around one that is not an expected-missing
  one. \<open>errors.As\<close> looks at the first validation error of a joined error only, so the first
  element decides.
\<close>

definition hard_error :: "goerr option \<Rightarrow> bool" where
  "hard_error x \<longleftrightarrow> x = None \<or> (\<exists>p e. x = Some (Invalid p [e]) \<and> plain_error e)"

lemma hard_labelled: "(\<And>e. err = Some e \<Longrightarrow> plain_error e) \<Longrightarrow> hard_error (labelled p err)"
  by (cases err) (auto simp: hard_error_def labelled_plain)

lemma hard_indexed:
  "(\<And>x e. f x = Some e \<Longrightarrow> plain_error e) \<Longrightarrow> list_all hard_error (indexed path f i xs)"
  by (induction xs arbitrary: i) (auto intro!: hard_labelled)

lemma only_missing_None [simp]: "\<not> only_missing None"
  by (simp add: only_missing_def)

lemma errors_join_skip [simp]: "errors_join (None # es) = errors_join es"
  by (simp add: errors_join_def)

lemma errors_join_nil [simp]: "errors_join [] = None"
  by (simp add: errors_join_def)

lemma only_missing_first:
  "only_missing (errors_join (Some (Invalid p ds) # es)) \<longleftrightarrow> only_expected_missing (Invalid p ds)"
  by (simp add: errors_join_def only_missing_def)

lemma hard_not_missing: "list_all hard_error es \<Longrightarrow> \<not> only_missing (errors_join es)"
proof (induction es)
  case (Cons x xs)
  show ?case
  proof (cases x)
    case None
    with Cons show ?thesis by simp
  next
    case (Some y)
    with Cons.prems obtain p e where "x = Some (Invalid p [e])" "plain_error e"
      by (auto simp: hard_error_def)
    then show ?thesis by (simp add: only_missing_first plain_as)
  qed
qed simp

lemma only_missing_cons_hard:
  assumes "hard_error x"
  shows "only_missing (errors_join (x # es)) \<longleftrightarrow> x = None \<and> only_missing (errors_join es)"
proof (cases x)
  case (Some y)
  with assms obtain p e where "x = Some (Invalid p [e])" "plain_error e"
    by (auto simp: hard_error_def)
  then show ?thesis by (simp add: only_missing_first plain_as)
qed simp

section \<open>SNP reference values\<close>

definition tcb_complete :: "snp_tcb \<Rightarrow> bool" where
  "tcb_complete t \<longleftrightarrow> bootloader_version t \<noteq> None \<and> tee_version t \<noteq> None
     \<and> snp_version t \<noteq> None \<and> microcode_version t \<noteq> None"

definition hex_of_size :: "nat \<Rightarrow> hexstring \<Rightarrow> bool" where
  "hex_of_size n h \<longleftrightarrow> (\<exists>b. hex_decode h = Inr b \<and> length b = n)"

lemma tcb_validate_cases:
  "tcb_validate t = (if tcb_complete t then None
     else Some (Invalid ''MinimumTCB'' (map the (filter (\<lambda>e. e \<noteq> None)
       [tcb_missing ''BootloaderVersion'' (bootloader_version t), tcb_missing ''TEEVersion'' (tee_version t),
        tcb_missing ''SNPVersion'' (snp_version t), tcb_missing ''MicrocodeVersion'' (microcode_version t)]))))"
  by (cases "bootloader_version t"; cases "tee_version t"; cases "snp_version t"; cases "microcode_version t")
    (simp_all add: tcb_validate_def tcb_missing_def new_validation_error_def tcb_complete_def)

lemma tcb_validate_None: "tcb_validate t = None \<longleftrightarrow> tcb_complete t"
  by (simp add: tcb_validate_cases)

lemma tcb_missing_expected:
  "tcb_missing n v = Some e \<Longrightarrow> only_expected_missing e \<and> as_expected_missing e \<noteq> None \<and> as_validation e = Some e"
  by (auto simp: tcb_missing_def new_validation_error_def split: if_splits)

lemma tcb_only_missing:
  assumes "tcb_validate t = Some e"
  shows "\<exists>ds. e = Invalid ''MinimumTCB'' ds \<and> only_expected_missing e"
  using assms tcb_missing_expected
  by (auto simp: tcb_validate_cases list_all_iff split: if_splits)

text \<open>The condition \<open>SNPReferenceValues.Validate\<close> checks.\<close>

definition snp_complete :: "snp_reference_values \<Rightarrow> bool" where
  "snp_complete r \<longleftrightarrow> tcb_complete (minimum_tcb r)
     \<and> (product_name r = milan \<or> product_name r = genoa)
     \<and> hex_of_size 48 (trusted_measurement r)
     \<and> (apeip r = '''' \<or> hex_of_size 4 (apeip r))
     \<and> (\<forall>c\<in>set (allowed_chip_ids r). hex_of_size 64 c)"

lemma validate_hex_flat: "validate_hex_string v n = Some e \<Longrightarrow> flat_nonempty e"
  using validate_hex_string_plain plain_flat by (fastforce simp: flat_nonempty_def)

lemma labelled_hex_None [err_simps]:
  "labelled path (validate_hex_string v n) = None \<longleftrightarrow> hex_of_size n v"
  by (simp add: labelled_None validate_hex_flat validate_hex_string_None hex_of_size_def)

lemma snp_measurement_None:
  "(if v = '''' then new_validation_error ''TrustedMeasurement'' [Some (Msg ''field cannot be empty'')]
    else labelled ''TrustedMeasurement'' (validate_hex_string v 48)) = None \<longleftrightarrow> hex_of_size 48 v"
  by (auto simp: labelled_hex_None new_validation_error_def) (simp add: hex_of_size_def)

lemma snp_validate_None:
  "snp_validate r = None \<longleftrightarrow> names_insecure (snp_platform r) \<or> snp_complete r"
proof -
  have ix: "(\<forall>x\<in>set (indexed p (\<lambda>c. validate_hex_string c 64) 0 cs). x = None)
      \<longleftrightarrow> (\<forall>c\<in>set cs. hex_of_size 64 c)" for p cs
    by (subst indexed_None) (auto simp: validate_hex_flat validate_hex_string_None hex_of_size_def)
  show ?thesis
    by (simp add: snp_validate_def errors_join_None ball_Un ix tcb_validate_None snp_complete_def
        snp_measurement_None labelled_hex_None labelled_None)
qed

lemma snp_only_missing:
  "only_missing (snp_validate r) \<longleftrightarrow>
     \<not> names_insecure (snp_platform r) \<and> \<not> tcb_complete (minimum_tcb r)"
proof (cases "names_insecure (snp_platform r)")
  case False
  define rest where "rest =
      [labelled ''ProductName'' (if product_name r = milan \<or> product_name r = genoa then None
         else Some (Msg (''unknown product name: '' @ product_name r))),
       (if trusted_measurement r = ''''
        then new_validation_error ''TrustedMeasurement'' [Some (Msg ''field cannot be empty'')]
        else labelled ''TrustedMeasurement'' (validate_hex_string (trusted_measurement r) 48)),
       (if apeip r \<noteq> '''' then labelled ''APEIP'' (validate_hex_string (apeip r) 4) else None)]
      @ indexed (\<lambda>i. ''AllowedChipIDs['' @ dec_string i @ '']'')
          (\<lambda>c. validate_hex_string c 64) 0 (allowed_chip_ids r)"
  have v: "snp_validate r = errors_join (tcb_validate (minimum_tcb r) # rest)"
    using False by (simp add: snp_validate_def rest_def)
  have hard: "list_all hard_error rest"
    unfolding rest_def
    by (auto intro!: hard_labelled hard_indexed simp: validate_hex_string_plain new_validation_error_def)
      (auto simp: hard_error_def)
  show ?thesis
  proof (cases "tcb_validate (minimum_tcb r)")
    case None
    then show ?thesis using hard_not_missing [OF hard]
      by (simp add: v tcb_validate_None [symmetric])
  next
    case (Some e)
    with tcb_only_missing obtain ds where "e = Invalid ''MinimumTCB'' ds" "only_expected_missing e"
      by blast
    with Some False show ?thesis
      by (metis only_missing_first option.distinct(1) tcb_validate_None v)
  qed
qed (simp add: snp_validate_def)

section \<open>TDX reference values\<close>

definition tdx_complete :: "tdx_reference_values \<Rightarrow> bool" where
  "tdx_complete r \<longleftrightarrow> hex_of_size 48 (mr_td r) \<and> hex_of_size 48 (mr_seam r)
     \<and> hex_of_size 8 (xfam r) \<and> (\<forall>v\<in>set (rtmrs r). hex_of_size 48 v)"

lemma tdx_validate_None:
  "tdx_validate r = None \<longleftrightarrow> names_insecure (tdx_platform r) \<or> tdx_complete r"
proof -
  have ix: "(\<forall>x\<in>set (indexed p (\<lambda>v. validate_hex_string v 48) 0 vs). x = None)
      \<longleftrightarrow> (\<forall>v\<in>set vs. hex_of_size 48 v)" for p vs
    by (subst indexed_None) (auto simp: validate_hex_flat validate_hex_string_None hex_of_size_def)
  have seam: "labelled p (map_option ExpectedMissing (validate_hex_string v 48)) = None \<longleftrightarrow> hex_of_size 48 v" for p v
    by (auto simp: labelled_missing hex_of_size_def validate_hex_string_None [symmetric]
        split: option.split)
  show ?thesis
    by (simp add: tdx_validate_def errors_join_None ball_Un ix seam tdx_complete_def labelled_hex_None)
qed

lemma tdx_only_missing:
  "only_missing (tdx_validate r) \<longleftrightarrow>
     \<not> names_insecure (tdx_platform r) \<and> hex_of_size 48 (mr_td r) \<and> \<not> hex_of_size 48 (mr_seam r)"
proof (cases "names_insecure (tdx_platform r)")
  case False
  define rest where "rest = labelled ''Xfam'' (validate_hex_string (xfam r) 8)
      # indexed (\<lambda>i. ''RTMR['' @ dec_string (i + 1) @ '']'') (\<lambda>v. validate_hex_string v 48) 0 (rtmrs r)"
  define seam where "seam = labelled ''MrSeam'' (map_option ExpectedMissing (validate_hex_string (mr_seam r) 48))"
  define td where "td = labelled ''MrTd'' (validate_hex_string (mr_td r) 48)"
  have v: "tdx_validate r = errors_join (td # seam # rest)"
    using False by (simp add: tdx_validate_def rest_def seam_def td_def)
  have "list_all hard_error rest" unfolding rest_def
    by (auto intro!: hard_labelled hard_indexed simp: validate_hex_string_plain)
  then have rest: "\<not> only_missing (errors_join rest)" by (rule hard_not_missing)
  have "hard_error td" unfolding td_def by (rule hard_labelled) (rule validate_hex_string_plain)
  then have "only_missing (tdx_validate r) \<longleftrightarrow> td = None \<and> only_missing (errors_join (seam # rest))"
    by (simp add: v only_missing_cons_hard)
  moreover have "only_missing (errors_join (seam # rest)) \<longleftrightarrow> \<not> hex_of_size 48 (mr_seam r)"
  proof (cases "validate_hex_string (mr_seam r) 48")
    case None
    then show ?thesis using rest
      by (simp add: seam_def labelled_missing hex_of_size_def validate_hex_string_None [symmetric])
  next
    case (Some e)
    then have "as_validation e = None" using validate_hex_string_plain plain_as by blast
    moreover have "seam = Some (Invalid ''MrSeam'' [ExpectedMissing e])"
      unfolding seam_def labelled_missing Some by simp
    ultimately show ?thesis using Some
      by (simp add: only_missing_first hex_of_size_def validate_hex_string_None [symmetric])
  qed
  ultimately show ?thesis using False by (simp add: td_def labelled_hex_None)
qed (simp add: tdx_validate_def)

section \<open>Reference values as a whole\<close>

lemma errors_join_flat: "errors_join es = Some e \<Longrightarrow> (\<And>x. Some x \<in> set es \<Longrightarrow> flat_nonempty x) \<Longrightarrow> flat_nonempty e"
  by (cases "filter (\<lambda>x. x \<noteq> None) es")
    (auto simp: errors_join_def filter_eq_Cons_iff)

lemma labelled_elem: "Some x = labelled p err \<Longrightarrow> flat_nonempty x"
  using labelled_Invalid [of p err x] by auto

lemma indexed_elem: "Some x \<in> set (indexed path f i xs) \<Longrightarrow> flat_nonempty x"
  by (induction xs arbitrary: i) (auto simp: labelled_elem)

lemma snp_validate_flat: "snp_validate r = Some e \<Longrightarrow> flat_nonempty e"
proof (cases "names_insecure (snp_platform r)")
  case False
  have tcb: "Some x = tcb_validate t \<Longrightarrow> flat_nonempty x" for x t
    using tcb_only_missing [of t x] by auto
  have meas: "Some x = new_validation_error p [Some (Msg q)] \<Longrightarrow> flat_nonempty x" for x p q
    by (simp add: new_validation_error_def)
  assume "snp_validate r = Some e"
  with False show ?thesis unfolding snp_validate_def
    by (simp only: if_False)
      (erule errors_join_flat, simp only: set_append list.set Un_iff insert_iff empty_iff,
        elim disjE, auto simp only: tcb meas labelled_elem indexed_elem split: if_split_asm)
qed (simp add: snp_validate_def)

lemma tdx_validate_flat: "tdx_validate r = Some e \<Longrightarrow> flat_nonempty e"
  unfolding tdx_validate_def
  by (simp split: if_split_asm, erule errors_join_flat) (auto simp: labelled_elem dest: indexed_elem)

lemma classify_None:
  assumes "\<And>v e. f v = Some e \<Longrightarrow> flat_nonempty e"
  shows "(\<forall>r\<in>set (classify name f i vs). r = None) \<longleftrightarrow> (\<forall>v\<in>set vs. f v = None)"
proof (induction vs arbitrary: i)
  case (Cons v vs)
  have "labelled p (f v) = None \<longleftrightarrow> f v = None" for p
    by (rule labelled_None) (rule assms)
  then show ?case by (auto simp: Let_def Cons)
qed simp

lemma classify_elem:
  assumes "Some x \<in> set (classify name f i vs)"
  shows "flat_nonempty x"
  using assms by (induction vs arbitrary: i) (auto simp: Let_def labelled_elem split: if_splits)

text \<open>The condition \<open>ReferenceValues.Validate\<close> checks.\<close>

definition refvals_complete :: "reference_values \<Rightarrow> bool" where
  "refvals_complete r \<longleftrightarrow> (snp r \<noteq> [] \<or> tdx r \<noteq> [])
     \<and> (\<forall>v\<in>set (snp r). names_insecure (snp_platform v) \<or> snp_complete v)
     \<and> (\<forall>v\<in>set (tdx r). names_insecure (tdx_platform v) \<or> tdx_complete v)"

lemma reference_values_validate_None:
  "reference_values_validate r = None \<longleftrightarrow> refvals_complete r"
  by (auto simp: reference_values_validate_def errors_join_None ball_Un refvals_complete_def
      classify_None [OF snp_validate_flat] classify_None [OF tdx_validate_flat]
      snp_validate_None tdx_validate_None)

lemma reference_values_validate_flat: "reference_values_validate r = Some e \<Longrightarrow> flat_nonempty e"
  unfolding reference_values_validate_def
  by (erule errors_join_flat) (auto simp: classify_elem split: if_splits)

text \<open>What \<open>PurgeEmpty\<close> leaves: values that are insecure, or whose expected fields are filled in.\<close>

lemma purge_empty_idem: "purge_empty (purge_empty r) = purge_empty r"
  by (simp add: purge_empty_def)

lemma purge_empty_snp:
  "v \<in> set (snp (purge_empty r)) \<longleftrightarrow>
     v \<in> set (snp r) \<and> (names_insecure (snp_platform v) \<or> tcb_complete (minimum_tcb v))"
  by (auto simp: purge_empty_def snp_only_missing)

lemma purge_empty_tdx:
  "v \<in> set (tdx (purge_empty r)) \<longleftrightarrow>
     v \<in> set (tdx r) \<and> (names_insecure (tdx_platform v) \<or> \<not> hex_of_size 48 (mr_td v)
       \<or> hex_of_size 48 (mr_seam v))"
  by (auto simp: purge_empty_def tdx_only_missing)

lemma purge_empty_complete:
  assumes "refvals_complete r"
  shows "purge_empty r = r"
proof -
  have "filter (\<lambda>v. \<not> only_missing (snp_validate v)) (snp r) = snp r"
    "filter (\<lambda>v. \<not> only_missing (tdx_validate v)) (tdx r) = tdx r"
    using assms by (auto simp: filter_id_conv refvals_complete_def snp_only_missing tdx_only_missing
        snp_complete_def tdx_complete_def)
  then show ?thesis by (simp add: purge_empty_def)
qed

section \<open>The manifest\<close>

definition key_parses :: "'a result \<Rightarrow> bool" where
  "key_parses r \<longleftrightarrow> (\<exists>k. r = Inr k)"

text \<open>A manifest as \<open>Manifest.Validate\<close> accepts it.\<close>

definition manifest_ok :: "('ec, 'rsa, 'ecsk, 'rsask) keylib \<Rightarrow> manifest \<Rightarrow> bool" where
  "manifest_ok K m \<longleftrightarrow>
     (\<exists>(h, e)\<in>set (policies m). role e = role_coordinator)
     \<and> (\<forall>(h, e)\<in>set (policies m). hex_of_size 32 h \<and> (role e = role_none \<or> role e = role_coordinator))
     \<and> refvals_complete (refvals m)
     \<and> \<not> (has_insecure_platforms m \<and> has_secure_platforms m)
     \<and> (\<forall>k\<in>set (workload_owner_pub_keys m). key_parses (parse_workload_owner_public_key K k))
     \<and> (\<forall>k\<in>set (seedshare_owner_pub_keys m). key_parses (parse_seedshare_owner_key K k))"

lemma policy_entry_validate_None:
  "policy_entry_validate e h = None \<longleftrightarrow> hex_of_size 32 h \<and> (role e = role_none \<or> role e = role_coordinator)"
proof -
  have role: "(case validate_role r of None \<Rightarrow> None | Some er \<Rightarrow> new_validation_error ''Role'' [Some er]) = None
      \<longleftrightarrow> r = role_none \<or> r = role_coordinator" for r
    by (simp add: validate_role_def new_validation_error_def)
  have hash: "(case hex_bytes h of Inl er \<Rightarrow> Some (Wrap p er)
      | Inr _ \<Rightarrow> (if length h \<noteq> 2 * 32 then Some (Msg q) else None)) = None \<longleftrightarrow> hex_of_size 32 h" for p q
    by (auto simp: hex_bytes_def hex_of_size_def split: sum.splits dest: hex_decode_length)
  show ?thesis unfolding policy_entry_validate_def errors_join_None
    by (simp only: list.set ball_simps role hash simp_thms)
qed

lemma policy_entry_validate_flat: "policy_entry_validate e h = Some er \<Longrightarrow> flat_nonempty er"
  unfolding policy_entry_validate_def
  by (erule errors_join_flat)
    (auto simp: new_validation_error_def validate_role_def split: sum.splits if_splits option.splits)

lemma coordinator_policy_hashes_Inl:
  "coordinator_policy_hashes m = Inl e \<longleftrightarrow>
     e = err_missing_coordinator \<and> \<not> (\<exists>(h, e)\<in>set (policies m). role e = role_coordinator)"
  by (auto simp: coordinator_policy_hashes_def Let_def filter_empty_conv)

lemma coordinator_policy_hashes_Inr:
  "coordinator_policy_hashes m = Inr hs \<Longrightarrow>
     hs \<noteq> [] \<and> set hs = {h. \<exists>e. (h, e) \<in> set (policies m) \<and> role e = role_coordinator}"
  by (auto simp: coordinator_policy_hashes_def Let_def image_iff split: if_splits)

lemma parse_error_flat:
  "error_of (parse_workload_owner_public_key K k) = Some e \<Longrightarrow> flat_nonempty e"
  "error_of (parse_seedshare_owner_key K k) = Some e \<Longrightarrow> flat_nonempty e"
  by (auto simp: error_of_def parse_workload_owner_public_key_def parse_seedshare_owner_key_def
      split: sum.splits pubkey.splits)

lemma error_of_None: "error_of r = None \<longleftrightarrow> key_parses r"
  by (cases r) (simp_all add: error_of_def key_parses_def)

lemma manifest_validate_None: "manifest_validate K m = None \<longleftrightarrow> manifest_ok K m"
proof -
  have pol: "labelled p (policy_entry_validate e h) = None \<longleftrightarrow>
      hex_of_size 32 h \<and> (role e = role_none \<or> role e = role_coordinator)" for p e h
    by (simp add: labelled_None policy_entry_validate_flat policy_entry_validate_None)
  have rv: "labelled p (reference_values_validate r) = None \<longleftrightarrow> refvals_complete r" for p r
    by (simp add: labelled_None reference_values_validate_flat reference_values_validate_None)
  have keys: "(\<forall>x\<in>set (indexed p (\<lambda>k. error_of (parse_workload_owner_public_key K k)) 0 ks). x = None)
      \<longleftrightarrow> (\<forall>k\<in>set ks. key_parses (parse_workload_owner_public_key K k))" for p ks
    by (simp add: indexed_None [OF parse_error_flat(1)] error_of_None)
  have shares: "(\<forall>x\<in>set (indexed p (\<lambda>k. error_of (parse_seedshare_owner_key K k)) 0 ks). x = None)
      \<longleftrightarrow> (\<forall>k\<in>set ks. key_parses (parse_seedshare_owner_key K k))" for p ks
    by (simp add: indexed_None [OF parse_error_flat(2)] error_of_None)
  have mix: "(if a \<and> b then new_validation_error q [Some (Msg s)] else None) = None \<longleftrightarrow> \<not> (a \<and> b)" for a b q s
    by (simp add: new_validation_error_def)
  show ?thesis
  proof (cases "coordinator_policy_hashes m")
    case (Inl e)
    moreover from Inl have "\<not> (\<exists>(h, e)\<in>set (policies m). role e = role_coordinator)"
      using coordinator_policy_hashes_Inl [of m e] by simp
    ultimately show ?thesis by (simp only: manifest_validate_def manifest_ok_def sum.case) simp
  next
    case (Inr hs)
    then have "\<exists>(h, e)\<in>set (policies m). role e = role_coordinator"
      using coordinator_policy_hashes_Inl [of m err_missing_coordinator] by auto
    moreover have "(\<forall>x\<in>set (map (\<lambda>(h, e). labelled (q h) (policy_entry_validate e h)) ps). x = None)
        \<longleftrightarrow> (\<forall>(h, e)\<in>set ps. hex_of_size 32 h \<and> (role e = role_none \<or> role e = role_coordinator))" for q ps
      using pol by (auto split: prod.splits)
    ultimately show ?thesis
      by (simp only: manifest_validate_def Inr sum.case errors_join_None set_append ball_Un list.set
          ball_simps keys shares rv mix manifest_ok_def simp_thms)
        blast
  qed
qed

text \<open>An accepted manifest is all insecure or all secure; unknown platforms count as secure.\<close>

lemma has_insecure_iff:
  "has_insecure_platforms m \<longleftrightarrow> (\<exists>v\<in>set (snp (refvals m)). names_insecure (snp_platform v))
     \<or> (\<exists>v\<in>set (tdx (refvals m)). names_insecure (tdx_platform v))"
  by (simp add: has_insecure_platforms_def any_reference_value_def list_ex_iff names_insecure_def)

lemma has_secure_iff:
  "has_secure_platforms m \<longleftrightarrow> (\<exists>v\<in>set (snp (refvals m)). \<not> names_insecure (snp_platform v))
     \<or> (\<exists>v\<in>set (tdx (refvals m)). \<not> names_insecure (tdx_platform v))"
proof -
  have "(case r of Inl _ \<Rightarrow> True | Inr p \<Rightarrow> \<not> is_insecure p) \<longleftrightarrow>
      \<not> (case r of Inl _ \<Rightarrow> False | Inr p \<Rightarrow> is_insecure p)" for r :: "platform result"
    by (cases r) simp_all
  then show ?thesis
    by (simp add: has_secure_platforms_def any_reference_value_def list_ex_iff names_insecure_def)
qed

section \<open>What only-missing leaves open\<close>

text \<open>An error of which no part is an expected-missing error decides against only-missing.\<close>

lemma only_missing_cons_unexpected:
  assumes "x = None \<or> (\<exists>p e es. x = Some (Invalid p (e # es)) \<and> as_expected_missing e = None)"
  shows "only_missing (errors_join (x # es)) \<longleftrightarrow> x = None \<and> only_missing (errors_join es)"
proof (cases x)
  case (Some y)
  with assms obtain p e fs where "x = Some (Invalid p (e # fs))" "as_expected_missing e = None" by auto
  then show ?thesis by (simp add: only_missing_first)
qed simp

lemma policy_error_unexpected:
  "labelled p (policy_entry_validate e h) = None
   \<or> (\<exists>q f fs. labelled p (policy_entry_validate e h) = Some (Invalid q (f # fs)) \<and> as_expected_missing f = None)"
proof -
  have hex: "as_expected_missing er = None \<and> flatten_validation_error er = [er]" if "hex_bytes h = Inl er" for er
    using that plain_as plain_flat hex_decode_plain by (auto simp: hex_bytes_def)
  show ?thesis
    by (auto simp: policy_entry_validate_def labelled_def errors_join_def new_validation_error_def
        validate_role_def hex split: sum.split)
qed

lemma only_missing_skip_policies:
  "only_missing (errors_join (map (\<lambda>(h, e). labelled (q h) (policy_entry_validate e h)) ps @ es))
   \<longleftrightarrow> (\<forall>(h, e)\<in>set ps. labelled (q h) (policy_entry_validate e h) = None) \<and> only_missing (errors_join es)"
proof (induction ps)
  case (Cons p ps)
  then show ?case
    using only_missing_cons_unexpected [OF policy_error_unexpected] by (cases p) simp
qed simp

lemma joined_invalid_not_missing:
  assumes "errors_join es = Some e" "\<not> only_missing (Some e)" "\<forall>x\<in>set es. x = None \<or> (\<exists>p fs. x = Some (Invalid p fs))"
  shows "\<exists>fs. labelled path (Some e) = Some (Invalid path fs) \<and> \<not> only_expected_missing (Invalid path fs)"
proof -
  obtain y ys where ys: "map the (filter (\<lambda>e. e \<noteq> None) es) = y # ys" "e = Joined (y # ys)"
    using assms(1) by (auto simp: errors_join_def split: list.splits)
  have inv: "\<exists>p fs. z = Invalid p fs" if "z \<in> set (y # ys)" for z
    using that assms(3) unfolding ys(1) [symmetric] by auto
  then have flat: "concat (map flatten_validation_error zs) = zs" if "set zs \<subseteq> set (y # ys)" for zs
    using that by (induction zs) fastforce+
  obtain p fs where y: "y = Invalid p fs" using inv [of y] by auto
  then have "\<not> only_expected_missing y" using assms(2) ys(2) by (simp add: only_missing_def)
  then have "\<not> only_expected_missing (Invalid path (y # ys))" using y by simp
  moreover have "labelled path (Some e) = Some (Invalid path (y # ys))"
    using flat [of "y # ys"] ys(2) by (simp add: labelled_def new_validation_error_def)
  ultimately show ?thesis by blast
qed

lemma labelled_or_none: "labelled p err = None \<or> (\<exists>q fs. labelled p err = Some (Invalid q fs))"
  using labelled_Invalid [of p err] by (cases "labelled p err") auto

text \<open>An unknown product is not a missing value, and it goes unnoticed behind an incomplete TCB.\<close>

lemma snp_missing_hides_product:
  assumes "\<not> names_insecure (snp_platform r)" "\<not> tcb_complete (minimum_tcb r)" "product_name r \<noteq> milan" "product_name r \<noteq> genoa"
  shows "\<exists>es x. snp_validate r = Some (Joined es) \<and> x \<in> set es \<and> as_expected_missing x = None"
proof -
  let ?x = "Invalid ''ProductName'' [Msg (''unknown product name: '' @ product_name r)]"
  obtain es where es: "snp_validate r = errors_join es" "Some ?x \<in> set es"
    using assms(1,3,4) labelled_plain [of "Msg (''unknown product name: '' @ product_name r)" "''ProductName''"]
    unfolding snp_validate_def by (simp only: if_False if_True simp_thms plain_error.simps) fastforce
  then have x: "?x \<in> set (map the (filter (\<lambda>e. e \<noteq> None) es))" by force
  then have "snp_validate r = Some (Joined (map the (filter (\<lambda>e. e \<noteq> None) es)))"
    unfolding es(1) errors_join_def by (cases "map the (filter (\<lambda>e. e \<noteq> None) es)") (simp_all only: list.set empty_iff list.case)
  moreover have "as_expected_missing ?x = None" by simp
  ultimately show ?thesis using x by blast
qed

lemma names_insecure_empty: "\<not> names_insecure ''''"
  by code_simp

lemma snp_missing_hides: "\<exists>r es x. only_missing (snp_validate r) \<and> snp_validate r = Some (Joined es)
  \<and> x \<in> set es \<and> as_expected_missing x = None"
proof -
  let ?r = "undefined\<lparr>snp_platform := '''', product_name := '''', minimum_tcb := \<lparr>bootloader_version = None,
    tee_version = None, snp_version = None, microcode_version = None\<rparr>\<rparr>"
  have r: "\<not> names_insecure (snp_platform ?r)" "\<not> tcb_complete (minimum_tcb ?r)" "product_name ?r \<noteq> milan"
    "product_name ?r \<noteq> genoa"
    by (simp_all add: tcb_complete_def milan_def genoa_def names_insecure_empty)
  have "only_missing (snp_validate ?r)" using r(1,2) by (simp only: snp_only_missing)
  with snp_missing_hides_product [OF r] show ?thesis by blast
qed

lemma indexed_or_none: "x \<in> set (indexed path f i xs) \<Longrightarrow> x = None \<or> (\<exists>q fs. x = Some (Invalid q fs))"
  by (induction xs arbitrary: i) (use labelled_or_none in auto)

lemma tcb_or_none: "tcb_validate t = None \<or> (\<exists>q fs. tcb_validate t = Some (Invalid q fs))"
  by (simp add: tcb_validate_cases)

lemma snp_validate_invalid:
  assumes "snp_validate v = Some e" "\<not> only_missing (snp_validate v)"
  shows "\<exists>fs. labelled path (snp_validate v) = Some (Invalid path fs) \<and> \<not> only_expected_missing (Invalid path fs)"
  unfolding assms(1)
proof (rule joined_invalid_not_missing)
  show "\<not> only_missing (Some e)" using assms by simp
  show "errors_join ([tcb_validate (minimum_tcb v),
      labelled ''ProductName'' (if product_name v = milan \<or> product_name v = genoa then None
        else Some (Msg (''unknown product name: '' @ product_name v))),
      (if trusted_measurement v = ''''
       then new_validation_error ''TrustedMeasurement'' [Some (Msg ''field cannot be empty'')]
       else labelled ''TrustedMeasurement'' (validate_hex_string (trusted_measurement v) 48)),
      (if apeip v \<noteq> '''' then labelled ''APEIP'' (validate_hex_string (apeip v) 4) else None)]
     @ indexed (\<lambda>i. ''AllowedChipIDs['' @ dec_string i @ '']'') (\<lambda>c. validate_hex_string c 64) 0 (allowed_chip_ids v))
    = Some e"
    using assms(1) unfolding snp_validate_def
    by (cases "names_insecure (snp_platform v)") (simp_all only: if_True if_False option.distinct)
qed (use tcb_or_none labelled_or_none in \<open>auto simp: new_validation_error_def dest: indexed_or_none\<close>)

lemma tdx_validate_invalid:
  assumes "tdx_validate v = Some e" "\<not> only_missing (tdx_validate v)"
  shows "\<exists>fs. labelled path (tdx_validate v) = Some (Invalid path fs) \<and> \<not> only_expected_missing (Invalid path fs)"
  unfolding assms(1)
proof (rule joined_invalid_not_missing)
  show "\<not> only_missing (Some e)" using assms by simp
  show "errors_join ([labelled ''MrTd'' (validate_hex_string (mr_td v) 48),
      labelled ''MrSeam'' (map_option ExpectedMissing (validate_hex_string (mr_seam v) 48)),
      labelled ''Xfam'' (validate_hex_string (xfam v) 8)]
     @ indexed (\<lambda>i. ''RTMR['' @ dec_string (i + 1) @ '']'') (\<lambda>v. validate_hex_string v 48) 0 (rtmrs v)) = Some e"
    using assms(1) unfolding tdx_validate_def
    by (cases "names_insecure (tdx_platform v)") (simp_all only: if_True if_False option.distinct)
qed (use labelled_or_none in \<open>auto dest: indexed_or_none\<close>)

lemma classify_mem:
  assumes "v \<in> set vs" "\<not> only_missing (f v)"
  shows "\<exists>path. labelled path (f v) \<in> set (classify name f i vs)"
  using assms
proof (induction vs arbitrary: i)
  case (Cons a vs)
  show ?case
  proof (cases "v = a")
    case True
    with Cons.prems(2) show ?thesis by (auto simp: Let_def)
  next
    case False
    with Cons.prems Cons.IH [of "Suc i"] show ?thesis by (auto simp: Let_def)
  qed
qed simp

lemma classify_cases:
  "x \<in> set (classify name f i vs) \<Longrightarrow> x = None \<or> (\<exists>q. x = Some (ExpectedMissing (Msg q))) \<or> (\<exists>q fs. x = Some (Invalid q fs))"
proof (induction vs arbitrary: i)
  case (Cons v vs)
  from Cons.prems consider "x = Some (ExpectedMissing (Msg (name @ ''['' @ dec_string i @ '']'')))"
    | "x = labelled (name @ ''['' @ dec_string i @ '']'') (f v)" | "x \<in> set (classify name f (Suc i) vs)"
    by (auto simp: Let_def split: if_split_asm)
  then show ?case
  proof cases
    case 2
    then show ?thesis using labelled_or_none [of "name @ ''['' @ dec_string i @ '']''" "f v"] by (simp only:) blast
  next
    case 3
    then show ?thesis by (rule Cons.IH)
  qed blast
qed simp

text \<open>
  When only values are missing in the reference values, every value passes or its own first error is a
  missing one.
\<close>

lemma refvals_only_missing:
  assumes "reference_values_validate r \<noteq> None"
    and "only_missing (errors_join (labelled p (reference_values_validate r) # es))"
  shows "(snp r \<noteq> [] \<or> tdx r \<noteq> []) \<and> (\<forall>v\<in>set (snp r). snp_validate v = None \<or> only_missing (snp_validate v))
    \<and> (\<forall>v\<in>set (tdx r). tdx_validate v = None \<or> only_missing (tdx_validate v))"
proof -
  let ?L = "classify ''snp'' snp_validate 0 (snp r) @ classify ''tdx'' tdx_validate 0 (tdx r)
      @ [if length (snp r) + length (tdx r) = 0
         then Some (Msg ''reference values in manifest cannot be empty. Is the chosen platform supported?'')
         else None]"
  obtain xs where xs: "xs = map the (filter (\<lambda>e. e \<noteq> None) ?L)" "reference_values_validate r = Some (Joined xs)"
    using assms(1) unfolding reference_values_validate_def errors_join_def by (auto split: list.splits)
  have elem: "flatten_validation_error x = [x]" if "x \<in> set xs" for x
    using that unfolding xs(1) by (auto dest: classify_cases split: if_split_asm)
  then have "concat (map flatten_validation_error zs) = zs" if "set zs \<subseteq> set xs" for zs
    using that by (induction zs) auto
  then have flat: "concat (map flatten_validation_error xs) = xs" by simp
  have "xs \<noteq> []" using assms(1) xs(2) reference_values_validate_flat [of r "Joined xs"] by (auto simp: flat_nonempty_def)
  then have "labelled p (reference_values_validate r) = Some (Invalid p xs)"
    using flat by (simp add: xs(2) labelled_def new_validation_error_def)
  then have "only_expected_missing (Invalid p xs)" using assms(2) by (simp only: only_missing_first)
  then have ok: "(\<forall>v. as_validation x = Some v \<longrightarrow> only_expected_missing v) \<and> as_expected_missing x \<noteq> None" if "x \<in> set xs" for x
    using that by (auto simp: list_all_iff split: option.splits)
  have mem: "x \<in> set xs" if "Some x \<in> set ?L" for x
  proof -
    have "Some x \<in> set (filter (\<lambda>e. e \<noteq> None) ?L)" unfolding set_filter mem_Collect_eq using that by blast
    then have "the (Some x) \<in> set xs" unfolding xs(1) set_map by (rule imageI)
    then show ?thesis by simp
  qed
  have bad: "only_expected_missing (Invalid path fs)" if "Some (Invalid path fs) \<in> set ?L" for path fs
    using ok [OF mem [OF that]] by simp
  have S: "snp_validate v = None \<or> only_missing (snp_validate v)" if mv: "v \<in> set (snp r)" for v
  proof (rule ccontr)
    assume n: "\<not> ?thesis"
    then obtain path where "labelled path (snp_validate v) \<in> set ?L"
      using classify_mem [OF mv, of snp_validate "''snp''" 0] by auto
    with n bad show False using snp_validate_invalid [of v _ path] by (metis option.exhaust)
  qed
  have T: "tdx_validate v = None \<or> only_missing (tdx_validate v)" if mv: "v \<in> set (tdx r)" for v
  proof (rule ccontr)
    assume n: "\<not> ?thesis"
    then obtain path where "labelled path (tdx_validate v) \<in> set ?L"
      using classify_mem [OF mv, of tdx_validate "''tdx''" 0] by auto
    with n bad show False using tdx_validate_invalid [of v _ path] by (metis option.exhaust)
  qed
  have "snp r \<noteq> [] \<or> tdx r \<noteq> []"
  proof (rule ccontr)
    assume n: "\<not> ?thesis"
    then have "Msg ''reference values in manifest cannot be empty. Is the chosen platform supported?'' \<in> set xs"
      by (intro mem) simp
    from ok [OF this] show False by simp
  qed
  with S T show ?thesis by blast
qed

text \<open>What a manifest in which nothing or only values are missing is known to hold.\<close>

lemma manifest_only_missing:
  assumes "manifest_validate K m = None \<or> only_missing (manifest_validate K m)" "coordinator_policy_hashes m = Inr hs"
  shows "(\<forall>(h, e)\<in>set (policies m). hex_of_size 32 h \<and> (role e = role_none \<or> role e = role_coordinator))
    \<and> (snp (refvals m) \<noteq> [] \<or> tdx (refvals m) \<noteq> [])
    \<and> (\<forall>v\<in>set (snp (refvals m)). names_insecure (snp_platform v) \<or> snp_complete v \<or> \<not> tcb_complete (minimum_tcb v))
    \<and> (\<forall>v\<in>set (tdx (refvals m)). names_insecure (tdx_platform v) \<or> tdx_complete v
         \<or> hex_of_size 48 (mr_td v) \<and> \<not> hex_of_size 48 (mr_seam v))"
  using assms(1)
proof
  assume "manifest_validate K m = None"
  then show ?thesis by (auto simp: manifest_validate_None manifest_ok_def refvals_complete_def)
next
  let ?q = "\<lambda>h. ''Policies['' @ quoted h @ '']''"
  assume "only_missing (manifest_validate K m)"
  then have pol: "\<forall>(h, e)\<in>set (policies m). labelled (?q h) (policy_entry_validate e h) = None"
    and rest: "\<exists>es. only_missing (errors_join (labelled ''ReferenceValues'' (reference_values_validate (refvals m)) # es))"
    unfolding manifest_validate_def assms(2) sum.case only_missing_skip_policies by auto
  have "\<forall>(h, e)\<in>set (policies m). hex_of_size 32 h \<and> (role e = role_none \<or> role e = role_coordinator)"
    using pol by (auto simp: labelled_None policy_entry_validate_flat policy_entry_validate_None)
  moreover have "(snp (refvals m) \<noteq> [] \<or> tdx (refvals m) \<noteq> [])
    \<and> (\<forall>v\<in>set (snp (refvals m)). snp_validate v = None \<or> only_missing (snp_validate v))
    \<and> (\<forall>v\<in>set (tdx (refvals m)). tdx_validate v = None \<or> only_missing (tdx_validate v))"
  proof (cases "reference_values_validate (refvals m) = None")
    case True
    then show ?thesis by (auto simp: reference_values_validate_None refvals_complete_def snp_validate_None tdx_validate_None)
  next
    case False
    then show ?thesis using rest refvals_only_missing by blast
  qed
  ultimately show ?thesis
    by (auto simp: snp_validate_None snp_only_missing tdx_validate_None tdx_only_missing)
qed

section \<open>The default manifest\<close>

lemma names_insecure_platform_string [simp]: "names_insecure (platform_string p) = is_insecure p"
proof (cases "p = Unknown")
  case True
  have "from_string (platform_string Unknown) = Inl (Msg (''unknown platform: '' @ ''Unknown''))"
    by code_simp
  with True show ?thesis by (simp add: names_insecure_def)
qed (simp add: names_insecure_def from_string_platform_string)

lemma find_platform_mem: "find_platform p es = Inr rv \<Longrightarrow> \<exists>h. (h, rv) \<in> set es \<and> platform_from_handler h = Inr p"
  by (induction p es rule: find_platform.induct) (auto split: sum.splits if_splits)

lemma merge_platforms_platforms:
  assumes "merge_platforms emb a ps = Inr rv"
  shows "set (map snp_platform (snp rv)) \<subseteq> set (map snp_platform (snp a)) \<union> platform_string ` set ps"
    and "set (map tdx_platform (tdx rv)) \<subseteq> set (map tdx_platform (tdx a)) \<union> platform_string ` set ps"
  using assms
  by (induction emb a ps rule: merge_platforms.induct)
    (auto simp: append_values_def mark_platform_def split: sum.splits)

lemma default_manifest_platforms:
  assumes "default_manifest emb ps = Inr m"
  shows "\<forall>v\<in>set (snp (refvals m)). snp_platform v \<in> platform_string ` set ps"
    and "\<forall>v\<in>set (tdx (refvals m)). tdx_platform v \<in> platform_string ` set ps"
  using assms merge_platforms_platforms [of emb no_values ps]
  by (auto simp: default_manifest_def no_values_def split: sum.splits)

lemma default_manifest_secure:
  assumes "default_manifest emb ps = Inr m" and "\<forall>p\<in>set ps. \<not> is_insecure p"
  shows "\<not> has_insecure_platforms m"
  using default_manifest_platforms [OF assms(1)] assms(2) by (fastforce simp: has_insecure_iff)

section \<open>Patches\<close>

lemma patch_each_length [simp]: "length (snd (patch_each w f vs)) = length vs"
  by (induction vs) (auto split: prod.splits option.splits)

lemma patch_each_ok:
  "fst (patch_each w f vs) = None \<longleftrightarrow> (\<forall>v\<in>set vs. fst (f v) = None)"
  "fst (patch_each w f vs) = None \<Longrightarrow> snd (patch_each w f vs) = map (\<lambda>v. snd (f v)) vs"
  by (induction vs) (auto split: prod.splits option.splits)

lemma apply_patch_test_failed:
  assumes "to_json v = Inr b" and "patch_apply L p b = Inl e" and "err_is e (err_test_failed L)"
  shows "apply_patch L to_json from_json p v = (None, v)"
  using assms by (simp add: apply_patch_def)

end
