(* ===== verification/Seedengine.thy ===== *)
theory Seedengine
  imports History
begin

text \<open>
  \<open>internal/seedengine/seedengine.go\<close>: every secret of the Coordinator derives from a seed
  and a salt. HKDF over SHA-256 and the deterministic ECDSA key generation are the record
  \<open>kdf\<close>. The lemmas show that seed and salt determine the engine (what recovery relies on),
  the sizes of the derived secrets, and that different purposes, workload secret ids and
  transit keys use different HKDF infos.
\<close>

text \<open>
  \<open>hkdf_read secret salt info n\<close> are the first \<open>n\<close> bytes of the HKDF stream;
  \<open>generate_key\<close> is \<open>ecdsa.GenerateKey\<close> on P-384 with the bytes \<open>rand.Reader\<close> yields.
\<close>

record 'sk kdf =
  hkdf_read :: "bytes \<Rightarrow> bytes \<Rightarrow> bytes \<Rightarrow> nat \<Rightarrow> bytes result"
  keygen_ecdsa :: "bytes \<Rightarrow> 'sk result"
  generate_key :: "bytes \<Rightarrow> 'sk result"

record 'sk seed_engine =
  seed :: bytes
  salt :: bytes
  pod_state_seed :: bytes
  history_seed :: bytes
  transit_engine_seed :: bytes
  root_ca_key :: 'sk
  transaction_signing_key :: 'sk

definition hkdf_derive :: "'sk kdf \<Rightarrow> bytes \<Rightarrow> bytes \<Rightarrow> string \<Rightarrow> bytes result" where
  "hkdf_derive K slt secret info = hkdf_read K secret slt (bytes_of_string info) (length secret)"

definition deriving :: "bytes result \<Rightarrow> bytes result" where
  "deriving r = (case r of Inl e \<Rightarrow> Inl (Wrap ''deriving seed'' e) | Inr b \<Rightarrow> Inr b)"

definition new_seed_engine :: "'sk kdf \<Rightarrow> bytes \<Rightarrow> bytes \<Rightarrow> 'sk seed_engine result" where
  "new_seed_engine K secret slt =
     (if length slt \<noteq> hash_size then Inl (Msg ''salt must be 32 bytes long'')
      else if length secret < hash_size then Inl (Msg ''secret seed must be at least 32 bytes long'')
      else
     (case deriving (hkdf_derive K slt secret ''POD STATE SECRET'') of Inl e \<Rightarrow> Inl e | Inr pod \<Rightarrow>
     (case deriving (hkdf_derive K slt secret ''HISTORY SECRET'') of Inl e \<Rightarrow> Inl e | Inr hst \<Rightarrow>
     (case deriving (hkdf_derive K slt secret ''TRANSIT ENGINE SECRET'') of Inl e \<Rightarrow> Inl e | Inr trn \<Rightarrow>
     (case deriving (hkdf_derive K slt secret ''TRANSACTION SIGNING SECRET'') of Inl e \<Rightarrow> Inl e | Inr sign \<Rightarrow>
     (case deriving (hkdf_derive K slt secret ''ROOT CA SEED'') of Inl e \<Rightarrow> Inl e | Inr root \<Rightarrow>
     (case keygen_ecdsa K sign of
        Inl e \<Rightarrow> Inl (Wrap ''generating ECDSA key'' e)
      | Inr sk \<Rightarrow>
     (case keygen_ecdsa K root of
        Inl e \<Rightarrow> Inl (Wrap ''generating ECDSA key'' e)
      | Inr rk \<Rightarrow> Inr \<lparr>seed = secret, salt = slt, pod_state_seed = pod, history_seed = hst,
          transit_engine_seed = trn, root_ca_key = rk, transaction_signing_key = sk\<rparr>))))))))"

definition workload_secret_info :: "string \<Rightarrow> string" where
  "workload_secret_info wid = ''WORKLOAD SECRET ID: '' @ wid"

definition derive_workload_secret :: "'sk kdf \<Rightarrow> 'sk seed_engine \<Rightarrow> string \<Rightarrow> bytes result" where
  "derive_workload_secret K se wid =
     (if wid = '''' then Inl (Msg ''workload secret ID must not be empty'')
      else hkdf_derive K (salt se) (pod_state_seed se) (workload_secret_info wid))"

definition transit_key_info :: "32 word \<Rightarrow> string \<Rightarrow> string" where
  "transit_key_info version name =
     ''TRANSIT ENGINE KEY: '' @ dec_string (unat version) @ '' '' @ name"

definition derive_transit_engine_key ::
  "'sk kdf \<Rightarrow> 'sk seed_engine \<Rightarrow> 32 word \<Rightarrow> string \<Rightarrow> bytes result" where
  "derive_transit_engine_key K se version name =
     (if name = '''' then Inl (Msg ''transit engine key name must not be empty'')
      else hkdf_derive K (salt se) (transit_engine_seed se) (transit_key_info version name))"

definition generate_mesh_ca_key :: "'sk kdf \<Rightarrow> bytes \<Rightarrow> 'sk result" where
  "generate_mesh_ca_key K rnd = generate_key K rnd"

section \<open>The engine is a function of seed and salt\<close>

lemma new_seed_engine_inputs:
  assumes "new_seed_engine K secret slt = Inr se"
  shows "seed se = secret" and "salt se = slt" and "length slt = 32" and "32 \<le> length secret"
  using assms by (auto simp: new_seed_engine_def hash_size_def split: if_splits sum.splits)

text \<open>A peer or a user that sends back seed and salt rebuilds the same engine, keys included.\<close>

lemma new_seed_engine_recovers:
  assumes "new_seed_engine K secret slt = Inr se"
  shows "new_seed_engine K (seed se) (salt se) = Inr se"
  using assms new_seed_engine_inputs [OF assms] by simp

lemma new_seed_engine_rejects:
  "length slt \<noteq> 32 \<or> length secret < 32 \<Longrightarrow> \<exists>e. new_seed_engine K secret slt = Inl e"
  by (auto simp: new_seed_engine_def hash_size_def)

section \<open>Domain separation\<close>

definition seed_infos :: "string list" where
  "seed_infos = [''POD STATE SECRET'', ''HISTORY SECRET'', ''TRANSIT ENGINE SECRET'',
     ''TRANSACTION SIGNING SECRET'', ''ROOT CA SEED'']"

lemma seed_infos_distinct: "distinct seed_infos"
  by code_simp

lemma workload_secret_info_inject: "workload_secret_info a = workload_secret_info b \<longleftrightarrow> a = b"
  by (simp add: workload_secret_info_def)

lemma digit_char: "n < 10 \<Longrightarrow> of_char (char_of (48 + n) :: char) = 48 + (n :: nat)"
  by (simp add: of_char_of take_bit_eq_mod)

lemma dec_string_digits: "c \<in> set (dec_string n) \<Longrightarrow> 48 \<le> (of_char c :: nat) \<and> (of_char c :: nat) \<le> 57"
proof (induction n rule: dec_string.induct)
  case (1 n)
  then show ?case
    using digit_char [of n] digit_char [of "n mod 10"]
    by (subst (asm) (2) dec_string.simps) (auto split: if_splits)
qed

fun dec_value :: "string \<Rightarrow> nat \<Rightarrow> nat" where
  "dec_value [] acc = acc"
| "dec_value (c # s) acc = dec_value s (10 * acc + (of_char c - 48))"

lemma dec_value_append: "dec_value (s @ t) acc = dec_value t (dec_value s acc)"
  by (induction s arbitrary: acc) simp_all

lemma dec_value_dec_string: "dec_value (dec_string n) 0 = n"
proof (induction n rule: dec_string.induct)
  case (1 n)
  then show ?case
    using digit_char [of n] digit_char [of "n mod 10"]
    by (subst dec_string.simps) (simp add: dec_value_append)
qed

lemma dec_string_inject: "dec_string a = dec_string b \<longleftrightarrow> a = b"
  by (metis dec_value_dec_string)

lemma split_at_unique: "c \<notin> set a \<Longrightarrow> c \<notin> set b \<Longrightarrow> a @ c # s = b @ c # t \<Longrightarrow> a = b \<and> s = t"
proof (induction a arbitrary: b)
  case Nil
  then show ?case by (cases b) auto
next
  case (Cons x a)
  then show ?case by (cases b) auto
qed

text \<open>The decimal version ends at the blank, so no two pairs share an info.\<close>

lemma transit_key_info_inject:
  "transit_key_info v a = transit_key_info w b \<longleftrightarrow> v = w \<and> a = b"
proof
  assume eq: "transit_key_info v a = transit_key_info w b"
  have no_blank: "CHR '' '' \<notin> set (dec_string n)" for n
    using dec_string_digits [of "CHR '' ''" n] by auto
  have "dec_string (unat v) @ CHR '' '' # a = dec_string (unat w) @ CHR '' '' # b"
    using eq by (simp add: transit_key_info_def)
  then have "dec_string (unat v) = dec_string (unat w) \<and> a = b"
    by (intro split_at_unique [OF no_blank no_blank]) simp
  then show "v = w \<and> a = b" by (simp add: dec_string_inject word_unat_eq_iff)
qed simp

text \<open>Reading exactly as many bytes as the secret is long: the contract of \<open>io.ReadFull\<close>.\<close>

locale hkdf_stream =
  fixes K :: "'sk kdf"
  assumes read_full: "hkdf_read K secret slt info n = Inr b \<Longrightarrow> length b = n"
begin

lemma seed_sizes:
  assumes "new_seed_engine K secret slt = Inr se"
  shows "length (pod_state_seed se) = length secret" and "length (transit_engine_seed se) = length secret"
    and "length (history_seed se) = length secret"
  using assms read_full
  by (auto simp: new_seed_engine_def hkdf_derive_def deriving_def split: if_splits sum.splits)

lemma workload_secret_size:
  assumes "new_seed_engine K secret slt = Inr se" and "derive_workload_secret K se wid = Inr b"
  shows "length b = length secret"
  using assms read_full seed_sizes [OF assms(1)]
  by (auto simp: derive_workload_secret_def hkdf_derive_def split: if_splits)

lemma transit_key_size:
  assumes "new_seed_engine K secret slt = Inr se" and "derive_transit_engine_key K se v name = Inr b"
  shows "length b = length secret"
  using assms read_full seed_sizes [OF assms(1)]
  by (auto simp: derive_transit_engine_key_def hkdf_derive_def split: if_splits)

end

text \<open>An instance: the stream repeats secret, salt and info; a key is its seed.\<close>

definition plain_kdf :: "bytes kdf" where
  "plain_kdf = \<lparr>
     hkdf_read = (\<lambda>secret slt info n. Inr (copy_into (replicate n 0) (rev info @ secret @ slt))),
     keygen_ecdsa = (\<lambda>s. Inr s), generate_key = (\<lambda>r. Inr r)\<rparr>"

interpretation plain_hkdf: hkdf_stream plain_kdf
  by unfold_locales (auto simp: plain_kdf_def)

end
