(* ===== verification/Ca.thy ===== *)
theory Ca
  imports Prelude "HOL-Library.Countable"
begin

text \<open>
  \<open>internal/ca/ca.go\<close>: the Coordinator's certificate authority. Three CA certificates are
  made from two keys: a self-signed root, an intermediate signed by the root key, and a
  self-signed mesh root that shares the intermediate's name and key, so that one leaf
  verifies against either. \<open>crypto/x509\<close>, the clock's calendar arithmetic and the two
  address parsers are the record \<open>certlib\<close>.
\<close>

datatype key_usage = DigitalSignature | CertSign
datatype ext_key_usage = ClientAuth | ServerAuth

text \<open>The fields of \<open>x509.Certificate\<close> the code sets or the library reads from a parent.\<close>

record ('pk, 'ext, 'ip, 'uri) certificate =
  subject_cn :: string
  not_before :: int
  not_after :: int
  is_ca :: bool
  key_usages :: "key_usage list"
  ext_key_usages :: "ext_key_usage list"
  basic_constraints_valid :: bool
  extra_extensions :: "'ext list"
  dns_names :: "string list"
  ip_addresses :: "'ip list"
  uris :: "'uri list"
  serial_number :: "int option"
  cert_public_key :: "'pk option"
  issuer_cn :: string

text \<open>
  \<open>create_certificate rnd template parent pub priv\<close> is the DER encoding; \<open>rand_int\<close> is
  \<open>rand.Int\<close> below a limit; \<open>parse_url\<close> returns the URI with its scheme. Times are
  seconds; \<open>add_years\<close> is \<open>AddDate\<close> for whole years.
\<close>

record ('sk, 'pk, 'ext, 'ip, 'uri) certlib =
  create_certificate :: "bytes \<Rightarrow> ('pk, 'ext, 'ip, 'uri) certificate \<Rightarrow> ('pk, 'ext, 'ip, 'uri) certificate
    \<Rightarrow> 'pk \<Rightarrow> 'sk \<Rightarrow> bytes result"
  parse_certificate :: "bytes \<Rightarrow> ('pk, 'ext, 'ip, 'uri) certificate result"
  pem_certificate :: "bytes \<Rightarrow> bytes"
  append_certs_from_pem :: "bytes \<Rightarrow> ('pk, 'ext, 'ip, 'uri) certificate list \<Rightarrow>
    ('pk, 'ext, 'ip, 'uri) certificate list \<times> bool"
  rand_int :: "bytes \<Rightarrow> int \<Rightarrow> int result"
  key_public :: "'sk \<Rightarrow> 'pk"
  parse_ip :: "string \<Rightarrow> 'ip option"
  parse_url :: "string \<Rightarrow> ('uri \<times> string) result"
  add_years :: "int \<Rightarrow> int \<Rightarrow> int"

definition generate_certificate_serial_number ::
  "('sk, 'pk, 'ext, 'ip, 'uri) certlib \<Rightarrow> bytes \<Rightarrow> int result" where
  "generate_certificate_serial_number X rnd = rand_int X rnd (2 ^ 128)"

text \<open>The randomness of one certificate: for its serial number and for the signature.\<close>

type_synonym cert_rnd = "bytes \<times> bytes"

definition create_cert ::
  "('sk, 'pk, 'ext, 'ip, 'uri) certlib \<Rightarrow> cert_rnd \<Rightarrow> ('pk, 'ext, 'ip, 'uri) certificate option
   \<Rightarrow> ('pk, 'ext, 'ip, 'uri) certificate option \<Rightarrow> 'pk \<Rightarrow> 'sk
   \<Rightarrow> (('pk, 'ext, 'ip, 'uri) certificate \<times> bytes) result" where
  "create_cert X rnd template parent pub priv =
     (case parent of
        None \<Rightarrow> Inl (Msg ''parent cannot be nil'')
      | Some par \<Rightarrow>
     (case template of
        None \<Rightarrow> Inl (Msg ''cert cannot be nil'')
      | Some tmpl \<Rightarrow>
     (if serial_number tmpl \<noteq> None then Inl (Msg ''cert serial number must be nil'')
      else
     (case generate_certificate_serial_number X (fst rnd) of
        Inl e \<Rightarrow> Inl (Wrap ''generating serial number'' e)
      | Inr sn \<Rightarrow>
     (let tmpl' = tmpl\<lparr>serial_number := Some sn\<rparr> in
      case create_certificate X (snd rnd) tmpl' par pub priv of
        Inl e \<Rightarrow> Inl (Wrap ''creating certificate'' e)
      | Inr der \<Rightarrow>
     (case parse_certificate X der of
        Inl e \<Rightarrow> Inl (Wrap ''parsing the created certificate'' e)
      | Inr cert \<Rightarrow> Inr (cert, pem_certificate X der)))))))"

text \<open>
  When template and parent are the same pointer, as for the self-signed certificates, the
  assignment of the serial number is seen through both; \<open>create_self_signed\<close> is that call.
\<close>

definition create_self_signed ::
  "('sk, 'pk, 'ext, 'ip, 'uri) certlib \<Rightarrow> cert_rnd \<Rightarrow> ('pk, 'ext, 'ip, 'uri) certificate
   \<Rightarrow> 'pk \<Rightarrow> 'sk \<Rightarrow> (('pk, 'ext, 'ip, 'uri) certificate \<times> bytes) result" where
  "create_self_signed X rnd tmpl pub priv =
     (if serial_number tmpl \<noteq> None then Inl (Msg ''cert serial number must be nil'')
      else
     (case generate_certificate_serial_number X (fst rnd) of
        Inl e \<Rightarrow> Inl (Wrap ''generating serial number'' e)
      | Inr sn \<Rightarrow>
     (let tmpl' = tmpl\<lparr>serial_number := Some sn\<rparr> in
      case create_certificate X (snd rnd) tmpl' tmpl' pub priv of
        Inl e \<Rightarrow> Inl (Wrap ''creating certificate'' e)
      | Inr der \<Rightarrow>
     (case parse_certificate X der of
        Inl e \<Rightarrow> Inl (Wrap ''parsing the created certificate'' e)
      | Inr cert \<Rightarrow> Inr (cert, pem_certificate X der)))))"

section \<open>The authority\<close>

record ('sk, 'pk, 'ext, 'ip, 'uri) ca =
  root_ca_priv_key :: 'sk
  root_ca_pem :: bytes
  interm_priv_key :: 'sk
  interm_ca_pem :: bytes
  mesh_ca_cert :: "('pk, 'ext, 'ip, 'uri) certificate"
  mesh_ca_pem :: bytes
  mesh_ca_cert_pool :: "('pk, 'ext, 'ip, 'uri) certificate list"

definition ca_template :: "string \<Rightarrow> int \<Rightarrow> int \<Rightarrow> ('pk, 'ext, 'ip, 'uri) certificate" where
  "ca_template cn nb na = \<lparr>subject_cn = cn, not_before = nb, not_after = na, is_ca = True,
     key_usages = [DigitalSignature, CertSign], ext_key_usages = [], basic_constraints_valid = True,
     extra_extensions = [], dns_names = [], ip_addresses = [], uris = [], serial_number = None,
     cert_public_key = None, issuer_cn = ''''\<rparr>"

definition root_cn :: string where "root_cn = ''system:coordinator:root''"
definition interm_cn :: string where "interm_cn = ''system:coordinator:intermediate''"

definition new_ca ::
  "('sk, 'pk, 'ext, 'ip, 'uri) certlib \<Rightarrow> (nat \<Rightarrow> cert_rnd) \<Rightarrow> int \<Rightarrow> 'sk \<Rightarrow> 'sk
   \<Rightarrow> ('sk, 'pk, 'ext, 'ip, 'uri) ca result" where
  "new_ca X rnd now root_priv interm_priv =
     (let nb = now - 3600; na = add_years X now 10 in
      case create_self_signed X (rnd 0) (ca_template root_cn nb na) (key_public X root_priv) root_priv of
        Inl e \<Rightarrow> Inl (Wrap ''creating root certificate'' e)
      | Inr (root_cert, root_pem) \<Rightarrow>
     (case create_cert X (rnd 1) (Some (ca_template interm_cn nb na)) (Some root_cert)
             (key_public X interm_priv) root_priv of
        Inl e \<Rightarrow> Inl (Wrap ''creating intermediate certificate'' e)
      | Inr (_, interm_pem) \<Rightarrow>
     (case create_self_signed X (rnd 2) (ca_template interm_cn nb na) (key_public X interm_priv) interm_priv of
        Inl e \<Rightarrow> Inl (Wrap ''creating mesh certificate'' e)
      | Inr (mesh_cert, mesh_pem) \<Rightarrow>
     (case append_certs_from_pem X mesh_pem [] of
        (pool, ok) \<Rightarrow>
          if \<not> ok then Inl (Msg ''creating mesh CA cert pool'')
          else Inr \<lparr>root_ca_priv_key = root_priv, root_ca_pem = root_pem, interm_priv_key = interm_priv,
                 interm_ca_pem = interm_pem, mesh_ca_cert = mesh_cert, mesh_ca_pem = mesh_pem,
                 mesh_ca_cert_pool = pool\<rparr>))))"

section \<open>Leaf certificates\<close>

text \<open>The loop that sorts the names into IP addresses, URIs and DNS names.\<close>

fun split_sans ::
  "('sk, 'pk, 'ext, 'ip, 'uri) certlib \<Rightarrow> string list \<Rightarrow> 'ip list \<times> 'uri list \<times> string list" where
  "split_sans X [] = ([], [], [])"
| "split_sans X (n # ns) = (case split_sans X ns of (ips, us, dns) \<Rightarrow>
     (case parse_ip X n of
        Some ip \<Rightarrow> (ip # ips, us, dns)
      | None \<Rightarrow>
          (case parse_url X n of
             Inr (u, scheme) \<Rightarrow> if scheme \<noteq> '''' then (ips, u # us, dns) else (ips, us, n # dns)
           | Inl _ \<Rightarrow> (ips, us, n # dns))))"

definition new_attested_mesh_cert ::
  "('sk, 'pk, 'ext, 'ip, 'uri) certlib \<Rightarrow> cert_rnd \<Rightarrow> int \<Rightarrow> ('sk, 'pk, 'ext, 'ip, 'uri) ca
   \<Rightarrow> string list \<Rightarrow> 'ext list \<Rightarrow> 'pk \<Rightarrow> bytes result" where
  "new_attested_mesh_cert X rnd now c names exts pub =
     (case split_sans X names of (ips, us, dns) \<Rightarrow>
        if dns = [] then Inl (Panic ''index out of range [0] with length 0'')
        else
     (let template = \<lparr>subject_cn = hd dns, not_before = now - 3600, not_after = add_years X now 1,
            is_ca = False, key_usages = [DigitalSignature], ext_key_usages = [ClientAuth, ServerAuth],
            basic_constraints_valid = True, extra_extensions = exts, dns_names = dns,
            ip_addresses = ips, uris = us, serial_number = None, cert_public_key = None, issuer_cn = ''''\<rparr>
      in case create_cert X rnd (Some template) (Some (mesh_ca_cert c)) pub (interm_priv_key c) of
           Inl e \<Rightarrow> Inl (Wrap ''failed to create certificate'' e)
         | Inr (_, pem) \<Rightarrow> Inr pem))"

definition get_root_ca_cert :: "('sk, 'pk, 'ext, 'ip, 'uri) ca \<Rightarrow> bytes" where
  "get_root_ca_cert c = root_ca_pem c"
definition get_interm_ca_priv_key :: "('sk, 'pk, 'ext, 'ip, 'uri) ca \<Rightarrow> 'sk" where
  "get_interm_ca_priv_key c = interm_priv_key c"
definition get_interm_ca_cert :: "('sk, 'pk, 'ext, 'ip, 'uri) ca \<Rightarrow> bytes" where
  "get_interm_ca_cert c = interm_ca_pem c"
definition get_mesh_ca_cert :: "('sk, 'pk, 'ext, 'ip, 'uri) ca \<Rightarrow> bytes" where
  "get_mesh_ca_cert c = mesh_ca_pem c"
definition get_mesh_ca_cert_pool :: "('sk, 'pk, 'ext, 'ip, 'uri) ca \<Rightarrow> ('pk, 'ext, 'ip, 'uri) certificate list" where
  "get_mesh_ca_cert_pool c = mesh_ca_cert_pool c"

section \<open>Lemmas\<close>

definition is_dns :: "('sk, 'pk, 'ext, 'ip, 'uri) certlib \<Rightarrow> string \<Rightarrow> bool" where
  "is_dns X n \<longleftrightarrow> parse_ip X n = None \<and> \<not> (\<exists>u s. parse_url X n = Inr (u, s) \<and> s \<noteq> '''')"

lemma split_sans_parts:
  assumes "split_sans X ns = (ips, us, dns)"
  shows "dns = filter (is_dns X) ns"
    and "ips = List.map_filter (parse_ip X) ns"
    and "length ips + length us + length dns = length ns"
  using assms
  by (induction ns arbitrary: ips us dns)
    (auto simp: is_dns_def List.map_filter_simps split: prod.splits option.splits sum.splits if_splits)

lemma mesh_cert_panics:
  "new_attested_mesh_cert X rnd now c names exts pub = Inl (Panic m) \<longleftrightarrow>
     m = ''index out of range [0] with length 0'' \<and> (\<forall>n\<in>set names. \<not> is_dns X n)"
proof -
  obtain ips us dns where s: "split_sans X names = (ips, us, dns)" by (metis prod_cases3)
  show ?thesis
    using split_sans_parts(1) [OF s]
    by (auto simp: new_attested_mesh_cert_def s Let_def filter_empty_conv split: sum.splits)
qed

text \<open>
  What the X.509 library promises about a certificate it has issued: parsing gives back the
  template's fields with the issuer and the public key filled in, a PEM file holds the
  certificate it was made of, and a signature is checked against the issuer's key.
\<close>

definition issued ::
  "('pk, 'ext, 'ip, 'uri) certificate \<Rightarrow> ('pk, 'ext, 'ip, 'uri) certificate \<Rightarrow> 'pk
   \<Rightarrow> ('pk, 'ext, 'ip, 'uri) certificate" where
  "issued template parent pub = template\<lparr>cert_public_key := Some pub, issuer_cn := subject_cn parent\<rparr>"

text \<open>
  A PEM file with the certificate \<open>cert\<close>, signed with the key of \<open>ipk\<close> as \<open>signed_by\<close> checks it.
\<close>

definition certifies ::
  "('sk, 'pk, 'ext, 'ip, 'uri) certlib \<Rightarrow> (bytes \<Rightarrow> 'pk \<Rightarrow> bool) \<Rightarrow> bytes
   \<Rightarrow> ('pk, 'ext, 'ip, 'uri) certificate \<Rightarrow> 'pk \<Rightarrow> bool" where
  "certifies X signed_by pem cert ipk \<longleftrightarrow> (\<exists>der. pem = pem_certificate X der \<and> parse_certificate X der = Inr cert
     \<and> signed_by der ipk)"

text \<open>
  \<open>signed_by der pk\<close> is the library's check that the certificate in \<open>der\<close> is
  signed by the key.
\<close>

locale x509_laws =
  fixes X :: "('sk, 'pk, 'ext, 'ip, 'uri) certlib"
    and signed_by :: "bytes \<Rightarrow> 'pk \<Rightarrow> bool"
  assumes parse_created: "create_certificate X r tmpl parent pub priv = Inr der \<Longrightarrow>
        parse_certificate X der = Inr (issued tmpl parent pub)"
    and created_signed: "create_certificate X r tmpl parent pub priv = Inr der \<Longrightarrow>
        signed_by der (key_public X priv)"
    and pool_pem: "parse_certificate X der = Inr cert \<Longrightarrow>
        append_certs_from_pem X (pem_certificate X der) pool = (pool @ [cert], True)"
begin

lemma create_cert_certifies:
  assumes "create_cert X rnd (Some tmpl) (Some par) pub priv = Inr (cert, pem)"
  shows "certifies X signed_by pem cert (key_public X priv) \<and>
     (\<exists>sn. cert = issued (tmpl\<lparr>serial_number := Some sn\<rparr>) par pub)"
  using assms parse_created created_signed
  by (auto simp: create_cert_def certifies_def Let_def split: if_splits sum.splits)

lemma create_self_signed_certifies:
  assumes "create_self_signed X rnd tmpl pub priv = Inr (cert, pem)"
  shows "certifies X signed_by pem cert (key_public X priv) \<and>
     (\<exists>sn. cert = issued (tmpl\<lparr>serial_number := Some sn\<rparr>) (tmpl\<lparr>serial_number := Some sn\<rparr>) pub)"
  using assms parse_created created_signed
  by (auto simp: create_self_signed_def certifies_def Let_def split: if_splits sum.splits)

text \<open>
  The three certificates of a new authority: root and mesh root are self-signed, the
  intermediate is issued by the root, and intermediate and mesh root share name and key.
\<close>

lemma new_ca_chains:
  assumes "new_ca X rnd now root_priv interm_priv = Inr c"
  shows "\<exists>root interm. certifies X signed_by (root_ca_pem c) root (key_public X root_priv)
      \<and> subject_cn root = root_cn \<and> issuer_cn root = root_cn
      \<and> cert_public_key root = Some (key_public X root_priv)
      \<and> certifies X signed_by (interm_ca_pem c) interm (key_public X root_priv)
      \<and> issuer_cn interm = subject_cn root
      \<and> certifies X signed_by (mesh_ca_pem c) (mesh_ca_cert c) (key_public X interm_priv)
      \<and> issuer_cn (mesh_ca_cert c) = subject_cn (mesh_ca_cert c)
      \<and> subject_cn interm = subject_cn (mesh_ca_cert c)
      \<and> cert_public_key interm = cert_public_key (mesh_ca_cert c)
      \<and> cert_public_key (mesh_ca_cert c) = Some (key_public X interm_priv)
      \<and> is_ca root \<and> is_ca interm \<and> is_ca (mesh_ca_cert c)"
    and "mesh_ca_cert_pool c = [mesh_ca_cert c]" and "interm_priv_key c = interm_priv"
proof -
  define nb na where "nb = now - 3600" and "na = add_years X now 10"
  obtain root rpem interm ipem mesh mpem pool where
    r: "create_self_signed X (rnd 0) (ca_template root_cn nb na) (key_public X root_priv) root_priv = Inr (root, rpem)"
    and i: "create_cert X (rnd 1) (Some (ca_template interm_cn nb na)) (Some root)
             (key_public X interm_priv) root_priv = Inr (interm, ipem)"
    and m: "create_self_signed X (rnd 2) (ca_template interm_cn nb na) (key_public X interm_priv) interm_priv = Inr (mesh, mpem)"
    and p: "append_certs_from_pem X mpem [] = (pool, True)"
    and c: "c = \<lparr>root_ca_priv_key = root_priv, root_ca_pem = rpem, interm_priv_key = interm_priv,
                 interm_ca_pem = ipem, mesh_ca_cert = mesh, mesh_ca_pem = mpem, mesh_ca_cert_pool = pool\<rparr>"
    using assms by (auto simp: new_ca_def Let_def nb_def na_def split: sum.splits prod.splits if_splits)
  note facts = create_self_signed_certifies [OF r] create_cert_certifies [OF i] create_self_signed_certifies [OF m]
  show "\<exists>root interm. certifies X signed_by (root_ca_pem c) root (key_public X root_priv)
      \<and> subject_cn root = root_cn \<and> issuer_cn root = root_cn
      \<and> cert_public_key root = Some (key_public X root_priv)
      \<and> certifies X signed_by (interm_ca_pem c) interm (key_public X root_priv)
      \<and> issuer_cn interm = subject_cn root
      \<and> certifies X signed_by (mesh_ca_pem c) (mesh_ca_cert c) (key_public X interm_priv)
      \<and> issuer_cn (mesh_ca_cert c) = subject_cn (mesh_ca_cert c)
      \<and> subject_cn interm = subject_cn (mesh_ca_cert c)
      \<and> cert_public_key interm = cert_public_key (mesh_ca_cert c)
      \<and> cert_public_key (mesh_ca_cert c) = Some (key_public X interm_priv)
      \<and> is_ca root \<and> is_ca interm \<and> is_ca (mesh_ca_cert c)"
    using facts by (intro exI [of _ root] exI [of _ interm]) (auto simp: c issued_def ca_template_def)
  show "interm_priv_key c = interm_priv" by (simp add: c)
  from facts(3) obtain der where "mpem = pem_certificate X der" "parse_certificate X der = Inr mesh"
    by (auto simp: certifies_def)
  then show "mesh_ca_cert_pool c = [mesh_ca_cert c]" using pool_pem [of der mesh "[]"] p by (simp add: c)
qed

text \<open>A leaf names the mesh root as its issuer and is signed by the key both CAs certify.\<close>

lemma mesh_cert_certified:
  assumes "new_attested_mesh_cert X rnd now c names exts pub = Inr pem"
  shows "\<exists>cert. certifies X signed_by pem cert (key_public X (interm_priv_key c))
      \<and> issuer_cn cert = subject_cn (mesh_ca_cert c) \<and> cert_public_key cert = Some pub
      \<and> \<not> is_ca cert \<and> extra_extensions cert = exts
      \<and> dns_names cert = filter (is_dns X) names \<and> subject_cn cert = hd (dns_names cert)"
proof -
  obtain ips us dns where s: "split_sans X names = (ips, us, dns)" by (metis prod_cases3)
  obtain tmpl cert where t: "tmpl = \<lparr>subject_cn = hd dns, not_before = now - 3600, not_after = add_years X now 1,
            is_ca = False, key_usages = [DigitalSignature], ext_key_usages = [ClientAuth, ServerAuth],
            basic_constraints_valid = True, extra_extensions = exts, dns_names = dns,
            ip_addresses = ips, uris = us, serial_number = None, cert_public_key = None, issuer_cn = ''''\<rparr>"
    and cc: "create_cert X rnd (Some tmpl) (Some (mesh_ca_cert c)) pub (interm_priv_key c) = Inr (cert, pem)"
    using assms by (auto simp: new_attested_mesh_cert_def s Let_def split: if_splits sum.splits)
  show ?thesis
    using create_cert_certifies [OF cc] split_sans_parts(1) [OF s]
    by (intro exI [of _ cert]) (auto simp: t issued_def)
qed

end

text \<open>
  An instance: certificates, with the key that signed them, are countable, and the DER
  encoding is the number of the pair written in unary; PEM adds nothing. Public keys and the
  opaque parts are byte strings, and a private key is its public key.
\<close>

instance key_usage :: countable by countable_datatype
instance ext_key_usage :: countable by countable_datatype
instance certificate_ext :: (countable, countable, countable, countable, countable) countable
  by (rule countable_classI [of "\<lambda>c. to_nat ((subject_cn c, not_before c, not_after c, is_ca c, key_usages c),
    (ext_key_usages c, basic_constraints_valid c, extra_extensions c, dns_names c, ip_addresses c),
    (uris c, serial_number c, cert_public_key c, issuer_cn c, certificate.more c))"]) simp

definition plain_der :: "(bytes, 'e :: countable, bytes, bytes) certificate \<Rightarrow> bytes \<Rightarrow> bytes" where
  "plain_der cert sk = replicate (to_nat (cert, sk)) 0"

definition plain_certlib :: "(bytes, bytes, 'e :: countable, bytes, bytes) certlib" where
  "plain_certlib = \<lparr>
     create_certificate = (\<lambda>r tmpl parent pub priv. Inr (plain_der (issued tmpl parent pub) priv)),
     parse_certificate = (\<lambda>der. Inr (fst (from_nat (length der)
        :: (bytes, 'e, bytes, bytes) certificate \<times> bytes))),
     pem_certificate = (\<lambda>der. der),
     append_certs_from_pem = (\<lambda>pem pool. (pool @ [fst (from_nat (length pem)
        :: (bytes, 'e, bytes, bytes) certificate \<times> bytes)], True)),
     rand_int = (\<lambda>r n. Inr 1), key_public = (\<lambda>sk. sk),
     parse_ip = (\<lambda>s. if has_prefix ''10.'' s then Some (bytes_of_string s) else None),
     parse_url = (\<lambda>s. if has_prefix ''spiffe:'' s then Inr (bytes_of_string s, ''spiffe'') else Inr ([], '''')),
     add_years = (\<lambda>t n. t + n * 31536000)\<rparr>"

definition plain_signed :: "'e :: countable itself \<Rightarrow> bytes \<Rightarrow> bytes \<Rightarrow> bool" where
  "plain_signed ty der pk \<longleftrightarrow> snd (from_nat (length der)
     :: (bytes, 'e, bytes, bytes) certificate \<times> bytes) = pk"

interpretation plain_x509: x509_laws "plain_certlib :: (bytes, bytes, 'e :: countable, bytes, bytes) certlib"
  "plain_signed TYPE('e)"
  by unfold_locales (auto simp: plain_certlib_def plain_der_def plain_signed_def)

end
