(* ===== verification/Stateguard.thy ===== *)
theory Stateguard
  imports ManifestFacts StoreSpec Seedengine Ca
begin

text \<open>
  \<open>coordinator/internal/stateguard/stateguard.go\<close>: the guard of the Coordinator's current
  state. States are shared by pointer and compared by pointer, so the guard keeps them in a
  list and a pointer is an index; the current state is an optional index. Only the stale flag
  of a state is ever written after its creation.

  \<open>UpdateState\<close> and \<open>ResetState\<close> are each the composition of what they do before the
  pointer is swapped and the swap itself, because other calls may run between the two.
\<close>

section \<open>Environment and state\<close>

text \<open>
  What the guard is built over: the history's hash, store and signature scheme, the key
  derivation, the certificate library, and \<open>json.Unmarshal\<close> into a manifest, where
  \<open>Inr None\<close> is the JSON value null.
\<close>

record ('s, 'sk, 'pk, 'e, 'i, 'u) env =
  hash_fun :: "bytes \<Rightarrow> bytes"
  hist_store :: "'s store"
  sig_scheme :: "('sk, 'pk) sigs"
  kdf_lib :: "'sk kdf"
  cert_lib :: "('sk, 'pk, 'e, 'i, 'u) certlib"
  json_manifest :: "bytes \<Rightarrow> manifest option result"

record ('sk, 'pk, 'e, 'i, 'u) state =
  seed_engine_of :: "'sk seed_engine"
  manifest_of :: manifest
  manifest_bytes :: bytes
  ca_of :: "('sk, 'pk, 'e, 'i, 'u) ca"
  latest_of :: latest_transition
  generation :: int
  stale :: bool

type_synonym ptr = "nat option"

record ('s, 'sk, 'pk, 'e, 'i, 'u) guard =
  states :: "('sk, 'pk, 'e, 'i, 'u) state list"
  current :: ptr
  hist_of :: "'s hist"
  manifest_generation :: int

definition new_guard :: "'s hist \<Rightarrow> ('s, 'sk, 'pk, 'e, 'i, 'u) guard" where
  "new_guard h = \<lparr>states = [], current = None, hist_of = h, manifest_generation = 0\<rparr>"

definition err_no_state :: goerr where
  "err_no_state = Sentinel ''coordinator is not initialized''"
definition err_stale_state :: goerr where
  "err_stale_state = Sentinel ''coordinator state is outdated''"
definition err_concurrent_update :: goerr where
  "err_concurrent_update = Sentinel ''coordinator state was updated concurrently''"

text \<open>The value of a \<open>*State\<close> argument: nil or the state it points to.\<close>

definition deref :: "('s, 'sk, 'pk, 'e, 'i, 'u) guard \<Rightarrow> ptr \<Rightarrow> ('sk, 'pk, 'e, 'i, 'u) state option" where
  "deref g p = map_option ((!) (states g)) p"

text \<open>A new state object, and \<open>CompareAndSwap\<close> on the current pointer.\<close>

definition alloc ::
  "('sk, 'pk, 'e, 'i, 'u) state \<Rightarrow> ('s, 'sk, 'pk, 'e, 'i, 'u) guard \<Rightarrow> nat \<times> ('s, 'sk, 'pk, 'e, 'i, 'u) guard" where
  "alloc st g = (length (states g), g\<lparr>states := states g @ [st]\<rparr>)"

definition swap_current :: "ptr \<Rightarrow> nat \<Rightarrow> ('s, 'sk, 'pk, 'e, 'i, 'u) guard \<Rightarrow> bool \<times> ('s, 'sk, 'pk, 'e, 'i, 'u) guard" where
  "swap_current old new g = (if current g = old then (True, g\<lparr>current := Some new\<rparr>) else (False, g))"

text \<open>
  The randomness and the clock of one call: the signature's and the mesh key's bytes, those
  of the three certificates, and \<open>time.Now\<close>.
\<close>

record call_rnd =
  sign_rnd :: bytes
  mesh_key_rnd :: bytes
  cert_rnds :: "nat \<Rightarrow> cert_rnd"
  now_sec :: int

definition empty_manifest :: manifest where
  "empty_manifest = \<lparr>policies = [], refvals = no_values, workload_owner_pub_keys = [],
     seedshare_owner_pub_keys = []\<rparr>"

text \<open>\<open>json.Unmarshal\<close> into a manifest value: null leaves the zero value.\<close>

definition parse_manifest :: "('s, 'sk, 'pk, 'e, 'i, 'u) env \<Rightarrow> bytes \<Rightarrow> manifest result" where
  "parse_manifest E b = (case json_manifest E b of
     Inl e \<Rightarrow> Inl e | Inr None \<Rightarrow> Inr empty_manifest | Inr (Some m) \<Rightarrow> Inr m)"

section \<open>GetState\<close>

definition get_state ::
  "('s, 'sk, 'pk, 'e, 'i, 'u) env \<Rightarrow> ('s, 'sk, 'pk, 'e, 'i, 'u) guard
   \<Rightarrow> (ptr \<times> goerr option) \<times> ('s, 'sk, 'pk, 'e, 'i, 'u) guard" where
  "get_state E g =
     (case current g of
        None \<Rightarrow>
          (case has_latest (hist_store E) (hist_of g) of
             (Inl e, h) \<Rightarrow> ((None, Some (Wrap ''checking state'' e)), g\<lparr>hist_of := h\<rparr>)
           | (Inr True, h) \<Rightarrow> ((None, Some err_stale_state), g\<lparr>hist_of := h\<rparr>)
           | (Inr False, h) \<Rightarrow> ((None, Some err_no_state), g\<lparr>hist_of := h\<rparr>))
      | Some i \<Rightarrow>
          (if stale (states g ! i) then ((Some i, Some err_stale_state), g)
           else ((Some i, None), g)))"

section \<open>UpdateState\<close>

text \<open>The loops over the policies: store each, then look up each reference of the manifest.\<close>

fun store_policies ::
  "('s, 'sk, 'pk, 'e, 'i, 'u) env \<Rightarrow> bytes list \<Rightarrow> (hash \<Rightarrow> bytes option) \<Rightarrow> 's hist
   \<Rightarrow> (hash \<Rightarrow> bytes option) result \<times> 's hist" where
  "store_policies E [] pm h = (Inr pm, h)"
| "store_policies E (p # ps) pm h =
     (case set_policy (hash_fun E) (hist_store E) p h of
        (Inl e, h1) \<Rightarrow> (Inl (Wrap ''setting policy'' e), h1)
      | (Inr hsh, h1) \<Rightarrow> store_policies E ps (pm(hsh \<mapsto> p)) h1)"

fun check_policy_refs :: "(hash \<Rightarrow> bytes option) \<Rightarrow> (hexstring \<times> policy_entry) list \<Rightarrow> unit result" where
  "check_policy_refs pm [] = Inr ()"
| "check_policy_refs pm ((ref, _) # refs) =
     (case hex_bytes ref of
        Inl e \<Rightarrow> Inl (Wrap ''invalid policy hash'' e)
      | Inr b \<Rightarrow>
          (if pm (copy_into zero_hash b) = None
           then Inl (Msg (''no policy provided for hash '' @ quoted ref))
           else check_policy_refs pm refs))"

text \<open>Up to and including \<open>SetLatest\<close>: the new manifest is persisted.\<close>

definition persist_manifest ::
  "('s, 'sk, 'pk, 'e, 'i, 'u) env \<Rightarrow> bytes \<Rightarrow> ('sk, 'pk, 'e, 'i, 'u) state option \<Rightarrow> 'sk seed_engine
   \<Rightarrow> bytes \<Rightarrow> bytes list \<Rightarrow> 's hist \<Rightarrow> (manifest \<times> latest_transition) result \<times> 's hist" where
  "persist_manifest E rnd old se mb pols h =
     (let H = hash_fun E; S = hist_store E in
      case parse_manifest E mb of
        Inl e \<Rightarrow> (Inl (Wrap ''unmarshaling manifest'' e), h)
      | Inr mnfst \<Rightarrow>
     (case store_policies E pols (\<lambda>_. None) h of
        (Inl e, h1) \<Rightarrow> (Inl e, h1)
      | (Inr pm, h1) \<Rightarrow>
     (case check_policy_refs pm (policies mnfst) of
        Inl e \<Rightarrow> (Inl e, h1)
      | Inr _ \<Rightarrow>
     (case set_manifest H S mb h1 of
        (Inl e, h2) \<Rightarrow> (Inl (Wrap ''storing manifest'' e), h2)
      | (Inr mhash, h2) \<Rightarrow>
     (case set_transition H S \<lparr>manifest_hash = mhash, previous_transition_hash =
             (case old of None \<Rightarrow> zero_hash | Some st \<Rightarrow> transition_hash (latest_of st))\<rparr> h2 of
        (Inl e, h3) \<Rightarrow> (Inl (Wrap ''storing transition'' e), h3)
      | (Inr thash, h3) \<Rightarrow>
     (case set_latest (sig_scheme E) S (map_option latest_of old)
             \<lparr>transition_hash = thash, signature = []\<rparr> (transaction_signing_key se) rnd h3 of
        (Inl e, h4) \<Rightarrow>
          (if contains ''has changed since last read'' (err_text e)
           then (Inl (Both err_concurrent_update e), h4)
           else (Inl (Wrap ''updating latest transition'' e), h4))
      | (Inr latest, h4) \<Rightarrow> (Inr (mnfst, latest), h4)))))))"

text \<open>The rest of the preparation: the mesh key, the authority and the next state.\<close>

definition prepare_update ::
  "('s, 'sk, 'pk, 'e, 'i, 'u) env \<Rightarrow> call_rnd \<Rightarrow> ('sk, 'pk, 'e, 'i, 'u) state option \<Rightarrow> 'sk seed_engine
   \<Rightarrow> bytes \<Rightarrow> bytes list \<Rightarrow> 's hist \<Rightarrow> ('sk, 'pk, 'e, 'i, 'u) state result \<times> 's hist" where
  "prepare_update E r old se mb pols h =
     (case persist_manifest E (sign_rnd r) old se mb pols h of
        (Inl e, h1) \<Rightarrow> (Inl e, h1)
      | (Inr (mnfst, latest), h1) \<Rightarrow>
     (case generate_mesh_ca_key (kdf_lib E) (mesh_key_rnd r) of
        Inl e \<Rightarrow> (Inl (Wrap ''generating mesh CA key'' e), h1)
      | Inr mesh_key \<Rightarrow>
     (case new_ca (cert_lib E) (cert_rnds r) (now_sec r) (root_ca_key se) mesh_key of
        Inl e \<Rightarrow> (Inl (Wrap ''creating CA'' e), h1)
      | Inr c \<Rightarrow> (Inr \<lparr>seed_engine_of = se, manifest_of = mnfst, manifest_bytes = mb, ca_of = c,
          latest_of = latest,
          generation = (case old of None \<Rightarrow> 0 | Some st \<Rightarrow> generation st) + 1,
          stale = False\<rparr>, h1))))"

text \<open>
  The swap: when another update came first, the state the caller intended is returned all the
  same, and neither the current state nor the gauge changes.
\<close>

definition publish_update ::
  "ptr \<Rightarrow> ('sk, 'pk, 'e, 'i, 'u) state \<Rightarrow> ('s, 'sk, 'pk, 'e, 'i, 'u) guard
   \<Rightarrow> nat \<times> ('s, 'sk, 'pk, 'e, 'i, 'u) guard" where
  "publish_update old next_st g =
     (case alloc next_st g of (p, g1) \<Rightarrow>
      (case swap_current old p g1 of
         (False, g2) \<Rightarrow> (p, g2)
       | (True, g2) \<Rightarrow> (p, g2\<lparr>manifest_generation := generation next_st\<rparr>)))"

definition update_state ::
  "('s, 'sk, 'pk, 'e, 'i, 'u) env \<Rightarrow> call_rnd \<Rightarrow> ptr \<Rightarrow> 'sk seed_engine \<Rightarrow> bytes \<Rightarrow> bytes list
   \<Rightarrow> ('s, 'sk, 'pk, 'e, 'i, 'u) guard \<Rightarrow> nat result \<times> ('s, 'sk, 'pk, 'e, 'i, 'u) guard" where
  "update_state E r old se mb pols g =
     (case prepare_update E r (deref g old) se mb pols (hist_of g) of
        (Inl e, h) \<Rightarrow> (Inl e, g\<lparr>hist_of := h\<rparr>)
      | (Inr next_st, h) \<Rightarrow> (case publish_update old next_st (g\<lparr>hist_of := h\<rparr>) of (p, g') \<Rightarrow> (Inr p, g')))"

section \<open>ResetState\<close>

definition count_transition :: "(int, 's) consumer" where
  "count_transition th t n h = (Inr (), n + 1, h)"

text \<open>
  \<open>auth\<close> is the authorizer: from the manifest to the seed engine and the mesh CA key. The
  walk that counts the generation follows the store, so \<open>None\<close> is a call that never
  returns.
\<close>

type_synonym 'sk authorizer = "manifest \<Rightarrow> ('sk seed_engine \<times> 'sk) result"

definition load_manifest ::
  "('s, 'sk, 'pk, 'e, 'i, 'u) env \<Rightarrow> 's hist \<Rightarrow> (latest_transition \<times> bytes \<times> manifest) result \<times> 's hist" where
  "load_manifest E h =
     (let H = hash_fun E; S = hist_store E in
      case get_latest_insecure S h of
        (Inl e, h1) \<Rightarrow> (Inl (Wrap ''getting latest transition'' e), h1)
      | (Inr insecure, h1) \<Rightarrow>
     (case get_transition H S (transition_hash insecure) h1 of
        (Inl e, h2) \<Rightarrow> (Inl (Wrap ''getting transition'' e), h2)
      | (Inr t, h2) \<Rightarrow>
     (case get_manifest H S (manifest_hash t) h2 of
        (Inl e, h3) \<Rightarrow> (Inl (Wrap ''getting manifest'' e), h3)
      | (Inr mb, h3) \<Rightarrow>
     (case parse_manifest E mb of
        Inl e \<Rightarrow> (Inl (Wrap ''parsing manifest'' e), h3)
      | Inr mnfst \<Rightarrow> (Inr (insecure, mb, mnfst), h3)))))"

definition prepare_reset ::
  "('s, 'sk, 'pk, 'e, 'i, 'u) env \<Rightarrow> call_rnd \<Rightarrow> 'sk authorizer \<Rightarrow> 's hist
   \<Rightarrow> (('sk, 'pk, 'e, 'i, 'u) state result \<times> 's hist) option" where
  "prepare_reset E r auth h =
     (case load_manifest E h of
        (Inl e, h1) \<Rightarrow> Some (Inl e, h1)
      | (Inr (insecure, mb, mnfst), h1) \<Rightarrow>
     (case auth mnfst of
        Inl e \<Rightarrow> Some (Inl (Wrap ''authorizing seed source'' e), h1)
      | Inr (se, mesh_key) \<Rightarrow>
     (case get_latest (sig_scheme E) (hist_store E)
             (public_key (sig_scheme E) (transaction_signing_key se)) h1 of
        (Inl e, h2) \<Rightarrow> Some (Inl (Wrap ''verifying latest transition'' e), h2)
      | (Inr latest, h2) \<Rightarrow>
     (if transition_hash insecure \<noteq> transition_hash latest
      then Some (Inl (Both err_concurrent_update (Msg ''transition changed'')), h2)
      else
     (case new_ca (cert_lib E) (cert_rnds r) (now_sec r) (root_ca_key se) mesh_key of
        Inl e \<Rightarrow> Some (Inl (Wrap ''creating CA'' e), h2)
      | Inr c \<Rightarrow>
     (case walk_transitions (hash_fun E) (hist_store E) count_transition (transition_hash latest) 0 h2 of
        None \<Rightarrow> None
      | Some (Inl e, n, h3) \<Rightarrow> Some (Inl (Wrap ''walking transitions'' e), h3)
      | Some (Inr _, n, h3) \<Rightarrow>
          Some (Inr \<lparr>seed_engine_of = se, manifest_of = mnfst, manifest_bytes = mb, ca_of = c,
            latest_of = latest, generation = n, stale = False\<rparr>, h3)))))))"

definition publish_reset ::
  "ptr \<Rightarrow> ('sk, 'pk, 'e, 'i, 'u) state \<Rightarrow> ('s, 'sk, 'pk, 'e, 'i, 'u) guard
   \<Rightarrow> nat result \<times> ('s, 'sk, 'pk, 'e, 'i, 'u) guard" where
  "publish_reset old next_st g =
     (case alloc next_st g of (p, g1) \<Rightarrow>
      (case swap_current old p g1 of
         (False, g2) \<Rightarrow> (Inl err_concurrent_update, g2)
       | (True, g2) \<Rightarrow> (Inr p, g2\<lparr>manifest_generation := generation next_st\<rparr>)))"

definition reset_state ::
  "('s, 'sk, 'pk, 'e, 'i, 'u) env \<Rightarrow> call_rnd \<Rightarrow> ptr \<Rightarrow> 'sk authorizer
   \<Rightarrow> ('s, 'sk, 'pk, 'e, 'i, 'u) guard \<Rightarrow> (nat result \<times> ('s, 'sk, 'pk, 'e, 'i, 'u) guard) option" where
  "reset_state E r old auth g =
     (case prepare_reset E r auth (hist_of g) of
        None \<Rightarrow> None
      | Some (Inl e, h) \<Rightarrow> Some (Inl e, g\<lparr>hist_of := h\<rparr>)
      | Some (Inr next_st, h) \<Rightarrow> Some (publish_reset old next_st (g\<lparr>hist_of := h\<rparr>)))"

section \<open>GetHistory\<close>

text \<open>The inner loop over the policies of one manifest; policies found before are skipped.\<close>

fun collect_policies ::
  "('s, 'sk, 'pk, 'e, 'i, 'u) env \<Rightarrow> (hexstring \<times> policy_entry) list \<Rightarrow> (hexstring \<Rightarrow> bytes option) \<Rightarrow> 's hist
   \<Rightarrow> unit result \<times> (hexstring \<Rightarrow> bytes option) \<times> 's hist" where
  "collect_policies E [] ps h = (Inr (), ps, h)"
| "collect_policies E ((ref, _) # refs) ps h =
     (if ps ref \<noteq> None then collect_policies E refs ps h
      else (case hex_bytes ref of
          Inl e \<Rightarrow> (Inl (Wrap ''converting hex to bytes'' e), ps, h)
        | Inr b \<Rightarrow>
            (case get_policy (hash_fun E) (hist_store E) (copy_into zero_hash b) h of
               (Inl e, h1) \<Rightarrow> (Inl (Wrap ''getting policy'' e), ps, h1)
             | (Inr pb, h1) \<Rightarrow> collect_policies E refs (ps(ref \<mapsto> pb)) h1)))"

definition collect_history ::
  "('s, 'sk, 'pk, 'e, 'i, 'u) env \<Rightarrow> (bytes list \<times> (hexstring \<Rightarrow> bytes option), 's) consumer" where
  "collect_history E th t acc h =
     (case acc of (ms, ps) \<Rightarrow>
      (case get_manifest (hash_fun E) (hist_store E) (manifest_hash t) h of
         (Inl e, h1) \<Rightarrow> (Inl e, (ms, ps), h1)
       | (Inr mb, h1) \<Rightarrow>
           (case parse_manifest E mb of
              Inl e \<Rightarrow> (Inl e, (ms @ [mb], ps), h1)
            | Inr m \<Rightarrow>
                (case collect_policies E (policies m) ps h1 of
                   (r, ps', h2) \<Rightarrow> (r, (ms @ [mb], ps'), h2)))))"

type_synonym history_result = "(bytes list \<times> (hexstring \<Rightarrow> bytes option)) result"

definition get_history ::
  "('s, 'sk, 'pk, 'e, 'i, 'u) env \<Rightarrow> ('s, 'sk, 'pk, 'e, 'i, 'u) guard
   \<Rightarrow> (history_result \<times> ('s, 'sk, 'pk, 'e, 'i, 'u) guard) option" where
  "get_history E g =
     (case get_state E g of
        ((_, Some e), g1) \<Rightarrow> Some (Inl e, g1)
      | ((None, None), g1) \<Rightarrow> Some (Inl (Panic ''nil state''), g1)
      | ((Some i, None), g1) \<Rightarrow>
          (case walk_transitions (hash_fun E) (hist_store E) (collect_history E)
                  (transition_hash (latest_of (states g1 ! i))) ([], \<lambda>_. None) (hist_of g1) of
             None \<Rightarrow> None
           | Some (Inl e, _, h) \<Rightarrow> Some (Inl (Wrap ''fetching manifests from history'' e), g1\<lparr>hist_of := h\<rparr>)
           | Some (Inr _, (ms, ps), h) \<Rightarrow> Some (Inr (rev ms, ps), g1\<lparr>hist_of := h\<rparr>)))"

section \<open>WatchHistory\<close>

definition seen_hash :: "hash \<Rightarrow> (bool, 's) consumer" where
  "seen_hash target th t found h = (Inr (), found \<or> th = target, h)"

text \<open>One notification: the current state goes stale unless it descends from the transition.\<close>

definition watch_notify ::
  "('s, 'sk, 'pk, 'e, 'i, 'u) env \<Rightarrow> latest_transition \<Rightarrow> ('s, 'sk, 'pk, 'e, 'i, 'u) guard
   \<Rightarrow> ('s, 'sk, 'pk, 'e, 'i, 'u) guard option" where
  "watch_notify E t g =
     (case current g of
        None \<Rightarrow> Some g
      | Some i \<Rightarrow>
          (case walk_transitions (hash_fun E) (hist_store E) (seen_hash (transition_hash t))
                  (transition_hash (latest_of (states g ! i))) False (hist_of g) of
             None \<Rightarrow> None
           | Some (Inl e, _, h) \<Rightarrow> Some (g\<lparr>hist_of := h\<rparr>)
           | Some (Inr _, found, h) \<Rightarrow>
               Some (if found then g\<lparr>hist_of := h\<rparr>
                     else g\<lparr>hist_of := h, states := (states g)[i := (states g ! i)\<lparr>stale := True\<rparr>]\<rparr>)))"

text \<open>
  The two loops as a machine: watching, waiting for the next attempt, or returned. Starting a
  watcher asks the store; the attempt happens when the machine enters \<open>Watching\<close>.
\<close>

datatype watch_mode = Watching | Waiting | Stopped
datatype guard_event = Notified latest_transition | ChannelClosed | ContextDone | TimerFired

definition start_watch ::
  "('s, 'sk, 'pk, 'e, 'i, 'u) env \<Rightarrow> ('s, 'sk, 'pk, 'e, 'i, 'u) guard
   \<Rightarrow> watch_mode \<times> ('s, 'sk, 'pk, 'e, 'i, 'u) guard" where
  "start_watch E g =
     (case watch_latest_transitions (hist_store E) [] (hist_of g) of
        (Inl e, h) \<Rightarrow> (Waiting, g\<lparr>hist_of := h\<rparr>)
      | (Inr _, h) \<Rightarrow> (Watching, g\<lparr>hist_of := h\<rparr>))"

fun watch_history_step ::
  "('s, 'sk, 'pk, 'e, 'i, 'u) env \<Rightarrow> watch_mode \<Rightarrow> guard_event \<Rightarrow> ('s, 'sk, 'pk, 'e, 'i, 'u) guard
   \<Rightarrow> (watch_mode \<times> ('s, 'sk, 'pk, 'e, 'i, 'u) guard) option" where
  "watch_history_step E Watching (Notified t) g = map_option (Pair Watching) (watch_notify E t g)"
| "watch_history_step E Watching ChannelClosed g = Some (Waiting, g)"
| "watch_history_step E Watching ContextDone g = Some (Stopped, g)"
| "watch_history_step E Waiting TimerFired g = Some (start_watch E g)"
| "watch_history_step E Waiting ContextDone g = Some (Stopped, g)"
| "watch_history_step E m ev g = Some (m, g)"

end
