(* ===== verification/GuardSystem.thy ===== *)
theory GuardSystem
  imports StateguardFacts
begin

text \<open>
  The guard under concurrent calls. A configuration is the guard with the calls that have
  prepared a state and not yet swapped it in; each step is one call, or one half of an update
  or a reset. The store, and so any other Coordinator writing to it, is arbitrary. The
  invariant holds of every reachable configuration.
\<close>

record ('sk, 'pk, 'e, 'i, 'u) pending =
  from_ptr :: ptr
  prepared :: "('sk, 'pk, 'e, 'i, 'u) state"
  is_update :: bool

type_synonym ('s, 'sk, 'pk, 'e, 'i, 'u) config =
  "('s, 'sk, 'pk, 'e, 'i, 'u) guard \<times> ('sk, 'pk, 'e, 'i, 'u) pending list"

definition valid_ptr :: "('s, 'sk, 'pk, 'e, 'i, 'u) guard \<Rightarrow> ptr \<Rightarrow> bool" where
  "valid_ptr g p \<longleftrightarrow> (\<forall>i. p = Some i \<longrightarrow> i < length (states g))"

inductive guard_step ::
  "('s, 'sk, 'pk, 'e, 'i, 'u) env \<Rightarrow> ('s, 'sk, 'pk, 'e, 'i, 'u) config
   \<Rightarrow> ('s, 'sk, 'pk, 'e, 'i, 'u) config \<Rightarrow> bool"
  for E :: "('s, 'sk, 'pk, 'e, 'i, 'u) env" where
  call_get_state: "get_state E g = (r, g') \<Longrightarrow> guard_step E (g, ps) (g', ps)"
| call_get_history: "get_history E g = Some (r, g') \<Longrightarrow> guard_step E (g, ps) (g', ps)"
| update_fails: "valid_ptr g old \<Longrightarrow>
    prepare_update E rnd (deref g old) se mb pols (hist_of g) = (Inl e, h) \<Longrightarrow>
    guard_step E (g, ps) (g\<lparr>hist_of := h\<rparr>, ps)"
| update_prepared: "valid_ptr g old \<Longrightarrow>
    prepare_update E rnd (deref g old) se mb pols (hist_of g) = (Inr st, h) \<Longrightarrow>
    guard_step E (g, ps) (g\<lparr>hist_of := h\<rparr>, \<lparr>from_ptr = old, prepared = st, is_update = True\<rparr> # ps)"
| update_swapped: "p \<in> set ps \<Longrightarrow> is_update p \<Longrightarrow>
    publish_update (from_ptr p) (prepared p) g = (i, g') \<Longrightarrow>
    guard_step E (g, ps) (g', remove1 p ps)"
| reset_fails: "prepare_reset E rnd auth (hist_of g) = Some (Inl e, h) \<Longrightarrow>
    guard_step E (g, ps) (g\<lparr>hist_of := h\<rparr>, ps)"
| reset_prepared: "valid_ptr g old \<Longrightarrow> prepare_reset E rnd auth (hist_of g) = Some (Inr st, h) \<Longrightarrow>
    guard_step E (g, ps) (g\<lparr>hist_of := h\<rparr>, \<lparr>from_ptr = old, prepared = st, is_update = False\<rparr> # ps)"
| reset_swapped: "p \<in> set ps \<Longrightarrow> \<not> is_update p \<Longrightarrow>
    publish_reset (from_ptr p) (prepared p) g = (r, g') \<Longrightarrow>
    guard_step E (g, ps) (g', remove1 p ps)"
| notified: "watch_notify E t g = Some g' \<Longrightarrow> guard_step E (g, ps) (g', ps)"

section \<open>Every call keeps the cache invariant\<close>

lemma collect_policies_cache:
  "collect_policies E refs ps h = (r, ps', h') \<Longrightarrow> cache_ok (hash_fun E) h \<Longrightarrow> cache_ok (hash_fun E) h'"
proof (induction refs arbitrary: ps h)
  case (Cons x refs)
  obtain ref e where x: "x = (ref, e)" by fastforce
  show ?case
  proof (cases "ps ref \<noteq> None \<or> (\<exists>er. hex_bytes ref = Inl er)")
    case True
    with Cons x show ?thesis by (auto split: if_splits sum.splits)
  next
    case False
    then obtain b where b: "ps ref = None" "hex_bytes ref = Inr b" by (cases "hex_bytes ref") auto
    obtain q h1 where g: "get_policy (hash_fun E) (hist_store E) (copy_into zero_hash b) h = (q, h1)"
      by fastforce
    have "cache_ok (hash_fun E) h1" by (rule get_policy_facts(1) [OF Cons.prems(2) g])
    with Cons b g x show ?thesis by (cases q) auto
  qed
qed simp

lemma collect_history_keeps_cache: "keeps_cache (hash_fun E) (collect_history E)"
  by (auto simp: keeps_cache_def collect_history_def split: prod.splits sum.splits
      dest!: collect_policies_cache get_manifest_facts(1) [rotated])

lemma get_state_cache: "get_state E g = (r, g') \<Longrightarrow> h_cache (hist_of g') = h_cache (hist_of g)"
  by (auto simp: get_state_def split: option.splits prod.splits sum.splits bool.splits if_splits
      dest: latest_reads_keep_cache(3))

lemma get_state_keeps:
  "get_state E g = (r, g') \<Longrightarrow> states g' = states g \<and> current g' = current g
     \<and> manifest_generation g' = manifest_generation g"
  by (auto simp: get_state_def split: option.splits prod.splits sum.splits bool.splits if_splits)

lemma get_history_keeps:
  assumes "get_history E g = Some (r, g')"
  shows "states g' = states g" and "current g' = current g"
    and "manifest_generation g' = manifest_generation g"
    and "cache_ok (hash_fun E) (hist_of g) \<Longrightarrow> cache_ok (hash_fun E) (hist_of g')"
proof -
  obtain p e g1 where gs: "get_state E g = ((p, e), g1)" by (metis prod.exhaust)
  note k = get_state_keeps [OF gs]
  show "states g' = states g" "current g' = current g" "manifest_generation g' = manifest_generation g"
    using assms k by (auto simp: get_history_def gs split: option.splits prod.splits sum.splits)
  assume "cache_ok (hash_fun E) (hist_of g)"
  then have c: "cache_ok (hash_fun E) (hist_of g1)" using get_state_cache [OF gs] cache_ok_cong by metis
  show "cache_ok (hash_fun E) (hist_of g')"
    using assms c
    by (auto simp: get_history_def gs split: option.splits prod.splits sum.splits
        dest!: walk_keeps_cache [OF _ collect_history_keeps_cache])
qed

lemma prepare_reset_cache:
  assumes p: "prepare_reset E r auth h = Some (res, h')" and c: "cache_ok (hash_fun E) h"
  shows "cache_ok (hash_fun E) h'"
proof -
  obtain q h1 where ld: "load_manifest E h = (q, h1)" by fastforce
  note c1 = load_manifest_facts(1) [OF ld c]
  have gl: "get_latest (sig_scheme E) (hist_store E) pub h1 = (x, h2) \<Longrightarrow> cache_ok (hash_fun E) h2"
    for pub x h2
    using latest_reads_keep_cache(2) c1 cache_ok_cong by metis
  show ?thesis
    using p ld c1 gl
    by (auto simp: prepare_reset_def split: sum.splits prod.splits option.splits if_splits
        dest!: walk_keeps_cache [OF _ consumers_keep_cache(1)])
qed

lemma watch_notify_cases:
  assumes "watch_notify E t g = Some g'"
  obtains (same) h where "g' = g\<lparr>hist_of := h\<rparr>" "cache_ok (hash_fun E) (hist_of g) \<Longrightarrow> cache_ok (hash_fun E) h"
  | (marked) h i where "current g = Some i"
      "g' = g\<lparr>hist_of := h, states := (states g)[i := (states g ! i)\<lparr>stale := True\<rparr>]\<rparr>"
      "cache_ok (hash_fun E) (hist_of g) \<Longrightarrow> cache_ok (hash_fun E) h"
proof (cases "current g")
  case None
  with assms have "g' = g\<lparr>hist_of := hist_of g\<rparr>" by (simp add: watch_notify_def)
  then show thesis using same by blast
next
  case (Some i)
  obtain r found h where w: "walk_transitions (hash_fun E) (hist_store E) (seen_hash (transition_hash t))
      (transition_hash (latest_of (states g ! i))) False (hist_of g) = Some (r, found, h)"
    using assms Some by (auto simp: watch_notify_def split: option.splits)
  have c: "cache_ok (hash_fun E) (hist_of g) \<Longrightarrow> cache_ok (hash_fun E) h"
    using walk_keeps_cache [OF w consumers_keep_cache(2)] by simp
  show thesis using assms Some w c same marked by (cases r; cases found) (auto simp: watch_notify_def)
qed

section \<open>The invariant\<close>

definition guard_ok ::
  "('s, 'sk, 'pk, 'e, 'i, 'u) env \<Rightarrow> ('s, 'sk, 'pk, 'e, 'i, 'u) config \<Rightarrow> bool" where
  "guard_ok E c \<longleftrightarrow> (case c of (g, ps) \<Rightarrow>
     cache_ok (hash_fun E) (hist_of g) \<and> valid_ptr g (current g)
     \<and> (\<forall>st\<in>set (states g). state_ok E st)
     \<and> (\<forall>p\<in>set ps. valid_ptr g (from_ptr p) \<and> state_ok E (prepared p)
          \<and> (is_update p \<longrightarrow> extends E (deref g (from_ptr p)) (prepared p))))"

text \<open>States are never changed but for going stale, and none is forgotten.\<close>

definition states_grow ::
  "('s, 'sk, 'pk, 'e, 'i, 'u) guard \<Rightarrow> ('s, 'sk, 'pk, 'e, 'i, 'u) guard \<Rightarrow> bool" where
  "states_grow g g' \<longleftrightarrow> length (states g) \<le> length (states g')
     \<and> (\<forall>i < length (states g). states g' ! i = states g ! i
          \<or> states g' ! i = (states g ! i)\<lparr>stale := True\<rparr>)"

lemma states_grow_refl: "states g' = states g \<Longrightarrow> states_grow g g'"
  by (simp add: states_grow_def)

lemma states_grow_trans: "states_grow g g1 \<Longrightarrow> states_grow g1 g2 \<Longrightarrow> states_grow g g2"
  unfolding states_grow_def
proof (intro conjI allI impI; elim conjE)
  fix i
  assume a: "length (states g) \<le> length (states g1)" "length (states g1) \<le> length (states g2)"
    "\<forall>i<length (states g). states g1 ! i = states g ! i \<or> states g1 ! i = (states g ! i)\<lparr>stale := True\<rparr>"
    "\<forall>i<length (states g1). states g2 ! i = states g1 ! i \<or> states g2 ! i = (states g1 ! i)\<lparr>stale := True\<rparr>"
    "i < length (states g)"
  then have "states g1 ! i = states g ! i \<or> states g1 ! i = (states g ! i)\<lparr>stale := True\<rparr>"
    "states g2 ! i = states g1 ! i \<or> states g2 ! i = (states g1 ! i)\<lparr>stale := True\<rparr>" by simp_all
  then show "states g2 ! i = states g ! i \<or> states g2 ! i = (states g ! i)\<lparr>stale := True\<rparr>" by auto
qed simp

lemma states_grow_valid: "states_grow g g' \<Longrightarrow> valid_ptr g p \<Longrightarrow> valid_ptr g' p"
  by (auto simp: states_grow_def valid_ptr_def)

lemma extends_cong:
  assumes "states_grow g g'" and "valid_ptr g p"
  shows "extends E (deref g' p) st = extends E (deref g p) st"
proof (cases p)
  case (Some i)
  with assms have "states g' ! i = states g ! i \<or> states g' ! i = (states g ! i)\<lparr>stale := True\<rparr>"
    by (simp add: states_grow_def valid_ptr_def)
  then show ?thesis using Some by (auto simp: extends_def prev_hash_def prev_generation_def deref_def)
qed (simp add: deref_def)

lemma publish_update_facts:
  assumes "publish_update old st g = (i, g')"
  shows "states g' = states g @ [st]" and "i = length (states g)" and "hist_of g' = hist_of g"
    and "current g' = (if current g = old then Some i else current g)"
    and "manifest_generation g' = (if current g = old then generation st else manifest_generation g)"
  using assms by (auto simp: publish_update_def alloc_def swap_current_def split: if_splits)

lemma publish_reset_facts:
  assumes "publish_reset old st g = (r, g')"
  shows "states g' = states g @ [st]" and "hist_of g' = hist_of g"
    and "current g' = (if current g = old then Some (length (states g)) else current g)"
    and "manifest_generation g' = (if current g = old then generation st else manifest_generation g)"
    and "r = (if current g = old then Inr (length (states g)) else Inl err_concurrent_update)"
  using assms by (auto simp: publish_reset_def alloc_def swap_current_def split: if_splits)

lemma states_grow_append: "states g' = states g @ xs \<Longrightarrow> states_grow g g'"
  by (simp add: states_grow_def nth_append)

lemma guard_step_grow: "guard_step E c c' \<Longrightarrow> states_grow (fst c) (fst c')"
proof (induction rule: guard_step.induct)
  case (call_get_state g r g' ps)
  show ?case using get_state_keeps [OF call_get_state] by (simp add: states_grow_refl)
next
  case (call_get_history g r g' ps)
  show ?case using get_history_keeps(1) [OF call_get_history] by (simp add: states_grow_refl)
next
  case (update_swapped p ps g i g')
  show ?case using states_grow_append [OF publish_update_facts(1) [OF update_swapped(3)]] by simp
next
  case (reset_swapped p ps g r g')
  show ?case using states_grow_append [OF publish_reset_facts(1) [OF reset_swapped(3)]] by simp
next
  case (notified t g g' ps)
  then show ?case
  proof (cases rule: watch_notify_cases)
    case (marked h i)
    have "(states g)[i := (states g ! i)\<lparr>stale := True\<rparr>] ! j
        = (if j = i then (states g ! j)\<lparr>stale := True\<rparr> else states g ! j)" if "j < length (states g)" for j
      using that by (simp add: nth_list_update)
    then have "\<forall>j < length (states g). (states g)[i := (states g ! i)\<lparr>stale := True\<rparr>] ! j = states g ! j
        \<or> (states g)[i := (states g ! i)\<lparr>stale := True\<rparr>] ! j = (states g ! j)\<lparr>stale := True\<rparr>"
      by metis
    with marked show ?thesis by (simp only: states_grow_def) simp
  qed (simp add: states_grow_refl)
qed (simp_all add: states_grow_refl)

lemma guard_ok_hist:
  "guard_ok E (g, ps) \<Longrightarrow> cache_ok (hash_fun E) h \<Longrightarrow> guard_ok E (g\<lparr>hist_of := h\<rparr>, ps)"
  by (simp add: guard_ok_def valid_ptr_def deref_def)

lemma guard_ok_grow:
  assumes "guard_ok E (g, ps)" and "states_grow g g'" and "cache_ok (hash_fun E) (hist_of g')"
    and "valid_ptr g' (current g')" and "\<forall>st\<in>set (states g'). state_ok E st" and "set qs \<subseteq> set ps"
  shows "guard_ok E (g', qs)"
proof -
  have "valid_ptr g' (from_ptr p) \<and> state_ok E (prepared p)
      \<and> (is_update p \<longrightarrow> extends E (deref g' (from_ptr p)) (prepared p))" if "p \<in> set qs" for p
  proof -
    from that assms(1,6) have v: "valid_ptr g (from_ptr p)" and "state_ok E (prepared p)"
      and "is_update p \<longrightarrow> extends E (deref g (from_ptr p)) (prepared p)"
      by (auto simp: guard_ok_def)
    then show ?thesis by (simp add: extends_cong [OF assms(2) v] states_grow_valid [OF assms(2) v])
  qed
  then show ?thesis using assms(3-5) by (simp add: guard_ok_def)
qed

lemma guard_step_ok:
  assumes "guard_step E c c'" and "guard_ok E c"
    and "root_free (hash_fun E)" and "sigs_correct (sig_scheme E)"
  shows "guard_ok E c'"
  using assms
proof (induction rule: guard_step.induct)
  case (call_get_state g r g' ps)
  then show ?case
    using get_state_keeps [OF call_get_state(1)] get_state_cache [OF call_get_state(1)]
    by (auto simp: guard_ok_def valid_ptr_def deref_def cache_ok_def)
next
  case (call_get_history g r g' ps)
  then show ?case
    using get_history_keeps [OF call_get_history(1)] by (auto simp: guard_ok_def valid_ptr_def deref_def)
next
  case (update_fails g old rnd se mb pols e h ps)
  have "cache_ok (hash_fun E) (hist_of g)" using update_fails by (simp add: guard_ok_def)
  from guard_ok_hist [OF update_fails(3) prepare_update_cache [OF update_fails(2) this]] show ?case .
next
  case (update_prepared g old rnd se mb pols st h ps)
  have c: "cache_ok (hash_fun E) (hist_of g)" using update_prepared by (simp add: guard_ok_def)
  have old: "deref g old = Some x \<Longrightarrow> state_ok E x" for x
    using update_prepared by (auto simp: guard_ok_def valid_ptr_def deref_def)
  note ok = prepare_update_ok [OF update_prepared(2) c update_prepared(4,5) old]
  then show ?case
    using update_prepared prepare_update_cache [OF update_prepared(2) c]
    by (auto simp: guard_ok_def valid_ptr_def deref_def)
next
  case (update_swapped p ps g i g')
  note f = publish_update_facts [OF update_swapped(3)]
  show ?case
    using update_swapped f
    by (intro guard_ok_grow [OF update_swapped(4) states_grow_append [OF f(1)]])
      (auto simp: guard_ok_def valid_ptr_def less_Suc_eq dest: set_remove1_subset [THEN subsetD])
next
  case (reset_fails rnd auth g e h ps)
  have "cache_ok (hash_fun E) (hist_of g)" using reset_fails by (simp add: guard_ok_def)
  from guard_ok_hist [OF reset_fails(2) prepare_reset_cache [OF reset_fails(1) this]] show ?case .
next
  case (reset_prepared g old rnd auth st h ps)
  have c: "cache_ok (hash_fun E) (hist_of g)" using reset_prepared by (simp add: guard_ok_def)
  show ?case
    using reset_prepared prepare_reset_ok(1,2) [OF reset_prepared(2) c reset_prepared(4)]
    by (auto simp: guard_ok_def valid_ptr_def deref_def)
next
  case (reset_swapped p ps g r g')
  note f = publish_reset_facts [OF reset_swapped(3)]
  show ?case
    using reset_swapped f
    by (intro guard_ok_grow [OF reset_swapped(4) states_grow_append [OF f(1)]])
      (auto simp: guard_ok_def valid_ptr_def less_Suc_eq dest: set_remove1_subset [THEN subsetD])
next
  case (notified t g g' ps)
  have grow: "states_grow g g'" using guard_step_grow [OF guard_step.notified [OF notified(1)]] by simp
  from notified(1) show ?case
  proof (cases rule: watch_notify_cases)
    case (same h)
    with notified guard_ok_hist show ?thesis by (auto simp: guard_ok_def)
  next
    case (marked h i)
    then have "i < length (states g)" using notified by (auto simp: guard_ok_def valid_ptr_def)
    then show ?thesis
      using notified marked
      by (intro guard_ok_grow [OF notified(2) grow])
        (auto simp: guard_ok_def valid_ptr_def dest!: set_update_subset_insert [THEN subsetD])
  qed
qed

lemma guard_ok_start: "guard_ok E (new_guard (new_with_store s), [])"
  by (simp add: guard_ok_def new_guard_def valid_ptr_def)

abbreviation guard_steps ::
  "('s, 'sk, 'pk, 'e, 'i, 'u) env \<Rightarrow> ('s, 'sk, 'pk, 'e, 'i, 'u) config
   \<Rightarrow> ('s, 'sk, 'pk, 'e, 'i, 'u) config \<Rightarrow> bool" where
  "guard_steps E \<equiv> (guard_step E)\<^sup>*\<^sup>*"

lemma guard_steps_ok:
  assumes "guard_steps E c c'" and "guard_ok E c"
    and "root_free (hash_fun E)" and "sigs_correct (sig_scheme E)"
  shows "guard_ok E c'"
  using assms by (induction rule: rtranclp_induct) (auto intro: guard_step_ok)

lemma guard_steps_grow: "guard_steps E c c' \<Longrightarrow> states_grow (fst c) (fst c')"
  by (induction rule: rtranclp_induct) (auto intro: states_grow_refl states_grow_trans guard_step_grow)

section \<open>Consequences\<close>

text \<open>An update that is swapped in continues the chain of the state it replaces.\<close>

lemma swap_extends_current:
  assumes "guard_ok E (g, ps)" and "p \<in> set ps" and "is_update p"
    and "publish_update (from_ptr p) (prepared p) g = (i, g')" and "current g' \<noteq> current g"
  shows "extends E (deref g (current g)) (states g' ! i) \<and> current g' = Some i"
  using assms publish_update_facts [OF assms(4)] by (auto simp: guard_ok_def split: if_splits)

text \<open>After a notification the current state is stale or descends from the transition.\<close>

lemma watch_notify_marks:
  assumes w: "watch_notify E t g = Some g'" and c: "cache_ok (hash_fun E) (hist_of g)"
    and cur: "current g = Some i" and i: "i < length (states g)"
    and walk: "walk_transitions (hash_fun E) (hist_store E) (seen_hash (transition_hash t))
        (chain_hash (states g ! i)) False (hist_of g) = Some (Inr u, b, h)"
  shows "\<exists>ts. linked (hash_fun E) (chain_hash (states g ! i)) ts
     \<and> (stale (states g' ! i) \<longleftrightarrow> stale (states g ! i)
          \<or> transition_hash t \<notin> transition_digest (hash_fun E) ` set ts)"
proof -
  obtain ts where ts: "walked (hash_fun E) (hist_store E) (seen_hash (transition_hash t))
      (chain_hash (states g ! i)) False (hist_of g) ts b h" "linked (hash_fun E) (chain_hash (states g ! i)) ts"
    using walk_cache [OF walk c consumers_keep_cache(2)] by blast
  have "b = (transition_hash t \<in> transition_digest (hash_fun E) ` set ts)"
    using seen_walked [OF ts] by simp
  moreover have "g' = (if b then g\<lparr>hist_of := h\<rparr>
      else g\<lparr>hist_of := h, states := (states g)[i := (states g ! i)\<lparr>stale := True\<rparr>]\<rparr>)"
    using w walk by (simp add: watch_notify_def cur)
  ultimately show ?thesis using i ts(2) by (intro exI [of _ ts]) auto
qed

text \<open>
  Every notification that is handled has walked the current state's chain: when the walk fails, no state
  is marked, even if the notified transition is not in the chain.
\<close>

lemma watch_notify_walks:
  assumes w: "watch_notify E t g = Some g'" and c: "cache_ok (hash_fun E) (hist_of g)"
    and cur: "current g = Some i" and i: "i < length (states g)"
  shows "\<exists>r b h. walk_transitions (hash_fun E) (hist_store E) (seen_hash (transition_hash t))
      (chain_hash (states g ! i)) False (hist_of g) = Some (r, b, h)
    \<and> (case r of
         Inl e \<Rightarrow> states g' = states g
       | Inr _ \<Rightarrow> (\<exists>ts. linked (hash_fun E) (chain_hash (states g ! i)) ts
           \<and> (stale (states g' ! i) \<longleftrightarrow> stale (states g ! i)
                \<or> transition_hash t \<notin> transition_digest (hash_fun E) ` set ts)))"
proof -
  obtain r b h where walk: "walk_transitions (hash_fun E) (hist_store E) (seen_hash (transition_hash t))
      (chain_hash (states g ! i)) False (hist_of g) = Some (r, b, h)"
    using w cur by (auto simp: watch_notify_def split: option.splits)
  show ?thesis
  proof (cases r)
    case (Inl e)
    then have "states g' = states g" using w walk cur by (auto simp: watch_notify_def)
    with walk Inl show ?thesis by auto
  next
    case (Inr u)
    with watch_notify_marks [OF w c cur i] walk show ?thesis by auto
  qed
qed

section \<open>The history that is handed out\<close>

definition policies_ok :: "(bytes \<Rightarrow> bytes) \<Rightarrow> (hexstring \<Rightarrow> bytes option) \<Rightarrow> bool" where
  "policies_ok H ps \<longleftrightarrow> (\<forall>ref p. ps ref = Some p \<longrightarrow>
     (\<exists>b. hex_decode ref = Inr b \<and> digest H p = copy_into zero_hash b))"

lemma collect_policies_ok:
  assumes "collect_policies E refs ps h = (r, ps', h')" and "cache_ok (hash_fun E) h"
    and "policies_ok (hash_fun E) ps"
  shows "policies_ok (hash_fun E) ps' \<and> dom ps \<subseteq> dom ps' \<and> (r = Inr () \<longrightarrow> fst ` set refs \<subseteq> dom ps')"
  using assms
proof (induction refs arbitrary: ps h)
  case (Cons x refs)
  obtain ref e where x: "x = (ref, e)" by fastforce
  consider "ps ref \<noteq> None" | er where "ps ref = None" "hex_bytes ref = Inl er"
    | b where "ps ref = None" "hex_bytes ref = Inr b" by (cases "hex_bytes ref") blast+
  then show ?case
  proof cases
    case 1
    then have "collect_policies E refs ps h = (r, ps', h')" using Cons.prems(1) x by simp
    with Cons.IH [OF this Cons.prems(2,3)] 1 x show ?thesis by auto
  next
    case (2 er)
    with Cons.prems x show ?thesis by auto
  next
    case (3 b)
    obtain q h1 where g: "get_policy (hash_fun E) (hist_store E) (copy_into zero_hash b) h = (q, h1)"
      by fastforce
    note f = get_policy_facts [OF Cons.prems(2) g]
    show ?thesis
    proof (cases q)
      case (Inl er)
      with Cons.prems 3 g x show ?thesis by auto
    next
      case (Inr pb)
      have "policies_ok (hash_fun E) (ps(ref \<mapsto> pb))"
        using Cons.prems(3) f(2) [OF Inr] 3 by (simp add: policies_ok_def hex_bytes_def)
      moreover have "collect_policies E refs (ps(ref \<mapsto> pb)) h1 = (r, ps', h')"
        using Cons.prems(1) 3 g x Inr by simp
      moreover have "cache_ok (hash_fun E) h1" by (rule f(1))
      ultimately have "policies_ok (hash_fun E) ps' \<and> dom (ps(ref \<mapsto> pb)) \<subseteq> dom ps'
          \<and> (r = Inr () \<longrightarrow> fst ` set refs \<subseteq> dom ps')"
        by (intro Cons.IH)
      with x show ?thesis by auto
    qed
  qed
qed simp

text \<open>
  The manifests that are handed out hash to the links of the chain, and each policy to the
  hash it is listed under.
\<close>

lemma collect_walked:
  assumes "walked (hash_fun E) S (collect_history E) th acc h ts acc' h'" and "S = hist_store E"
    and "cache_ok (hash_fun E) h" and "policies_ok (hash_fun E) (snd acc)"
  shows "map (digest (hash_fun E)) (fst acc') = map (digest (hash_fun E)) (fst acc) @ map manifest_hash ts
    \<and> policies_ok (hash_fun E) (snd acc')"
  using assms
proof (induction rule: walked.induct)
  case (walked_step th h t h1 acc acc1 h2 ts acc2 h3)
  let ?H = "hash_fun E"
  obtain ms ps where acc: "acc = (ms, ps)" by fastforce
  note t = get_transition_facts [OF walked_step.prems(2) walked_step.hyps(2)]
  obtain mb h4 m ps' where gm: "get_manifest ?H S (manifest_hash t) h1 = (Inr mb, h4)"
    and pm: "parse_manifest E mb = Inr m" and cp: "collect_policies E (policies m) ps h4 = (Inr (), ps', h2)"
    and acc1: "acc1 = (ms @ [mb], ps')"
    using walked_step.hyps(3) walked_step.prems(1) acc by (auto simp: collect_history_def split: prod.splits sum.splits)
  note f = get_manifest_facts [OF t(1) gm]
  have d: "digest ?H mb = manifest_hash t" using f(2) by simp
  have "policies_ok ?H ps'" using collect_policies_ok [OF cp f(1)] walked_step.prems(3) acc by simp
  moreover have "cache_ok ?H h2" using collect_policies_cache [OF cp f(1)] .
  ultimately show ?case using walked_step.IH [OF walked_step.prems(1)] d acc acc1 by simp
qed simp

lemma get_history_facts:
  assumes gh: "get_history E g = Some (Inr (ms, ps), g')" and c: "cache_ok (hash_fun E) (hist_of g)"
  shows "\<exists>i ts. current g = Some i \<and> \<not> stale (states g ! i)
      \<and> linked (hash_fun E) (chain_hash (states g ! i)) ts
      \<and> map (digest (hash_fun E)) ms = rev (map manifest_hash ts) \<and> policies_ok (hash_fun E) ps"
proof -
  obtain p e g1 where gs: "get_state E g = ((p, e), g1)" by (metis prod.exhaust)
  obtain i ms0 h where pi: "p = Some i" "e = None"
    and w: "walk_transitions (hash_fun E) (hist_store E) (collect_history E)
        (chain_hash (states g1 ! i)) ([], \<lambda>_. None) (hist_of g1) = Some (Inr (), (ms0, ps), h)" and ms: "ms = rev ms0"
    using gh gs by (auto simp: get_history_def split: option.splits prod.splits sum.splits)
  have st: "current g = Some i" "\<not> stale (states g ! i)" "g1 = g"
    using gs pi by (auto simp: get_state_def split: option.splits prod.splits sum.splits bool.splits if_splits)
  obtain ts where ts: "walked (hash_fun E) (hist_store E) (collect_history E)
      (chain_hash (states g ! i)) ([], \<lambda>_. None) (hist_of g) ts (ms0, ps) h"
    and l: "linked (hash_fun E) (chain_hash (states g ! i)) ts"
    using walk_cache [OF w [unfolded st(3)] c collect_history_keeps_cache] by blast
  have "map (digest (hash_fun E)) ms0 = map manifest_hash ts" "policies_ok (hash_fun E) ps"
    using collect_walked [OF ts refl c] by (simp_all add: policies_ok_def)
  then show ?thesis using st l ms by (intro exI [of _ i] exI [of _ ts]) (simp add: rev_map [symmetric])
qed

end
