(* ===== verification/Demo.thy ===== *)
theory Demo
  imports GuardSystem AferoStore
begin

text \<open>
  A concrete environment at which the theorems with hypotheses are applied: an in-memory
  store, a hash whose digests start with a one, keys that are byte strings, certificates that
  are their serial number, and a JSON decoder for two fixed manifests. It says nothing about
  security; it shows that the hypotheses hold together and that the operations get through.
\<close>

definition demo_hash :: "bytes \<Rightarrow> bytes" where
  "demo_hash x = 1 # rev x"

definition demo_sigs :: "(bytes, bytes) sigs" where
  "demo_sigs = \<lparr>sign_asn1 = (\<lambda>key msg rnd. Inr (key @ msg)),
     verify_asn1 = (\<lambda>pk msg sig. sig = pk @ msg), public_key = (\<lambda>key. key)\<rparr>"

definition demo_cert :: "(bytes, unit, unit, unit) certificate" where
  "demo_cert = ca_template interm_cn 0 0"

definition demo_certlib :: "(bytes, bytes, unit, unit, unit) certlib" where
  "demo_certlib = \<lparr>
     create_certificate = (\<lambda>r tmpl parent pub priv. Inr pub),
     parse_certificate = (\<lambda>der. Inr demo_cert), pem_certificate = (\<lambda>der. der),
     append_certs_from_pem = (\<lambda>pem pool. (pool @ [demo_cert], True)),
     rand_int = (\<lambda>r n. Inr 1), key_public = (\<lambda>sk. sk), parse_ip = (\<lambda>s. None),
     parse_url = (\<lambda>s. Inr ((), '''')), add_years = (\<lambda>t n. t + n * 31536000)\<rparr>"

text \<open>A policy, its hash under \<open>demo_hash\<close>, and a manifest that lists it.\<close>

definition demo_policy :: bytes where
  "demo_policy = [7, 9]"

definition demo_policy_hash :: hexstring where
  "demo_policy_hash = hex_encode (digest demo_hash demo_policy)"

definition demo_entry :: policy_entry where
  "demo_entry = \<lparr>sans = [''coordinator'', ''example''], workload_secret_id = ''apps/demo'',
     role = role_coordinator\<rparr>"

definition demo_tdx :: "string \<Rightarrow> tdx_reference_values" where
  "demo_tdx p = \<lparr>tdx_platform = p, min_tcb_evaluation_data_number = 0, mr_td = '''', mr_seam = '''',
     rtmrs = ['''', '''', '''', ''''], xfam = '''', allowed_piids = [], memory_integrity = False,
     smt_disabled = False, static_platform = False\<rparr>"

definition demo_manifest :: manifest where
  "demo_manifest = \<lparr>policies = [(demo_policy_hash, demo_entry)],
     refvals = \<lparr>snp = [], tdx = [demo_tdx ''Metal-QEMU-Insecure'']\<rparr>,
     workload_owner_pub_keys = [''300102''], seedshare_owner_pub_keys = [''3003'']\<rparr>"

definition demo_json :: bytes where
  "demo_json = bytes_of_string ''{demo}''"

definition demo_env :: "(string \<Rightarrow> bytes option, bytes, bytes, unit, unit, unit) env" where
  "demo_env = \<lparr>hash_fun = demo_hash, hist_store = afero_store mem_fs, sig_scheme = demo_sigs,
     kdf_lib = plain_kdf, cert_lib = demo_certlib,
     json_manifest = (\<lambda>b. if b = demo_json then Inr (Some demo_manifest)
        else if b = bytes_of_string ''null'' then Inr None else Inl (Msg ''invalid character''))\<rparr>"

definition demo_rnd :: call_rnd where
  "demo_rnd = \<lparr>sign_rnd = [1], mesh_key_rnd = [2, 3], cert_rnds = (\<lambda>i. ([4], [5])), now_sec = 0\<rparr>"

definition demo_engine :: "bytes seed_engine" where
  "demo_engine = (case new_seed_engine plain_kdf (replicate 32 7) (replicate 32 8) of
     Inl _ \<Rightarrow> undefined | Inr se \<Rightarrow> se)"

lemma demo_engine_made: "new_seed_engine plain_kdf (replicate 32 7) (replicate 32 8) = Inr demo_engine"
proof -
  have "case new_seed_engine plain_kdf (replicate 32 7) (replicate 32 8) of Inl _ \<Rightarrow> False | Inr _ \<Rightarrow> True"
    by code_simp
  then show ?thesis by (simp add: demo_engine_def split: sum.splits)
qed

definition demo_guard :: "(string \<Rightarrow> bytes option, bytes, bytes, unit, unit, unit) guard" where
  "demo_guard = new_guard (new_with_store (\<lambda>_. None))"

lemma demo_root_free: "root_free demo_hash"
proof -
  have "hd (digest demo_hash x) = 1" for x
    by (simp add: digest_def copy_into_def demo_hash_def)
  moreover have "hd zero_hash = 0" by (simp add: zero_hash_def hash_size_def numeral_eq_Suc)
  ultimately show ?thesis unfolding root_free_def transition_digest_def by (metis zero_neq_one)
qed

lemma demo_sigs_correct: "sigs_correct demo_sigs"
  by (simp add: sigs_correct_def demo_sigs_def)

lemma demo_env_simps [simp]:
  "hash_fun demo_env = demo_hash" "sig_scheme demo_env = demo_sigs" "kdf_lib demo_env = plain_kdf"
  "hist_store demo_env = afero_store mem_fs" "cert_lib demo_env = demo_certlib"
  by (simp_all add: demo_env_def)

section \<open>One update\<close>

definition demo_prepared ::
  "(bytes, bytes, unit, unit, unit) state result \<times> (string \<Rightarrow> bytes option) hist" where
  "demo_prepared = prepare_update demo_env demo_rnd None demo_engine demo_json [demo_policy]
     (hist_of demo_guard)"

lemma demo_prepared_signed: "\<exists>st h. demo_prepared = (Inr st, h) \<and> signature (latest_of st) \<noteq> []"
proof -
  have "(case demo_prepared of (Inl _, _) \<Rightarrow> False | (Inr st, _) \<Rightarrow> signature (latest_of st) \<noteq> [])" by code_simp
  then show ?thesis by (auto split: prod.splits sum.splits)
qed

lemma demo_prepared_ok: "\<exists>st h. demo_prepared = (Inr st, h)"
  using demo_prepared_signed by blast

text \<open>The authority of a recovered Coordinator is made anew.\<close>

lemma demo_ca_ok: "\<exists>c. new_ca demo_certlib (cert_rnds demo_rnd) 0 (root_ca_key demo_engine) [2, 3] = Inr c"
proof -
  have "case new_ca demo_certlib (cert_rnds demo_rnd) 0 (root_ca_key demo_engine) [2, 3] of Inl _ \<Rightarrow> False | Inr _ \<Rightarrow> True"
    by code_simp
  then show ?thesis by (auto split: sum.splits)
qed

lemma demo_no_collision: "\<not> collision_in demo_hash (insert demo_json (marshalled
    [\<lparr>manifest_hash = digest demo_hash demo_json, previous_transition_hash = zero_hash\<rparr>]))"
  by code_simp

text \<open>The update as two steps of the guard: prepared, then swapped in.\<close>

lemma demo_pending:
  obtains g p i g' where "guard_steps demo_env (demo_guard, []) (g, [p])" and "is_update p" and "current g = None"
    and "publish_update (from_ptr p) (prepared p) g = (i, g')" and "current g' = Some i"
proof -
  obtain st h where p: "demo_prepared = (Inr st, h)" using demo_prepared_ok by blast
  let ?p = "\<lparr>from_ptr = None, prepared = st, is_update = True\<rparr>"
  obtain i g2 where u: "publish_update None st (demo_guard\<lparr>hist_of := h\<rparr>) = (i, g2)" by fastforce
  have step: "guard_step demo_env (demo_guard, []) (demo_guard\<lparr>hist_of := h\<rparr>, [?p])"
    using p by (intro guard_step.update_prepared [where rnd = demo_rnd and se = demo_engine
          and mb = demo_json and pols = "[demo_policy]"])
      (simp_all add: valid_ptr_def deref_def demo_prepared_def)
  have cur: "current (demo_guard\<lparr>hist_of := h\<rparr>) = None" by (simp add: demo_guard_def new_guard_def)
  show thesis
    by (rule that [OF r_into_rtranclp, of "demo_guard\<lparr>hist_of := h\<rparr>" ?p i g2])
      (use step u cur publish_update_facts(4) [OF u] in simp_all)
qed

text \<open>The guard after both steps.\<close>

definition demo_current :: "(string \<Rightarrow> bytes option, bytes, bytes, unit, unit, unit) guard" where
  "demo_current = (case demo_prepared of
     (Inl _, h) \<Rightarrow> demo_guard
   | (Inr st, h) \<Rightarrow> snd (publish_update None st (demo_guard\<lparr>hist_of := h\<rparr>)))"

lemma demo_current_facts:
  "guard_steps demo_env (demo_guard, []) (demo_current, [])"
  "current demo_current = Some 0" "length (states demo_current) = 1"
proof -
  obtain st h where p: "demo_prepared = (Inr st, h)" using demo_prepared_ok by blast
  let ?g1 = "demo_guard\<lparr>hist_of := h\<rparr>"
  let ?p = "\<lparr>from_ptr = None, prepared = st, is_update = True\<rparr>"
  obtain i g2 where u: "publish_update None st ?g1 = (i, g2)" by fastforce
  have c: "demo_current = g2" by (simp add: demo_current_def p u)
  have "guard_step demo_env (demo_guard, []) (?g1, [?p])"
    using p by (intro guard_step.update_prepared [where rnd = demo_rnd and se = demo_engine
          and mb = demo_json and pols = "[demo_policy]"])
      (simp_all add: valid_ptr_def deref_def demo_prepared_def)
  moreover have "guard_step demo_env (?g1, [?p]) (g2, remove1 ?p [?p])"
    using u by (intro guard_step.update_swapped) simp_all
  then have "guard_step demo_env (?g1, [?p]) (g2, [])" by simp
  ultimately show "guard_steps demo_env (demo_guard, []) (demo_current, [])"
    unfolding c by (rule converse_rtranclp_into_rtranclp [OF _ r_into_rtranclp])
  show "current demo_current = Some 0" "length (states demo_current) = 1"
    using publish_update_facts [OF u] by (simp_all add: c demo_guard_def new_guard_def)
qed

lemma demo_current_ok: "guard_ok demo_env (demo_current, [])"
  using guard_steps_ok [OF demo_current_facts(1)] guard_ok_start [of demo_env "\<lambda>_. None"]
  by (simp add: demo_root_free demo_sigs_correct demo_guard_def)

lemma demo_current_cache: "cache_ok demo_hash (hist_of demo_current)"
  using demo_current_ok by (simp add: guard_ok_def)

lemma demo_run: "\<exists>g ps st. guard_steps demo_env (demo_guard, []) (g, ps) \<and> st \<in> set (states g)"
  using demo_current_facts by (metis nth_mem zero_less_one)

end
