(* ===== verification/SwapDemo.thy ===== *)
theory SwapDemo
  imports SwapSystem Demo
begin

text \<open>
  A cluster in memory on which the config map store's properties are applied: one without objects, and
  one whose latest transition two Coordinators replace at the same time.
\<close>

section \<open>A cluster without objects\<close>

definition demo_cmconf :: cmconf where
  "demo_cmconf = \<lparr>cf_namespace = ''default'', cf_version = ''v1''\<rparr>"

definition demo_kube :: mem_kube_state where
  "demo_kube = []"

lemma demo_kube_swap:
  "\<exists>w s. cm_cas_read mem_kube demo_cmconf demo_kube latest_key [] [7] = (Inr w, demo_kube)
     \<and> cm_cas_write mem_kube demo_kube w = (Inr (), s)"
  by (simp add: cm_cas_read_def object_name_of [OF latest_key_re] mem_kube_def demo_kube_def
      is_not_found_def err_not_found_def discard_def mk_put_def)

text \<open>
  A cluster with a first transition, and two Coordinators that replace it at the same time: both read it,
  then both write.
\<close>

definition demo_latest :: "8 word \<Rightarrow> latest_transition" where
  "demo_latest n = \<lparr>transition_hash = replicate 32 n, signature = [n]\<rparr>"

definition demo_shared :: mem_kube_state where
  "demo_shared = [new_entry ''v1'' ''default'' (name_of latest_key) latest_key (marshal_latest (Some (demo_latest 1)))]"

lemma demo_race:
  "case set_latest_read demo_sigs mem_kube demo_cmconf (Some (demo_latest 1)) (demo_latest 2) [6] [] demo_shared of
     (Inr (l1, w1), s1) \<Rightarrow>
       (case set_latest_read demo_sigs mem_kube demo_cmconf (Some (demo_latest 1)) (demo_latest 3) [5] [] s1 of
          (Inr (l2, w2), s2) \<Rightarrow>
            (case set_latest_write mem_kube s2 l1 w1 of
               (Inr _, s3) \<Rightarrow> (case set_latest_write mem_kube s3 l2 w2 of (Inl _, _) \<Rightarrow> True | _ \<Rightarrow> False)
             | _ \<Rightarrow> False)
        | _ \<Rightarrow> False)
   | _ \<Rightarrow> False"
  by code_simp

lemma mem_write_failed: "set_latest_write mem_kube s l w = (Inl e, s') \<Longrightarrow> s' = s"
  by (cases w) (auto simp: set_latest_write_def discard_def mem_kube_def mk_put_def split: option.splits if_splits)

lemma case_answers:
  "(case p of (Inr (x, w), s) \<Rightarrow> P x w s | _ \<Rightarrow> False) \<longleftrightarrow> (\<exists>x w s. p = (Inr (x, w), s) \<and> P x w s)"
  "(case q of (Inr y, s) \<Rightarrow> Q y s | _ \<Rightarrow> False) \<longleftrightarrow> (\<exists>y s. q = (Inr y, s) \<and> Q y s)"
  "(case q of (Inl e, s) \<Rightarrow> Q' e s | _ \<Rightarrow> False) \<longleftrightarrow> (\<exists>e s. q = (Inl e, s) \<and> Q' e s)"
  by (auto split: prod.splits sum.splits)

lemma demo_race_runs:
  "\<exists>a l1 l2 w2 e s. cluster_steps demo_sigs mem_kube demo_cmconf mk_found mk_used (fresh_cluster demo_shared) a
     \<and> swaps a = [(Some (demo_latest 1), l1)] \<and> calls a 2 = Some (Some (demo_latest 1), l2, w2)
     \<and> set_latest_write mem_kube (api a) l2 w2 = (Inl e, s) \<and> s = api a"
proof -
  let ?step = "cluster_step demo_sigs mem_kube demo_cmconf mk_found mk_used"
  let ?l = "Some (demo_latest 1)"
  obtain l1 w1 s1 l2 w2 s2 l s3 e s4 where
    r1: "set_latest_read demo_sigs mem_kube demo_cmconf ?l (demo_latest 2) [6] [] demo_shared = (Inr (l1, w1), s1)"
    and r2: "set_latest_read demo_sigs mem_kube demo_cmconf ?l (demo_latest 3) [5] [] s1 = (Inr (l2, w2), s2)"
    and w1: "set_latest_write mem_kube s2 l1 w1 = (Inr l, s3)" and w2: "set_latest_write mem_kube s3 l2 w2 = (Inl e, s4)"
    using demo_race unfolding case_answers by blast
  let ?a1 = "\<lparr>api = s1, calls = [1 \<mapsto> (?l, l1, w1)], swaps = []\<rparr>"
  let ?a2 = "\<lparr>api = s2, calls = [1 \<mapsto> (?l, l1, w1), 2 \<mapsto> (?l, l2, w2)], swaps = []\<rparr>"
  let ?a3 = "\<lparr>api = s3, calls = ([1 \<mapsto> (?l, l1, w1), 2 \<mapsto> (?l, l2, w2)])(1 := None), swaps = [(?l, l1)]\<rparr>"
  have "?step (fresh_cluster demo_shared) ?a1"
    using cluster_step.call_begins [of "fresh_cluster demo_shared" 1] r1 by (fastforce simp: fresh_cluster_def)
  moreover have "?step ?a1 ?a2" using cluster_step.call_begins [of ?a1 2] r2 by fastforce
  moreover have "?step ?a2 ?a3" using cluster_step.call_ends [of ?a2 1] w1 by fastforce
  ultimately have "cluster_steps demo_sigs mem_kube demo_cmconf mk_found mk_used (fresh_cluster demo_shared) ?a3"
    by (meson rtranclp.rtrancl_into_rtrancl rtranclp.rtrancl_refl)
  moreover have "swaps ?a3 = [(?l, l1)]" "calls ?a3 2 = Some (?l, l2, w2)" "set_latest_write mem_kube (api ?a3) l2 w2 = (Inl e, s4)"
    "s4 = api ?a3" using w2 mem_write_failed [OF w2] by simp_all
  ultimately show ?thesis by blast
qed

end
