(* ===== verification/StoreRecovery.thy ===== *)
theory StoreRecovery
  imports ConfigMapStoreFacts
begin

text \<open>
  What \<open>RecoverConfigMaps\<close> emits: for every key the history would have written, a config map
  under the name and with the data key where the store of \<open>configmapstore\<close> looks for it.
\<close>

definition holds_object :: "configmap list \<Rightarrow> string \<Rightarrow> bytes \<Rightarrow> bool" where
  "holds_object out key val \<longleftrightarrow>
     (\<exists>cm\<in>set out. object_name key = Inr (cm_name cm) \<and> data_lookup cm (key_base key) = Some val)"

lemma key_base_hex: "key_base (hex_encode h) = hex_encode h"
proof -
  have "CHR ''/'' \<notin> set (hex_encode h)"
    using hex_encode_key_chars [of h] by (auto simp: list_all_iff key_char_def)
  then show ?thesis by (simp add: key_base_def split_on_none)
qed

lemma key_base_content: "kind \<in> set history_kinds \<Longrightarrow> length h = 32 \<Longrightarrow> key_base (content_path kind h) = hex_encode h"
proof -
  assume "kind \<in> set history_kinds" and "length h = 32"
  then have "key_re (content_path kind h)" by (rule content_path_key_re)
  from key_re_join [OF this] have "content_path kind h = key_dir (content_path kind h) @ CHR ''/'' # key_base (content_path kind h)"
    and n: "CHR ''/'' \<notin> set (key_dir (content_path kind h))" by auto
  moreover have "content_path kind h = kind @ CHR ''/'' # hex_encode h" by (simp add: content_path_def)
  moreover have "CHR ''/'' \<notin> set kind" using \<open>kind \<in> set history_kinds\<close> by (auto simp: history_kinds_def)
  ultimately show ?thesis using append_dash_inject n by metis
qed

definition content_entry :: "string \<Rightarrow> string \<Rightarrow> hash \<times> bytes \<Rightarrow> configmap" where
  "content_entry version kind x =
     new_entry version [] (name_of (content_path kind (fst x))) (hex_encode (fst x)) (snd x)"

lemma append_cms_entries:
  assumes "kind \<in> set history_kinds" and "\<forall>x\<in>set xs. length (fst x) = 32"
  shows "append_cms version what kind xs hist = Inr (hist @ map (content_entry version kind) xs)"
  using assms(2)
proof (induction xs arbitrary: hist)
  case (Cons x xs)
  obtain h c where x: "x = (h, c)" by (cases x)
  with Cons.prems have "object_name (content_path kind h) = Inr (name_of (content_path kind h))"
    using object_name_of content_path_key_re [OF assms(1)] by simp
  with Cons x show ?case by (simp add: append_cm_def content_entry_def)
qed simp

lemma content_entry_holds:
  assumes "kind \<in> set history_kinds" and "(h, c) \<in> set xs" and "length h = 32"
    and "set (map (content_entry version kind) xs) \<subseteq> set out"
  shows "holds_object out (content_path kind h) c"
proof -
  have "content_entry version kind (h, c) \<in> set out" using assms(2,4) by auto
  moreover have "object_name (content_path kind h) = Inr (cm_name (content_entry version kind (h, c)))"
    using object_name_of [OF content_path_key_re [OF assms(1,3)]] by (simp add: content_entry_def)
  moreover have "data_lookup (content_entry version kind (h, c)) (key_base (content_path kind h)) = Some c"
    by (simp add: content_entry_def key_base_content [OF assms(1,3)] new_entry_def data_lookup_def key_base_hex)
  ultimately show ?thesis unfolding holds_object_def by blast
qed

lemma latest_name: "object_name latest_key = Inr ''contrast-store-transitions-latest''" "key_base latest_key = ''latest''"
  "key_base ''latest'' = ''latest''"
  by code_simp+

lemma recover_config_maps_ok:
  assumes "recover_config_maps H version ms ps lh sig = Inr out"
  shows "32 \<le> length lh"
    and "m \<in> set ms \<Longrightarrow> holds_object out (content_path ''manifests'' (digest H m)) m"
    and "q \<in> set ps \<Longrightarrow> holds_object out (content_path ''policies'' (digest H q)) q"
    and "t \<in> set (build_transition_chain H ms) \<Longrightarrow>
      holds_object out (content_path ''transitions'' (transition_digest H t)) (marshal_transition t)"
    and "holds_object out latest_key (marshal_latest (Some \<lparr>transition_hash = take 32 lh, signature = sig\<rparr>))"
proof -
  let ?m = "map (\<lambda>m. (digest H m, m)) ms" and ?p = "map (\<lambda>p. (digest H p, p)) ps"
    and ?t = "map (\<lambda>t. (transition_digest H t, marshal_transition t)) (build_transition_chain H ms)"
  let ?l = "new_entry version [] ''contrast-store-transitions-latest'' ''latest''
      (marshal_latest (Some \<lparr>transition_hash = take 32 lh, signature = sig\<rparr>))"
  note e = append_cms_entries [OF history_kinds_mem(1)] append_cms_entries [OF history_kinds_mem(2)]
    append_cms_entries [OF history_kinds_mem(3)]
  have len: "\<forall>x\<in>set ?m. length (fst x) = 32" "\<forall>x\<in>set ?p. length (fst x) = 32" "\<forall>x\<in>set ?t. length (fst x) = 32"
    by (auto simp: transition_digest_def)
  have b: "32 \<le> length lh" and out: "out = map (content_entry version ''manifests'') ?m
      @ map (content_entry version ''policies'') ?p @ map (content_entry version ''transitions'') ?t @ [?l]"
    using assms by (auto simp: recover_config_maps_def e len hash_size_def latest_name Let_def
        simp del: marshal_latest.simps split: if_splits)
  show "32 \<le> length lh" by (rule b)
  show "holds_object out (content_path ''manifests'' (digest H m)) m" if "m \<in> set ms"
    by (rule content_entry_holds [of _ _ _ ?m version]) (use that out in auto)
  show "holds_object out (content_path ''policies'' (digest H q)) q" if "q \<in> set ps"
    by (rule content_entry_holds [of _ _ _ ?p version]) (use that out in auto)
  show "holds_object out (content_path ''transitions'' (transition_digest H t)) (marshal_transition t)"
    if "t \<in> set (build_transition_chain H ms)"
    by (rule content_entry_holds [of _ _ _ ?t version]) (use that out in \<open>auto simp: transition_digest_def\<close>)
  have "?l \<in> set out" using out by simp
  then show "holds_object out latest_key (marshal_latest (Some \<lparr>transition_hash = take 32 lh, signature = sig\<rparr>))"
    unfolding holds_object_def latest_name
    by (intro bexI [of _ ?l]) (simp_all add: new_entry_def data_lookup_def latest_name)
qed

end
