(* ===== verification/Userapi.thy ===== *)
theory Userapi
  imports GuardSystem
begin

text \<open>
  \<open>coordinator/internal/userapi/userapi.go\<close>: the RPC handlers through which users set
  manifests, read them and recover the Coordinator. A handler takes the guard and returns the
  response, or a gRPC status, with the guard it leaves. \<open>GetManifests\<close> consults the guard
  twice; what other calls do to it in between is an argument.
\<close>

section \<open>Requests, peers and the server\<close>

text \<open>Optional byte fields distinguish nil from present.\<close>

record set_manifest_request =
  req_manifest :: bytes
  req_policies :: "bytes list"
  req_previous_transition_hash :: "bytes option"
  req_signature :: "bytes option"

record seed_share_document =
  doc_salt :: bytes
  doc_shares :: "seed_share list"

record set_manifest_response =
  resp_root_ca :: bytes
  resp_mesh_ca :: bytes
  seed_shares_doc :: "seed_share_document option"

record recover_request =
  rec_seed :: bytes
  rec_salt :: bytes
  rec_force :: bool

text \<open>The peer of the RPC context: absent, authenticated otherwise, or by TLS certificates.\<close>

datatype ('pk, 'rsa) peer = NoPeer | OtherAuth | TLSPeer "('pk, 'rsa) pubkey option list"

text \<open>The server over its guard's environment and the owner key library.\<close>

record ('s, 'sk, 'pk, 'e, 'i, 'u, 'rsa, 'rsask) server =
  server_env :: "('s, 'sk, 'pk, 'e, 'i, 'u) env"
  server_keys :: "('pk, 'rsa, 'sk, 'rsask) keylib"
  allow_insecure :: bool

definition err_no_manifest :: goerr where
  "err_no_manifest = Sentinel ''no manifest configured''"
definition err_already_recovered :: goerr where
  "err_already_recovered = Sentinel ''coordinator is already recovered''"
definition err_needs_recovery :: goerr where
  "err_needs_recovery = Sentinel ''coordinator is in recovery mode''"
definition err_insecure_not_allowed :: goerr where
  "err_insecure_not_allowed = Sentinel ''manifest contains insecure platforms, but the coordinator is not configured to allow them''"
definition err_mixed_manifest :: goerr where
  "err_mixed_manifest = Sentinel ''manifest must not mix secure and insecure platforms''"
definition err_secure_not_allowed :: goerr where
  "err_secure_not_allowed = Sentinel ''secure manifest is not allowed when the coordinator is configured for insecure manifests''"
definition err_no_signature :: goerr where
  "err_no_signature = Sentinel ''manifest signature is empty''"

definition nil_dereference :: goerr where
  "nil_dereference = Panic ''invalid memory address or nil pointer dereference''"

definition make_insecure ::
  "('s, 'sk, 'pk, 'e, 'i, 'u, 'rsa, 'rsask) server \<Rightarrow> ('s, 'sk, 'pk, 'e, 'i, 'u, 'rsa, 'rsask) server" where
  "make_insecure srv = srv\<lparr>allow_insecure := True\<rparr>"

section \<open>Authorization\<close>

text \<open>The blob a workload owner signs: the hex form of the next transition's hash, hashed.\<close>

definition signed_hash :: "(bytes \<Rightarrow> bytes) \<Rightarrow> bytes \<Rightarrow> hash \<Rightarrow> hash" where
  "signed_hash H manifest prev =
     digest H (bytes_of_string (hex_encode (transition_digest H
       \<lparr>manifest_hash = digest H manifest, previous_transition_hash = prev\<rparr>)))"

fun verify_any ::
  "('pk, 'rsa, 'sk, 'rsask) keylib \<Rightarrow> ('sk, 'pk) sigs \<Rightarrow> hash \<Rightarrow> bytes \<Rightarrow> hexstring list \<Rightarrow> goerr option" where
  "verify_any K C hsh sig [] = Some (Msg ''invalid manifest signature'')"
| "verify_any K C hsh sig (k # ks) =
     (case parse_workload_owner_public_key K k of
        Inl e \<Rightarrow> Some (Wrap ''parsing key'' e)
      | Inr pk \<Rightarrow> (if verify_asn1 C pk hsh sig then None else verify_any K C hsh sig ks))"

definition validate_signature ::
  "('s, 'sk, 'pk, 'e, 'i, 'u, 'rsa, 'rsask) server \<Rightarrow> hexstring list \<Rightarrow> hash \<Rightarrow> set_manifest_request
   \<Rightarrow> goerr option" where
  "validate_signature srv keys latest req =
     (let E = server_env srv in
      if keys = [] then Some (Msg ''setting manifest is disabled (no workload owner keys in manifest)'')
      else (case req_signature req of
          None \<Rightarrow> Some err_no_signature
        | Some sig \<Rightarrow>
            (if sig = [] then Some err_no_signature
             else verify_any (server_keys srv) (sig_scheme E)
               (signed_hash (hash_fun E) (req_manifest req) latest) sig keys)))"

definition get_peer_public_key ::
  "('pk, 'rsa, 'sk, 'rsask) keylib \<Rightarrow> ('pk, 'rsa) peer \<Rightarrow> bytes result" where
  "get_peer_public_key K p =
     (case p of
        NoPeer \<Rightarrow> Inl (Msg ''no peer found in context'')
      | OtherAuth \<Rightarrow> Inl (Msg ''peer auth info is not of type TLSInfo'')
      | TLSPeer [] \<Rightarrow> Inl (Msg ''no peer certificates found'')
      | TLSPeer (None # _) \<Rightarrow> Inl (Msg ''no peer certificates found'')
      | TLSPeer (Some pk # _) \<Rightarrow>
          (case pk of
             RSAKey k \<Rightarrow> Inr (lib_marshal_pkcs1_public K k)
           | ECDSAKey k \<Rightarrow> lib_marshal_pkix_ec K k
           | OtherKey \<Rightarrow> Inl (Msg ''unsupported peer public key type'')))"

fun match_peer :: "bytes \<Rightarrow> hexstring list \<Rightarrow> goerr option" where
  "match_peer pk [] = Some (Msg ''peer not authorized'')"
| "match_peer pk (k # ks) =
     (case hex_bytes k of
        Inl e \<Rightarrow> Some (Wrap ''parsing key'' e)
      | Inr b \<Rightarrow> (if pk = b then None else match_peer pk ks))"

definition validate_peer ::
  "('pk, 'rsa, 'sk, 'rsask) keylib \<Rightarrow> ('pk, 'rsa) peer \<Rightarrow> hexstring list \<Rightarrow> goerr option" where
  "validate_peer K p keys =
     (if keys = [] then Some (Msg ''setting manifest is disabled'')
      else (case get_peer_public_key K p of
          Inl e \<Rightarrow> Some e
        | Inr pk \<Rightarrow> match_peer pk keys))"

definition check_manifest_security :: "bool \<Rightarrow> manifest \<Rightarrow> goerr option" where
  "check_manifest_security allow m =
     (let insecure = has_insecure_platforms m; secure = has_secure_platforms m in
      if insecure \<and> secure then Some err_mixed_manifest
      else if insecure \<and> \<not> allow then Some err_insecure_not_allowed
      else if \<not> insecure \<and> allow then Some err_secure_not_allowed
      else None)"

section \<open>SetManifest\<close>

definition status :: "grpc_code \<Rightarrow> string \<Rightarrow> goerr \<Rightarrow> goerr" where
  "status c p e = Status c (p @ '': '' @ err_text e)"

text \<open>What the handler draws: seed, salt, the randomness of the shares, and the update's.\<close>

record user_rnd =
  seed_bytes :: "bytes result"
  salt_bytes :: "bytes result"
  share_rnd :: "nat \<Rightarrow> bytes"
  update_rnd :: call_rnd

text \<open>
  A later manifest: the caller needs a workload owner's signature, or, without a signature,
  a workload owner's TLS certificate. \<open>m\<close> is nil for the JSON value null.
\<close>

definition authorize_later ::
  "('s, 'sk, 'pk, 'e, 'i, 'u, 'rsa, 'rsask) server \<Rightarrow> ('pk, 'rsa) peer \<Rightarrow> set_manifest_request
   \<Rightarrow> ('sk, 'pk, 'e, 'i, 'u) state \<Rightarrow> manifest option \<Rightarrow> 'sk seed_engine result" where
  "authorize_later srv p req old m =
     (let keys = workload_owner_pub_keys (manifest_of old); latest = transition_hash (latest_of old);
          checked = (case validate_signature srv keys latest req of
             Some e \<Rightarrow>
               (if \<not> err_is e err_no_signature
                then Some (status PermissionDenied ''validating manifest signature'' e)
                else (case validate_peer (server_keys srv) p keys of
                    Some e' \<Rightarrow> Some (status PermissionDenied ''validating peer'' e')
                  | None \<Rightarrow> None))
           | None \<Rightarrow> None)
      in case checked of
           Some e \<Rightarrow> Inl e
         | None \<Rightarrow>
             (case m of
                None \<Rightarrow> Inl nil_dereference
              | Some mnfst \<Rightarrow>
                  (if seedshare_owner_pub_keys (manifest_of old) \<noteq> seedshare_owner_pub_keys mnfst
                   then Inl (Status PermissionDenied ''changes to seedshare owners are not allowed'')
                   else (case req_previous_transition_hash req of
                       None \<Rightarrow> Inr (seed_engine_of old)
                     | Some h \<Rightarrow>
                         (if latest \<noteq> h
                          then Inl (Status FailedPrecondition ''previous transition hash does not match latest state'')
                          else Inr (seed_engine_of old))))))"

text \<open>The first manifest: the seed engine is created and its seed encrypted for the owners.\<close>

definition authorize_first ::
  "('s, 'sk, 'pk, 'e, 'i, 'u, 'rsa, 'rsask) server \<Rightarrow> user_rnd \<Rightarrow> set_manifest_request
   \<Rightarrow> manifest option \<Rightarrow> ('sk seed_engine \<times> seed_share_document) result" where
  "authorize_first srv r req m =
     (let checked = (case req_signature req of
             None \<Rightarrow> None
           | Some _ \<Rightarrow>
               (case m of
                  None \<Rightarrow> Some nil_dereference
                | Some mnfst \<Rightarrow>
                    (case validate_signature srv (workload_owner_pub_keys mnfst) zero_hash req of
                       Some e \<Rightarrow> Some (status PermissionDenied ''validating manifest signature'' e)
                     | None \<Rightarrow> None)))
      in case checked of
           Some e \<Rightarrow> Inl e
         | None \<Rightarrow>
      (if (case req_previous_transition_hash req of None \<Rightarrow> False | Some h \<Rightarrow> h \<noteq> zero_hash)
       then Inl (Status FailedPrecondition ''previous transition hash requested but manifest history is empty'')
       else
      (case seed_bytes r of
         Inl e \<Rightarrow> Inl (status Internal ''generating random bytes for seed'' e)
       | Inr sd \<Rightarrow>
      (case salt_bytes r of
         Inl e \<Rightarrow> Inl (status Internal ''generating random bytes for seed salt'' e)
       | Inr sl \<Rightarrow>
      (case m of
         None \<Rightarrow> Inl nil_dereference
       | Some mnfst \<Rightarrow>
      (case encrypt_seed_shares (server_keys srv) (share_rnd r) sd (seedshare_owner_pub_keys mnfst) of
         Inl e \<Rightarrow> Inl (status InvalidArgument ''initializing seed engine'' e)
       | Inr shares \<Rightarrow>
      (case new_seed_engine (kdf_lib (server_env srv)) sd sl of
         Inl e \<Rightarrow> Inl (status Internal ''setting seed'' e)
       | Inr se \<Rightarrow> Inr (se, \<lparr>doc_salt = sl, doc_shares = shares\<rparr>))))))))"

definition authorize_set_manifest ::
  "('s, 'sk, 'pk, 'e, 'i, 'u, 'rsa, 'rsask) server \<Rightarrow> user_rnd \<Rightarrow> ('pk, 'rsa) peer \<Rightarrow> set_manifest_request
   \<Rightarrow> ('sk, 'pk, 'e, 'i, 'u) state option \<Rightarrow> manifest option
   \<Rightarrow> ('sk seed_engine \<times> seed_share_document option) result" where
  "authorize_set_manifest srv r p req old m =
     (case old of
        Some st \<Rightarrow> (case authorize_later srv p req st m of Inl e \<Rightarrow> Inl e | Inr se \<Rightarrow> Inr (se, None))
      | None \<Rightarrow> (case authorize_first srv r req m of Inl e \<Rightarrow> Inl e | Inr (se, doc) \<Rightarrow> Inr (se, Some doc)))"

definition set_manifest ::
  "('s, 'sk, 'pk, 'e, 'i, 'u, 'rsa, 'rsask) server \<Rightarrow> user_rnd \<Rightarrow> ('pk, 'rsa) peer \<Rightarrow> set_manifest_request
   \<Rightarrow> ('s, 'sk, 'pk, 'e, 'i, 'u) guard
   \<Rightarrow> set_manifest_response result \<times> ('s, 'sk, 'pk, 'e, 'i, 'u) guard" where
  "set_manifest srv r p req g =
     (let E = server_env srv in
      case get_state E g of ((oldp, err), g1) \<Rightarrow>
        (let stop = (case err of
               None \<Rightarrow> None
             | Some e \<Rightarrow>
                 (if err_is e err_stale_state
                  then Some (Status FailedPrecondition (err_text err_needs_recovery))
                  else if err_is e err_no_state then None
                  else Some (status Internal ''getting state'' e)))
         in case stop of
              Some e \<Rightarrow> (Inl e, g1)
            | None \<Rightarrow>
         (case json_manifest E (req_manifest req) of
            Inl e \<Rightarrow> (Inl (status InvalidArgument ''unmarshaling manifest'' e), g1)
          | Inr m \<Rightarrow>
         (case authorize_set_manifest srv r p req (deref g1 oldp) m of
            Inl e \<Rightarrow> (Inl e, g1)
          | Inr (se, doc) \<Rightarrow>
         (case m of
            None \<Rightarrow> (Inl nil_dereference, g1)
          | Some mnfst \<Rightarrow>
         (case check_manifest_security (allow_insecure srv) mnfst of
            Some e \<Rightarrow> (Inl (Status InvalidArgument (err_text e)), g1)
          | None \<Rightarrow>
         (case update_state E (update_rnd r) oldp se (req_manifest req) (req_policies req) g1 of
            (Inl e, g2) \<Rightarrow>
              (Inl (status (if err_is e err_concurrent_update then FailedPrecondition else Internal)
                 ''updating Coordinator state'' e), g2)
          | (Inr i, g2) \<Rightarrow>
              (Inr \<lparr>resp_root_ca = get_root_ca_cert (ca_of (states g2 ! i)),
                    resp_mesh_ca = get_mesh_ca_cert (ca_of (states g2 ! i)),
                    seed_shares_doc = doc\<rparr>, g2))))))))"

section \<open>GetManifests\<close>

text \<open>
  The policies are sent in the order in which Go ranges over the map; the response keeps the
  map. \<open>others\<close> is what happens between the handler's two calls of the guard.
\<close>

record get_manifests_response =
  gm_manifests :: "bytes list"
  gm_policies :: "hexstring \<Rightarrow> bytes option"
  gm_root_ca :: bytes
  gm_mesh_ca :: bytes
  gm_latest :: latest_transition

definition get_manifests ::
  "('s, 'sk, 'pk, 'e, 'i, 'u, 'rsa, 'rsask) server
   \<Rightarrow> (('s, 'sk, 'pk, 'e, 'i, 'u) guard \<Rightarrow> ('s, 'sk, 'pk, 'e, 'i, 'u) guard)
   \<Rightarrow> ('s, 'sk, 'pk, 'e, 'i, 'u) guard
   \<Rightarrow> (get_manifests_response result \<times> ('s, 'sk, 'pk, 'e, 'i, 'u) guard) option" where
  "get_manifests srv others g =
     (let E = server_env srv in
      case get_state E g of
        ((_, Some e), g1) \<Rightarrow> Some (Inl
          (if err_is e err_no_state then Status FailedPrecondition (err_text err_no_manifest)
           else if err_is e err_stale_state then Status FailedPrecondition (err_text err_needs_recovery)
           else status Internal ''getting state'' e), g1)
      | ((None, None), g1) \<Rightarrow> Some (Inl nil_dereference, g1)
      | ((Some i, None), g1) \<Rightarrow>
          (case get_history E (others g1) of
             None \<Rightarrow> None
           | Some (Inl e, g2) \<Rightarrow> Some (Inl (status Internal ''getting history'' e), g2)
           | Some (Inr (ms, ps), g2) \<Rightarrow>
               (let st = states g1 ! i in
                Some (Inr \<lparr>gm_manifests = ms, gm_policies = ps, gm_root_ca = get_root_ca_cert (ca_of st),
                  gm_mesh_ca = get_mesh_ca_cert (ca_of st), gm_latest = latest_of st\<rparr>, g2))))"

section \<open>Recover\<close>

definition seed_authorizer ::
  "('s, 'sk, 'pk, 'e, 'i, 'u, 'rsa, 'rsask) server \<Rightarrow> bytes \<Rightarrow> ('pk, 'rsa) peer \<Rightarrow> recover_request
   \<Rightarrow> 'sk authorizer" where
  "seed_authorizer srv rnd p req m =
     (case check_manifest_security (allow_insecure srv) m of
        Some e \<Rightarrow> Inl (Status FailedPrecondition (err_text e))
      | None \<Rightarrow>
     (case validate_peer (server_keys srv) p (seedshare_owner_pub_keys m) of
        Some e \<Rightarrow> Inl (status PermissionDenied ''peer not authorized to recover existing state'' e)
      | None \<Rightarrow>
     (case new_seed_engine (kdf_lib (server_env srv)) (rec_seed req) (rec_salt req) of
        Inl e \<Rightarrow> Inl (status InvalidArgument ''initializing seed engine'' e)
      | Inr se \<Rightarrow>
     (case generate_mesh_ca_key (kdf_lib (server_env srv)) rnd of
        Inl e \<Rightarrow> Inl (status Internal ''deriving mesh CA key'' e)
      | Inr key \<Rightarrow> Inr (se, key)))))"

definition recover ::
  "('s, 'sk, 'pk, 'e, 'i, 'u, 'rsa, 'rsask) server \<Rightarrow> call_rnd \<Rightarrow> ('pk, 'rsa) peer \<Rightarrow> string list result
   \<Rightarrow> recover_request \<Rightarrow> ('s, 'sk, 'pk, 'e, 'i, 'u) guard
   \<Rightarrow> (unit result \<times> ('s, 'sk, 'pk, 'e, 'i, 'u) guard) option" where
  "recover srv r p peers req g =
     (let E = server_env srv in
      case get_state E g of
        ((_, None), g1) \<Rightarrow> Some (Inl (Status FailedPrecondition (err_text err_already_recovered)), g1)
      | ((oldp, Some e), g1) \<Rightarrow>
          (if err_is e err_stale_state then
             (let blocked = (if rec_force req then None
                else (case peers of
                    Inl e' \<Rightarrow> Some (status Internal ''listing peers'' e')
                  | Inr ps \<Rightarrow> (if ps \<noteq> [] then Some (Status FailedPrecondition
                      ''rejecting user recovery because recovered peers are available'') else None)))
              in case blocked of
                   Some e' \<Rightarrow> Some (Inl e', g1)
                 | None \<Rightarrow>
                     (case reset_state E r oldp (seed_authorizer srv (mesh_key_rnd r) p req) g1 of
                        None \<Rightarrow> None
                      | Some (Inl e', g2) \<Rightarrow> Some (Inl (Wrap ''resetting state'' e'), g2)
                      | Some (Inr _, g2) \<Rightarrow> Some (Inr (), g2)))
           else if err_is e err_no_state then Some (Inl (Status FailedPrecondition ''no state to recover from''), g1)
           else Some (Inl (status Internal ''getting state'' e), g1)))"

end
