(* ===== verification/UserapiFacts.thy ===== *)
theory UserapiFacts
  imports Userapi
begin

text \<open>
  What the user API enforces: who may replace a manifest and recover the Coordinator, that a
  failed call changes nothing but the history's cache and store, that the seed shares of the
  first manifest rebuild the state's secrets, and when the manifests that are handed out belong
  to the attested state.
\<close>

section \<open>Authorization\<close>

definition owner_signed ::
  "('s, 'sk, 'pk, 'e, 'i, 'u, 'rsa, 'rsask) server \<Rightarrow> hexstring list \<Rightarrow> hash \<Rightarrow> set_manifest_request \<Rightarrow> bool" where
  "owner_signed srv keys latest req \<longleftrightarrow> (\<exists>k\<in>set keys. \<exists>pk sig.
     parse_workload_owner_public_key (server_keys srv) k = Inr pk \<and> req_signature req = Some sig
     \<and> verify_asn1 (sig_scheme (server_env srv)) pk
         (signed_hash (hash_fun (server_env srv)) (req_manifest req) latest) sig)"

definition owner_connected ::
  "('pk, 'rsa, 'sk, 'rsask) keylib \<Rightarrow> ('pk, 'rsa) peer \<Rightarrow> hexstring list \<Rightarrow> bool" where
  "owner_connected K p keys \<longleftrightarrow>
     (\<exists>k\<in>set keys. \<exists>b. get_peer_public_key K p = Inr b \<and> hex_bytes k = Inr b)"

lemma verify_any_None:
  "verify_any K C hsh sig ks = None \<Longrightarrow>
     \<exists>k\<in>set ks. \<exists>pk. parse_workload_owner_public_key K k = Inr pk \<and> verify_asn1 C pk hsh sig"
  by (induction ks) (auto split: sum.splits if_splits)

lemma match_peer_None: "match_peer pk ks = None \<Longrightarrow> \<exists>k\<in>set ks. hex_bytes k = Inr pk"
  by (induction ks) (auto split: sum.splits if_splits)

lemma validate_signature_None:
  assumes "validate_signature srv keys latest req = None"
  shows "owner_signed srv keys latest req"
proof -
  obtain sig where sig: "req_signature req = Some sig" "verify_any (server_keys srv) (sig_scheme (server_env srv))
      (signed_hash (hash_fun (server_env srv)) (req_manifest req) latest) sig keys = None"
    using assms by (auto simp: validate_signature_def Let_def split: if_splits option.splits)
  from verify_any_None [OF this(2)] sig(1) show ?thesis unfolding owner_signed_def by blast
qed

lemma validate_peer_None:
  assumes "validate_peer K p keys = None"
  shows "owner_connected K p keys"
  using assms match_peer_None
  by (fastforce simp: validate_peer_def owner_connected_def split: if_splits sum.splits)

lemma check_manifest_security_None:
  "check_manifest_security allow m = None \<longleftrightarrow>
     (if allow then has_insecure_platforms m \<and> \<not> has_secure_platforms m else \<not> has_insecure_platforms m)"
  by (auto simp: check_manifest_security_def Let_def)

text \<open>What a later manifest must satisfy, given the state it replaces.\<close>

definition may_replace ::
  "('s, 'sk, 'pk, 'e, 'i, 'u, 'rsa, 'rsask) server \<Rightarrow> ('pk, 'rsa) peer \<Rightarrow> set_manifest_request
   \<Rightarrow> ('sk, 'pk, 'e, 'i, 'u) state \<Rightarrow> manifest \<Rightarrow> bool" where
  "may_replace srv p req old m \<longleftrightarrow>
     (owner_signed srv (workload_owner_pub_keys (manifest_of old)) (chain_hash old) req
      \<or> owner_connected (server_keys srv) p (workload_owner_pub_keys (manifest_of old)))
     \<and> seedshare_owner_pub_keys m = seedshare_owner_pub_keys (manifest_of old)
     \<and> (\<forall>h. req_previous_transition_hash req = Some h \<longrightarrow> h = chain_hash old)"

lemma authorize_later_ok:
  assumes "authorize_later srv p req old (Some m) = Inr se"
  shows "may_replace srv p req old m \<and> se = seed_engine_of old"
proof -
  let ?keys = "workload_owner_pub_keys (manifest_of old)"
  have "validate_signature srv ?keys (chain_hash old) req = None \<or> validate_peer (server_keys srv) p ?keys = None"
    using assms
    by (cases "validate_signature srv ?keys (chain_hash old) req"; cases "validate_peer (server_keys srv) p ?keys")
      (simp_all add: authorize_later_def Let_def split: if_splits)
  then have "owner_signed srv ?keys (chain_hash old) req \<or> owner_connected (server_keys srv) p ?keys"
    by (auto dest: validate_signature_None validate_peer_None)
  moreover have "seedshare_owner_pub_keys m = seedshare_owner_pub_keys (manifest_of old)
     \<and> (\<forall>h. req_previous_transition_hash req = Some h \<longrightarrow> h = chain_hash old) \<and> se = seed_engine_of old"
    using assms by (simp add: authorize_later_def Let_def split: option.splits if_splits)
  ultimately show ?thesis by (simp add: may_replace_def)
qed

lemma authorize_later_disabled:
  assumes "workload_owner_pub_keys (manifest_of old) = []"
  shows "\<exists>c t. authorize_later srv p req old m = Inl (Status c t)"
proof -
  have "validate_signature srv [] h req = Some (Msg ''setting manifest is disabled (no workload owner keys in manifest)'')" for h
    by (simp add: validate_signature_def Let_def)
  then show ?thesis using assms
    by (simp add: authorize_later_def Let_def err_no_signature_def status_def)
qed

lemma authorize_first_ok:
  assumes "authorize_first srv r req (Some m) = Inr (se, doc)"
  obtains sd where "encrypt_seed_shares (server_keys srv) (share_rnd r) sd (seedshare_owner_pub_keys m)
        = Inr (doc_shares doc)"
    and "new_seed_engine (kdf_lib (server_env srv)) sd (doc_salt doc) = Inr se"
    and "\<And>h. req_previous_transition_hash req = Some h \<Longrightarrow> h = zero_hash"
    and "req_signature req \<noteq> None \<Longrightarrow> owner_signed srv (workload_owner_pub_keys m) zero_hash req"
proof -
  have sig: "req_signature req \<noteq> None \<Longrightarrow> owner_signed srv (workload_owner_pub_keys m) zero_hash req"
    using assms
    by (cases "req_signature req"; cases "validate_signature srv (workload_owner_pub_keys m) zero_hash req")
      (simp_all add: authorize_first_def Let_def validate_signature_None)
  have prev: "req_previous_transition_hash req = Some h \<Longrightarrow> h = zero_hash" for h
    using assms by (auto simp: authorize_first_def Let_def split: option.splits if_splits)
  obtain sd where "encrypt_seed_shares (server_keys srv) (share_rnd r) sd (seedshare_owner_pub_keys m)
        = Inr (doc_shares doc)"
    and "new_seed_engine (kdf_lib (server_env srv)) sd (doc_salt doc) = Inr se"
    using assms by (auto simp: authorize_first_def Let_def split: option.splits if_splits sum.splits)
  with sig prev that show thesis by blast
qed

section \<open>SetManifest\<close>

lemma update_state_cases:
  assumes "update_state E r old se mb pols g = (res, g')"
  obtains (failed) e h where "res = Inl e" "g' = g\<lparr>hist_of := h\<rparr>"
      "prepare_update E r (deref g old) se mb pols (hist_of g) = (Inl e, h)"
  | (okay) st h i where "res = Inr i" "prepare_update E r (deref g old) se mb pols (hist_of g) = (Inr st, h)"
      "publish_update old st (g\<lparr>hist_of := h\<rparr>) = (i, g')"
  using assms by (auto simp: update_state_def split: prod.splits sum.splits)

text \<open>The pieces of a successful call.\<close>

lemma set_manifest_ok:
  assumes "set_manifest srv r p req g = (Inr resp, g')"
  obtains oldp err g1 m se doc i where "get_state (server_env srv) g = ((oldp, err), g1)"
    and "err = None \<or> (\<exists>e. err = Some e \<and> err_is e err_no_state \<and> \<not> err_is e err_stale_state)"
    and "json_manifest (server_env srv) (req_manifest req) = Inr (Some m)"
    and "authorize_set_manifest srv r p req (deref g1 oldp) (Some m) = Inr (se, doc)"
    and "check_manifest_security (allow_insecure srv) m = None"
    and "update_state (server_env srv) (update_rnd r) oldp se (req_manifest req) (req_policies req) g1 = (Inr i, g')"
    and "seed_shares_doc resp = doc"
    and "resp_mesh_ca resp = mesh_ca_pem (ca_of (states g' ! i))"
    and "resp_root_ca resp = root_ca_pem (ca_of (states g' ! i))"
proof -
  let ?E = "server_env srv"
  obtain oldp err g1 where gs: "get_state ?E g = ((oldp, err), g1)" by (metis prod.exhaust)
  define stop where "stop = (case err of
               None \<Rightarrow> None
             | Some e \<Rightarrow>
                 (if err_is e err_stale_state
                  then Some (Status FailedPrecondition (err_text err_needs_recovery))
                  else if err_is e err_no_state then None
                  else Some (status Internal ''getting state'' e)))"
  note body = assms [unfolded set_manifest_def Let_def gs prod.case, folded stop_def]
  then have "stop = None" by (cases stop) simp_all
  with body obtain m where m: "json_manifest ?E (req_manifest req) = Inr m" 
    by (cases "json_manifest ?E (req_manifest req)") simp_all
  note body = body [unfolded \<open>stop = None\<close> m option.case sum.case]
  then obtain se doc where au: "authorize_set_manifest srv r p req (deref g1 oldp) m = Inr (se, doc)"
    by (cases "authorize_set_manifest srv r p req (deref g1 oldp) m") auto
  note body = body [unfolded au sum.case prod.case]
  then obtain mn where mn: "m = Some mn" by (cases m) simp_all
  note body = body [unfolded mn option.case]
  then have sec: "check_manifest_security (allow_insecure srv) mn = None"
    by (cases "check_manifest_security (allow_insecure srv) mn") simp_all
  note body = body [unfolded sec option.case]
  then obtain i where up: "update_state ?E (update_rnd r) oldp se (req_manifest req) (req_policies req) g1 = (Inr i, g')"
    by (auto split: prod.splits sum.splits)
  have "err = None \<or> (\<exists>e. err = Some e \<and> err_is e err_no_state \<and> \<not> err_is e err_stale_state)"
    using \<open>stop = None\<close> by (auto simp: stop_def split: option.splits if_splits)
  moreover have "seed_shares_doc resp = doc" "resp_mesh_ca resp = mesh_ca_pem (ca_of (states g' ! i))"
    "resp_root_ca resp = root_ca_pem (ca_of (states g' ! i))"
    using body by (auto simp: up get_root_ca_cert_def get_mesh_ca_cert_def)
  ultimately show thesis using gs m mn au sec up by (intro that) simp_all
qed

lemma get_state_cases:
  assumes "get_state E g = ((oldp, err), g1)"
  obtains (none) e where "oldp = None" "err = Some e" "current g = None"
  | (fresh) i where "oldp = Some i" "err = None" "current g = Some i" "\<not> stale (states g ! i)" "g1 = g"
  | (stale) i where "oldp = Some i" "err = Some err_stale_state" "current g = Some i" "stale (states g ! i)" "g1 = g"
proof (cases "current g")
  case None
  then have "oldp = None \<and> (\<exists>e. err = Some e)" using assms
    by (auto simp: get_state_def split: sum.splits bool.splits prod.splits)
  then show thesis using none None by blast
next
  case (Some i)
  show thesis
  proof (cases "Stateguard.stale (states g ! i)")
    case True
    then have "oldp = Some i" "err = Some err_stale_state" "g1 = g" using assms Some by (simp_all add: get_state_def)
    from stale [OF this(1,2) Some True this(3)] show thesis .
  next
    case False
    then have "oldp = Some i" "err = None" "g1 = g" using assms Some by (simp_all add: get_state_def)
    from fresh [OF this(1,2) Some False this(3)] show thesis .
  qed
qed

lemma err_no_state_not_stale [simp]:
  "err_is err_stale_state err_stale_state" "err_is err_no_state err_no_state"
  "\<not> err_is err_no_state err_stale_state" "\<not> err_is err_stale_state err_no_state"
  by (simp_all add: err_no_state_def err_stale_state_def)

lemma set_manifest_replaces:
  assumes ok: "set_manifest srv r p req g = (Inr resp, g')" and cur: "current g = Some i"
  shows "\<exists>m. json_manifest (server_env srv) (req_manifest req) = Inr (Some m)
    \<and> \<not> stale (states g ! i) \<and> may_replace srv p req (states g ! i) m
    \<and> check_manifest_security (allow_insecure srv) m = None \<and> seed_shares_doc resp = None
    \<and> (\<exists>j. update_state (server_env srv) (update_rnd r) (Some i) (seed_engine_of (states g ! i))
          (req_manifest req) (req_policies req) g = (Inr j, g'))"
proof -
  obtain oldp err g1 m se doc j where gs: "get_state (server_env srv) g = ((oldp, err), g1)"
    and err: "err = None \<or> (\<exists>e. err = Some e \<and> err_is e err_no_state \<and> \<not> err_is e err_stale_state)"
    and js: "json_manifest (server_env srv) (req_manifest req) = Inr (Some m)"
    and au: "authorize_set_manifest srv r p req (deref g1 oldp) (Some m) = Inr (se, doc)"
    and sec: "check_manifest_security (allow_insecure srv) m = None"
    and up: "update_state (server_env srv) (update_rnd r) oldp se (req_manifest req) (req_policies req) g1 = (Inr j, g')"
    and doc: "seed_shares_doc resp = doc"
    by (rule set_manifest_ok [OF ok])
  from gs have st: "oldp = Some i" "g1 = g" "\<not> stale (states g ! i)"
    using cur err by (cases rule: get_state_cases; auto)+
  then have "authorize_later srv p req (states g ! i) (Some m) = Inr se" "doc = None"
    using au by (auto simp: authorize_set_manifest_def deref_def split: sum.splits)
  with authorize_later_ok js sec up doc st show ?thesis by blast
qed

text \<open>A call that fails leaves every state, the current one and the gauge as they were.\<close>

lemma set_manifest_error_keeps:
  assumes "set_manifest srv r p req g = (Inl e, g')"
  shows "states g' = states g" and "current g' = current g" and "manifest_generation g' = manifest_generation g"
proof -
  obtain oldp err g1 where gs: "get_state (server_env srv) g = ((oldp, err), g1)" by (metis prod.exhaust)
  note k = get_state_keeps [OF gs]
  have up: "update_state (server_env srv) rr oldp se mb pols g1 = (Inl x, g2) \<Longrightarrow> states g2 = states g
      \<and> current g2 = current g \<and> manifest_generation g2 = manifest_generation g" for rr se mb pols x g2
    using k by (auto elim!: update_state_cases)
  have "states g' = states g \<and> current g' = current g \<and> manifest_generation g' = manifest_generation g"
    using assms k up
    by (auto simp: set_manifest_def gs Let_def split: prod.splits option.splits sum.splits if_splits)
  then show "states g' = states g" "current g' = current g" "manifest_generation g' = manifest_generation g"
    by simp_all
qed

section \<open>Seed shares\<close>

text \<open>
  The first manifest: the seed behind the shares, with the salt of the document, rebuilds the
  seed engine of the state that was created.
\<close>

lemma set_manifest_first:
  assumes ok: "set_manifest srv r p req g = (Inr resp, g')" and cur: "current g = None"
  shows "\<exists>m doc sd. json_manifest (server_env srv) (req_manifest req) = Inr (Some m)
    \<and> seed_shares_doc resp = Some doc
    \<and> encrypt_seed_shares (server_keys srv) (share_rnd r) sd (seedshare_owner_pub_keys m) = Inr (doc_shares doc)
    \<and> current g' = Some (length (states g)) \<and> length (states g') = Suc (length (states g))
    \<and> new_seed_engine (kdf_lib (server_env srv)) sd (doc_salt doc)
        = Inr (seed_engine_of (states g' ! length (states g)))"
proof -
  obtain oldp err g1 m se doc j where gs: "get_state (server_env srv) g = ((oldp, err), g1)"
    and js: "json_manifest (server_env srv) (req_manifest req) = Inr (Some m)"
    and au: "authorize_set_manifest srv r p req (deref g1 oldp) (Some m) = Inr (se, doc)"
    and up: "update_state (server_env srv) (update_rnd r) oldp se (req_manifest req) (req_policies req) g1 = (Inr j, g')"
    and doc: "seed_shares_doc resp = doc"
    by (rule set_manifest_ok [OF ok])
  note k = get_state_keeps [OF gs]
  have "oldp = None" using gs cur by (cases rule: get_state_cases) auto
  then obtain d where d: "authorize_first srv r req (Some m) = Inr (se, d)" "doc = Some d"
    using au by (auto simp: authorize_set_manifest_def deref_def split: sum.splits prod.splits)
  obtain sd where sd: "encrypt_seed_shares (server_keys srv) (share_rnd r) sd (seedshare_owner_pub_keys m) = Inr (doc_shares d)"
    "new_seed_engine (kdf_lib (server_env srv)) sd (doc_salt d) = Inr se"
    by (rule authorize_first_ok [OF d(1)])
  from up show ?thesis
  proof (cases rule: update_state_cases)
    case (okay st h i)
    have "seed_engine_of st = se" by (rule prepare_update_pieces [OF okay(2)])
    moreover note f = publish_update_facts [OF okay(3)]
    ultimately show ?thesis using js d doc sd k cur \<open>oldp = None\<close> f by (auto simp: nth_append)
  qed simp
qed

section \<open>GetManifests\<close>

lemma get_manifests_ok:
  assumes "get_manifests srv others g = Some (Inr resp, g')"
  obtains i where "current g = Some i" and "\<not> stale (states g ! i)"
    and "gm_latest resp = latest_of (states g ! i)"
    and "get_history (server_env srv) (others g) = Some (Inr (gm_manifests resp, gm_policies resp), g')"
  using assms
  by (auto simp: get_manifests_def Let_def split: prod.splits option.splits sum.splits elim!: get_state_cases)

text \<open>
  When the current state did not change in between, the response is consistent: the manifests
  hash to the links of the chain that the transition of the response heads.
\<close>

lemma get_manifests_consistent:
  assumes ok: "get_manifests srv others g = Some (Inr resp, g')"
    and same: "current (others g) = current g" "\<And>i. current g = Some i \<Longrightarrow>
        chain_hash (states (others g) ! i) = chain_hash (states g ! i)"
    and c: "cache_ok (hash_fun (server_env srv)) (hist_of (others g))"
  shows "\<exists>ts. linked (hash_fun (server_env srv)) (transition_hash (gm_latest resp)) ts
      \<and> map (digest (hash_fun (server_env srv))) (gm_manifests resp) = rev (map manifest_hash ts)
      \<and> policies_ok (hash_fun (server_env srv)) (gm_policies resp)"
proof -
  obtain i where i: "current g = Some i" "gm_latest resp = latest_of (states g ! i)"
    and gh: "get_history (server_env srv) (others g) = Some (Inr (gm_manifests resp, gm_policies resp), g')"
    by (rule get_manifests_ok [OF ok])
  from get_history_facts [OF gh c] same i show ?thesis by auto
qed

section \<open>Recover\<close>

lemma seed_authorizer_ok:
  assumes "seed_authorizer srv rnd p req m = Inr (se, key)"
  shows "owner_connected (server_keys srv) p (seedshare_owner_pub_keys m)"
    and "check_manifest_security (allow_insecure srv) m = None"
    and "new_seed_engine (kdf_lib (server_env srv)) (rec_seed req) (rec_salt req) = Inr se"
  using assms validate_peer_None by (auto simp: seed_authorizer_def split: option.splits sum.splits)

lemma recover_ok:
  assumes "recover srv r p peers req g = Some (Inr u, g')"
  obtains oldp e g1 i where "get_state (server_env srv) g = ((oldp, Some e), g1)" and "err_is e err_stale_state"
    and "rec_force req \<or> peers = Inr []"
    and "reset_state (server_env srv) r oldp (seed_authorizer srv (mesh_key_rnd r) p req) g1 = Some (Inr i, g')"
  using assms
  by (auto simp: recover_def Let_def split: prod.splits option.splits sum.splits if_splits)

lemma reset_state_cases:
  assumes "reset_state E r old auth g = Some (res, g')"
  obtains (failed) e h where "res = Inl e" "g' = g\<lparr>hist_of := h\<rparr>"
      "prepare_reset E r auth (hist_of g) = Some (Inl e, h)"
  | (okay) st h where "prepare_reset E r auth (hist_of g) = Some (Inr st, h)"
      "publish_reset old st (g\<lparr>hist_of := h\<rparr>) = (res, g')"
  using assms by (auto simp: reset_state_def split: prod.splits option.splits sum.splits)

text \<open>
  A successful recovery: the peer holds a seedshare owner's key of the manifest that is
  recovered, the seed and salt of the request give the engine whose key signed the persisted
  transition, and the guard's state is well-formed again.
\<close>

lemma recover_sound:
  assumes ok: "recover srv r p peers req g = Some (Inr u, g')"
    and c: "cache_ok (hash_fun (server_env srv)) (hist_of g)" and root: "root_free (hash_fun (server_env srv))"
  shows "\<exists>i. current g' = Some i \<and> i < length (states g') \<and> state_ok (server_env srv) (states g' ! i)
    \<and> owner_connected (server_keys srv) p (seedshare_owner_pub_keys (manifest_of (states g' ! i)))
    \<and> check_manifest_security (allow_insecure srv) (manifest_of (states g' ! i)) = None
    \<and> new_seed_engine (kdf_lib (server_env srv)) (rec_seed req) (rec_salt req)
        = Inr (seed_engine_of (states g' ! i))"
proof -
  obtain oldp e g1 i where gs: "get_state (server_env srv) g = ((oldp, Some e), g1)"
    and rs: "reset_state (server_env srv) r oldp (seed_authorizer srv (mesh_key_rnd r) p req) g1 = Some (Inr i, g')"
    by (rule recover_ok [OF ok])
  have c1: "cache_ok (hash_fun (server_env srv)) (hist_of g1)"
    using get_state_cache [OF gs] c cache_ok_cong by metis
  from rs show ?thesis
  proof (cases rule: reset_state_cases)
    case (okay st h)
    note f = publish_reset_facts [OF okay(2)]
    obtain key where au: "seed_authorizer srv (mesh_key_rnd r) p req (manifest_of st) = Inr (seed_engine_of st, key)"
      using prepare_reset_ok(3) [OF okay(1) c1 root] by blast
    have i: "i = length (states g1)" "current g1 = oldp" using f(5) by (auto split: if_splits)
    then have "current g' = Some i" "states g' ! i = st" "length (states g') = Suc i" using f by simp_all
    then show ?thesis
      using prepare_reset_ok(1) [OF okay(1) c1 root] seed_authorizer_ok [OF au] by simp
  qed simp
qed

end
