(* ===== verification/Validators.thy ===== *)
theory Validators
  imports Manifest
begin

text \<open>
  The attestation validators of \<open>internal/atls/validators/validators.go\<close> and the
  Coordinator's validator of \<open>internal/manifest/validators.go\<close>. A validator is its name and
  a function from OID, document and report data to an error, or none, with the reports it
  passed to its report setter on the way, in order.
\<close>

type_synonym oid = "nat list"

definition raw_snp_report :: oid where "raw_snp_report = [1, 3, 9901, 2, 1]"
definition raw_tdx_report :: oid where "raw_tdx_report = [1, 3, 9901, 2, 2]"
definition raw_insecure_report :: oid where "raw_insecure_report = [1, 3, 9901, 2, 99]"
definition workload_secret_oid :: oid where "workload_secret_oid = [1, 3, 9901, 3, 1]"

definition is_attestation_document_extension :: "oid \<Rightarrow> bool" where
  "is_attestation_document_extension oi \<longleftrightarrow>
     oi = raw_tdx_report \<or> oi = raw_snp_report \<or> oi = raw_insecure_report"

text \<open>A validated report: the host data, and the claims as certificate extensions.\<close>

record 'e report =
  host_data :: bytes
  claims_to_cert_extension :: "'e list result"

record 'r validator =
  vname :: string
  validate :: "oid \<Rightarrow> bytes \<Rightarrow> bytes \<Rightarrow> goerr option \<times> 'r list"

definition err_oid_not_supported :: goerr where
  "err_oid_not_supported = Sentinel ''OID not supported''"

section \<open>Combinators\<close>

text \<open>\<open>ValidatorFunc\<close>, \<open>WithFixedOID\<close>, \<open>Named\<close> and the validator that never succeeds.\<close>

definition validator_func :: "(oid \<Rightarrow> bytes \<Rightarrow> bytes \<Rightarrow> goerr option \<times> 'r list) \<Rightarrow> 'r validator" where
  "validator_func f = \<lparr>vname = ''ValidatorFunc'', validate = f\<rparr>"

definition with_fixed_oid :: "oid \<Rightarrow> 'r validator \<Rightarrow> 'r validator" where
  "with_fixed_oid fixed v = \<lparr>vname = vname v, validate = (\<lambda>_ doc rd. validate v fixed doc rd)\<rparr>"

definition named :: "string \<Rightarrow> 'r validator \<Rightarrow> 'r validator" where
  "named n v = \<lparr>vname = n, validate = validate v\<rparr>"

definition no_validator :: "'r validator" where
  "no_validator = \<lparr>vname = ''<no validator>'', validate = (\<lambda>_ _ _. (Some err_oid_not_supported, []))\<rparr>"

text \<open>The loop of \<open>anyOf.Validate\<close>: the interesting errors so far, or success.\<close>

fun any_loop ::
  "'r validator list \<Rightarrow> nat \<Rightarrow> oid \<Rightarrow> bytes \<Rightarrow> bytes \<Rightarrow> goerr list \<Rightarrow> 'r list \<Rightarrow> goerr option \<times> 'r list" where
  "any_loop [] i oi doc rd errs reps =
     (if errs = [] then Some err_oid_not_supported else Some (Joined errs), reps)"
| "any_loop (v # vs) i oi doc rd errs reps =
     (case validate v oi doc rd of
        (None, rs) \<Rightarrow> (None, reps @ rs)
      | (Some e, rs) \<Rightarrow>
          any_loop vs (Suc i) oi doc rd
            (if err_is e err_oid_not_supported then errs
             else errs @ [Wrap (''sub-validator '' @ dec_string i) e]) (reps @ rs))"

definition any_of :: "'r validator list \<Rightarrow> 'r validator" where
  "any_of vs =
     (case vs of
        [] \<Rightarrow> no_validator
      | [v] \<Rightarrow> v
      | _ \<Rightarrow> \<lparr>vname = ''Any('' @ join_with '', '' (map vname vs) @ '')'',
             validate = (\<lambda>oi doc rd. any_loop vs 0 oi doc rd [] [])\<rparr>)"

section \<open>The Coordinator's validator\<close>

definition err_wrong_coordinator_policy_hash :: goerr where
  "err_wrong_coordinator_policy_hash = Sentinel ''wrong policy hash for Coordinator''"
definition err_bad_validator :: goerr where
  "err_bad_validator = Sentinel ''validator did not produce a report''"

text \<open>The conversion loop over the policy hashes.\<close>

fun coordinator_hashes :: "hexstring list \<Rightarrow> bytes list result" where
  "coordinator_hashes [] = Inr []"
| "coordinator_hashes (h # hs) =
     (case hex_bytes h of
        Inl e \<Rightarrow> Inl (Wrap (''converting coordinator policy hash '' @ quoted h @ '' to bytes'') e)
      | Inr b \<Rightarrow> (case coordinator_hashes hs of Inl e \<Rightarrow> Inl e | Inr bs \<Rightarrow> Inr (b # bs)))"

text \<open>
  The factory builds a validator: once for its name, and once more in every validation, so
  that the captured report is not shared. \<open>factory 0\<close> is the first call, \<open>factory 1\<close> the one
  inside the validation. The last report that was set is the captured one.
\<close>

definition coordinator_validate ::
  "'e report validator result \<Rightarrow> bytes list \<Rightarrow> oid \<Rightarrow> bytes \<Rightarrow> bytes \<Rightarrow> goerr option \<times> 'e report list" where
  "coordinator_validate made hashes oi doc rd =
     (case made of
        Inl e \<Rightarrow> (Some (Wrap ''creating validator from manifest'' e), [])
      | Inr v \<Rightarrow>
          (case validate v oi doc rd of
             (Some e, _) \<Rightarrow> (Some e, [])
           | (None, []) \<Rightarrow> (Some err_bad_validator, [])
           | (None, r # rs) \<Rightarrow>
               (if host_data (List.last (r # rs)) \<in> set hashes then (None, [])
                else (Some (Wrap ''host data'' err_wrong_coordinator_policy_hash), []))))"

definition coordinator_validator ::
  "(nat \<Rightarrow> 'e report validator result) \<Rightarrow> hexstring list \<Rightarrow> 'e report validator result" where
  "coordinator_validator factory hs =
     (case coordinator_hashes hs of
        Inl e \<Rightarrow> Inl e
      | Inr hashes \<Rightarrow>
     (case factory 0 of
        Inl e \<Rightarrow> Inl (Wrap ''constructing manifest validator'' e)
      | Inr v \<Rightarrow> Inr (named (vname v @ '' with policy hashes'')
          (validator_func (coordinator_validate (factory 1) hashes)))))"

definition manifest_coordinator_validator ::
  "(manifest \<Rightarrow> nat \<Rightarrow> 'e report validator result) \<Rightarrow> manifest \<Rightarrow> 'e report validator result" where
  "manifest_coordinator_validator factory m =
     (case coordinator_policy_hashes m of
        Inl e \<Rightarrow> Inl (Wrap ''getting coordinator policy hash'' e)
      | Inr hs \<Rightarrow> coordinator_validator (factory m) hs)"

section \<open>What a combined validator accepts\<close>

definition accepts :: "'r validator \<Rightarrow> oid \<Rightarrow> bytes \<Rightarrow> bytes \<Rightarrow> bool" where
  "accepts v oi doc rd \<longleftrightarrow> fst (validate v oi doc rd) = None"

lemma any_loop_None:
  "fst (any_loop vs i oi doc rd errs reps) = None \<longleftrightarrow> (\<exists>v\<in>set vs. accepts v oi doc rd)"
  by (induction vs arbitrary: i errs reps) (auto simp: accepts_def split: prod.splits option.splits)

lemma any_of_accepts: "accepts (any_of vs) oi doc rd \<longleftrightarrow> (\<exists>v\<in>set vs. accepts v oi doc rd)"
proof (cases vs)
  case (Cons v ws)
  then show ?thesis
    by (cases ws) (auto simp: any_of_def accepts_def any_loop_None [unfolded accepts_def] simp del: any_loop.simps)
qed (simp add: any_of_def accepts_def no_validator_def)

text \<open>The error is \<open>ErrOIDNotSupported\<close> itself exactly when every validator says so.\<close>

lemma any_loop_unsupported:
  assumes "\<forall>v\<in>set vs. \<exists>e. fst (validate v oi doc rd) = Some e \<and> err_is e err_oid_not_supported"
  shows "fst (any_loop vs i oi doc rd [] reps) = Some err_oid_not_supported"
  using assms by (induction vs arbitrary: i reps) (auto split: prod.splits)

lemma coordinator_hashes_set:
  "coordinator_hashes hs = Inr bs \<Longrightarrow> set bs = {b. \<exists>h\<in>set hs. hex_decode h = Inr b}"
  by (induction hs arbitrary: bs) (auto simp: hex_bytes_def split: sum.splits)

lemma coordinator_validator_accepts:
  assumes "manifest_coordinator_validator factory m = Inr v" and "accepts v oi doc rd"
  shows "\<exists>w rs r. factory m 1 = Inr w \<and> validate w oi doc rd = (None, rs @ [r])
      \<and> (\<exists>h e. (h, e) \<in> set (policies m) \<and> role e = role_coordinator \<and> hex_decode h = Inr (host_data r))"
proof -
  obtain hs where hs: "coordinator_policy_hashes m = Inr hs"
    using assms(1) by (cases "coordinator_policy_hashes m") (simp_all add: manifest_coordinator_validator_def)
  with assms(1) have cv: "coordinator_validator (factory m) hs = Inr v"
    by (simp add: manifest_coordinator_validator_def)
  obtain bs where bs: "coordinator_hashes hs = Inr bs"
    using cv by (cases "coordinator_hashes hs") (simp_all add: coordinator_validator_def)
  obtain n where v: "v = named n
      (validator_func (coordinator_validate (factory m 1) bs))"
  proof (cases "factory m 0")
    case (Inr u)
    then have "v = named (vname u @ '' with policy hashes'') (validator_func (coordinator_validate (factory m 1) bs))"
      using cv bs by (simp add: coordinator_validator_def)
    then show thesis by (rule that)
  qed (use cv bs in \<open>simp add: coordinator_validator_def\<close>)
  have "fst (coordinator_validate (factory m 1) bs oi doc rd) = None"
    using assms(2) by (simp add: accepts_def v named_def validator_func_def)
  then obtain w rs where w: "factory m 1 = Inr w" "validate w oi doc rd = (None, rs)" "rs \<noteq> []"
    and hd: "host_data (List.last rs) \<in> set bs"
    by (auto simp: coordinator_validate_def split: sum.splits prod.splits option.splits list.splits if_splits)
  have "rs = butlast rs @ [List.last rs]" using w(3) by simp
  moreover obtain h where "h \<in> set hs" "hex_decode h = Inr (host_data (List.last rs))"
    using hd coordinator_hashes_set [OF bs] by auto
  moreover then obtain e where "(h, e) \<in> set (policies m)" "role e = role_coordinator"
    using hs by (auto simp: coordinator_policy_hashes_def Let_def split: if_splits)
  ultimately show ?thesis using w by metis
qed

end
