(* ===== verification/Apitypes.thy ===== *)
theory Apitypes
  imports Validators UserapiFacts
begin

text \<open>
  The attestation endpoint and its client: \<open>apitypes/attest.go\<close>,
  \<open>coordinator/internal/httpapi/attest.go\<close> and \<open>ValidateAttestation\<close> of
  \<open>sdk/verify.go\<close>. The Coordinator binds its newest transition and CA certificates into the
  report data of an attestation document; the client recomputes the transition from the
  manifests it is sent. HTTP headers and the JSON codec are parameters.
\<close>

record coordinator_state =
  cs_manifests :: "bytes list"
  cs_policies :: "bytes list"
  cs_root_ca :: bytes
  cs_mesh_ca :: bytes

text \<open>\<open>ConstructReportData\<close>: 32 bytes of digest in a field of 64.\<close>

definition report_data_size :: nat where
  "report_data_size = 64"

definition construct_report_data ::
  "(bytes \<Rightarrow> bytes) \<Rightarrow> bytes \<Rightarrow> bytes \<Rightarrow> coordinator_state \<Rightarrow> bytes" where
  "construct_report_data H nonce transition cs =
     (let hash32 = digest H (nonce @ transition @ digest H (cs_root_ca cs) @ digest H (cs_mesh_ca cs))
      in copy_into (replicate report_data_size 0) hash32)"

record attestation_response =
  resp_version :: string
  raw_attestation_doc :: bytes
  attestation_type :: oid
  coordinator_state :: coordinator_state

section \<open>The endpoint\<close>

text \<open>
  \<open>getResponse\<close>, with its HTTP status. The policies are sent in the order of a map range:
  the argument \<open>order\<close> lists a map's values as the range yields them. As in the user API the
  guard is consulted twice and \<open>others\<close> happens in between.
\<close>

record ('s, 'sk, 'pk, 'e, 'i, 'u) attestation_handler =
  ah_env :: "('s, 'sk, 'pk, 'e, 'i, 'u) env"
  ah_issue :: "bytes \<Rightarrow> bytes result"
  ah_oid :: oid
  ah_version :: string

definition get_response ::
  "('s, 'sk, 'pk, 'e, 'i, 'u) attestation_handler \<Rightarrow> ((hexstring \<Rightarrow> bytes option) \<Rightarrow> bytes list)
   \<Rightarrow> (('s, 'sk, 'pk, 'e, 'i, 'u) guard \<Rightarrow> ('s, 'sk, 'pk, 'e, 'i, 'u) guard) \<Rightarrow> bytes
   \<Rightarrow> ('s, 'sk, 'pk, 'e, 'i, 'u) guard
   \<Rightarrow> ((nat \<times> attestation_response result) \<times> ('s, 'sk, 'pk, 'e, 'i, 'u) guard) option" where
  "get_response h order others nonce g =
     (let E = ah_env h in
      case get_state E g of
        ((_, Some e), g1) \<Rightarrow> Some (
          if err_is e err_no_state then (412, Inl err_no_manifest)
          else if err_is e err_stale_state then (412, Inl err_needs_recovery)
          else (500, Inl (Both (Sentinel ''getting state'') e)), g1)
      | ((None, None), g1) \<Rightarrow> Some ((500, Inl nil_dereference), g1)
      | ((Some i, None), g1) \<Rightarrow>
          (case get_history E (others g1) of
             None \<Rightarrow> None
           | Some (Inl e, g2) \<Rightarrow> Some ((500, Inl (Both (Sentinel ''getting history'') e)), g2)
           | Some (Inr (ms, ps), g2) \<Rightarrow>
               (let st = states g1 ! i;
                    cs = \<lparr>cs_manifests = ms, cs_policies = order ps,
                          cs_root_ca = get_root_ca_cert (ca_of st), cs_mesh_ca = get_mesh_ca_cert (ca_of st)\<rparr>;
                    rd = construct_report_data (hash_fun E) nonce (transition_hash (latest_of st)) cs
                in case ah_issue h rd of
                     Inl e \<Rightarrow> Some ((500, Inl (Both (Sentinel ''getting attestation report'') e)), g2)
                   | Inr doc \<Rightarrow> Some ((200, Inr \<lparr>resp_version = ah_version h, raw_attestation_doc = doc,
                       attestation_type = ah_oid h, coordinator_state = cs\<rparr>), g2))))"

text \<open>
  \<open>ServeHTTP\<close> up to the call: the parts of the request it looks at, and what it answers.
  \<open>BodyTooLarge\<close> is the error of the reader that is limited to 1024 bytes.
\<close>

datatype body_read = BodyOk bytes | BodyTooLarge | BodyError goerr

record http_request =
  http_method :: string
  media_type :: "string result"
  http_body :: body_read

definition attest_request ::
  "(bytes \<Rightarrow> bytes result) \<Rightarrow> http_request \<Rightarrow> (nat \<times> goerr) + bytes" where
  "attest_request json req =
     (if http_method req \<noteq> ''POST'' then Inl (405, Msg '''')
      else (case media_type req of
          Inl e \<Rightarrow> Inl (400, e)
        | Inr mt \<Rightarrow>
            (if mt \<noteq> ''application/json'' then Inl (415, Sentinel ''invalid Content-Type'')
             else (case http_body req of
                 BodyTooLarge \<Rightarrow> Inl (413, Msg ''http: request body too large'')
               | BodyError e \<Rightarrow> Inl (400, e)
               | BodyOk b \<Rightarrow>
                   (case json b of
                      Inl e \<Rightarrow> Inl (400, e)
                    | Inr nonce \<Rightarrow>
                        (if length nonce \<noteq> 32 then Inl (400, Wrap ''expected 32'' (Sentinel ''invalid nonce length''))
                         else Inr nonce))))))"

section \<open>The client\<close>

text \<open>
  \<open>ValidateAttestation\<close>: \<open>decode\<close> is the JSON decoder of the response, \<open>json\<close> that of a
  manifest into a value, \<open>val\<close> makes the Coordinator's validator from the latest manifest. The
  state it returns leaves the transition's hash and signature unset.
\<close>

record sdk_state =
  sdk_manifests :: "bytes list"
  sdk_policies :: "bytes list"
  sdk_root_ca :: bytes
  sdk_mesh_ca :: bytes
  sdk_latest_hash :: "bytes option"
  sdk_latest_signature :: "bytes option"

definition validate_attestation ::
  "(bytes \<Rightarrow> bytes) \<Rightarrow> ('ec, 'rsa, 'ecsk, 'rsask) keylib \<Rightarrow> (bytes \<Rightarrow> manifest result)
   \<Rightarrow> (manifest \<Rightarrow> 'e report validator result) \<Rightarrow> bytes \<Rightarrow> attestation_response result
   \<Rightarrow> sdk_state result" where
  "validate_attestation H K json val nonce decoded =
     (if length nonce \<noteq> 32 then Inl (Msg ''wrong nonce length'')
      else
     (case decoded of
        Inl e \<Rightarrow> Inl (Wrap ''unmarshalling attestation document'' e)
      | Inr resp \<Rightarrow>
     (let cs = coordinator_state resp in
      if cs_manifests cs = [] then Inl (Msg ''coordinator state does not include manifests'')
      else
     (case json (List.last (cs_manifests cs)) of
        Inl e \<Rightarrow> Inl (Wrap ''unmarshalling latest manifest'' e)
      | Inr m \<Rightarrow>
     (case manifest_validate K m of
        Some e \<Rightarrow> Inl (Wrap ''validating latest manifest'' e)
      | None \<Rightarrow>
     (case val m of
        Inl e \<Rightarrow> Inl (Wrap ''getting validators'' e)
      | Inr v \<Rightarrow>
     (let ts = build_transition_chain H (cs_manifests cs);
          rd = construct_report_data H nonce (transition_digest H (List.last ts)) cs
      in case fst (validate v (attestation_type resp) (raw_attestation_doc resp) rd) of
           Some e \<Rightarrow> Inl (Wrap ''validation failed'' e)
         | None \<Rightarrow> Inr \<lparr>sdk_manifests = cs_manifests cs, sdk_policies = cs_policies cs,
             sdk_root_ca = cs_root_ca cs, sdk_mesh_ca = cs_mesh_ca cs,
             sdk_latest_hash = None, sdk_latest_signature = None\<rparr>)))))))"

section \<open>Report data binds\<close>

lemma length_construct [simp]: "length (construct_report_data H n t cs) = 64"
  by (simp add: construct_report_data_def report_data_size_def)

lemma construct_report_data_digest:
  "take 32 (construct_report_data H n t cs) =
     digest H (n @ t @ digest H (cs_root_ca cs) @ digest H (cs_mesh_ca cs))"
  by (simp add: construct_report_data_def Let_def copy_into_def report_data_size_def)

text \<open>
  Equal report data means equal nonce, transition and CA certificates, unless the hash
  function collides on the four byte strings that were hashed.
\<close>

definition report_input :: "(bytes \<Rightarrow> bytes) \<Rightarrow> bytes \<Rightarrow> bytes \<Rightarrow> coordinator_state \<Rightarrow> bytes" where
  "report_input H n t cs = n @ t @ digest H (cs_root_ca cs) @ digest H (cs_mesh_ca cs)"

lemma report_data_binds:
  assumes eq: "construct_report_data H n t cs = construct_report_data H n' t' cs'"
    and len: "length n = 32" "length n' = 32" "length t = 32" "length t' = 32"
    and nc: "\<not> collision_in H {report_input H n t cs, report_input H n' t' cs',
        cs_root_ca cs, cs_root_ca cs', cs_mesh_ca cs, cs_mesh_ca cs'}"
  shows "n = n' \<and> t = t' \<and> cs_root_ca cs = cs_root_ca cs' \<and> cs_mesh_ca cs = cs_mesh_ca cs'"
proof -
  have "digest H (report_input H n t cs) = digest H (report_input H n' t' cs')"
    using construct_report_data_digest [of H n t cs] construct_report_data_digest [of H n' t' cs'] eq
    by (simp add: report_input_def)
  then have "report_input H n t cs = report_input H n' t' cs'"
    by (rule no_collisionD [OF nc, rotated 2]) simp_all
  then have parts: "n = n'" "t = t'" "digest H (cs_root_ca cs) = digest H (cs_root_ca cs')"
    "digest H (cs_mesh_ca cs) = digest H (cs_mesh_ca cs')"
    using len by (simp_all add: report_input_def)
  moreover have "cs_root_ca cs = cs_root_ca cs'"
    by (rule no_collisionD [OF nc _ _ parts(3)]) simp_all
  moreover have "cs_mesh_ca cs = cs_mesh_ca cs'"
    by (rule no_collisionD [OF nc _ _ parts(4)]) simp_all
  ultimately show ?thesis by simp
qed

section \<open>Server and client agree\<close>

text \<open>Manifests that hash to the links of a chain rebuild that chain, up to its newest hash.\<close>

lemma linked_rebuild:
  "linked H th ts \<Longrightarrow> map (digest H) ms = rev (map manifest_hash ts) \<Longrightarrow>
     rev (build_transition_chain H ms) = ts \<and> chain_tip H ms = th"
proof (induction ts arbitrary: th ms)
  case Nil
  then show ?case by (simp add: build_transition_chain_def chain_tip_def)
next
  case (Cons t ts)
  then obtain ns m where ms: "ms = ns @ [m]" by (cases ms rule: rev_cases) auto
  have ns: "map (digest H) ns = rev (map manifest_hash ts)" and m: "digest H m = manifest_hash t"
    using Cons.prems(2) ms by simp_all
  have l: "linked H (previous_transition_hash t) ts" and th: "transition_digest H t = th"
    using Cons.prems(1) by simp_all
  have IH: "rev (build_transition_chain H ns) = ts" "chain_tip H ns = previous_transition_hash t"
    using Cons.IH [OF l ns] by simp_all
  have step: "build_chain_from H lst (ns @ [m]) = build_chain_from H lst ns @
      [\<lparr>manifest_hash = digest H m, previous_transition_hash = tip_from H lst (build_chain_from H lst ns)\<rparr>]" for lst
  proof (induction ns arbitrary: lst)
    case (Cons n ns)
    show ?case by (simp add: Let_def Cons.IH tip_from_Cons)
  qed (simp add: tip_from_def)
  have "build_transition_chain H ms = build_transition_chain H ns @ [t]"
    using step [of zero_hash] IH(2) m unfolding ms build_transition_chain_def
    by (simp add: chain_tip_tip_from build_transition_chain_def)
  then show ?case using IH(1) th by (simp add: chain_tip_def)
qed

lemma chain_tip_last:
  "ms \<noteq> [] \<Longrightarrow> transition_digest H (List.last (build_transition_chain H ms)) = chain_tip H ms"
proof -
  assume "ms \<noteq> []"
  then have "build_transition_chain H ms \<noteq> []"
    by (metis build_transition_chain_def length_0_conv length_build_chain)
  then show ?thesis
    by (cases "build_transition_chain H ms" rule: rev_cases) (simp_all add: chain_tip_def)
qed

text \<open>
  A response that was made without interference: the report data the client recomputes is the
  one the Coordinator had attested.
\<close>

lemma get_response_ok:
  assumes "get_response h order others nonce g = Some ((code, Inr resp), g')"
  obtains i ms ps where "current g = Some i" and "\<not> stale (states g ! i)" and "code = 200"
    and "get_history (ah_env h) (others g) = Some (Inr (ms, ps), g')"
    and "cs_manifests (coordinator_state resp) = ms" and "cs_policies (coordinator_state resp) = order ps"
    and "cs_root_ca (coordinator_state resp) = root_ca_pem (ca_of (states g ! i))"
    and "cs_mesh_ca (coordinator_state resp) = mesh_ca_pem (ca_of (states g ! i))"
    and "attestation_type resp = ah_oid h"
    and "ah_issue h (construct_report_data (hash_fun (ah_env h)) nonce
        (transition_hash (latest_of (states g ! i))) (coordinator_state resp)) = Inr (raw_attestation_doc resp)"
proof -
  obtain oldp err g1 where gs: "get_state (ah_env h) g = ((oldp, err), g1)" by (metis prod.exhaust)
  from gs show thesis
  proof (cases rule: get_state_cases)
    case (none e)
    with assms gs show thesis by (simp add: get_response_def Let_def split: if_splits)
  next
    case (stale i)
    with assms gs show thesis by (simp add: get_response_def Let_def)
  next
    case (fresh i)
    obtain ms ps where gh: "get_history (ah_env h) (others g) = Some (Inr (ms, ps), g')"
      using assms gs fresh
      by (auto simp: get_response_def Let_def split: option.splits prod.splits sum.splits)
    define cs where "cs = \<lparr>cs_manifests = ms, cs_policies = order ps,
      cs_root_ca = root_ca_pem (ca_of (states g ! i)), cs_mesh_ca = mesh_ca_pem (ca_of (states g ! i))\<rparr>"
    have F: "code = 200" "coordinator_state resp = cs" "attestation_type resp = ah_oid h"
      "ah_issue h (construct_report_data (hash_fun (ah_env h)) nonce
        (transition_hash (latest_of (states g ! i))) cs) = Inr (raw_attestation_doc resp)"
      using assms gs fresh gh
      by (auto simp: get_response_def Let_def cs_def get_root_ca_cert_def get_mesh_ca_cert_def split: sum.splits)
    have "cs_manifests (coordinator_state resp) = ms" "cs_policies (coordinator_state resp) = order ps"
      "cs_root_ca (coordinator_state resp) = root_ca_pem (ca_of (states g ! i))"
      "cs_mesh_ca (coordinator_state resp) = mesh_ca_pem (ca_of (states g ! i))"
      by (simp_all add: F(2) cs_def)
    from that [OF fresh(3,4) F(1) gh this F(3) F(4) [folded F(2)]] show thesis .
  qed
qed

lemma response_report_data:
  assumes ok: "get_response h order others nonce g = Some ((code, Inr resp), g')"
    and same: "current (others g) = current g" "\<And>i. current g = Some i \<Longrightarrow>
        chain_hash (states (others g) ! i) = chain_hash (states g ! i)"
    and c: "cache_ok (hash_fun (ah_env h)) (hist_of (others g))"
  shows "ah_issue h (construct_report_data (hash_fun (ah_env h)) nonce
      (chain_tip (hash_fun (ah_env h)) (cs_manifests (coordinator_state resp))) (coordinator_state resp))
    = Inr (raw_attestation_doc resp)"
proof -
  obtain i ms ps where i: "current g = Some i"
    and gh: "get_history (ah_env h) (others g) = Some (Inr (ms, ps), g')"
    and ms: "cs_manifests (coordinator_state resp) = ms"
    and issue: "ah_issue h (construct_report_data (hash_fun (ah_env h)) nonce
        (chain_hash (states g ! i)) (coordinator_state resp)) = Inr (raw_attestation_doc resp)"
    by (rule get_response_ok [OF ok])
  obtain ts where "linked (hash_fun (ah_env h)) (chain_hash (states g ! i)) ts"
    "map (digest (hash_fun (ah_env h))) ms = rev (map manifest_hash ts)"
    using get_history_facts [OF gh c] same i by auto
  then have "chain_tip (hash_fun (ah_env h)) ms = chain_hash (states g ! i)"
    using linked_rebuild by blast
  with issue ms show ?thesis by simp
qed

lemma validate_attestation_ok:
  assumes "validate_attestation H K json val nonce decoded = Inr st"
  obtains resp m v where "decoded = Inr resp" and "length nonce = 32"
    and "cs_manifests (coordinator_state resp) \<noteq> []"
    and "json (List.last (cs_manifests (coordinator_state resp))) = Inr m" and "manifest_ok K m"
    and "val m = Inr v"
    and "accepts v (attestation_type resp) (raw_attestation_doc resp)
          (construct_report_data H nonce (chain_tip H (cs_manifests (coordinator_state resp))) (coordinator_state resp))"
    and "sdk_manifests st = cs_manifests (coordinator_state resp)"
    and "sdk_root_ca st = cs_root_ca (coordinator_state resp)" and "sdk_mesh_ca st = cs_mesh_ca (coordinator_state resp)"
    and "sdk_policies st = cs_policies (coordinator_state resp)" and "sdk_latest_hash st = None"
proof -
  obtain resp where r: "decoded = Inr resp" "length nonce = 32" "cs_manifests (coordinator_state resp) \<noteq> []"
    using assms by (auto simp: validate_attestation_def Let_def split: sum.splits if_splits)
  note body = assms [unfolded validate_attestation_def Let_def r(1)]
  obtain m where m: "json (List.last (cs_manifests (coordinator_state resp))) = Inr m" "manifest_validate K m = None"
    using body r by (auto split: sum.splits option.splits)
  obtain v where v: "val m = Inr v" using body r m by (auto split: sum.splits)
  have acc: "accepts v (attestation_type resp) (raw_attestation_doc resp)
          (construct_report_data H nonce (chain_tip H (cs_manifests (coordinator_state resp))) (coordinator_state resp))"
    and st: "sdk_manifests st = cs_manifests (coordinator_state resp)"
    "sdk_root_ca st = cs_root_ca (coordinator_state resp)" "sdk_mesh_ca st = cs_mesh_ca (coordinator_state resp)"
    "sdk_policies st = cs_policies (coordinator_state resp)" "sdk_latest_hash st = None"
    using body r m v chain_tip_last [OF r(3), of H] by (auto simp: accepts_def split: option.splits)
  from that [OF r m(1) _ v acc st] m(2) show thesis by (simp add: manifest_validate_None)
qed

end
