(* ===== verification/Meshapi.thy ===== *)
theory Meshapi
  imports Validators UserapiFacts
begin

text \<open>
  The interface to workloads and peer Coordinators:
  \<open>coordinator/internal/meshapi/meshapi.go\<close>, the certificate extensions of
  \<open>internal/attestation/extension/extension.go\<close>, and the transport credentials of
  \<open>coordinator/internal/stateguard/credentials.go\<close>. The state a handler works on is the one
  the handshake captured, not the guard's current one.
\<close>

section \<open>Extensions\<close>

datatype extension = BigIntExtension oid "64 word" | BytesExtension oid bytes | BoolExtension oid bool

record pkix_extension =
  ext_id :: oid
  ext_value :: bytes

record asn1lib =
  asn1_int :: "int \<Rightarrow> bytes result"
  asn1_bytes :: "bytes \<Rightarrow> bytes result"
  asn1_bool :: "bool \<Rightarrow> bytes result"

fun to_extension :: "asn1lib \<Rightarrow> extension \<Rightarrow> pkix_extension result" where
  "to_extension A (BigIntExtension oi v) = (case asn1_int A (uint v) of
     Inl e \<Rightarrow> Inl (Wrap ''marshaling big int'' e) | Inr b \<Rightarrow> Inr \<lparr>ext_id = oi, ext_value = b\<rparr>)"
| "to_extension A (BytesExtension oi v) = (case asn1_bytes A v of
     Inl e \<Rightarrow> Inl (Wrap ''marshaling bytes'' e) | Inr b \<Rightarrow> Inr \<lparr>ext_id = oi, ext_value = b\<rparr>)"
| "to_extension A (BoolExtension oi v) = (case asn1_bool A v of
     Inl e \<Rightarrow> Inl (Wrap ''marshaling bool'' e) | Inr b \<Rightarrow> Inr \<lparr>ext_id = oi, ext_value = b\<rparr>)"

definition convert_extension :: "asn1lib \<Rightarrow> extension \<Rightarrow> pkix_extension result" where
  "convert_extension A x = to_extension A x"

fun convert_extensions :: "asn1lib \<Rightarrow> extension list \<Rightarrow> pkix_extension list result" where
  "convert_extensions A [] = Inr []"
| "convert_extensions A (x # xs) = (case to_extension A x of
     Inl e \<Rightarrow> Inl (Wrap ''converting extension to pkix'' e)
   | Inr p \<Rightarrow> (case convert_extensions A xs of Inl e \<Rightarrow> Inl e | Inr ps \<Rightarrow> Inr (p # ps)))"

lemma convert_extensions_ids:
  "convert_extensions A xs = Inr ps \<Longrightarrow> length ps = length xs"
  by (induction xs arbitrary: ps) (auto split: sum.splits)

section \<open>The peer and the library functions\<close>

text \<open>
  What the aTLS handshake leaves for a handler: the state, the validated report and the peer
  certificates' public keys. \<open>addr_host\<close> is the host part of the peer's address, when it has
  one.
\<close>

record ('sk, 'pk, 'i, 'u) auth_info =
  auth_state :: "('sk, 'pk, pkix_extension, 'i, 'u) state"
  auth_report :: "pkix_extension report"
  auth_peer_keys :: "'pk list"

datatype ('sk, 'pk, 'i, 'u) mesh_peer =
    MeshNoPeer
  | MeshOtherAuth
  | MeshPeer "('sk, 'pk, 'i, 'u) auth_info" "string option"

record ('sk, 'pk, 'i, 'u) meshlib =
  mesh_certs :: "('sk, 'pk, pkix_extension, 'i, 'u) certlib"
  mesh_asn1 :: asn1lib
  mesh_kdf :: "'sk kdf"
  marshal_pkix :: "'pk \<Rightarrow> bytes result"
  parse_pkix :: "bytes \<Rightarrow> 'pk result"

definition lookup_policy :: "manifest \<Rightarrow> bytes \<Rightarrow> policy_entry option" where
  "lookup_policy m hdata = map_of (policies m) (new_hex_string hdata)"

section \<open>NewMeshCert\<close>

record mesh_cert_response =
  mc_mesh_ca :: bytes
  mc_cert_chain :: bytes
  mc_root_ca :: bytes
  mc_workload_secret :: "bytes option"

definition new_mesh_cert ::
  "('sk, 'pk, 'i, 'u) meshlib \<Rightarrow> cert_rnd \<Rightarrow> int \<Rightarrow> ('sk, 'pk, 'i, 'u) mesh_peer
   \<Rightarrow> mesh_cert_response result" where
  "new_mesh_cert L rnd now peer =
     (case peer of
        MeshNoPeer \<Rightarrow> Inl (Msg ''failed to get peer from context'')
      | MeshOtherAuth \<Rightarrow> Inl (Msg ''unexpected AuthInfo type'')
      | MeshPeer ai host \<Rightarrow>
     (case auth_peer_keys ai of
        [] \<Rightarrow> Inl (Msg ''no peer certificates found'')
      | key # _ \<Rightarrow>
     (case marshal_pkix L key of
        Inl e \<Rightarrow> Inl (Wrap ''could not marshal public key'' e)
      | Inr key_bytes \<Rightarrow>
     (let st = auth_state ai; hdata = host_data (auth_report ai) in
      case lookup_policy (manifest_of st) hdata of
        None \<Rightarrow> Inl (Status PermissionDenied (''policy hash '' @ new_hex_string hdata @ '' not found in manifest''))
      | Some entry \<Rightarrow>
     (let names = (case host of None \<Rightarrow> sans entry | Some h \<Rightarrow> sans entry @ [h]) in
      case parse_pkix L key_bytes of
        Inl e \<Rightarrow> Inl (Wrap ''failed to parse peer public key'' e)
      | Inr pub \<Rightarrow>
     (case claims_to_cert_extension (auth_report ai) of
        Inl e \<Rightarrow> Inl (Wrap ''failed to construct extensions'' e)
      | Inr claims \<Rightarrow>
     (let wid = workload_secret_id entry in
      case (if wid \<noteq> '''' then
              (case convert_extension (mesh_asn1 L) (BytesExtension workload_secret_oid (bytes_of_string wid)) of
                 Inl e \<Rightarrow> Inl (Wrap ''failed to construct workload secret extension'' e)
               | Inr x \<Rightarrow> Inr (claims @ [x]))
            else Inr claims) of
        Inl e \<Rightarrow> Inl e
      | Inr exts \<Rightarrow>
     (case new_attested_mesh_cert (mesh_certs L) rnd now (ca_of st) names exts pub of
        Inl e \<Rightarrow> (case e of Panic p \<Rightarrow> Inl e | _ \<Rightarrow> Inl (Wrap ''failed to issue new attested mesh cert'' e))
      | Inr cert \<Rightarrow>
     (let resp = \<lparr>mc_mesh_ca = get_mesh_ca_cert (ca_of st), mc_cert_chain = cert @ get_interm_ca_cert (ca_of st),
            mc_root_ca = get_root_ca_cert (ca_of st), mc_workload_secret = None\<rparr> in
      if wid \<noteq> '''' then
        (case derive_workload_secret (mesh_kdf L) (seed_engine_of st) wid of
           Inl e \<Rightarrow> Inl (Wrap ''failed to derive workload secret'' e)
         | Inr sec \<Rightarrow> Inr (resp\<lparr>mc_workload_secret := Some sec\<rparr>))
      else Inr resp)))))))))"

section \<open>Recover\<close>

record mesh_recover_response =
  mr_seed :: bytes
  mr_salt :: bytes
  mr_mesh_ca_key :: bytes
  mr_latest_manifest :: bytes

definition encode_key :: "('ec, 'rsa, 'sk, 'rsask) keylib \<Rightarrow> 'sk \<Rightarrow> bytes result" where
  "encode_key K key = (case lib_marshal_ec_private K key of
     Inl e \<Rightarrow> Inl (Wrap ''marshaling private key'' e)
   | Inr der \<Rightarrow> Inr (lib_pem_encode K \<lparr>pem_type = pem_ec_private_key, pem_bytes = der\<rparr>))"

definition mesh_recover ::
  "('ec, 'rsa, 'sk, 'rsask) keylib \<Rightarrow> ('sk, 'pk, 'i, 'u) mesh_peer \<Rightarrow> mesh_recover_response result" where
  "mesh_recover K peer =
     (case peer of
        MeshNoPeer \<Rightarrow> Inl (Msg ''failed to get peer from context'')
      | MeshOtherAuth \<Rightarrow> Inl (Msg ''unexpected AuthInfo type'')
      | MeshPeer ai host \<Rightarrow>
     (let st = auth_state ai; hdata = host_data (auth_report ai) in
      case lookup_policy (manifest_of st) hdata of
        None \<Rightarrow> Inl (Status PermissionDenied (''policy hash '' @ new_hex_string hdata @ '' not found in manifest''))
      | Some entry \<Rightarrow>
     (if role entry \<noteq> role_coordinator
      then Inl (Status PermissionDenied (''role '' @ quoted (role entry) @ '' not allowed to recover''))
      else
     (case encode_key K (get_interm_ca_priv_key (ca_of st)) of
        Inl e \<Rightarrow> Inl (Wrap ''encoding mesh CA private key'' e)
      | Inr pem \<Rightarrow> Inr \<lparr>mr_seed = seed (seed_engine_of st), mr_salt = salt (seed_engine_of st),
          mr_mesh_ca_key = pem, mr_latest_manifest = manifest_bytes st\<rparr>))))"

section \<open>The credentials' handshake\<close>

text \<open>
  \<open>ServerHandshake\<close>: the state at the time of the handshake, the validator of its manifest,
  and the TLS handshake, which runs the validator and yields the peer's keys and the reports it
  set. A stale state is no state here.
\<close>

definition server_handshake ::
  "('s, 'sk, 'pk, pkix_extension, 'i, 'u) env \<Rightarrow> (manifest \<Rightarrow> 'v result)
   \<Rightarrow> ('v \<Rightarrow> ('pk list \<times> pkix_extension report) result)
   \<Rightarrow> ('s, 'sk, 'pk, pkix_extension, 'i, 'u) guard
   \<Rightarrow> ('sk, 'pk, 'i, 'u) auth_info result \<times> ('s, 'sk, 'pk, pkix_extension, 'i, 'u) guard" where
  "server_handshake E val tls g =
     (case get_state E g of
        ((_, Some e), g1) \<Rightarrow> (Inl (Wrap ''getting state'' e), g1)
      | ((None, None), g1) \<Rightarrow> (Inl nil_dereference, g1)
      | ((Some i, None), g1) \<Rightarrow>
          (case val (manifest_of (states g1 ! i)) of
             Inl e \<Rightarrow> (Inl (Wrap ''creating validator from manifest'' e), g1)
           | Inr v \<Rightarrow>
               (case tls v of
                  Inl e \<Rightarrow> (Inl (Wrap ''handshake error'' e), g1)
                | Inr (keys, rep) \<Rightarrow>
                    (Inr \<lparr>auth_state = states g1 ! i, auth_report = rep, auth_peer_keys = keys\<rparr>, g1))))"

section \<open>Lemmas\<close>

lemma lookup_policy_entry:
  assumes "lookup_policy m hdata = Some e"
  shows "(new_hex_string hdata, e) \<in> set (policies m)"
  using assms by (simp add: lookup_policy_def map_of_SomeD)

text \<open>Secrets go only to peers whose measured policy has the Coordinator role.\<close>

lemma mesh_recover_ok:
  assumes "mesh_recover K peer = Inr resp"
  obtains ai host e where "peer = MeshPeer ai host"
    and "(new_hex_string (host_data (auth_report ai)), e) \<in> set (policies (manifest_of (auth_state ai)))"
    and "role e = role_coordinator"
    and "mr_seed resp = seed (seed_engine_of (auth_state ai))" and "mr_salt resp = salt (seed_engine_of (auth_state ai))"
    and "encode_key K (interm_priv_key (ca_of (auth_state ai))) = Inr (mr_mesh_ca_key resp)"
    and "mr_latest_manifest resp = manifest_bytes (auth_state ai)"
proof -
  obtain ai host where p: "peer = MeshPeer ai host"
    using assms by (cases peer) (simp_all add: mesh_recover_def)
  note body = assms [unfolded mesh_recover_def p mesh_peer.case Let_def]
  obtain e where e: "lookup_policy (manifest_of (auth_state ai)) (host_data (auth_report ai)) = Some e"
    using body by (cases "lookup_policy (manifest_of (auth_state ai)) (host_data (auth_report ai))") simp_all
  have r: "role e = role_coordinator" using body e by (simp split: if_splits)
  obtain pem where pem: "encode_key K (interm_priv_key (ca_of (auth_state ai))) = Inr pem"
    using body e r by (cases "encode_key K (interm_priv_key (ca_of (auth_state ai)))")
      (simp_all add: get_interm_ca_priv_key_def)
  have "resp = \<lparr>mr_seed = seed (seed_engine_of (auth_state ai)), mr_salt = salt (seed_engine_of (auth_state ai)),
      mr_mesh_ca_key = pem, mr_latest_manifest = manifest_bytes (auth_state ai)\<rparr>"
    using body e r pem by (simp add: get_interm_ca_priv_key_def)
  with that [OF p lookup_policy_entry [OF e] r] pem show thesis by simp
qed

text \<open>The pieces of an issued certificate.\<close>

lemma new_mesh_cert_ok:
  assumes "new_mesh_cert L rnd now peer = Inr resp"
  obtains ai host key keys b pub entry claims exts cert where "peer = MeshPeer ai host"
    and "auth_peer_keys ai = key # keys" and "marshal_pkix L key = Inr b" and "parse_pkix L b = Inr pub"
    and "(new_hex_string (host_data (auth_report ai)), entry) \<in> set (policies (manifest_of (auth_state ai)))"
    and "claims_to_cert_extension (auth_report ai) = Inr claims"
    and "if workload_secret_id entry = '''' then exts = claims else (\<exists>x. exts = claims @ [x]
        \<and> convert_extension (mesh_asn1 L) (BytesExtension workload_secret_oid (bytes_of_string (workload_secret_id entry))) = Inr x)"
    and "new_attested_mesh_cert (mesh_certs L) rnd now (ca_of (auth_state ai))
        (case host of None \<Rightarrow> sans entry | Some h \<Rightarrow> sans entry @ [h]) exts pub = Inr cert"
    and "mc_cert_chain resp = cert @ interm_ca_pem (ca_of (auth_state ai))"
    and "mc_mesh_ca resp = mesh_ca_pem (ca_of (auth_state ai))"
    and "mc_workload_secret resp = (if workload_secret_id entry = '''' then None
        else (case derive_workload_secret (mesh_kdf L) (seed_engine_of (auth_state ai)) (workload_secret_id entry) of
          Inl _ \<Rightarrow> None | Inr s \<Rightarrow> Some s))"
proof -
  obtain ai host where p: "peer = MeshPeer ai host"
    using assms by (cases peer) (simp_all add: new_mesh_cert_def)
  obtain key keys where k: "auth_peer_keys ai = key # keys"
    using assms p by (cases "auth_peer_keys ai") (simp_all add: new_mesh_cert_def)
  obtain b where b: "marshal_pkix L key = Inr b"
    using assms p k by (cases "marshal_pkix L key") (simp_all add: new_mesh_cert_def)
  obtain entry where en: "lookup_policy (manifest_of (auth_state ai)) (host_data (auth_report ai)) = Some entry"
    using assms p k b by (cases "lookup_policy (manifest_of (auth_state ai)) (host_data (auth_report ai))")
      (simp_all add: new_mesh_cert_def Let_def)
  obtain pub where pub: "parse_pkix L b = Inr pub"
    using assms p k b en by (cases "parse_pkix L b") (simp_all add: new_mesh_cert_def Let_def)
  obtain claims where cl: "claims_to_cert_extension (auth_report ai) = Inr claims"
    using assms p k b en pub
    by (cases "claims_to_cert_extension (auth_report ai)") (simp_all add: new_mesh_cert_def Let_def)
  define wid where "wid = workload_secret_id entry"
  define names where "names = (case host of None \<Rightarrow> sans entry | Some h \<Rightarrow> sans entry @ [h])"
  define x where "x = (if wid \<noteq> '''' then
              (case convert_extension (mesh_asn1 L) (BytesExtension workload_secret_oid (bytes_of_string wid)) of
                 Inl e \<Rightarrow> Inl (Wrap ''failed to construct workload secret extension'' e)
               | Inr x \<Rightarrow> Inr (claims @ [x]))
            else Inr claims)"
  note body = assms [unfolded new_mesh_cert_def p mesh_peer.case k list.case b sum.case Let_def en option.case
      pub cl, folded wid_def, folded x_def names_def]
  obtain exts where ex: "x = Inr exts" using body by (cases x) simp_all
  obtain cert where ct: "new_attested_mesh_cert (mesh_certs L) rnd now (ca_of (auth_state ai)) names exts pub = Inr cert"
    using body ex by (cases "new_attested_mesh_cert (mesh_certs L) rnd now (ca_of (auth_state ai)) names exts pub")
      (simp_all split: goerr.splits)
  have "mc_cert_chain resp = cert @ interm_ca_pem (ca_of (auth_state ai))
    \<and> mc_mesh_ca resp = mesh_ca_pem (ca_of (auth_state ai))
    \<and> mc_workload_secret resp = (if wid = '''' then None
        else (case derive_workload_secret (mesh_kdf L) (seed_engine_of (auth_state ai)) wid of
          Inl _ \<Rightarrow> None | Inr s \<Rightarrow> Some s))"
    using body ex ct
    by (auto simp: get_interm_ca_cert_def get_mesh_ca_cert_def split: if_splits sum.splits)
  moreover have "if wid = '''' then exts = claims else (\<exists>x. exts = claims @ [x]
        \<and> convert_extension (mesh_asn1 L) (BytesExtension workload_secret_oid (bytes_of_string wid)) = Inr x)"
    using ex by (auto simp: x_def split: if_splits sum.splits)
  ultimately show thesis
    using that [OF p k b pub lookup_policy_entry [OF en] cl _ ct [unfolded names_def]] unfolding wid_def by blast
qed

text \<open>
  Distinct policy hashes, as in a Go map: the entry that is used is the one of the peer's
  policy, and an entry that is listed in another letter case is never used.
\<close>

lemma lookup_policy_iff:
  "distinct (map fst (policies m)) \<Longrightarrow>
     lookup_policy m hdata = Some e \<longleftrightarrow> (new_hex_string hdata, e) \<in> set (policies m)"
  by (simp add: lookup_policy_def map_of_eq_Some_iff)

lemma server_handshake_ok:
  assumes "server_handshake E val tls g = (Inr ai, g')"
  shows "\<exists>i v. current g = Some i \<and> \<not> stale (states g ! i) \<and> auth_state ai = states g ! i
     \<and> val (manifest_of (states g ! i)) = Inr v \<and> tls v = Inr (auth_peer_keys ai, auth_report ai) \<and> g' = g"
proof -
  obtain oldp err g1 where gs: "get_state E g = ((oldp, err), g1)" by (metis prod.exhaust)
  from gs show ?thesis
  proof (cases rule: get_state_cases)
    case (none e)
    with assms gs show ?thesis by (simp add: server_handshake_def)
  next
    case (stale i)
    with assms gs show ?thesis by (simp add: server_handshake_def)
  next
    case (fresh i)
    with assms gs show ?thesis
      by (auto simp: server_handshake_def split: sum.splits prod.splits)
  qed
qed

end
