(* ===== verification/Peerrecovery.thy ===== *)
theory Peerrecovery
  imports Meshapi
begin

text \<open>
  \<open>coordinator/internal/peerrecovery/recovery.go\<close>, \<open>peerdiscovery\<close> and \<open>probes\<close>: a
  Coordinator without a fresh state asks its ready peers for the secrets. The connection to a
  peer, with the validator of the persisted manifest, is an argument that answers the RPC.
\<close>

section \<open>Finding peers\<close>

record pod =
  pod_name :: string
  pod_ip :: string
  pod_conditions :: "(string \<times> string) list"

definition is_ready :: "pod \<Rightarrow> bool" where
  "is_ready p \<longleftrightarrow> list_ex (\<lambda>(t, s). t = ''Ready'' \<and> s = ''True'') (pod_conditions p)"

text \<open>\<open>hostname\<close> is the environment variable; \<open>pods\<close> the answer of the API server.\<close>

definition get_peers :: "string \<Rightarrow> pod list result \<Rightarrow> string list result" where
  "get_peers hostname pods =
     (case pods of
        Inl e \<Rightarrow> Inl (Wrap ''listing coordinator pods'' e)
      | Inr ps \<Rightarrow> Inr (map pod_ip (filter (\<lambda>p. pod_name p \<noteq> hostname \<and> is_ready p) ps)))"

section \<open>Asking one peer\<close>

text \<open>
  \<open>rpc validator\<close> is dialling the peer and calling \<open>Recover\<close> on it. The block that
  \<open>pem.Decode\<close> finds is used without a check for nil.
\<close>

definition peer_authorizer ::
  "'sk kdf \<Rightarrow> ('ec, 'rsa, 'sk, 'rsask) keylib \<Rightarrow> (manifest \<Rightarrow> 'v result)
   \<Rightarrow> ('v \<Rightarrow> mesh_recover_response result) \<Rightarrow> 'sk authorizer" where
  "peer_authorizer D K val rpc m =
     (case val m of
        Inl e \<Rightarrow> Inl (Wrap ''generating validators'' e)
      | Inr v \<Rightarrow>
     (case rpc v of
        Inl e \<Rightarrow> Inl e
      | Inr resp \<Rightarrow>
     (case new_seed_engine D (mr_seed resp) (mr_salt resp) of
        Inl e \<Rightarrow> Inl (Wrap ''creating seed engine'' e)
      | Inr se \<Rightarrow>
     (case lib_pem_decode K (mr_mesh_ca_key resp) of
        None \<Rightarrow> Inl nil_dereference
      | Some blk \<Rightarrow>
     (case lib_parse_ec_private K (pem_bytes blk) of
        Inl e \<Rightarrow> Inl (Wrap ''parsing mesh CA key'' e)
      | Inr key \<Rightarrow> Inr (se, key))))))"

section \<open>The recovery loop\<close>

definition err_no_peers :: goerr where
  "err_no_peers = Sentinel ''no peers found''"

text \<open>
  One peer after the other until one succeeds; \<open>rpc i\<close> answers for the peer at position
  \<open>i\<close>. All attempts use the state pointer read at the beginning.
\<close>

fun recover_from_peers ::
  "('s, 'sk, 'pk, 'e, 'i, 'u) env \<Rightarrow> (nat \<Rightarrow> call_rnd) \<Rightarrow> (nat \<Rightarrow> 'sk authorizer) \<Rightarrow> ptr \<Rightarrow> nat
   \<Rightarrow> string list \<Rightarrow> goerr list \<Rightarrow> ('s, 'sk, 'pk, 'e, 'i, 'u) guard
   \<Rightarrow> (unit result \<times> ('s, 'sk, 'pk, 'e, 'i, 'u) guard) option" where
  "recover_from_peers E r auth oldp n [] errs g =
     Some (case errors_join (map Some errs) of None \<Rightarrow> Inr () | Some e \<Rightarrow> Inl e, g)"
| "recover_from_peers E r auth oldp n (p # ps) errs g =
     (case reset_state E (r n) oldp (auth n) g of
        None \<Rightarrow> None
      | Some (Inr _, g1) \<Rightarrow> Some (Inr (), g1)
      | Some (Inl e, g1) \<Rightarrow>
          recover_from_peers E r auth oldp (Suc n) ps (errs @ [Wrap ''resetting state'' e]) g1)"

definition recover_once ::
  "('s, 'sk, 'pk, 'e, 'i, 'u) env \<Rightarrow> (nat \<Rightarrow> call_rnd) \<Rightarrow> (nat \<Rightarrow> 'sk authorizer) \<Rightarrow> string list result
   \<Rightarrow> ('s, 'sk, 'pk, 'e, 'i, 'u) guard \<Rightarrow> (unit result \<times> ('s, 'sk, 'pk, 'e, 'i, 'u) guard) option" where
  "recover_once E r auth peers g =
     (case get_state E g of
        ((oldp, err), g1) \<Rightarrow>
          (if (case err of None \<Rightarrow> True | Some e \<Rightarrow> \<not> err_is e err_stale_state) then Some (Inr (), g1)
           else (case peers of
               Inl e \<Rightarrow> Some (Inl (Wrap ''getting peers'' e), g1)
             | Inr [] \<Rightarrow> Some (Inl err_no_peers, g1)
             | Inr ps \<Rightarrow> recover_from_peers E r auth oldp 0 ps [] g1)))"

text \<open>
  \<open>periodically\<close>: the function runs once, then once per tick until the context is done; the
  list holds what the select sees after each run.
\<close>

datatype tick = Tick | Done

fun periodically :: "('a \<Rightarrow> 'a option) \<Rightarrow> tick list \<Rightarrow> 'a \<Rightarrow> 'a option" where
  "periodically f evs x =
     (case f x of
        None \<Rightarrow> None
      | Some y \<Rightarrow> (case evs of [] \<Rightarrow> Some y | Done # _ \<Rightarrow> Some y | Tick # rest \<Rightarrow> periodically f rest y))"

declare periodically.simps [simp del]

definition run_recovery ::
  "('s, 'sk, 'pk, 'e, 'i, 'u) env \<Rightarrow> (nat \<Rightarrow> call_rnd) \<Rightarrow> (nat \<Rightarrow> 'sk authorizer) \<Rightarrow> string list result
   \<Rightarrow> tick list \<Rightarrow> ('s, 'sk, 'pk, 'e, 'i, 'u) guard \<Rightarrow> ('s, 'sk, 'pk, 'e, 'i, 'u) guard option" where
  "run_recovery E r auth peers evs g = periodically (\<lambda>x. map_option snd (recover_once E r auth peers x)) evs g"

section \<open>Probes\<close>

definition startup_status :: "bool \<Rightarrow> bool \<Rightarrow> bool \<Rightarrow> nat" where
  "startup_status userapi meshapi recovery = (if \<not> userapi \<or> \<not> meshapi \<or> \<not> recovery then 503 else 200)"

definition readiness_status ::
  "('s, 'sk, 'pk, 'e, 'i, 'u) env \<Rightarrow> ('s, 'sk, 'pk, 'e, 'i, 'u) guard \<Rightarrow> nat \<times> ('s, 'sk, 'pk, 'e, 'i, 'u) guard" where
  "readiness_status E g =
     (case get_state E g of
        ((p, err), g1) \<Rightarrow> (if err \<noteq> None \<or> p = None then 503 else 200, g1))"

section \<open>Lemmas\<close>

lemma get_peers_ready:
  assumes "get_peers host pods = Inr ips" and "ip \<in> set ips"
  shows "\<exists>ps p. pods = Inr ps \<and> p \<in> set ps \<and> pod_ip p = ip \<and> is_ready p \<and> pod_name p \<noteq> host"
  using assms by (auto simp: get_peers_def split: sum.splits)

text \<open>Ready means a current state that is not stale.\<close>

lemma readiness_200:
  "fst (readiness_status E g) = 200 \<longleftrightarrow> (\<exists>i. current g = Some i \<and> \<not> stale (states g ! i))"
proof -
  obtain p err g1 where gs: "get_state E g = ((p, err), g1)" by (metis prod.exhaust)
  from gs show ?thesis by (cases rule: get_state_cases) (auto simp: readiness_status_def gs)
qed

lemma reset_state_hist:
  assumes "reset_state E r oldp auth g = Some (Inl e, g')" and "cache_ok (hash_fun E) (hist_of g)"
  shows "cache_ok (hash_fun E) (hist_of g')" and "current g' = current g"
proof -
  have "cache_ok (hash_fun E) (hist_of g') \<and> current g' = current g"
    using assms(1)
  proof (cases rule: reset_state_cases)
    case (failed e h)
    with prepare_reset_cache [OF failed(3) assms(2)] show ?thesis by simp
  next
    case (okay st h)
    note f = publish_reset_facts [OF okay(2)]
    have "current g \<noteq> oldp" using f(5) by (auto split: if_splits)
    with f prepare_reset_cache [OF okay(1) assms(2)] show ?thesis by simp
  qed
  then show "cache_ok (hash_fun E) (hist_of g')" "current g' = current g" by simp_all
qed

text \<open>
  The loop succeeds only by a reset that was authorized by the peer it asked; until then the
  current state stays.
\<close>

lemma recover_from_peers_ok:
  assumes "recover_from_peers E r auth oldp n ps errs g = Some (Inr u, g')"
    and "cache_ok (hash_fun E) (hist_of g)" and "errs \<noteq> [] \<or> ps \<noteq> []"
  shows "\<exists>k g1 i. n \<le> k \<and> k < n + length ps \<and> current g1 = current g \<and> cache_ok (hash_fun E) (hist_of g1)
     \<and> reset_state E (r k) oldp (auth k) g1 = Some (Inr i, g')"
  using assms
proof (induction ps arbitrary: n errs g)
  case Nil
  then show ?case by (auto simp: errors_join_def split: list.splits)
next
  case (Cons p ps)
  obtain res g1 where rs: "reset_state E (r n) oldp (auth n) g = Some (res, g1)"
    using Cons.prems(1) by (cases "reset_state E (r n) oldp (auth n) g") auto
  show ?case
  proof (cases res)
    case (Inr i)
    with rs Cons.prems(1) have "g' = g1" by simp
    with rs Inr Cons.prems(2) show ?thesis
      by (intro exI [of _ n] exI [of _ g] exI [of _ i]) simp
  next
    case (Inl e)
    note k = reset_state_hist [OF rs [unfolded Inl] Cons.prems(2)]
    have "recover_from_peers E r auth oldp (Suc n) ps (errs @ [Wrap ''resetting state'' e]) g1 = Some (Inr u, g')"
      using Cons.prems(1) rs Inl by simp
    from Cons.IH [OF this k(1)] k(2) obtain j g2 i where "Suc n \<le> j" "j < Suc n + length ps"
      "current g2 = current g" "cache_ok (hash_fun E) (hist_of g2)"
      "reset_state E (r j) oldp (auth j) g2 = Some (Inr i, g')" by auto
    then show ?thesis by (intro exI [of _ j] exI [of _ g2] exI [of _ i]) simp
  qed
qed

text \<open>
  What a peer sends rebuilds its engine and its mesh CA key: the recovered Coordinator signs
  mesh certificates with the key its peer uses.
\<close>


context key_codec
begin

lemma peer_recovery_transfers:
  assumes sent: "mesh_recover K (MeshPeer ai host) = Inr resp"
    and made: "new_seed_engine D secret slt = Inr (seed_engine_of (auth_state ai))"
    and val: "val m = Inr v" and rpc: "rpc v = Inr resp"
  shows "peer_authorizer D K val rpc m
     = Inr (seed_engine_of (auth_state ai), interm_priv_key (ca_of (auth_state ai)))"
proof -
  have r: "mr_seed resp = seed (seed_engine_of (auth_state ai))" "mr_salt resp = salt (seed_engine_of (auth_state ai))"
    "encode_key K (interm_priv_key (ca_of (auth_state ai))) = Inr (mr_mesh_ca_key resp)"
    by (rule mesh_recover_ok [OF sent]; simp)+
  obtain der where der: "lib_marshal_ec_private K (interm_priv_key (ca_of (auth_state ai))) = Inr der"
    and pem: "mr_mesh_ca_key resp = lib_pem_encode K \<lparr>pem_type = pem_ec_private_key, pem_bytes = der\<rparr>"
    using r(3) by (auto simp: encode_key_def split: sum.splits)
  show ?thesis
    using val rpc r(1,2) new_seed_engine_recovers [OF made] ec_private_round [OF der]
    by (simp add: peer_authorizer_def pem pem_round)
qed

end

end
