(* ===== verification/Restart.thy ===== *)
theory Restart
  imports UserapiFacts
begin

text \<open>
  Recovery after a restart: a Coordinator that loses its memory but keeps its store is
  recovered to the state it had, when the authorizer brings back the seed engine. The store is
  any provider of \<open>reliable_store\<close>; the filesystem store is one.
\<close>

lemma content_path_kinds [simp]:
  "content_path ''policies'' a \<noteq> content_path ''manifests'' b"
  "content_path ''policies'' a \<noteq> content_path ''transitions'' b"
  "content_path ''manifests'' a \<noteq> content_path ''policies'' b"
  "content_path ''manifests'' a \<noteq> content_path ''transitions'' b"
  "content_path ''transitions'' a \<noteq> content_path ''policies'' b"
  "content_path ''transitions'' a \<noteq> content_path ''manifests'' b"
  "content_path ''policies'' a \<noteq> latest_key" "content_path ''manifests'' a \<noteq> latest_key"
  by (simp_all add: content_path_def latest_key_def)

lemma content_path_inject [simp]: "content_path kind a = content_path kind b \<longleftrightarrow> a = b"
  by (simp add: content_path_def)

lemma content_path_latest: "length a = 32 \<Longrightarrow> content_path ''transitions'' a \<noteq> latest_key"
proof
  assume l: "length a = 32" and "content_path ''transitions'' a = latest_key"
  then have "hex_encode a = ''latest''" by (simp add: content_path_def latest_key_def)
  then have "length (hex_encode a) = 6" by simp
  with l show False by simp
qed

lemma length_transition_digest [simp]: "length (transition_digest H t) = 32"
  by (simp add: transition_digest_def)

text \<open>A chain that the store holds, \<open>view\<close> being what the store holds.\<close>

definition persisted ::
  "('s \<Rightarrow> string \<Rightarrow> bytes option) \<Rightarrow> (bytes \<Rightarrow> bytes) \<Rightarrow> 's \<Rightarrow> hash \<Rightarrow> transition list \<Rightarrow> bool" where
  "persisted view H s th ts \<longleftrightarrow> linked H th ts \<and>
     (\<forall>u\<in>set ts. view s (content_path ''transitions'' (transition_digest H u)) = Some (marshal_transition u))"

context reliable_store
begin

lemma store_policies_frame:
  assumes "store_policies E ps pm h = (Inr pm', h')" and "hist_store E = S"
    and "\<And>a. k \<noteq> content_path ''policies'' a"
  shows "view (h_store h') k = view (h_store h) k"
  using assms(1)
proof (induction ps arbitrary: pm h)
  case (Cons p ps)
  then obtain x h1 where s: "set_policy (hash_fun E) S p h = (Inr x, h1)"
    and r: "store_policies E ps (pm(x \<mapsto> p)) h1 = (Inr pm', h')"
    by (auto simp: assms(2) split: prod.splits sum.splits)
  have "view (h_store h1) = (view (h_store h))(content_path ''policies'' (digest (hash_fun E) p) \<mapsto> p)"
    using s set_contentaddressed_stores [of "''policies''"] by (simp add: set_policy_def)
  with Cons.IH [OF r] assms(3) show ?case by simp
qed simp

text \<open>What a persisted manifest leaves in the store.\<close>

lemma persist_manifest_store:
  assumes p: "persist_manifest E rnd old se mb pols h = (Inr (m, latest), h')" and S: "hist_store E = S"
  defines "t \<equiv> \<lparr>manifest_hash = digest (hash_fun E) mb, previous_transition_hash = prev_hash old\<rparr>"
  shows "view (h_store h') latest_key = Some (marshal_latest (Some latest))"
    and "view (h_store h') (content_path ''manifests'' (digest (hash_fun E) mb)) = Some mb"
    and "view (h_store h') (content_path ''transitions'' (transition_digest (hash_fun E) t)) = Some (marshal_transition t)"
    and "length k = 32 \<Longrightarrow> k \<noteq> transition_digest (hash_fun E) t \<Longrightarrow>
      view (h_store h') (content_path ''transitions'' k) = view (h_store h) (content_path ''transitions'' k)"
proof -
  let ?H = "hash_fun E"
  note body = p [unfolded persist_manifest_def Let_def S]
  obtain pm h1 where 1: "store_policies E pols (\<lambda>_. None) h = (Inr pm, h1)"
    using body by (auto split: sum.splits prod.splits)
  obtain mh h2 where 2: "History.set_manifest ?H S mb h1 = (Inr mh, h2)"
    using body 1 by (auto split: sum.splits prod.splits)
  have mh: "mh = digest ?H mb" using set_contentaddressed_result [OF 2 [unfolded History.set_manifest_def]] by simp
  have t: "\<lparr>manifest_hash = mh, previous_transition_hash =
      (case old of None \<Rightarrow> zero_hash | Some st \<Rightarrow> chain_hash st)\<rparr> = t"
    by (simp add: t_def mh prev_hash_def)
  obtain th h3 where 3: "set_transition ?H S t h2 = (Inr th, h3)"
    using body 1 2 t by (auto split: sum.splits prod.splits)
  have 4: "set_latest (sig_scheme E) S (map_option latest_of old) \<lparr>transition_hash = th, signature = []\<rparr>
      (transaction_signing_key se) rnd h3 = (Inr latest, h')"
    using body 1 2 t 3 by (auto split: sum.splits prod.splits if_splits)
  have v2: "view (h_store h2) = (view (h_store h1))(content_path ''manifests'' (digest ?H mb) \<mapsto> mb)"
    by (rule set_contentaddressed_stores [OF _ 2 [unfolded History.set_manifest_def]]) simp
  have v3: "view (h_store h3) = (view (h_store h2))
      (content_path ''transitions'' (transition_digest ?H t) \<mapsto> marshal_transition t)"
    using set_contentaddressed_stores [OF _ 3 [unfolded set_transition_def]] by (simp add: transition_digest_def)
  note v4 = set_latest_cas(2) [OF 4]
  have fr: "view (h_store h1) (content_path ''transitions'' k) = view (h_store h) (content_path ''transitions'' k)" for k
    by (rule store_policies_frame [OF 1 S]) simp
  show "view (h_store h') latest_key = Some (marshal_latest (Some latest))"
    and "view (h_store h') (content_path ''manifests'' (digest ?H mb)) = Some mb"
    and "view (h_store h') (content_path ''transitions'' (transition_digest ?H t)) = Some (marshal_transition t)"
    using v2 v3 v4 content_path_latest [of "transition_digest ?H t"] by simp_all
  show "view (h_store h') (content_path ''transitions'' k) = view (h_store h) (content_path ''transitions'' k)"
    if "length k = 32" "k \<noteq> transition_digest ?H t"
    using v2 v3 v4 fr that content_path_latest [OF that(1)] by simp
qed

text \<open>Counting a chain that is available.\<close>

lemma count_available:
  assumes "linked H th ts" and "chain_available H view us h" and "set ts \<subseteq> set us"
  shows "\<exists>h'. walk_transitions H S count_transition th n h = Some (Inr (), n + int (length ts), h')"
  using assms
proof (induction ts arbitrary: th n h)
  case Nil
  then show ?case by (simp add: walk_transitions.simps)
next
  case (Cons t ts)
  then have t: "t \<in> set us" "wf_transition t" "th = transition_digest H t" "th \<noteq> zero_hash"
    "linked H (previous_transition_hash t) ts" by auto
  from get_transition_available [OF Cons.prems(2) t(1,2)] obtain h1
    where g: "get_transition H S th h = (Inr t, h1)" "chain_available H view us h1" by (auto simp: t(3))
  from Cons.IH [OF t(5) g(2)] Cons.prems(3) obtain h' where
    "walk_transitions H S count_transition (previous_transition_hash t) (n + 1) h1
       = Some (Inr (), n + 1 + int (length ts), h')" by (metis set_subset_Cons subset_trans)
  then show ?case using g t(4) by (subst walk_transitions.simps) (simp add: count_transition_def)
qed


text \<open>A stored object that is not shadowed by the cache is read, and nothing else changes.\<close>

lemma get_contentaddressed_available:
  assumes kind: "kind \<in> set history_kinds"
    and v: "view (h_store h) (content_path kind (digest H d)) = Some d"
    and c: "h_cache h (digest H d) \<in> {None, Some d}"
  shows "\<exists>h1. get_contentaddressed H S kind (digest H d) h = (Inr d, h1)
     \<and> view (h_store h1) = view (h_store h) \<and> h_cache h1 = (h_cache h)(digest H d \<mapsto> d)"
proof (cases "h_cache h (digest H d)")
  case (Some x)
  with c have "x = d" by simp
  with Some show ?thesis by (simp add: cached_read fun_upd_idem_iff [THEN iffD2])
next
  case None
  have ok: "key_ok (content_path kind (digest H d))" using key_content [OF kind] by simp
  obtain s where s: "st_get S (h_store h) (content_path kind (digest H d)) = (Inr d, s)"
    using get_total [OF ok v] by blast
  show ?thesis using None s get_keeps [OF ok s]
    by (simp add: get_contentaddressed_def get_from_cache_def add_to_cache_def Let_def)
qed

lemma latest_available:
  assumes "view (h_store h) latest_key = Some (marshal_latest (Some l))" and "wf_latest l" and "signature l \<noteq> []"
  shows "\<exists>h1. get_latest_insecure S h = (Inr l, h1) \<and> view (h_store h1) = view (h_store h) \<and> h_cache h1 = h_cache h"
proof -
  obtain s where s: "st_get S (h_store h) latest_key = (Inr (marshal_latest (Some l)), s)"
    using get_total key_latest assms(1) by blast
  then show ?thesis using unmarshal_marshal_latest [OF assms(2,3)] get_keeps [OF key_latest s]
    by (simp add: get_latest_insecure_def del: marshal_latest.simps)
qed

text \<open>The state that is recovered from the persisted transition \<open>t\<close> and the manifest \<open>mb\<close>.\<close>

lemma reset_persisted:
  assumes S: "hist_store E = S" and chain: "persisted view (hash_fun E) s (transition_hash l) (t # ts)"
    and latest: "view s latest_key = Some (marshal_latest (Some l))" "signature l \<noteq> []"
    and mb: "view s (content_path ''manifests'' (manifest_hash t)) = Some mb" "manifest_hash t = digest (hash_fun E) mb"
    and m: "parse_manifest E mb = Inr m"
    and nc: "\<not> collision_in (hash_fun E) (insert mb (marshalled (t # ts)))"
    and auth: "auth m = Inr (se, key)" and sig: "verify_asn1 (sig_scheme E) (signing_pub E se) (transition_hash l) (signature l)"
    and ca: "new_ca (cert_lib E) (cert_rnds r) (now_sec r) (root_ca_key se) key = Inr c"
  shows "\<exists>h. prepare_reset E r auth (new_with_store s) = Some (Inr \<lparr>seed_engine_of = se, manifest_of = m,
     manifest_bytes = mb, ca_of = c, latest_of = l, generation = int (length (t # ts)), stale = False\<rparr>, h)"
proof -
  let ?H = "hash_fun E" and ?d = "marshal_transition t"
  have link: "linked ?H (transition_hash l) (t # ts)"
    and stored: "\<And>u. u \<in> set (t # ts) \<Longrightarrow>
      view s (content_path ''transitions'' (transition_digest ?H u)) = Some (marshal_transition u)"
    using chain by (auto simp: persisted_def)
  have th: "transition_hash l = digest ?H ?d" "wf_transition t" using link by (auto simp: transition_digest_def)
  have wf: "wf_latest l" using th by (simp add: wf_latest_def)
  obtain h1 where h1: "get_latest_insecure S (new_with_store s) = (Inr l, h1)"
    "view (h_store h1) = view s" "h_cache h1 = (\<lambda>_. None)"
    using latest_available [OF _ wf latest(2), of "new_with_store s"] latest(1) by (auto simp: new_with_store_def)
  obtain h2 where h2: "get_contentaddressed ?H S ''transitions'' (digest ?H ?d) h1 = (Inr ?d, h2)"
    "view (h_store h2) = view s" "h_cache h2 = [digest ?H ?d \<mapsto> ?d]"
  proof -
    have v: "view (h_store h1) (content_path ''transitions'' (digest ?H ?d)) = Some ?d"
      using stored [of t] h1(2) by (simp add: transition_digest_def)
    have "h_cache h1 (digest ?H ?d) \<in> {None, Some ?d}" using h1(3) by simp
    note ex = get_contentaddressed_available [OF history_kinds_mem(3) v this, unfolded h1(2,3)]
    show thesis using ex by (elim exE conjE) (rule that)
  qed
  have same: "digest ?H mb = digest ?H ?d \<Longrightarrow> ?d = mb" by (rule no_collisionD [OF nc]) auto
  obtain h3 where h3: "get_contentaddressed ?H S ''manifests'' (digest ?H mb) h2 = (Inr mb, h3)"
    "view (h_store h3) = view s" "h_cache h3 = [digest ?H ?d \<mapsto> ?d, digest ?H mb \<mapsto> mb]"
  proof -
    have v: "view (h_store h2) (content_path ''manifests'' (digest ?H mb)) = Some mb"
      using mb h2(2) by simp
    have "h_cache h2 (digest ?H mb) \<in> {None, Some mb}" using h2(3) same by simp
    note ex = get_contentaddressed_available [OF history_kinds_mem(1) v this, unfolded h2(2,3)]
    show thesis using ex by (elim exE conjE) (rule that)
  qed
  have tr: "get_transition ?H S (transition_hash l) h1 = (Inr t, h2)"
    using h2(1) by (simp add: get_transition_def th unmarshal_marshal_transition)
  have mn: "get_manifest ?H S (manifest_hash t) h2 = (Inr mb, h3)" using h3(1) by (simp add: get_manifest_def mb(2))
  have load: "load_manifest E (new_with_store s) = (Inr (l, mb, m), h3)"
    by (simp add: load_manifest_def Let_def S h1(1) tr mn m)
  obtain h4 where h4: "get_latest_insecure S h3 = (Inr l, h4)" "view (h_store h4) = view s" "h_cache h4 = h_cache h3"
    using latest_available [OF _ wf latest(2), of h3] latest(1) h3 by auto
  then have get: "get_latest (sig_scheme E) S (public_key (sig_scheme E) (transaction_signing_key se)) h3 = (Inr l, h4)"
    using sig by (simp add: get_latest_def verify_latest_def signing_pub_def)
  have "h_cache h4 (transition_digest ?H u) \<in> {None, Some (marshal_transition u)}" if "u \<in> set (t # ts)" for u
  proof -
    have u: "marshal_transition u \<in> insert mb (marshalled (t # ts))" using that by auto
    have "mb = marshal_transition u" if "digest ?H (marshal_transition u) = digest ?H mb"
      by (rule no_collisionD [OF nc insertI1 u that [symmetric]])
    moreover have "?d = marshal_transition u" if "digest ?H (marshal_transition u) = digest ?H ?d"
      by (rule no_collisionD [OF nc _ u that [symmetric]]) simp
    ultimately show ?thesis by (simp add: h4(3) h3(3) transition_digest_def)
  qed
  then have "chain_available ?H view (t # ts) h4" using h4(2) stored by (simp add: chain_available_def)
  from count_available [OF link this, of 0] obtain h5 where
    "walk_transitions ?H S count_transition (transition_hash l) 0 h4 = Some (Inr (), int (length (t # ts)), h5)" by auto
  then show ?thesis using load auth get ca by (simp add: prepare_reset_def S)
qed

text \<open>An update extends the persisted chain.\<close>

lemma update_persists:
  assumes p: "persist_manifest E rnd old se mb pols h = (Inr (m, latest), h')" and S: "hist_store E = S"
    and chain: "persisted view (hash_fun E) (h_store h) (prev_hash old) ts"
    and root: "root_free (hash_fun E)" and c: "cache_ok (hash_fun E) h"
  defines "t \<equiv> \<lparr>manifest_hash = digest (hash_fun E) mb, previous_transition_hash = prev_hash old\<rparr>"
  assumes nc: "\<not> collision_in (hash_fun E) (marshalled (t # ts))"
  shows "persisted view (hash_fun E) (h_store h') (transition_hash latest) (t # ts)"
proof -
  let ?H = "hash_fun E"
  have th: "transition_hash latest = transition_digest ?H t" using persist_manifest_facts(2) [OF p c] by (simp add: t_def)
  have link: "linked ?H (prev_hash old) ts" using chain by (simp add: persisted_def)
  have wf: "wf_transition t"
    using link linked_length [OF link] by (cases ts) (auto simp: wf_transition_def t_def zero_hash_def hash_size_def)
  then have linked: "linked ?H (transition_hash latest) (t # ts)"
    using th link root by (auto simp: root_free_def t_def)
  have fresh: "transition_digest ?H u \<noteq> transition_digest ?H t" if "u \<in> set ts" "marshal_transition u \<noteq> marshal_transition t" for u
    using no_collisionD [OF nc, of "marshal_transition u" "marshal_transition t"] that
    by (auto simp: transition_digest_def)
  note st = persist_manifest_store [OF p S, folded t_def]
  have "view (h_store h') (content_path ''transitions'' (transition_digest ?H u)) = Some (marshal_transition u)"
    if u: "u \<in> set (t # ts)" for u
  proof (cases "marshal_transition u = marshal_transition t")
    case True
    then show ?thesis using st(3) by (simp add: transition_digest_def)
  next
    case False
    with u have "u \<in> set ts" by auto
    with st(4) [OF _ fresh [OF this False]] chain show ?thesis by (simp add: persisted_def)
  qed
  with linked show ?thesis by (simp add: persisted_def)
qed


text \<open>The Recover handler on a guard that only has its store.\<close>

lemma get_state_restarted:
  assumes S: "hist_store E = S" and v: "view s latest_key = Some d"
  shows "\<exists>s'. get_state E (new_guard (new_with_store s))
     = ((None, Some err_stale_state), new_guard (new_with_store s')) \<and> view s' = view s"
proof -
  obtain b s' where h: "st_has S s latest_key = (Inr b, s')" using has_total key_latest by blast
  have "b" "view s' = view s" using has_sound [OF key_latest h] has_keeps [OF key_latest h] v by simp_all
  with h show ?thesis by (simp add: get_state_def new_guard_def has_latest_def new_with_store_def S)
qed

lemma recover_persisted:
  fixes srv :: "('s, 'sk, 'pk, 'e, 'i, 'u, 'rsa, 'rsask) server"
  defines "E \<equiv> server_env srv"
  assumes S: "hist_store E = S" and chain: "persisted view (hash_fun E) s (transition_hash l) (t # ts)"
    and latest: "view s latest_key = Some (marshal_latest (Some l))" "signature l \<noteq> []"
    and mb: "view s (content_path ''manifests'' (manifest_hash t)) = Some mb" "manifest_hash t = digest (hash_fun E) mb"
    and m: "parse_manifest E mb = Inr m"
    and nc: "\<not> collision_in (hash_fun E) (insert mb (marshalled (t # ts)))"
    and peer: "validate_peer (server_keys srv) p (seedshare_owner_pub_keys m) = None"
    and secure: "check_manifest_security (allow_insecure srv) m = None"
    and eng: "new_seed_engine (kdf_lib E) (rec_seed req) (rec_salt req) = Inr se"
    and key: "generate_mesh_ca_key (kdf_lib E) (mesh_key_rnd r) = Inr key"
    and sig: "verify_asn1 (sig_scheme E) (signing_pub E se) (transition_hash l) (signature l)"
    and ca: "new_ca (cert_lib E) (cert_rnds r) (now_sec r) (root_ca_key se) key = Inr c"
    and alone: "rec_force req \<or> peers = Inr []"
  shows "\<exists>g. recover srv r p peers req (new_guard (new_with_store s)) = Some (Inr (), g) \<and> current g = Some 0
     \<and> states g = [\<lparr>seed_engine_of = se, manifest_of = m, manifest_bytes = mb, ca_of = c, latest_of = l,
         generation = int (length (t # ts)), stale = False\<rparr>]"
proof -
  obtain s' where s': "get_state E (new_guard (new_with_store s))
     = ((None, Some err_stale_state), new_guard (new_with_store s'))" "view s' = view s"
    using get_state_restarted [OF S latest(1)] by blast
  have auth: "seed_authorizer srv (mesh_key_rnd r) p req m = Inr (se, key)"
    using peer secure eng key by (simp add: seed_authorizer_def E_def)
  have c': "persisted view (hash_fun E) s' (transition_hash l) (t # ts)"
    using chain unfolding persisted_def s'(2) .
  obtain h where h: "prepare_reset E r (seed_authorizer srv (mesh_key_rnd r) p req) (new_with_store s')
     = Some (Inr \<lparr>seed_engine_of = se, manifest_of = m, manifest_bytes = mb, ca_of = c, latest_of = l,
         generation = int (length (t # ts)), stale = False\<rparr>, h)"
    using reset_persisted [where auth = "seed_authorizer srv (mesh_key_rnd r) p req", OF S c' latest(1) [folded s'(2)] latest(2) mb(1) [folded s'(2)] mb(2) m nc auth sig ca] by blast
  have "hist_of (new_guard (new_with_store s')) = new_with_store s'" by (simp add: new_guard_def)
  then show ?thesis using s'(1) h alone
    by (auto simp: recover_def E_def Let_def reset_state_def publish_reset_def alloc_def swap_current_def new_guard_def)
qed

end

end
