(* ===== verification/Composition.thy ===== *)
theory Composition
  imports Apitypes Peerrecovery Restart
begin

text \<open>
  Facts that span components: what a successful SetManifest leaves in the guard, that the seed
  shares of the first manifest bring back its engine, that the client of the attestation API
  learns the history of the Coordinator that issued the document, and that an update followed by
  a restart is undone by nothing but the recovery.
\<close>

section \<open>SetManifest on the guard\<close>

lemma persist_manifest_parses:
  assumes "persist_manifest E rnd old se mb pols h = (Inr (m, l), h')"
  shows "parse_manifest E mb = Inr m"
  using assms by (auto simp: persist_manifest_def Let_def split: sum.splits prod.splits if_splits)

lemma parse_manifest_json:
  "json_manifest E mb = Inr (Some m) \<Longrightarrow> parse_manifest E mb = Inr m' \<Longrightarrow> m' = m"
  by (simp add: parse_manifest_def)

text \<open>The state an update publishes when nothing interferes.\<close>

lemma update_state_publishes:
  assumes "update_state E r (current g) se mb pols g = (Inr j, g')"
    and "json_manifest E mb = Inr (Some m)"
  shows "j = length (states g) \<and> current g' = Some j \<and> length (states g') = Suc j
     \<and> manifest_of (states g' ! j) = m \<and> manifest_bytes (states g' ! j) = mb
     \<and> seed_engine_of (states g' ! j) = se \<and> \<not> stale (states g' ! j)
     \<and> generation (states g' ! j) = prev_generation (deref g (current g)) + 1
     \<and> manifest_generation g' = generation (states g' ! j)"
  using assms(1)
proof (cases rule: update_state_cases)
  case (okay st h i)
  from prepare_update_pieces [OF okay(2)] obtain m' l where
    p: "persist_manifest E (sign_rnd r) (deref g (current g)) se mb pols (hist_of g) = (Inr (m', l), h)"
    and st: "seed_engine_of st = se" "manifest_of st = m'" "manifest_bytes st = mb" "\<not> stale st"
      "generation st = prev_generation (deref g (current g)) + 1" by blast
  have "m' = m" using parse_manifest_json [OF assms(2) persist_manifest_parses [OF p]] .
  with okay(1) st publish_update_facts [OF okay(3)] show ?thesis by simp
qed simp

lemma update_state_cache:
  assumes "update_state E r old se mb pols g = (res, g')" and "cache_ok (hash_fun E) (hist_of g)"
  shows "cache_ok (hash_fun E) (hist_of g')"
  using assms(1)
proof (cases rule: update_state_cases)
  case (failed e h)
  with prepare_update_cache [OF failed(3) assms(2)] show ?thesis by simp
next
  case (okay st h i)
  with prepare_update_cache [OF okay(2) assms(2)] publish_update_facts(3) [OF okay(3)] show ?thesis by simp
qed

lemma set_manifest_cache:
  assumes ok: "set_manifest srv r p req g = (Inr resp, g')" and c: "cache_ok (hash_fun (server_env srv)) (hist_of g)"
  shows "cache_ok (hash_fun (server_env srv)) (hist_of g')"
proof -
  obtain oldp err g1 se i where gs: "get_state (server_env srv) g = ((oldp, err), g1)"
    and u: "update_state (server_env srv) (update_rnd r) oldp se (req_manifest req) (req_policies req) g1 = (Inr i, g')"
    by (rule set_manifest_ok [OF ok])
  from get_state_cache [OF gs] c have "cache_ok (hash_fun (server_env srv)) (hist_of g1)" by (simp add: cache_ok_def)
  from update_state_cache [OF u this] show ?thesis .
qed

text \<open>
  The first manifest: each seed share owner holds an encryption of a seed that, with the salt of
  the response, makes the engine of the new state.
\<close>

lemma first_manifest_shares_engine:
  assumes codec: "key_codec (server_keys srv)"
    and ok: "set_manifest srv r p req g = (Inr resp, g')" and cur: "current g = None"
    and m: "json_manifest (server_env srv) (req_manifest req) = Inr (Some m)"
    and i: "i < length (seedshare_owner_pub_keys m)"
    and sk: "parse_seedshare_owner_key (server_keys srv) (seedshare_owner_pub_keys m ! i)
      = Inr (lib_rsa_public (server_keys srv) sk)"
  shows "\<exists>doc sd. seed_shares_doc resp = Some doc
     \<and> decrypt_seed_share (server_keys srv) sk (doc_shares doc ! i) = Inr sd
     \<and> new_seed_engine (kdf_lib (server_env srv)) sd (doc_salt doc)
         = Inr (seed_engine_of (states g' ! length (states g)))"
proof -
  from set_manifest_first [OF ok cur] m obtain doc sd where
    "seed_shares_doc resp = Some doc"
    "encrypt_seed_shares (server_keys srv) (share_rnd r) sd (seedshare_owner_pub_keys m) = Inr (doc_shares doc)"
    "new_seed_engine (kdf_lib (server_env srv)) sd (doc_salt doc)
        = Inr (seed_engine_of (states g' ! length (states g)))" by auto
  with key_codec.seed_share_decrypts [OF codec _ i sk] show ?thesis by blast
qed


section \<open>GetManifests against an update\<close>

text \<open>
  When another call replaces the state between the two reads of GetManifests, the manifests it
  returns are those of the new chain and the transition next to them is the old one.
\<close>

lemma get_manifests_mixed:
  assumes ok: "get_manifests srv others g = Some (Inr resp, g')" and cur: "current g = Some i"
    and swapped: "current (others g) = Some j" "chain_hash (states (others g) ! j) \<noteq> chain_hash (states g ! i)"
    and c: "cache_ok (hash_fun (server_env srv)) (hist_of (others g))"
  shows "transition_hash (gm_latest resp) = chain_hash (states g ! i)
    \<and> chain_tip (hash_fun (server_env srv)) (gm_manifests resp) = chain_hash (states (others g) ! j)"
proof -
  obtain i' where l: "current g = Some i'" "gm_latest resp = latest_of (states g ! i')"
    and h: "get_history (server_env srv) (others g) = Some (Inr (gm_manifests resp, gm_policies resp), g')"
    by (rule get_manifests_ok [OF ok])
  from get_history_facts [OF h c] swapped(1) obtain ts where
    "linked (hash_fun (server_env srv)) (chain_hash (states (others g) ! j)) ts"
    "map (digest (hash_fun (server_env srv))) (gm_manifests resp) = rev (map manifest_hash ts)" by auto
  with l cur show ?thesis using linked_rebuild by auto
qed

section \<open>Agreement of client and Coordinator\<close>

text \<open>What is hashed on either side for an attestation: the run's data.\<close>

definition hashed_bytes :: "(bytes \<Rightarrow> bytes) \<Rightarrow> bytes \<Rightarrow> coordinator_state \<Rightarrow> bytes list" where
  "hashed_bytes H n cs = [report_input H n (chain_tip H (cs_manifests cs)) cs, cs_root_ca cs, cs_mesh_ca cs]
     @ cs_manifests cs @ map marshal_transition (build_transition_chain H (cs_manifests cs))"

lemma length_chain_tip [simp]: "length (chain_tip H ms) = 32"
  by (simp add: chain_tip_def zero_hash_def hash_size_def split: list.split)

lemma root_free_rooted: "root_free H \<Longrightarrow> rooted H (build_transition_chain H ms)"
  using build_chain_from_wf [of zero_hash _ H ms]
  by (auto simp: rooted_def root_free_def build_transition_chain_def zero_hash_def hash_size_def)

lemma construct_binds_history:
  assumes eq: "construct_report_data H n (chain_tip H (cs_manifests a)) a
      = construct_report_data H n' (chain_tip H (cs_manifests b)) b"
    and len: "length n = 32" "length n' = 32" and root: "root_free H"
    and nc: "\<not> collision_in H (set (hashed_bytes H n a @ hashed_bytes H n' b))"
  shows "n = n' \<and> cs_manifests a = cs_manifests b \<and> cs_root_ca a = cs_root_ca b \<and> cs_mesh_ca a = cs_mesh_ca b"
proof -
  have "\<not> collision_in H {report_input H n (chain_tip H (cs_manifests a)) a,
      report_input H n' (chain_tip H (cs_manifests b)) b, cs_root_ca a, cs_root_ca b, cs_mesh_ca a, cs_mesh_ca b}"
    by (rule no_collision_mono [OF nc]) (auto simp: hashed_bytes_def)
  note b = report_data_binds [OF eq len length_chain_tip length_chain_tip this]
  have "\<not> collision_in H (set (cs_manifests a) \<union> set (cs_manifests b)
      \<union> marshalled (build_transition_chain H (cs_manifests a))
      \<union> marshalled (build_transition_chain H (cs_manifests b)))"
    by (rule no_collision_mono [OF nc]) (auto simp: hashed_bytes_def)
  with b chain_tip_binds [OF _ root_free_rooted [OF root] root_free_rooted [OF root]] show ?thesis by blast
qed

text \<open>
  The client accepts a document; an issuer that writes the report data it was given, and a
  validator that accepts a document for no other report data, do the rest.
\<close>

lemma client_agrees:
  assumes sent: "get_response h order others n g = Some ((code, Inr sent), g')"
    and same: "current (others g) = current g" "\<And>i. current g = Some i \<Longrightarrow>
        chain_hash (states (others g) ! i) = chain_hash (states g ! i)"
    and c: "cache_ok (hash_fun (ah_env h)) (hist_of (others g))"
    and got: "validate_attestation (hash_fun (ah_env h)) K json val n' (Inr recv) = Inr st"
    and doc: "raw_attestation_doc recv = raw_attestation_doc sent"
    and bound: "\<And>m v oi rd rd' d. val m = Inr v \<Longrightarrow> accepts v oi d rd \<Longrightarrow> ah_issue h rd' = Inr d \<Longrightarrow> rd = rd'"
    and len: "length n = 32" and root: "root_free (hash_fun (ah_env h))"
    and nc: "\<not> collision_in (hash_fun (ah_env h)) (set (hashed_bytes (hash_fun (ah_env h)) n (coordinator_state sent)
        @ hashed_bytes (hash_fun (ah_env h)) n' (coordinator_state recv)))"
  shows "n' = n \<and> sdk_manifests st = cs_manifests (coordinator_state sent)
     \<and> sdk_root_ca st = cs_root_ca (coordinator_state sent) \<and> sdk_mesh_ca st = cs_mesh_ca (coordinator_state sent)"
proof -
  let ?H = "hash_fun (ah_env h)"
  obtain resp m v where v: "Inr recv = Inr resp" "length n' = 32" "val m = Inr v"
    "accepts v (attestation_type resp) (raw_attestation_doc resp)
       (construct_report_data ?H n' (chain_tip ?H (cs_manifests (coordinator_state resp))) (coordinator_state resp))"
    "sdk_manifests st = cs_manifests (coordinator_state resp)"
    "sdk_root_ca st = cs_root_ca (coordinator_state resp)" "sdk_mesh_ca st = cs_mesh_ca (coordinator_state resp)"
    by (rule validate_attestation_ok [OF got]) blast
  from v(1) have r: "resp = recv" by simp
  note issued = response_report_data [OF sent same c]
  note eq = bound [OF v(3) v(4) [unfolded r doc] issued]
  from construct_binds_history [OF eq [symmetric] len v(2) root nc] v(5-7) show ?thesis by (simp add: r)
qed

section \<open>An update outlives its Coordinator\<close>

text \<open>
  The state an update prepared, persisted on top of a persisted chain, is the state that Recover
  brings back on a new guard over the same store; only the authority's certificates are new.
\<close>

lemma update_then_recover:
  fixes srv :: "('s, 'sk, 'pk, 'e, 'i, 'u, 'rsa, 'rsask) server"
  assumes store: "reliable_store (hist_store (server_env srv)) view key_ok"
    and sigs: "sigs_correct (sig_scheme (server_env srv))" and root: "root_free (hash_fun (server_env srv))"
    and c: "cache_ok (hash_fun (server_env srv)) h" and chain: "persisted view (hash_fun (server_env srv)) (h_store h) (prev_hash old) ts"
    and gen: "prev_generation old = int (length ts)"
    and p: "prepare_update (server_env srv) r old se mb pols h = (Inr st, h')" and sig: "signature (latest_of st) \<noteq> []"
    and nc: "\<not> collision_in (hash_fun (server_env srv)) (insert mb (marshalled
       (\<lparr>manifest_hash = digest (hash_fun (server_env srv)) mb, previous_transition_hash = prev_hash old\<rparr> # ts)))"
    and peer: "validate_peer (server_keys srv) q (seedshare_owner_pub_keys (manifest_of st)) = None"
    and secure: "check_manifest_security (allow_insecure srv) (manifest_of st) = None"
    and eng: "new_seed_engine (kdf_lib (server_env srv)) (rec_seed req) (rec_salt req) = Inr se"
    and key: "generate_mesh_ca_key (kdf_lib (server_env srv)) (mesh_key_rnd r') = Inr k"
    and ca: "new_ca (cert_lib (server_env srv)) (cert_rnds r') (now_sec r') (root_ca_key se) k = Inr authority"
    and alone: "rec_force req \<or> peers = Inr []"
  shows "\<exists>g. recover srv r' q peers req (new_guard (new_with_store (h_store h'))) = Some (Inr (), g)
     \<and> current g = Some 0 \<and> states g = [st\<lparr>ca_of := authority\<rparr>]"
proof -
  let ?E = "server_env srv"
  let ?H = "hash_fun ?E"
  let ?t = "\<lparr>manifest_hash = digest ?H mb, previous_transition_hash = prev_hash old\<rparr>"
  from prepare_update_pieces [OF p] obtain m l where pm: "persist_manifest ?E (sign_rnd r) old se mb pols h = (Inr (m, l), h')"
    and st: "seed_engine_of st = se" "manifest_of st = m" "manifest_bytes st = mb" "latest_of st = l"
      "generation st = prev_generation old + 1" "\<not> stale st" by blast
  note pst = reliable_store.persist_manifest_store [OF store pm refl]
  have nc': "\<not> collision_in ?H (marshalled (?t # ts))" by (rule no_collision_mono [OF nc]) auto
  have chain': "persisted view ?H (h_store h') (transition_hash l) (?t # ts)"
    by (rule reliable_store.update_persists [OF store pm refl chain root c nc'])
  have mb: "view (h_store h') (content_path ''manifests'' (manifest_hash ?t)) = Some mb" "manifest_hash ?t = digest ?H mb"
    using pst(2) by simp_all
  have v: "verify_asn1 (sig_scheme ?E) (signing_pub ?E se) (transition_hash l) (signature l)"
    using persist_manifest_facts(3) [OF pm c sigs] .
  note g = reliable_store.recover_persisted [OF store refl chain' pst(1)
      sig [unfolded st(4)] mb(1) mb(2)
      persist_manifest_facts(1) [OF pm c] nc
      peer [unfolded st(2)] secure [unfolded st(2)] eng key
      v ca alone]
  have "\<lparr>seed_engine_of = se, manifest_of = m, manifest_bytes = mb, ca_of = authority, latest_of = l,
      generation = int (length (?t # ts)), stale = False\<rparr> = st\<lparr>ca_of := authority\<rparr>"
    using st gen by (cases st) simp
  with g show ?thesis by simp
qed

end
