(* ===== verification/Scenario.thy ===== *)
theory Scenario
  imports Demo Composition StoreRecovery
begin

text \<open>
  A concrete deployment in which the properties of the user API are applied: the first manifest
  is set, a second one is set by a workload owner's TLS client, and the Coordinator restarts
  over its store and is recovered with the seed.
\<close>

definition demo_server :: "(string \<Rightarrow> bytes option, bytes, bytes, unit, unit, unit, bytes, bytes) server" where
  "demo_server = \<lparr>server_env = demo_env, server_keys = plain_keylib, allow_insecure = True\<rparr>"

definition demo_owner :: "(bytes, bytes) peer" where
  "demo_owner = TLSPeer [Some (ECDSAKey [1, 2])]"

definition demo_holder :: "(bytes, bytes) peer" where
  "demo_holder = TLSPeer [Some (RSAKey [3])]"

definition demo_user_rnd :: user_rnd where
  "demo_user_rnd = \<lparr>seed_bytes = Inr (replicate 32 7), salt_bytes = Inr (replicate 32 8),
     share_rnd = (\<lambda>i. [5]), update_rnd = demo_rnd\<rparr>"

definition demo_request :: set_manifest_request where
  "demo_request = \<lparr>req_manifest = demo_json, req_policies = [demo_policy],
     req_previous_transition_hash = None, req_signature = None\<rparr>"

definition demo_recover :: recover_request where
  "demo_recover = \<lparr>rec_seed = replicate 32 7, rec_salt = replicate 32 8, rec_force = False\<rparr>"

definition demo_set_first ::
  "set_manifest_response result \<times> (string \<Rightarrow> bytes option, bytes, bytes, unit, unit, unit) guard" where
  "demo_set_first = set_manifest demo_server demo_user_rnd NoPeer demo_request demo_guard"

definition demo_set_second ::
  "set_manifest_response result \<times> (string \<Rightarrow> bytes option, bytes, bytes, unit, unit, unit) guard" where
  "demo_set_second = set_manifest demo_server demo_user_rnd demo_owner demo_request (snd demo_set_first)"

definition succeeds :: "'a result \<Rightarrow> bool" where
  "succeeds r = (case r of Inl _ \<Rightarrow> False | Inr _ \<Rightarrow> True)"

lemma succeedsE: "succeeds r \<Longrightarrow> (\<And>x. r = Inr x \<Longrightarrow> thesis) \<Longrightarrow> thesis"
  by (cases r) (simp_all add: succeeds_def)

text \<open>Evaluated once: both calls succeed.\<close>

lemma demo_sets:
  "case demo_set_first of (r, g) \<Rightarrow> succeeds r \<and> current g = Some 0 \<and>
     (case set_manifest demo_server demo_user_rnd demo_owner demo_request g of (r2, g2) \<Rightarrow>
        succeeds r2 \<and> current g2 = Some 1)"
  by code_simp

lemma demo_set_first_ok: "\<exists>resp g. demo_set_first = (Inr resp, g) \<and> current g = Some 0"
  using demo_sets by (auto elim!: succeedsE split: prod.splits)

lemma demo_set_second_ok: "\<exists>resp g. demo_set_second = (Inr resp, g) \<and> current g = Some 1"
proof -
  obtain r g where f: "demo_set_first = (r, g)" by (cases demo_set_first)
  obtain r2 g2 where t: "set_manifest demo_server demo_user_rnd demo_owner demo_request g = (r2, g2)"
    by (cases "set_manifest demo_server demo_user_rnd demo_owner demo_request g")
  have "succeeds r2 \<and> current g2 = Some 1" using demo_sets unfolding f prod.case t by simp
  then show ?thesis unfolding demo_set_second_def f snd_conv t by (auto elim: succeedsE)
qed

section \<open>Reading, attesting, recovering\<close>

text \<open>An issuer whose document is the report data, and the validator that compares them.\<close>

definition demo_handler :: "(string \<Rightarrow> bytes option, bytes, bytes, unit, unit, unit) attestation_handler" where
  "demo_handler = \<lparr>ah_env = demo_env, ah_issue = (\<lambda>rd. Inr rd), ah_oid = raw_insecure_report, ah_version = ''v1''\<rparr>"

definition demo_validator :: "unit report validator" where
  "demo_validator = validator_func (\<lambda>oi doc rd. (if doc = rd then None else Some (Msg ''report data''), []))"

definition demo_nonce :: bytes where
  "demo_nonce = replicate 32 4"

definition demo_response where
  "demo_response = get_response demo_handler (\<lambda>ps. [demo_policy]) (\<lambda>g. g) demo_nonce (snd demo_set_first)"

definition demo_verify :: "attestation_response \<Rightarrow> sdk_state result" where
  "demo_verify resp = validate_attestation demo_hash plain_keylib (parse_manifest demo_env)
     (\<lambda>m. Inr demo_validator) demo_nonce (Inr resp)"

text \<open>The Coordinator attests, the client accepts, and no two hashed byte strings collide.\<close>

lemma demo_attests:
  "case demo_response of Some ((c, Inr resp), g) \<Rightarrow> succeeds (demo_verify resp) \<and>
     (let bs = hashed_bytes demo_hash demo_nonce (coordinator_state resp) in
      distinct (map (digest demo_hash) (remdups bs))) | _ \<Rightarrow> False"
  by code_simp

text \<open>Recovery of a guard that only has the store the first manifest was written to.\<close>

definition demo_restarted where
  "demo_restarted = recover demo_server demo_rnd demo_holder (Inr []) demo_recover
     (new_guard (new_with_store (h_store (hist_of (snd demo_set_first)))))"

lemma demo_restarts:
  "case demo_restarted of Some (Inr _, g) \<Rightarrow> current g = Some 0 | _ \<Rightarrow> False"
  by code_simp

text \<open>Reading the history back, and looking in it for a transition it does not have.\<close>

lemma demo_reads:
  "(case get_history demo_env demo_current of Some (Inr _, g) \<Rightarrow> True | _ \<Rightarrow> False)
   \<and> (case walk_transitions demo_hash (afero_store mem_fs) (seen_hash (replicate 32 9))
        (chain_hash (states demo_current ! 0)) False (hist_of demo_current) of
        Some (Inr _, found, h) \<Rightarrow> \<not> found | _ \<Rightarrow> False)"
  by code_simp

lemma demo_history: "\<exists>ms pols g'. get_history demo_env demo_current = Some (Inr (ms, pols), g')"
  using demo_reads by (auto split: option.splits prod.splits sum.splits)

lemma demo_walk_foreign:
  "\<exists>u h. walk_transitions demo_hash (afero_store mem_fs) (seen_hash (replicate 32 9))
      (chain_hash (states demo_current ! 0)) False (hist_of demo_current) = Some (Inr u, False, h)"
  using demo_reads by (auto split: option.splits prod.splits sum.splits)

text \<open>
  A chain of three manifests in a memory store. The hash keeps the first 32 bytes, so that the
  transitions differ in their manifest hashes.
\<close>

definition demo_chain :: "transition list" where
  "demo_chain = rev (build_transition_chain (\<lambda>x. x) [[1], [2], [3]])"

definition demo_chain_tip :: hash where
  "demo_chain_tip = 3 # replicate 31 0"

definition demo_chain_store :: "string \<Rightarrow> bytes option" where
  "demo_chain_store = map_of (map (\<lambda>t. (content_path ''transitions'' (transition_digest (\<lambda>x. x) t), marshal_transition t)) demo_chain)"

lemma demo_chain_length: "length demo_chain = 3"
  by code_simp

lemma demo_chain_linked: "linked (\<lambda>x. x) demo_chain_tip demo_chain"
  by code_simp

lemma demo_chain_keys: "distinct (map (\<lambda>t. content_path ''transitions'' (transition_digest (\<lambda>x. x) t)) demo_chain)"
  by code_simp

lemma demo_chain_persisted: "persisted (\<lambda>s. s) (\<lambda>x. x) demo_chain_store demo_chain_tip demo_chain"
  using demo_chain_linked demo_chain_keys unfolding persisted_def demo_chain_store_def
  by (intro conjI ballI map_of_is_SomeI) (auto simp: o_def)

lemma demo_prepared_manifest: "demo_prepared = (Inr st, h) \<Longrightarrow> manifest_of st = demo_manifest"
proof -
  assume "demo_prepared = (Inr st, h)"
  then obtain m l where m: "manifest_of st = m"
    and p: "persist_manifest demo_env (sign_rnd demo_rnd) None demo_engine demo_json [demo_policy] (hist_of demo_guard)
      = (Inr (m, l), h)" unfolding demo_prepared_def by (rule prepare_update_pieces) blast
  have "json_manifest demo_env demo_json = Inr (Some demo_manifest)" by (simp add: demo_env_def)
  with parse_manifest_json [OF _ persist_manifest_parses [OF p]] m show ?thesis by simp
qed

section \<open>A mesh peer\<close>

definition demo_ca :: "(bytes, bytes, pkix_extension, unit, unit) ca" where
  "demo_ca = \<lparr>root_ca_priv_key = [5, 5], root_ca_pem = [1], interm_priv_key = [9], interm_ca_pem = [2],
     mesh_ca_cert = ca_template interm_cn 0 0, mesh_ca_pem = [3], mesh_ca_cert_pool = []\<rparr>"

definition demo_auth :: "(bytes, bytes, unit, unit) auth_info" where
  "demo_auth = \<lparr>auth_state = \<lparr>seed_engine_of = demo_engine, manifest_of = demo_manifest,
       manifest_bytes = demo_json, ca_of = demo_ca,
       latest_of = \<lparr>transition_hash = replicate 32 1, signature = [1]\<rparr>, generation = 1, stale = False\<rparr>,
     auth_report = \<lparr>host_data = digest demo_hash demo_policy, claims_to_cert_extension = Inr []\<rparr>,
     auth_peer_keys = [[4]]\<rparr>"

definition demo_mesh_peer :: "(bytes, bytes, unit, unit) mesh_peer" where
  "demo_mesh_peer = MeshPeer demo_auth (Some ''10.0.0.1'')"

lemma demo_lookup: "lookup_policy demo_manifest (digest demo_hash demo_policy) = Some demo_entry"
  by (simp add: lookup_policy_def demo_manifest_def demo_policy_hash_def new_hex_string_def)

lemma demo_mesh_recovers: "\<exists>resp. mesh_recover plain_keylib demo_mesh_peer = Inr resp"
  by (simp add: mesh_recover_def demo_mesh_peer_def demo_auth_def demo_lookup demo_entry_def
      encode_key_def plain_keylib_def)

section \<open>A validator that reports a policy\<close>

definition demo_reporting :: "unit report validator" where
  "demo_reporting = validator_func (\<lambda>oi doc rd. (None,
     [\<lparr>host_data = digest demo_hash demo_policy, claims_to_cert_extension = Inr []\<rparr>]))"

lemma demo_coordinator_accepted:
  "\<exists>v. manifest_coordinator_validator (\<lambda>m i. Inr demo_reporting) demo_manifest = Inr v
     \<and> accepts v raw_insecure_report [] []"
  by (simp add: manifest_coordinator_validator_def coordinator_policy_hashes_def demo_manifest_def demo_entry_def
      coordinator_validator_def demo_policy_hash_def hex_bytes_def demo_reporting_def validator_func_def named_def
      accepts_def coordinator_validate_def)

lemma demo_set_first_cache: "cache_ok demo_hash (hist_of (snd demo_set_first))"
proof -
  obtain resp g where s: "demo_set_first = (Inr resp, g)" using demo_set_first_ok by blast
  have "cache_ok (hash_fun (server_env demo_server)) (hist_of g)"
    by (rule set_manifest_cache [OF s [unfolded demo_set_first_def]]) (simp add: demo_guard_def new_guard_def)
  then show ?thesis unfolding s snd_conv by (simp add: demo_server_def)
qed

end
