(* ===== verification/Base64.thy ===== *)
theory Base64
  imports Prelude
begin

text \<open>
  The standard base64 text of \<open>encoding/base64\<close>, with padding: what \<open>EncodeToString\<close> writes and
  what \<open>DecodeString\<close> accepts (line breaks anywhere, unused low bits of the last digit ignored),
  with the round trip.
\<close>

definition b64_digit :: "nat \<Rightarrow> char" where
  "b64_digit n = (if n < 26 then char_of (65 + n) else if n < 52 then char_of (71 + n)
     else if n < 62 then char_of (n - 4) else if n = 62 then CHR ''+'' else CHR ''/'')"

definition b64_value :: "char \<Rightarrow> nat option" where
  "b64_value c = (let n = of_char c in
     if 65 \<le> n \<and> n \<le> 90 then Some (n - 65)
     else if 97 \<le> n \<and> n \<le> 122 then Some (n - 71)
     else if 48 \<le> n \<and> n \<le> 57 then Some (n + 4)
     else if c = CHR ''+'' then Some 62 else if c = CHR ''/'' then Some 63 else None)"

definition b64_pad :: char where "b64_pad = CHR ''=''"

fun base64_encode :: "bytes \<Rightarrow> string" where
  "base64_encode [] = []"
| "base64_encode [a] =
     [b64_digit (unat a div 4), b64_digit (unat a mod 4 * 16), b64_pad, b64_pad]"
| "base64_encode [a, b] =
     [b64_digit (unat a div 4), b64_digit (unat a mod 4 * 16 + unat b div 16),
      b64_digit (unat b mod 16 * 4), b64_pad]"
| "base64_encode (a # b # c # bs) =
     b64_digit (unat a div 4) # b64_digit (unat a mod 4 * 16 + unat b div 16)
     # b64_digit (unat b mod 16 * 4 + unat c div 64) # b64_digit (unat c mod 64) # base64_encode bs"

definition err_corrupt_base64 :: goerr where
  "err_corrupt_base64 = Msg ''illegal base64 data''"

text \<open>The three bytes of a quantum of four digits.\<close>

definition octet1 :: "nat \<Rightarrow> nat \<Rightarrow> byte" where "octet1 p q = of_nat (p * 4 + q div 16)"
definition octet2 :: "nat \<Rightarrow> nat \<Rightarrow> byte" where "octet2 q r = of_nat (q mod 16 * 16 + r div 4)"
definition octet3 :: "nat \<Rightarrow> nat \<Rightarrow> byte" where "octet3 r t = of_nat (r mod 4 * 64 + t)"

fun base64_quanta :: "string \<Rightarrow> bytes result" where
  "base64_quanta [] = Inr []"
| "base64_quanta (w # x # y # z # s) =
     (case (b64_value w, b64_value x) of
        (Some p, Some q) \<Rightarrow>
          (if y = b64_pad then
             (if z = b64_pad \<and> s = [] then Inr [octet1 p q] else Inl err_corrupt_base64)
           else
          (case b64_value y of
             None \<Rightarrow> Inl err_corrupt_base64
           | Some r \<Rightarrow>
          (if z = b64_pad then
             (if s = [] then Inr [octet1 p q, octet2 q r]
              else Inl err_corrupt_base64)
           else
          (case b64_value z of
             None \<Rightarrow> Inl err_corrupt_base64
           | Some t \<Rightarrow>
          (case base64_quanta s of
             Inl e \<Rightarrow> Inl e
           | Inr bs \<Rightarrow> Inr (octet1 p q # octet2 q r # octet3 r t # bs))))))
      | _ \<Rightarrow> Inl err_corrupt_base64)"
| "base64_quanta _ = Inl err_corrupt_base64"

definition base64_decode :: "string \<Rightarrow> bytes result" where
  "base64_decode s = base64_quanta (filter (\<lambda>c. c \<noteq> CHR 0x0A \<and> c \<noteq> CHR 0x0D) s)"

section \<open>Round trip\<close>

lemma b64_value_digit [simp]: "n < 64 \<Longrightarrow> b64_value (b64_digit n) = Some n"
  by (auto simp: b64_value_def b64_digit_def Let_def of_char_of take_bit_eq_mod)

definition b64_text_char :: "char \<Rightarrow> bool" where
  "b64_text_char c \<longleftrightarrow> b64_value c \<noteq> None \<or> c = b64_pad"

lemma b64_value_pad [simp]: "b64_value b64_pad = None"
  by code_simp

lemma b64_digit_not_pad [simp]: "n < 64 \<Longrightarrow> b64_digit n \<noteq> b64_pad"
  by (metis b64_value_digit b64_value_pad option.distinct(1))

lemma b64_text_char_digit [simp]: "n < 64 \<Longrightarrow> b64_text_char (b64_digit n)" "b64_text_char b64_pad"
  by (simp_all add: b64_text_char_def)

lemma sextet_bounds [simp]:
  "unat (a :: byte) div 4 < 64" "unat (a :: byte) mod 4 * 16 < 64" "unat (b :: byte) mod 16 * 4 < 64"
  "unat (a :: byte) mod 4 * 16 + unat (b :: byte) div 16 < 64"
  "unat (b :: byte) mod 16 * 4 + unat (c :: byte) div 64 < 64"
  using unat_byte_lt [of a] unat_byte_lt [of b] unat_byte_lt [of c] by linarith+

lemma base64_encode_chars: "c \<in> set (base64_encode bs) \<Longrightarrow> b64_text_char c"
  by (induction bs rule: base64_encode.induct) auto

lemma octets [simp]:
  "octet1 (unat a div 4) (unat a mod 4 * 16) = a"
  "octet1 (unat a div 4) (unat a mod 4 * 16 + unat b div 16) = a"
  "octet2 (unat a mod 4 * 16 + unat b div 16) (unat b mod 16 * 4) = b"
  "octet2 (unat a mod 4 * 16 + unat b div 16) (unat b mod 16 * 4 + unat c div 64) = b"
  "octet3 (unat b mod 16 * 4 + unat c div 64) (unat c mod 64) = c"
proof -
  have h: "unat b div 16 < 16" and g: "unat c div 64 < 4"
    using unat_byte_lt [of b] unat_byte_lt [of c] by (simp_all add: less_mult_imp_div_less)
  have a: "unat a div 4 * 4 + unat a mod 4 * 16 div 16 = unat a"
    "unat a div 4 * 4 + (unat a mod 4 * 16 + unat b div 16) div 16 = unat a"
    using h by simp_all
  have b: "(unat a mod 4 * 16 + unat b div 16) mod 16 * 16 + unat b mod 16 * 4 div 4 = unat b"
    "(unat a mod 4 * 16 + unat b div 16) mod 16 * 16 + (unat b mod 16 * 4 + unat c div 64) div 4 = unat b"
    using h g by (simp_all add: div_mult_mod_eq)
  have c: "(unat b mod 16 * 4 + unat c div 64) mod 4 * 64 + unat c mod 64 = unat c"
    using g by (simp add: div_mult_mod_eq)
  show "octet1 (unat a div 4) (unat a mod 4 * 16) = a"
    "octet1 (unat a div 4) (unat a mod 4 * 16 + unat b div 16) = a"
    by (simp_all only: octet1_def a) simp_all
  show "octet2 (unat a mod 4 * 16 + unat b div 16) (unat b mod 16 * 4) = b"
    "octet2 (unat a mod 4 * 16 + unat b div 16) (unat b mod 16 * 4 + unat c div 64) = b"
    by (simp_all only: octet2_def b) simp_all
  show "octet3 (unat b mod 16 * 4 + unat c div 64) (unat c mod 64) = c"
    by (simp only: octet3_def c) simp
qed

lemma base64_quanta_encode: "base64_quanta (base64_encode bs) = Inr bs"
  by (induction bs rule: base64_encode.induct) simp_all

lemma b64_text_no_break: "b64_text_char c \<Longrightarrow> c \<noteq> CHR 0x0A \<and> c \<noteq> CHR 0x0D \<and> c \<noteq> CHR '':''"
  by (auto simp: b64_text_char_def b64_value_def b64_pad_def Let_def)

lemma base64_decode_encode [simp, codec_simps]: "base64_decode (base64_encode bs) = Inr bs"
proof -
  have "filter (\<lambda>c. c \<noteq> CHR 0x0A \<and> c \<noteq> CHR 0x0D) (base64_encode bs) = base64_encode bs"
    using base64_encode_chars b64_text_no_break by (intro filter_True) blast
  then show ?thesis by (simp add: base64_decode_def base64_quanta_encode)
qed

lemma base64_encode_inject [simp]: "base64_encode a = base64_encode b \<longleftrightarrow> a = b"
  by (metis base64_decode_encode sum.inject(2))

lemma length_base64_encode [simp]: "length (base64_encode bs) = (length bs + 2) div 3 * 4"
proof (induction bs rule: base64_encode.induct)
  case (4 a b c bs)
  have "(5 + length bs) div 3 = Suc (Suc (Suc (length bs)) div 3)"
    by (simp add: div_add_self2 [symmetric, of 3])
  with 4 show ?case by simp
qed simp_all

end
