(* ===== verification/Transitengine.thy ===== *)
theory Transitengine
  imports Meshapi Base64
begin

text \<open>
  The transit engine API, \<open>coordinator/internal/transitengineapi\<close>: \<open>crypto.go\<close> with the
  ciphertext container and its JSON form, \<open>transitengineapi.go\<close> with the two handlers, their
  authorization by the workload secret id of the client's mesh certificate, and the TLS
  configuration. AES-GCM, the JSON codec and the ASN.1 decoder are parameters; logging is left
  out, and a response is its status code and body.
\<close>

section \<open>The library functions\<close>

text \<open>
  \<open>gcm_seal key nonce plaintext ad\<close> and \<open>gcm_open key nonce ciphertext ad\<close> are AES-GCM for
  keys of a valid length. \<open>json_text\<close> and \<open>json_untext\<close> write and read a JSON string.
  \<open>encryption_json\<close> decodes the request struct, in which the code takes part only by its field
  tags; \<open>decryption_json\<close> yields the raw JSON of the field \<open>ciphertext\<close>, if it is there and
  not null, and the associated data.
\<close>

record encryption_request =
  er_plaintext :: bytes
  er_key_version :: "32 word"
  er_associated_data :: bytes

record transitlib =
  gcm_seal :: "bytes \<Rightarrow> bytes \<Rightarrow> bytes \<Rightarrow> bytes \<Rightarrow> bytes"
  gcm_open :: "bytes \<Rightarrow> bytes \<Rightarrow> bytes \<Rightarrow> bytes \<Rightarrow> bytes result"
  json_text :: "string \<Rightarrow> bytes"
  json_untext :: "bytes \<Rightarrow> string result"
  encryption_json :: "bytes \<Rightarrow> encryption_request result"
  decryption_json :: "bytes \<Rightarrow> (bytes option \<times> bytes) result"
  asn1_read_bytes :: "bytes \<Rightarrow> bytes result"

definition aes_gcm_nonce_size :: nat where "aes_gcm_nonce_size = 12"
definition aes_gcm_key_size :: nat where "aes_gcm_key_size = 32"

section \<open>crypto.go\<close>

record ciphertext_container =
  ct_nonce :: bytes
  ct_ciphertext :: bytes
  ct_key_version :: "32 word"

text \<open>\<open>aes.NewCipher\<close> takes keys of 16, 24 and 32 bytes.\<close>

definition new_cipher :: "bytes \<Rightarrow> unit result" where
  "new_cipher k = (if length k = 16 \<or> length k = 24 \<or> length k = 32 then Inr ()
     else Inl (Msg (''crypto/aes: invalid key size '' @ dec_string (length k))))"

text \<open>\<open>rnd\<close> is what \<open>GenerateRandomBytes\<close> returns for the requested length.\<close>

definition symmetric_encrypt_raw ::
  "transitlib \<Rightarrow> (nat \<Rightarrow> bytes result) \<Rightarrow> bytes \<Rightarrow> bytes \<Rightarrow> bytes \<Rightarrow> ciphertext_container result" where
  "symmetric_encrypt_raw T rnd key plaintext ad =
     (case new_cipher key of
        Inl e \<Rightarrow> Inl e
      | Inr _ \<Rightarrow>
     (case rnd aes_gcm_nonce_size of
        Inl e \<Rightarrow> Inl e
      | Inr nonce \<Rightarrow> Inr \<lparr>ct_nonce = nonce, ct_ciphertext = gcm_seal T key nonce plaintext ad,
          ct_key_version = 0\<rparr>))"

text \<open>\<open>gcm.Open\<close> panics on a nonce of another length.\<close>

definition symmetric_decrypt_raw ::
  "transitlib \<Rightarrow> bytes \<Rightarrow> ciphertext_container \<Rightarrow> bytes \<Rightarrow> bytes result" where
  "symmetric_decrypt_raw T key c ad =
     (case new_cipher key of
        Inl e \<Rightarrow> Inl e
      | Inr _ \<Rightarrow>
     (if length (ct_nonce c) \<noteq> aes_gcm_nonce_size
      then Inl (Panic ''crypto/cipher: incorrect nonce length given to GCM'')
      else gcm_open T key (ct_nonce c) (ct_ciphertext c) ad))"

text \<open>\<open>strings.SplitN\<close> for a separator of one byte and a positive number of parts.\<close>

fun split_n :: "nat \<Rightarrow> char \<Rightarrow> string \<Rightarrow> string list" where
  "split_n (Suc (Suc n)) sep s =
     (case dropWhile (\<lambda>c. c \<noteq> sep) s of
        [] \<Rightarrow> [s]
      | _ # rest \<Rightarrow> takeWhile (\<lambda>c. c \<noteq> sep) s # split_n (Suc n) sep rest)"
| "split_n _ sep s = [s]"

definition is_digit :: "char \<Rightarrow> bool" where
  "is_digit c \<longleftrightarrow> 48 \<le> (of_char c :: nat) \<and> (of_char c :: nat) \<le> 57"

text \<open>\<open>strconv.ParseUint\<close> with base 10 and 32 bits, for a non-empty string of digits.\<close>

definition parse_uint32 :: "string \<Rightarrow> 32 word result" where
  "parse_uint32 s = (if 2 ^ 32 \<le> dec_value s 0 then Inl (Msg ''value out of range'')
     else Inr (of_nat (dec_value s 0)))"

definition extract_version :: "string \<Rightarrow> 32 word result" where
  "extract_version s =
     (case s of
        c # ds \<Rightarrow>
          (if c = CHR ''v'' \<and> ds \<noteq> [] \<and> list_all is_digit ds then
            (case parse_uint32 ds of
               Inl e \<Rightarrow> Inl (Wrap ''failed to parse version'' e)
             | Inr v \<Rightarrow> Inr v)
           else Inl (Msg (''invalid format: '' @ s)))
      | [] \<Rightarrow> Inl (Msg ''invalid format: ''))"

definition unmarshal_container :: "transitlib \<Rightarrow> bytes \<Rightarrow> ciphertext_container result" where
  "unmarshal_container T data =
     (case json_untext T data of
        Inl e \<Rightarrow> Inl e
      | Inr encoded \<Rightarrow>
     (let parts = split_n 3 (CHR '':'') encoded in
      if length parts < 3 then Inl (Msg ''invalid ciphertext format'')
      else
     (case extract_version (parts ! 1) of
        Inl e \<Rightarrow> Inl (Wrap ''ciphertext version'' e)
      | Inr version \<Rightarrow>
     (case base64_decode (parts ! 2) of
        Inl e \<Rightarrow> Inl (Wrap ''decoding ciphertext'' e)
      | Inr full \<Rightarrow>
     (if length full < aes_gcm_nonce_size
      then Inl (Msg (''ciphertext of length '' @ dec_string (length full) @ '' is too short, expected at least ''
             @ dec_string aes_gcm_nonce_size @ '' bytes''))
      else Inr \<lparr>ct_nonce = take aes_gcm_nonce_size full, ct_ciphertext = drop aes_gcm_nonce_size full,
             ct_key_version = version\<rparr>)))))"

definition container_text :: "ciphertext_container \<Rightarrow> string" where
  "container_text c = ''vault:v'' @ dec_string (unat (ct_key_version c)) @ '':''
     @ base64_encode (ct_nonce c @ ct_ciphertext c)"

definition marshal_container :: "transitlib \<Rightarrow> ciphertext_container \<Rightarrow> bytes" where
  "marshal_container T c = json_text T (container_text c)"

section \<open>Requests and responses\<close>

text \<open>
  \<open>tls_certs\<close> are the extensions of the client's certificates, leaf first; it is None without
  TLS. An absent header is the empty string.
\<close>

record transit_message =
  path_name :: string
  content_type :: string
  request_body :: bytes
  tls_certs :: "pkix_extension list list option"

datatype http_body = EncryptedData bytes | PlainData bytes | Errors "string list" | Text string

record transit_response =
  status_code :: nat
  response_body :: http_body

definition write_http_error :: "nat \<Rightarrow> string \<Rightarrow> transit_response" where
  "write_http_error code msg = \<lparr>status_code = code, response_body = Errors [msg]\<rparr>"

definition write_json_response :: "http_body \<Rightarrow> transit_response" where
  "write_json_response payload = \<lparr>status_code = 200, response_body = payload\<rparr>"

definition validate_content_type :: "transit_message \<Rightarrow> goerr option" where
  "validate_content_type r =
     (if content_type r \<noteq> '''' \<and> \<not> has_prefix ''application/json'' (content_type r)
      then Some (Msg (''invalid content-type: '' @ content_type r @ '' (want application/json)''))
      else None)"

definition parse_request :: "(bytes \<Rightarrow> 'a result) \<Rightarrow> transit_message \<Rightarrow> 'a result" where
  "parse_request decode r = (case validate_content_type r of
     Some e \<Rightarrow> Inl e | None \<Rightarrow> decode (request_body r))"

text \<open>The decoder calls \<open>UnmarshalJSON\<close> of the container on its field.\<close>

definition decode_decryption :: "transitlib \<Rightarrow> bytes \<Rightarrow> (ciphertext_container option \<times> bytes) result" where
  "decode_decryption T b =
     (case decryption_json T b of
        Inl e \<Rightarrow> Inl e
      | Inr (None, ad) \<Rightarrow> Inr (None, ad)
      | Inr (Some raw, ad) \<Rightarrow>
          (case unmarshal_container T raw of Inl e \<Rightarrow> Inl e | Inr c \<Rightarrow> Inr (Some c, ad)))"

definition derive_encryption_key ::
  "('s, 'sk, 'pk, pkix_extension, 'i, 'u) env \<Rightarrow> 32 word \<Rightarrow> string
   \<Rightarrow> ('s, 'sk, 'pk, pkix_extension, 'i, 'u) guard
   \<Rightarrow> bytes result \<times> ('s, 'sk, 'pk, pkix_extension, 'i, 'u) guard" where
  "derive_encryption_key E version name g =
     (case get_state E g of
        ((_, Some e), g1) \<Rightarrow> (Inl e, g1)
      | ((None, None), g1) \<Rightarrow> (Inl nil_dereference, g1)
      | ((Some i, None), g1) \<Rightarrow>
          (case derive_transit_engine_key (kdf_lib E) (seed_engine_of (states g1 ! i)) version name of
             Inl e \<Rightarrow> (Inl e, g1)
           | Inr key \<Rightarrow>
               (if length key < aes_gcm_key_size
                then (Inl (Msg (''derived key too small, expected key length: '' @ dec_string aes_gcm_key_size)), g1)
                else (Inr (take aes_gcm_key_size key), g1))))"

section \<open>The handlers\<close>

definition encrypt_handler ::
  "('s, 'sk, 'pk, pkix_extension, 'i, 'u) env \<Rightarrow> transitlib \<Rightarrow> (nat \<Rightarrow> bytes result) \<Rightarrow> transit_message
   \<Rightarrow> ('s, 'sk, 'pk, pkix_extension, 'i, 'u) guard
   \<Rightarrow> transit_response \<times> ('s, 'sk, 'pk, pkix_extension, 'i, 'u) guard" where
  "encrypt_handler E T rnd r g =
     (let wid = path_name r in
      if wid = '''' then (write_http_error 400 ''Invalid URL format'', g)
      else
     (case parse_request (encryption_json T) r of
        Inl e \<Rightarrow> (write_http_error 400 (''parsing encryption request: '' @ err_text e), g)
      | Inr req \<Rightarrow>
     (case derive_encryption_key E (er_key_version req) wid g of
        (Inl e, g1) \<Rightarrow> (write_http_error 500 (''key derivation: '' @ err_text e), g1)
      | (Inr key, g1) \<Rightarrow>
     (case symmetric_encrypt_raw T rnd key (er_plaintext req) (er_associated_data req) of
        Inl e \<Rightarrow> (write_http_error 500 (''encrypting: '' @ err_text e), g1)
      | Inr c \<Rightarrow>
          (write_json_response (EncryptedData (marshal_container T (c\<lparr>ct_key_version := er_key_version req\<rparr>))), g1)))))"

definition decrypt_handler ::
  "('s, 'sk, 'pk, pkix_extension, 'i, 'u) env \<Rightarrow> transitlib \<Rightarrow> transit_message
   \<Rightarrow> ('s, 'sk, 'pk, pkix_extension, 'i, 'u) guard
   \<Rightarrow> transit_response \<times> ('s, 'sk, 'pk, pkix_extension, 'i, 'u) guard" where
  "decrypt_handler E T r g =
     (let wid = path_name r in
      if wid = '''' then (write_http_error 400 ''Invalid URL format'', g)
      else
     (case parse_request (decode_decryption T) r of
        Inl e \<Rightarrow> (write_http_error 400 (''parsing decryption request: '' @ err_text e), g)
      | Inr (None, _) \<Rightarrow> (write_http_error 400 ''missing mandatory field: ciphertext'', g)
      | Inr (Some c, ad) \<Rightarrow>
     (case derive_encryption_key E (ct_key_version c) wid g of
        (Inl e, g1) \<Rightarrow> (write_http_error 500 (''key derivation: '' @ err_text e), g1)
      | (Inr key, g1) \<Rightarrow>
     (case symmetric_decrypt_raw T key c ad of
        Inl e \<Rightarrow> (write_http_error 400 (''decrypting: '' @ err_text e), g1)
      | Inr plaintext \<Rightarrow> (write_json_response (PlainData plaintext), g1)))))"

section \<open>Authorization\<close>

fun extract_workload_secret_extension :: "transitlib \<Rightarrow> pkix_extension list \<Rightarrow> string result" where
  "extract_workload_secret_extension T [] = Inl (Msg ''extension not found'')"
| "extract_workload_secret_extension T (x # xs) =
     (if ext_id x = workload_secret_oid then
        (case asn1_read_bytes T (ext_value x) of
           Inl e \<Rightarrow> Inl (Wrap ''failed to parse extension'' e)
         | Inr value \<Rightarrow> Inr (string_of_bytes value))
      else extract_workload_secret_extension T xs)"

definition authorize_workload_secret :: "transitlib \<Rightarrow> string \<Rightarrow> transit_message \<Rightarrow> goerr option" where
  "authorize_workload_secret T wid r =
     (case tls_certs r of
        None \<Rightarrow> Some (Msg ''no client certs provided'')
      | Some [] \<Rightarrow> Some (Msg ''no client certs provided'')
      | Some (leaf # _) \<Rightarrow>
     (case extract_workload_secret_extension T leaf of
        Inl e \<Rightarrow> Some (Wrap ''missing required workloadSecretID cert extension'' e)
      | Inr ext_wid \<Rightarrow>
          (if wid = ext_wid then None
           else Some (Msg (''mismatching workloadSecretIDs: name:'' @ wid @ '', extension:'' @ ext_wid)))))"

definition authorization_middleware ::
  "transitlib \<Rightarrow> (transit_message \<Rightarrow> 'g \<Rightarrow> transit_response \<times> 'g) \<Rightarrow> transit_message \<Rightarrow> 'g \<Rightarrow> transit_response \<times> 'g" where
  "authorization_middleware T next_handler r g =
     (case authorize_workload_secret T (path_name r) r of
        Some e \<Rightarrow> (\<lparr>status_code = 403, response_body = Text (''Unauthorized: '' @ err_text e)\<rparr>, g)
      | None \<Rightarrow> next_handler r g)"

text \<open>The multiplexer's two routes, each behind the middleware.\<close>

datatype transit_route = EncryptRoute | DecryptRoute

fun transit_serve ::
  "('s, 'sk, 'pk, pkix_extension, 'i, 'u) env \<Rightarrow> transitlib \<Rightarrow> (nat \<Rightarrow> bytes result) \<Rightarrow> transit_route
   \<Rightarrow> transit_message \<Rightarrow> ('s, 'sk, 'pk, pkix_extension, 'i, 'u) guard
   \<Rightarrow> transit_response \<times> ('s, 'sk, 'pk, pkix_extension, 'i, 'u) guard" where
  "transit_serve E T rnd EncryptRoute = authorization_middleware T (encrypt_handler E T rnd)"
| "transit_serve E T rnd DecryptRoute = authorization_middleware T (decrypt_handler E T)"

section \<open>TLS\<close>

text \<open>The pool against which clients are verified: the mesh CA of the current state.\<close>

definition transit_client_cas ::
  "('s, 'sk, 'pk, 'e, 'i, 'u) env \<Rightarrow> ('s, 'sk, 'pk, 'e, 'i, 'u) guard
   \<Rightarrow> ('pk, 'e, 'i, 'u) certificate list result \<times> ('s, 'sk, 'pk, 'e, 'i, 'u) guard" where
  "transit_client_cas E g =
     (case get_state E g of
        ((_, Some e), g1) \<Rightarrow> (Inl (Wrap ''getting state'' e), g1)
      | ((None, None), g1) \<Rightarrow> (Inl nil_dereference, g1)
      | ((Some i, None), g1) \<Rightarrow> (Inr (get_mesh_ca_cert_pool (ca_of (states g1 ! i))), g1))"

definition coordinator_sans :: "manifest \<Rightarrow> string list" where
  "coordinator_sans m = concat (map (sans \<circ> snd) (filter (\<lambda>(_, e). role e = role_coordinator) (policies m)))"

text \<open>\<open>pem_block\<close> is the content of the block \<open>pem.Decode\<close> finds first.\<close>

definition get_certificate ::
  "('s, 'sk, 'pk, 'e, 'i, 'u) env \<Rightarrow> (bytes \<Rightarrow> bytes option) \<Rightarrow> cert_rnd \<Rightarrow> int \<Rightarrow> 'pk
   \<Rightarrow> ('s, 'sk, 'pk, 'e, 'i, 'u) guard
   \<Rightarrow> (bytes list) result \<times> ('s, 'sk, 'pk, 'e, 'i, 'u) guard" where
  "get_certificate E pem_block rnd now pub g =
     (case get_state E g of
        ((_, Some e), g1) \<Rightarrow> (Inl (Wrap ''getting state'' e), g1)
      | ((None, None), g1) \<Rightarrow> (Inl nil_dereference, g1)
      | ((Some i, None), g1) \<Rightarrow>
     (let st = states g1 ! i in
      case new_attested_mesh_cert (cert_lib E) rnd now (ca_of st) (coordinator_sans (manifest_of st)) [] pub of
        Inl e \<Rightarrow> (Inl (case e of Panic p \<Rightarrow> e | _ \<Rightarrow> Wrap ''failed to create mesh cert'' e), g1)
      | Inr cert_pem \<Rightarrow>
     (case pem_block cert_pem of
        None \<Rightarrow> (Inl (Msg ''failed to decode mesh cert''), g1)
      | Some mesh_der \<Rightarrow>
     (case pem_block (get_interm_ca_cert (ca_of st)) of
        None \<Rightarrow> (Inl (Msg ''failed to decode intermediate cert''), g1)
      | Some interm_der \<Rightarrow> (Inr [mesh_der, interm_der], g1)))))"

end
