(* ===== verification/TransitengineFacts.thy ===== *)
theory TransitengineFacts
  imports Transitengine
begin

text \<open>
  What the transit engine promises: the textual container parses back, versions are exactly the
  32-bit decimals, a handler is reached only with a certificate for the very workload secret of
  the path, and what one replica encrypts every Coordinator with the same seed decrypts.
\<close>

section \<open>The container's text\<close>

lemma split_n_cut:
  "sep \<notin> set a \<Longrightarrow> split_n (Suc (Suc n)) sep (a @ sep # s) = a # split_n (Suc n) sep s"
proof -
  assume "sep \<notin> set a"
  then have "takeWhile (\<lambda>c. c \<noteq> sep) (a @ sep # s) = a" and "dropWhile (\<lambda>c. c \<noteq> sep) (a @ sep # s) = sep # s"
    by (induction a) auto
  then show ?thesis by simp
qed

lemma dec_string_is_digit: "list_all is_digit (dec_string n)"
  using dec_string_digits by (auto simp: list_all_iff is_digit_def)

lemma dec_string_nonempty [simp]: "dec_string n \<noteq> []"
  by (subst dec_string.simps) simp

lemma extract_version_ok:
  "extract_version s = Inr v \<longleftrightarrow>
     (\<exists>ds. s = CHR ''v'' # ds \<and> ds \<noteq> [] \<and> list_all is_digit ds \<and> dec_value ds 0 = unat v)"
proof (cases s)
  case (Cons c ds)
  have "dec_value ds 0 < 2 ^ 32 \<Longrightarrow> of_nat (dec_value ds 0) = v \<longleftrightarrow> dec_value ds 0 = unat v"
    by (auto simp: unat_of_nat take_bit_eq_mod)
  moreover have "dec_value ds 0 = unat v \<Longrightarrow> dec_value ds 0 < 2 ^ 32"
    using unsigned_less [of v, where ?'a = nat] by simp
  ultimately show ?thesis using Cons
    by (auto simp: extract_version_def parse_uint32_def split: sum.splits)
qed (simp add: extract_version_def)

lemma extract_version_dec [simp]: "extract_version (CHR ''v'' # dec_string (unat v)) = Inr v"
  by (simp add: extract_version_ok dec_string_is_digit dec_value_dec_string)

lemma container_parts:
  "split_n 3 (CHR '':'') (container_text c)
     = [''vault'', CHR ''v'' # dec_string (unat (ct_key_version c)), base64_encode (ct_nonce c @ ct_ciphertext c)]"
proof -
  have v: "CHR '':'' \<notin> set (CHR ''v'' # dec_string n)" for n
    using dec_string_digits [of "CHR '':''" n] by auto
  have t: "container_text c = ''vault'' @ CHR '':'' # (CHR ''v'' # dec_string (unat (ct_key_version c)))
      @ CHR '':'' # base64_encode (ct_nonce c @ ct_ciphertext c)"
    by (simp add: container_text_def)
  have "split_n 3 (CHR '':'') (''vault'' @ CHR '':'' # (CHR ''v'' # dec_string n) @ CHR '':'' # b)
      = [''vault'', CHR ''v'' # dec_string n, b]" for n b
    using split_n_cut [of "CHR '':''" "''vault''" 1] split_n_cut [OF v, of 0 n b] by (simp add: numeral_3_eq_3)
  then show ?thesis by (simp only: t)
qed

definition printable :: "char \<Rightarrow> bool" where
  "printable c \<longleftrightarrow> 32 \<le> (of_char c :: nat) \<and> (of_char c :: nat) \<le> 126"

lemma b64_text_printable: "b64_text_char c \<Longrightarrow> printable c"
  by (auto simp: b64_text_char_def b64_value_def b64_pad_def printable_def Let_def split: if_splits)

lemma container_text_printable: "\<forall>c\<in>set (container_text x). printable c"
proof -
  have "printable c" if "c \<in> set (dec_string n)" for c n
    using dec_string_digits [OF that] by (simp add: printable_def)
  moreover have "printable c" if "c \<in> set (base64_encode b)" for c b
    using that base64_encode_chars b64_text_printable by blast
  moreover have "\<forall>c\<in>set ''vault:v''. printable c" by (simp add: printable_def)
  moreover have "printable (CHR '':'')" by (simp add: printable_def)
  ultimately show ?thesis by (auto simp: container_text_def)
qed

text \<open>The JSON codec keeps printable ASCII text; AES-GCM opens what it sealed, and nothing else.\<close>

locale json_strings =
  fixes T :: transitlib
  assumes untext_text: "\<forall>c\<in>set s. printable c \<Longrightarrow> json_untext T (json_text T s) = Inr s"
begin

lemma container_round_trip:
  assumes "length (ct_nonce c) = aes_gcm_nonce_size"
  shows "unmarshal_container T (marshal_container T c) = Inr c"
  using assms
  by (simp add: unmarshal_container_def marshal_container_def untext_text [OF container_text_printable]
      container_parts Let_def del: split_n.simps)

end

lemma unmarshal_container_nonce:
  "unmarshal_container T b = Inr c \<Longrightarrow> length (ct_nonce c) = aes_gcm_nonce_size"
  by (auto simp: unmarshal_container_def Let_def split: sum.splits if_splits)

locale aead =
  fixes T :: transitlib
  assumes open_seal: "length k = 32 \<Longrightarrow> length n = aes_gcm_nonce_size \<Longrightarrow> gcm_open T k n (gcm_seal T k n p a) a = Inr p"
begin

lemma decrypt_encrypt:
  assumes "length k = 32" and "symmetric_encrypt_raw T rnd k p a = Inr c"
    and "\<And>n b. rnd n = Inr b \<Longrightarrow> length b = n"
  shows "length (ct_nonce c) = aes_gcm_nonce_size"
    and "symmetric_decrypt_raw T k (c\<lparr>ct_key_version := v\<rparr>) a = Inr p"
  using assms by (auto simp: symmetric_encrypt_raw_def symmetric_decrypt_raw_def new_cipher_def open_seal split: sum.splits)

end

section \<open>Authorization\<close>

lemma extract_extension_ok:
  "extract_workload_secret_extension T xs = Inr wid \<longleftrightarrow>
     (\<exists>x b. find (\<lambda>x. ext_id x = workload_secret_oid) xs = Some x
        \<and> asn1_read_bytes T (ext_value x) = Inr b \<and> wid = string_of_bytes b)"
  by (induction xs) (auto split: sum.splits)

lemma authorize_ok:
  "authorize_workload_secret T wid r = None \<longleftrightarrow>
     (\<exists>leaf rest. tls_certs r = Some (leaf # rest) \<and> extract_workload_secret_extension T leaf = Inr wid)"
  by (auto simp: authorize_workload_secret_def split: option.splits list.splits sum.splits)

lemma serve_unauthorized:
  "authorize_workload_secret T (path_name r) r = Some e \<Longrightarrow>
     transit_serve E T rnd route r g = (\<lparr>status_code = 403, response_body = Text (''Unauthorized: '' @ err_text e)\<rparr>, g)"
  by (cases route) (simp_all add: authorization_middleware_def)

lemma serve_ok_authorized:
  assumes "transit_serve E T rnd route r g = (resp, g')" and "status_code resp = 200"
  shows "authorize_workload_secret T (path_name r) r = None"
  using assms serve_unauthorized [of T r _ E rnd route g]
  by (cases "authorize_workload_secret T (path_name r) r") auto

section \<open>Keys\<close>

lemma derive_encryption_key_ok:
  "derive_encryption_key E v name g = (Inr key, g') \<longleftrightarrow>
     (\<exists>i full. current g = Some i \<and> \<not> stale (states g ! i) \<and> g' = g
        \<and> derive_transit_engine_key (kdf_lib E) (seed_engine_of (states g ! i)) v name = Inr full
        \<and> aes_gcm_key_size \<le> length full \<and> key = take aes_gcm_key_size full)"
  by (auto simp: derive_encryption_key_def get_state_def split: option.splits sum.splits prod.splits if_splits bool.splits)

lemma derive_encryption_key_size:
  "derive_encryption_key E v name g = (Inr key, g') \<Longrightarrow> length key = 32"
  by (auto simp: derive_encryption_key_ok aes_gcm_key_size_def)

section \<open>Round trip through the handlers\<close>

text \<open>
  What an encryption request was answered with, decrypted for the same workload secret and the
  same associated data by any Coordinator whose current state derives from the same seed.
\<close>

definition serves_engine ::
  "('s, 'sk, 'pk, 'e, 'i, 'u) guard \<Rightarrow> 'sk seed_engine \<Rightarrow> bool" where
  "serves_engine g se \<longleftrightarrow> (\<exists>i. current g = Some i \<and> \<not> stale (states g ! i) \<and> seed_engine_of (states g ! i) = se)"

lemma derive_encryption_key_engine:
  assumes "derive_encryption_key E v name g = (Inr key, g1)" and "serves_engine g se" and "serves_engine h se"
    and "kdf_lib F = kdf_lib E"
  shows "derive_encryption_key F v name h = (Inr key, h)"
proof -
  have "current g = Some i \<Longrightarrow> seed_engine_of (states g ! i) = se" for i
    using assms(2) by (auto simp: serves_engine_def)
  with assms(1) obtain full where "derive_transit_engine_key (kdf_lib E) se v name = Inr full"
    and "aes_gcm_key_size \<le> length full" and "key = take aes_gcm_key_size full"
    by (auto simp: derive_encryption_key_ok)
  moreover obtain j where "current h = Some j" "\<not> stale (states h ! j)" "seed_engine_of (states h ! j) = se"
    using assms(3) by (auto simp: serves_engine_def)
  ultimately show ?thesis using assms(4) by (auto simp: derive_encryption_key_ok)
qed

lemma encrypt_handler_ok:
  assumes "encrypt_handler E T rnd r g = (resp, g')" and "status_code resp = 200"
  obtains req key c where "path_name r \<noteq> ''''" and "encryption_json T (request_body r) = Inr req"
    and "derive_encryption_key E (er_key_version req) (path_name r) g = (Inr key, g')"
    and "symmetric_encrypt_raw T rnd key (er_plaintext req) (er_associated_data req) = Inr c"
    and "response_body resp = EncryptedData (marshal_container T (c\<lparr>ct_key_version := er_key_version req\<rparr>))"
  using assms
  by (auto simp: encrypt_handler_def write_http_error_def write_json_response_def parse_request_def Let_def
      split: if_splits sum.splits prod.splits option.splits)

lemma decrypt_handler_plain:
  assumes "path_name r \<noteq> ''''" and "validate_content_type r = None"
    and "decryption_json T (request_body r) = Inr (Some raw, ad)" and "unmarshal_container T raw = Inr c"
    and "derive_encryption_key E (ct_key_version c) (path_name r) g = (Inr key, g)"
    and "symmetric_decrypt_raw T key c ad = Inr p"
  shows "decrypt_handler E T r g = (\<lparr>status_code = 200, response_body = PlainData p\<rparr>, g)"
  using assms by (simp add: decrypt_handler_def parse_request_def decode_decryption_def write_json_response_def)

locale transit_crypto = json_strings T + aead T for T :: transitlib
begin

lemma transit_round_trip:
  assumes enc: "transit_serve E T rnd EncryptRoute r g = (resp, g')" and ok: "status_code resp = 200"
    and rnd: "\<And>n b. rnd n = Inr b \<Longrightarrow> length b = n"
    and req: "encryption_json T (request_body r) = Inr req"
    and body: "response_body resp = EncryptedData raw"
    and se: "serves_engine g se" "serves_engine h se" and F: "kdf_lib F = kdf_lib E"
    and dec: "decryption_json T (request_body q) = Inr (Some raw, er_associated_data req)"
    and q: "path_name q = path_name r" "tls_certs q = tls_certs r" "validate_content_type q = None"
  shows "transit_serve F T rnd' DecryptRoute q h = (\<lparr>status_code = 200, response_body = PlainData (er_plaintext req)\<rparr>, h)"
proof -
  have au: "authorize_workload_secret T (path_name r) r = None" by (rule serve_ok_authorized [OF enc ok])
  have "encrypt_handler E T rnd r g = (resp, g')" using enc au by (simp add: authorization_middleware_def)
  from this ok obtain req' key c where name: "path_name r \<noteq> ''''" and req': "encryption_json T (request_body r) = Inr req'"
    and key: "derive_encryption_key E (er_key_version req') (path_name r) g = (Inr key, g')"
    and c: "symmetric_encrypt_raw T rnd key (er_plaintext req') (er_associated_data req') = Inr c"
    and b: "response_body resp = EncryptedData (marshal_container T (c\<lparr>ct_key_version := er_key_version req'\<rparr>))"
    by (rule encrypt_handler_ok)
  have same: "req' = req" using req req' by simp
  note d = decrypt_encrypt [OF derive_encryption_key_size [OF key] c rnd]
  have "unmarshal_container T raw = Inr (c\<lparr>ct_key_version := er_key_version req\<rparr>)"
    using b body d(1) same container_round_trip [of "c\<lparr>ct_key_version := er_key_version req\<rparr>"] by simp
  moreover have "derive_encryption_key F (er_key_version req) (path_name r) h = (Inr key, h)"
    using derive_encryption_key_engine [OF key se F] same by simp
  moreover have "symmetric_decrypt_raw T key (c\<lparr>ct_key_version := er_key_version req\<rparr>) (er_associated_data req)
      = Inr (er_plaintext req)"
    using d(2) same by simp
  ultimately have "decrypt_handler F T q h = (\<lparr>status_code = 200, response_body = PlainData (er_plaintext req)\<rparr>, h)"
    using name q(1) by (intro decrypt_handler_plain [OF _ q(3) dec]) simp_all
  moreover have "authorize_workload_secret T (path_name q) q = None"
    using au q by (simp add: authorize_ok)
  ultimately show ?thesis by (simp add: authorization_middleware_def)
qed

end

section \<open>Certificates of the mesh API\<close>

text \<open>
  The extensions of a leaf certificate as the mesh API issues it for a policy with a workload
  secret id: the claims of the report, which do not use the workload secret's OID, and then the
  id itself. Exactly that id is authorized.
\<close>

lemma issued_extension_authorizes:
  assumes "\<forall>x\<in>set claims. ext_id x \<noteq> workload_secret_oid"
    and "convert_extension A (BytesExtension workload_secret_oid (bytes_of_string wid)) = Inr x"
    and "\<And>b v. asn1_bytes A b = Inr v \<Longrightarrow> asn1_read_bytes T v = Inr b"
    and "tls_certs r = Some ((claims @ [x]) # rest)"
  shows "authorize_workload_secret T wid' r = None \<longleftrightarrow> wid' = wid"
proof -
  have f: "find (\<lambda>x. ext_id x = workload_secret_oid) (claims @ [x]) = Some x"
    using assms(1,2) by (induction claims) (auto simp: convert_extension_def split: sum.splits)
  have "asn1_read_bytes T (ext_value x) = Inr (bytes_of_string wid)"
    using assms(2,3) by (auto simp: convert_extension_def split: sum.splits)
  with f show ?thesis using assms(4) by (auto simp: authorize_ok extract_extension_ok)
qed

section \<open>The serving certificate\<close>

lemma get_certificate_panics:
  assumes "serves_engine g se" and "current g = Some i" and "coordinator_sans (manifest_of (states g ! i)) = []"
  shows "\<exists>p. fst (get_certificate E pem rnd now pub g) = Inl (Panic p)"
  using assms by (auto simp: get_certificate_def get_state_def serves_engine_def new_attested_mesh_cert_def)

section \<open>An instance\<close>

text \<open>JSON strings are quoted without escapes, and the cipher prefixes its key and nonce.\<close>

definition plain_transit :: transitlib where
  "plain_transit = \<lparr>
     gcm_seal = (\<lambda>k n p a. p @ k @ n), gcm_open = (\<lambda>k n c a. Inr (take (length c - length (k @ n)) c)),
     json_text = (\<lambda>s. bytes_of_string (quoted s)),
     json_untext = (\<lambda>b. Inr (butlast (tl (string_of_bytes b)))),
     encryption_json = (\<lambda>b. Inr \<lparr>er_plaintext = b, er_key_version = 1, er_associated_data = []\<rparr>),
     decryption_json = (\<lambda>b. Inr (Some b, [])), asn1_read_bytes = (\<lambda>b. Inr b)\<rparr>"

interpretation plain_transit: transit_crypto plain_transit
  by unfold_locales (auto simp: plain_transit_def quoted_def)

end
