(* ===== verification/Claims.thy ===== *)
theory Claims
  imports Meshapi
begin

text \<open>
  The reports a validator passes on, and their claims as certificate extensions:
  \<open>internal/attestation/snp/extensions.go\<close> and \<open>internal/attestation/tdx/extensions.go\<close>. The
  report messages and the parsers of their bit fields come from \<open>go-sev-guest\<close> and
  \<open>go-tdx-guest\<close>; the records hold the fields this code reads, as the verified messages have
  them, and the parsers are the record \<open>sevabi\<close>.
\<close>

section \<open>SEV-SNP\<close>

record snp_report =
  sr_version :: "32 word"
  sr_guest_svn :: "32 word"
  sr_policy :: "64 word"
  sr_family_id :: bytes
  sr_image_id :: bytes
  sr_vmpl :: "32 word"
  sr_current_tcb :: "64 word"
  sr_platform_info :: "64 word"
  sr_signer_info :: "32 word"
  sr_report_data :: bytes
  sr_measurement :: bytes
  sr_host_data :: bytes
  sr_id_key_digest :: bytes
  sr_author_key_digest :: bytes
  sr_report_id :: bytes
  sr_report_id_ma :: bytes
  sr_reported_tcb :: "64 word"
  sr_chip_id :: bytes
  sr_committed_tcb :: "64 word"
  sr_current_build :: "32 word"
  sr_current_minor :: "32 word"
  sr_current_major :: "32 word"
  sr_committed_build :: "32 word"
  sr_committed_minor :: "32 word"
  sr_committed_major :: "32 word"
  sr_launch_tcb :: "64 word"
  sr_cpuid_fms :: "32 word"

record tcb_parts =
  bl_spl :: "8 word"
  tee_spl :: "8 word"
  snp_spl :: "8 word"
  ucode_spl :: "8 word"

record parsed_policy =
  pp_abi_major :: "8 word"
  pp_abi_minor :: "8 word"
  pp_smt :: bool
  pp_migrate_ma :: bool
  pp_debug :: bool
  pp_single_socket :: bool

record parsed_signer_info =
  ps_signing_key :: "8 word"
  ps_author_key_en :: bool
  ps_mask_chip_key :: bool

text \<open>\<open>platform_info_of\<close> yields the flags \<open>SMTEnabled\<close> and \<open>TSMEEnabled\<close>.\<close>

record sevabi =
  policy_of :: "64 word \<Rightarrow> parsed_policy result"
  platform_info_of :: "64 word \<Rightarrow> (bool \<times> bool) result"
  signer_info_of :: "32 word \<Rightarrow> parsed_signer_info result"
  tcb_parts_of :: "64 word \<Rightarrow> tcb_parts"

definition snp_oid :: "nat \<Rightarrow> oid" where "snp_oid n = raw_snp_report @ [n]"

definition tcb_extensions :: "nat \<Rightarrow> tcb_parts \<Rightarrow> extension list" where
  "tcb_extensions n t =
     [BigIntExtension (snp_oid n) (ucast (bl_spl t)), BigIntExtension (snp_oid (n + 2)) (ucast (tee_spl t)),
      BigIntExtension (snp_oid (n + 1)) (ucast (snp_spl t)), BigIntExtension (snp_oid (n + 3)) (ucast (ucode_spl t))]"

definition snp_extensions ::
  "sevabi \<Rightarrow> parsed_policy \<Rightarrow> bool \<times> bool \<Rightarrow> parsed_signer_info \<Rightarrow> snp_report \<Rightarrow> extension list" where
  "snp_extensions B p info s r =
     [BigIntExtension (snp_oid 1) (ucast (sr_version r)), BigIntExtension (snp_oid 2) (ucast (sr_guest_svn r)),
      BigIntExtension (snp_oid 3) (ucast (pp_abi_major p)), BigIntExtension (snp_oid 4) (ucast (pp_abi_minor p)),
      BoolExtension (snp_oid 7) (pp_smt p), BoolExtension (snp_oid 6) (pp_migrate_ma p),
      BoolExtension (snp_oid 5) (pp_debug p), BoolExtension (snp_oid 8) (pp_single_socket p),
      BytesExtension (snp_oid 9) (sr_family_id r), BytesExtension (snp_oid 10) (sr_image_id r),
      BigIntExtension (snp_oid 11) (ucast (sr_vmpl r))]
     @ tcb_extensions 12 (tcb_parts_of B (sr_current_tcb r))
     @ [BoolExtension (snp_oid 16) (fst info), BoolExtension (snp_oid 17) (snd info),
        BigIntExtension (snp_oid 20) (ucast (ps_signing_key s)),
        BoolExtension (snp_oid 18) (ps_author_key_en s), BoolExtension (snp_oid 19) (ps_mask_chip_key s),
        BytesExtension (snp_oid 21) (sr_report_data r), BytesExtension (snp_oid 22) (sr_measurement r),
        BytesExtension (snp_oid 23) (sr_host_data r), BytesExtension (snp_oid 24) (sr_id_key_digest r),
        BytesExtension (snp_oid 25) (sr_author_key_digest r), BytesExtension (snp_oid 26) (sr_report_id r),
        BytesExtension (snp_oid 27) (sr_report_id_ma r)]
     @ tcb_extensions 28 (tcb_parts_of B (sr_reported_tcb r))
     @ [BytesExtension (snp_oid 32) (sr_chip_id r)]
     @ tcb_extensions 33 (tcb_parts_of B (sr_committed_tcb r))
     @ [BigIntExtension (snp_oid 37) (ucast (sr_current_build r)), BigIntExtension (snp_oid 38) (ucast (sr_current_minor r)),
        BigIntExtension (snp_oid 39) (ucast (sr_current_major r)), BigIntExtension (snp_oid 40) (ucast (sr_committed_build r)),
        BigIntExtension (snp_oid 41) (ucast (sr_committed_minor r)), BigIntExtension (snp_oid 42) (ucast (sr_committed_major r))]
     @ tcb_extensions 43 (tcb_parts_of B (sr_launch_tcb r))"

definition snp_claims :: "sevabi \<Rightarrow> asn1lib \<Rightarrow> snp_report \<Rightarrow> pkix_extension list result" where
  "snp_claims B A r =
     (case policy_of B (sr_policy r) of
        Inl e \<Rightarrow> Inl (Wrap ''parsing policy'' e)
      | Inr p \<Rightarrow>
     (case platform_info_of B (sr_platform_info r) of
        Inl e \<Rightarrow> Inl (Wrap ''parsing platform info'' e)
      | Inr info \<Rightarrow>
     (case signer_info_of B (sr_signer_info r) of
        Inl e \<Rightarrow> Inl (Wrap ''parsing singer info'' e)
      | Inr s \<Rightarrow> convert_extensions A (snp_extensions B p info s r))))"

definition snp_report_of :: "sevabi \<Rightarrow> asn1lib \<Rightarrow> snp_report \<Rightarrow> pkix_extension report" where
  "snp_report_of B A r = \<lparr>host_data = sr_host_data r, claims_to_cert_extension = snp_claims B A r\<rparr>"

section \<open>TDX\<close>

record enclave_report =
  er_cpu_svn :: bytes
  er_misc_select :: "32 word"
  er_reserved1 :: bytes
  er_attributes :: bytes
  er_mr_enclave :: bytes
  er_reserved2 :: bytes
  er_mr_signer :: bytes
  er_reserved3 :: bytes
  er_isv_prod_id :: "32 word"
  er_isv_svn :: "32 word"
  er_reserved4 :: bytes
  er_report_data :: bytes

record tdx_quote =
  tq_version :: "32 word"
  tq_attestation_key_type :: "32 word"
  tq_tee_type :: "32 word"
  tq_qe_svn :: bytes
  tq_pce_svn :: bytes
  tq_qe_vendor_id :: bytes
  tq_user_data :: bytes
  tq_tee_tcb_svn :: bytes
  tq_mr_seam :: bytes
  tq_mr_signer_seam :: bytes
  tq_seam_attributes :: bytes
  tq_td_attributes :: bytes
  tq_xfam :: bytes
  tq_mr_td :: bytes
  tq_mr_config_id :: bytes
  tq_mr_owner :: bytes
  tq_mr_owner_config :: bytes
  tq_rtmrs :: "bytes list"
  tq_report_data :: bytes
  tq_signed_data_size :: "32 word"
  tq_signature :: bytes
  tq_ecdsa_attestation_key :: bytes
  tq_certificate_data_type :: "32 word"
  tq_certification_size :: "32 word"
  tq_qe_report :: enclave_report
  tq_qe_report_signature :: bytes
  tq_parsed_data_size :: "32 word"
  tq_qe_auth_data :: bytes
  tq_pck_data_type :: "32 word"
  tq_pck_size :: "32 word"
  tq_pck_cert_chain :: bytes
  tq_extra_bytes :: bytes

definition tdx_oid :: "nat \<Rightarrow> oid" where "tdx_oid n = raw_tdx_report @ [n]"

definition tdx_extensions :: "tdx_quote \<Rightarrow> extension list" where
  "tdx_extensions q =
       [BigIntExtension (tdx_oid 1) (ucast (tq_version q)), BigIntExtension (tdx_oid 2) (ucast (tq_attestation_key_type q)),
        BigIntExtension (tdx_oid 3) (ucast (tq_tee_type q)), BytesExtension (tdx_oid 4) (tq_qe_svn q),
        BytesExtension (tdx_oid 5) (tq_pce_svn q), BytesExtension (tdx_oid 6) (tq_qe_vendor_id q),
        BytesExtension (tdx_oid 7) (tq_user_data q), BytesExtension (tdx_oid 8) (tq_tee_tcb_svn q),
        BytesExtension (tdx_oid 9) (tq_mr_seam q), BytesExtension (tdx_oid 10) (tq_mr_signer_seam q),
        BytesExtension (tdx_oid 11) (tq_seam_attributes q), BytesExtension (tdx_oid 12) (tq_td_attributes q),
        BytesExtension (tdx_oid 13) (tq_xfam q), BytesExtension (tdx_oid 14) (tq_mr_td q),
        BytesExtension (tdx_oid 15) (tq_mr_config_id q), BytesExtension (tdx_oid 16) (tq_mr_owner q),
        BytesExtension (tdx_oid 17) (tq_mr_owner_config q), BytesExtension (tdx_oid 18) (tq_rtmrs q ! 0),
        BytesExtension (tdx_oid 19) (tq_rtmrs q ! 1), BytesExtension (tdx_oid 20) (tq_rtmrs q ! 2),
        BytesExtension (tdx_oid 21) (tq_rtmrs q ! 3), BytesExtension (tdx_oid 22) (tq_report_data q),
        BigIntExtension (tdx_oid 23) (ucast (tq_signed_data_size q)), BytesExtension (tdx_oid 24) (tq_signature q),
        BytesExtension (tdx_oid 25) (tq_ecdsa_attestation_key q),
        BigIntExtension (tdx_oid 26) (ucast (tq_certificate_data_type q)),
        BigIntExtension (tdx_oid 27) (ucast (tq_certification_size q)),
        BytesExtension (tdx_oid 29) (er_cpu_svn (tq_qe_report q)),
        BigIntExtension (tdx_oid 30) (ucast (er_misc_select (tq_qe_report q))),
        BytesExtension (tdx_oid 31) (er_reserved1 (tq_qe_report q)),
        BytesExtension (tdx_oid 32) (er_attributes (tq_qe_report q)),
        BytesExtension (tdx_oid 33) (er_mr_enclave (tq_qe_report q)),
        BytesExtension (tdx_oid 34) (er_reserved2 (tq_qe_report q)),
        BytesExtension (tdx_oid 35) (er_mr_signer (tq_qe_report q)),
        BytesExtension (tdx_oid 36) (er_reserved3 (tq_qe_report q)),
        BigIntExtension (tdx_oid 37) (ucast (er_isv_prod_id (tq_qe_report q))),
        BigIntExtension (tdx_oid 38) (ucast (er_isv_svn (tq_qe_report q))),
        BytesExtension (tdx_oid 39) (er_reserved4 (tq_qe_report q)),
        BytesExtension (tdx_oid 40) (er_report_data (tq_qe_report q)),
        BytesExtension (tdx_oid 41) (tq_qe_report_signature q),
        BigIntExtension (tdx_oid 42) (ucast (tq_parsed_data_size q)), BytesExtension (tdx_oid 43) (tq_qe_auth_data q),
        BigIntExtension (tdx_oid 44) (ucast (tq_pck_data_type q)), BigIntExtension (tdx_oid 45) (ucast (tq_pck_size q)),
        BytesExtension (tdx_oid 46) (tq_pck_cert_chain q)]"

definition tdx_claims :: "asn1lib \<Rightarrow> tdx_quote \<Rightarrow> pkix_extension list result" where
  "tdx_claims A q =
     (if length (tq_rtmrs q) < 4 then Inl (Panic ''index out of range'')
      else convert_extensions A (tdx_extensions q))"

text \<open>The host data are the first 32 bytes of the configuration id; a shorter id would panic.\<close>

definition tdx_report_of :: "asn1lib \<Rightarrow> tdx_quote \<Rightarrow> pkix_extension report" where
  "tdx_report_of A q = \<lparr>host_data = take 32 (tq_mr_config_id q), claims_to_cert_extension = tdx_claims A q\<rparr>"

section \<open>The claims' identifiers\<close>

fun extension_oid :: "extension \<Rightarrow> oid" where
  "extension_oid (BigIntExtension oi _) = oi"
| "extension_oid (BytesExtension oi _) = oi"
| "extension_oid (BoolExtension oi _) = oi"

lemma convert_extensions_oids:
  "convert_extensions A xs = Inr ps \<Longrightarrow> map ext_id ps = map extension_oid xs"
proof (induction xs arbitrary: ps)
  case (Cons x xs)
  then show ?case by (cases x) (auto split: sum.splits)
qed simp

lemma snp_extensions_oids:
  "map extension_oid (snp_extensions B p info s r) = map snp_oid
      [1, 2, 3, 4, 7, 6, 5, 8, 9, 10, 11, 12, 14, 13, 15, 16, 17, 20, 18, 19, 21, 22,
       23, 24, 25, 26, 27, 28, 30, 29, 31, 32, 33, 35, 34, 36, 37, 38, 39, 40, 41, 42, 43, 45, 44, 46]"
  by (simp add: snp_extensions_def tcb_extensions_def)

lemma tdx_extensions_oids:
  "map extension_oid (tdx_extensions q) = map tdx_oid
      [1, 2, 3, 4, 5, 6, 7, 8, 9, 10, 11, 12, 13, 14, 15, 16, 17, 18, 19, 20, 21, 22, 23,
       24, 25, 26, 27, 29, 30, 31, 32, 33, 34, 35, 36, 37, 38, 39, 40, 41, 42, 43, 44, 45, 46]"
  by (simp add: tdx_extensions_def)

lemma oid_facts:
  "inj snp_oid" "inj tdx_oid" "workload_secret_oid \<notin> range snp_oid" "workload_secret_oid \<notin> range tdx_oid"
  by (auto simp: inj_on_def snp_oid_def tdx_oid_def raw_snp_report_def raw_tdx_report_def workload_secret_oid_def)

text \<open>No claim uses the identifier under which the mesh API puts the workload secret id.\<close>

lemma snp_claims_oids:
  assumes "snp_claims B A r = Inr ps"
  shows "distinct (map ext_id ps)" and "workload_secret_oid \<notin> set (map ext_id ps)"
proof -
  obtain p info s where "convert_extensions A (snp_extensions B p info s r) = Inr ps"
    using assms by (auto simp: snp_claims_def split: sum.splits)
  note ids = convert_extensions_oids [OF this, unfolded snp_extensions_oids]
  have d: "distinct (map snp_oid L) \<longleftrightarrow> distinct L" for L
    using inj_on_subset [OF oid_facts(1) subset_UNIV] by (simp add: distinct_map)
  show "distinct (map ext_id ps)" unfolding ids d by simp
  show "workload_secret_oid \<notin> set (map ext_id ps)" unfolding ids set_map using oid_facts(3) by blast
qed

lemma tdx_claims_oids:
  assumes "tdx_claims A q = Inr ps"
  shows "distinct (map ext_id ps)" and "workload_secret_oid \<notin> set (map ext_id ps)"
proof -
  have "convert_extensions A (tdx_extensions q) = Inr ps" using assms by (simp add: tdx_claims_def split: if_splits)
  note ids = convert_extensions_oids [OF this, unfolded tdx_extensions_oids]
  have d: "distinct (map tdx_oid L) \<longleftrightarrow> distinct L" for L
    using inj_on_subset [OF oid_facts(2) subset_UNIV] by (simp add: distinct_map)
  show "distinct (map ext_id ps)" unfolding ids d by simp
  show "workload_secret_oid \<notin> set (map ext_id ps)" unfolding ids set_map using oid_facts(4) by blast
qed

end
