(* ===== verification/Snpmeasure.thy ===== *)
theory Snpmeasure
  imports Prelude
begin

text \<open>
  The SEV-SNP launch measurement of \<open>internal/snp\<close>: the launch digest context (\<open>gctx.go\<close>), the
  initial register pages of the virtual CPUs (\<open>vmsa.go\<close>), the CPU signatures
  (\<open>vcpu_types.go\<close>), the table of kernel hashes (\<open>sev_hashes.go\<close>), and the extension of a
  digest to more virtual CPUs (\<open>guest.go\<close>). SHA-384 and SHA-256 are parameters.
\<close>

unbundle bit_operations_syntax

section \<open>Binary layout\<close>

text \<open>\<open>binary.LittleEndian.PutUint\<close> at an offset, for a field of \<open>n\<close> bytes.\<close>

definition put_le :: "nat \<Rightarrow> nat \<Rightarrow> 'a::len word \<Rightarrow> bytes \<Rightarrow> bytes" where
  "put_le n off x buf = copy_at off (le_bytes n x) buf"

lemma length_put_le [simp]: "length (put_le n off x buf) = length buf"
  by (simp add: put_le_def)

definition get_le :: "nat \<Rightarrow> nat \<Rightarrow> bytes \<Rightarrow> nat" where
  "get_le n off buf = le_value (take n (drop off buf))"

lemma get_put_le:
  "off + n \<le> length buf \<Longrightarrow> get_le n off (put_le n off x buf) = unat x mod 256 ^ n"
  using copy_at_read [of off "le_bytes n x" buf] by (simp add: get_le_def put_le_def le_value_le_bytes)

lemma get_put_le_other:
  assumes "off + n \<le> length buf" and "a + m \<le> off \<or> off + n \<le> a"
  shows "get_le m a (put_le n off x buf) = get_le m a buf"
  using assms copy_at_keeps_before [of off "le_bytes n x" buf a m] copy_at_keeps_after [of off "le_bytes n x" buf a m]
  by (auto simp: get_le_def put_le_def)

section \<open>The launch digest context\<close>

definition launch_digest_size :: nat where "launch_digest_size = 48"
definition vmsa_gpa :: "64 word" where "vmsa_gpa = 0xFFFFFFFFF000"
definition page_size :: nat where "page_size = 4096"
definition page_info_len :: nat where "page_info_len = 0x70"

definition page_type_normal :: byte where "page_type_normal = 1"
definition page_type_vmsa :: byte where "page_type_vmsa = 2"
definition page_type_zero :: byte where "page_type_zero = 3"
definition page_type_unmeasured :: byte where "page_type_unmeasured = 4"
definition page_type_secrets :: byte where "page_type_secrets = 5"
definition page_type_cpuid :: byte where "page_type_cpuid = 6"

definition zeros :: bytes where "zeros = replicate launch_digest_size 0"

text \<open>The context is its digest, an array of 48 bytes.\<close>

type_synonym gctx = bytes

definition new_gctx :: gctx where "new_gctx = replicate launch_digest_size 0"
definition new_gctx_with_seed :: "bytes \<Rightarrow> gctx" where "new_gctx_with_seed seed = seed"
definition gctx_launch_digest :: "gctx \<Rightarrow> bytes" where "gctx_launch_digest g = g"

text \<open>The PAGE_INFO structure that one page adds to the digest.\<close>

definition page_info :: "bytes \<Rightarrow> byte \<Rightarrow> 64 word \<Rightarrow> bytes \<Rightarrow> bytes" where
  "page_info ld page_type gpa contents =
     (let info = replicate page_info_len 0;
          info = copy_at 0 ld info;
          info = copy_at launch_digest_size contents info;
          info = put_le 2 (launch_digest_size * 2) (of_nat page_info_len :: 16 word) info;
          info = info[launch_digest_size * 2 + 2 := page_type];
          info = info[launch_digest_size * 2 + 3 := 0];
          info = info[launch_digest_size * 2 + 4 := 0];
          info = info[launch_digest_size * 2 + 5 := 0];
          info = info[launch_digest_size * 2 + 6 := 0];
          info = info[launch_digest_size * 2 + 7 := 0]
      in put_le 8 (launch_digest_size * 2 + 8) gpa info)"

definition gctx_update :: "(bytes \<Rightarrow> bytes) \<Rightarrow> byte \<Rightarrow> 64 word \<Rightarrow> bytes \<Rightarrow> gctx \<Rightarrow> gctx" where
  "gctx_update sha384 page_type gpa contents ld = sha384 (page_info ld page_type gpa contents)"

text \<open>The offsets \<open>0, pageSize, \<dots>\<close> below a length.\<close>

definition page_offsets :: "nat \<Rightarrow> nat list" where
  "page_offsets n = map (\<lambda>i. i * page_size) [0..<(n + page_size - 1) div page_size]"

text \<open>The data is whole pages: the callers measure firmware of a checked size and one page.\<close>

definition update_normal_pages :: "(bytes \<Rightarrow> bytes) \<Rightarrow> 64 word \<Rightarrow> bytes \<Rightarrow> gctx \<Rightarrow> gctx" where
  "update_normal_pages sha384 start data g =
     foldl (\<lambda>g off. gctx_update sha384 page_type_normal (start + of_nat off) (sha384 (take page_size (drop off data))) g)
       g (page_offsets (length data))"

definition update_vmsa_page :: "(bytes \<Rightarrow> bytes) \<Rightarrow> bytes \<Rightarrow> gctx \<Rightarrow> gctx" where
  "update_vmsa_page sha384 data g = gctx_update sha384 page_type_vmsa vmsa_gpa (sha384 data) g"

definition update_blank_pages :: "byte \<Rightarrow> (bytes \<Rightarrow> bytes) \<Rightarrow> 64 word \<Rightarrow> nat \<Rightarrow> gctx \<Rightarrow> gctx" where
  "update_blank_pages page_type sha384 gpa len g =
     foldl (\<lambda>g off. gctx_update sha384 page_type (gpa + of_nat off) zeros g) g (page_offsets len)"

definition update_zero_pages :: "(bytes \<Rightarrow> bytes) \<Rightarrow> 64 word \<Rightarrow> nat \<Rightarrow> gctx \<Rightarrow> gctx" where
  "update_zero_pages = update_blank_pages page_type_zero"
definition update_unmeasured_pages :: "(bytes \<Rightarrow> bytes) \<Rightarrow> 64 word \<Rightarrow> nat \<Rightarrow> gctx \<Rightarrow> gctx" where
  "update_unmeasured_pages = update_blank_pages page_type_unmeasured"
definition update_secrets_page :: "(bytes \<Rightarrow> bytes) \<Rightarrow> 64 word \<Rightarrow> gctx \<Rightarrow> gctx" where
  "update_secrets_page sha384 gpa g = gctx_update sha384 page_type_secrets gpa zeros g"
definition update_cpuid_page :: "(bytes \<Rightarrow> bytes) \<Rightarrow> 64 word \<Rightarrow> gctx \<Rightarrow> gctx" where
  "update_cpuid_page sha384 gpa g = gctx_update sha384 page_type_cpuid gpa zeros g"

section \<open>VMSA pages\<close>

definition vmcb_seg :: "nat \<Rightarrow> 16 word \<Rightarrow> 16 word \<Rightarrow> 32 word \<Rightarrow> 64 word \<Rightarrow> bytes \<Rightarrow> bytes" where
  "vmcb_seg off selector attrib limit base buf =
     put_le 8 (off + 8) base (put_le 4 (off + 4) limit (put_le 2 (off + 2) attrib (put_le 2 off selector buf)))"

definition build_vmsa_save_area :: "32 word \<Rightarrow> 64 word \<Rightarrow> 32 word \<Rightarrow> bytes" where
  "build_vmsa_save_area eip sev_features vcpu_sig =
     (let b = replicate 4096 0;
          cs_flags = 0x9b; ss_flags = 0x93; tr_flags = 0x8b;
          rdx = ucast vcpu_sig :: 64 word;
          b = vmcb_seg 0x000 0 0x93 0xffff 0 b;
          b = vmcb_seg 0x010 0xf000 cs_flags 0xffff (ucast eip AND 0xffff0000) b;
          b = vmcb_seg 0x020 0 ss_flags 0xffff 0 b;
          b = vmcb_seg 0x030 0 0x93 0xffff 0 b;
          b = vmcb_seg 0x040 0 0x93 0xffff 0 b;
          b = vmcb_seg 0x050 0 0x93 0xffff 0 b;
          b = vmcb_seg 0x060 0 0 0xffff 0 b;
          b = vmcb_seg 0x070 0 0x82 0xffff 0 b;
          b = vmcb_seg 0x080 0 0 0xffff 0 b;
          b = vmcb_seg 0x090 0 tr_flags 0xffff 0 b;
          b = put_le 8 0x0d0 (0x1000 :: 64 word) b;
          b = put_le 8 0x148 (0x40 :: 64 word) b;
          b = put_le 8 0x150 (0 :: 64 word) b;
          b = put_le 8 0x158 (0x10 :: 64 word) b;
          b = put_le 8 0x160 (0x400 :: 64 word) b;
          b = put_le 8 0x168 (0xffff0ff0 :: 64 word) b;
          b = put_le 8 0x170 (0x2 :: 64 word) b;
          b = put_le 8 0x178 (ucast eip AND 0xffff :: 64 word) b;
          b = put_le 8 0x268 (0x7040600070406 :: 64 word) b;
          b = put_le 8 0x310 rdx b;
          b = put_le 8 0x3b0 sev_features b;
          b = put_le 8 0x3e8 (0x1 :: 64 word) b;
          b = put_le 4 0x408 (0x1f80 :: 32 word) b
      in put_le 2 0x410 (0x37f :: 16 word) b)"

definition bsp_eip :: "32 word" where "bsp_eip = 0xfffffff0"

definition vmsa_pages :: "nat \<Rightarrow> 32 word \<Rightarrow> 64 word \<Rightarrow> 32 word \<Rightarrow> bytes list" where
  "vmsa_pages vcpus ap_eip sev_features vcpu_sig =
     (let bsp = build_vmsa_save_area bsp_eip sev_features vcpu_sig;
          ap = build_vmsa_save_area ap_eip sev_features vcpu_sig
      in map (\<lambda>i. if i = 0 then bsp else ap) [0..<vcpus])"

section \<open>CPU signatures\<close>

definition cpu_sig_of :: "int \<Rightarrow> int \<Rightarrow> int \<Rightarrow> 32 word" where
  "cpu_sig_of family model stepping =
     (let (family_low, family_high) =
            (if family > 0xf then (0xf, of_int (family - 0x0f) AND 0xff) else (of_int family, 0));
          model_low = of_int model AND 0xf;
          model_high = drop_bit 4 (of_int model) AND 0xf;
          stepping_low = of_int stepping AND 0xf
      in (push_bit 20 family_high OR push_bit 16 model_high OR push_bit 8 family_low
            OR push_bit 4 model_low OR stepping_low))"

definition cpu_sigs :: "(string \<times> 32 word) list" where
  "cpu_sigs = [
     (''EPYC'', cpu_sig_of 23 1 2), (''EPYC-v1'', cpu_sig_of 23 1 2), (''EPYC-v2'', cpu_sig_of 23 1 2),
     (''EPYC-IBPB'', cpu_sig_of 23 1 2), (''EPYC-v3'', cpu_sig_of 23 1 2), (''EPYC-v4'', cpu_sig_of 23 1 2),
     (''EPYC-Rome'', cpu_sig_of 23 49 0), (''EPYC-Rome-v1'', cpu_sig_of 23 49 0),
     (''EPYC-Rome-v2'', cpu_sig_of 23 49 0), (''EPYC-Rome-v3'', cpu_sig_of 23 49 0),
     (''EPYC-Milan'', cpu_sig_of 25 1 1), (''EPYC-Milan-v1'', cpu_sig_of 25 1 1),
     (''EPYC-Milan-v2'', cpu_sig_of 25 1 1), (''EPYC-Genoa'', cpu_sig_of 25 17 0),
     (''EPYC-Genoa-v1'', cpu_sig_of 25 17 0)]"

definition lookup_cpu_sig :: "string \<Rightarrow> 32 word result" where
  "lookup_cpu_sig t = (case map_of cpu_sigs t of
     None \<Rightarrow> Inl (Msg (''unknown CPU type '' @ quoted t)) | Some s \<Rightarrow> Inr s)"

definition cpu_sig_for_product :: "string \<Rightarrow> 32 word result" where
  "cpu_sig_for_product p =
     (if p = ''Milan'' then lookup_cpu_sig ''EPYC-Milan''
      else if p = ''Genoa'' then lookup_cpu_sig ''EPYC-Genoa''
      else Inl (Msg (''unknown SNP product name '' @ quoted p)))"

section \<open>Extending a launch digest\<close>

definition extend_snp_launch_digest ::
  "(bytes \<Rightarrow> bytes) \<Rightarrow> bytes \<Rightarrow> int \<Rightarrow> 32 word \<Rightarrow> 32 word \<Rightarrow> bytes result" where
  "extend_snp_launch_digest sha384 seed target ap_eip vcpu_sig =
     (if target < 1 \<or> target > 65535 then Inl (Msg ''invalid target vCPU count'')
      else if target = 1 then Inr seed
      else let ap = build_vmsa_save_area ap_eip 0x1 vcpu_sig
           in Inr (gctx_launch_digest (((update_vmsa_page sha384 ap) ^^ nat (target - 1)) (new_gctx_with_seed seed))))"

section \<open>Kernel hashes\<close>

definition sev_hash_table_header_guid :: string where
  "sev_hash_table_header_guid = ''9438d606-4f22-4cc9-b479-a793d411fd21''"
definition sev_kernel_entry_guid :: string where
  "sev_kernel_entry_guid = ''4de79437-abd2-427f-b835-d5b172d2045b''"
definition sev_initrd_entry_guid :: string where
  "sev_initrd_entry_guid = ''44baf731-3a2f-4bd7-9af1-41e29169781d''"
definition sev_cmdline_entry_guid :: string where
  "sev_cmdline_entry_guid = ''97d02dd8-bd20-4c94-aa78-e7714d36ab2a''"

text \<open>
  The code ignores the error of the hexadecimal decoder and indexes the result; the GUIDs it is
  called with are the constants above.
\<close>

definition guid_bytes_le :: "string \<Rightarrow> bytes" where
  "guid_bytes_le s =
     (case hex_decode (filter (\<lambda>c. c \<noteq> CHR ''-'') s) of
        Inl _ \<Rightarrow> []
      | Inr b \<Rightarrow> [b ! 3, b ! 2, b ! 1, b ! 0, b ! 5, b ! 4, b ! 7, b ! 6] @ drop 8 b)"

record sev_hashes =
  kernel_hash :: bytes
  initrd_hash :: bytes
  cmdline_hash :: bytes

text \<open>\<open>read_file\<close> is \<open>os.ReadFile\<close>.\<close>

definition new_sev_hashes ::
  "(bytes \<Rightarrow> bytes) \<Rightarrow> (string \<Rightarrow> bytes result) \<Rightarrow> string \<Rightarrow> string \<Rightarrow> string \<Rightarrow> sev_hashes result" where
  "new_sev_hashes sha256 read_file kernel_path initrd_path cmd =
     (case read_file kernel_path of
        Inl e \<Rightarrow> Inl e
      | Inr kernel_data \<Rightarrow>
     (case (if initrd_path \<noteq> '''' then read_file initrd_path else Inr []) of
        Inl e \<Rightarrow> Inl e
      | Inr initrd_data \<Rightarrow>
     (let cmdline = (if cmd \<noteq> '''' then bytes_of_string cmd @ [0] else [0])
      in Inr \<lparr>kernel_hash = sha256 kernel_data, initrd_hash = sha256 initrd_data, cmdline_hash = sha256 cmdline\<rparr>)))"

definition sev_hash_table_entry_size :: nat where "sev_hash_table_entry_size = 16 + 2 + 32"
definition sev_hash_table_size :: nat where "sev_hash_table_size = 16 + 2 + 3 * sev_hash_table_entry_size"
definition padded_sev_hash_table_size :: nat where
  "padded_sev_hash_table_size = (sev_hash_table_size + 15) div 16 * 16"

definition write_entry :: "nat \<Rightarrow> bytes \<Rightarrow> bytes \<Rightarrow> bytes \<Rightarrow> bytes" where
  "write_entry off guid hsh b =
     copy_at (off + 18) hsh (put_le 2 (off + 16) (of_nat sev_hash_table_entry_size :: 16 word) (copy_at off guid b))"

definition construct_table :: "sev_hashes \<Rightarrow> bytes" where
  "construct_table s =
     (let buf = replicate padded_sev_hash_table_size 0;
          buf = copy_at 0 (guid_bytes_le sev_hash_table_header_guid) buf;
          buf = put_le 2 16 (of_nat sev_hash_table_size :: 16 word) buf;
          buf = write_entry 18 (guid_bytes_le sev_cmdline_entry_guid) (cmdline_hash s) buf;
          buf = write_entry (18 + sev_hash_table_entry_size) (guid_bytes_le sev_initrd_entry_guid) (initrd_hash s) buf
      in write_entry (18 + 2 * sev_hash_table_entry_size) (guid_bytes_le sev_kernel_entry_guid) (kernel_hash s) buf)"

text \<open>The table is cut off at the end of the page; an offset beyond the page would panic.\<close>

definition construct_page :: "sev_hashes \<Rightarrow> 32 word \<Rightarrow> bytes" where
  "construct_page s off = copy_at (unat off) (construct_table s) (replicate 4096 0)"

end
