(* ===== verification/Ovmf.thy ===== *)
theory Ovmf
  imports Snpmeasure
begin

text \<open>
  The OVMF firmware image, \<open>internal/snp/ovmf.go\<close>: the table of GUID entries at its end, read
  from back to front, and the SEV metadata sections; and the launch measurement of a guest over
  it, \<open>internal/snp/guest.go\<close>. Reading files is a parameter.
\<close>

section \<open>The image\<close>

definition four_gb :: "64 word" where "four_gb = 0x100000000"

definition section_snp_sec_mem :: "32 word" where "section_snp_sec_mem = 1"
definition section_snp_secrets :: "32 word" where "section_snp_secrets = 2"
definition section_cpuid :: "32 word" where "section_cpuid = 3"
definition section_svsm_caa :: "32 word" where "section_svsm_caa = 4"
definition section_snp_kernel_hash :: "32 word" where "section_snp_kernel_hash = 0x10"

record metadata_section =
  ms_gpa :: "32 word"
  ms_size :: "32 word"
  ms_type :: "32 word"

record ovmf =
  ov_data :: bytes
  ov_gpa :: "64 word"
  ov_table :: "string \<Rightarrow> bytes option"
  ov_items :: "metadata_section list"

definition ovmf_table_footer_guid :: string where
  "ovmf_table_footer_guid = ''96b582de-1fb2-45f7-baea-a366c55a082d''"
definition sev_hash_table_rv_guid :: string where
  "sev_hash_table_rv_guid = ''7255371f-3a3b-4b04-927b-1da6efa8d454''"
definition sev_es_reset_block_guid :: string where
  "sev_es_reset_block_guid = ''00f771de-1a7e-4fcb-890e-68c77e2fb44e''"
definition ovmf_sev_metadata_guid :: string where
  "ovmf_sev_metadata_guid = ''dc886566-984a-4798-a75e-5585a7bf67cc''"

definition has_metadata_section :: "ovmf \<Rightarrow> 32 word \<Rightarrow> bool" where
  "has_metadata_section o' t \<longleftrightarrow> list_ex (\<lambda>s. ms_type s = t) (ov_items o')"

definition table_address :: "string \<Rightarrow> ovmf \<Rightarrow> string \<Rightarrow> 32 word result" where
  "table_address name o' guid =
     (case ov_table o' guid of
        None \<Rightarrow> Inl (Msg (name @ '' not found in OVMF table''))
      | Some entry \<Rightarrow>
          (if length entry < 4 then Inl (Msg (name @ '' entry too short''))
           else Inr (of_nat (get_le 4 0 entry))))"

definition sev_hashes_table_gpa :: "ovmf \<Rightarrow> 32 word result" where
  "sev_hashes_table_gpa o' = table_address ''SEV_HASH_TABLE_RV_GUID'' o' sev_hash_table_rv_guid"

definition is_sev_hashes_table_supported :: "ovmf \<Rightarrow> bool" where
  "is_sev_hashes_table_supported o' \<longleftrightarrow>
     (case sev_hashes_table_gpa o' of Inl _ \<Rightarrow> False | Inr gpa \<Rightarrow> gpa \<noteq> 0)"

definition sev_es_reset_eip :: "ovmf \<Rightarrow> 32 word result" where
  "sev_es_reset_eip o' = table_address ''SEV_ES_RESET_BLOCK_GUID'' o' sev_es_reset_block_guid"

section \<open>GUIDs\<close>

definition guid_string :: "bytes \<Rightarrow> string" where
  "guid_string b =
     (if length b < 16 then ''''
      else hex_encode (rev (take 4 b)) @ ''-'' @ hex_encode (rev (take 2 (drop 4 b))) @ ''-''
        @ hex_encode (rev (take 2 (drop 6 b))) @ ''-'' @ hex_encode (take 2 (drop 8 b)) @ ''-''
        @ hex_encode (take 6 (drop 10 b)))"

section \<open>The footer table\<close>

definition entry_header_size :: nat where "entry_header_size = 18"

text \<open>The loop from the back of the table; every entry is at least its header long.\<close>

function footer_entries :: "bytes \<Rightarrow> (string \<Rightarrow> bytes option) \<Rightarrow> (string \<Rightarrow> bytes option) result" where
  "footer_entries tb table =
     (let len = length tb in
      if len < entry_header_size then Inr table
      else
     (let tail = drop (len - entry_header_size) tb; entry_size = get_le 2 0 tail in
      if entry_size < entry_header_size then Inl (Msg ''invalid OVMF footer table entry size'')
      else if len < entry_size then Inl (Msg ''OVMF footer table entry extends past table start'')
      else footer_entries (take (len - entry_size) tb)
             (table(guid_string (take 16 (drop 2 tail))
                \<mapsto> take (entry_size - entry_header_size) (drop (len - entry_size) tb)))))"
  by pat_completeness auto
termination
  by (relation "measure (length \<circ> fst)") (auto simp: entry_header_size_def Let_def)

declare footer_entries.simps [simp del]

text \<open>The slice of the table panics when the footer claims more bytes than precede it.\<close>

definition parse_footer_table :: "bytes \<Rightarrow> (string \<Rightarrow> bytes option) result" where
  "parse_footer_table data =
     (if length data < 32 + entry_header_size then Inr (\<lambda>_. None)
      else
     (let start = length data - 32 - entry_header_size; footer = drop start data;
          footer_size = get_le 2 0 footer in
      if guid_string (take 16 (drop 2 footer)) \<noteq> ovmf_table_footer_guid then Inr (\<lambda>_. None)
      else if footer_size < entry_header_size then Inr (\<lambda>_. None)
      else
     (let table_size = footer_size - entry_header_size in
      if start < table_size then Inl (Panic ''slice bounds out of range'')
      else footer_entries (take table_size (drop (start - table_size) data)) (\<lambda>_. None))))"

section \<open>SEV metadata\<close>

fun metadata_items_from :: "nat \<Rightarrow> nat \<Rightarrow> bytes \<Rightarrow> metadata_section list result" where
  "metadata_items_from i 0 items = Inr []"
| "metadata_items_from i (Suc n) items =
     (let off = i * 12 in
      if length items < off + 12 then Inl (Msg (''SEV metadata item '' @ dec_string i @ '' out of range''))
      else
     (case metadata_items_from (Suc i) n items of
        Inl e \<Rightarrow> Inl e
      | Inr ms \<Rightarrow> Inr (\<lparr>ms_gpa = of_nat (get_le 4 off items), ms_size = of_nat (get_le 4 (off + 4) items),
          ms_type = of_nat (get_le 4 (off + 8) items)\<rparr> # ms)))"

definition parse_sev_metadata :: "bytes \<Rightarrow> (string \<Rightarrow> bytes option) \<Rightarrow> metadata_section list result" where
  "parse_sev_metadata data table =
     (case table ovmf_sev_metadata_guid of
        None \<Rightarrow> Inr []
      | Some entry \<Rightarrow>
     (if length entry < 4 then Inl (Msg ''OVMF_SEV_META_DATA_GUID entry too short'')
      else
     (let offset = get_le 4 0 entry in
      if length data < offset \<or> length data - offset + 16 > length data
      then Inl (Msg ''SEV metadata header out of range'')
      else
     (let start = length data - offset in
      if take 4 (drop start data) \<noteq> bytes_of_string ''ASEV'' then Inl (Msg ''wrong SEV metadata signature'')
      else
     (let md_size = get_le 4 (start + 4) data; version = get_le 4 (start + 8) data;
          num_items = get_le 4 (start + 12) data in
      if version \<noteq> 1 then Inl (Msg ''wrong SEV metadata version'')
      else
     (let items_start = start + 16; items_end = start + md_size in
      if items_end > length data \<or> items_end < items_start then Inl (Msg ''SEV metadata items out of range'')
      else metadata_items_from 0 num_items (take (items_end - items_start) (drop items_start data))))))))"

definition new_ovmf :: "(string \<Rightarrow> bytes result) \<Rightarrow> string \<Rightarrow> 64 word \<Rightarrow> ovmf result" where
  "new_ovmf read_file filename end_at =
     (case read_file filename of
        Inl e \<Rightarrow> Inl (Wrap ''reading OVMF file'' e)
      | Inr data \<Rightarrow>
     (case parse_footer_table data of
        Inl e \<Rightarrow> Inl e
      | Inr table \<Rightarrow>
     (case parse_sev_metadata data table of
        Inl e \<Rightarrow> Inl e
      | Inr items \<Rightarrow> Inr \<lparr>ov_data = data, ov_gpa = end_at - of_nat (length data), ov_table = table,
          ov_items = items\<rparr>)))"

section \<open>Measuring a guest\<close>

definition update_section ::
  "(bytes \<Rightarrow> bytes) \<Rightarrow> ovmf \<Rightarrow> sev_hashes option \<Rightarrow> metadata_section \<Rightarrow> gctx \<Rightarrow> gctx result" where
  "update_section sha384 o' hashes desc g =
     (let gpa = ucast (ms_gpa desc) :: 64 word; size = unat (ms_size desc) in
      if ms_type desc = section_snp_sec_mem then Inr (update_zero_pages sha384 gpa size g)
      else if ms_type desc = section_snp_secrets then Inr (update_secrets_page sha384 gpa g)
      else if ms_type desc = section_cpuid then Inr (update_cpuid_page sha384 gpa g)
      else if ms_type desc = section_snp_kernel_hash then
        (case hashes of
           None \<Rightarrow> Inr (update_zero_pages sha384 gpa size g)
         | Some h \<Rightarrow>
             (case sev_hashes_table_gpa o' of
                Inl e \<Rightarrow> Inl (Wrap ''getting SEV hashes table GPA'' e)
              | Inr hash_gpa \<Rightarrow>
                  (let page = construct_page h (hash_gpa AND 0xfff) in
                   if size \<noteq> 4096 then Inl (Msg ''SNP_KERNEL_HASHES section size != 4096'')
                   else Inr (update_normal_pages sha384 gpa page g))))
      else if ms_type desc = section_svsm_caa then Inr (update_zero_pages sha384 gpa size g)
      else Inl (Msg ''unknown OVMF metadata section type''))"

fun update_sections ::
  "(bytes \<Rightarrow> bytes) \<Rightarrow> ovmf \<Rightarrow> sev_hashes option \<Rightarrow> metadata_section list \<Rightarrow> gctx \<Rightarrow> gctx result" where
  "update_sections sha384 o' hashes [] g = Inr g"
| "update_sections sha384 o' hashes (d # ds) g =
     (case update_section sha384 o' hashes d g of
        Inl e \<Rightarrow> Inl e | Inr g' \<Rightarrow> update_sections sha384 o' hashes ds g')"

definition update_metadata_pages ::
  "(bytes \<Rightarrow> bytes) \<Rightarrow> ovmf \<Rightarrow> sev_hashes option \<Rightarrow> gctx \<Rightarrow> gctx result" where
  "update_metadata_pages sha384 o' hashes g =
     (case update_sections sha384 o' hashes (ov_items o') g of
        Inl e \<Rightarrow> Inl e
      | Inr g' \<Rightarrow>
          (if hashes \<noteq> None \<and> \<not> has_metadata_section o' section_snp_kernel_hash
           then Inl (Msg ''kernel specified but OVMF metadata doesn't include SNP_KERNEL_HASHES section'')
           else Inr g'))"

definition calc_snp_launch_digest ::
  "(bytes \<Rightarrow> bytes) \<Rightarrow> (bytes \<Rightarrow> bytes) \<Rightarrow> (string \<Rightarrow> bytes result) \<Rightarrow> string \<Rightarrow> nat \<Rightarrow> 32 word
   \<Rightarrow> string \<Rightarrow> string \<Rightarrow> string \<Rightarrow> 64 word \<Rightarrow> bytes result" where
  "calc_snp_launch_digest sha384 sha256 read_file ovmf_path vcpus vcpu_sig kernel_path initrd_path cmd features =
     (case new_ovmf read_file ovmf_path four_gb of
        Inl e \<Rightarrow> Inl (Wrap ''parsing OVMF'' e)
      | Inr o' \<Rightarrow>
     (if length (ov_data o') mod page_size \<noteq> 0 then Inl (Msg ''OVMF size is not page-aligned'')
      else
     (let g1 = update_normal_pages sha384 (ov_gpa o') (ov_data o') new_gctx in
      case (if kernel_path \<noteq> '''' then
              (case new_sev_hashes sha256 read_file kernel_path initrd_path cmd of
                 Inl e \<Rightarrow> Inl (Wrap ''computing kernel hashes'' e) | Inr h \<Rightarrow> Inr (Some h))
            else Inr None) of
        Inl e \<Rightarrow> Inl e
      | Inr hashes \<Rightarrow>
     (case update_metadata_pages sha384 o' hashes g1 of
        Inl e \<Rightarrow> Inl e
      | Inr g2 \<Rightarrow>
     (case sev_es_reset_eip o' of
        Inl e \<Rightarrow> Inl (Wrap ''reading OVMF reset EIP'' e)
      | Inr ap_eip \<Rightarrow>
          Inr (gctx_launch_digest (foldl (\<lambda>g p. update_vmsa_page sha384 p g) g2
                 (vmsa_pages vcpus ap_eip features vcpu_sig))))))))"

end
