(* ===== verification/SnpmeasureFacts.thy ===== *)
theory SnpmeasureFacts
  imports Ovmf
begin

text \<open>
  Facts about the SEV-SNP measurement: the sizes of all layouts and the fields of a VMSA page
  read back, the PAGE_INFO structure determines what was measured, GUIDs and the footer table
  parse back, and extending the digest of one virtual CPU is measuring the larger guest.
\<close>

section \<open>Layouts\<close>

lemma length_vmcb_seg [simp]: "length (vmcb_seg off s a l b buf) = length buf"
  by (simp add: vmcb_seg_def)

lemma length_build_vmsa [simp]: "length (build_vmsa_save_area eip f v) = 4096"
  by (simp add: build_vmsa_save_area_def Let_def)

lemma length_page_info [simp]: "length (page_info ld t gpa c) = 0x70"
  by (simp add: page_info_def page_info_len_def Let_def)

lemma get_put_le_span:
  assumes "off \<le> k" and "k + n \<le> off + d" and "off + d \<le> length buf" and "a + m \<le> off \<or> off + d \<le> a"
  shows "get_le m a (put_le n k x buf) = get_le m a buf"
  using assms by (intro get_put_le_other) auto

lemma get_vmcb_seg_other:
  assumes "off + 16 \<le> length buf" and "a + m \<le> off \<or> off + 16 \<le> a"
  shows "get_le m a (vmcb_seg off s at l b buf) = get_le m a buf"
  using assms by (simp add: vmcb_seg_def get_put_le_span [of off _ _ 16])

lemma get_vmcb_seg_base:
  "off + 16 \<le> length buf \<Longrightarrow> get_le 8 (off + 8) (vmcb_seg off s at l b buf) = unat b"
  using unsigned_less [of b, where ?'a = nat] by (simp add: vmcb_seg_def get_put_le)

text \<open>The reset vector, the CPU signature and the features of a virtual CPU, where firmware reads them.\<close>

lemma vmsa_fields:
  "get_le 8 0x178 (build_vmsa_save_area eip f v) = unat eip mod 2 ^ 16"
  "get_le 8 0x018 (build_vmsa_save_area eip f v) = unat eip div 2 ^ 16 * 2 ^ 16"
  "get_le 8 0x310 (build_vmsa_save_area eip f v) = unat v"
  "get_le 8 0x3b0 (build_vmsa_save_area eip f v) = unat f"
proof -
  have lo: "unat (ucast eip AND 0xffff :: 64 word) = unat eip mod 2 ^ 16"
  proof -
    have "(ucast eip AND 0xffff :: 64 word) = take_bit 16 (ucast eip)"
      by (simp add: take_bit_eq_mask mask_eq_exp_minus_1)
    then show ?thesis by (simp only: unsigned_take_bit_eq unsigned_ucast_eq) (simp add: take_bit_eq_mod mod_mod_cancel)
  qed
  have "(0xffff0000 :: 64 word) = mask 32 AND NOT (mask 16)" by code_simp
  then have "(ucast eip AND 0xffff0000 :: 64 word) = take_bit 32 (ucast eip) AND NOT (mask 16)"
    by (simp add: take_bit_eq_mask and.assoc)
  also have "take_bit 32 (ucast eip :: 64 word) = ucast eip"
    by (rule bit_word_eqI) (auto simp: bit_simps dest: bit_imp_le_length)
  also have "ucast eip AND NOT (mask 16) = (push_bit 16 (drop_bit 16 (ucast eip)) :: 64 word)"
    by (rule bit_word_eqI) (auto simp: bit_simps)
  finally have "(ucast eip AND 0xffff0000 :: 64 word) = push_bit 16 (drop_bit 16 (ucast eip))" .
  moreover have "unat eip div 2 ^ 16 * 2 ^ 16 < 2 ^ 64"
    using unsigned_less [of eip, where ?'a = nat] by (simp add: le_less_trans [OF div_times_less_eq_dividend])
  moreover have small: "unat x mod 2 ^ 64 = unat x" for x :: "32 word"
    using unsigned_less [of x, where ?'a = nat] by simp
  have shift: "unat (push_bit 16 (drop_bit 16 (ucast eip)) :: 64 word) = unat eip div 2 ^ 16 * 2 ^ 16 mod 2 ^ 64"
    by (simp only: unsigned_push_bit_eq unsigned_drop_bit_eq unsigned_ucast_eq)
      (use small [of eip] in \<open>simp add: push_bit_eq_mult drop_bit_eq_div take_bit_eq_mod\<close>)
  ultimately have hi: "unat (ucast eip AND 0xffff0000 :: 64 word) = unat eip div 2 ^ 16 * 2 ^ 16"
    by (simp only: shift mod_less)
  have w: "unat (ucast x :: 64 word) = unat x" for x :: "32 word"
    using small [of x] by (simp add: unsigned_ucast_eq take_bit_eq_mod)
  have f64: "unat f mod 256 ^ 8 = unat f" and v64: "unat v mod 256 ^ 8 = unat v"
    and m64: "unat eip mod 2 ^ 16 mod 256 ^ 8 = unat eip mod 2 ^ 16"
    using unsigned_less [of f, where ?'a = nat] unsigned_less [of v, where ?'a = nat] by simp_all
  show "get_le 8 0x178 (build_vmsa_save_area eip f v) = unat eip mod 2 ^ 16"
    unfolding build_vmsa_save_area_def Let_def by (simp add: get_put_le get_put_le_other lo m64 [simplified])
  show "get_le 8 0x018 (build_vmsa_save_area eip f v) = unat eip div 2 ^ 16 * 2 ^ 16"
    using get_vmcb_seg_base [of 16] unfolding build_vmsa_save_area_def Let_def
    by (simp add: get_put_le_other get_vmcb_seg_other hi)
  show "get_le 8 0x310 (build_vmsa_save_area eip f v) = unat v"
    unfolding build_vmsa_save_area_def Let_def by (simp add: get_put_le get_put_le_other w v64 [simplified])
  show "get_le 8 0x3b0 (build_vmsa_save_area eip f v) = unat f"
    unfolding build_vmsa_save_area_def Let_def by (simp add: get_put_le get_put_le_other f64 [simplified])
qed

section \<open>Extending a digest\<close>

lemma vmsa_pages_Suc:
  "vmsa_pages (Suc n) ap f v
     = build_vmsa_save_area bsp_eip f v # replicate n (build_vmsa_save_area ap f v)"
proof -
  have "map (\<lambda>i. if i = 0 then b else a) [0..<Suc n] = b # replicate n a" for a b :: bytes
  proof -
    have "map (\<lambda>i. if i = 0 then b else a) [Suc 0..<Suc n] = map (\<lambda>_. a) [Suc 0..<Suc n]" by (rule map_cong) auto
    then show ?thesis by (simp only: upt_conv_Cons zero_less_Suc list.map map_replicate_const length_upt) simp
  qed
  then show ?thesis by (simp only: vmsa_pages_def Let_def)
qed

lemma foldl_replicate: "foldl (\<lambda>g p. f p g) g (replicate n x) = (f x ^^ n) g"
proof (induction n arbitrary: g)
  case (Suc n)
  then show ?case by (simp only: replicate_Suc foldl_Cons funpow_Suc_right comp_apply)
qed simp

lemma calc_extends:
  assumes one: "calc_snp_launch_digest H H' rf path 1 v k i c 1 = Inr seed"
    and ovmf: "new_ovmf rf path four_gb = Inr o'" and eip: "sev_es_reset_eip o' = Inr ap"
    and n: "1 \<le> n" "n \<le> 65535"
  shows "calc_snp_launch_digest H H' rf path n v k i c 1 = extend_snp_launch_digest H seed (int n) ap v"
proof -
  define pages where "pages = build_vmsa_save_area ap 1 v"
  obtain g2 where g2: "\<And>m. calc_snp_launch_digest H H' rf path m v k i c 1
      = Inr (foldl (\<lambda>g p. update_vmsa_page H p g) g2 (vmsa_pages m ap 1 v))"
    using one ovmf eip
    by (auto simp: calc_snp_launch_digest_def gctx_launch_digest_def Let_def split: sum.splits if_splits)
  have seed: "seed = update_vmsa_page H (build_vmsa_save_area bsp_eip 1 v) g2"
    using one g2 [of 1] vmsa_pages_Suc [of 0] by simp
  obtain m where m: "n = Suc m" using n by (cases n) auto
  have "calc_snp_launch_digest H H' rf path n v k i c 1 = Inr ((update_vmsa_page H pages ^^ m) seed)"
    by (simp add: g2 m vmsa_pages_Suc foldl_replicate seed pages_def del: funpow.simps)
  moreover have "extend_snp_launch_digest H seed (int n) ap v = Inr ((update_vmsa_page H pages ^^ m) seed)"
  proof -
    have "nat (int n - 1) = m" and "int n = 1 \<longleftrightarrow> m = 0" using m by auto
    then show ?thesis using n
      by (simp add: extend_snp_launch_digest_def gctx_launch_digest_def new_gctx_with_seed_def Let_def pages_def)
  qed
  ultimately show ?thesis by simp
qed

section \<open>What a page adds to the digest\<close>

text \<open>PAGE_INFO determines the digest so far, the page's type, its address and its contents.\<close>

lemma copy_at_mid:
  "length a = off \<Longrightarrow> length m = length src \<Longrightarrow> copy_at off src (a @ m @ z) = a @ src @ z"
  by (simp add: copy_at_inside)

lemma page_info_parts:
  assumes "length ld = 48" and "length c = 48"
  shows "page_info ld t gpa c = ld @ c @ le_bytes 2 (0x70 :: 16 word) @ [t, 0, 0, 0, 0, 0] @ le_bytes 8 gpa"
proof -
  define z :: "nat \<Rightarrow> bytes" where "z n = replicate n 0" for n
  have len: "length (z n) = n" for n by (simp add: z_def)
  have split: "z 0x70 = z 48 @ z 48 @ z 2 @ [0, 0, 0, 0, 0, 0] @ z 8"
    by (simp add: z_def flip: replicate_add) (simp add: numeral_eq_Suc)
  define sz where "sz = le_bytes 2 (0x70 :: 16 word)"
  have sz: "length sz = 2" by (simp add: sz_def)
  have "copy_at 0 ld (z 0x70) = ld @ z 48 @ z 2 @ [0, 0, 0, 0, 0, 0] @ z 8"
    using copy_at_mid [of "[]" 0 "z 48" ld] assms len split by simp
  then have "copy_at 48 c (copy_at 0 ld (z 0x70)) = ld @ c @ z 2 @ [0, 0, 0, 0, 0, 0] @ z 8"
    using copy_at_mid [of ld 48 "z 48" c] assms len by simp
  then have "put_le 2 96 (0x70 :: 16 word) (copy_at 48 c (copy_at 0 ld (z 0x70))) = (ld @ c) @ sz @ [0, 0, 0, 0, 0, 0] @ z 8"
    using copy_at_mid [of "ld @ c" 96 "z 2" sz] assms len sz by (simp add: put_le_def sz_def)
  moreover have "((ld @ c) @ sz @ [0, 0, 0, 0, 0, 0] @ z 8)[98 := t, 99 := 0, 100 := 0, 101 := 0, 102 := 0, 103 := 0]
      = (ld @ c @ sz @ [t, 0, 0, 0, 0, 0]) @ z 8"
    using assms sz by (simp add: list_update_append)
  moreover have "put_le 8 104 gpa ((ld @ c @ sz @ [t, 0, 0, 0, 0, 0]) @ z 8) = (ld @ c @ sz @ [t, 0, 0, 0, 0, 0]) @ le_bytes 8 gpa"
    using copy_at_mid [of "ld @ c @ sz @ [t, 0, 0, 0, 0, 0]" 104 "z 8" "le_bytes 8 gpa" "[]"] assms sz len
    by (simp add: put_le_def)
  ultimately show ?thesis
    by (simp add: page_info_def page_info_len_def launch_digest_size_def Let_def z_def sz_def)
qed

lemma le_bytes_inject:
  assumes "le_bytes 8 x = le_bytes 8 y"
  shows "x = (y :: 64 word)"
  using assms le_value_le_bytes [of 8 x] le_value_le_bytes [of 8 y]
    unsigned_less [of x, where ?'a = nat] unsigned_less [of y, where ?'a = nat]
  by (simp add: word_unat_eq_iff)

lemma page_info_inject:
  assumes "length ld = 48" "length c = 48" "length ld' = 48" "length c' = 48"
    and "page_info ld t gpa c = page_info ld' t' gpa' c'"
  shows "ld = ld' \<and> t = t' \<and> gpa = gpa' \<and> c = c'"
  using assms le_bytes_inject by (auto simp: page_info_parts)

section \<open>GUIDs\<close>

lemma hex_value_dash: "hex_value (CHR ''-'') = None"
  by code_simp

lemma hex_digit_not_dash: "n < 16 \<Longrightarrow> hex_digit n \<noteq> CHR ''-''"
  by (metis hex_value_digit hex_value_dash option.distinct(1))

lemma filter_hex_encode: "filter (\<lambda>c. c \<noteq> CHR ''-'') (hex_encode bs) = hex_encode bs"
proof (induction bs)
  case (Cons b bs)
  have "unat b div 16 < 16" "unat b mod 16 < 16"
    using unat_byte_lt [of b] by (simp_all add: less_mult_imp_div_less)
  with Cons show ?case by (simp add: hex_digit_not_dash)
qed simp

lemma hex_encode_append: "hex_encode a @ hex_encode b = hex_encode (a @ b)"
  by (induction a) simp_all

lemma guid_round_trip:
  assumes "length b = 16"
  shows "guid_bytes_le (guid_string b) = b"
proof -
  have eight: "xs = [xs ! 0, xs ! 1, xs ! 2, xs ! 3, xs ! 4, xs ! 5, xs ! 6, xs ! 7]" if "length xs = 8" for xs :: bytes
    using that by (auto simp: numeral_eq_Suc length_Suc_conv)
  define r where "r = drop 8 b"
  have r: "length r = 8" using assms by (simp add: r_def)
  obtain b0 b1 b2 b3 b4 b5 b6 b7 where t: "take 8 b = [b0, b1, b2, b3, b4, b5, b6, b7]"
    using eight [of "take 8 b"] assms by auto
  then have b: "b = [b0, b1, b2, b3, b4, b5, b6, b7] @ r"
    using append_take_drop_id [of 8 b] by (simp only: r_def)
  have "hex_encode (take 2 r) @ hex_encode (drop 2 r) = hex_encode r"
    by (simp only: hex_encode_append append_take_drop_id)
  then have join: "hex_encode [b3, b2, b1, b0] @ hex_encode [b5, b4] @ hex_encode [b7, b6]
      @ hex_encode (take 2 r) @ hex_encode (drop 2 r) = hex_encode ([b3, b2, b1, b0, b5, b4, b7, b6] @ r)"
    by simp
  have "filter (\<lambda>c. c \<noteq> CHR ''-'') (guid_string b) = hex_encode ([b3, b2, b1, b0, b5, b4, b7, b6] @ r)"
    unfolding join [symmetric] using r by (simp add: guid_string_def b filter_hex_encode del: hex_encode_simps)
  then show ?thesis by (simp add: guid_bytes_le_def b del: hex_encode_simps)
qed

section \<open>The footer table\<close>

text \<open>One entry as the firmware lays it out: its data, its length with the header, its GUID.\<close>

definition footer_entry :: "bytes \<times> bytes \<Rightarrow> bytes" where
  "footer_entry e = snd e @ le_bytes 2 (of_nat (length (snd e) + entry_header_size) :: 16 word) @ fst e"

definition footer_ok :: "bytes \<times> bytes \<Rightarrow> bool" where
  "footer_ok e \<longleftrightarrow> length (fst e) = 16 \<and> length (snd e) + entry_header_size < 2 ^ 16"

definition add_entry :: "bytes \<times> bytes \<Rightarrow> (string \<Rightarrow> bytes option) \<Rightarrow> string \<Rightarrow> bytes option" where
  "add_entry e t = t(guid_string (fst e) \<mapsto> snd e)"

lemma length_footer_entry: "footer_ok e \<Longrightarrow> length (footer_entry e) = length (snd e) + entry_header_size"
  by (simp add: footer_ok_def footer_entry_def entry_header_size_def)

lemma get_le_16:
  assumes "n < 2 ^ 16"
  shows "get_le 2 0 (le_bytes 2 (of_nat n :: 16 word) @ r) = n"
  using assms by (simp add: get_le_def le_value_le_bytes unat_of_nat take_bit_eq_mod)

lemma footer_entries_layout:
  assumes "\<forall>e\<in>set es. footer_ok e"
  shows "footer_entries (concat (map footer_entry es)) table
    = Inr (foldr add_entry es table)"
  using assms
proof (induction es arbitrary: table rule: rev_induct)
  case Nil
  show ?case by (subst footer_entries.simps) (simp add: entry_header_size_def)
next
  case (snoc e es)
  obtain g d where e: "e = (g, d)" by (cases e)
  define pre where "pre = concat (map footer_entry es)"
  define tb where "tb = pre @ footer_entry e"
  have ok: "length g = 16" "length d + 18 < 2 ^ 16" using snoc.prems by (auto simp: e footer_ok_def entry_header_size_def)
  have len: "length tb = length pre + length d + 18" using ok by (simp add: tb_def e footer_entry_def)
  have tail: "drop (length tb - 18) tb = le_bytes 2 (of_nat (length d + 18) :: 16 word) @ g"
    unfolding len by (simp add: tb_def e footer_entry_def entry_header_size_def)
  have size: "get_le 2 0 (drop (length tb - 18) tb) = length d + 18" unfolding tail by (rule get_le_16 [OF ok(2)])
  have g: "take 16 (drop 2 (drop (length tb - 18) tb)) = g" unfolding tail using ok by simp
  have rest: "take (length tb - (length d + 18)) tb = pre" unfolding len by (simp add: tb_def)
  have data: "take (length d + 18 - 18) (drop (length tb - (length d + 18)) tb) = d"
    unfolding len by (simp add: tb_def e footer_entry_def)
  have "footer_entries tb table = footer_entries pre (add_entry e table)"
    by (subst footer_entries.simps)
      (simp only: Let_def entry_header_size_def size g rest data, simp add: len add_entry_def e)
  with snoc show ?case by (simp add: tb_def pre_def)
qed

text \<open>
  An image with a table, as the firmware build lays it out: the entries, the footer whose size
  covers them and itself, and the last 32 bytes. The table is read back.
\<close>

definition footer_image :: "bytes \<Rightarrow> (bytes \<times> bytes) list \<Rightarrow> bytes \<Rightarrow> bytes" where
  "footer_image body es vector =
     body @ concat (map footer_entry es)
     @ le_bytes 2 (of_nat (length (concat (map footer_entry es)) + entry_header_size) :: 16 word)
     @ guid_bytes_le ovmf_table_footer_guid @ vector"

lemma footer_guid: "guid_string (guid_bytes_le ovmf_table_footer_guid) = ovmf_table_footer_guid"
  "length (guid_bytes_le ovmf_table_footer_guid) = 16"
  by code_simp+

lemma parse_footer_table_layout:
  assumes "\<forall>e\<in>set es. footer_ok e" and "length (concat (map footer_entry es)) + entry_header_size < 2 ^ 16"
    and "length vector = 32"
  shows "parse_footer_table (footer_image body es vector) = Inr (foldr add_entry es (\<lambda>_. None))"
proof -
  define tb where "tb = concat (map footer_entry es)"
  define n where "n = length tb + entry_header_size"
  define footer where "footer = le_bytes 2 (of_nat n :: 16 word) @ guid_bytes_le ovmf_table_footer_guid @ vector"
  have img: "footer_image body es vector = (body @ tb) @ footer"
    by (simp add: footer_image_def tb_def n_def footer_def)
  have lf: "length footer = 32 + entry_header_size"
    using assms(3) by (simp add: footer_def footer_guid entry_header_size_def)
  have start: "length ((body @ tb) @ footer) - 32 - entry_header_size = length (body @ tb)" using lf by simp
  have size: "get_le 2 0 footer = n"
    using get_le_16 [of n] assms(2) by (simp add: footer_def n_def tb_def)
  have guid: "guid_string (take 16 (drop 2 footer)) = ovmf_table_footer_guid"
    by (simp add: footer_def footer_guid)
  have "parse_footer_table ((body @ tb) @ footer) = footer_entries tb (\<lambda>_. None)"
    unfolding parse_footer_table_def Let_def start using lf size guid by (simp add: n_def)
  with footer_entries_layout [OF assms(1)] show ?thesis by (simp add: img tb_def)
qed

section \<open>A small image\<close>

text \<open>One page: the reset block's address, no SEV metadata.\<close>

definition reset_entry :: "bytes \<times> bytes" where
  "reset_entry = (guid_bytes_le sev_es_reset_block_guid, le_bytes 4 (0x80b004 :: 32 word))"

definition small_image :: bytes where
  "small_image = footer_image (replicate 4024 0) [reset_entry] (replicate 32 0)"

lemma reset_guid: "guid_string (guid_bytes_le sev_es_reset_block_guid) = sev_es_reset_block_guid"
  "length (guid_bytes_le sev_es_reset_block_guid) = 16"
  by code_simp+

lemma reset_entry_ok: "footer_ok reset_entry" "length (footer_entry reset_entry) = 22"
  by (simp_all add: footer_ok_def reset_entry_def reset_guid entry_header_size_def footer_entry_def)

lemma small_image_table:
  "parse_footer_table small_image = Inr ([sev_es_reset_block_guid \<mapsto> le_bytes 4 (0x80b004 :: 32 word)])"
proof -
  have "parse_footer_table small_image = Inr (foldr add_entry [reset_entry] (\<lambda>_. None))"
    unfolding small_image_def by (rule parse_footer_table_layout) (simp_all add: reset_entry_ok entry_header_size_def)
  then show ?thesis by (simp add: add_entry_def reset_entry_def reset_guid)
qed

lemma small_image_size: "length small_image = 4096"
  by (simp add: small_image_def footer_image_def footer_guid reset_entry_ok)

lemma small_image_ovmf:
  "\<exists>o'. new_ovmf (\<lambda>f. Inr small_image) f four_gb = Inr o' \<and> sev_es_reset_eip o' = Inr 0x80b004
     \<and> ov_data o' = small_image \<and> ov_items o' = []"
proof -
  have ne: "ovmf_sev_metadata_guid \<noteq> sev_es_reset_block_guid" by code_simp
  have "get_le 4 0 (le_bytes 4 (0x80b004 :: 32 word)) = 0x80b004"
    by (simp add: get_le_def le_value_le_bytes)
  then show ?thesis using ne
    by (simp add: new_ovmf_def small_image_table parse_sev_metadata_def sev_es_reset_eip_def table_address_def)
qed


lemma small_image_measured:
  "\<exists>d. calc_snp_launch_digest H H' (\<lambda>f. Inr small_image) path 1 sig '''' i c 1 = Inr d"
proof -
  obtain o' where "new_ovmf (\<lambda>f. Inr small_image) path four_gb = Inr o'" "sev_es_reset_eip o' = Inr 0x80b004"
    "ov_data o' = small_image" "ov_items o' = []" using small_image_ovmf by blast
  then show ?thesis
    by (simp add: calc_snp_launch_digest_def small_image_size page_size_def update_metadata_pages_def Let_def)
qed


end
