(* ===== verification/Idblock.thy ===== *)
theory Idblock
  imports Snpmeasure "HOL-Library.List_Lexorder"
begin

text \<open>
  The SNP ID block and its authentication block, \<open>internal/idblock/idblock.go\<close>: their binary
  forms, the recovery of the public key under which a fixed signature signs the block, and the
  blocks for a launch digest. The P-384 group, \<open>ModInverse\<close>, \<open>ModSqrt\<close> and SHA-384 are
  parameters. Arrays are byte lists of the array's length.
\<close>

section \<open>Data\<close>

record id_block =
  ib_ld :: bytes
  ib_family_id :: bytes
  ib_image_id :: bytes
  ib_version :: "32 word"
  ib_guest_svn :: "32 word"
  ib_policy :: "64 word"

record ecdsa_signature =
  sig_r :: bytes
  sig_s :: bytes
  sig_reserved :: bytes

record ecdsa_public_key =
  pk_curve_id :: "32 word"
  pk_qx :: bytes
  pk_qy :: bytes
  pk_reserved :: bytes

record id_authentication =
  ia_id_key_algo :: "32 word"
  ia_auth_key_algo :: "32 word"
  ia_reserved0 :: bytes
  ia_id_block_sig :: ecdsa_signature
  ia_id_key :: ecdsa_public_key
  ia_reserved1 :: bytes
  ia_id_key_sig :: ecdsa_signature
  ia_auth_key :: ecdsa_public_key
  ia_reserved2 :: bytes

definition slice :: "nat \<Rightarrow> nat \<Rightarrow> bytes \<Rightarrow> bytes" where
  "slice a b d = take (b - a) (drop a d)"

definition word_at :: "nat \<Rightarrow> nat \<Rightarrow> bytes \<Rightarrow> 'a::len word" where
  "word_at a b d = of_nat (le_value (slice a b d))"

section \<open>Binary forms\<close>

definition marshal_id_block :: "id_block \<Rightarrow> bytes" where
  "marshal_id_block b =
     (let data = replicate 0x60 0;
          data = copy_at 0x00 (ib_ld b) data;
          data = copy_at 0x30 (ib_family_id b) data;
          data = copy_at 0x40 (ib_image_id b) data;
          data = put_le 4 0x50 (ib_version b) data;
          data = put_le 4 0x54 (ib_guest_svn b) data
      in put_le 8 0x58 (ib_policy b) data)"

definition unmarshal_id_block :: "bytes \<Rightarrow> id_block result" where
  "unmarshal_id_block data =
     (if length data \<noteq> 0x60 then Inl (Msg (''invalid ID block size: '' @ dec_string (length data)))
      else Inr \<lparr>ib_ld = slice 0x00 0x30 data, ib_family_id = slice 0x30 0x40 data,
             ib_image_id = slice 0x40 0x50 data, ib_version = word_at 0x50 0x54 data,
             ib_guest_svn = word_at 0x54 0x58 data, ib_policy = word_at 0x58 0x60 data\<rparr>)"

definition marshal_signature :: "ecdsa_signature \<Rightarrow> bytes" where
  "marshal_signature s =
     (let data = replicate 0x200 0;
          data = copy_at 0x00 (sig_r s) data;
          data = copy_at 0x48 (sig_s s) data
      in copy_at 0x90 (sig_reserved s) data)"

definition unmarshal_signature :: "bytes \<Rightarrow> ecdsa_signature result" where
  "unmarshal_signature data =
     (if length data \<noteq> 0x200
      then Inl (Msg (''invalid ECDSA P-384 with SHA-384 signature size: '' @ dec_string (length data)))
      else Inr \<lparr>sig_r = slice 0x00 0x48 data, sig_s = slice 0x48 0x90 data, sig_reserved = slice 0x90 0x200 data\<rparr>)"

definition marshal_public_key :: "ecdsa_public_key \<Rightarrow> bytes" where
  "marshal_public_key k =
     (let data = replicate 0x404 0;
          data = put_le 4 0x00 (pk_curve_id k) data;
          data = copy_at 0x04 (pk_qx k) data;
          data = copy_at 0x4C (pk_qy k) data
      in copy_at 0x94 (pk_reserved k) data)"

definition unmarshal_public_key :: "bytes \<Rightarrow> ecdsa_public_key result" where
  "unmarshal_public_key data =
     (if length data \<noteq> 0x404
      then Inl (Msg (''invalid ECDSA P-384 public key size: '' @ dec_string (length data)))
      else Inr \<lparr>pk_curve_id = word_at 0x00 0x04 data, pk_qx = slice 0x04 0x4C data,
             pk_qy = slice 0x4C 0x94 data, pk_reserved = slice 0x94 0x404 data\<rparr>)"

definition marshal_id_authentication :: "id_authentication \<Rightarrow> bytes" where
  "marshal_id_authentication a =
     (let data = replicate 0x1000 0;
          data = put_le 4 0x00 (ia_id_key_algo a) data;
          data = put_le 4 0x04 (ia_auth_key_algo a) data;
          data = copy_at 0x08 (ia_reserved0 a) data;
          data = copy_at 0x40 (marshal_signature (ia_id_block_sig a)) data;
          data = copy_at 0x240 (marshal_public_key (ia_id_key a)) data;
          data = copy_at 0x644 (ia_reserved1 a) data;
          data = copy_at 0x680 (marshal_signature (ia_id_key_sig a)) data;
          data = copy_at 0x880 (marshal_public_key (ia_auth_key a)) data
      in copy_at 0xC84 (ia_reserved2 a) data)"

definition unmarshal_id_authentication :: "bytes \<Rightarrow> id_authentication result" where
  "unmarshal_id_authentication data =
     (if length data \<noteq> 0x1000
      then Inl (Msg (''invalid ID authentication block size: '' @ dec_string (length data)))
      else
     (case unmarshal_signature (slice 0x40 0x240 data) of
        Inl e \<Rightarrow> Inl (Wrap ''failed to unmarshal ID block signature'' e)
      | Inr block_sig \<Rightarrow>
     (case unmarshal_public_key (slice 0x240 0x644 data) of
        Inl e \<Rightarrow> Inl (Wrap ''failed to unmarshal ID key'' e)
      | Inr id_key \<Rightarrow>
     (case unmarshal_signature (slice 0x680 0x880 data) of
        Inl e \<Rightarrow> Inl (Wrap ''failed to unmarshal ID key signature'' e)
      | Inr key_sig \<Rightarrow>
     (case unmarshal_public_key (slice 0x880 0xC84 data) of
        Inl e \<Rightarrow> Inl (Wrap ''failed to unmarshal author key'' e)
      | Inr auth_key \<Rightarrow>
          Inr \<lparr>ia_id_key_algo = word_at 0x00 0x04 data, ia_auth_key_algo = word_at 0x04 0x08 data,
            ia_reserved0 = slice 0x08 0x40 data, ia_id_block_sig = block_sig, ia_id_key = id_key,
            ia_reserved1 = slice 0x644 0x680 data, ia_id_key_sig = key_sig, ia_auth_key = auth_key,
            ia_reserved2 = slice 0xC84 0x1000 data\<rparr>)))))"

section \<open>Recovering the key\<close>

text \<open>
  \<open>set_point\<close> decodes an uncompressed point; \<open>base_mult\<close>, \<open>scalar_mult\<close> and \<open>add_points\<close> are
  the group operations; \<open>parse_key\<close> makes a public key of an encoded point and \<open>encode_key\<close>
  encodes it again.
\<close>

record ('pt, 'key) p384 =
  curve_p :: int
  curve_n :: int
  curve_b :: int
  mod_inverse :: "int \<Rightarrow> int \<Rightarrow> int option"
  mod_sqrt :: "int \<Rightarrow> int \<Rightarrow> int option"
  set_point :: "bytes \<Rightarrow> 'pt result"
  base_mult :: "bytes \<Rightarrow> 'pt result"
  scalar_mult :: "'pt \<Rightarrow> bytes \<Rightarrow> 'pt result"
  add_points :: "'pt \<Rightarrow> 'pt \<Rightarrow> 'pt"
  point_bytes :: "'pt \<Rightarrow> bytes"
  parse_key :: "bytes \<Rightarrow> 'key result"
  key_encoding :: "'key \<Rightarrow> bytes result"

definition p384_coord_size :: nat where "p384_coord_size = 48"

text \<open>\<open>FillBytes\<close> for a number that fits, and \<open>SetBytes\<close>, both big-endian.\<close>

definition fill_bytes :: "nat \<Rightarrow> int \<Rightarrow> bytes" where
  "fill_bytes n x = rev (map (\<lambda>i. of_int (x div 256 ^ i)) [0..<n])"

definition set_bytes :: "bytes \<Rightarrow> int" where
  "set_bytes b = int (le_value (rev b))"

definition curve_polynomial :: "('pt, 'key) p384 \<Rightarrow> int \<Rightarrow> int" where
  "curve_polynomial C x = (x * x * x - (2 * x + x) + curve_b C) mod curve_p C"

text \<open>One round of the loop: the key for this y coordinate, or none when the point is rejected.\<close>

definition recover_candidate ::
  "('pt, 'key) p384 \<Rightarrow> int \<Rightarrow> bytes \<Rightarrow> bytes \<Rightarrow> int \<Rightarrow> 'key option result" where
  "recover_candidate C x u1 u2 y =
     (case set_point C ([0x04] @ fill_bytes p384_coord_size x @ fill_bytes p384_coord_size y) of
        Inl _ \<Rightarrow> Inr None
      | Inr q \<Rightarrow>
     (case base_mult C u1 of
        Inl e \<Rightarrow> Inl (Wrap ''scalar base mult'' e)
      | Inr p1 \<Rightarrow>
     (case scalar_mult C q u2 of
        Inl e \<Rightarrow> Inl (Wrap ''scalar mult'' e)
      | Inr p2 \<Rightarrow>
     (case parse_key C (point_bytes C (add_points C p1 p2)) of
        Inl e \<Rightarrow> Inl (Wrap ''parsing recovered public key'' e)
      | Inr k \<Rightarrow> Inr (Some k)))))"

fun recover_candidates ::
  "('pt, 'key) p384 \<Rightarrow> int \<Rightarrow> bytes \<Rightarrow> bytes \<Rightarrow> int list \<Rightarrow> 'key list result" where
  "recover_candidates C x u1 u2 [] = Inr []"
| "recover_candidates C x u1 u2 (y # ys) =
     (case recover_candidate C x u1 u2 y of
        Inl e \<Rightarrow> Inl e
      | Inr k \<Rightarrow>
          (case recover_candidates C x u1 u2 ys of
             Inl e \<Rightarrow> Inl e
           | Inr ks \<Rightarrow> Inr ((case k of None \<Rightarrow> [] | Some k \<Rightarrow> [k]) @ ks)))"

definition encoding_or_nil :: "('pt, 'key) p384 \<Rightarrow> 'key \<Rightarrow> bytes" where
  "encoding_or_nil C k = (case key_encoding C k of Inl _ \<Rightarrow> [] | Inr b \<Rightarrow> b)"

definition recover_public_key :: "('pt, 'key) p384 \<Rightarrow> int \<Rightarrow> int \<Rightarrow> int \<Rightarrow> 'key list result" where
  "recover_public_key C r s z =
     (let n = curve_n C in
      case mod_inverse C r n of
        None \<Rightarrow> Inl (Msg ''unable to compute modular inverse'')
      | Some r_inv \<Rightarrow>
     (let x = r mod curve_p C in
      case mod_sqrt C (curve_polynomial C x) (curve_p C) of
        None \<Rightarrow> Inl (Msg ''no square root'')
      | Some y \<Rightarrow>
     (let u1 = (- (z * r_inv mod n)) mod n; u2 = s * r_inv mod n in
      case recover_candidates C x (fill_bytes p384_coord_size u1) (fill_bytes p384_coord_size u2)
             [y, curve_p C - y] of
        Inl e \<Rightarrow> Inl e
      | Inr ks \<Rightarrow> Inr (sort_key (encoding_or_nil C) ks))))"

section \<open>The blocks of a launch digest\<close>

definition array_from :: "nat \<Rightarrow> bytes \<Rightarrow> bytes" where
  "array_from n b = copy_into (replicate n 0) b"

definition valid_r :: bytes where "valid_r = array_from 0x48 [0x2]"
definition valid_s :: bytes where "valid_s = array_from 0x48 [0x1]"

definition id_block_of :: "bytes \<Rightarrow> 64 word \<Rightarrow> id_block" where
  "id_block_of ld policy = \<lparr>ib_ld = ld, ib_family_id = array_from 0x10 [0x1], ib_image_id = array_from 0x10 [0x2],
     ib_version = 0x1, ib_guest_svn = 0x2, ib_policy = policy\<rparr>"

definition zero_signature :: ecdsa_signature where
  "zero_signature = \<lparr>sig_r = replicate 0x48 0, sig_s = replicate 0x48 0, sig_reserved = replicate 0x170 0\<rparr>"
definition zero_public_key :: ecdsa_public_key where
  "zero_public_key = \<lparr>pk_curve_id = 0, pk_qx = replicate 0x48 0, pk_qy = replicate 0x48 0,
     pk_reserved = replicate 0x370 0\<rparr>"

definition id_blocks_from_launch_digest ::
  "('pt, 'key) p384 \<Rightarrow> (bytes \<Rightarrow> bytes) \<Rightarrow> ('p \<Rightarrow> 64 word) \<Rightarrow> bytes \<Rightarrow> 'p
   \<Rightarrow> (id_block \<times> id_authentication) result" where
  "id_blocks_from_launch_digest C sha384 policy_to_bytes ld guest_policy =
     (let blk = id_block_of ld (policy_to_bytes guest_policy);
          hsh = sha384 (marshal_id_block blk);
          r = set_bytes (rev valid_r); s = set_bytes (rev valid_s); z = set_bytes hsh in
      case recover_public_key C r s z of
        Inl e \<Rightarrow> Inl (Wrap ''failed to recover public key'' e)
      | Inr [] \<Rightarrow> Inl (Panic ''index out of range [0] with length 0'')
      | Inr (k # _) \<Rightarrow>
     (case key_encoding C k of
        Inl e \<Rightarrow> Inl (Wrap ''encoding recovered public key'' e)
      | Inr enc \<Rightarrow>
     (let x_le = rev (slice 1 (1 + p384_coord_size) enc); y_le = rev (drop (1 + p384_coord_size) enc) in
      Inr (blk, \<lparr>ia_id_key_algo = 0x1, ia_auth_key_algo = 0x0, ia_reserved0 = replicate 0x38 0,
            ia_id_block_sig = zero_signature\<lparr>sig_r := valid_r, sig_s := valid_s\<rparr>,
            ia_id_key = zero_public_key\<lparr>pk_curve_id := 2, pk_qx := array_from 0x48 x_le, pk_qy := array_from 0x48 y_le\<rparr>,
            ia_reserved1 = replicate 0x3c 0, ia_id_key_sig = zero_signature, ia_auth_key = zero_public_key,
            ia_reserved2 = replicate 0x37c 0\<rparr>))))"

section \<open>Round trips\<close>

definition wf_id_block :: "id_block \<Rightarrow> bool" where
  "wf_id_block b \<longleftrightarrow> length (ib_ld b) = 0x30 \<and> length (ib_family_id b) = 0x10 \<and> length (ib_image_id b) = 0x10"
definition wf_signature :: "ecdsa_signature \<Rightarrow> bool" where
  "wf_signature s \<longleftrightarrow> length (sig_r s) = 0x48 \<and> length (sig_s s) = 0x48 \<and> length (sig_reserved s) = 0x170"
definition wf_public_key :: "ecdsa_public_key \<Rightarrow> bool" where
  "wf_public_key k \<longleftrightarrow> length (pk_qx k) = 0x48 \<and> length (pk_qy k) = 0x48 \<and> length (pk_reserved k) = 0x370"
definition wf_id_authentication :: "id_authentication \<Rightarrow> bool" where
  "wf_id_authentication a \<longleftrightarrow> length (ia_reserved0 a) = 0x38 \<and> wf_signature (ia_id_block_sig a)
     \<and> wf_public_key (ia_id_key a) \<and> length (ia_reserved1 a) = 0x3c \<and> wf_signature (ia_id_key_sig a)
     \<and> wf_public_key (ia_auth_key a) \<and> length (ia_reserved2 a) = 0x37c"

lemmas layout_defs = marshal_id_block_def marshal_signature_def marshal_public_key_def marshal_id_authentication_def

lemma length_layouts [simp]:
  "length (marshal_id_block b) = 0x60" "length (marshal_signature s) = 0x200"
  "length (marshal_public_key k) = 0x404" "length (marshal_id_authentication a) = 0x1000"
  by (simp_all add: layout_defs Let_def)

lemma length_slice [simp]: "b \<le> length d \<Longrightarrow> length (slice a b d) = b - a"
  by (simp add: slice_def)

lemma slice_copy:
  "length src = b - a \<Longrightarrow> a \<le> b \<Longrightarrow> b \<le> length d \<Longrightarrow> slice a b (copy_at a src d) = src"
  using copy_at_read [of a src d] by (simp add: slice_def)

lemma slice_copy_other:
  assumes "b \<le> off \<or> off + length src \<le> a" and "a \<le> b" and "off + length src \<le> length d"
  shows "slice a b (copy_at off src d) = slice a b d"
  using assms copy_at_keeps_before [of off src d a "b - a"] copy_at_keeps_after [of off src d a "b - a"]
  by (auto simp: slice_def)

lemma slice_put_other:
  assumes "b \<le> off \<or> off + n \<le> a" and "a \<le> b" and "off + n \<le> length d"
  shows "slice a b (put_le n off x d) = slice a b d"
  using assms by (simp add: put_le_def slice_copy_other)

lemma word_at_put:
  fixes x :: "'a::len word"
  assumes "n = b - a" and "a \<le> b" and "b \<le> length d" and "LENGTH('a) = 8 * n"
  shows "word_at a b (put_le n a x d) = x"
proof -
  have "unat x mod 256 ^ n = unat x"
    using assms(4) unsigned_less [of x, where ?'a = nat] by (simp add: power_mult)
  then show ?thesis using assms
    by (simp add: word_at_def put_le_def slice_copy le_value_le_bytes)
qed

lemma word_at_other [simp]:
  "b \<le> off \<or> off + length src \<le> a \<Longrightarrow> a \<le> b \<Longrightarrow> off + length src \<le> length d
     \<Longrightarrow> word_at a b (copy_at off src d) = word_at a b d"
  "b \<le> off \<or> off + n \<le> a \<Longrightarrow> a \<le> b \<Longrightarrow> off + n \<le> length d
     \<Longrightarrow> word_at a b (put_le n off x d) = word_at a b d"
  by (simp_all add: word_at_def slice_copy_other slice_put_other)

lemma unmarshal_marshal_id_block:
  "wf_id_block b \<Longrightarrow> unmarshal_id_block (marshal_id_block b) = Inr b"
  by (simp add: unmarshal_id_block_def)
    (simp add: marshal_id_block_def Let_def wf_id_block_def slice_copy slice_copy_other slice_put_other word_at_put)

lemma unmarshal_marshal_signature:
  "wf_signature s \<Longrightarrow> unmarshal_signature (marshal_signature s) = Inr s"
  by (simp add: unmarshal_signature_def)
    (simp add: marshal_signature_def Let_def wf_signature_def slice_copy slice_copy_other)

lemma unmarshal_marshal_public_key:
  "wf_public_key k \<Longrightarrow> unmarshal_public_key (marshal_public_key k) = Inr k"
  by (simp add: unmarshal_public_key_def)
    (simp add: marshal_public_key_def Let_def wf_public_key_def slice_copy slice_copy_other slice_put_other word_at_put)

lemma unmarshal_marshal_id_authentication:
  assumes "wf_id_authentication a"
  shows "unmarshal_id_authentication (marshal_id_authentication a) = Inr a"
proof -
  define d where "d = marshal_id_authentication a"
  have len: "length d = 0x1000" by (simp add: d_def)
  have parts: "slice 0x40 0x240 d = marshal_signature (ia_id_block_sig a)"
    "slice 0x240 0x644 d = marshal_public_key (ia_id_key a)"
    "slice 0x680 0x880 d = marshal_signature (ia_id_key_sig a)"
    "slice 0x880 0xC84 d = marshal_public_key (ia_auth_key a)"
    "slice 0x08 0x40 d = ia_reserved0 a" "slice 0x644 0x680 d = ia_reserved1 a" "slice 0xC84 0x1000 d = ia_reserved2 a"
    using assms
    by (simp_all add: d_def marshal_id_authentication_def Let_def wf_id_authentication_def slice_copy
        slice_copy_other slice_put_other)
  have words: "word_at 0x00 0x04 d = ia_id_key_algo a" "word_at 0x04 0x08 d = ia_auth_key_algo a"
    using assms by (simp_all add: d_def marshal_id_authentication_def Let_def wf_id_authentication_def word_at_put)
  show ?thesis
    using assms len
    by (simp add: unmarshal_id_authentication_def parts words unmarshal_marshal_signature
        unmarshal_marshal_public_key wf_id_authentication_def flip: d_def)
qed

text \<open>The blocks made for a digest are well-formed and commit to the digest and the policy.\<close>

lemma id_blocks_ok:
  assumes "id_blocks_from_launch_digest C H pol ld p = Inr (blk, auth)" and "length ld = 0x30"
  shows "blk = id_block_of ld (pol p)" and "wf_id_block blk" and "wf_id_authentication auth"
  using assms
  by (auto simp: id_blocks_from_launch_digest_def Let_def wf_id_block_def id_block_of_def array_from_def
      wf_id_authentication_def wf_signature_def wf_public_key_def zero_signature_def zero_public_key_def
      valid_r_def valid_s_def split: sum.splits list.splits)

end
