(* ===== verification/ReportValidators.thy ===== *)
theory ReportValidators
  imports Claims Idblock ManifestFacts
begin

text \<open>
  The validators of attestation documents: \<open>internal/attestation/snp/validator.go\<close> with the
  search over the number of virtual CPUs, \<open>internal/attestation/tdx/validator.go\<close> with the
  comparison of XFAM and the check of the platform id, and \<open>internal/attestation/insecure\<close>. The
  signature and claim checks of \<open>go-sev-guest\<close> and \<open>go-tdx-guest\<close> are parameters.

  A validator object keeps the options it was made with and writes to them, so a validation is
  a step from options to options; a fresh object is used by every validation of a manifest.
\<close>

unbundle bit_operations_syntax

section \<open>SEV-SNP: data and library functions\<close>

text \<open>A nil map of roots is None; each root has the revocation list that was put into it.\<close>

record ('prod, 'root, 'crl) snp_verify_opts =
  vo_product :: 'prod
  vo_roots :: "(string \<Rightarrow> ('root \<times> 'crl option) list) option"
  vo_check_revocations :: bool

record snp_validate_opts =
  so_measurement :: bytes
  so_platform_info :: snp_platform_info
  so_guest_policy :: snp_guest_policy
  so_vmpl :: int
  so_minimum_tcb :: tcb_parts
  so_minimum_launch_tcb :: tcb_parts
  so_permit_provisional_firmware :: bool
  so_require_id_block :: bool
  so_minimum_launch_mitigation :: "64 word"
  so_minimum_current_mitigation :: "64 word"
  so_trusted_id_key_hashes :: "bytes list"
  so_report_data :: bytes

text \<open>The certificate chain may be absent, and its extras may be.\<close>

record 'prod snp_attestation =
  sa_report :: "snp_report option"
  sa_extras :: "(string \<Rightarrow> bytes option) option option"
  sa_product :: "'prod option"

record ('prod, 'root, 'crl, 'pt, 'key) snplib =
  unmarshal_attestation :: "bytes \<Rightarrow> 'prod snp_attestation result"
  verify_attestation :: "'prod snp_attestation \<Rightarrow> ('prod, 'root, 'crl) snp_verify_opts \<Rightarrow> goerr option"
  check_claims :: "'prod snp_attestation \<Rightarrow> snp_validate_opts \<Rightarrow> goerr option"
  parse_crl :: "bytes \<Rightarrow> 'crl result"
  line_from_fms :: "32 word \<Rightarrow> string"
  line_of_product :: "'prod option \<Rightarrow> string"
  sev_abi :: sevabi
  snp_asn1 :: asn1lib
  sha384_fun :: "bytes \<Rightarrow> bytes"
  p384_lib :: "('pt, 'key) p384"
  policy_to_bytes :: "snp_guest_policy \<Rightarrow> 64 word"

definition snp_crl_key :: string where "snp_crl_key = ''00569ee4-e480-4fba-bbf4-45b629901180''"

text \<open>The peer's revocation list, put into the roots of the attested product line.\<close>

definition add_crl ::
  "('prod, 'root, 'crl, 'pt, 'key) snplib \<Rightarrow> 'prod snp_attestation \<Rightarrow> snp_report
   \<Rightarrow> ('prod, 'root, 'crl) snp_verify_opts \<Rightarrow> ('prod, 'root, 'crl) snp_verify_opts result" where
  "add_crl L att rep vo =
     (case vo_roots vo of
        None \<Rightarrow> Inl (Msg ''no trusted roots found in verify options'')
      | Some roots \<Rightarrow>
     (case sa_extras att of
        None \<Rightarrow> Inl (Msg ''no certificate chain found in attestation data'')
      | Some None \<Rightarrow> Inl (Msg ''no extras found in certificate chain of attestation data'')
      | Some (Some extras) \<Rightarrow>
     (case extras snp_crl_key of
        None \<Rightarrow> Inl (Msg ''no CRL found in attestation data'')
      | Some raw \<Rightarrow>
     (case parse_crl L raw of
        Inl e \<Rightarrow> Inl (Wrap ''could not parse CRL from attestation data'' e)
      | Inr crl \<Rightarrow>
     (let line = (if sr_cpuid_fms rep \<noteq> 0 then line_from_fms L (sr_cpuid_fms rep)
                  else line_of_product L (sa_product att))
      in Inr (vo\<lparr>vo_roots := Some (roots(line := map (\<lambda>(r, _). (r, Some crl)) (roots line)))\<rparr>))))))"

text \<open>The common beginning: parse, use the peer's CRL when possible, verify the signature.\<close>

definition snp_verified ::
  "('prod, 'root, 'crl, 'pt, 'key) snplib \<Rightarrow> ('prod, 'root, 'crl) snp_verify_opts \<Rightarrow> bytes
   \<Rightarrow> ('prod snp_attestation \<times> snp_report) result \<times> ('prod, 'root, 'crl) snp_verify_opts" where
  "snp_verified L vo doc =
     (case unmarshal_attestation L doc of
        Inl e \<Rightarrow> (Inl (Wrap ''unmarshaling attestation'' e), vo)
      | Inr att \<Rightarrow>
     (case sa_report att of
        None \<Rightarrow> (Inl (Msg ''attestation missing report''), vo)
      | Some rep \<Rightarrow>
     (let vo' = (case add_crl L att rep vo of Inl _ \<Rightarrow> vo | Inr w \<Rightarrow> w) in
      case verify_attestation L att vo' of
        Some e \<Rightarrow> (Inl (Wrap ''verifying report'' e), vo')
      | None \<Rightarrow> (Inr (att, rep), vo'))))"

definition chip_id_allowed :: "bytes list \<Rightarrow> snp_report \<Rightarrow> goerr option" where
  "chip_id_allowed allowed rep =
     (if allowed \<noteq> [] \<and> sr_chip_id rep \<notin> set allowed
      then Some (Msg (''chip ID '' @ hex_encode (sr_chip_id rep) @ '' not in allowed chip IDs'')) else None)"

section \<open>SEV-SNP: the two validators\<close>

type_synonym ('prod, 'root, 'crl) snp_state = "('prod, 'root, 'crl) snp_verify_opts \<times> snp_validate_opts"

definition snp_validator_step ::
  "('prod, 'root, 'crl, 'pt, 'key) snplib \<Rightarrow> bytes list \<Rightarrow> ('prod, 'root, 'crl) snp_state \<Rightarrow> oid \<Rightarrow> bytes \<Rightarrow> bytes
   \<Rightarrow> (goerr option \<times> pkix_extension report list) \<times> ('prod, 'root, 'crl) snp_state" where
  "snp_validator_step L allowed st oi doc rd =
     (if oi \<noteq> raw_snp_report then ((Some err_oid_not_supported, []), st)
      else
     (case snp_verified L (fst st) doc of
        (Inl e, vo) \<Rightarrow> ((Some e, []), (vo, snd st))
      | (Inr (att, rep), vo) \<Rightarrow>
     (let so = (snd st)\<lparr>so_report_data := rd\<rparr> in
      case check_claims L att so of
        Some e \<Rightarrow> ((Some (Wrap ''validating report claims'' e), []), (vo, so))
      | None \<Rightarrow>
     (case chip_id_allowed allowed rep of
        Some e \<Rightarrow> ((Some e, []), (vo, so))
      | None \<Rightarrow> ((None, [snp_report_of (sev_abi L) (snp_asn1 L) rep]), (vo, so))))))"

text \<open>The loop over the number of virtual CPUs, until the measurement is the report's.\<close>

fun search_vcpus :: "(bytes \<Rightarrow> bytes) \<Rightarrow> bytes \<Rightarrow> bytes \<Rightarrow> nat \<Rightarrow> nat \<Rightarrow> gctx \<Rightarrow> (nat \<times> bytes) option" where
  "search_vcpus sha384 ap actual 0 vcpus g = None"
| "search_vcpus sha384 ap actual (Suc n) vcpus g =
     (let g' = (if vcpus > 1 then update_vmsa_page sha384 ap g else g);
          ld = gctx_launch_digest g' in
      if actual = ld then Some (vcpus, ld)
      else search_vcpus sha384 ap actual n (Suc vcpus) g')"

definition max_vcpus :: nat where "max_vcpus = 220"

definition id_key_hash ::
  "('prod, 'root, 'crl, 'pt, 'key) snplib \<Rightarrow> bytes \<Rightarrow> snp_guest_policy \<Rightarrow> bytes result" where
  "id_key_hash L ld policy =
     (case id_blocks_from_launch_digest (p384_lib L) (sha384_fun L) (policy_to_bytes L) ld policy of
        Inl e \<Rightarrow> Inl e
      | Inr (_, auth) \<Rightarrow> Inr (sha384_fun L (marshal_public_key (ia_id_key auth))))"

definition iterative_validator_step ::
  "('prod, 'root, 'crl, 'pt, 'key) snplib \<Rightarrow> bytes \<Rightarrow> 32 word \<Rightarrow> 32 word \<Rightarrow> bytes list
   \<Rightarrow> ('prod, 'root, 'crl) snp_state \<Rightarrow> oid \<Rightarrow> bytes \<Rightarrow> bytes
   \<Rightarrow> (goerr option \<times> pkix_extension report list) \<times> ('prod, 'root, 'crl) snp_state" where
  "iterative_validator_step L sd ap_eip vcpu_sig allowed st oi doc rd =
     (if oi \<noteq> raw_snp_report then ((Some err_oid_not_supported, []), st)
      else
     (case snp_verified L (fst st) doc of
        (Inl e, vo) \<Rightarrow> ((Some e, []), (vo, snd st))
      | (Inr (att, rep), vo) \<Rightarrow>
     (let st' = (vo, snd st); ap = build_vmsa_save_area ap_eip 0x1 vcpu_sig in
      case search_vcpus (sha384_fun L) ap (sr_measurement rep) max_vcpus 1 (new_gctx_with_seed sd) of
        None \<Rightarrow> ((Some (Msg ''measurement does not match any vCPU count from 1 to 220''), []), st')
      | Some (vcpus, matched) \<Rightarrow>
     (case id_key_hash L matched (so_guest_policy (snd st)) of
        Inl e \<Rightarrow> ((Some (Wrap (''generating ID blocks for '' @ dec_string vcpus @ '' vCPUs'') e), []), st')
      | Inr hsh \<Rightarrow>
     (case check_claims L att ((snd st)\<lparr>so_measurement := matched, so_trusted_id_key_hashes := [hsh],
             so_report_data := rd\<rparr>) of
        Some e \<Rightarrow> ((Some (Wrap ''validating report claims'' e), []), st')
      | None \<Rightarrow>
     (case chip_id_allowed allowed rep of
        Some e \<Rightarrow> ((Some e, []), st')
      | None \<Rightarrow> ((None, [snp_report_of (sev_abi L) (snp_asn1 L) rep]), st')))))))"

section \<open>TDX\<close>

record tdx_validate_opts =
  to_qe_vendor_id :: bytes
  to_mr_seam :: bytes
  to_td_attributes :: bytes
  to_xfam :: "bytes option"
  to_mr_td :: bytes
  to_rtmrs :: "bytes list"
  to_report_data :: bytes
  to_sgx_type_with_integrity :: bool
  to_smt_enabled :: "bool option"
  to_dynamic_platform :: "bool option"

record 'pool tdx_verify_opts =
  tv_trusted_roots :: 'pool
  tv_check_revocations :: bool
  tv_get_collateral :: bool
  tv_evaluation_data_number :: "int option"

text \<open>
  \<open>pem_blocks\<close> are the blocks that repeated \<open>pem.Decode\<close> finds; \<open>pck_cert\<close> parses a
  certificate to its common name and the PIID of its PCK extensions.
\<close>

record 'pool tdxlib =
  unmarshal_quote :: "bytes \<Rightarrow> tdx_quote result"
  verify_quote :: "tdx_quote \<Rightarrow> 'pool tdx_verify_opts \<Rightarrow> goerr option"
  check_quote :: "tdx_quote \<Rightarrow> tdx_validate_opts \<Rightarrow> goerr option"
  pem_blocks :: "bytes \<Rightarrow> bytes list"
  pck_cert :: "bytes \<Rightarrow> (string \<times> string result) result"
  tdx_asn1 :: asn1lib

definition err_no_pck_certificate :: goerr where
  "err_no_pck_certificate = Sentinel ''no PCK certificate found in TDX quote''"
definition err_parse_certificate :: goerr where
  "err_parse_certificate = Sentinel ''parsing PCK certificate''"

fun find_pck :: "'pool tdxlib \<Rightarrow> bytes list \<Rightarrow> string result result" where
  "find_pck T [] = Inl err_no_pck_certificate"
| "find_pck T (b # bs) =
     (case pck_cert T b of
        Inl e \<Rightarrow> Inl (Both err_parse_certificate e)
      | Inr (cn, exts) \<Rightarrow> if cn = ''Intel SGX PCK Certificate'' then Inr exts else find_pck T bs)"

definition get_pck_certificate :: "'pool tdxlib \<Rightarrow> tdx_quote \<Rightarrow> string result result" where
  "get_pck_certificate T q = find_pck T (pem_blocks T (tq_pck_cert_chain q))"

definition get_piid :: "'pool tdxlib \<Rightarrow> tdx_quote \<Rightarrow> bytes result" where
  "get_piid T q =
     (case get_pck_certificate T q of
        Inl e \<Rightarrow> Inl (Wrap ''extracting PCK certificate'' e)
      | Inr (Inl e) \<Rightarrow> Inl (Wrap ''extracting PCK certificate extensions'' e)
      | Inr (Inr piid_hex) \<Rightarrow>
     (case hex_decode piid_hex of
        Inl e \<Rightarrow> Inl (Wrap ''decoding PIID from extension'' e)
      | Inr piid \<Rightarrow>
          (if length piid \<noteq> 16
           then Inl (Msg (''unexpected PIID length of '' @ dec_string (length piid) @ '', want 16''))
           else Inr piid)))"

definition xfam_cet_mask :: "64 word" where
  "xfam_cet_mask = (push_bit 11 1 OR push_bit 12 1)"

definition xfam_word :: "bytes \<Rightarrow> 64 word" where
  "xfam_word b = of_nat (le_value b)"

definition validate_xfam_ignoring_cet :: "bytes \<Rightarrow> bytes \<Rightarrow> goerr option" where
  "validate_xfam_ignoring_cet quote_xfam ref_xfam =
     (if length quote_xfam \<noteq> 8 then Some (Msg ''quote XFAM has wrong length, want 8'')
      else if length ref_xfam \<noteq> 8 then Some (Msg ''reference XFAM has wrong length, want 8'')
      else
     (let got = xfam_word quote_xfam AND NOT xfam_cet_mask; want = xfam_word ref_xfam AND NOT xfam_cet_mask in
      if got \<noteq> want then Some (Msg ''XFAM mismatch (ignoring CET bits)'') else None))"

definition piid_allowed :: "'pool tdxlib \<Rightarrow> bytes list \<Rightarrow> tdx_quote \<Rightarrow> goerr option" where
  "piid_allowed T allowed q =
     (if allowed = [] then None
      else
     (case get_piid T q of
        Inl e \<Rightarrow> Some (Wrap ''reading PIID from quote'' e)
      | Inr piid \<Rightarrow> if piid \<in> set allowed then None
          else Some (Msg (''PIID '' @ hex_encode piid @ '' not in allowed PIIDs''))))"

text \<open>
  The generator hands out its options by pointer: the report data and the cleared XFAM stay in
  the object for the next validation.
\<close>

definition tdx_validator_step ::
  "'pool tdxlib \<Rightarrow> 'pool tdx_verify_opts \<Rightarrow> bytes list \<Rightarrow> tdx_validate_opts \<Rightarrow> oid \<Rightarrow> bytes \<Rightarrow> bytes
   \<Rightarrow> (goerr option \<times> pkix_extension report list) \<times> tdx_validate_opts" where
  "tdx_validator_step T vo allowed opts oi doc rd =
     (if oi \<noteq> raw_tdx_report then ((Some err_oid_not_supported, []), opts)
      else
     (case unmarshal_quote T doc of
        Inl e \<Rightarrow> ((Some (Wrap ''unmarshaling attestation'' e), []), opts)
      | Inr q \<Rightarrow>
     (case verify_quote T q vo of
        Some e \<Rightarrow> ((Some (Wrap ''verifying report signature'' e), []), opts)
      | None \<Rightarrow>
     (let opts1 = opts\<lparr>to_report_data := rd\<rparr> in
      case (case to_xfam opts1 of None \<Rightarrow> None | Some ref \<Rightarrow> validate_xfam_ignoring_cet (tq_xfam q) ref) of
        Some e \<Rightarrow> ((Some (Wrap ''validating xfam'' e), []), opts1)
      | None \<Rightarrow>
     (let opts2 = opts1\<lparr>to_xfam := None\<rparr> in
      case check_quote T q opts2 of
        Some e \<Rightarrow> ((Some (Wrap ''validating report data'' e), []), opts2)
      | None \<Rightarrow>
     (case piid_allowed T allowed q of
        Some e \<Rightarrow> ((Some e, []), opts2)
      | None \<Rightarrow> ((None, [tdx_report_of (tdx_asn1 T) q]), opts2)))))))"

section \<open>Insecure platforms\<close>

text \<open>The JSON document of the development platforms: report data and host data.\<close>

definition insecure_validate ::
  "(bytes \<Rightarrow> (bytes \<times> bytes) result) \<Rightarrow> oid \<Rightarrow> bytes \<Rightarrow> bytes \<Rightarrow> goerr option \<times> pkix_extension report list" where
  "insecure_validate json_doc oi doc rd =
     (if oi \<noteq> raw_insecure_report then (Some err_oid_not_supported, [])
      else
     (case json_doc doc of
        Inl e \<Rightarrow> (Some (Wrap ''unmarshaling insecure attestation'' e), [])
      | Inr (doc_rd, hd') \<Rightarrow>
          (if doc_rd \<noteq> rd then (Some (Msg ''reportData mismatch''), [])
           else (None, [\<lparr>host_data = hd', claims_to_cert_extension = Inr []\<rparr>]))))"

text \<open>
  The issuer asks the initdata processor for the digest, \<open>fetch\<close> being the status and the body
  of the response, and packs it with the report data.
\<close>

definition insecure_issue ::
  "(bytes \<times> bytes \<Rightarrow> bytes result) \<Rightarrow> (nat \<times> bytes result) result \<Rightarrow> bytes \<Rightarrow> bytes result" where
  "insecure_issue json_text fetch rd =
     (case fetch of
        Inl e \<Rightarrow> Inl (Wrap ''fetching hostdata'' e)
      | Inr (code, body) \<Rightarrow>
     (if code \<noteq> 200 then Inl (Msg (''fetching hostdata: status '' @ dec_string code))
      else
     (case body of
        Inl e \<Rightarrow> Inl (Wrap ''reading hostdata response'' e)
      | Inr b \<Rightarrow> json_text (rd, b))))"

section \<open>What the steps accept\<close>

definition snp_claims_checked ::
  "('prod, 'root, 'crl, 'pt, 'key) snplib \<Rightarrow> ('prod, 'root, 'crl) snp_verify_opts \<Rightarrow> snp_validate_opts
   \<Rightarrow> bytes list \<Rightarrow> bytes \<Rightarrow> snp_report \<Rightarrow> bool" where
  "snp_claims_checked L vo so allowed doc rep \<longleftrightarrow>
     (\<exists>att vo'. snp_verified L vo doc = (Inr (att, rep), vo') \<and> check_claims L att so = None
        \<and> (allowed = [] \<or> sr_chip_id rep \<in> set allowed))"

lemma snp_verified_ok:
  assumes "snp_verified L vo doc = (Inr (att, rep), vo')"
  shows "unmarshal_attestation L doc = Inr att" and "sa_report att = Some rep" and "verify_attestation L att vo' = None"
  using assms by (auto simp: snp_verified_def Let_def split: sum.splits option.splits)

lemma snp_step_accepts:
  "snp_validator_step L allowed (vo, so) oi doc rd = ((None, reps), st') \<longleftrightarrow>
     oi = raw_snp_report \<and> (\<exists>att rep vo'. snp_verified L vo doc = (Inr (att, rep), vo')
        \<and> check_claims L att (so\<lparr>so_report_data := rd\<rparr>) = None \<and> (allowed = [] \<or> sr_chip_id rep \<in> set allowed)
        \<and> reps = [snp_report_of (sev_abi L) (snp_asn1 L) rep] \<and> st' = (vo', so\<lparr>so_report_data := rd\<rparr>))"
  by (auto simp: snp_validator_step_def chip_id_allowed_def Let_def split: if_splits sum.splits option.splits prod.splits)


lemma iterative_step_accepts:
  "iterative_validator_step L sd ap_eip sig allowed (vo, so) oi doc rd = ((None, reps), st') \<longleftrightarrow>
     oi = raw_snp_report \<and> (\<exists>att rep vo' v d h. snp_verified L vo doc = (Inr (att, rep), vo')
        \<and> search_vcpus (sha384_fun L) (build_vmsa_save_area ap_eip 0x1 sig) (sr_measurement rep) max_vcpus 1
            (new_gctx_with_seed sd) = Some (v, d)
        \<and> id_key_hash L d (so_guest_policy so) = Inr h
        \<and> check_claims L att (so\<lparr>so_measurement := d, so_trusted_id_key_hashes := [h], so_report_data := rd\<rparr>) = None
        \<and> (allowed = [] \<or> sr_chip_id rep \<in> set allowed)
        \<and> reps = [snp_report_of (sev_abi L) (snp_asn1 L) rep] \<and> st' = (vo', so))"
  by (auto simp: iterative_validator_step_def chip_id_allowed_def Let_def split: if_splits sum.splits option.splits prod.splits)

text \<open>The search finds the first count whose extended digest is the measurement.\<close>

lemma search_vcpus_found:
  assumes "search_vcpus H ap actual n (Suc v) ((update_vmsa_page H ap ^^ (v - 1)) g) = Some (w, d)" and "v \<noteq> 0"
  shows "d = actual \<and> v < w \<and> w \<le> v + n \<and> actual = (update_vmsa_page H ap ^^ (w - 1)) g
    \<and> (\<forall>u. v < u \<and> u < w \<longrightarrow> actual \<noteq> (update_vmsa_page H ap ^^ (u - 1)) g)"
  using assms
proof (induction n arbitrary: v)
  case (Suc n)
  have step: "update_vmsa_page H ap ((update_vmsa_page H ap ^^ (v - 1)) g) = (update_vmsa_page H ap ^^ v) g"
    using Suc.prems(2) by (cases v) simp_all
  show ?case
  proof (cases "actual = (update_vmsa_page H ap ^^ v) g")
    case True
    then show ?thesis using Suc.prems step by (auto simp: gctx_launch_digest_def Let_def)
  next
    case False
    then have "search_vcpus H ap actual n (Suc (Suc v)) ((update_vmsa_page H ap ^^ (Suc v - 1)) g) = Some (w, d)"
      using Suc.prems step by (simp add: gctx_launch_digest_def Let_def)
    note ih = Suc.IH [OF this nat.distinct(2)]
    show ?thesis
    proof (intro conjI allI impI)
      fix u assume u: "v < u \<and> u < w"
      show "actual \<noteq> (update_vmsa_page H ap ^^ (u - 1)) g"
      proof (cases "u = Suc v")
        case False
        then have "Suc v < u \<and> u < w" using u by auto
        then show ?thesis using ih by blast
      qed (use \<open>actual \<noteq> (update_vmsa_page H ap ^^ v) g\<close> in simp)
    qed (use ih in auto)
  qed
qed simp

lemma search_vcpus_missing:
  assumes "search_vcpus H ap actual n (Suc v) ((update_vmsa_page H ap ^^ (v - 1)) g) = None" and "v \<noteq> 0"
    and "v < u" and "u \<le> v + n"
  shows "actual \<noteq> (update_vmsa_page H ap ^^ (u - 1)) g"
  using assms
proof (induction n arbitrary: v)
  case (Suc n)
  have step: "update_vmsa_page H ap ((update_vmsa_page H ap ^^ (v - 1)) g) = (update_vmsa_page H ap ^^ v) g"
    using Suc.prems(2) by (cases v) simp_all
  have ne: "actual \<noteq> (update_vmsa_page H ap ^^ v) g"
    using Suc.prems step by (auto simp: gctx_launch_digest_def Let_def split: if_splits)
  then have "search_vcpus H ap actual n (Suc (Suc v)) ((update_vmsa_page H ap ^^ (Suc v - 1)) g) = None"
    using Suc.prems step by (simp add: gctx_launch_digest_def Let_def)
  from Suc.IH [OF this] Suc.prems(3,4) ne show ?case by (cases "u = Suc v") simp_all
qed simp

lemma extend_digest_power:
  "1 \<le> n \<Longrightarrow> n \<le> 65535 \<Longrightarrow> extend_snp_launch_digest H sd (int n) ap sig
     = Inr ((update_vmsa_page H (build_vmsa_save_area ap 1 sig) ^^ (n - 1)) sd)"
proof -
  assume n: "1 \<le> n" "n \<le> 65535"
  have "nat (int n - 1) = n - 1" and "int n = 1 \<longleftrightarrow> n = 1" using n by auto
  then show ?thesis using n
    by (auto simp: extend_snp_launch_digest_def gctx_launch_digest_def new_gctx_with_seed_def Let_def)
qed

text \<open>The optimised search agrees with extending the digest anew for every count.\<close>

lemma search_vcpus_first_extension:
  "search_vcpus H (build_vmsa_save_area ap 1 sig) actual max_vcpus 1 (new_gctx_with_seed sd) = Some (w, d) \<longleftrightarrow>
     1 \<le> w \<and> w \<le> 220 \<and> d = actual \<and> extend_snp_launch_digest H sd (int w) ap sig = Inr actual
     \<and> (\<forall>u. 1 \<le> u \<and> u < w \<longrightarrow> extend_snp_launch_digest H sd (int u) ap sig \<noteq> Inr actual)" (is "?L w d \<longleftrightarrow> ?R w d")
proof -
  define U where "U = update_vmsa_page H (build_vmsa_save_area ap 1 sig)"
  have ext: "1 \<le> u \<Longrightarrow> u \<le> 220 \<Longrightarrow> extend_snp_launch_digest H sd (int u) ap sig = Inr ((U ^^ (u - 1)) sd)" for u
    using extend_digest_power [of u H sd ap sig] by (simp add: U_def)
  have unfold: "search_vcpus H (build_vmsa_save_area ap 1 sig) actual max_vcpus 1 (new_gctx_with_seed sd)
      = (if actual = sd then Some (1, sd)
         else search_vcpus H (build_vmsa_save_area ap 1 sig) actual 219 (Suc 1)
           ((update_vmsa_page H (build_vmsa_save_area ap 1 sig) ^^ (1 - 1)) sd))"
  proof -
    have m: "max_vcpus = Suc 219" by (simp add: max_vcpus_def)
    show ?thesis by (simp only: m search_vcpus.simps Let_def new_gctx_with_seed_def gctx_launch_digest_def) simp
  qed
  have sound: "?R w d" if L: "?L w d" for w d
  proof (cases "actual = sd")
    case True
    then have "w = 1" "d = actual" using L unfold by simp_all
    then show ?thesis using True ext [of 1] by simp
  next
    case False
    note found = search_vcpus_found [OF L [unfolded unfold if_not_P [OF False]] one_neq_zero, folded U_def]
    have "extend_snp_launch_digest H sd (int u) ap sig \<noteq> Inr actual" if u: "1 \<le> u" "u < w" for u
    proof (cases "u = 1")
      case True
      then show ?thesis using False ext [of 1] by simp
    next
      case False
      then have "1 < u \<and> u < w" using u by auto
      then have "actual \<noteq> (U ^^ (u - 1)) sd" using found by blast
      moreover have "u \<le> 220" using found u by linarith
      ultimately show ?thesis using ext [OF u(1)] by simp
    qed
    then show ?thesis using found ext [of w] by auto
  qed
  have total: "\<exists>w d. ?L w d" if R: "?R w d" for w d
  proof (rule ccontr)
    assume "\<not> (\<exists>w d. ?L w d)"
    then have N: "search_vcpus H (build_vmsa_save_area ap 1 sig) actual max_vcpus 1 (new_gctx_with_seed sd) = None"
      by (cases "search_vcpus H (build_vmsa_save_area ap 1 sig) actual max_vcpus 1 (new_gctx_with_seed sd)") auto
    then have ne: "actual \<noteq> sd" using unfold by auto
    note missing = search_vcpus_missing [OF N [unfolded unfold if_not_P [OF ne]] one_neq_zero, folded U_def]
    show False using R missing [of w] ne ext [of w] by (cases "w = 1") auto
  qed
  show ?thesis
  proof
    assume R: "?R w d"
    then obtain w' d' where L: "?L w' d'" using total by blast
    note R' = sound [OF L]
    have "w' = w" using R R' by (meson linorder_neqE_nat)
    then show "?L w d" using L R R' by simp
  qed (rule sound)
qed

section \<open>XFAM\<close>

lemma validate_xfam_ok:
  "validate_xfam_ignoring_cet q r = None \<longleftrightarrow> length q = 8 \<and> length r = 8
     \<and> (\<forall>n. n \<noteq> 11 \<longrightarrow> n \<noteq> 12 \<longrightarrow> bit (xfam_word q) n = bit (xfam_word r) n)"
proof -
  have mask: "bit xfam_cet_mask n \<longleftrightarrow> n = 11 \<or> n = 12" for n
    by (simp only: xfam_cet_mask_def bit_or_iff bit_push_bit_iff bit_1_iff) auto
  have eq: "a AND NOT xfam_cet_mask = b AND NOT xfam_cet_mask
      \<longleftrightarrow> (\<forall>n. n \<noteq> 11 \<longrightarrow> n \<noteq> 12 \<longrightarrow> bit a n = bit b n)" for a b :: "64 word"
  proof
    assume "a AND NOT xfam_cet_mask = b AND NOT xfam_cet_mask"
    then have e: "bit (a AND NOT xfam_cet_mask) n = bit (b AND NOT xfam_cet_mask) n" for n by simp
    show "\<forall>n. n \<noteq> 11 \<longrightarrow> n \<noteq> 12 \<longrightarrow> bit a n = bit b n"
    proof (intro allI impI)
      fix n :: nat assume "n \<noteq> 11" "n \<noteq> 12"
      then show "bit a n = bit b n"
      proof (cases "n < 64")
        case True
        with e [of n] \<open>n \<noteq> 11\<close> \<open>n \<noteq> 12\<close> show ?thesis by (simp add: bit_and_iff bit_not_iff mask)
      next
        case False
        then show ?thesis by (auto dest: bit_imp_le_length)
      qed
    qed
  next
    assume "\<forall>n. n \<noteq> 11 \<longrightarrow> n \<noteq> 12 \<longrightarrow> bit a n = bit b n"
    then show "a AND NOT xfam_cet_mask = b AND NOT xfam_cet_mask"
      by (intro bit_word_eqI) (auto simp: bit_and_iff bit_not_iff mask)
  qed
  show ?thesis by (auto simp: validate_xfam_ignoring_cet_def Let_def eq)
qed

section \<open>TDX steps\<close>

lemma tdx_step_accepts:
  "tdx_validator_step T vo allowed opts oi doc rd = ((None, reps), opts') \<longleftrightarrow>
     oi = raw_tdx_report \<and> (\<exists>q. unmarshal_quote T doc = Inr q \<and> verify_quote T q vo = None
        \<and> (\<forall>x. to_xfam opts = Some x \<longrightarrow> validate_xfam_ignoring_cet (tq_xfam q) x = None)
        \<and> check_quote T q (opts\<lparr>to_report_data := rd, to_xfam := None\<rparr>) = None
        \<and> (allowed = [] \<or> (\<exists>p\<in>set allowed. get_piid T q = Inr p))
        \<and> reps = [tdx_report_of (tdx_asn1 T) q] \<and> opts' = opts\<lparr>to_report_data := rd, to_xfam := None\<rparr>)"
  by (cases "to_xfam opts")
    (auto simp: tdx_validator_step_def piid_allowed_def Let_def split: if_splits sum.splits option.splits)

text \<open>
  The first validation that gets past XFAM clears it, so a second one with the same object no
  longer compares XFAM at all.
\<close>

lemma tdx_second_use_ignores_xfam:
  assumes "tdx_validator_step T vo allowed opts oi doc rd = ((None, reps), opts1)"
    and "unmarshal_quote T doc' = Inr q" and "verify_quote T q vo = None"
    and "check_quote T q (opts\<lparr>to_report_data := rd', to_xfam := None\<rparr>) = None"
    and "allowed = [] \<or> (\<exists>p\<in>set allowed. get_piid T q = Inr p)"
  shows "tdx_validator_step T vo allowed opts1 raw_tdx_report doc' rd'
    = ((None, [tdx_report_of (tdx_asn1 T) q]), opts\<lparr>to_report_data := rd', to_xfam := None\<rparr>)"
proof -
  have "opts1 = opts\<lparr>to_report_data := rd, to_xfam := None\<rparr>" using assms(1) by (auto simp: tdx_step_accepts)
  then show ?thesis using assms(2-) by (auto simp: tdx_step_accepts)
qed

section \<open>Insecure documents\<close>

lemma insecure_accepts:
  "insecure_validate J oi doc rd = (None, reps) \<longleftrightarrow> oi = raw_insecure_report
     \<and> (\<exists>hd'. J doc = Inr (rd, hd') \<and> reps = [\<lparr>host_data = hd', claims_to_cert_extension = Inr []\<rparr>])"
  by (auto simp: insecure_validate_def split: sum.splits if_splits)

end
