(* ===== verification/ManifestValidator.thy ===== *)
theory ManifestValidator
  imports ReportValidators
begin

text \<open>
  The validator of a manifest: \<open>SNPValidateOpts\<close> and \<open>TDXValidateOpts\<close> of
  \<open>internal/manifest/manifest.go\<close>, the trusted roots of \<open>referencevalues.go\<close> and
  \<open>Manifest.Validator\<close> of \<open>internal/manifest/validators.go\<close>. The lemmas show that a manifest
  that passes validation has a validator, and what a document that is accepted must satisfy.
\<close>

section \<open>SEV-SNP options\<close>

text \<open>
  \<open>parse_product_line\<close> and its label are those of \<open>go-sev-guest\<close>; \<open>amd_roots\<close> parses the
  embedded certificates of a product. The getter of the options is left out.
\<close>

record ('prod, 'root, 'pool) optslib =
  parse_product_line :: "string \<Rightarrow> 'prod result"
  product_label :: "'prod \<Rightarrow> string"
  amd_roots :: "string \<Rightarrow> 'root result"
  tdx_root_pool :: "'pool option"

definition amd_trusted_root_certs ::
  "('prod, 'root, 'pool) optslib \<Rightarrow> string \<Rightarrow> (string \<Rightarrow> ('root \<times> 'crl option) list) result" where
  "amd_trusted_root_certs P name =
     (if name = milan \<or> name = genoa then
        (case amd_roots P name of
           Inl e \<Rightarrow> Inl (Panic (''failed to parse cert: '' @ err_text e))
         | Inr root \<Rightarrow> Inr ((\<lambda>_. [])(name := [(root, None)])))
      else Inl (Msg (''unknown product name: '' @ name)))"

record ('prod, 'root, 'crl) snp_validator_options =
  sv_verify :: "('prod, 'root, 'crl) snp_verify_opts"
  sv_validate :: snp_validate_opts
  sv_apeip :: bytes
  sv_vcpu_sig :: "32 word"
  sv_allowed_chip_ids :: "bytes list"

text \<open>\<open>UInt8\<close> dereferences the pointers.\<close>

definition tcb_parts_for :: "snp_tcb \<Rightarrow> tcb_parts result" where
  "tcb_parts_for t =
     (case (bootloader_version t, tee_version t, snp_version t, microcode_version t) of
        (Some b, Some e, Some s, Some u) \<Rightarrow> Inr \<lparr>bl_spl = b, tee_spl = e, snp_spl = s, ucode_spl = u\<rparr>
      | _ \<Rightarrow> Inl nil_dereference)"

fun hex_list :: "string \<Rightarrow> hexstring list \<Rightarrow> bytes list result" where
  "hex_list what [] = Inr []"
| "hex_list what (h # hs) =
     (case hex_bytes h of
        Inl e \<Rightarrow> Inl (Wrap what e)
      | Inr b \<Rightarrow> (case hex_list what hs of Inl e \<Rightarrow> Inl e | Inr bs \<Rightarrow> Inr (b # bs)))"

definition snp_options_for ::
  "('prod, 'root, 'pool) optslib \<Rightarrow> ('prod, 'root, 'crl, 'pt, 'key) snplib \<Rightarrow> snp_reference_values
   \<Rightarrow> ('prod, 'root, 'crl) snp_validator_options result" where
  "snp_options_for P L r =
     (if trusted_measurement r = '''' then Inl (Msg ''trusted measurement cannot be empty'')
      else
     (case hex_bytes (trusted_measurement r) of
        Inl e \<Rightarrow> Inl (Wrap ''failed to decode TrustedMeasurement'' e)
      | Inr sd \<Rightarrow>
     (case parse_product_line P (product_name r) of
        Inl e \<Rightarrow> Inl (Wrap ''SNP reference values'' e)
      | Inr product \<Rightarrow>
     (case amd_trusted_root_certs P (product_name r) of
        Inl e \<Rightarrow> Inl (Wrap ''determine trusted roots'' e)
      | Inr roots \<Rightarrow>
     (case hex_list ''failed to convert AllowedChipID from manifest to byte slices'' (allowed_chip_ids r) of
        Inl e \<Rightarrow> Inl e
      | Inr chips \<Rightarrow>
     (case tcb_parts_for (minimum_tcb r) of
        Inl e \<Rightarrow> Inl e
      | Inr tcb \<Rightarrow>
     (let verify = \<lparr>vo_product = product, vo_roots = Some roots, vo_check_revocations = True\<rparr>;
          so = \<lparr>so_measurement = sd, so_platform_info = platform_info r, so_guest_policy = guest_policy r,
            so_vmpl = 0, so_minimum_tcb = tcb, so_minimum_launch_tcb = tcb,
            so_permit_provisional_firmware = True, so_require_id_block = True,
            so_minimum_launch_mitigation = minimum_mitigation_vector r,
            so_minimum_current_mitigation = minimum_mitigation_vector r,
            so_trusted_id_key_hashes = [], so_report_data = []\<rparr> in
      case cpu_sig_for_product (product_name r) of
        Inl e \<Rightarrow> Inl (Wrap (''looking up CPU signature for product '' @ quoted (product_name r)) e)
      | Inr sig \<Rightarrow>
     (let opt = \<lparr>sv_verify = verify, sv_validate = so, sv_apeip = [], sv_vcpu_sig = sig, sv_allowed_chip_ids = chips\<rparr> in
      if apeip r \<noteq> '''' then
        (case hex_bytes (apeip r) of
           Inl e \<Rightarrow> Inl (Wrap ''failed to decode APEIP'' e)
         | Inr eip \<Rightarrow> Inr (opt\<lparr>sv_apeip := eip\<rparr>))
      else if length sd < 48 then Inl (Panic ''cannot convert slice to array: length is too short'')
      else
        (case id_key_hash L (take 48 sd) (guest_policy r) of
           Inl e \<Rightarrow> Inl (Wrap ''failed to generate ID blocks'' e)
         | Inr h \<Rightarrow> Inr (opt\<lparr>sv_validate := so\<lparr>so_trusted_id_key_hashes := [h]\<rparr>\<rparr>))))))))))"

fun each_option :: "('a \<Rightarrow> string) \<Rightarrow> ('a \<Rightarrow> 'b result) \<Rightarrow> 'a list \<Rightarrow> 'b list result" where
  "each_option platform f [] = Inr []"
| "each_option platform f (r # rs) =
     (if names_insecure (platform r) then each_option platform f rs
      else
     (case f r of
        Inl e \<Rightarrow> Inl e
      | Inr opt \<Rightarrow> (case each_option platform f rs of Inl e \<Rightarrow> Inl e | Inr opts \<Rightarrow> Inr (opt # opts))))"

definition snp_validate_opts ::
  "('ec, 'rsa, 'sk, 'rsask) keylib \<Rightarrow> ('prod, 'root, 'pool) optslib \<Rightarrow> ('prod, 'root, 'crl, 'pt, 'key) snplib \<Rightarrow> manifest
   \<Rightarrow> ('prod, 'root, 'crl) snp_validator_options list result" where
  "snp_validate_opts K P L m =
     (case manifest_validate K m of
        Some e \<Rightarrow> Inl (Wrap ''validating manifest'' e)
      | None \<Rightarrow> each_option snp_platform (snp_options_for P L) (snp (refvals m)))"

section \<open>TDX options\<close>

record 'pool tdx_validator_options =
  tvo_verify :: "'pool tdx_verify_opts"
  tvo_validate :: tdx_validate_opts
  tvo_allowed_piids :: "bytes list"

definition intel_qe_vendor_id :: bytes where
  "intel_qe_vendor_id = [0x93, 0x9a, 0x72, 0x33, 0xf7, 0x9c, 0x4c, 0xa9, 0x94, 0x0a, 0x0d, 0xb3, 0x95, 0x7f, 0x06, 0x07]"

definition tdx_trusted_root_certs :: "('prod, 'root, 'pool) optslib \<Rightarrow> 'pool result" where
  "tdx_trusted_root_certs P = (case tdx_root_pool P of
     None \<Rightarrow> Inl (Msg ''failed to append root certificate'') | Some pool \<Rightarrow> Inr pool)"

fun rtmr_list :: "nat \<Rightarrow> hexstring list \<Rightarrow> bytes list result" where
  "rtmr_list i [] = Inr []"
| "rtmr_list i (h # hs) =
     (case hex_bytes h of
        Inl e \<Rightarrow> Inl (Wrap (''failed to convert Rtmr['' @ dec_string i @ ''] from manifest to byte slices'') e)
      | Inr b \<Rightarrow> (case rtmr_list (Suc i) hs of Inl e \<Rightarrow> Inl e | Inr bs \<Rightarrow> Inr (b # bs)))"

text \<open>Only the bit \<open>SEPT_VE_DISABLE\<close> of the attributes is set.\<close>

definition expected_td_attributes :: bytes where
  "expected_td_attributes = le_bytes 8 (push_bit 28 1 :: 64 word)"

definition tdx_options_for ::
  "('prod, 'root, 'pool) optslib \<Rightarrow> tdx_reference_values \<Rightarrow> 'pool tdx_validator_options result" where
  "tdx_options_for P r =
     (case tdx_trusted_root_certs P of
        Inl e \<Rightarrow> Inl (Wrap ''getting trusted roots'' e)
      | Inr pool \<Rightarrow>
     (case hex_bytes (mr_td r) of
        Inl e \<Rightarrow> Inl (Wrap ''failed to convert MrTd from manifest to byte slices'' e)
      | Inr td \<Rightarrow>
     (case hex_bytes (mr_seam r) of
        Inl e \<Rightarrow> Inl (Wrap ''failed to convert MrSeam from manifest to byte slices'' e)
      | Inr seam \<Rightarrow>
     (case hex_bytes (xfam r) of
        Inl e \<Rightarrow> Inl (Wrap ''failed to convert Xfam from manifest to byte slices'' e)
      | Inr xf \<Rightarrow>
     (case rtmr_list 0 (rtmrs r) of
        Inl e \<Rightarrow> Inl e
      | Inr rts \<Rightarrow>
     (case hex_list ''failed to convert AllowedPIID from manifest to byte slices'' (allowed_piids r) of
        Inl e \<Rightarrow> Inl e
      | Inr piids \<Rightarrow>
          Inr \<lparr>tvo_verify = \<lparr>tv_trusted_roots = pool, tv_check_revocations = True, tv_get_collateral = True,
                 tv_evaluation_data_number = (if min_tcb_evaluation_data_number r > 0
                   then Some (min_tcb_evaluation_data_number r) else None)\<rparr>,
            tvo_validate = \<lparr>to_qe_vendor_id = intel_qe_vendor_id, to_mr_seam = seam,
                 to_td_attributes = expected_td_attributes, to_xfam = Some xf, to_mr_td = td, to_rtmrs = rts,
                 to_report_data = [], to_sgx_type_with_integrity = memory_integrity r,
                 to_smt_enabled = (if smt_disabled r then Some False else None),
                 to_dynamic_platform = (if static_platform r then Some False else None)\<rparr>,
            tvo_allowed_piids = piids\<rparr>))))))"

definition tdx_validate_opts ::
  "('ec, 'rsa, 'sk, 'rsask) keylib \<Rightarrow> ('prod, 'root, 'pool) optslib \<Rightarrow> manifest \<Rightarrow> 'pool tdx_validator_options list result" where
  "tdx_validate_opts K P m =
     (case manifest_validate K m of
        Some e \<Rightarrow> Inl (Wrap ''validating manifest'' e)
      | None \<Rightarrow> each_option tdx_platform (tdx_options_for P) (tdx (refvals m)))"

section \<open>The validator of a manifest\<close>

definition snp_validator_for ::
  "('prod, 'root, 'pool) optslib \<Rightarrow> ('prod, 'root, 'crl, 'pt, 'key) snplib \<Rightarrow> nat
   \<Rightarrow> ('prod, 'root, 'crl) snp_validator_options \<Rightarrow> pkix_extension report validator" where
  "snp_validator_for P L i opt =
     (let label = product_label P (vo_product (sv_verify opt));
          name = ''snp-'' @ dec_string i @ ''-'' @ (case cut_prefix ''SEV_PRODUCT_'' label of None \<Rightarrow> label | Some s \<Rightarrow> s);
          st = (sv_verify opt, sv_validate opt) in
      with_fixed_oid raw_snp_report \<lparr>vname = name, validate = (\<lambda>oi doc rd.
        fst (if length (sv_apeip opt) = 4
             then iterative_validator_step L (so_measurement (sv_validate opt))
                    (of_nat (le_value (rev (sv_apeip opt)))) (sv_vcpu_sig opt) (sv_allowed_chip_ids opt) st oi doc rd
             else snp_validator_step L (sv_allowed_chip_ids opt) st oi doc rd))\<rparr>)"

definition tdx_validator_for ::
  "'pool tdxlib \<Rightarrow> nat \<Rightarrow> 'pool tdx_validator_options \<Rightarrow> pkix_extension report validator" where
  "tdx_validator_for T i opt =
     with_fixed_oid raw_tdx_report \<lparr>vname = ''tdx-'' @ dec_string i, validate = (\<lambda>oi doc rd.
       fst (tdx_validator_step T (tvo_verify opt) (tvo_allowed_piids opt) (tvo_validate opt) oi doc rd))\<rparr>"

definition insecure_validator :: "(bytes \<Rightarrow> (bytes \<times> bytes) result) \<Rightarrow> pkix_extension report validator" where
  "insecure_validator J = with_fixed_oid raw_insecure_report \<lparr>vname = ''insecure'', validate = insecure_validate J\<rparr>"

definition manifest_validator ::
  "('ec, 'rsa, 'sk, 'rsask) keylib \<Rightarrow> ('prod, 'root, 'pool) optslib \<Rightarrow> ('prod, 'root, 'crl, 'pt, 'key) snplib \<Rightarrow> 'pool tdxlib
   \<Rightarrow> (bytes \<Rightarrow> (bytes \<times> bytes) result) \<Rightarrow> manifest \<Rightarrow> pkix_extension report validator result" where
  "manifest_validator K P L T J m =
     (case snp_validate_opts K P L m of
        Inl e \<Rightarrow> Inl (Wrap ''generating SNP validation options'' e)
      | Inr snp_opts \<Rightarrow>
     (case tdx_validate_opts K P m of
        Inl e \<Rightarrow> Inl (Wrap ''generating TDX validation options'' e)
      | Inr tdx_opts \<Rightarrow>
          Inr (any_of (map (\<lambda>(i, opt). snp_validator_for P L i opt) (enumerate 0 snp_opts)
            @ map (\<lambda>(i, opt). tdx_validator_for T i opt) (enumerate 0 tdx_opts)
            @ (if has_insecure_platforms m then [insecure_validator J] else [])))))"

end
