(* ===== verification/ManifestValidatorFacts.thy ===== *)
theory ManifestValidatorFacts
  imports ManifestValidator
begin

text \<open>
  What the validator of a manifest accepts, and when there is one: an accepted document is
  verified and matches, field by field, a reference value of the manifest; a manifest that passes
  its validation has a validator as soon as its platform ids, which that validation does not look
  at, are hexadecimal.
\<close>

section \<open>Options\<close>

lemma each_option_total:
  assumes "\<And>r. r \<in> set rs \<Longrightarrow> \<not> names_insecure (platform r) \<Longrightarrow> \<exists>opt. f r = Inr opt"
  shows "\<exists>opts. each_option platform f rs = Inr opts"
  using assms by (induction rs) (auto, fastforce)

lemma each_option_mem:
  assumes "each_option platform f rs = Inr opts" and "opt \<in> set opts"
  shows "\<exists>r\<in>set rs. \<not> names_insecure (platform r) \<and> f r = Inr opt"
  using assms by (induction rs arbitrary: opts) (auto split: if_splits sum.splits)

lemma hex_of_size_bytes: "hex_of_size n h \<longleftrightarrow> (\<exists>b. hex_bytes h = Inr b \<and> length b = n)"
  by (simp add: hex_of_size_def hex_bytes_def)

lemma hex_list_total: "\<forall>h\<in>set hs. \<exists>b. hex_bytes h = Inr b \<Longrightarrow> \<exists>bs. hex_list w hs = Inr bs"
  by (induction hs) auto

lemma rtmr_list_total: "\<forall>h\<in>set hs. \<exists>b. hex_bytes h = Inr b \<Longrightarrow> \<exists>bs. rtmr_list i hs = Inr bs"
proof (induction hs arbitrary: i)
  case (Cons h hs)
  then obtain b bs where "hex_bytes h = Inr b" and "rtmr_list (Suc i) hs = Inr bs" by fastforce
  then show ?case by simp
qed simp

lemma hex_list_set: "hex_list w hs = Inr bs \<Longrightarrow> b \<in> set bs \<longleftrightarrow> (\<exists>h\<in>set hs. hex_bytes h = Inr b)"
  by (induction hs arbitrary: bs) (auto split: sum.splits)

lemma hex_list_Nil: "hex_list w hs = Inr [] \<longleftrightarrow> hs = []"
  by (cases hs) (auto split: sum.splits)

section \<open>What an accepted SNP document satisfies\<close>

text \<open>
  The requirement of one reference value: the document holds a verified report with the
  expected measurement, of one virtual CPU or, with a reset address, of up to 220 of them; the
  library found its claims within the given policy, platform, versions, key hashes and report
  data; and its chip is allowed.
\<close>

definition measurement_meets :: "(bytes \<Rightarrow> bytes) \<Rightarrow> snp_reference_values \<Rightarrow> 32 word \<Rightarrow> bytes \<Rightarrow> bool" where
  "measurement_meets H r sig ld \<longleftrightarrow> (\<exists>sd eip. hex_bytes (trusted_measurement r) = Inr sd \<and>
     (if apeip r = '''' then ld = sd
      else hex_bytes (apeip r) = Inr eip
        \<and> (\<exists>n. 1 \<le> n \<and> n \<le> 220 \<and> extend_snp_launch_digest H sd (int n) (of_nat (le_value (rev eip))) sig = Inr ld)))"

definition snp_document_meets ::
  "('prod, 'root, 'pool) optslib \<Rightarrow> ('prod, 'root, 'crl, 'pt, 'key) snplib \<Rightarrow> snp_reference_values
   \<Rightarrow> bytes \<Rightarrow> bytes \<Rightarrow> snp_report \<Rightarrow> bool" where
  "snp_document_meets P L r doc rd rep \<longleftrightarrow>
     (\<exists>att vo so sig tcb ld h roots.
        unmarshal_attestation L doc = Inr att \<and> sa_report att = Some rep \<and> verify_attestation L att vo = None
        \<and> parse_product_line P (product_name r) = Inr (vo_product vo) \<and> vo_check_revocations vo
        \<and> amd_roots P (product_name r) = Inr roots \<and> cpu_sig_for_product (product_name r) = Inr sig
        \<and> check_claims L att so = None \<and> so_report_data so = rd \<and> so_measurement so = ld
        \<and> measurement_meets (sha384_fun L) r sig ld \<and> (apeip r \<noteq> '''' \<longrightarrow> sr_measurement rep = ld)
        \<and> id_key_hash L ld (guest_policy r) = Inr h \<and> so_trusted_id_key_hashes so = [h]
        \<and> so_guest_policy so = guest_policy r \<and> so_platform_info so = platform_info r \<and> so_vmpl so = 0
        \<and> so_require_id_block so \<and> tcb_parts_for (minimum_tcb r) = Inr tcb
        \<and> so_minimum_tcb so = tcb \<and> so_minimum_launch_tcb so = tcb
        \<and> (allowed_chip_ids r = [] \<or> (\<exists>c\<in>set (allowed_chip_ids r). hex_bytes c = Inr (sr_chip_id rep))))"

lemma add_crl_keeps:
  assumes "add_crl L att rep vo = Inr vo'"
  shows "vo_product vo' = vo_product vo" and "vo_check_revocations vo' = vo_check_revocations vo"
  using assms by (auto simp: add_crl_def Let_def split: option.splits sum.splits)

lemma snp_verified_opts:
  assumes "snp_verified L vo doc = (Inr (att, rep), vo')"
  shows "vo_product vo' = vo_product vo \<and> vo_check_revocations vo' = vo_check_revocations vo"
  using assms add_crl_keeps by (fastforce simp: snp_verified_def Let_def split: sum.splits option.splits)

lemma amd_trusted_root_certs_ok:
  "amd_trusted_root_certs P name = Inr roots \<Longrightarrow> \<exists>root. amd_roots P name = Inr root"
  by (auto simp: amd_trusted_root_certs_def split: if_splits sum.splits)

text \<open>What the options of a reference value hold, before and after any number of validations.\<close>

definition snp_options_match ::
  "('prod, 'root, 'pool) optslib \<Rightarrow> ('prod, 'root, 'crl, 'pt, 'key) snplib \<Rightarrow> snp_reference_values
   \<Rightarrow> ('prod, 'root, 'crl) snp_validator_options \<Rightarrow> bool" where
  "snp_options_match P L r opt \<longleftrightarrow>
     (\<exists>sd chips tcb. hex_bytes (trusted_measurement r) = Inr sd
    \<and> parse_product_line P (product_name r) = Inr (vo_product (sv_verify opt)) \<and> vo_check_revocations (sv_verify opt)
    \<and> (\<exists>root. amd_roots P (product_name r) = Inr root) \<and> cpu_sig_for_product (product_name r) = Inr (sv_vcpu_sig opt)
    \<and> hex_list ''failed to convert AllowedChipID from manifest to byte slices'' (allowed_chip_ids r) = Inr chips
    \<and> sv_allowed_chip_ids opt = chips \<and> tcb_parts_for (minimum_tcb r) = Inr tcb
    \<and> so_measurement (sv_validate opt) = sd \<and> so_guest_policy (sv_validate opt) = guest_policy r
    \<and> so_platform_info (sv_validate opt) = platform_info r \<and> so_vmpl (sv_validate opt) = 0
    \<and> so_require_id_block (sv_validate opt) \<and> so_minimum_tcb (sv_validate opt) = tcb
    \<and> so_minimum_launch_tcb (sv_validate opt) = tcb
    \<and> (apeip r \<noteq> '''' \<longrightarrow> hex_bytes (apeip r) = Inr (sv_apeip opt))
    \<and> (apeip r = '''' \<longrightarrow> sv_apeip opt = [] \<and> 48 \<le> length sd
      \<and> (\<exists>h. id_key_hash L (take 48 sd) (guest_policy r) = Inr h \<and> so_trusted_id_key_hashes (sv_validate opt) = [h])))"

lemma snp_options_ok: "snp_options_for P L r = Inr opt \<Longrightarrow> snp_options_match P L r opt"
  using amd_trusted_root_certs_ok
  by (auto simp: snp_options_match_def snp_options_for_def Let_def split: if_splits sum.splits)

text \<open>A validator that accepts found the document to meet its reference value.\<close>

lemma snp_validator_accepts:
  assumes opt: "snp_options_match P L r opt" and ok: "snp_complete r"
    and acc: "validate (snp_validator_for P L i opt) oi doc rd = (None, reps)"
  shows "\<exists>rep. snp_document_meets P L r doc rd rep \<and> reps = [snp_report_of (sev_abi L) (snp_asn1 L) rep]"
proof -
  obtain sd chips tcb where o': "hex_bytes (trusted_measurement r) = Inr sd"
    "parse_product_line P (product_name r) = Inr (vo_product (sv_verify opt))" "vo_check_revocations (sv_verify opt)"
    "\<exists>root. amd_roots P (product_name r) = Inr root" "cpu_sig_for_product (product_name r) = Inr (sv_vcpu_sig opt)"
    "hex_list ''failed to convert AllowedChipID from manifest to byte slices'' (allowed_chip_ids r) = Inr chips"
    "sv_allowed_chip_ids opt = chips" "tcb_parts_for (minimum_tcb r) = Inr tcb"
    "so_measurement (sv_validate opt) = sd" "so_guest_policy (sv_validate opt) = guest_policy r"
    "so_platform_info (sv_validate opt) = platform_info r" "so_vmpl (sv_validate opt) = 0"
    "so_require_id_block (sv_validate opt)" "so_minimum_tcb (sv_validate opt) = tcb"
    "so_minimum_launch_tcb (sv_validate opt) = tcb"
    "apeip r \<noteq> '''' \<longrightarrow> hex_bytes (apeip r) = Inr (sv_apeip opt)"
    "apeip r = '''' \<longrightarrow> sv_apeip opt = [] \<and> 48 \<le> length sd
      \<and> (\<exists>h. id_key_hash L (take 48 sd) (guest_policy r) = Inr h \<and> so_trusted_id_key_hashes (sv_validate opt) = [h])"
    using opt unfolding snp_options_match_def by blast
  have sd48: "length sd = 48" using ok o'(1) by (auto simp: snp_complete_def hex_of_size_bytes)
  have chips: "chips = [] \<or> c \<in> set chips \<Longrightarrow>
      allowed_chip_ids r = [] \<or> (\<exists>h\<in>set (allowed_chip_ids r). hex_bytes h = Inr c)" for c
    using o'(6) hex_list_set [OF o'(6), of c]
      hex_list_Nil [of "''failed to convert AllowedChipID from manifest to byte slices''" "allowed_chip_ids r"] by auto
  obtain root where root: "amd_roots P (product_name r) = Inr root" using o'(4) by blast
  show ?thesis
  proof (cases "apeip r = ''''")
    case True
    then obtain h where h: "id_key_hash L sd (guest_policy r) = Inr h" "so_trusted_id_key_hashes (sv_validate opt) = [h]"
      using o'(17) sd48 by auto
    from True have "snp_validator_step L chips (sv_verify opt, sv_validate opt) raw_snp_report doc rd
        = ((None, reps), snd (snp_validator_step L chips (sv_verify opt, sv_validate opt) raw_snp_report doc rd))"
      using acc o'(7,17) by (simp add: snp_validator_for_def with_fixed_oid_def Let_def prod_eq_iff)
    then obtain att rep vo' where v: "snp_verified L (sv_verify opt) doc = (Inr (att, rep), vo')"
      and c: "check_claims L att ((sv_validate opt)\<lparr>so_report_data := rd\<rparr>) = None"
      and chip: "chips = [] \<or> sr_chip_id rep \<in> set chips"
      and reps: "reps = [snp_report_of (sev_abi L) (snp_asn1 L) rep]"
      unfolding snp_step_accepts by blast
    have "snp_document_meets P L r doc rd rep"
      unfolding snp_document_meets_def measurement_meets_def
      using snp_verified_ok [OF v] snp_verified_opts [OF v] c chips [OF chip] o' True root h
      by (intro exI [of _ att] exI [of _ vo'] exI [of _ "(sv_validate opt)\<lparr>so_report_data := rd\<rparr>"]
          exI [of _ "sv_vcpu_sig opt"] exI [of _ tcb] exI [of _ sd] exI [of _ h] exI [of _ root]) auto
    then show ?thesis using reps by blast
  next
    case False
    then have eip: "hex_bytes (apeip r) = Inr (sv_apeip opt)" using o'(16) by blast
    then have "length (sv_apeip opt) = 4" using ok False by (auto simp: snp_complete_def hex_of_size_bytes)
    then have "iterative_validator_step L sd (of_nat (le_value (rev (sv_apeip opt)))) (sv_vcpu_sig opt) chips
          (sv_verify opt, sv_validate opt) raw_snp_report doc rd
        = ((None, reps), snd (iterative_validator_step L sd (of_nat (le_value (rev (sv_apeip opt)))) (sv_vcpu_sig opt) chips
          (sv_verify opt, sv_validate opt) raw_snp_report doc rd))"
      using acc o'(7,9) by (simp add: snp_validator_for_def with_fixed_oid_def Let_def prod_eq_iff)
    then obtain att rep vo' n d h where v: "snp_verified L (sv_verify opt) doc = (Inr (att, rep), vo')"
      and s: "search_vcpus (sha384_fun L) (build_vmsa_save_area (of_nat (le_value (rev (sv_apeip opt)))) 1 (sv_vcpu_sig opt))
            (sr_measurement rep) max_vcpus 1 (new_gctx_with_seed sd) = Some (n, d)"
      and h: "id_key_hash L d (so_guest_policy (sv_validate opt)) = Inr h"
      and c: "check_claims L att ((sv_validate opt)\<lparr>so_measurement := d, so_trusted_id_key_hashes := [h], so_report_data := rd\<rparr>) = None"
      and chip: "chips = [] \<or> sr_chip_id rep \<in> set chips"
      and reps: "reps = [snp_report_of (sev_abi L) (snp_asn1 L) rep]"
      unfolding iterative_step_accepts by blast
    have m: "measurement_meets (sha384_fun L) r (sv_vcpu_sig opt) d" and d: "sr_measurement rep = d"
      using s o'(1) eip False unfolding search_vcpus_first_extension measurement_meets_def by auto
    have "snp_document_meets P L r doc rd rep"
      unfolding snp_document_meets_def
      using snp_verified_ok [OF v] snp_verified_opts [OF v] c h chips [OF chip] o' False m d root
      by (intro exI [of _ att] exI [of _ vo']
          exI [of _ "(sv_validate opt)\<lparr>so_measurement := d, so_trusted_id_key_hashes := [h], so_report_data := rd\<rparr>"]
          exI [of _ "sv_vcpu_sig opt"] exI [of _ tcb] exI [of _ d] exI [of _ h] exI [of _ root]) auto
    then show ?thesis using reps by blast
  qed
qed

section \<open>What an accepted TDX document satisfies\<close>

definition tdx_document_meets ::
  "('prod, 'root, 'pool) optslib \<Rightarrow> 'pool tdxlib \<Rightarrow> bool \<Rightarrow> tdx_reference_values \<Rightarrow> bytes \<Rightarrow> bytes \<Rightarrow> tdx_quote \<Rightarrow> bool" where
  "tdx_document_meets P T xf r doc rd q \<longleftrightarrow>
     (\<exists>vo opts x pool. tdx_root_pool P = Some pool \<and> tv_trusted_roots vo = pool \<and> tv_check_revocations vo
        \<and> unmarshal_quote T doc = Inr q \<and> verify_quote T q vo = None \<and> check_quote T q opts = None
        \<and> to_report_data opts = rd \<and> hex_bytes (mr_td r) = Inr (to_mr_td opts)
        \<and> hex_bytes (mr_seam r) = Inr (to_mr_seam opts) \<and> rtmr_list 0 (rtmrs r) = Inr (to_rtmrs opts)
        \<and> to_qe_vendor_id opts = intel_qe_vendor_id \<and> to_td_attributes opts = expected_td_attributes
        \<and> hex_bytes (xfam r) = Inr x \<and> (xf \<longrightarrow> validate_xfam_ignoring_cet (tq_xfam q) x = None)
        \<and> (allowed_piids r = [] \<or> (\<exists>c\<in>set (allowed_piids r). \<exists>p. hex_bytes c = Inr p \<and> get_piid T q = Inr p)))"

text \<open>The expected XFAM is in the options until it is cleared; \<open>xf\<close> says that it still is.\<close>

definition tdx_options_match ::
  "('prod, 'root, 'pool) optslib \<Rightarrow> bool \<Rightarrow> tdx_reference_values \<Rightarrow> 'pool tdx_validator_options \<Rightarrow> bool" where
  "tdx_options_match P xf r opt \<longleftrightarrow>
     (\<exists>pool x piids. tdx_root_pool P = Some pool \<and> tv_trusted_roots (tvo_verify opt) = pool
    \<and> tv_check_revocations (tvo_verify opt) \<and> hex_bytes (mr_td r) = Inr (to_mr_td (tvo_validate opt))
    \<and> hex_bytes (mr_seam r) = Inr (to_mr_seam (tvo_validate opt))
    \<and> rtmr_list 0 (rtmrs r) = Inr (to_rtmrs (tvo_validate opt))
    \<and> to_qe_vendor_id (tvo_validate opt) = intel_qe_vendor_id
    \<and> to_td_attributes (tvo_validate opt) = expected_td_attributes
    \<and> hex_bytes (xfam r) = Inr x \<and> (xf \<longrightarrow> to_xfam (tvo_validate opt) = Some x)
    \<and> hex_list ''failed to convert AllowedPIID from manifest to byte slices'' (allowed_piids r) = Inr piids
    \<and> tvo_allowed_piids opt = piids)"

lemma tdx_options_ok: "tdx_options_for P r = Inr opt \<Longrightarrow> tdx_options_match P True r opt"
  by (auto simp: tdx_options_match_def tdx_options_for_def tdx_trusted_root_certs_def split: sum.splits option.splits)

lemma tdx_validator_accepts:
  assumes opt: "tdx_options_match P xf r opt"
    and acc: "validate (tdx_validator_for T i opt) oi doc rd = (None, reps)"
  shows "\<exists>q. tdx_document_meets P T xf r doc rd q \<and> reps = [tdx_report_of (tdx_asn1 T) q]"
proof -
  obtain pool x piids where o': "tdx_root_pool P = Some pool" "tv_trusted_roots (tvo_verify opt) = pool"
    "tv_check_revocations (tvo_verify opt)" "hex_bytes (mr_td r) = Inr (to_mr_td (tvo_validate opt))"
    "hex_bytes (mr_seam r) = Inr (to_mr_seam (tvo_validate opt))"
    "rtmr_list 0 (rtmrs r) = Inr (to_rtmrs (tvo_validate opt))"
    "to_qe_vendor_id (tvo_validate opt) = intel_qe_vendor_id"
    "to_td_attributes (tvo_validate opt) = expected_td_attributes"
    "hex_bytes (xfam r) = Inr x" "xf \<longrightarrow> to_xfam (tvo_validate opt) = Some x"
    "hex_list ''failed to convert AllowedPIID from manifest to byte slices'' (allowed_piids r) = Inr piids"
    "tvo_allowed_piids opt = piids"
    using opt unfolding tdx_options_match_def by blast
  have "tdx_validator_step T (tvo_verify opt) piids (tvo_validate opt) raw_tdx_report doc rd
      = ((None, reps), snd (tdx_validator_step T (tvo_verify opt) piids (tvo_validate opt) raw_tdx_report doc rd))"
    using acc o'(12) by (simp add: tdx_validator_for_def with_fixed_oid_def prod_eq_iff)
  then obtain q where q: "unmarshal_quote T doc = Inr q" "verify_quote T q (tvo_verify opt) = None"
      "xf \<longrightarrow> validate_xfam_ignoring_cet (tq_xfam q) x = None"
      "check_quote T q ((tvo_validate opt)\<lparr>to_report_data := rd, to_xfam := None\<rparr>) = None"
    and piid: "piids = [] \<or> (\<exists>p\<in>set piids. get_piid T q = Inr p)"
    and reps: "reps = [tdx_report_of (tdx_asn1 T) q]"
    unfolding tdx_step_accepts using o'(10) by auto
  have "allowed_piids r = [] \<or> (\<exists>c\<in>set (allowed_piids r). \<exists>p. hex_bytes c = Inr p \<and> get_piid T q = Inr p)"
    using piid o'(11) hex_list_set [OF o'(11)]
      hex_list_Nil [of "''failed to convert AllowedPIID from manifest to byte slices''" "allowed_piids r"] by auto
  then have "tdx_document_meets P T xf r doc rd q"
    unfolding tdx_document_meets_def using q o'
    by (intro exI [of _ "tvo_verify opt"] exI [of _ "(tvo_validate opt)\<lparr>to_report_data := rd, to_xfam := None\<rparr>"]
        exI [of _ x] exI [of _ pool]) simp
  then show ?thesis using reps by blast
qed

section \<open>The validator of a manifest\<close>

lemma any_loop_reports:
  assumes "any_loop vs i oi doc rd errs reps = (None, out)"
  shows "\<exists>v\<in>set vs. \<exists>rs pre. validate v oi doc rd = (None, rs) \<and> out = reps @ pre @ rs"
  using assms
proof (induction vs arbitrary: i errs reps)
  case (Cons v vs)
  obtain err rs where v: "validate v oi doc rd = (err, rs)" by (cases "validate v oi doc rd")
  show ?case
  proof (cases err)
    case None
    with Cons.prems v show ?thesis by auto
  next
    case (Some e)
    then obtain w rs' pre where "w \<in> set vs" "validate w oi doc rd = (None, rs')" "out = (reps @ rs) @ pre @ rs'"
      using Cons v by (fastforce split: if_splits)
    then show ?thesis
      by (intro bexI [of _ w] exI [of _ rs'] exI [of _ "rs @ pre"]) simp_all
  qed
qed (simp split: if_splits)

lemma any_of_reports:
  assumes "validate (any_of vs) oi doc rd = (None, out)"
  shows "\<exists>v\<in>set vs. \<exists>rs pre. validate v oi doc rd = (None, rs) \<and> out = pre @ rs"
proof -
  consider "vs = []" | v where "vs = [v]" | v w ws where "vs = v # w # ws" by (cases vs; cases "tl vs") auto
  then show ?thesis
  proof cases
    case 1
    with assms show ?thesis by (simp add: any_of_def no_validator_def)
  next
    case 2
    with assms show ?thesis by (auto simp: any_of_def)
  next
    case 3
    then have "any_loop vs 0 oi doc rd [] [] = (None, out)" using assms by (simp add: any_of_def del: any_loop.simps)
    from any_loop_reports [OF this] show ?thesis by simp
  qed
qed

section \<open>When there is a validator\<close>

lemma cpu_sig_for_product_ok: "p = milan \<or> p = genoa \<Longrightarrow> \<exists>sig. cpu_sig_for_product p = Inr sig"
  by (auto simp: cpu_sig_for_product_def lookup_cpu_sig_def milan_def genoa_def cpu_sigs_def)

text \<open>The library knows both products and parses its embedded certificates.\<close>

definition opts_library_ok ::
  "('prod, 'root, 'pool) optslib \<Rightarrow> ('prod, 'root, 'crl, 'pt, 'key) snplib \<Rightarrow> bool" where
  "opts_library_ok P L \<longleftrightarrow> (\<forall>p\<in>{milan, genoa}. (\<exists>x. parse_product_line P p = Inr x) \<and> (\<exists>x. amd_roots P p = Inr x))
     \<and> tdx_root_pool P \<noteq> None \<and> (\<forall>ld pol. length ld = 48 \<longrightarrow> (\<exists>h. id_key_hash L ld pol = Inr h))"

lemma snp_options_total:
  assumes lib: "opts_library_ok P L" and ok: "snp_complete r"
  shows "\<exists>opt :: ('prod, 'root, 'crl) snp_validator_options.
    snp_options_for P (L :: ('prod, 'root, 'crl, 'pt, 'key) snplib) r = Inr opt"
proof -
  have name: "product_name r = milan \<or> product_name r = genoa" using ok by (simp add: snp_complete_def)
  obtain sd where sd: "hex_bytes (trusted_measurement r) = Inr sd" "length sd = 48"
    using ok by (auto simp: snp_complete_def hex_of_size_bytes)
  then have ne: "trusted_measurement r \<noteq> ''''" by (auto simp: hex_bytes_def)
  obtain prod' root where p: "parse_product_line P (product_name r) = Inr prod'" "amd_roots P (product_name r) = Inr root"
    using lib name by (auto simp: opts_library_ok_def)
  have roots: "amd_trusted_root_certs P (product_name r) = Inr ((\<lambda>_. [])(product_name r := [(root, None :: 'crl option)]))"
    using name p by (simp add: amd_trusted_root_certs_def)
  obtain chips where chips: "hex_list ''failed to convert AllowedChipID from manifest to byte slices'' (allowed_chip_ids r) = Inr chips"
  proof -
    have "\<forall>c\<in>set (allowed_chip_ids r). \<exists>b. hex_bytes c = Inr b"
      using ok unfolding snp_complete_def hex_of_size_bytes by blast
    from hex_list_total [OF this] show thesis using that by blast
  qed
  obtain tcb where tcb: "tcb_parts_for (minimum_tcb r) = Inr tcb"
    using ok by (auto simp: snp_complete_def tcb_complete_def tcb_parts_for_def)
  obtain sig where sig: "cpu_sig_for_product (product_name r) = Inr sig" using cpu_sig_for_product_ok [OF name] by blast
  obtain h where h: "id_key_hash L (take 48 sd) (guest_policy r) = Inr h"
    using lib sd(2) by (auto simp: opts_library_ok_def)
  have eip: "apeip r = '''' \<or> (\<exists>b. hex_bytes (apeip r) = Inr b)" using ok by (auto simp: snp_complete_def hex_of_size_bytes)
  show ?thesis using ne sd p roots chips tcb sig h eip by (auto simp: snp_options_for_def Let_def)
qed

lemma tdx_options_total:
  assumes lib: "opts_library_ok P L" and ok: "tdx_complete r" and piids: "\<forall>c\<in>set (allowed_piids r). \<exists>b. hex_bytes c = Inr b"
  shows "\<exists>opt. tdx_options_for P r = Inr opt"
proof -
  obtain pool where "tdx_root_pool P = Some pool" using lib by (auto simp: opts_library_ok_def)
  moreover obtain td seam xf where "hex_bytes (mr_td r) = Inr td" "hex_bytes (mr_seam r) = Inr seam" "hex_bytes (xfam r) = Inr xf"
    using ok by (auto simp: tdx_complete_def hex_of_size_bytes)
  moreover obtain rts where "rtmr_list 0 (rtmrs r) = Inr rts"
    using rtmr_list_total [of "rtmrs r" 0] ok by (auto simp: tdx_complete_def hex_of_size_bytes)
  moreover obtain ps where "hex_list ''failed to convert AllowedPIID from manifest to byte slices'' (allowed_piids r) = Inr ps"
    using hex_list_total [OF piids] by blast
  ultimately show ?thesis by (simp add: tdx_options_for_def tdx_trusted_root_certs_def)
qed

lemma manifest_validator_total:
  assumes lib: "opts_library_ok P L" and ok: "manifest_validate K m = None"
    and piids: "\<forall>r\<in>set (tdx (refvals m)). \<not> names_insecure (tdx_platform r)
      \<longrightarrow> (\<forall>c\<in>set (allowed_piids r). \<exists>b. hex_bytes c = Inr b)"
  shows "\<exists>v. manifest_validator K P L T J m = Inr v"
proof -
  have m: "refvals_complete (refvals m)" using ok by (simp add: manifest_validate_None manifest_ok_def)
  have "\<exists>opts. each_option snp_platform (snp_options_for P L) (snp (refvals m)) = Inr opts"
    by (rule each_option_total, rule snp_options_total [OF lib]) (use m in \<open>auto simp: refvals_complete_def\<close>)
  moreover have "\<exists>opts. each_option tdx_platform (tdx_options_for P) (tdx (refvals m)) = Inr opts"
    by (rule each_option_total, rule tdx_options_total [OF lib]) (use m piids in \<open>auto simp: refvals_complete_def\<close>)
  ultimately show ?thesis
    by (auto simp: manifest_validator_def snp_validate_opts_def tdx_validate_opts_def ok)
qed

text \<open>A platform id that is no hexadecimal text passes validation and leaves no validator.\<close>

lemma hex_list_fails: "c \<in> set hs \<Longrightarrow> hex_bytes c = Inl e \<Longrightarrow> \<exists>e'. hex_list w hs = Inl e'"
  by (induction hs) (auto split: sum.splits)

lemma each_option_fails:
  "r \<in> set rs \<Longrightarrow> \<not> names_insecure (platform r) \<Longrightarrow> f r = Inl e \<Longrightarrow> \<exists>e'. each_option platform f rs = Inl e'"
  by (induction rs) (auto split: sum.splits)

lemma malformed_piid_leaves_no_validator:
  assumes "r \<in> set (tdx (refvals m))" and "\<not> names_insecure (tdx_platform r)"
    and "c \<in> set (allowed_piids r)" and "hex_bytes c = Inl e"
  shows "\<exists>e'. manifest_validator K P L T J m = Inl e'"
proof -
  obtain e1 where "hex_list ''failed to convert AllowedPIID from manifest to byte slices'' (allowed_piids r) = Inl e1"
    using hex_list_fails [OF assms(3,4)] by blast
  then have "\<exists>e2. tdx_options_for P r = Inl e2"
    by (simp add: tdx_options_for_def split: sum.split)
  then obtain e2 where e2: "tdx_options_for P r = Inl e2" by blast
  from each_option_fails [where f = "tdx_options_for P" and platform = tdx_platform, OF assms(1,2) e2]
  obtain e3 where "each_option tdx_platform (tdx_options_for P) (tdx (refvals m)) = Inl e3" by blast
  then show ?thesis
    by (simp add: manifest_validator_def tdx_validate_opts_def split: sum.split option.split)
qed

end
