(* ===== verification/Atls.thy ===== *)
theory Atls
  imports ManifestValidatorFacts Base64
begin

text \<open>
  Attested TLS, \<open>internal/atls/atls.go\<close>: a self-signed certificate carries an attestation
  document whose report data binds the certificate's key to the nonce of the peer. The client
  sends its nonce in the ALPN protocols (or the server name), the server in the acceptable
  CAs. The report data is \<open>internal/atls/reportdata\<close>, the transport credentials are
  \<open>internal/grpc/atlscredentials\<close> and those of the state guard. The TLS protocol itself,
  \<open>crypto/x509\<close> and the attestation device are parameters; contexts and logging are left out.
\<close>

section \<open>The library functions\<close>

record atls_template =
  tp_serial :: int
  tp_common_name :: string
  tp_not_before :: int
  tp_not_after :: int
  tp_extra_extensions :: "pkix_extension list"

text \<open>
  \<open>verify_self\<close> is \<open>Verify\<close> with the certificate itself as the only root. \<open>rdn_sequence\<close> is
  the decoded name, each attribute with its type and its value when that is a string.
\<close>

record ('cert, 'pk, 'sk) atlslib =
  parse_cert :: "bytes \<Rightarrow> 'cert result"
  cert_key :: "'cert \<Rightarrow> 'pk"
  cert_extensions :: "'cert \<Rightarrow> pkix_extension list"
  verify_self :: "'cert \<Rightarrow> goerr option"
  pkix_bytes :: "'pk \<Rightarrow> bytes result"
  create_atls_cert :: "bytes \<Rightarrow> atls_template \<Rightarrow> 'pk \<Rightarrow> 'sk \<Rightarrow> bytes result"
  serial_from :: "bytes \<Rightarrow> int \<Rightarrow> int result"
  generate_p256 :: "bytes \<Rightarrow> 'sk result"
  public_of :: "'sk \<Rightarrow> 'pk"
  rdn_sequence :: "bytes \<Rightarrow> ((nat list \<times> string option) list list) result"
  sha512 :: "bytes \<Rightarrow> bytes"

text \<open>An issuer: the OID of its documents and the document for given report data.\<close>

record issuer =
  issuer_oid :: oid
  issue :: "bytes \<Rightarrow> bytes result"

definition construct_atls_report_data :: "('cert, 'pk, 'sk) atlslib \<Rightarrow> bytes \<Rightarrow> bytes \<Rightarrow> bytes" where
  "construct_atls_report_data A pub nonce = sha512 A (pub @ nonce)"

section \<open>Nonces\<close>

definition atls_version :: string where "atls_version = ''v1''"
definition supported_atls_versions :: "string list" where "supported_atls_versions = [atls_version]"

definition nonce_prefix :: "string \<Rightarrow> string" where
  "nonce_prefix version = ''atls:'' @ version @ '':nonce:''"

definition err_no_nonce :: goerr where
  "err_no_nonce = Sentinel ''no nonce in supported protocols or SNI''"
definition err_version_mismatch :: goerr where
  "err_version_mismatch = Sentinel ''proto refers to an unsupported atls version''"

definition encode_nonce_to_next_protos :: "bytes \<Rightarrow> string" where
  "encode_nonce_to_next_protos nonce = nonce_prefix atls_version @ hex_encode nonce"

fun extract_nonce_from :: "string list \<Rightarrow> string \<Rightarrow> string result" where
  "extract_nonce_from [] proto = Inl (Both err_version_mismatch (Msg (quoted proto)))"
| "extract_nonce_from (v # vs) proto =
     (case cut_prefix (nonce_prefix v) proto of
        Some nonce_hex \<Rightarrow> Inr nonce_hex
      | None \<Rightarrow> extract_nonce_from vs proto)"

definition extract_nonce :: "string \<Rightarrow> string result" where
  "extract_nonce proto = extract_nonce_from supported_atls_versions proto"

fun decode_nonce_from_supported_protos :: "string list \<Rightarrow> bytes result" where
  "decode_nonce_from_supported_protos [] = Inl err_no_nonce"
| "decode_nonce_from_supported_protos (proto # protos) =
     (if \<not> has_prefix ''atls'' proto then decode_nonce_from_supported_protos protos
      else
     (case extract_nonce proto of
        Inl e \<Rightarrow> Inl e
      | Inr nonce_hex \<Rightarrow>
     (case hex_decode nonce_hex of
        Inl e \<Rightarrow> Inl (Wrap ''decoding nonce'' e)
      | Inr nonce \<Rightarrow> Inr nonce)))"

definition get_nonce :: "string list \<Rightarrow> string \<Rightarrow> bytes result" where
  "get_nonce protos server_name =
     (case decode_nonce_from_supported_protos protos of
        Inr nonce \<Rightarrow> Inr nonce
      | Inl e \<Rightarrow>
     (if \<not> err_is e err_no_nonce then Inl (Wrap ''decoding nonce from SupportedProtos'' e)
      else if server_name = '''' then Inl err_no_nonce
      else
     (case base64_decode server_name of
        Inl e \<Rightarrow> Inl (Wrap ''decoding nonce from SNI'' e)
      | Inr nonce \<Rightarrow> Inr nonce)))"

text \<open>The name of the CA certificate that transmits the server's nonce.\<close>

definition encode_nonce_to_common_name :: "bytes \<Rightarrow> string" where
  "encode_nonce_to_common_name nonce = base64_encode nonce"

definition oid_common_name :: "nat list" where "oid_common_name = [2, 5, 4, 3]"

fun common_name_in :: "(nat list \<times> string option) list \<Rightarrow> bytes result" where
  "common_name_in [] = Inl (Msg ''CN not found'')"
| "common_name_in ((ty, v) # rdns) =
     (if ty = oid_common_name then
        (case v of
           None \<Rightarrow> Inl (Msg ''unexpected RDN type'')
         | Some s \<Rightarrow>
             (case base64_decode s of Inl e \<Rightarrow> Inl (Wrap ''decode nonce'' e) | Inr nonce \<Rightarrow> Inr nonce))
      else common_name_in rdns)"

definition decode_nonce_from_acceptable_cas :: "('cert, 'pk, 'sk) atlslib \<Rightarrow> bytes list \<Rightarrow> bytes result" where
  "decode_nonce_from_acceptable_cas A cas =
     (case cas of
        [ca'] \<Rightarrow>
          (case rdn_sequence A ca' of
             Inl e \<Rightarrow> Inl (Wrap ''unmarshal acceptableCAs'' e)
           | Inr rdns \<Rightarrow> common_name_in (concat rdns))
      | _ \<Rightarrow> Inl (Msg ''unexpected acceptableCAs length''))"

section \<open>Certificates\<close>

text \<open>The certificate for a peer's nonce, with the attestation document when there is an issuer.\<close>

definition atls_get_certificate ::
  "('cert, 'pk, 'sk) atlslib \<Rightarrow> bytes \<times> bytes \<Rightarrow> int \<Rightarrow> issuer option \<Rightarrow> 'sk \<Rightarrow> 'pk \<Rightarrow> bytes \<Rightarrow> bytes list result" where
  "atls_get_certificate A rnd now iss priv pub nonce =
     (case serial_from A (fst rnd) (2 ^ 128) of
        Inl e \<Rightarrow> Inl e
      | Inr serial \<Rightarrow>
     (case (case iss of
              None \<Rightarrow> Inr []
            | Some i \<Rightarrow>
                (case pkix_bytes A pub of
                   Inl e \<Rightarrow> Inl e
                 | Inr pub_bytes \<Rightarrow>
                (case issue i (construct_atls_report_data A pub_bytes nonce) of
                   Inl e \<Rightarrow> Inl e
                 | Inr doc \<Rightarrow> Inr [\<lparr>ext_id = issuer_oid i, ext_value = doc\<rparr>]))) of
        Inl e \<Rightarrow> Inl e
      | Inr exts \<Rightarrow>
     (case create_atls_cert A (snd rnd) \<lparr>tp_serial = serial, tp_common_name = ''Contrast'', tp_not_before = now - 7200,
             tp_not_after = now + 7200, tp_extra_extensions = exts\<rparr> pub priv of
        Inl e \<Rightarrow> Inl e
      | Inr cert \<Rightarrow> Inr [cert])))"

definition process_certificate :: "('cert, 'pk, 'sk) atlslib \<Rightarrow> bytes list \<Rightarrow> ('cert \<times> bytes) result" where
  "process_certificate A raw_certs =
     (case raw_certs of
        [] \<Rightarrow> Inl (Msg ''rawCerts is empty'')
      | raw # _ \<Rightarrow>
     (case parse_cert A raw of
        Inl e \<Rightarrow> Inl (Wrap ''parse certificate'' e)
      | Inr cert \<Rightarrow>
     (case verify_self A cert of
        Some e \<Rightarrow> Inl (Wrap ''verify certificate'' e)
      | None \<Rightarrow>
     (case pkix_bytes A (cert_key A cert) of
        Inl e \<Rightarrow> Inl (Wrap ''marshal public key'' e)
      | Inr pub_bytes \<Rightarrow> Inr (cert, pub_bytes)))))"

section \<open>Verifying an embedded report\<close>

definition err_no_valid_attestation_extensions :: goerr where
  "err_no_valid_attestation_extensions = Sentinel ''no valid attestation document certificate extensions found''"
definition err_no_matching_validators :: goerr where
  "err_no_matching_validators = Sentinel ''no matching validators found''"

text \<open>
  The loop over the extensions, with whether a document and a matching validator were found and
  the errors so far; \<open>Inr\<close> are the reports of a successful validation, earlier ones included.
  A validator object may change with every document it is given, so its state is passed along.
\<close>

record ('st, 'r) vobject =
  object_name :: string
  object_step :: "'st \<Rightarrow> oid \<Rightarrow> bytes \<Rightarrow> bytes \<Rightarrow> (goerr option \<times> 'r list) \<times> 'st"

definition stateless_object :: "'r validator \<Rightarrow> (unit, 'r) vobject" where
  "stateless_object v = \<lparr>object_name = vname v, object_step = (\<lambda>st oi doc rd. (validate v oi doc rd, st))\<rparr>"

fun embedded_loop ::
  "('st, 'r) vobject \<Rightarrow> 'st \<Rightarrow> bytes \<Rightarrow> pkix_extension list \<Rightarrow> bool \<Rightarrow> bool \<Rightarrow> goerr list \<Rightarrow> 'r list
   \<Rightarrow> ((bool \<times> bool \<times> goerr list) + 'r list) \<times> 'st" where
  "embedded_loop v st rd [] found matched errs reps = (Inl (found, matched, errs), st)"
| "embedded_loop v st rd (x # xs) found matched errs reps =
     (if \<not> is_attestation_document_extension (ext_id x) then embedded_loop v st rd xs found matched errs reps
      else
     (case object_step v st (ext_id x) (ext_value x) rd of
        ((None, rs), st') \<Rightarrow> (Inr (reps @ rs), st')
      | ((Some e, rs), st') \<Rightarrow>
          (if err_is e err_oid_not_supported then embedded_loop v st' rd xs True matched errs (reps @ rs)
           else embedded_loop v st' rd xs True True
             (errs @ [Wrap ('' validator '' @ object_name v @ '' failed'') e]) (reps @ rs))))"

definition verify_embedded_report ::
  "('cert, 'pk, 'sk) atlslib \<Rightarrow> ('st, 'r) vobject \<Rightarrow> 'st \<Rightarrow> pkix_extension list \<Rightarrow> bytes \<Rightarrow> bytes
   \<Rightarrow> 'r list result \<times> 'st" where
  "verify_embedded_report A v st exts pub nonce =
     (case embedded_loop v st (construct_atls_report_data A pub nonce) exts False False [] [] of
        (Inr reps, st') \<Rightarrow> (Inr reps, st')
      | (Inl (found, matched, errs), st') \<Rightarrow>
          (if \<not> found then Inl err_no_valid_attestation_extensions
           else if \<not> matched then Inl err_no_matching_validators
           else Inl (Wrap (''with AtlsConnectionNonce '' @ hex_encode nonce) (Joined errs)), st'))"

definition connection_verify ::
  "('cert, 'pk, 'sk) atlslib \<Rightarrow> ('st, 'r) vobject \<Rightarrow> 'st \<Rightarrow> bytes \<Rightarrow> bytes list \<Rightarrow> ('cert \<times> 'r list) result \<times> 'st" where
  "connection_verify A v st nonce raw_certs =
     (case process_certificate A raw_certs of
        Inl e \<Rightarrow> (Inl (Wrap ''process certificate'' e), st)
      | Inr (cert, pub_bytes) \<Rightarrow>
     (case verify_embedded_report A v st (cert_extensions A cert) pub_bytes nonce of
        (Inl e, st') \<Rightarrow> (Inl e, st')
      | (Inr reps, st') \<Rightarrow> (Inr (cert, reps), st')))"

text \<open>The server counts failed validations, though not certificates it cannot process.\<close>

definition server_verify ::
  "('cert, 'pk, 'sk) atlslib \<Rightarrow> ('st, 'r) vobject \<Rightarrow> 'st \<Rightarrow> bytes \<Rightarrow> bytes list \<Rightarrow> nat
   \<Rightarrow> (('cert \<times> 'r list) result \<times> 'st) \<times> nat" where
  "server_verify A v st nonce raw_certs failures =
     (case process_certificate A raw_certs of
        Inl e \<Rightarrow> ((Inl (Wrap ''process certificate'' e), st), failures)
      | Inr (cert, pub_bytes) \<Rightarrow>
     (case verify_embedded_report A v st (cert_extensions A cert) pub_bytes nonce of
        (Inl e, st') \<Rightarrow> ((Inl e, st'), Suc failures)
      | (Inr reps, st') \<Rightarrow> ((Inr (cert, reps), st'), failures)))"

section \<open>The two sides of a connection\<close>

text \<open>
  The client's hello: its ALPN protocols, with a fresh nonce. The client answers a certificate
  request with a certificate for the server's nonce, made with its own key or a new one.
\<close>

definition client_protos :: "bytes \<Rightarrow> string list" where
  "client_protos nonce = [encode_nonce_to_next_protos nonce, ''h2'']"

definition client_get_certificate ::
  "('cert, 'pk, 'sk) atlslib \<Rightarrow> bytes \<times> bytes \<Rightarrow> bytes \<Rightarrow> int \<Rightarrow> issuer option \<Rightarrow> 'sk option \<Rightarrow> bytes list \<Rightarrow> bytes list result" where
  "client_get_certificate A rnd key_rnd now iss key cas =
     (case (case key of Some k \<Rightarrow> Inr k | None \<Rightarrow> generate_p256 A key_rnd) of
        Inl e \<Rightarrow> Inl e
      | Inr priv \<Rightarrow>
     (case decode_nonce_from_acceptable_cas A cas of
        Inl e \<Rightarrow> Inl (Wrap ''decode nonce'' e)
      | Inr nonce \<Rightarrow> atls_get_certificate A rnd now iss priv (public_of A priv) nonce))"

definition server_get_certificate ::
  "('cert, 'pk, 'sk) atlslib \<Rightarrow> bytes \<times> bytes \<Rightarrow> int \<Rightarrow> issuer option \<Rightarrow> 'sk \<Rightarrow> string list \<Rightarrow> string \<Rightarrow> bytes list result" where
  "server_get_certificate A rnd now iss priv protos server_name =
     (case get_nonce protos server_name of
        Inl e \<Rightarrow> Inl e
      | Inr nonce \<Rightarrow> atls_get_certificate A rnd now iss priv (public_of A priv) nonce)"

section \<open>Lemmas\<close>

lemma decode_encoded_nonce:
  "decode_nonce_from_supported_protos (filter (\<lambda>p. \<not> has_prefix ''atls'' p) ps @ encode_nonce_to_next_protos n # qs) = Inr n"
proof (induction ps)
  case Nil
  have "has_prefix ''atls'' (encode_nonce_to_next_protos n)"
    by (simp add: encode_nonce_to_next_protos_def nonce_prefix_def has_prefix_def)
  moreover have "extract_nonce (encode_nonce_to_next_protos n) = Inr (hex_encode n)"
    by (simp add: extract_nonce_def supported_atls_versions_def encode_nonce_to_next_protos_def)
  ultimately show ?case by simp
qed simp

lemma get_nonce_of_client: "get_nonce (client_protos n) name = Inr n"
  using decode_encoded_nonce [of "[]" n "[''h2'']"] by (simp add: get_nonce_def client_protos_def)

lemma decode_nonce_of_server:
  assumes "rdn_sequence A ca' = Inr [[(oid_common_name, Some (encode_nonce_to_common_name n))]]"
  shows "decode_nonce_from_acceptable_cas A [ca'] = Inr n"
  using assms by (simp add: decode_nonce_from_acceptable_cas_def encode_nonce_to_common_name_def)

text \<open>
  A successful loop: some document was accepted in a state that satisfies every invariant of the
  object, and in the first state when there is but one document.
\<close>

abbreviation attestation_extensions :: "pkix_extension list \<Rightarrow> pkix_extension list" where
  "attestation_extensions xs \<equiv> filter (\<lambda>x. is_attestation_document_extension (ext_id x)) xs"

lemma embedded_loop_ok:
  assumes "embedded_loop v st rd xs found matched errs reps = (Inr out, st')"
    and step: "\<And>s oi doc. okst s \<Longrightarrow> okst (snd (object_step v s oi doc rd))" and "okst st"
  shows "\<exists>x\<in>set (attestation_extensions xs). \<exists>s rs pre. okst s
    \<and> object_step v s (ext_id x) (ext_value x) rd = ((None, rs), st') \<and> out = reps @ pre @ rs
    \<and> (attestation_extensions xs = [x] \<longrightarrow> s = st)"
  using assms(1,3)
proof (induction xs arbitrary: st found matched errs reps)
  case (Cons x xs)
  show ?case
  proof (cases "is_attestation_document_extension (ext_id x)")
    case att: True
    obtain err rs s1 where v: "object_step v st (ext_id x) (ext_value x) rd = ((err, rs), s1)"
      by (metis prod.exhaust)
    have inv1: "okst s1" using step [OF Cons.prems(2), of "ext_id x" "ext_value x"] v by simp
    show ?thesis
    proof (cases err)
      case None
      then show ?thesis using Cons.prems v att by (intro bexI [of _ x] exI [of _ st]) auto
    next
      case (Some e)
      then obtain m' e' where "embedded_loop v s1 rd xs True m' e' (reps @ rs) = (Inr out, st')"
        using Cons.prems v att by (auto split: if_splits)
      from Cons.IH [OF this inv1] obtain y s rs' pre where y: "y \<in> set (attestation_extensions xs)" "okst s"
        "object_step v s (ext_id y) (ext_value y) rd = ((None, rs'), st')" "out = (reps @ rs) @ pre @ rs'" by blast
      then have "attestation_extensions xs \<noteq> []" by (metis empty_iff empty_set)
      then have "attestation_extensions (x # xs) \<noteq> [y]" using att by simp
      then show ?thesis using y by (intro bexI [of _ y] exI [of _ s] exI [of _ rs'] exI [of _ "rs @ pre"]) auto
    qed
  next
    case False
    then have "embedded_loop v st rd xs found matched errs reps = (Inr out, st')" using Cons.prems by simp
    from Cons.IH [OF this Cons.prems(2)] False show ?thesis by simp
  qed
qed simp

text \<open>
  What a verified connection guarantees: the peer's certificate carries a document that the
  validator accepts for exactly this certificate's key and this side's nonce.
\<close>

lemma connection_verify_ok:
  assumes "connection_verify A v st nonce raw = (Inr (cert, reps), st')"
    and "\<And>s oi doc rd. okst s \<Longrightarrow> okst (snd (object_step v s oi doc rd))" and "okst st"
  shows "\<exists>raw' rest pub x s rs pre. raw = raw' # rest \<and> parse_cert A raw' = Inr cert
    \<and> verify_self A cert = None \<and> pkix_bytes A (cert_key A cert) = Inr pub
    \<and> x \<in> set (attestation_extensions (cert_extensions A cert)) \<and> okst s
    \<and> object_step v s (ext_id x) (ext_value x) (sha512 A (pub @ nonce)) = ((None, rs), st') \<and> reps = pre @ rs
    \<and> (attestation_extensions (cert_extensions A cert) = [x] \<longrightarrow> s = st)"
proof -
  obtain pub where p: "process_certificate A raw = Inr (cert, pub)"
    and e: "verify_embedded_report A v st (cert_extensions A cert) pub nonce = (Inr reps, st')"
    using assms(1) by (auto simp: connection_verify_def split: sum.splits prod.splits)
  from p obtain raw' rest where "raw = raw' # rest" "parse_cert A raw' = Inr cert" "verify_self A cert = None"
    "pkix_bytes A (cert_key A cert) = Inr pub"
    by (auto simp: process_certificate_def split: list.splits sum.splits option.splits)
  moreover have "embedded_loop v st (construct_atls_report_data A pub nonce) (cert_extensions A cert) False False [] []
      = (Inr reps, st')"
    using e by (auto simp: verify_embedded_report_def split: sum.splits prod.splits if_splits)
  from embedded_loop_ok [where okst = okst, OF this assms(2,3)] obtain x s rs pre where
    "x \<in> set (attestation_extensions (cert_extensions A cert))" "okst s"
    "object_step v s (ext_id x) (ext_value x) (sha512 A (pub @ nonce)) = ((None, rs), st')" "reps = pre @ rs"
    "attestation_extensions (cert_extensions A cert) = [x] \<longrightarrow> s = st"
    unfolding construct_atls_report_data_def append_Nil by blast
  ultimately show ?thesis by blast
qed

text \<open>The validations of both sides agree; only the server counts.\<close>

lemma server_verify_agrees: "fst (server_verify A v st nonce raw n) = connection_verify A v st nonce raw"
  by (simp add: server_verify_def connection_verify_def split: sum.split prod.split)

lemma server_verify_counts:
  "snd (server_verify A v st nonce raw n) = (if \<exists>c. process_certificate A raw = Inr c
     \<and> (\<exists>e st'. connection_verify A v st nonce raw = (Inl e, st')) then Suc n else n)"
  by (auto simp: server_verify_def connection_verify_def split: sum.splits prod.splits)

text \<open>The contract of \<open>crypto/x509\<close> for these certificates, and completeness of the handshake.\<close>

locale x509_self_signed =
  fixes A :: "('cert, 'pk, 'sk) atlslib"
  assumes made_parses: "create_atls_cert A rnd t (public_of A priv) priv = Inr raw \<Longrightarrow>
      \<exists>cert. parse_cert A raw = Inr cert \<and> cert_key A cert = public_of A priv
        \<and> cert_extensions A cert = tp_extra_extensions t \<and> verify_self A cert = None"
begin

lemma made_certificate_verifies:
  assumes made: "atls_get_certificate A rnd now (Some iss) priv (public_of A priv) nonce = Inr raw"
    and doc: "is_attestation_document_extension (issuer_oid iss)"
    and acc: "\<And>rd doc. issue iss rd = Inr doc \<Longrightarrow> \<exists>rs st'. object_step v st (issuer_oid iss) doc rd = ((None, rs), st')"
  shows "\<exists>cert reps st'. connection_verify A v st nonce raw = (Inr (cert, reps), st') \<and> cert_key A cert = public_of A priv"
proof -
  obtain serial pub d raw' where pub: "pkix_bytes A (public_of A priv) = Inr pub"
    and d: "issue iss (construct_atls_report_data A pub nonce) = Inr d"
    and c: "create_atls_cert A (snd rnd) \<lparr>tp_serial = serial, tp_common_name = ''Contrast'', tp_not_before = now - 7200,
             tp_not_after = now + 7200, tp_extra_extensions = [\<lparr>ext_id = issuer_oid iss, ext_value = d\<rparr>]\<rparr>
             (public_of A priv) priv = Inr raw'" and raw: "raw = [raw']"
    using made by (auto simp: atls_get_certificate_def split: sum.splits)
  obtain cert where cert: "parse_cert A raw' = Inr cert" "cert_key A cert = public_of A priv"
    "cert_extensions A cert = [\<lparr>ext_id = issuer_oid iss, ext_value = d\<rparr>]" "verify_self A cert = None"
    using made_parses [OF c] by auto
  obtain rs st' where "object_step v st (issuer_oid iss) d (construct_atls_report_data A pub nonce) = ((None, rs), st')"
    using acc [OF d] by blast
  then show ?thesis using cert raw pub doc
    by (simp add: connection_verify_def process_certificate_def verify_embedded_report_def)
qed

end

section \<open>An instance\<close>

text \<open>
  Certificates with exactly one attestation extension: the OID's index, the key with its length
  and the document; a key is its own public key.
\<close>

definition plain_oids :: "oid list" where
  "plain_oids = [raw_snp_report, raw_tdx_report, raw_insecure_report]"

fun plain_oid_index :: "oid list \<Rightarrow> oid \<Rightarrow> byte option" where
  "plain_oid_index [] x = None"
| "plain_oid_index (y # ys) x = (if x = y then Some (of_nat (length ys)) else plain_oid_index ys x)"

definition plain_oid_at :: "byte \<Rightarrow> oid" where
  "plain_oid_at i = (if i = 2 then raw_snp_report else if i = 1 then raw_tdx_report else raw_insecure_report)"

lemma plain_oid_at_index: "plain_oid_index plain_oids x = Some i \<Longrightarrow> plain_oid_at i = x"
  by (auto simp: plain_oids_def plain_oid_at_def split: if_splits)

definition plain_atls :: "(pkix_extension \<times> bytes, bytes, bytes) atlslib" where
  "plain_atls = \<lparr>
     parse_cert = (\<lambda>b. case b of
         i # n # rest \<Rightarrow> Inr (\<lparr>ext_id = plain_oid_at i, ext_value = drop (unat n) rest\<rparr>, take (unat n) rest)
       | _ \<Rightarrow> Inl (Msg ''malformed certificate'')),
     cert_key = snd, cert_extensions = (\<lambda>c. [fst c]), verify_self = (\<lambda>c. None), pkix_bytes = Inr,
     create_atls_cert = (\<lambda>r t pub priv. case tp_extra_extensions t of
         [x] \<Rightarrow> (case plain_oid_index plain_oids (ext_id x) of
             Some i \<Rightarrow> if length pub < 256 then Inr (i # of_nat (length pub) # pub @ ext_value x)
               else Inl (Msg ''key too long'')
           | None \<Rightarrow> Inl (Msg ''unknown extension''))
       | _ \<Rightarrow> Inl (Msg ''not one extension'')),
     serial_from = (\<lambda>r n. Inr 1), generate_p256 = Inr, public_of = id,
     rdn_sequence = (\<lambda>b. Inr [[(oid_common_name, Some (string_of_bytes b))]]), sha512 = id\<rparr>"

interpretation plain_atls: x509_self_signed plain_atls
proof
  fix rnd t priv raw
  assume c: "create_atls_cert plain_atls rnd t (public_of plain_atls priv) priv = Inr raw"
  then obtain x i where "tp_extra_extensions t = [x]" "plain_oid_index plain_oids (ext_id x) = Some i"
    "length priv < 256" "raw = i # of_nat (length priv) # priv @ ext_value x"
    by (auto simp: plain_atls_def split: list.splits option.splits if_splits)
  then show "\<exists>cert. parse_cert plain_atls raw = Inr cert \<and> cert_key plain_atls cert = public_of plain_atls priv
      \<and> cert_extensions plain_atls cert = tp_extra_extensions t \<and> verify_self plain_atls cert = None"
    using plain_oid_at_index [of "ext_id x" i] by (simp add: plain_atls_def unat_of_nat)
qed

end
