(* ===== verification/ValidatorObjects.thy ===== *)
theory ValidatorObjects
  imports Atls
begin

text \<open>
  The validator that \<open>Manifest.Validator\<close> (\<open>internal/manifest/validators.go\<close>) returns, as an
  object that is used more than once: the aTLS verification hands it every attestation extension
  of a certificate. The SNP validators keep revocation lists in their options, the TDX
  validators lose their reference XFAM in the first validation that compares it. The lemmas
  tie the objects to the validators of one document, and say what a verified connection means.
\<close>

section \<open>Objects\<close>

datatype ('prod, 'root, 'crl, 'pool) manifest_object =
    SnpObject nat "('prod, 'root, 'crl) snp_validator_options"
  | TdxObject nat "'pool tdx_validator_options"
  | InsecureObject

definition manifest_objects ::
  "('ec, 'rsa, 'sk, 'rsask) keylib \<Rightarrow> ('prod, 'root, 'pool) optslib \<Rightarrow> ('prod, 'root, 'crl, 'pt, 'key) snplib
   \<Rightarrow> manifest \<Rightarrow> ('prod, 'root, 'crl, 'pool) manifest_object list result" where
  "manifest_objects K P L m =
     (case snp_validate_opts K P L m of
        Inl e \<Rightarrow> Inl (Wrap ''generating SNP validation options'' e)
      | Inr snp_opts \<Rightarrow>
     (case tdx_validate_opts K P m of
        Inl e \<Rightarrow> Inl (Wrap ''generating TDX validation options'' e)
      | Inr tdx_opts \<Rightarrow>
          Inr (map (\<lambda>(i, opt). SnpObject i opt) (enumerate 0 snp_opts)
            @ map (\<lambda>(i, opt). TdxObject i opt) (enumerate 0 tdx_opts)
            @ (if has_insecure_platforms m then [InsecureObject] else []))))"

text \<open>The validator of one document that an object is, in the state it has.\<close>

fun fresh_validator ::
  "('prod, 'root, 'pool) optslib \<Rightarrow> ('prod, 'root, 'crl, 'pt, 'key) snplib \<Rightarrow> 'pool tdxlib \<Rightarrow> (bytes \<Rightarrow> (bytes \<times> bytes) result)
   \<Rightarrow> ('prod, 'root, 'crl, 'pool) manifest_object \<Rightarrow> pkix_extension report validator" where
  "fresh_validator P L T J (SnpObject i opt) = snp_validator_for P L i opt"
| "fresh_validator P L T J (TdxObject i opt) = tdx_validator_for T i opt"
| "fresh_validator P L T J InsecureObject = insecure_validator J"

fun manifest_object_step ::
  "('prod, 'root, 'crl, 'pt, 'key) snplib \<Rightarrow> 'pool tdxlib \<Rightarrow> (bytes \<Rightarrow> (bytes \<times> bytes) result)
   \<Rightarrow> ('prod, 'root, 'crl, 'pool) manifest_object \<Rightarrow> bytes \<Rightarrow> bytes
   \<Rightarrow> (goerr option \<times> pkix_extension report list) \<times> ('prod, 'root, 'crl, 'pool) manifest_object" where
  "manifest_object_step L T J (SnpObject i opt) doc rd =
     (let st = (sv_verify opt, sv_validate opt) in
      case (if length (sv_apeip opt) = 4
            then iterative_validator_step L (so_measurement (sv_validate opt))
                   (of_nat (le_value (rev (sv_apeip opt)))) (sv_vcpu_sig opt) (sv_allowed_chip_ids opt) st raw_snp_report doc rd
            else snp_validator_step L (sv_allowed_chip_ids opt) st raw_snp_report doc rd) of
        (out, (vo, so)) \<Rightarrow> (out, SnpObject i (opt\<lparr>sv_verify := vo, sv_validate := so\<rparr>)))"
| "manifest_object_step L T J (TdxObject i opt) doc rd =
     (case tdx_validator_step T (tvo_verify opt) (tvo_allowed_piids opt) (tvo_validate opt) raw_tdx_report doc rd of
        (out, opts) \<Rightarrow> (out, TdxObject i (opt\<lparr>tvo_validate := opts\<rparr>)))"
| "manifest_object_step L T J InsecureObject doc rd =
     (insecure_validate J raw_insecure_report doc rd, InsecureObject)"

text \<open>\<open>Any\<close> over objects; those behind the one that accepts are not touched.\<close>

fun any_objects_loop ::
  "('prod, 'root, 'crl, 'pt, 'key) snplib \<Rightarrow> 'pool tdxlib \<Rightarrow> (bytes \<Rightarrow> (bytes \<times> bytes) result)
   \<Rightarrow> ('prod, 'root, 'crl, 'pool) manifest_object list \<Rightarrow> nat \<Rightarrow> bytes \<Rightarrow> bytes \<Rightarrow> goerr list \<Rightarrow> pkix_extension report list
   \<Rightarrow> (goerr option \<times> pkix_extension report list) \<times> ('prod, 'root, 'crl, 'pool) manifest_object list" where
  "any_objects_loop L T J [] i doc rd errs reps =
     ((if errs = [] then Some err_oid_not_supported else Some (Joined errs), reps), [])"
| "any_objects_loop L T J (ob # obs) i doc rd errs reps =
     (case manifest_object_step L T J ob doc rd of
        ((None, rs), ob') \<Rightarrow> ((None, reps @ rs), ob' # obs)
      | ((Some e, rs), ob') \<Rightarrow>
          (case any_objects_loop L T J obs (Suc i) doc rd
              (if err_is e err_oid_not_supported then errs
               else errs @ [Wrap (''sub-validator '' @ dec_string i) e]) (reps @ rs) of
             (out, obs') \<Rightarrow> (out, ob' # obs')))"

definition any_objects_step ::
  "('prod, 'root, 'crl, 'pt, 'key) snplib \<Rightarrow> 'pool tdxlib \<Rightarrow> (bytes \<Rightarrow> (bytes \<times> bytes) result)
   \<Rightarrow> ('prod, 'root, 'crl, 'pool) manifest_object list \<Rightarrow> oid \<Rightarrow> bytes \<Rightarrow> bytes
   \<Rightarrow> (goerr option \<times> pkix_extension report list) \<times> ('prod, 'root, 'crl, 'pool) manifest_object list" where
  "any_objects_step L T J obs oi doc rd =
     (case obs of
        [] \<Rightarrow> ((Some err_oid_not_supported, []), [])
      | [ob] \<Rightarrow> (case manifest_object_step L T J ob doc rd of (out, ob') \<Rightarrow> (out, [ob']))
      | _ \<Rightarrow> any_objects_loop L T J obs 0 doc rd [] [])"

definition manifest_vobject ::
  "('prod, 'root, 'pool) optslib \<Rightarrow> ('prod, 'root, 'crl, 'pt, 'key) snplib \<Rightarrow> 'pool tdxlib \<Rightarrow> (bytes \<Rightarrow> (bytes \<times> bytes) result)
   \<Rightarrow> ('prod, 'root, 'crl, 'pool) manifest_object list
   \<Rightarrow> (('prod, 'root, 'crl, 'pool) manifest_object list, pkix_extension report) vobject" where
  "manifest_vobject P L T J obs =
     \<lparr>object_name = vname (any_of (map (fresh_validator P L T J) obs)), object_step = any_objects_step L T J\<rparr>"

section \<open>Objects and validators\<close>

lemma manifest_validator_objects:
  "manifest_validator K P L T J m =
     (case manifest_objects K P L m of Inl e \<Rightarrow> Inl e | Inr obs \<Rightarrow> Inr (any_of (map (fresh_validator P L T J) obs)))"
  by (simp add: manifest_validator_def manifest_objects_def comp_def case_prod_unfold split: sum.split)

lemma object_step_fresh:
  "fst (manifest_object_step L T J ob doc rd) = validate (fresh_validator P L T J ob) oi doc rd"
  by (cases ob) (simp_all add: snp_validator_for_def tdx_validator_for_def insecure_validator_def with_fixed_oid_def
      Let_def split: prod.split)

lemma objects_loop_fresh:
  "fst (any_objects_loop L T J obs i doc rd errs reps)
     = any_loop (map (fresh_validator P L T J) obs) i oi doc rd errs reps"
proof (induction obs arbitrary: i errs reps)
  case (Cons ob obs)
  obtain err rs ob' where s: "manifest_object_step L T J ob doc rd = ((err, rs), ob')" by (metis prod.exhaust)
  have "validate (fresh_validator P L T J ob) oi doc rd = (err, rs)"
    using object_step_fresh [of L T J ob doc rd P oi] s by simp
  with s Cons.IH show ?case by (simp add: case_prod_unfold split: option.split)
qed simp

lemma any_objects_fresh:
  "fst (any_objects_step L T J obs oi doc rd) = validate (any_of (map (fresh_validator P L T J) obs)) oi doc rd"
proof -
  consider "obs = []" | ob where "obs = [ob]" | a b c where "obs = a # b # c" by (cases obs; cases "tl obs") auto
  then show ?thesis
  proof cases
    case 1
    then show ?thesis by (simp add: any_objects_step_def any_of_def no_validator_def)
  next
    case 2
    then show ?thesis using object_step_fresh [of L T J _ doc rd P oi]
      by (simp add: any_objects_step_def any_of_def split: prod.split) (metis fst_conv)
  next
    case 3
    then show ?thesis using objects_loop_fresh [of L T J obs 0 doc rd "[]" "[]" P oi]
      by (simp add: any_objects_step_def any_of_def del: any_objects_loop.simps any_loop.simps)
  qed
qed

section \<open>What acceptance means\<close>

text \<open>
  A document and the reports set on the way meet a manifest: the last report is that of a
  document which meets one of the reference values; \<open>xf\<close> says whether XFAM counts.
\<close>

definition document_accepted ::
  "('prod, 'root, 'pool) optslib \<Rightarrow> ('prod, 'root, 'crl, 'pt, 'key) snplib \<Rightarrow> 'pool tdxlib \<Rightarrow> (bytes \<Rightarrow> (bytes \<times> bytes) result)
   \<Rightarrow> bool \<Rightarrow> manifest \<Rightarrow> bytes \<Rightarrow> bytes \<Rightarrow> pkix_extension report \<Rightarrow> bool" where
  "document_accepted P L T J xf m doc rd report \<longleftrightarrow>
     (\<exists>r\<in>set (snp (refvals m)). \<not> names_insecure (snp_platform r) \<and>
        (\<exists>rep. snp_document_meets P L r doc rd rep \<and> report = snp_report_of (sev_abi L) (snp_asn1 L) rep))
    \<or> (\<exists>r\<in>set (tdx (refvals m)). \<not> names_insecure (tdx_platform r) \<and>
        (\<exists>q. tdx_document_meets P T xf r doc rd q \<and> report = tdx_report_of (tdx_asn1 T) q))
    \<or> (has_insecure_platforms m \<and> (\<exists>hd'. J doc = Inr (rd, hd')
        \<and> report = \<lparr>host_data = hd', claims_to_cert_extension = Inr []\<rparr>))"

text \<open>The invariant of an object, kept by every validation once XFAM no longer counts.\<close>

fun object_ok ::
  "('prod, 'root, 'pool) optslib \<Rightarrow> ('prod, 'root, 'crl, 'pt, 'key) snplib \<Rightarrow> bool \<Rightarrow> manifest
   \<Rightarrow> ('prod, 'root, 'crl, 'pool) manifest_object \<Rightarrow> bool" where
  "object_ok P L xf m (SnpObject i opt) \<longleftrightarrow> (\<exists>r\<in>set (snp (refvals m)). \<not> names_insecure (snp_platform r)
     \<and> snp_complete r \<and> snp_options_match P L r opt)"
| "object_ok P L xf m (TdxObject i opt) \<longleftrightarrow> (\<exists>r\<in>set (tdx (refvals m)). \<not> names_insecure (tdx_platform r)
     \<and> tdx_options_match P xf r opt)"
| "object_ok P L xf m InsecureObject \<longleftrightarrow> has_insecure_platforms m"

lemma object_ok_weaken: "object_ok P L xf m ob \<Longrightarrow> object_ok P L False m ob"
  by (cases ob) (auto simp: tdx_options_match_def)

lemma manifest_objects_ok:
  assumes "manifest_objects K P L m = Inr obs" and "ob \<in> set obs"
  shows "object_ok P L True m ob"
proof -
  obtain so to where so: "snp_validate_opts K P L m = Inr so" and to: "tdx_validate_opts K P m = Inr to"
    and obs: "obs = map (\<lambda>(i, opt). SnpObject i opt) (enumerate 0 so) @ map (\<lambda>(i, opt). TdxObject i opt) (enumerate 0 to)
            @ (if has_insecure_platforms m then [InsecureObject] else [])"
    using assms(1) by (auto simp: manifest_objects_def split: sum.splits)
  have ok: "manifest_ok K m" and sopt: "each_option snp_platform (snp_options_for P L) (snp (refvals m)) = Inr so"
    and topt: "each_option tdx_platform (tdx_options_for P) (tdx (refvals m)) = Inr to"
    using so to by (auto simp: snp_validate_opts_def tdx_validate_opts_def manifest_validate_None [symmetric] split: option.splits)
  have complete: "r \<in> set (snp (refvals m)) \<Longrightarrow> \<not> names_insecure (snp_platform r) \<Longrightarrow> snp_complete r" for r
    using ok by (auto simp: manifest_ok_def refvals_complete_def snp_validate_None)
  have mem: "(\<exists>i opt. ob = SnpObject i opt \<and> opt \<in> set so) \<or> (\<exists>i opt. ob = TdxObject i opt \<and> opt \<in> set to)
      \<or> (ob = InsecureObject \<and> has_insecure_platforms m)"
    using assms(2) unfolding obs set_append Un_iff
    by (cases "has_insecure_platforms m") (auto simp: in_set_enumerate_eq)
  then show ?thesis
  proof (elim disjE exE conjE)
    fix i opt assume o: "ob = SnpObject i opt" "opt \<in> set so"
    then show ?thesis using each_option_mem [OF sopt o(2)] complete snp_options_ok by fastforce
  next
    fix i opt assume o: "ob = TdxObject i opt" "opt \<in> set to"
    then show ?thesis using each_option_mem [OF topt o(2)] tdx_options_ok by fastforce
  qed simp
qed

lemma snp_verified_keeps:
  assumes "snp_verified L vo doc = (x, w)"
  shows "vo_product w = vo_product vo" and "vo_check_revocations w = vo_check_revocations vo"
proof -
  have "w = vo \<or> (\<exists>att rep. add_crl L att rep vo = Inr w)"
    using assms by (auto simp: snp_verified_def Let_def split: sum.splits option.splits)
  then show "vo_product w = vo_product vo" and "vo_check_revocations w = vo_check_revocations vo"
    using add_crl_keeps by blast+
qed

lemma snp_step_keeps_opts:
  assumes "snp_validator_step L allowed (vo, so) oi doc rd = (out, (vo', so'))"
  shows "vo_product vo' = vo_product vo \<and> vo_check_revocations vo' = vo_check_revocations vo
    \<and> so' \<in> {so, so\<lparr>so_report_data := rd\<rparr>}"
proof -
  obtain x w where v: "snp_verified L vo doc = (x, w)" by fastforce
  show ?thesis using assms snp_verified_keeps [OF v]
    by (auto simp: snp_validator_step_def v Let_def split: if_splits sum.splits prod.splits option.splits)
qed

lemma iterative_step_keeps_opts:
  assumes "iterative_validator_step L sd ap sig allowed (vo, so) oi doc rd = (out, (vo', so'))"
  shows "vo_product vo' = vo_product vo \<and> vo_check_revocations vo' = vo_check_revocations vo \<and> so' = so"
proof -
  obtain x w where v: "snp_verified L vo doc = (x, w)" by fastforce
  show ?thesis using assms snp_verified_keeps [OF v]
    by (auto simp: iterative_validator_step_def v Let_def split: if_splits sum.splits prod.splits option.splits)
qed

lemma tdx_step_keeps_opts:
  assumes "tdx_validator_step T vo allowed opts oi doc rd = (out, opts')"
  shows "opts' \<in> {opts, opts\<lparr>to_report_data := rd\<rparr>, opts\<lparr>to_report_data := rd, to_xfam := None\<rparr>}"
  using assms by (auto simp: tdx_validator_step_def Let_def split: if_splits sum.splits option.splits)

lemma object_step_ok:
  assumes "object_ok P L False m ob"
  shows "object_ok P L False m (snd (manifest_object_step L T J ob doc rd))"
proof (cases ob)
  case (SnpObject i opt)
  obtain r where r: "r \<in> set (snp (refvals m))" "\<not> names_insecure (snp_platform r)" "snp_complete r" "snp_options_match P L r opt"
    using assms SnpObject by auto
  obtain out vo so where s: "(if length (sv_apeip opt) = 4
            then iterative_validator_step L (so_measurement (sv_validate opt))
                   (of_nat (le_value (rev (sv_apeip opt)))) (sv_vcpu_sig opt) (sv_allowed_chip_ids opt)
                   (sv_verify opt, sv_validate opt) raw_snp_report doc rd
            else snp_validator_step L (sv_allowed_chip_ids opt) (sv_verify opt, sv_validate opt) raw_snp_report doc rd)
      = (out, (vo, so))" by (metis prod.exhaust)
  have "vo_product vo = vo_product (sv_verify opt) \<and> vo_check_revocations vo = vo_check_revocations (sv_verify opt)
      \<and> so \<in> {sv_validate opt, (sv_validate opt)\<lparr>so_report_data := rd\<rparr>}"
  proof (cases "length (sv_apeip opt) = 4")
    case True
    from iterative_step_keeps_opts [OF s [unfolded if_P [OF True]]] show ?thesis by simp
  next
    case False
    from snp_step_keeps_opts [OF s [unfolded if_not_P [OF False]]] show ?thesis .
  qed
  then have "snp_options_match P L r (opt\<lparr>sv_verify := vo, sv_validate := so\<rparr>)"
    using r(4) by (auto simp: snp_options_match_def)
  then show ?thesis using r s SnpObject by (auto simp: Let_def)
next
  case (TdxObject i opt)
  obtain r where r: "r \<in> set (tdx (refvals m))" "\<not> names_insecure (tdx_platform r)" "tdx_options_match P False r opt"
    using assms TdxObject by auto
  obtain out opts where s: "tdx_validator_step T (tvo_verify opt) (tvo_allowed_piids opt) (tvo_validate opt) raw_tdx_report doc rd
      = (out, opts)" by fastforce
  have "tdx_options_match P False r (opt\<lparr>tvo_validate := opts\<rparr>)"
    using r(3) tdx_step_keeps_opts [OF s] by (auto simp: tdx_options_match_def)
  then show ?thesis using r s TdxObject by auto
qed (use assms in simp)

lemma any_objects_step_ok:
  assumes "\<forall>ob\<in>set obs. object_ok P L False m ob"
  shows "\<forall>ob\<in>set (snd (any_objects_step L T J obs oi doc rd)). object_ok P L False m ob"
proof -
  have loop: "\<forall>ob\<in>set (snd (any_objects_loop L T J obs i doc rd errs reps)). object_ok P L False m ob"
    if "\<forall>ob\<in>set obs. object_ok P L False m ob" for obs i errs reps
    using that
  proof (induction obs arbitrary: i errs reps)
    case (Cons ob obs)
    obtain err rs ob' where s: "manifest_object_step L T J ob doc rd = ((err, rs), ob')" by (metis prod.exhaust)
    have "object_ok P L False m ob'" using object_step_ok [of P L m ob T J doc rd] Cons.prems s by simp
    with s Cons show ?case by (auto simp: case_prod_unfold split: option.split)
  qed simp
  consider "obs = []" | ob where "obs = [ob]" | a b c where "obs = a # b # c" by (cases obs; cases "tl obs") auto
  then show ?thesis
  proof cases
    case 2
    then show ?thesis using object_step_ok [of P L m _ T J doc rd] assms
      by (auto simp: any_objects_step_def split: prod.split) (metis snd_conv)
  next
    case 3
    then show ?thesis using loop [OF assms, of 0 "[]" "[]"]
      by (simp add: any_objects_step_def del: any_objects_loop.simps)
  qed (simp add: any_objects_step_def)
qed

lemma any_objects_accepts:
  assumes ok: "\<forall>ob\<in>set obs. object_ok P L xf m ob"
    and acc: "any_objects_step L T J obs oi doc rd = ((None, reps), obs')"
  shows "\<exists>pre report. reps = pre @ [report] \<and> document_accepted P L T J xf m doc rd report"
proof -
  have "validate (any_of (map (fresh_validator P L T J) obs)) oi doc rd = (None, reps)"
    using any_objects_fresh [of L T J obs oi doc rd P] acc by simp
  from any_of_reports [OF this] obtain ob rs pre where ob: "ob \<in> set obs"
    and v: "validate (fresh_validator P L T J ob) oi doc rd = (None, rs)" and reps: "reps = pre @ rs" by auto
  have "\<exists>report. rs = [report] \<and> document_accepted P L T J xf m doc rd report"
  proof (cases ob)
    case (SnpObject i opt)
    then have "object_ok P L xf m (SnpObject i opt)" using ok ob by blast
    then obtain r where r: "r \<in> set (snp (refvals m))" "\<not> names_insecure (snp_platform r)" "snp_complete r" "snp_options_match P L r opt"
      by auto
    from snp_validator_accepts [OF r(4,3) v [unfolded SnpObject fresh_validator.simps]] r show ?thesis
      unfolding document_accepted_def by blast
  next
    case (TdxObject i opt)
    then have "object_ok P L xf m (TdxObject i opt)" using ok ob by blast
    then obtain r where r: "r \<in> set (tdx (refvals m))" "\<not> names_insecure (tdx_platform r)" "tdx_options_match P xf r opt"
      by auto
    from tdx_validator_accepts [OF r(3) v [unfolded TdxObject fresh_validator.simps]] r show ?thesis
      unfolding document_accepted_def by blast
  next
    case InsecureObject
    then show ?thesis using v ok ob
      by (auto simp: insecure_validator_def with_fixed_oid_def insecure_accepts document_accepted_def)
  qed
  with reps show ?thesis by blast
qed

text \<open>
  A fresh validator of a manifest, given one document: what it accepts meets one of the
  manifest's reference values, and the report is that document's.
\<close>

lemma manifest_validator_sound:
  assumes v: "manifest_validator K P L T J m = Inr v" and acc: "validate v oi doc rd = (None, reps)"
  shows "\<exists>pre report. reps = pre @ [report] \<and> document_accepted P L T J True m doc rd report"
proof -
  obtain obs where obs: "manifest_objects K P L m = Inr obs" and v': "v = any_of (map (fresh_validator P L T J) obs)"
    using v by (auto simp: manifest_validator_objects split: sum.splits)
  obtain obs' where "any_objects_step L T J obs oi doc rd = ((None, reps), obs')"
    using any_objects_fresh [of L T J obs oi doc rd P] acc v' by (metis prod.collapse)
  from any_objects_accepts [OF _ this] manifest_objects_ok [OF obs] show ?thesis by blast
qed

text \<open>
  A verified connection: the certificate holds a document, bound to its key and our nonce, that
  meets a reference value; XFAM is compared for sure only when it is the only document.
\<close>

lemma connection_sound:
  assumes obs: "manifest_objects K P L m = Inr obs"
    and c: "connection_verify A (manifest_vobject P L T J obs) obs nonce raw = (Inr (cert, reps), obs')"
  shows "\<exists>raw' rest pub x pre report. raw = raw' # rest \<and> parse_cert A raw' = Inr cert
    \<and> verify_self A cert = None \<and> pkix_bytes A (cert_key A cert) = Inr pub
    \<and> x \<in> set (attestation_extensions (cert_extensions A cert)) \<and> reps = pre @ [report]
    \<and> document_accepted P L T J (attestation_extensions (cert_extensions A cert) = [x]) m (ext_value x)
        (sha512 A (pub @ nonce)) report"
proof -
  let ?ok = "\<lambda>obs. \<forall>ob\<in>set obs. object_ok P L False m ob"
  have ok: "\<forall>ob\<in>set obs. object_ok P L True m ob" using manifest_objects_ok [OF obs] by blast
  then have "?ok obs" using object_ok_weaken by blast
  moreover have "?ok s \<Longrightarrow> ?ok (snd (object_step (manifest_vobject P L T J obs) s oi doc rd))" for s oi doc rd
    unfolding manifest_vobject_def vobject.simps by (rule any_objects_step_ok)
  ultimately obtain raw' rest pub x s rs pre where x: "raw = raw' # rest" "parse_cert A raw' = Inr cert"
    "verify_self A cert = None" "pkix_bytes A (cert_key A cert) = Inr pub"
    "x \<in> set (attestation_extensions (cert_extensions A cert))" and s: "?ok s"
    and step: "any_objects_step L T J s (ext_id x) (ext_value x) (sha512 A (pub @ nonce)) = ((None, rs), obs')"
    and reps: "reps = pre @ rs" and one: "attestation_extensions (cert_extensions A cert) = [x] \<longrightarrow> s = obs"
    using connection_verify_ok [where okst = ?ok, OF c] unfolding manifest_vobject_def vobject.simps by blast
  have "\<forall>ob\<in>set s. object_ok P L (attestation_extensions (cert_extensions A cert) = [x]) m ob"
    using s one ok by (cases "attestation_extensions (cert_extensions A cert) = [x]") auto
  from any_objects_accepts [OF this step] x reps show ?thesis by (metis append.assoc)
qed


section \<open>Behind another document\<close>

text \<open>
  The first document of a certificate may fail after its XFAM was compared, say for foreign
  report data. The next document is then accepted whatever XFAM it has: the reference was
  cleared in the options that both validations share.
\<close>

lemma embedded_loop_filter:
  "embedded_loop v st rd xs found matched errs reps = embedded_loop v st rd (attestation_extensions xs) found matched errs reps"
  by (induction xs arbitrary: st found matched errs reps) (auto split: prod.split option.split)

lemma tdx_step_fails_late:
  assumes "unmarshal_quote T doc = Inr q" and "verify_quote T q vo = None"
    and "\<forall>x. to_xfam opts = Some x \<longrightarrow> validate_xfam_ignoring_cet (tq_xfam q) x = None"
    and "check_quote T q (opts\<lparr>to_report_data := rd, to_xfam := None\<rparr>) = Some e"
  shows "tdx_validator_step T vo allowed opts raw_tdx_report doc rd
    = ((Some (Wrap ''validating report data'' e), []), opts\<lparr>to_report_data := rd, to_xfam := None\<rparr>)"
  using assms by (cases "to_xfam opts") (simp_all add: tdx_validator_step_def Let_def)

lemma xfam_skipped:
  assumes p: "process_certificate A raw = Inr (cert, pub)" and rd: "rd = sha512 A (pub @ nonce)"
    and exts: "attestation_extensions (cert_extensions A cert) = [x, y]"
    and first: "unmarshal_quote T (ext_value x) = Inr q" "verify_quote T q (tvo_verify opt) = None"
      "\<forall>ref. to_xfam (tvo_validate opt) = Some ref \<longrightarrow> validate_xfam_ignoring_cet (tq_xfam q) ref = None"
      "check_quote T q ((tvo_validate opt)\<lparr>to_report_data := rd, to_xfam := None\<rparr>) = Some e"
    and second: "unmarshal_quote T (ext_value y) = Inr q'" "verify_quote T q' (tvo_verify opt) = None"
      "check_quote T q' ((tvo_validate opt)\<lparr>to_report_data := rd, to_xfam := None\<rparr>) = None"
      "tvo_allowed_piids opt = [] \<or> (\<exists>p\<in>set (tvo_allowed_piids opt). get_piid T q' = Inr p)"
  shows "fst (connection_verify A (manifest_vobject P L T J [TdxObject i opt]) [TdxObject i opt] nonce raw)
    = Inr (cert, [tdx_report_of (tdx_asn1 T) q'])"
proof -
  define opts where "opts = (tvo_validate opt)\<lparr>to_report_data := rd, to_xfam := None\<rparr>"
  have 1: "tdx_validator_step T (tvo_verify opt) (tvo_allowed_piids opt) (tvo_validate opt) raw_tdx_report (ext_value x) rd
      = ((Some (Wrap ''validating report data'' e), []), opts)"
    using tdx_step_fails_late [OF first] by (simp add: opts_def)
  have 2: "tdx_validator_step T (tvo_verify opt) (tvo_allowed_piids opt) opts raw_tdx_report (ext_value y) rd
      = ((None, [tdx_report_of (tdx_asn1 T) q']), opts)"
    unfolding tdx_step_accepts using second by (simp add: opts_def)
  have xy: "is_attestation_document_extension (ext_id x)" "is_attestation_document_extension (ext_id y)"
    using arg_cong [OF exts, of set] by (auto simp: set_eq_iff)
  have "embedded_loop (manifest_vobject P L T J [TdxObject i opt]) [TdxObject i opt] rd (cert_extensions A cert) False False [] []
      = (Inr [tdx_report_of (tdx_asn1 T) q'], [TdxObject i (opt\<lparr>tvo_validate := opts\<rparr>)])"
    by (subst embedded_loop_filter) (simp add: exts xy manifest_vobject_def any_objects_step_def 1 2)
  then show ?thesis
    by (simp add: connection_verify_def p verify_embedded_report_def construct_atls_report_data_def rd)
qed


end
