(* ===== verification/Connection.thy ===== *)
theory Connection
  imports ValidatorObjects TransitengineFacts
begin

text \<open>
  How the parts meet in a connection to the Coordinator: the credentials of
  \<open>coordinator/internal/stateguard/credentials.go\<close> run the aTLS verification of
  \<open>internal/atls\<close> with the validator that the current manifest makes, the mesh API answers to
  the attested peer, and the transit engine authorizes by the certificate the mesh API issued.
\<close>

section \<open>The handshake\<close>

text \<open>
  The TLS library parses every certificate of the peer and the aTLS callback verifies the
  first. The report in the \<open>AuthInfo\<close> is the last one that was set; without any it would be
  nil. The validator object belongs to this handshake alone.
\<close>

fun parse_certs :: "('cert, 'pk, 'sk) atlslib \<Rightarrow> bytes list \<Rightarrow> 'cert list result" where
  "parse_certs A [] = Inr []"
| "parse_certs A (raw # raws) =
     (case parse_cert A raw of
        Inl e \<Rightarrow> Inl e
      | Inr c \<Rightarrow> (case parse_certs A raws of Inl e \<Rightarrow> Inl e | Inr cs \<Rightarrow> Inr (c # cs)))"

definition attested_tls ::
  "('cert, 'pk, 'sk) atlslib \<Rightarrow> ('prod, 'root, 'pool) optslib \<Rightarrow> ('prod, 'root, 'crl, 'pt, 'key) snplib \<Rightarrow> 'pool tdxlib
   \<Rightarrow> (bytes \<Rightarrow> (bytes \<times> bytes) result) \<Rightarrow> bytes \<Rightarrow> bytes list
   \<Rightarrow> ('prod, 'root, 'crl, 'pool) manifest_object list \<Rightarrow> ('pk list \<times> pkix_extension report) result" where
  "attested_tls A P L T J nonce raw obs =
     (case parse_certs A raw of
        Inl e \<Rightarrow> Inl e
      | Inr certs \<Rightarrow>
     (case fst (fst (server_verify A (manifest_vobject P L T J obs) obs nonce raw 0)) of
        Inl e \<Rightarrow> Inl e
      | Inr (cert, []) \<Rightarrow> Inl nil_dereference
      | Inr (cert, r # rs) \<Rightarrow> Inr (map (cert_key A) certs, List.last (r # rs))))"

definition coordinator_handshake where
  "coordinator_handshake E K A P L T J nonce raw g =
     server_handshake E (manifest_objects K P L) (attested_tls A P L T J nonce raw) g"

text \<open>What the handshake leaves for a handler.\<close>

lemma attested_tls_ok:
  assumes obs: "manifest_objects K P L m = Inr obs" and t: "attested_tls A P L T J nonce raw obs = Inr (keys, report)"
  shows "\<exists>cert pub x rest. keys = cert_key A cert # rest
    \<and> verify_self A cert = None \<and> pkix_bytes A (cert_key A cert) = Inr pub
    \<and> x \<in> set (attestation_extensions (cert_extensions A cert))
    \<and> document_accepted P L T J (attestation_extensions (cert_extensions A cert) = [x]) m (ext_value x)
        (sha512 A (pub @ nonce)) report"
proof -
  obtain certs cert reps obs' where certs: "parse_certs A raw = Inr certs" "keys = map (cert_key A) certs"
    and c: "connection_verify A (manifest_vobject P L T J obs) obs nonce raw = (Inr (cert, reps), obs')"
    and reps: "reps \<noteq> []" "report = List.last reps"
    using t by (cases "connection_verify A (manifest_vobject P L T J obs) obs nonce raw")
      (auto simp: attested_tls_def server_verify_agrees split: sum.splits list.splits)
  from connection_sound [OF obs c] obtain raw' rest pub x pre r where x: "raw = raw' # rest" "parse_cert A raw' = Inr cert"
    "verify_self A cert = None" "pkix_bytes A (cert_key A cert) = Inr pub"
    "x \<in> set (attestation_extensions (cert_extensions A cert))" "reps = pre @ [r]"
    "document_accepted P L T J (attestation_extensions (cert_extensions A cert) = [x]) m (ext_value x)
        (sha512 A (pub @ nonce)) r" by blast
  then have "\<exists>ks. keys = cert_key A cert # ks" using certs by (auto split: sum.splits)
  with x reps show ?thesis by auto
qed

lemma coordinator_handshake_ok:
  assumes "coordinator_handshake E K A P L T J nonce raw g = (Inr ai, g')"
  shows "\<exists>i cert pub x rest. current g = Some i \<and> \<not> stale (states g ! i) \<and> auth_state ai = states g ! i
    \<and> auth_peer_keys ai = cert_key A cert # rest \<and> verify_self A cert = None \<and> pkix_bytes A (cert_key A cert) = Inr pub
    \<and> x \<in> set (attestation_extensions (cert_extensions A cert))
    \<and> document_accepted P L T J (attestation_extensions (cert_extensions A cert) = [x]) (manifest_of (states g ! i))
        (ext_value x) (sha512 A (pub @ nonce)) (auth_report ai)"
proof -
  obtain i obs where i: "current g = Some i" "\<not> stale (states g ! i)" "auth_state ai = states g ! i"
    and obs: "manifest_objects K P L (manifest_of (states g ! i)) = Inr obs"
    and t: "attested_tls A P L T J nonce raw obs = Inr (auth_peer_keys ai, auth_report ai)"
    using server_handshake_ok [OF assms [unfolded coordinator_handshake_def]] by blast
  from attested_tls_ok [OF obs t] i show ?thesis by blast
qed

section \<open>From the handshake to the transit engine\<close>

lemma accepted_report_claims:
  assumes "document_accepted P L T J xf m doc rd report" and "claims_to_cert_extension report = Inr claims"
  shows "\<forall>x\<in>set claims. ext_id x \<noteq> workload_secret_oid"
proof -
  have "(\<exists>B A r. snp_claims B A r = Inr claims) \<or> (\<exists>A q. tdx_claims A q = Inr claims) \<or> claims = []"
    using assms unfolding document_accepted_def snp_report_of_def tdx_report_of_def by auto
  then show ?thesis
  proof (elim disjE exE)
    fix B A r assume "snp_claims B A r = Inr claims"
    from snp_claims_oids(2) [OF this] show ?thesis unfolding set_map by (metis imageI)
  next
    fix A q assume "tdx_claims A q = Inr claims"
    from tdx_claims_oids(2) [OF this] show ?thesis unfolding set_map by (metis imageI)
  qed simp
qed

text \<open>
  A certificate that the mesh API issues for an attested peer: its key is the one of the TLS
  connection, and presented to the transit engine it authorizes the workload secret of the
  peer's policy and no other name; without a workload secret it authorizes nothing.
\<close>

lemma no_extension_unauthorized:
  assumes "\<forall>x\<in>set claims. ext_id x \<noteq> workload_secret_oid" and "tls_certs r = Some (claims # rest)"
  shows "authorize_workload_secret TL wid r \<noteq> None"
proof -
  have "find (\<lambda>x. ext_id x = workload_secret_oid) claims = None" using assms(1) by (simp add: find_None_iff)
  then show ?thesis using assms(2) by (simp add: authorize_ok extract_extension_ok)
qed

lemma mesh_cert_authorizes:
  assumes x: "x509_laws (mesh_certs M) signed_by"
    and asn: "\<And>b v. asn1_bytes (mesh_asn1 M) b = Inr v \<Longrightarrow> asn1_read_bytes TL v = Inr b"
    and acc: "document_accepted P L T J xf m doc rd (auth_report ai)"
    and new: "new_mesh_cert M rnd now (MeshPeer ai host) = Inr resp"
  shows "\<exists>entry pem cert. (new_hex_string (host_data (auth_report ai)), entry) \<in> set (policies (manifest_of (auth_state ai)))
    \<and> mc_cert_chain resp = pem @ interm_ca_pem (ca_of (auth_state ai))
    \<and> certifies (mesh_certs M) signed_by pem cert (key_public (mesh_certs M) (interm_priv_key (ca_of (auth_state ai))))
    \<and> (\<exists>b pub. marshal_pkix M (hd (auth_peer_keys ai)) = Inr b \<and> parse_pkix M b = Inr pub \<and> cert_public_key cert = Some pub)
    \<and> (\<forall>r rest wid. tls_certs r = Some (extra_extensions cert # rest) \<longrightarrow>
         (authorize_workload_secret TL wid r = None \<longleftrightarrow> workload_secret_id entry \<noteq> '''' \<and> wid = workload_secret_id entry))"
  using new
proof (rule new_mesh_cert_ok)
  fix ai' host' key keys b pub entry claims exts cert
  assume n: "MeshPeer ai host = MeshPeer ai' host'" "auth_peer_keys ai' = key # keys" "marshal_pkix M key = Inr b"
    "parse_pkix M b = Inr pub"
    "(new_hex_string (host_data (auth_report ai')), entry) \<in> set (policies (manifest_of (auth_state ai')))"
    and claims: "claims_to_cert_extension (auth_report ai') = Inr claims"
    and exts: "if workload_secret_id entry = '''' then exts = claims else (\<exists>x. exts = claims @ [x]
        \<and> convert_extension (mesh_asn1 M) (BytesExtension workload_secret_oid (bytes_of_string (workload_secret_id entry))) = Inr x)"
    and cert: "new_attested_mesh_cert (mesh_certs M) rnd now (ca_of (auth_state ai'))
        (case host' of None \<Rightarrow> sans entry | Some h \<Rightarrow> sans entry @ [h]) exts pub = Inr cert"
    and chain: "mc_cert_chain resp = cert @ interm_ca_pem (ca_of (auth_state ai'))"
  have ids: "\<forall>x\<in>set claims. ext_id x \<noteq> workload_secret_oid" using accepted_report_claims [OF acc] n(1) claims by simp
  from x509_laws.mesh_cert_certified [OF x cert] obtain c where
    c: "certifies (mesh_certs M) signed_by cert c (key_public (mesh_certs M) (interm_priv_key (ca_of (auth_state ai'))))"
    "cert_public_key c = Some pub" "extra_extensions c = exts" by blast
  have "authorize_workload_secret TL wid r = None \<longleftrightarrow> workload_secret_id entry \<noteq> '''' \<and> wid = workload_secret_id entry"
    if r: "tls_certs r = Some (extra_extensions c # rest)" for r rest wid
  proof (cases "workload_secret_id entry = ''''")
    case True
    then show ?thesis using no_extension_unauthorized [OF ids] r c(3) exts by simp
  next
    case False
    then obtain y where y: "exts = claims @ [y]"
      "convert_extension (mesh_asn1 M) (BytesExtension workload_secret_oid (bytes_of_string (workload_secret_id entry))) = Inr y"
      using exts by auto
    have "authorize_workload_secret TL wid r = None \<longleftrightarrow> wid = workload_secret_id entry"
      by (rule issued_extension_authorizes [OF ids y(2) asn]) (use r c(3) y(1) in auto)
    with False show ?thesis by simp
  qed
  with n c chain show ?thesis by (intro exI [of _ entry] exI [of _ cert] exI [of _ c]) auto
qed

end
