(* ===== verification/AttestDemo.thy ===== *)
theory AttestDemo
  imports Connection Scenario
begin

text \<open>
  Concrete libraries, documents and a deployment at which the properties of attestation are
  applied: quotes are their XFAM followed by their report data, certificates are those of
  \<open>plain_atls\<close>, and the manifest has one TDX reference value.
\<close>

section \<open>Libraries\<close>

definition plain_enclave_report :: enclave_report where
  "plain_enclave_report = \<lparr>er_cpu_svn = [], er_misc_select = 0, er_reserved1 = [], er_attributes = [], er_mr_enclave = [],
     er_reserved2 = [], er_mr_signer = [], er_reserved3 = [], er_isv_prod_id = 0, er_isv_svn = 0, er_reserved4 = [],
     er_report_data = []\<rparr>"

definition plain_quote :: "bytes \<Rightarrow> tdx_quote" where
  "plain_quote doc = \<lparr>tq_version = 4, tq_attestation_key_type = 2, tq_tee_type = 0x81, tq_qe_svn = [], tq_pce_svn = [],
     tq_qe_vendor_id = intel_qe_vendor_id, tq_user_data = [], tq_tee_tcb_svn = [], tq_mr_seam = [], tq_mr_signer_seam = [],
     tq_seam_attributes = [], tq_td_attributes = [], tq_xfam = take 8 doc, tq_mr_td = [],
     tq_mr_config_id = digest demo_hash demo_policy @ replicate 16 0, tq_mr_owner = [], tq_mr_owner_config = [],
     tq_rtmrs = [[], [], [], []], tq_report_data = drop 8 doc, tq_signed_data_size = 0, tq_signature = [],
     tq_ecdsa_attestation_key = [], tq_certificate_data_type = 6, tq_certification_size = 0,
     tq_qe_report = plain_enclave_report, tq_qe_report_signature = [], tq_parsed_data_size = 0, tq_qe_auth_data = [],
     tq_pck_data_type = 5, tq_pck_size = 0, tq_pck_cert_chain = [], tq_extra_bytes = []\<rparr>"

definition plain_asn1 :: asn1lib where
  "plain_asn1 = \<lparr>asn1_int = (\<lambda>i. Inr [of_int i]), asn1_bytes = Inr, asn1_bool = (\<lambda>b. Inr [if b then 255 else 0])\<rparr>"

definition plain_tdx :: "unit tdxlib" where
  "plain_tdx = \<lparr>unmarshal_quote = (\<lambda>doc. Inr (plain_quote doc)), verify_quote = (\<lambda>q vo. None),
     check_quote = (\<lambda>q opts. if tq_report_data q = to_report_data opts
        \<and> (case to_xfam opts of None \<Rightarrow> True | Some x \<Rightarrow> x = tq_xfam q) then None else Some (Msg ''quote mismatch'')),
     pem_blocks = (\<lambda>b. []), pck_cert = (\<lambda>b. Inl (Msg ''no certificate'')), tdx_asn1 = plain_asn1\<rparr>"

definition plain_p384 :: "(bytes, bytes) p384" where
  "plain_p384 = \<lparr>curve_p = 7, curve_n = 7, curve_b = 1, mod_inverse = (\<lambda>a n. Some 1), mod_sqrt = (\<lambda>a p. Some 1),
     set_point = Inr, base_mult = Inr, scalar_mult = (\<lambda>p s. Inr s), add_points = (\<lambda>p q. p), point_bytes = (\<lambda>p. p),
     parse_key = Inr, key_encoding = Inr\<rparr>"

definition plain_snp :: "(unit, unit, unit, bytes, bytes) snplib" where
  "plain_snp = \<lparr>unmarshal_attestation = (\<lambda>doc. Inl (Msg ''proto'')), verify_attestation = (\<lambda>a vo. None),
     check_claims = (\<lambda>a so. None), parse_crl = (\<lambda>b. Inr ()), line_from_fms = (\<lambda>f. ''Milan''),
     line_of_product = (\<lambda>p. ''Milan''), sev_abi = \<lparr>policy_of = (\<lambda>p. Inl (Msg ''policy'')),
       platform_info_of = (\<lambda>p. Inr (False, False)), signer_info_of = (\<lambda>s. Inl (Msg ''signer info'')),
       tcb_parts_of = (\<lambda>t. \<lparr>bl_spl = 0, tee_spl = 0, snp_spl = 0, ucode_spl = 0\<rparr>)\<rparr>,
     snp_asn1 = plain_asn1, sha384_fun = (\<lambda>b. replicate 48 (of_nat (length b))), p384_lib = plain_p384,
     policy_to_bytes = (\<lambda>p. 0)\<rparr>"

definition plain_opts :: "(unit, unit, unit) optslib" where
  "plain_opts = \<lparr>parse_product_line = (\<lambda>n. Inr ()), product_label = (\<lambda>p. ''SEV_PRODUCT_MILAN''),
     amd_roots = (\<lambda>n. Inr ()), tdx_root_pool = Some ()\<rparr>"

definition plain_json :: "bytes \<Rightarrow> (bytes \<times> bytes) result" where
  "plain_json doc = Inl (Msg ''invalid character'')"

section \<open>A manifest with a TDX reference value\<close>

definition good_xfam :: bytes where "good_xfam = [0xe7, 2, 6, 0, 0, 0, 0, 0]"
definition bad_xfam :: bytes where "bad_xfam = [0xff, 0xff, 0xff, 0, 0, 0, 0, 0]"

definition attest_reference :: tdx_reference_values where
  "attest_reference = \<lparr>tdx_platform = ''Metal-QEMU-TDX'', min_tcb_evaluation_data_number = 0,
     mr_td = hex_encode (replicate 48 1), mr_seam = hex_encode (replicate 48 2),
     rtmrs = [hex_encode (replicate 48 3), hex_encode (replicate 48 3), hex_encode (replicate 48 3), hex_encode (replicate 48 3)], xfam = hex_encode good_xfam, allowed_piids = [],
     memory_integrity = False, smt_disabled = False, static_platform = False\<rparr>"

definition attest_manifest :: manifest where
  "attest_manifest = demo_manifest\<lparr>refvals := \<lparr>snp = [], tdx = [attest_reference]\<rparr>\<rparr>"

definition attest_options :: "unit tdx_validator_options" where
  "attest_options = \<lparr>tvo_verify = \<lparr>tv_trusted_roots = (), tv_check_revocations = True, tv_get_collateral = True,
       tv_evaluation_data_number = None\<rparr>,
     tvo_validate = \<lparr>to_qe_vendor_id = intel_qe_vendor_id, to_mr_seam = replicate 48 2,
       to_td_attributes = expected_td_attributes, to_xfam = Some good_xfam, to_mr_td = replicate 48 1,
       to_rtmrs = [replicate 48 3, replicate 48 3, replicate 48 3, replicate 48 3], to_report_data = [], to_sgx_type_with_integrity = False,
       to_smt_enabled = None, to_dynamic_platform = None\<rparr>,
     tvo_allowed_piids = []\<rparr>"

lemma hex_bytes_encode: "hex_bytes (hex_encode b) = Inr b"
  using hex_bytes_new [of b] by (simp only: new_hex_string_def)

lemma length_good_xfam: "length good_xfam = 8"
  by (simp add: good_xfam_def)

lemma attest_platform: "from_string ''Metal-QEMU-TDX'' = Inr MetalQEMUTDX" "\<not> is_insecure MetalQEMUTDX"
  by code_simp+

lemma attest_manifest_facts:
  "policies attest_manifest = [(demo_policy_hash, demo_entry)]"
  "refvals attest_manifest = \<lparr>snp = [], tdx = [attest_reference]\<rparr>"
  "\<not> has_insecure_platforms attest_manifest" "\<not> names_insecure (tdx_platform attest_reference)"
  by (simp_all add: attest_manifest_def demo_manifest_def attest_reference_def has_insecure_platforms_def
      any_reference_value_def names_insecure_def attest_platform)

lemma attest_manifest_valid: "manifest_validate plain_keylib attest_manifest = None"
proof -
  have "tdx_complete attest_reference"
    by (simp add: tdx_complete_def attest_reference_def hex_of_size_bytes hex_bytes_encode length_good_xfam)
  moreover have "hex_of_size 32 demo_policy_hash"
    by (simp add: demo_policy_hash_def hex_of_size_bytes hex_bytes_encode)
  moreover have "parse_workload_owner_public_key plain_keylib ''300102'' = Inr [1, 2]"
    "parse_seedshare_owner_key plain_keylib ''3003'' = Inr [3]" by code_simp+
  ultimately show ?thesis
    by (simp add: manifest_validate_None manifest_ok_def attest_manifest_facts refvals_complete_def demo_entry_def key_parses_def)
      (simp add: attest_manifest_def demo_manifest_def)
qed

lemma attest_reference_options: "tdx_options_for plain_opts attest_reference = Inr attest_options"
  by (simp add: tdx_options_for_def tdx_trusted_root_certs_def plain_opts_def attest_options_def attest_reference_def
      hex_bytes_encode)

lemma attest_objects:
  "manifest_objects plain_keylib plain_opts plain_snp attest_manifest = Inr [TdxObject 0 attest_options]"
  by (simp add: manifest_objects_def snp_validate_opts_def tdx_validate_opts_def attest_manifest_valid
      attest_reference_options attest_manifest_facts)

section \<open>A Coordinator with that manifest, and a peer\<close>

instance pkix_extension_ext :: (countable) countable
  by (rule countable_classI [of "\<lambda>x. to_nat (ext_id x, ext_value x, pkix_extension.more x)"]) simp

definition attest_env :: "(string \<Rightarrow> bytes option, bytes, bytes, pkix_extension, bytes, bytes) env" where
  "attest_env = \<lparr>hash_fun = demo_hash, hist_store = afero_store mem_fs, sig_scheme = demo_sigs,
     kdf_lib = plain_kdf, cert_lib = plain_certlib, json_manifest = (\<lambda>b. Inr (Some attest_manifest))\<rparr>"

definition attest_ca :: "(bytes, bytes, pkix_extension, bytes, bytes) ca" where
  "attest_ca = \<lparr>root_ca_priv_key = [5, 5], root_ca_pem = [1], interm_priv_key = [9], interm_ca_pem = [2],
     mesh_ca_cert = ca_template interm_cn 0 0, mesh_ca_pem = [3], mesh_ca_cert_pool = []\<rparr>"

definition attest_state :: "(bytes, bytes, pkix_extension, bytes, bytes) state" where
  "attest_state = \<lparr>seed_engine_of = demo_engine, manifest_of = attest_manifest, manifest_bytes = demo_json,
     ca_of = attest_ca, latest_of = \<lparr>transition_hash = replicate 32 1, signature = [1]\<rparr>, generation = 1, stale = False\<rparr>"

definition attest_guard :: "(string \<Rightarrow> bytes option, bytes, bytes, pkix_extension, bytes, bytes) guard" where
  "attest_guard = (new_guard (new_with_store (\<lambda>_. None)))\<lparr>current := Some 0, states := [attest_state]\<rparr>"

definition attest_meshlib :: "(bytes, bytes, bytes, bytes) meshlib" where
  "attest_meshlib = \<lparr>mesh_certs = plain_certlib, mesh_asn1 = plain_asn1, mesh_kdf = plain_kdf, marshal_pkix = Inr, parse_pkix = Inr\<rparr>"

text \<open>The peer's certificate for the nonce \<open>[9, 9]\<close>: its key, and a quote over key and nonce.\<close>

definition peer_raw :: "bytes list" where
  "peer_raw = [1 # 1 # 7 # good_xfam @ [7, 9, 9]]"

definition attest_handshake where
  "attest_handshake = coordinator_handshake attest_env plain_keylib plain_atls plain_opts plain_snp plain_tdx plain_json
     [9, 9] peer_raw attest_guard"

lemma plain_tdx_accepts:
  assumes "\<forall>x. to_xfam opts = Some x \<longrightarrow> validate_xfam_ignoring_cet (take 8 doc) x = None" and "drop 8 doc = rd"
  shows "tdx_validator_step plain_tdx vo [] opts raw_tdx_report doc rd
    = ((None, [tdx_report_of plain_asn1 (plain_quote doc)]), opts\<lparr>to_report_data := rd, to_xfam := None\<rparr>)"
  unfolding tdx_step_accepts using assms by (simp add: plain_tdx_def plain_quote_def)

lemma peer_verified:
  "connection_verify plain_atls (manifest_vobject plain_opts plain_snp plain_tdx plain_json [TdxObject 0 attest_options])
      [TdxObject 0 attest_options] [9, 9] peer_raw = (Inr ((\<lparr>ext_id = raw_tdx_report, ext_value = good_xfam @ [7, 9, 9]\<rparr>, [7]),
        [tdx_report_of plain_asn1 (plain_quote (good_xfam @ [7, 9, 9]))]),
        [TdxObject 0 (attest_options\<lparr>tvo_validate := (tvo_validate attest_options)\<lparr>to_report_data := [7, 9, 9], to_xfam := None\<rparr>\<rparr>)])"
proof -
  have x: "to_xfam (tvo_validate attest_options) = Some good_xfam" "tvo_allowed_piids attest_options = []"
    by (simp_all add: attest_options_def)
  have s: "any_objects_step plain_snp plain_tdx plain_json [TdxObject 0 attest_options] raw_tdx_report
      (good_xfam @ [7, 9, 9]) [7, 9, 9] = ((None, [tdx_report_of plain_asn1 (plain_quote (good_xfam @ [7, 9, 9]))]),
        [TdxObject 0 (attest_options\<lparr>tvo_validate := (tvo_validate attest_options)\<lparr>to_report_data := [7, 9, 9], to_xfam := None\<rparr>\<rparr>)])"
    by (simp add: any_objects_step_def x plain_tdx_accepts validate_xfam_ok length_good_xfam)
  have p: "process_certificate plain_atls peer_raw = Inr ((\<lparr>ext_id = raw_tdx_report, ext_value = good_xfam @ [7, 9, 9]\<rparr>, [7]), [7])"
    by (simp add: process_certificate_def peer_raw_def plain_atls_def plain_oid_at_def)
  have e: "cert_extensions plain_atls c = [fst c]" "construct_atls_report_data plain_atls [7] [9, 9] = [7, 9, 9]" for c
    by (simp_all add: plain_atls_def construct_atls_report_data_def)
  show ?thesis by (simp add: connection_verify_def p e verify_embedded_report_def manifest_vobject_def s
      is_attestation_document_extension_def)
qed

lemma attest_handshake_ok:
  "attest_handshake = (Inr \<lparr>auth_state = attest_state,
     auth_report = tdx_report_of plain_asn1 (plain_quote (good_xfam @ [7, 9, 9])), auth_peer_keys = [[7]]\<rparr>, attest_guard)"
proof -
  have g: "get_state attest_env attest_guard = ((Some 0, None), attest_guard)" "states attest_guard = [attest_state]"
    by (simp_all add: get_state_def attest_guard_def attest_state_def)
  have c: "parse_certs plain_atls peer_raw = Inr [(\<lparr>ext_id = raw_tdx_report, ext_value = good_xfam @ [7, 9, 9]\<rparr>, [7])]"
    by (simp add: peer_raw_def plain_atls_def plain_oid_at_def)
  have m: "manifest_of attest_state = attest_manifest" and k: "cert_key plain_atls c' = snd c'" for c'
    by (simp_all add: attest_state_def plain_atls_def)
  have t: "attested_tls plain_atls plain_opts plain_snp plain_tdx plain_json [9, 9] peer_raw [TdxObject 0 attest_options]
      = Inr ([[7]], tdx_report_of plain_asn1 (plain_quote (good_xfam @ [7, 9, 9])))"
    by (simp add: attested_tls_def c k server_verify_agrees peer_verified)
  show ?thesis
    by (simp add: attest_handshake_def coordinator_handshake_def server_handshake_def g m attest_objects t)
qed

text \<open>A certificate with two documents: the first for other report data, the second with an XFAM that differs.\<close>

definition two_documents :: "(pkix_extension \<times> bytes, bytes, bytes) atlslib" where
  "two_documents = plain_atls\<lparr>cert_extensions := (\<lambda>c. [\<lparr>ext_id = raw_snp_report, ext_value = good_xfam\<rparr>,
     \<lparr>ext_id = raw_tdx_report, ext_value = bad_xfam @ [7, 9, 9]\<rparr>])\<rparr>"

lemma two_documents_facts:
  "process_certificate two_documents peer_raw
     = Inr ((\<lparr>ext_id = raw_tdx_report, ext_value = good_xfam @ [7, 9, 9]\<rparr>, [7]), [7])"
  "cert_extensions two_documents c = [\<lparr>ext_id = raw_snp_report, ext_value = good_xfam\<rparr>,
     \<lparr>ext_id = raw_tdx_report, ext_value = bad_xfam @ [7, 9, 9]\<rparr>]"
  "sha512 two_documents b = b"
  by (simp_all add: process_certificate_def peer_raw_def two_documents_def plain_atls_def plain_oid_at_def)

lemma bad_xfam_differs: "validate_xfam_ignoring_cet bad_xfam good_xfam \<noteq> None"
proof -
  have "xfam_word bad_xfam = 0xffffff" "xfam_word good_xfam = 0x602e7"
    by (simp_all add: xfam_word_def bad_xfam_def good_xfam_def)
  then have ne: "bit (xfam_word bad_xfam) 3 \<noteq> bit (xfam_word good_xfam) 3" by simp
  show ?thesis
  proof
    assume "validate_xfam_ignoring_cet bad_xfam good_xfam = None"
    then have "(3 :: nat) \<noteq> 11 \<longrightarrow> (3 :: nat) \<noteq> 12 \<longrightarrow> bit (xfam_word bad_xfam) 3 = bit (xfam_word good_xfam) 3"
      unfolding validate_xfam_ok by blast
    then show False using ne by simp
  qed
qed


section \<open>What the demo's peers get\<close>

lemma plain_quote_host_data: "host_data (tdx_report_of plain_asn1 (plain_quote d)) = digest demo_hash demo_policy"
  by (simp add: tdx_report_of_def plain_quote_def)

lemma attest_lookup: "lookup_policy attest_manifest (digest demo_hash demo_policy) = Some demo_entry"
  by (simp add: lookup_policy_def attest_manifest_facts demo_policy_hash_def new_hex_string_def)

lemma attest_peer_recovers:
  "\<exists>resp. mesh_recover plain_keylib (MeshPeer \<lparr>auth_state = attest_state,
     auth_report = tdx_report_of plain_asn1 (plain_quote d), auth_peer_keys = ks\<rparr> host) = Inr resp"
  by (simp add: mesh_recover_def attest_state_def plain_quote_host_data attest_lookup demo_entry_def
      encode_key_def plain_keylib_def)

lemma attest_claims: "\<exists>cl. claims_to_cert_extension (tdx_report_of plain_asn1 (plain_quote d)) = Inr cl"
  by (simp add: tdx_report_of_def tdx_claims_def tdx_extensions_def plain_quote_def plain_asn1_def)

lemma attest_peer_certified:
  "\<exists>resp. new_mesh_cert attest_meshlib ([], []) 0 (MeshPeer \<lparr>auth_state = attest_state,
     auth_report = tdx_report_of plain_asn1 (plain_quote d), auth_peer_keys = [[7]]\<rparr> None) = Inr resp"
proof -
  obtain cl where cl: "claims_to_cert_extension (tdx_report_of plain_asn1 (plain_quote d)) = Inr cl"
    using attest_claims by blast
  obtain s where s: "derive_workload_secret plain_kdf demo_engine ''apps/demo'' = Inr s"
    by (simp add: derive_workload_secret_def hkdf_derive_def plain_kdf_def)
  obtain pem where p: "new_attested_mesh_cert (plain_certlib :: (bytes, bytes, pkix_extension, bytes, bytes) certlib) ([], []) 0
      attest_ca [''coordinator'', ''example''] (cl @ [\<lparr>ext_id = workload_secret_oid, ext_value = bytes_of_string ''apps/demo''\<rparr>]) [7]
      = Inr pem"
    by (simp add: new_attested_mesh_cert_def create_cert_def generate_certificate_serial_number_def
        plain_certlib_def has_prefix_def Let_def)
  have st: "manifest_of attest_state = attest_manifest" "ca_of attest_state = attest_ca" "seed_engine_of attest_state = demo_engine"
    by (simp_all add: attest_state_def)
  have lib: "mesh_certs attest_meshlib = plain_certlib" "mesh_asn1 attest_meshlib = plain_asn1" "mesh_kdf attest_meshlib = plain_kdf"
    "marshal_pkix attest_meshlib = Inr" "parse_pkix attest_meshlib = Inr" by (simp_all add: attest_meshlib_def)
  have conv: "convert_extension plain_asn1 (BytesExtension oi b) = Inr \<lparr>ext_id = oi, ext_value = b\<rparr>" for oi b
    by (simp add: convert_extension_def plain_asn1_def)
  show ?thesis
    by (simp add: new_mesh_cert_def plain_quote_host_data attest_lookup demo_entry_def cl s p lib conv st)
qed

lemma attest_validator_accepts:
  "\<exists>v reps. manifest_validator plain_keylib plain_opts plain_snp plain_tdx plain_json attest_manifest = Inr v
     \<and> validate v raw_tdx_report (good_xfam @ [7]) [7] = (None, reps)"
proof -
  have x: "to_xfam (tvo_validate attest_options) = Some good_xfam" "tvo_allowed_piids attest_options = []"
    by (simp_all add: attest_options_def)
  show ?thesis
    by (simp add: manifest_validator_objects attest_objects any_of_def tdx_validator_for_def with_fixed_oid_def x
        plain_tdx_accepts validate_xfam_ok length_good_xfam)
qed

text \<open>A quote for any report data, and its certificate.\<close>

definition quote_issuer :: issuer where
  "quote_issuer = \<lparr>issuer_oid = raw_tdx_report, issue = (\<lambda>rd. Inr (good_xfam @ rd))\<rparr>"

lemma quote_issuer_accepted:
  "issue quote_issuer rd = Inr doc \<Longrightarrow> \<exists>rs st'. object_step (manifest_vobject plain_opts plain_snp plain_tdx plain_json
      [TdxObject 0 attest_options]) [TdxObject 0 attest_options] (issuer_oid quote_issuer) doc rd = ((None, rs), st')"
  by (auto simp: quote_issuer_def manifest_vobject_def any_objects_step_def attest_options_def plain_tdx_accepts
      validate_xfam_ok length_good_xfam)

lemma quote_issuer_certificate:
  "\<exists>raw. server_get_certificate plain_atls ([], []) 0 (Some quote_issuer) [7] (client_protos [9, 9]) '''' = Inr raw
     \<and> atls_get_certificate plain_atls ([], []) 0 (Some quote_issuer) [7] (public_of plain_atls [7]) [9, 9] = Inr raw"
proof -
  have "\<exists>raw. atls_get_certificate plain_atls ([], []) 0 (Some quote_issuer) [7] (public_of plain_atls [7]) [9, 9] = Inr raw"
    by (simp add: atls_get_certificate_def quote_issuer_def plain_atls_def plain_oids_def construct_atls_report_data_def)
  then show ?thesis by (auto simp: server_get_certificate_def get_nonce_of_client)
qed

section \<open>A transit request\<close>

definition transit_request :: transit_message where
  "transit_request = \<lparr>path_name = ''apps/demo'', content_type = ''application/json'', request_body = [1, 2, 3],
     tls_certs = Some [[\<lparr>ext_id = workload_secret_oid, ext_value = bytes_of_string ''apps/demo''\<rparr>]]\<rparr>"

lemma demo_engine_seed: "length (seed demo_engine) = 32"
  using new_seed_engine_inputs [OF demo_engine_made] by simp

lemma transit_encrypts:
  "\<exists>raw g'. transit_serve attest_env plain_transit (\<lambda>n. Inr (replicate n 5)) EncryptRoute transit_request attest_guard
       = (\<lparr>status_code = 200, response_body = EncryptedData raw\<rparr>, g')"
proof -
  obtain full where full: "derive_transit_engine_key plain_kdf demo_engine 1 ''apps/demo'' = Inr full"
    by (simp add: derive_transit_engine_key_def hkdf_derive_def plain_kdf_def)
  have "length full = length (replicate 32 (7 :: byte))"
    by (rule plain_hkdf.transit_key_size [OF demo_engine_made full])
  then have "derive_encryption_key attest_env 1 ''apps/demo'' attest_guard = (Inr (take 32 full), attest_guard)"
    using full by (simp add: derive_encryption_key_ok attest_guard_def attest_state_def attest_env_def aes_gcm_key_size_def)
  moreover have "authorize_workload_secret plain_transit ''apps/demo'' transit_request = None"
    by (simp add: authorize_ok transit_request_def plain_transit_def)
  moreover have "path_name transit_request = ''apps/demo''" by (simp add: transit_request_def)
  moreover have "parse_request (encryption_json plain_transit) transit_request
      = Inr \<lparr>er_plaintext = [1, 2, 3], er_key_version = 1, er_associated_data = []\<rparr>"
    by (simp add: parse_request_def validate_content_type_def transit_request_def plain_transit_def has_prefix_def)
  ultimately show ?thesis using \<open>length full = _\<close>
    by (simp add: authorization_middleware_def encrypt_handler_def symmetric_encrypt_raw_def new_cipher_def
        write_json_response_def)
qed

lemma plain_p384_recovers: "\<exists>k ks. recover_public_key plain_p384 r s z = Inr (k # ks)"
proof -
  have "\<exists>k. recover_candidate plain_p384 x u v y = Inr (Some k)" for x u v y
    by (simp add: recover_candidate_def plain_p384_def)
  then have c: "\<exists>a b. recover_candidates plain_p384 x u v [y, y'] = Inr [a, b]" for x u v y y'
    by (smt (verit) append_Cons append_Nil option.simps(5) recover_candidates.simps sum.simps(6))
  have m: "mod_inverse plain_p384 a n = Some 1" "mod_sqrt plain_p384 a n = Some 1" for a n by (simp_all add: plain_p384_def)
  obtain a b where "recover_public_key plain_p384 r s z = Inr (sort_key (encoding_or_nil plain_p384) [a, b])"
    using c [of "r mod curve_p plain_p384"] unfolding recover_public_key_def Let_def m option.case by (metis sum.simps(6))
  moreover have "sort_key f [a, b] \<noteq> []" for f :: "bytes \<Rightarrow> bytes"
    using length_sort [of f "[a, b]"] by (metis length_0_conv list.discI list.size(3) length_Cons nat.distinct(1))
  ultimately show ?thesis by (metis neq_Nil_conv)
qed

lemma plain_opts_ok: "opts_library_ok plain_opts plain_snp"
proof -
  have "\<exists>h. id_key_hash plain_snp ld pol = Inr h" for ld pol
  proof -
    have p: "p384_lib plain_snp = plain_p384" "key_encoding plain_p384 = Inr" by (simp_all add: plain_snp_def plain_p384_def)
    obtain k ks where "recover_public_key plain_p384 (set_bytes (rev valid_r)) (set_bytes (rev valid_s))
        (set_bytes (sha384_fun plain_snp (marshal_id_block (id_block_of ld (policy_to_bytes plain_snp pol))))) = Inr (k # ks)"
      using plain_p384_recovers by blast
    then show ?thesis by (simp add: id_key_hash_def id_blocks_from_launch_digest_def Let_def p)
  qed
  then show ?thesis by (simp add: opts_library_ok_def plain_opts_def)
qed

end
