(* ===== verification/Initdata.thy ===== *)
theory Initdata
  imports Base64
begin

text \<open>
  The initdata document of a pod, \<open>internal/initdata/initdata.go\<close>: a TOML document whose digest the
  host sets in the attestation report of the guest, carried in a Kata annotation (gzip in base64)
  or on a block device. TOML, gzip and SHA-2 are parameters.
\<close>

text \<open>\<open>data\<close> is a map; the list is the order in which a range statement visits it.\<close>

record initdata =
  init_version :: string
  init_algorithm :: string
  init_data :: "(string \<times> string) list"

record initlib =
  sha256_sum :: "bytes \<Rightarrow> bytes"
  sha384_sum :: "bytes \<Rightarrow> bytes"
  sha512_sum :: "bytes \<Rightarrow> bytes"
  toml_decode :: "bytes \<Rightarrow> initdata result"
  toml_encode :: "initdata \<Rightarrow> bytes result"
  gunzip :: "bytes \<Rightarrow> bytes result"
  gzip :: "bytes \<Rightarrow> bytes result"

definition initdata_version :: string where "initdata_version = ''0.1.0''"

definition err_initdata_version :: goerr where "err_initdata_version = Sentinel ''unknown version''"
definition err_algorithm_unknown :: goerr where "err_algorithm_unknown = Sentinel ''unknown algorithm''"
definition err_wrong_magic :: goerr where "err_wrong_magic = Sentinel ''wrong magic number''"
definition err_too_large :: goerr where "err_too_large = Sentinel ''initdata is too large''"

definition hash_algorithms :: "initlib \<Rightarrow> string \<Rightarrow> (bytes \<Rightarrow> bytes) option" where
  "hash_algorithms L a = (if a = ''sha256'' then Some (sha256_sum L) else if a = ''sha384'' then Some (sha384_sum L)
     else if a = ''sha512'' then Some (sha512_sum L) else None)"

definition initdata_validate :: "initdata \<Rightarrow> goerr option" where
  "initdata_validate i =
     (if init_version i \<noteq> initdata_version
      then Some (Both err_initdata_version (Msg ''specified initdata version is not supported''))
      else if init_algorithm i \<notin> {''sha256'', ''sha384'', ''sha512''}
      then Some (Both err_algorithm_unknown (Msg ''algorithm is not supported''))
      else None)"

text \<open>\<open>strings.Replace(s, "-", "", 1)\<close>.\<close>

fun drop_first_dash :: "string \<Rightarrow> string" where
  "drop_first_dash [] = []"
| "drop_first_dash (c # s) = (if c = CHR ''-'' then s else c # drop_first_dash s)"

definition initdata_parse :: "initlib \<Rightarrow> bytes \<Rightarrow> initdata result" where
  "initdata_parse L raw = (case toml_decode L raw of
     Inl e \<Rightarrow> Inl (Wrap ''parsing TOML'' e)
   | Inr i0 \<Rightarrow>
       (let i = i0\<lparr>init_algorithm := drop_first_dash (init_algorithm i0)\<rparr> in
        case initdata_validate i of
          Some e \<Rightarrow> Inl (Wrap ''validating parsed initdata'' e)
        | None \<Rightarrow> Inr i))"

definition initdata_digest :: "initlib \<Rightarrow> bytes \<Rightarrow> bytes result" where
  "initdata_digest L raw = (case initdata_parse L raw of
     Inl e \<Rightarrow> Inl e
   | Inr i \<Rightarrow> (case hash_algorithms L (init_algorithm i) of
       None \<Rightarrow> Inl (Both err_algorithm_unknown (Msg ''algorithm is not supported''))
     | Some h \<Rightarrow> Inr (h raw)))"

definition new_initdata :: "string \<Rightarrow> (string \<times> string) list \<Rightarrow> initdata result" where
  "new_initdata a entries =
     (let i = \<lparr>init_version = initdata_version, init_algorithm = a, init_data = entries\<rparr> in
      case initdata_validate i of Some e \<Rightarrow> Inl (Wrap ''validating initdata'' e) | None \<Rightarrow> Inr i)"

definition initdata_encode :: "initlib \<Rightarrow> initdata \<Rightarrow> bytes result" where
  "initdata_encode L i = (case initdata_validate i of Some e \<Rightarrow> Inl e | None \<Rightarrow> toml_encode L i)"

definition decode_kata_annotation :: "initlib \<Rightarrow> string \<Rightarrow> bytes result" where
  "decode_kata_annotation L s = (case base64_decode s of Inl e \<Rightarrow> Inl e | Inr b \<Rightarrow> gunzip L b)"

definition encode_kata_annotation :: "initlib \<Rightarrow> bytes \<Rightarrow> string result" where
  "encode_kata_annotation L raw = (case gzip L raw of
     Inl e \<Rightarrow> Inl (Wrap ''zipping initdata'' e)
   | Inr b \<Rightarrow> Inr (base64_encode b))"

section \<open>The block device\<close>

text \<open>
  \<open>f.ReadAt(buf, off)\<close> on a device with the given contents; an empty buffer is always filled. The
  device starts with its magic and the size of the compressed document, eight bytes each.
\<close>

definition read_at :: "bytes \<Rightarrow> nat \<Rightarrow> nat \<Rightarrow> bytes result" where
  "read_at content n off =
     (if n = 0 \<or> off + n \<le> length content then Inr (take n (drop off content)) else Inl (Sentinel ''EOF''))"

definition max_initdata_size :: nat where "max_initdata_size = 128 * 1024 * 1024 * 1024"

definition from_device :: "initlib \<Rightarrow> (string \<Rightarrow> bytes result) \<Rightarrow> string \<Rightarrow> string \<Rightarrow> bytes result" where
  "from_device L open_file path magic =
     (if length magic \<noteq> 8 then Inl (Msg ''invalid magic id: must be exactly 8 bytes'') else
      case open_file path of Inl e \<Rightarrow> Inl e
      | Inr f \<Rightarrow>
     (case read_at f 8 0 of Inl e \<Rightarrow> Inl (Wrap ''reading magic number'' e)
      | Inr m \<Rightarrow>
      if m \<noteq> bytes_of_string magic then Inl (Both err_wrong_magic (Msg ''expected other magic'')) else
     (case read_at f 8 8 of Inl e \<Rightarrow> Inl (Wrap ''reading magic number'' e)
      | Inr s \<Rightarrow>
      let size = le_value s in
      if size > max_initdata_size then Inl (Both err_too_large (Msg ''expected at most 128MiB'')) else
     (case read_at f size 16 of Inl e \<Rightarrow> Inl (Wrap ''reading initdata blob'' e)
      | Inr b \<Rightarrow> gunzip L b))))"

section \<open>Facts\<close>

lemma initdata_validate_None:
  "initdata_validate i = None \<longleftrightarrow> init_version i = initdata_version \<and> (\<exists>h. hash_algorithms L (init_algorithm i) = Some h)"
  by (simp add: initdata_validate_def hash_algorithms_def)

lemma initdata_parse_ok:
  "initdata_parse L raw = Inr i \<longleftrightarrow> (\<exists>i0. toml_decode L raw = Inr i0 \<and> initdata_validate i = None
     \<and> i = i0\<lparr>init_algorithm := drop_first_dash (init_algorithm i0)\<rparr>)"
  by (auto simp: initdata_parse_def Let_def split: sum.splits option.splits)

text \<open>The digest is there exactly for the documents that parse; the last branch is never taken.\<close>

lemma initdata_digest_ok:
  "initdata_digest L raw = Inr d \<longleftrightarrow>
     (\<exists>i h. initdata_parse L raw = Inr i \<and> hash_algorithms L (init_algorithm i) = Some h \<and> d = h raw)"
  by (auto simp: initdata_digest_def split: sum.splits option.splits)

lemma initdata_digest_total:
  "(\<exists>d. initdata_digest L raw = Inr d) \<longleftrightarrow> (\<exists>i. initdata_parse L raw = Inr i)"
proof
  assume "\<exists>i. initdata_parse L raw = Inr i"
  then obtain i where i: "initdata_parse L raw = Inr i" by blast
  then have "initdata_validate i = None" by (auto simp: initdata_parse_ok)
  then obtain h where "hash_algorithms L (init_algorithm i) = Some h" using initdata_validate_None by blast
  with i show "\<exists>d. initdata_digest L raw = Inr d" by (auto simp: initdata_digest_ok)
qed (auto simp: initdata_digest_ok)

text \<open>What the parameters promise: both encodings are undone.\<close>

locale initdata_codec =
  fixes L :: initlib
  assumes gunzip_gzip: "gzip L b = Inr z \<Longrightarrow> gunzip L z = Inr b"
    and toml_decode_encode: "toml_encode L i = Inr b \<Longrightarrow> toml_decode L b = Inr i"
begin

lemma annotation_round_trip: "encode_kata_annotation L raw = Inr s \<Longrightarrow> decode_kata_annotation L s = Inr raw"
  by (auto simp: encode_kata_annotation_def decode_kata_annotation_def gunzip_gzip split: sum.splits)

text \<open>An encoded document parses back; its algorithm has lost a dash that it never had.\<close>

lemma encode_parse:
  assumes "initdata_encode L i = Inr raw"
  shows "initdata_parse L raw = Inr i"
proof -
  have v: "initdata_validate i = None" and t: "toml_encode L i = Inr raw"
    using assms by (auto simp: initdata_encode_def split: option.splits)
  have "drop_first_dash (init_algorithm i) = init_algorithm i"
    using v by (auto simp: initdata_validate_def split: if_splits)
  with v toml_decode_encode [OF t] show ?thesis by (auto simp: initdata_parse_ok)
qed

lemma device_round_trip:
  assumes "gzip L raw = Inr z" and "length z \<le> max_initdata_size" and "length magic = 8"
  shows "from_device L (\<lambda>_. Inr (bytes_of_string magic @ le_bytes 8 (of_nat (length z) :: 64 word) @ z @ padding)) p magic
    = Inr raw"
proof -
  have "length z < 2 ^ 64" using assms(2) by (simp add: max_initdata_size_def)
  then have "le_value (le_bytes 8 (of_nat (length z) :: 64 word)) = length z"
    by (simp add: le_value_le_bytes unat_of_nat take_bit_eq_mod)
  with assms show ?thesis by (simp add: from_device_def read_at_def Let_def gunzip_gzip [OF assms(1)])
qed

end

end
