(* ===== verification/InitdataProcessor.thy ===== *)
theory InitdataProcessor
  imports Initdata
begin

text \<open>
  The process that prepares a guest before its agent starts, \<open>initdata-processor\<close>: it finds the
  device with the initdata document, compares the document's digest with the one in the guest's
  own attestation report (\<open>validator/\<close>), and writes the document's files. When anything fails it
  installs a policy that denies every request (\<open>policy/policy.go\<close>) before it signals readiness.
\<close>

section \<open>Lexical paths\<close>

text \<open>
  \<open>filepath.Clean\<close>: the elements of a path are kept on a stack; \<open>..\<close> removes the last one, stays at
  the root of a rooted path, and is kept at the front of any other.
\<close>

fun clean_parts :: "bool \<Rightarrow> string list \<Rightarrow> string list \<Rightarrow> string list" where
  "clean_parts rooted out [] = rev out"
| "clean_parts rooted out (p # ps) =
     (if p = '''' \<or> p = ''.'' then clean_parts rooted out ps
      else if p = ''..'' then
        (case out of
           q # qs \<Rightarrow> if q \<noteq> ''..'' then clean_parts rooted qs ps else clean_parts rooted (''..'' # out) ps
         | [] \<Rightarrow> if rooted then clean_parts rooted [] ps else clean_parts rooted [''..''] ps)
      else clean_parts rooted (p # out) ps)"

definition clean_path :: "string \<Rightarrow> string" where
  "clean_path path =
     (let rooted = has_prefix ''/'' path;
          s = (if rooted then ''/'' else '''') @ join_with ''/'' (clean_parts rooted [] (split_on CHR ''/'' path))
      in if s = '''' then ''.'' else s)"

text \<open>\<open>filepath.Join\<close>: from the first element that is not empty on.\<close>

fun join_path :: "string list \<Rightarrow> string" where
  "join_path [] = ''''"
| "join_path (e # es) = (if e \<noteq> '''' then clean_path (join_with ''/'' (e # es)) else join_path es)"

definition measured_config_path :: string where "measured_config_path = ''/run/measured-cfg''"
definition insecure_config_path :: string where "insecure_config_path = ''/run/insecure-cfg''"
definition imagepuller_config :: string where "imagepuller_config = ''/run/insecure-cfg/imagepuller.toml''"
definition policy_rego :: string where "policy_rego = join_path [measured_config_path, ''policy.rego'']"

section \<open>The digest of the guest's own report\<close>

definition err_no_platform :: goerr where
  "err_no_platform = Sentinel ''no digest getter available for current platform''"
definition err_unexpected_digest_size :: goerr where "err_unexpected_digest_size = Sentinel ''unexpected digest size''"
definition err_digest_mismatch :: goerr where "err_digest_mismatch = Sentinel ''digests don't match''"

text \<open>
  The AMD and Intel libraries: a quote provider, if the platform has one, returns the raw report
  for 64 bytes of report data; the parsers return its HOSTDATA or its MRCONFIGID, the latter only
  of a version 4 quote.
\<close>

record guestlib =
  snp_quote_provider :: "(bytes \<Rightarrow> bytes result) result"
  tdx_quote_provider :: "(bytes \<Rightarrow> bytes result) result"
  tdx_is_supported :: "goerr option"
  snp_report_to_proto :: "bytes \<Rightarrow> bytes result"
  tdx_quote_to_proto :: "bytes \<Rightarrow> bytes option result"

datatype digest_getter = SnpDigestGetter "bytes \<Rightarrow> bytes result" | TdxDigestGetter "bytes \<Rightarrow> bytes result"

fun get_digest :: "guestlib \<Rightarrow> digest_getter \<Rightarrow> bytes result" where
  "get_digest G (SnpDigestGetter q) = (case q (replicate 64 0) of
     Inl e \<Rightarrow> Inl (Wrap ''snp: getting raw report'' e)
   | Inr raw \<Rightarrow> (case snp_report_to_proto G raw of
       Inl e \<Rightarrow> Inl (Wrap ''snp: parsing report'' e)
     | Inr hdata \<Rightarrow> Inr hdata))"
| "get_digest G (TdxDigestGetter q) = (case q (replicate 64 0) of
     Inl e \<Rightarrow> Inl (Wrap ''tdx: getting raw quote'' e)
   | Inr raw \<Rightarrow> (case tdx_quote_to_proto G raw of
       Inl e \<Rightarrow> Inl (Wrap ''tdx: parsing quote'' e)
     | Inr None \<Rightarrow> Inl (Msg ''tdx: unexpected quote type'')
     | Inr (Some config_id) \<Rightarrow> Inr config_id))"

definition get_tdx_quote_provider :: "guestlib \<Rightarrow> (bytes \<Rightarrow> bytes result) result" where
  "get_tdx_quote_provider G = (case tdx_quote_provider G of
     Inl e \<Rightarrow> Inl e
   | Inr q \<Rightarrow> (case tdx_is_supported G of Some e \<Rightarrow> Inl e | None \<Rightarrow> Inr q))"

definition new_digest_validator :: "guestlib \<Rightarrow> digest_getter result" where
  "new_digest_validator G = (case snp_quote_provider G of
     Inr q \<Rightarrow> Inr (SnpDigestGetter q)
   | Inl serr \<Rightarrow> (case get_tdx_quote_provider G of
       Inr q \<Rightarrow> Inr (TdxDigestGetter q)
     | Inl terr \<Rightarrow> Inl (Both err_no_platform (Both terr serr))))"

definition compare_digests :: "bytes \<Rightarrow> bytes \<Rightarrow> goerr option" where
  "compare_digests want actual =
     (let n = min (length want) (length actual) in
      if n < 32 then Some (Both err_unexpected_digest_size (Msg ''expected another digest''))
      else if take n want \<noteq> take n actual then Some (Both err_digest_mismatch (Msg ''expected another digest''))
      else None)"

definition validate_digest :: "guestlib \<Rightarrow> digest_getter \<Rightarrow> bytes \<Rightarrow> goerr option" where
  "validate_digest G v d = (case get_digest G v of Inl e \<Rightarrow> Some e | Inr want \<Rightarrow> compare_digests want d)"

section \<open>The process\<close>

text \<open>
  What the process meets. \<open>probe_dev\<close> is what a device holds when the process looks for its magic
  and \<open>open_dev\<close> what it holds when the document is read: the host may change it in between.
  \<open>write_err p b\<close> is the outcome of writing \<open>b\<close> to \<open>p\<close>, with what a failed write leaves there.
\<close>

record dev_info =
  dev_block :: bool
  dev_sys :: "nat option"

record guest =
  guest_lib :: guestlib
  guest_initlib :: initlib
  deny_with_message_policy :: bytes
  json_string :: "string \<Rightarrow> bytes"
  mkdir_all :: "string \<Rightarrow> goerr option"
  read_dev_dir :: "string list result"
  stat_dev :: "string \<Rightarrow> dev_info result"
  probe_dev :: "string \<Rightarrow> bytes result"
  open_dev :: "string \<Rightarrow> bytes result"
  kernel_cmdline :: "string list result"
  write_err :: "string \<Rightarrow> bytes \<Rightarrow> (goerr \<times> bytes option) option"
  create_temp :: "string result"
  copy_temp_err :: "(goerr \<times> bytes option) option"
  rename_err :: "goerr option"
  notify_ok :: bool

text \<open>\<open>serving\<close> is the digest the process serves over HTTP until it is stopped.\<close>

record guest_world =
  files :: "string \<Rightarrow> bytes option"
  ready :: bool
  serving :: "bytes option"

definition deny_with_message :: "guest \<Rightarrow> string \<Rightarrow> bytes" where
  "deny_with_message E msg =
     deny_with_message_policy E @ bytes_of_string ([CHR 0x0A, CHR 0x0A] @ ''message := '') @ json_string E msg"

definition sd_notify_ready :: "guest \<Rightarrow> guest_world \<Rightarrow> guest_world" where
  "sd_notify_ready E w = (if notify_ok E then w\<lparr>ready := True\<rparr> else w)"

definition write_file :: "guest \<Rightarrow> string \<Rightarrow> bytes \<Rightarrow> guest_world \<Rightarrow> goerr option \<times> guest_world" where
  "write_file E p b w = (case write_err E p b of
     Some (e, left) \<Rightarrow> (Some e, w\<lparr>files := (files w)(p := left)\<rparr>)
   | None \<Rightarrow> (None, w\<lparr>files := (files w)(p \<mapsto> b)\<rparr>))"

definition failf :: "guest \<Rightarrow> string \<Rightarrow> guest_world \<Rightarrow> guest_world" where
  "failf E msg w = (case create_temp E of
     Inl e \<Rightarrow> w
   | Inr src \<Rightarrow> (case copy_temp_err E of
       Some (e, left) \<Rightarrow> w\<lparr>files := (files w)(src := left)\<rparr>
     | None \<Rightarrow>
         (let content = deny_with_message E msg in
          case rename_err E of
            Some e \<Rightarrow> w\<lparr>files := (files w)(src \<mapsto> content)\<rparr>
          | None \<Rightarrow> sd_notify_ready E (w\<lparr>files := (files w)(src := None, policy_rego \<mapsto> content)\<rparr>))))"

definition allow_insecure_attestation :: "guest \<Rightarrow> bool result" where
  "allow_insecure_attestation E = (case kernel_cmdline E of
     Inl e \<Rightarrow> Inl (Wrap ''reading kernel command line'' e)
   | Inr ws \<Rightarrow> Inr (''contrast.allow_insecure_attestation=1'' \<in> set ws))"

definition config_file :: "string \<Rightarrow> string" where
  "config_file name = join_path [measured_config_path, clean_path name]"

fun write_entries :: "guest \<Rightarrow> (string \<times> string) list \<Rightarrow> guest_world \<Rightarrow> goerr option \<times> guest_world" where
  "write_entries E [] w = (None, w)"
| "write_entries E ((name, content) # es) w =
     (case write_file E (config_file name) (bytes_of_string content) w of
        (Some e, w') \<Rightarrow> (Some (Wrap ''writing file'' e), w')
      | (None, w') \<Rightarrow> write_entries E es w')"

definition check_platform :: "guest \<Rightarrow> bytes \<Rightarrow> bool \<Rightarrow> goerr option" where
  "check_platform E d allow = (case new_digest_validator (guest_lib E) of
     Inl verr \<Rightarrow>
       (if err_is verr err_no_platform then
          (if \<not> allow then Some (Msg ''no TEE platform detected and insecure attestation is not allowed'') else None)
        else Some (Wrap ''creating validator'' verr))
   | Inr v \<Rightarrow> (case validate_digest (guest_lib E) v d of
       Some e \<Rightarrow> Some (Wrap ''validating initdata digest'' e)
     | None \<Rightarrow> None))"

definition handle_initdata :: "guest \<Rightarrow> bytes \<Rightarrow> guest_world \<Rightarrow> (bytes \<times> bool) result \<times> guest_world" where
  "handle_initdata E doc w = (case initdata_digest (guest_initlib E) doc of
     Inl e \<Rightarrow> (Inl (Wrap ''computing initdata digest'' e), w)
   | Inr d \<Rightarrow> (case allow_insecure_attestation E of
     Inl e \<Rightarrow> (Inl e, w)
   | Inr allow \<Rightarrow> (case check_platform E d allow of
     Some e \<Rightarrow> (Inl e, w)
   | None \<Rightarrow> (case initdata_parse (guest_initlib E) doc of
     Inl e \<Rightarrow> (Inl (Wrap ''parsing initdata'' e), w)
   | Inr i \<Rightarrow> (case write_entries E (init_data i) w of
     (Some e, w') \<Rightarrow> (Inl e, w')
   | (None, w') \<Rightarrow> (Inr (d, allow), w'))))))"

text \<open>A candidate is a block device with a disk's major number whose first bytes are the magic.\<close>

definition disk_major :: "nat \<Rightarrow> bool" where
  "disk_major m \<longleftrightarrow> m = 8 \<or> m = 3 \<or> (240 \<le> m \<and> m \<le> 254)"

fun find_device :: "guest \<Rightarrow> bytes \<Rightarrow> string list \<Rightarrow> string result" where
  "find_device E magic [] = Inl (Msg ''no suitable device found'')"
| "find_device E magic (p # ps) = (case stat_dev E p of
     Inl e \<Rightarrow> find_device E magic ps
   | Inr info \<Rightarrow>
       if \<not> dev_block info then find_device E magic ps else
      (case dev_sys info of
         None \<Rightarrow> Inl (Msg ''unexpected type of device stat_t'')
       | Some m \<Rightarrow>
           if \<not> disk_major m then find_device E magic ps else
          (case probe_dev E p of
             Inl e \<Rightarrow> find_device E magic ps
           | Inr f \<Rightarrow> (case read_at f (length magic) 0 of
               Inl e \<Rightarrow> find_device E magic ps
             | Inr start \<Rightarrow> if magic = start then Inr p else find_device E magic ps))))"

definition check_device_availability :: "guest \<Rightarrow> string \<Rightarrow> bytes \<Rightarrow> string result" where
  "check_device_availability E idt magic = (case read_dev_dir E of
     Inl e \<Rightarrow> Inl (Wrap ''listing /dev'' e)
   | Inr names \<Rightarrow>
       find_device E magic ((''/dev/disk/by-id/virtio-'' @ idt) # map (\<lambda>n. join_path [''/dev'', n]) names))"

text \<open>The second part of \<open>main\<close>: the configuration of the image puller, which is not attested.\<close>

definition imagepuller_part :: "guest \<Rightarrow> guest_world \<Rightarrow> goerr option \<times> guest_world" where
  "imagepuller_part E w = (case mkdir_all E insecure_config_path of
     Some e \<Rightarrow> (Some (Wrap ''Could not create directory'' e), w)
   | None \<Rightarrow> (case check_device_availability E ''imagepuller'' (bytes_of_string ''imgpullr'') of
     Inl e \<Rightarrow> (None, w)
   | Inr dev \<Rightarrow> (case from_device (guest_initlib E) (open_dev E) dev ''imgpullr'' of
     Inl e \<Rightarrow> (Some (Wrap ''not an imagepuller config device'' e), w)
   | Inr doc \<Rightarrow> (case write_file E imagepuller_config doc w of
     (Some e, w') \<Rightarrow> (Some (Wrap ''handling imagepuller auth config'' e), w')
   | (None, w') \<Rightarrow> (None, w')))))"

definition initdata_main :: "guest \<Rightarrow> guest_world \<Rightarrow> guest_world" where
  "initdata_main E w = (case mkdir_all E measured_config_path of
     Some e \<Rightarrow> failf E (''Could not create directory: '' @ err_text e) w
   | None \<Rightarrow> (case check_device_availability E ''initdata'' (bytes_of_string ''initdata'') of
     Inl e \<Rightarrow> failf E (''no initdata device found: '' @ err_text e) w
   | Inr dev \<Rightarrow> (case from_device (guest_initlib E) (open_dev E) dev ''initdata'' of
     Inl e \<Rightarrow> failf E (''not an initdata device: '' @ err_text e) w
   | Inr doc \<Rightarrow> (case handle_initdata E doc w of
     (Inl e, w1) \<Rightarrow> failf E (''handling initdata: '' @ err_text e) w1
   | (Inr (hostdata, insecure), w1) \<Rightarrow> (case imagepuller_part E w1 of
     (Some e, w2) \<Rightarrow> failf E (err_text e) w2
   | (None, w2) \<Rightarrow>
       (let w3 = sd_notify_ready E w2 in
        if insecure then w3\<lparr>serving := Some hostdata\<rparr> else w3))))))"

end
