(* ===== verification/InitdataFacts.thy ===== *)
theory InitdataFacts
  imports InitdataProcessor
begin

text \<open>
  What the process guarantees: readiness is signalled only over the files of a document whose
  digest is that of the guest's report, or over a policy that denies everything; and which file a
  name of the document stands for.
\<close>

section \<open>Digests\<close>

lemma compare_digests_None:
  "compare_digests want actual = None \<longleftrightarrow> 32 \<le> min (length want) (length actual)
     \<and> take (min (length want) (length actual)) want = take (min (length want) (length actual)) actual"
  by (auto simp: compare_digests_def Let_def not_less min_less_iff_disj)

lemma compare_digests_prefix:
  "compare_digests want actual = None \<Longrightarrow> take 32 want = take 32 actual"
proof -
  assume "compare_digests want actual = None"
  then have n: "32 \<le> min (length want) (length actual)"
    and t: "take (min (length want) (length actual)) want = take (min (length want) (length actual)) actual"
    by (auto simp: compare_digests_None)
  from arg_cong [OF t, of "take 32"] n show "take 32 want = take 32 actual" by (simp add: min_def split: if_splits)
qed

text \<open>On SNP, with its 32 bytes of host data, and a SHA-256 digest, equality.\<close>

lemma compare_digests_equal:
  assumes "length want = 32" "length actual = 32"
  shows "compare_digests want actual = None \<longleftrightarrow> want = actual"
  using assms by (simp add: compare_digests_None)

lemma new_digest_validator_error: "new_digest_validator G = Inl e \<Longrightarrow> err_is e err_no_platform"
  by (auto simp: new_digest_validator_def err_no_platform_def split: sum.splits)

text \<open>What the report of the guest holds, and whether there is one to hold it.\<close>

definition report_digest :: "guestlib \<Rightarrow> bytes result" where
  "report_digest G = (case new_digest_validator G of Inl e \<Rightarrow> Inl e | Inr v \<Rightarrow> get_digest G v)"

definition has_platform :: "guestlib \<Rightarrow> bool" where
  "has_platform G \<longleftrightarrow> (\<exists>v. new_digest_validator G = Inr v)"

lemma check_platform_None:
  "check_platform E d allow = None \<longleftrightarrow>
     (\<exists>want. report_digest (guest_lib E) = Inr want \<and> compare_digests want d = None)
     \<or> (\<not> has_platform (guest_lib E) \<and> allow)"
  using new_digest_validator_error [of "guest_lib E"]
  by (auto simp: check_platform_def report_digest_def has_platform_def validate_digest_def split: sum.splits option.splits)

section \<open>Files\<close>

definition written :: "(string \<times> string) list \<Rightarrow> (string \<Rightarrow> bytes option) \<Rightarrow> string \<Rightarrow> bytes option" where
  "written es fs = foldl (\<lambda>f (n, c). f(config_file n \<mapsto> bytes_of_string c)) fs es"

lemma written_simps [simp]:
  "written [] fs = fs"
  "written ((n, c) # es) fs = written es (fs(config_file n \<mapsto> bytes_of_string c))"
  by (simp_all add: written_def)

lemma write_entries_ok:
  "write_entries E es w = (None, w') \<Longrightarrow> w' = w\<lparr>files := written es (files w)\<rparr>"
proof (induction es arbitrary: w)
  case (Cons e es)
  obtain n c where e: "e = (n, c)" by (cases e)
  with Cons.prems have "write_entries E es (w\<lparr>files := (files w)(config_file n \<mapsto> bytes_of_string c)\<rparr>) = (None, w')"
    by (auto simp: write_file_def split: option.splits prod.splits)
  from Cons.IH [OF this] show ?case by (cases w) (simp add: e del: fun_upd_apply)
qed simp

lemma write_file_keeps: "write_file E p b w = (r, w') \<Longrightarrow> ready w' = ready w \<and> serving w' = serving w"
  by (auto simp: write_file_def split: option.splits prod.splits)

lemma write_entries_keeps: "write_entries E es w = (r, w') \<Longrightarrow> ready w' = ready w \<and> serving w' = serving w"
proof (induction es arbitrary: w)
  case (Cons e es)
  obtain n c where e: "e = (n, c)" by (cases e)
  obtain r1 w1 where w1: "write_file E (config_file n) (bytes_of_string c) w = (r1, w1)" by fastforce
  show ?case using Cons.prems Cons.IH [of w1] write_file_keeps [OF w1] by (cases r1) (simp_all add: e w1)
qed simp

lemma handle_initdata_ok:
  assumes "handle_initdata E doc w = (Inr (d, allow), w')"
  shows "\<exists>i. initdata_parse (guest_initlib E) doc = Inr i \<and> initdata_digest (guest_initlib E) doc = Inr d
    \<and> allow_insecure_attestation E = Inr allow \<and> check_platform E d allow = None
    \<and> w' = w\<lparr>files := written (init_data i) (files w)\<rparr>"
  using assms write_entries_ok by (auto simp: handle_initdata_def split: sum.splits option.splits prod.splits)

lemma handle_initdata_keeps: "handle_initdata E doc w = (r, w') \<Longrightarrow> ready w' = ready w \<and> serving w' = serving w"
  by (auto simp: handle_initdata_def dest: write_entries_keeps split: sum.splits option.splits prod.splits)

lemma imagepuller_part_keeps:
  "imagepuller_part E w = (r, w') \<Longrightarrow> ready w' = ready w \<and> serving w' = serving w
     \<and> (\<forall>p. p \<noteq> imagepuller_config \<longrightarrow> files w' p = files w p)"
  by (auto simp: imagepuller_part_def write_file_def split: sum.splits option.splits prod.splits)

lemma failf_ready:
  assumes "\<not> ready w" and "ready (failf E msg w)"
  shows "files (failf E msg w) policy_rego = Some (deny_with_message E msg)"
  using assms by (auto simp: failf_def sd_notify_ready_def Let_def split: sum.splits option.splits prod.splits if_splits)

lemma failf_serving: "serving (failf E msg w) = serving w"
  by (auto simp: failf_def sd_notify_ready_def Let_def split: sum.splits option.splits prod.splits)

text \<open>
  The state in which the agent is released over a document: its digest passed the check, and every
  file but the one of the image puller is as the document has it.
\<close>

definition config_attested :: "guest \<Rightarrow> guest_world \<Rightarrow> guest_world \<Rightarrow> bool" where
  "config_attested E w w' \<longleftrightarrow> (\<exists>doc i d allow. initdata_parse (guest_initlib E) doc = Inr i
     \<and> initdata_digest (guest_initlib E) doc = Inr d \<and> allow_insecure_attestation E = Inr allow
     \<and> ((\<exists>want. report_digest (guest_lib E) = Inr want \<and> compare_digests want d = None)
        \<or> \<not> has_platform (guest_lib E) \<and> allow)
     \<and> (\<forall>p. p \<noteq> imagepuller_config \<longrightarrow> files w' p = written (init_data i) (files w) p)
     \<and> serving w' = (if allow then Some d else serving w))"

lemma initdata_main_ok:
  assumes "\<not> ready w" and "ready (initdata_main E w)"
  shows "config_attested E w (initdata_main E w)
    \<or> (\<exists>msg. files (initdata_main E w) policy_rego = Some (deny_with_message E msg))"
proof (cases "\<exists>msg w1. \<not> ready w1 \<and> initdata_main E w = failf E msg w1")
  case True
  then show ?thesis using failf_ready assms(2) by metis
next
  case False
  have nf: "initdata_main E w \<noteq> failf E msg w" for msg using False assms(1) by blast
  have mk1: "mkdir_all E measured_config_path = None"
    by (cases "mkdir_all E measured_config_path") (use nf in \<open>fastforce simp: initdata_main_def\<close>)+
  obtain dev where mk2: "check_device_availability E ''initdata'' (bytes_of_string ''initdata'') = Inr dev"
    by (cases "check_device_availability E ''initdata'' (bytes_of_string ''initdata'')")
      (use nf in \<open>fastforce simp: initdata_main_def mk1\<close>)+
  obtain doc where mk3: "from_device (guest_initlib E) (open_dev E) dev ''initdata'' = Inr doc"
    by (cases "from_device (guest_initlib E) (open_dev E) dev ''initdata''")
      (use nf in \<open>fastforce simp: initdata_main_def mk1 mk2\<close>)+
  note mk = mk1 mk2 mk3
  obtain r w1 where h0: "handle_initdata E doc w = (r, w1)" by fastforce
  have k: "\<not> ready w1" using handle_initdata_keeps [OF h0] assms(1) by simp
  then have nf1: "initdata_main E w \<noteq> failf E msg w1" for msg using False by blast
  obtain d allow where h: "handle_initdata E doc w = (Inr (d, allow), w1)"
    using nf1 h0 unfolding initdata_main_def by (cases r) (auto simp: mk)
  obtain e w2 where p0: "imagepuller_part E w1 = (e, w2)" by fastforce
  have "\<not> ready w2" using imagepuller_part_keeps [OF p0] k by simp
  then have nf2: "initdata_main E w \<noteq> failf E msg w2" for msg using False by blast
  have p: "imagepuller_part E w1 = (None, w2)"
    using nf2 p0 unfolding initdata_main_def by (cases e) (auto simp: mk h)
  have m: "initdata_main E w = (let w3 = sd_notify_ready E w2 in if allow then w3\<lparr>serving := Some d\<rparr> else w3)"
    unfolding initdata_main_def by (simp add: mk h p)
  obtain i where i: "initdata_parse (guest_initlib E) doc = Inr i" "initdata_digest (guest_initlib E) doc = Inr d"
    "allow_insecure_attestation E = Inr allow" "check_platform E d allow = None"
    "w1 = w\<lparr>files := written (init_data i) (files w)\<rparr>" using handle_initdata_ok [OF h] by blast
  have f: "files (initdata_main E w) = files w2" "serving (initdata_main E w) = (if allow then Some d else serving w2)"
    by (simp_all add: m Let_def sd_notify_ready_def)
  have "config_attested E w (initdata_main E w)"
    unfolding config_attested_def f
    using i imagepuller_part_keeps [OF p] unfolding check_platform_None by fastforce
  then show ?thesis by simp
qed

section \<open>Where a name ends up\<close>

lemma split_on_append:
  "split_on c (a @ c # b) = split_on c a @ split_on c b"
  by (induction a) (auto split: list.splits simp: split_on_nonempty)

text \<open>Cleaning the elements behind a directory: what is left of the directory, and what comes after.\<close>

definition plain_part :: "string \<Rightarrow> bool" where
  "plain_part p \<longleftrightarrow> p \<noteq> '''' \<and> p \<noteq> ''.'' \<and> p \<noteq> ''..''"

lemma clean_parts_append:
  "clean_parts r out (ps @ qs) = clean_parts r (rev (clean_parts r out ps)) qs"
  by (induction r out ps rule: clean_parts.induct) (auto split: list.splits)

lemma clean_parts_plain: "list_all plain_part ps \<Longrightarrow> clean_parts r out ps = rev out @ ps"
  by (induction ps arbitrary: out) (auto simp: plain_part_def)

text \<open>The cleaned elements of a relative path: parent references, then plain elements.\<close>

lemma clean_parts_shape:
  assumes "out = qs @ replicate k ''..''" and "list_all plain_part qs"
  shows "\<exists>j qs'. clean_parts False out ps = replicate j ''..'' @ qs' \<and> list_all plain_part qs'"
  using assms
proof (induction ps arbitrary: out qs k)
  case Nil
  then show ?case by (intro exI [of _ k] exI [of _ "rev qs"]) simp
next
  case (Cons p ps)
  show ?case
  proof (cases "p = '''' \<or> p = ''.''")
    case True
    then show ?thesis using Cons by auto
  next
    case np: False
    show ?thesis
    proof (cases "p = ''..''")
      case True
      show ?thesis
      proof (cases qs)
        case Nil
        then have "clean_parts False out (p # ps) = clean_parts False (replicate (Suc k) ''..'') ps"
          using True Cons.prems by (cases k) auto
        then show ?thesis using Cons.IH [of "replicate (Suc k) ''..''" "[]" "Suc k"] by simp
      next
        case (Cons q qs1)
        then have "clean_parts False out (p # ps) = clean_parts False (qs1 @ replicate k ''..'') ps"
          using True Cons.prems by (auto simp: plain_part_def)
        then show ?thesis using Cons.IH [of "qs1 @ replicate k ''..''" qs1 k] Cons Cons.prems by simp
      qed
    next
      case False
      then have "clean_parts False out (p # ps) = clean_parts False ((p # qs) @ replicate k ''..'') ps"
        using np Cons.prems by simp
      then show ?thesis using Cons.IH [of "(p # qs) @ replicate k ''..''" "p # qs" k] Cons.prems np False
        by (simp add: plain_part_def)
    qed
  qed
qed

lemma clean_parts_rooted_plain:
  "list_all plain_part out \<Longrightarrow> list_all plain_part (clean_parts True out ps)"
proof (induction "True" out ps rule: clean_parts.induct)
  case (2 out p ps)
  then show ?case by (cases out) (auto simp: plain_part_def)
qed simp

lemma clean_parts_no_slash:
  "\<forall>p\<in>set out \<union> set ps. CHR ''/'' \<notin> set p \<Longrightarrow> \<forall>p\<in>set (clean_parts r out ps). CHR ''/'' \<notin> set p"
  by (induction r out ps rule: clean_parts.induct) (auto split: list.splits)

lemma split_on_no_sep: "p \<in> set (split_on c s) \<Longrightarrow> c \<notin> set p"
  by (induction s arbitrary: p) (auto split: if_splits list.splits)

text \<open>
  A name whose cleaned form does not begin with a parent reference names a file below the
  directory of the measured configuration; any other name leaves it, cleaning notwithstanding.
\<close>

lemma config_file_confined:
  assumes cp: "cp = clean_parts (has_prefix ''/'' n) [] (split_on CHR ''/'' n)"
    and plain: "list_all plain_part cp"
  shows "config_file n = ''/'' @ join_with ''/'' ([''run'', ''measured-cfg''] @ cp)"
proof -
  let ?base = "[''measured-cfg'', ''run'']"
  have sep: "\<forall>p\<in>set cp. CHR ''/'' \<notin> set p"
    unfolding cp by (rule clean_parts_no_slash) (auto dest: split_on_no_sep)
  have tail: "clean_parts True ?base (split_on CHR ''/'' (clean_path n)) = rev ?base @ cp"
  proof (cases "cp = []")
    case True
    then show ?thesis by (auto simp: clean_path_def cp [symmetric] Let_def)
  next
    case False
    have "join_with ''/'' cp \<noteq> ''''"
      using False plain by (cases cp) (auto simp: plain_part_def join_with_Cons intro: list.exhaust [of "tl cp"])
    then have "split_on CHR ''/'' (clean_path n) = (if has_prefix ''/'' n then [''''] else []) @ cp"
      using split_on_join [OF False sep] by (simp add: clean_path_def cp [symmetric] Let_def)
    then show ?thesis using clean_parts_plain [OF plain, of True ?base] by auto
  qed
  have "split_on CHR ''/'' (measured_config_path @ CHR ''/'' # clean_path n)
      = [''''] @ [''run'', ''measured-cfg''] @ split_on CHR ''/'' (clean_path n)"
    unfolding split_on_append measured_config_path_def by simp
  then have "clean_parts True [] (split_on CHR ''/'' (measured_config_path @ CHR ''/'' # clean_path n)) = rev ?base @ cp"
    using tail by simp
  moreover have "has_prefix ''/'' (measured_config_path @ s)" "measured_config_path \<noteq> ''''" for s
    by (simp_all add: measured_config_path_def has_prefix_def)
  ultimately have "clean_path (measured_config_path @ CHR ''/'' # clean_path n) = ''/'' @ join_with ''/'' (rev ?base @ cp)"
    unfolding clean_path_def [of "measured_config_path @ _"] by (simp add: Let_def)
  then show ?thesis by (simp add: config_file_def \<open>measured_config_path \<noteq> ''''\<close>)
qed

lemma config_file_escapes: "config_file ''../x'' = ''/run/x''"
  by code_simp

end
