(* ===== verification/Pods.thy ===== *)
theory Pods
  imports Platforms Manifest
begin

text \<open>
  The Kubernetes workloads that the command line tool edits, \<open>internal/kuberesource/wrappers.go\<close> and
  the accessors of \<open>mutators.go\<close>: the fields of pods and containers that the code reads or writes.
  A pointer field is an option, a map that is only looked up a partial function.
\<close>

section \<open>Containers\<close>

record env_var =
  ev_name :: "string option"
  ev_value :: "string option"

record volume_mount =
  vm_name :: "string option"
  vm_path :: "string option"
  vm_read_only :: "bool option"
  vm_propagation :: "string option"

record volume_device =
  vd_name :: "string option"
  vd_path :: "string option"

record container_port =
  cp_name :: "string option"
  cp_number :: "32 word option"

record probe =
  initial_delay_seconds :: "int option"
  period_seconds :: "int option"
  failure_threshold :: "int option"
  exec_command :: "string list"

text \<open>
  Quantities are in thousandths, what \<open>MilliValue\<close> returns; a missing map of limits is an empty one,
  which no code here tells apart.
\<close>

record resource_reqs =
  limits :: "(string \<times> int) list"
  requests :: "(string \<times> int) list"

record security_context =
  privileged :: "bool option"
  add_capabilities :: "string list"

record container =
  c_name :: "string option"
  c_image :: "string option"
  c_command :: "string list"
  c_args :: "string list"
  c_env :: "env_var list"
  c_ports :: "container_port list"
  c_mounts :: "volume_mount list"
  c_devices :: "volume_device list"
  c_security :: "security_context option"
  c_resources :: "resource_reqs option"
  c_startup_probe :: "probe option"
  c_restart_policy :: "string option"

definition new_container :: container where
  "new_container = \<lparr>c_name = None, c_image = None, c_command = [], c_args = [], c_env = [], c_ports = [],
     c_mounts = [], c_devices = [], c_security = None, c_resources = None, c_startup_probe = None,
     c_restart_policy = None\<rparr>"

definition new_env_var :: "string \<Rightarrow> string \<Rightarrow> env_var" where
  "new_env_var n v = \<lparr>ev_name = Some n, ev_value = Some v\<rparr>"

definition memory_quantity :: "int \<Rightarrow> int" where
  "memory_quantity mib = mib * 1024 * 1024 * 1000"

definition with_memory_limit_and_request :: "int \<Rightarrow> resource_reqs" where
  "with_memory_limit_and_request mib =
     \<lparr>limits = [(''memory'', memory_quantity mib)], requests = [(''memory'', memory_quantity mib)]\<rparr>"

definition add_capabilities_to :: "string list \<Rightarrow> security_context \<Rightarrow> security_context" where
  "add_capabilities_to cs s = s\<lparr>add_capabilities := add_capabilities s @ cs\<rparr>"

text \<open>\<open>Limits.Cpu().MilliValue()\<close> and \<open>Limits.Memory().Value()\<close>; a missing entry counts nothing.\<close>

definition milli_limit :: "string \<Rightarrow> resource_reqs option \<Rightarrow> int" where
  "milli_limit n r = (case r of None \<Rightarrow> 0 | Some q \<Rightarrow> (case map_of (limits q) n of None \<Rightarrow> 0 | Some v \<Rightarrow> v))"

definition get_cpu_count :: "resource_reqs option \<Rightarrow> int" where
  "get_cpu_count r = milli_limit ''cpu'' r"

definition always :: string where "always = ''Always''"

definition is_sidecar :: "container \<Rightarrow> bool" where
  "is_sidecar c \<longleftrightarrow> c_restart_policy c = Some always"

section \<open>Pods\<close>

text \<open>The sources of a volume that the code tells apart.\<close>

datatype volume_source =
    EmptyDir "string option"
  | PersistentVolumeClaim
  | Iscsi
  | Ephemeral "string option option"
  | ConfigMapVolume
  | SecretVolume
  | DownwardApi
  | Projected
  | OtherVolume

record volume =
  v_name :: "string option"
  v_source :: volume_source

record object_meta =
  labels :: "string \<Rightarrow> string option"
  annotations :: "string \<Rightarrow> string option"

definition empty_meta :: object_meta where
  "empty_meta = \<lparr>labels = (\<lambda>_. None), annotations = (\<lambda>_. None)\<rparr>"

record pod_spec =
  runtime_class_name :: "string option"
  init_containers :: "container list"
  containers :: "container list"
  volumes :: "volume list"
  pod_resources :: "resource_reqs option"

text \<open>\<open>m[k]\<close> of a Go map of strings: the empty string when the key is missing.\<close>

definition map_entry :: "(string \<Rightarrow> string option) \<Rightarrow> string \<Rightarrow> string" where
  "map_entry m k = (case m k of None \<Rightarrow> '''' | Some v \<Rightarrow> v)"

definition annotation :: "object_meta \<Rightarrow> string \<Rightarrow> string" where
  "annotation m k = map_entry (annotations m) k"

definition label :: "object_meta \<Rightarrow> string \<Rightarrow> string" where
  "label m k = map_entry (labels m) k"

definition annotation_prefix :: string where "annotation_prefix = ''contrast.edgeless.systems/''"
definition kata_annotation_prefix :: string where "kata_annotation_prefix = ''io.katacontainers.config.''"
definition contrast_role_label :: string where "contrast_role_label = annotation_prefix @ ''pod-role''"
definition image_store_size_annotation :: string where
  "image_store_size_annotation = annotation_prefix @ ''image-store-size''"
definition secure_pv_annotation :: string where "secure_pv_annotation = annotation_prefix @ ''secure-pv''"
definition skip_initializer_annotation :: string where
  "skip_initializer_annotation = annotation_prefix @ ''skip-initializer''"
definition sm_admin_annotation :: string where
  "sm_admin_annotation = annotation_prefix @ ''servicemesh-admin-interface-port''"
definition sm_egress_annotation :: string where "sm_egress_annotation = annotation_prefix @ ''servicemesh-egress''"
definition sm_ingress_annotation :: string where "sm_ingress_annotation = annotation_prefix @ ''servicemesh-ingress''"
definition workload_secret_id_annotation :: string where
  "workload_secret_id_annotation = annotation_prefix @ ''workload-secret-id''"
definition guest_policy_annotation :: string where
  "guest_policy_annotation = kata_annotation_prefix @ ''hypervisor.snp_guest_policy_''"
definition id_auth_annotation :: string where
  "id_auth_annotation = kata_annotation_prefix @ ''hypervisor.snp_id_auth_''"
definition id_block_annotation :: string where
  "id_block_annotation = kata_annotation_prefix @ ''hypervisor.snp_id_block_''"
definition initdata_annotation :: string where
  "initdata_annotation = kata_annotation_prefix @ ''hypervisor.cc_init_data''"

definition is_contrast_pod :: "pod_spec option \<Rightarrow> bool" where
  "is_contrast_pod s = (case s of None \<Rightarrow> False | Some p \<Rightarrow>
     (case runtime_class_name p of None \<Rightarrow> False | Some n \<Rightarrow> has_prefix ''contrast-cc'' n))"

definition needs_service_mesh :: "object_meta option \<Rightarrow> bool" where
  "needs_service_mesh m = (case m of None \<Rightarrow> False | Some o' \<Rightarrow>
     annotations o' sm_ingress_annotation \<noteq> None \<or> annotations o' sm_egress_annotation \<noteq> None
     \<or> annotations o' sm_admin_annotation \<noteq> None)"

definition wants_gpu :: "container \<Rightarrow> bool" where
  "wants_gpu c = (case c_resources c of None \<Rightarrow> False | Some r \<Rightarrow>
     list_ex (\<lambda>(n, q). has_prefix ''nvidia.com/'' n) (limits r))"

definition pod_spec_requires_gpu :: "pod_spec option \<Rightarrow> bool" where
  "pod_spec_requires_gpu s = (case s of None \<Rightarrow> False | Some p \<Rightarrow>
     list_ex wants_gpu (containers p) \<or> list_ex wants_gpu (init_containers p))"

section \<open>Resources\<close>

text \<open>
  The eight kinds of workload and anything else. \<open>template\<close> is the pod template behind the pointers
  that lead to it, the pod itself for a pod; \<open>claim_templates\<close> are the names of a stateful set's
  volume claim templates.
\<close>

datatype workload_kind =
  CronJob | DaemonSet | Deployment | Job | Pod | ReplicaSet | ReplicationController | StatefulSet

record pod_template =
  t_meta :: "object_meta option"
  t_spec :: "pod_spec option"

record workload =
  kind :: workload_kind
  template :: "pod_template option"
  claim_templates :: "string option list"

datatype resource = Workload workload | OtherResource

type_synonym pod_mapper = "object_meta option \<Rightarrow> pod_spec option \<Rightarrow> (object_meta option \<times> pod_spec option) result"

fun map_pod_spec_with_meta_and_errors :: "resource \<Rightarrow> pod_mapper \<Rightarrow> resource result" where
  "map_pod_spec_with_meta_and_errors OtherResource f = Inr OtherResource"
| "map_pod_spec_with_meta_and_errors (Workload w) f = (case template w of
     None \<Rightarrow> Inr (Workload w)
   | Some t \<Rightarrow> (case f (t_meta t) (t_spec t) of
       Inl e \<Rightarrow> Inl e
     | Inr (m, s) \<Rightarrow> Inr (Workload (w\<lparr>template := Some \<lparr>t_meta = m, t_spec = s\<rparr>\<rparr>))))"

fun map_pod_spec_with_meta ::
  "resource \<Rightarrow> (object_meta option \<Rightarrow> pod_spec option \<Rightarrow> object_meta option \<times> pod_spec option) \<Rightarrow> resource" where
  "map_pod_spec_with_meta r f =
     (case map_pod_spec_with_meta_and_errors r (\<lambda>m s. Inr (f m s)) of Inr r' \<Rightarrow> r' | Inl e \<Rightarrow> r)"

definition map_pod_spec :: "resource \<Rightarrow> (pod_spec option \<Rightarrow> pod_spec option) \<Rightarrow> resource" where
  "map_pod_spec r f = map_pod_spec_with_meta r (\<lambda>m s. (m, f s))"

definition map_pod_spec_with_errors :: "resource \<Rightarrow> (pod_spec option \<Rightarrow> pod_spec option result) \<Rightarrow> resource result" where
  "map_pod_spec_with_errors r f = map_pod_spec_with_meta_and_errors r
     (\<lambda>m s. case f s of Inl e \<Rightarrow> Inl e | Inr s' \<Rightarrow> Inr (m, s'))"

text \<open>The pod of a resource, as the mapping functions hand it to their argument.\<close>

definition pod_of :: "resource \<Rightarrow> (object_meta option \<times> pod_spec option) option" where
  "pod_of r = (case r of OtherResource \<Rightarrow> None | Workload w \<Rightarrow>
     map_option (\<lambda>t. (t_meta t, t_spec t)) (template w))"

section \<open>Facts\<close>

lemma map_with_errors_pod:
  "pod_of r = Some (m, s) \<Longrightarrow> map_pod_spec_with_meta_and_errors r f = Inr r' \<Longrightarrow>
     \<exists>m' s'. f m s = Inr (m', s') \<and> pod_of r' = Some (m', s')"
  by (cases r) (auto simp: pod_of_def split: option.splits sum.splits)

lemma map_with_errors_error:
  "map_pod_spec_with_meta_and_errors r f = Inl e \<longleftrightarrow> (\<exists>m s. pod_of r = Some (m, s) \<and> f m s = Inl e)"
  by (cases r) (auto simp: pod_of_def split: option.splits sum.splits)

lemma map_with_errors_none: "pod_of r = None \<Longrightarrow> map_pod_spec_with_meta_and_errors r f = Inr r"
  by (cases r) (auto simp: pod_of_def split: option.splits)

lemma map_with_meta_pod:
  "pod_of (map_pod_spec_with_meta r f) = map_option (\<lambda>(m, s). f m s) (pod_of r)"
  by (cases r) (auto simp: pod_of_def split: option.splits prod.splits)

lemma map_with_errors_fixed:
  assumes "pod_of r = Some (m, s)" and "f m s = Inr (m, s)"
  shows "map_pod_spec_with_meta_and_errors r f = Inr r"
proof (cases r)
  case (Workload w)
  then obtain t where t: "template w = Some t" "t_meta t = m" "t_spec t = s" using assms(1) by (auto simp: pod_of_def)
  have "w\<lparr>template := Some \<lparr>t_meta = m, t_spec = s\<rparr>\<rparr> = w" using t by (cases w, cases t) simp
  then show ?thesis using t assms(2) by (simp add: Workload)
qed (use assms(1) in \<open>simp add: pod_of_def\<close>)

text \<open>Two mappings in a row are one with the composed function.\<close>

lemma map_with_errors_comp:
  "map_pod_spec_with_meta_and_errors r f = Inr r' \<Longrightarrow>
   map_pod_spec_with_meta_and_errors r' g
     = map_pod_spec_with_meta_and_errors r (\<lambda>m s. case f m s of Inl e \<Rightarrow> Inl e | Inr (m', s') \<Rightarrow> g m' s')"
  by (cases r) (auto split: option.splits sum.splits prod.splits)

lemma pod_of_determines:
  assumes "map_pod_spec_with_meta_and_errors r f = Inr r1" "map_pod_spec_with_meta_and_errors r g = Inr r2"
    and "pod_of r1 = pod_of r2"
  shows "r1 = r2"
  using assms by (cases r) (auto simp: pod_of_def split: option.splits sum.splits prod.splits)

end
