(* ===== verification/Mutators.thy ===== *)
theory Mutators
  imports Pods
begin

text \<open>
  What the command line tool adds to a workload, \<open>internal/kuberesource/mutators.go\<close> with the
  container builders of \<open>parts.go\<close>: the initializer with its shared volume, the service mesh
  sidecar, the debug shell, the image store, and the replacement of images and runtime classes.
  Where the source sets an error and returns no pod, the model returns the error: every caller then
  drops the resource. A container that is passed in is changed in place by the source; the model
  returns it beside the resource where a second call could see the change.
\<close>

section \<open>The injected containers\<close>

datatype memory_profile = MemoryProfileFull | MemoryProfileRuntimeOnly

definition memory_profile_of :: "bool \<Rightarrow> memory_profile" where
  "memory_profile_of b = (if b then MemoryProfileRuntimeOnly else MemoryProfileFull)"

fun initializer_memory :: "memory_profile \<Rightarrow> int" where
  "initializer_memory MemoryProfileFull = 300"
| "initializer_memory MemoryProfileRuntimeOnly = 20"

fun service_mesh_memory :: "memory_profile \<Rightarrow> int" where
  "service_mesh_memory MemoryProfileFull = 500"
| "service_mesh_memory MemoryProfileRuntimeOnly = 100"

fun debug_shell_memory :: "memory_profile \<Rightarrow> int" where
  "debug_shell_memory MemoryProfileFull = 650"
| "debug_shell_memory MemoryProfileRuntimeOnly = 200"

definition secrets_mount :: volume_mount where
  "secrets_mount = \<lparr>vm_name = Some ''contrast-secrets'', vm_path = Some ''/contrast'', vm_read_only = None,
     vm_propagation = None\<rparr>"

definition new_initializer :: "string \<Rightarrow> memory_profile \<Rightarrow> container" where
  "new_initializer coordinator_host p = new_container\<lparr>
     c_name := Some ''contrast-initializer'',
     c_image := Some ''ghcr.io/edgelesssys/contrast/initializer:latest'',
     c_resources := Some (with_memory_limit_and_request (initializer_memory p)),
     c_env := [new_env_var ''COORDINATOR_HOST'' coordinator_host],
     c_mounts := [secrets_mount],
     c_security := Some \<lparr>privileged = None, add_capabilities = [''NET_ADMIN'']\<rparr>\<rparr>"

definition service_mesh_proxy :: "memory_profile \<Rightarrow> container" where
  "service_mesh_proxy p = new_container\<lparr>
     c_name := Some ''contrast-service-mesh'',
     c_image := Some ''ghcr.io/edgelesssys/contrast/service-mesh-proxy:latest'',
     c_restart_policy := Some always,
     c_mounts := [secrets_mount],
     c_security := Some (add_capabilities_to [''NET_ADMIN''] \<lparr>privileged = Some True, add_capabilities = []\<rparr>),
     c_startup_probe := Some \<lparr>initial_delay_seconds = Some 1, period_seconds = Some 5, failure_threshold = Some 5,
       exec_command = [''test'', ''-f'', ''/ready'']\<rparr>,
     c_args := [''-l'', ''debug''],
     c_resources := Some (with_memory_limit_and_request (service_mesh_memory p))\<rparr>"

definition debug_shell :: "memory_profile \<Rightarrow> container" where
  "debug_shell p = new_container\<lparr>
     c_name := Some ''contrast-debug-shell'',
     c_image := Some ''ghcr.io/edgelesssys/contrast/debugshell:latest'',
     c_restart_policy := Some always,
     c_resources := Some (with_memory_limit_and_request (debug_shell_memory p))\<rparr>"

section \<open>Volumes\<close>

definition ensure_volume_exists :: "string \<Rightarrow> pod_spec \<Rightarrow> pod_spec result" where
  "ensure_volume_exists n s = (case find (\<lambda>v. v_name v = Some n) (volumes s) of
     Some v \<Rightarrow> (case v_source v of
         EmptyDir m \<Rightarrow> Inr s
       | _ \<Rightarrow> Inl (Msg (''volume '' @ n @ '' has to be of type EmptyDir'')))
   | None \<Rightarrow> Inr (s\<lparr>volumes := volumes s @ [\<lparr>v_name = Some n, v_source = EmptyDir (Some ''Memory'')\<rparr>]\<rparr>))"

definition check_if_device_exists :: "resource \<Rightarrow> pod_spec \<Rightarrow> string \<Rightarrow> goerr option" where
  "check_if_device_exists r s n = (case find (\<lambda>v. v_name v = Some n) (volumes s) of
     Some v \<Rightarrow> (if v_source v = PersistentVolumeClaim \<or> v_source v = Iscsi then None
                else Some (Msg (''volume '' @ quoted n @ '' must reference a PVC or iSCSI device'')))
   | None \<Rightarrow> (case r of
       Workload w \<Rightarrow>
         (if kind w = StatefulSet \<and> Some n \<in> set (claim_templates w) then None
          else Some (Msg (''device '' @ quoted n @ '' not found'')))
     | OtherResource \<Rightarrow> Some (Msg (''device '' @ quoted n @ '' not found''))))"

text \<open>
  The mount of the same name is replaced; the last one wins. A mount without a name makes the source
  dereference a nil pointer, which its callers rule out.
\<close>

definition add_or_replace_volume_mount :: "volume_mount \<Rightarrow> container \<Rightarrow> container" where
  "add_or_replace_volume_mount m c =
     c\<lparr>c_mounts := filter (\<lambda>v. \<not> (vm_name v \<noteq> None \<and> vm_name v = vm_name m)) (c_mounts c) @ [m]\<rparr>"

section \<open>The initializer\<close>

definition add_cryptsetup_config :: "container \<Rightarrow> string \<Rightarrow> string \<Rightarrow> container" where
  "add_cryptsetup_config i dev_name mount_name = i\<lparr>
     c_env := c_env i @ [new_env_var ''CRYPTSETUP_DEVICE'' ''/dev/csi0''],
     c_devices := c_devices i @ [\<lparr>vd_name = Some dev_name, vd_path = Some ''/dev/csi0''\<rparr>],
     c_mounts := c_mounts i @ [\<lparr>vm_name = Some mount_name, vm_path = Some ''/state'', vm_read_only = None,
       vm_propagation = Some ''Bidirectional''\<rparr>],
     c_security := Some \<lparr>privileged = Some True, add_capabilities = []\<rparr>,
     c_resources := Some (with_memory_limit_and_request 100),
     c_startup_probe := Some \<lparr>initial_delay_seconds = None, period_seconds = Some 5, failure_threshold = Some 20,
       exec_command = [''/bin/test'', ''-f'', ''/done'']\<rparr>,
     c_restart_policy := Some always\<rparr>"

text \<open>\<open>slices.DeleteFunc\<close> on the name of an injected container.\<close>

definition without_named :: "container \<Rightarrow> container list \<Rightarrow> container list" where
  "without_named c cs = filter (\<lambda>d. \<not> (c_name d \<noteq> None \<and> c_name d = c_name c)) cs"

definition secure_pv :: "resource \<Rightarrow> object_meta option \<Rightarrow> pod_spec \<Rightarrow> container \<Rightarrow> (pod_spec \<times> container) result" where
  "secure_pv r m s i = (case m of None \<Rightarrow> Inr (s, i) | Some om \<Rightarrow>
     (if annotation om secure_pv_annotation = '''' then Inr (s, i) else
      case split_on CHR '':'' (annotation om secure_pv_annotation) of
        [dev_name, mount_name] \<Rightarrow> (case check_if_device_exists r s dev_name of
            Some e \<Rightarrow> Inl e
          | None \<Rightarrow> (case ensure_volume_exists mount_name s of
              Inl e \<Rightarrow> Inl e
            | Inr s' \<Rightarrow> Inr (s', add_cryptsetup_config i dev_name mount_name)))
      | _ \<Rightarrow> Inl (Msg ''secure PV annotation has to be in the format device-name:mount-name'')))"

text \<open>The pod with the initializer, and the initializer that was put in.\<close>

definition initializer_pod ::
  "resource \<Rightarrow> container \<Rightarrow> object_meta option \<Rightarrow> pod_spec option \<Rightarrow> (pod_spec option \<times> container) result" where
  "initializer_pod r i0 m so =
     (if (case m of None \<Rightarrow> False | Some om \<Rightarrow> annotation om skip_initializer_annotation = ''true'') then Inr (so, i0)
      else if \<not> is_contrast_pod so then Inr (so, i0)
      else
       (case so of None \<Rightarrow> Inr (so, i0) | Some s0 \<Rightarrow>
       (case secure_pv r m s0 i0 of Inl e \<Rightarrow> Inl e
        | Inr (s1, i1) \<Rightarrow>
       (let i = (if \<not> needs_service_mesh m
                 then i1\<lparr>c_env := c_env i1 @ [new_env_var ''CONTRAST_SERVICE_MESH_DISABLED'' ''true'']\<rparr> else i1) in
        case c_mounts i of
          [] \<Rightarrow> Inl (Msg ''initializer volume mount list is empty'')
        | vm # vms \<Rightarrow>
       (case vm_name vm of None \<Rightarrow> Inl (Panic ''nil pointer dereference'')
        | Some vn \<Rightarrow>
       (case ensure_volume_exists vn s1 of Inl e \<Rightarrow> Inl e
        | Inr s2 \<Rightarrow>
       (let ro = vm\<lparr>vm_read_only := Some True\<rparr> in
        Inr (Some (s2\<lparr>containers := map (add_or_replace_volume_mount ro) (containers s2),
                      init_containers := i # map (add_or_replace_volume_mount ro) (without_named i (init_containers s2))\<rparr>),
             i))))))))"

text \<open>
  The initializer is passed by pointer and changed; the result has the resource and the object that
  the caller's pointer refers to afterwards.
\<close>

definition initializer_after :: "resource \<Rightarrow> container \<Rightarrow> container" where
  "initializer_after r i = (case pod_of r of None \<Rightarrow> i | Some (m, s) \<Rightarrow>
     (case initializer_pod r i m s of Inl e \<Rightarrow> i | Inr (s', i') \<Rightarrow> i'))"

definition add_initializer :: "resource \<Rightarrow> container \<Rightarrow> (resource \<times> container) result" where
  "add_initializer r i =
     (case map_pod_spec_with_meta_and_errors r
        (\<lambda>m s. case initializer_pod r i m s of Inl e \<Rightarrow> Inl e | Inr (s', i') \<Rightarrow> Inr (m, s')) of
        Inl e \<Rightarrow> Inl e
      | Inr r' \<Rightarrow> Inr (r', initializer_after r i))"

section \<open>Sidecars and the image store\<close>

text \<open>\<open>atoi\<close> is \<open>strconv.Atoi\<close>; the conversion to \<open>int32\<close> keeps the low bits.\<close>

definition mesh_admin :: "(string \<Rightarrow> int result) \<Rightarrow> string \<Rightarrow> container \<Rightarrow> container result" where
  "mesh_admin atoi port_annotation c =
     (if port_annotation = '''' then Inr c else
      case atoi port_annotation of
        Inl e \<Rightarrow> Inl (Wrap ''parsing service mesh admin interface port'' e)
      | Inr port \<Rightarrow> Inr (c\<lparr>c_env := c_env c @ [new_env_var ''CONTRAST_ADMIN_PORT'' port_annotation],
          c_ports := c_ports c @ [\<lparr>cp_name = Some ''contrast-admin'', cp_number = Some (word_of_int port)\<rparr>]\<rparr>))"

definition with_env_if :: "string \<Rightarrow> string \<Rightarrow> container \<Rightarrow> container" where
  "with_env_if n v c = (if v \<noteq> '''' then c\<lparr>c_env := c_env c @ [new_env_var n v]\<rparr> else c)"

definition service_mesh_pod ::
  "(string \<Rightarrow> int result) \<Rightarrow> container \<Rightarrow> object_meta option \<Rightarrow> pod_spec option \<Rightarrow> pod_spec option result" where
  "service_mesh_pod atoi c0 m so =
     (if \<not> is_contrast_pod so \<or> \<not> needs_service_mesh m then Inr so else
      case (m, so) of
        (Some om, Some s) \<Rightarrow>
         (let s1 = s\<lparr>init_containers := without_named c0 (init_containers s)\<rparr> in
          case c_mounts c0 of [] \<Rightarrow> Inl (Panic ''index out of range'')
          | vm # vms \<Rightarrow>
         (case vm_name vm of None \<Rightarrow> Inl (Panic ''nil pointer dereference'')
          | Some vn \<Rightarrow>
         (case ensure_volume_exists vn s1 of Inl e \<Rightarrow> Inl e
          | Inr s2 \<Rightarrow>
         (case mesh_admin atoi (annotation om sm_admin_annotation) c0 of Inl e \<Rightarrow> Inl e
          | Inr c1 \<Rightarrow>
            (let c2 = with_env_if ''CONTRAST_INGRESS_PROXY_CONFIG'' (annotation om sm_ingress_annotation) c1;
                 c3 = with_env_if ''CONTRAST_EGRESS_PROXY_CONFIG'' (annotation om sm_egress_annotation) c2
             in Inr (Some (s2\<lparr>init_containers := init_containers s2 @ [c3]\<rparr>)))))))
      | _ \<Rightarrow> Inr so)"

definition add_service_mesh :: "(string \<Rightarrow> int result) \<Rightarrow> resource \<Rightarrow> container \<Rightarrow> resource result" where
  "add_service_mesh atoi r c = map_pod_spec_with_meta_and_errors r
     (\<lambda>m s. case service_mesh_pod atoi c m s of Inl e \<Rightarrow> Inl e | Inr s' \<Rightarrow> Inr (m, s'))"

definition debug_shell_pod :: "container \<Rightarrow> pod_spec option \<Rightarrow> pod_spec option" where
  "debug_shell_pod c so = (if \<not> is_contrast_pod so then so else
     map_option (\<lambda>s. s\<lparr>init_containers := without_named c (init_containers s) @ [c]\<rparr>) so)"

definition add_debug_shell :: "resource \<Rightarrow> container \<Rightarrow> resource" where
  "add_debug_shell r c = map_pod_spec r (debug_shell_pod c)"

definition pvc_holder :: container where
  "pvc_holder = new_container\<lparr>
     c_name := Some ''pvc-holder'',
     c_image := Some ''ghcr.io/edgelesssys/contrast/initializer:latest'',
     c_command := [''/bin/sh'', ''-c'', ''sleep inf''],
     c_restart_policy := Some always,
     c_security := Some \<lparr>privileged = Some True, add_capabilities = []\<rparr>,
     c_resources := Some (with_memory_limit_and_request 420),
     c_devices := [\<lparr>vd_name = Some ''image-store'', vd_path = Some ''/dev/image_store''\<rparr>]\<rparr>"

text \<open>
  The ephemeral volume of the store is a block device. Its size goes through \<open>MustParse\<close>: \<open>size_ok\<close>
  says which annotations parse, and any other one panics.
\<close>

definition image_store_volume :: volume where
  "image_store_volume = \<lparr>v_name = Some ''image-store'', v_source = Ephemeral (Some (Some ''Block''))\<rparr>"

definition image_store_pod ::
  "(string \<Rightarrow> bool) \<Rightarrow> object_meta option \<Rightarrow> pod_spec option \<Rightarrow> pod_spec option result" where
  "image_store_pod size_ok m so =
     (if \<not> is_contrast_pod so then Inr so else
      (let a = (case m of None \<Rightarrow> '''' | Some om \<Rightarrow> annotation om image_store_size_annotation) in
       if a = ''0'' then Inr so
       else if \<not> size_ok (if a = '''' then ''10Gi'' else a) then Inl (Panic ''cannot parse quantity'')
       else Inr (map_option (\<lambda>s. s\<lparr>
         init_containers := (if list_ex (\<lambda>c. c_name c = c_name pvc_holder) (init_containers s) then init_containers s
                             else pvc_holder # init_containers s),
         volumes := (if list_ex (\<lambda>v. v_name v = v_name image_store_volume) (volumes s) then volumes s
                     else volumes s @ [image_store_volume])\<rparr>) so)))"

definition add_image_store :: "(string \<Rightarrow> bool) \<Rightarrow> resource \<Rightarrow> resource result" where
  "add_image_store size_ok r = map_pod_spec_with_meta_and_errors r
     (\<lambda>m s. case image_store_pod size_ok m s of Inl e \<Rightarrow> Inl e | Inr s' \<Rightarrow> Inr (m, s'))"

section \<open>Replacements\<close>

definition patch_image :: "(string \<Rightarrow> string option) \<Rightarrow> container \<Rightarrow> container" where
  "patch_image reps c = (case c_image c of None \<Rightarrow> c | Some img \<Rightarrow>
     (case reps img of None \<Rightarrow> c | Some img' \<Rightarrow> c\<lparr>c_image := Some img'\<rparr>))"

definition patch_images :: "(string \<Rightarrow> string option) \<Rightarrow> resource \<Rightarrow> resource" where
  "patch_images reps r = map_pod_spec r (map_option (\<lambda>s.
     s\<lparr>init_containers := map (patch_image reps) (init_containers s), containers := map (patch_image reps) (containers s)\<rparr>))"

definition patch_runtime_handlers :: "string \<Rightarrow> resource \<Rightarrow> resource" where
  "patch_runtime_handlers h r = map_pod_spec r (map_option (\<lambda>s. s\<lparr>runtime_class_name := Some h\<rparr>))"

text \<open>
  Variables are set in the containers of a Coordinator; the caller hands in Contrast workloads only,
  which have a pod spec. The first variable of the name gets the value; without one, a new
  variable is appended.
\<close>

fun set_env_list :: "string \<Rightarrow> string \<Rightarrow> env_var list \<Rightarrow> env_var list" where
  "set_env_list n v [] = [new_env_var n v]"
| "set_env_list n v (e # es) = (if ev_name e = Some n then e\<lparr>ev_value := Some v\<rparr> # es else e # set_env_list n v es)"

definition set_env :: "string \<Rightarrow> string \<Rightarrow> container \<Rightarrow> container" where
  "set_env n v c = c\<lparr>c_env := set_env_list n v (c_env c)\<rparr>"

definition set_collateral_proxy_env :: "string \<Rightarrow> resource \<Rightarrow> resource" where
  "set_collateral_proxy_env url r = map_pod_spec_with_meta r (\<lambda>m so.
     case m of None \<Rightarrow> (m, so) | Some om \<Rightarrow>
       if label om contrast_role_label \<noteq> role_coordinator then (m, so)
       else (m, map_option (\<lambda>s. s\<lparr>containers := map (set_env ''CONTRAST_COLLATERAL_PROXY'' url) (containers s)\<rparr>) so))"

end
