(* ===== verification/MutatorsFacts.thy ===== *)
theory MutatorsFacts
  imports Mutators
begin

text \<open>
  What the initializer's injection guarantees: it comes first, every other container sees the shared
  volume read-only and at one place, and a second injection changes nothing, unless the device of
  the secure volume is named like a volume that the first one created.
\<close>

lemma find_append_left: "find P xs = Some x \<Longrightarrow> find P (xs @ ys) = Some x"
  by (induction xs) auto

lemma find_append_none: "find P (xs @ ys) = None \<longleftrightarrow> find P xs = None \<and> find P ys = None"
  by (auto simp: find_None_iff)

section \<open>Volumes\<close>

text \<open>Nothing but a volume of the given name is added, and a pod that has it is left alone.\<close>

lemma ensure_volume_ok:
  assumes "ensure_volume_exists n s = Inr s'"
  shows "\<exists>vs. s' = s\<lparr>volumes := volumes s @ vs\<rparr> \<and> (\<forall>v\<in>set vs. v_name v = Some n)
    \<and> (\<exists>v m. find (\<lambda>v. v_name v = Some n) (volumes s') = Some v \<and> v_source v = EmptyDir m)"
proof (cases "find (\<lambda>v. v_name v = Some n) (volumes s)")
  case None
  then have s': "s' = s\<lparr>volumes := volumes s @ [\<lparr>v_name = Some n, v_source = EmptyDir (Some ''Memory'')\<rparr>]\<rparr>"
    using assms by (simp add: ensure_volume_exists_def)
  have "find (\<lambda>v. v_name v = Some n) (xs @ [\<lparr>v_name = Some n, v_source = EmptyDir mm\<rparr>])
      = Some \<lparr>v_name = Some n, v_source = EmptyDir mm\<rparr>"
    if "find (\<lambda>v. v_name v = Some n) xs = None" for xs mm using that by (induction xs) (auto split: if_splits)
  with None show ?thesis by (intro exI [of _ "[\<lparr>v_name = Some n, v_source = EmptyDir (Some ''Memory'')\<rparr>]"]) (simp add: s')
next
  case (Some v)
  then have "s' = s" "\<exists>m. v_source v = EmptyDir m"
    using assms by (auto simp: ensure_volume_exists_def split: volume_source.splits)
  with Some show ?thesis by (intro exI [of _ "[]"]) auto
qed

lemma ensure_volume_stable:
  assumes "ensure_volume_exists n s = Inr s'" and "volumes t = volumes s' @ vs"
  shows "ensure_volume_exists n t = Inr t"
proof -
  obtain v m where "find (\<lambda>v. v_name v = Some n) (volumes s') = Some v" "v_source v = EmptyDir m"
    using ensure_volume_ok [OF assms(1)] by blast
  then show ?thesis using find_append_left [of _ "volumes s'" v vs] by (simp add: ensure_volume_exists_def assms(2))
qed

lemma device_check_stable:
  assumes "check_if_device_exists r s n = None" and "volumes t = volumes s @ vs"
    and "\<forall>v\<in>set vs. v_name v \<noteq> Some n"
    and "\<And>w. r = Workload w \<Longrightarrow> \<exists>w'. r' = Workload w' \<and> kind w' = kind w \<and> claim_templates w' = claim_templates w"
  shows "check_if_device_exists r' t n = None"
proof (cases "find (\<lambda>v. v_name v = Some n) (volumes s)")
  case (Some v)
  then show ?thesis using assms(1) find_append_left [OF Some, of vs]
    by (auto simp: check_if_device_exists_def assms(2) split: if_splits)
next
  case None
  then have "find (\<lambda>v. v_name v = Some n) (volumes t) = None"
    using assms(3) by (auto simp: assms(2) find_append_none find_None_iff)
  then show ?thesis using assms(1,4) None
    by (cases r) (fastforce simp: check_if_device_exists_def split: if_splits)+
qed

section \<open>Mounts and named containers\<close>

lemma add_or_replace_idem:
  "vm_name m \<noteq> None \<Longrightarrow> add_or_replace_volume_mount m (add_or_replace_volume_mount m c) = add_or_replace_volume_mount m c"
  by (simp add: add_or_replace_volume_mount_def)

lemma add_or_replace_name [simp]: "c_name (add_or_replace_volume_mount m c) = c_name c"
  by (simp add: add_or_replace_volume_mount_def)

text \<open>The only mount of that name is the given one.\<close>

lemma add_or_replace_mounts:
  "vm_name m \<noteq> None \<Longrightarrow> filter (\<lambda>v. vm_name v = vm_name m) (c_mounts (add_or_replace_volume_mount m c)) = [m]"
  by (auto simp: add_or_replace_volume_mount_def filter_empty_conv)

lemma without_named_map:
  "(\<And>d. c_name (f d) = c_name d) \<Longrightarrow> without_named c (map f cs) = map f (without_named c cs)"
  by (simp add: without_named_def filter_map o_def)

lemma without_named_idem [simp]: "without_named c (without_named c cs) = without_named c cs"
  by (simp add: without_named_def)

lemma without_named_self: "c_name c \<noteq> None \<Longrightarrow> without_named c (c # cs) = without_named c cs"
  by (simp add: without_named_def)

section \<open>The initializer\<close>

definition skips_initializer :: "object_meta option \<Rightarrow> bool" where
  "skips_initializer m \<longleftrightarrow> (case m of None \<Rightarrow> False | Some om \<Rightarrow> annotation om skip_initializer_annotation = ''true'')"

text \<open>
  What an injection makes of the initializer it is given: the configuration of the secure volume, when
  the pod is annotated for one, and a variable that turns the service mesh off, when the pod has none.
\<close>

definition secured :: "object_meta option \<Rightarrow> container \<Rightarrow> container" where
  "secured m i = (case m of None \<Rightarrow> i | Some om \<Rightarrow>
     (if annotation om secure_pv_annotation = '''' then i else
      case split_on CHR '':'' (annotation om secure_pv_annotation) of
        [d, n] \<Rightarrow> add_cryptsetup_config i d n | _ \<Rightarrow> i))"

definition configured :: "object_meta option \<Rightarrow> container \<Rightarrow> container" where
  "configured m i = (if needs_service_mesh m then secured m i
     else (secured m i)\<lparr>c_env := c_env (secured m i) @ [new_env_var ''CONTRAST_SERVICE_MESH_DISABLED'' ''true'']\<rparr>)"

lemma secured_keeps:
  "c_name (secured m i) = c_name i"
  "c_mounts i \<noteq> [] \<Longrightarrow> c_mounts (secured m i) \<noteq> [] \<and> List.hd (c_mounts (secured m i)) = List.hd (c_mounts i)"
  by (simp_all add: secured_def add_cryptsetup_config_def split: option.split list.split)

lemma configured_keeps:
  "c_name (configured m i) = c_name i" "c_mounts (configured m i) = c_mounts (secured m i)"
  by (simp_all add: configured_def secured_keeps)

text \<open>An initializer that is configured a second time has its configuration twice.\<close>

lemma configured_grows:
  "length (c_env (configured m i)) = length (c_env i)
     + (if (\<exists>om. m = Some om \<and> annotation om secure_pv_annotation \<noteq> ''''
          \<and> length (split_on CHR '':'' (annotation om secure_pv_annotation)) = 2) then 1 else 0)
     + (if needs_service_mesh m then 0 else 1)"
proof -
  have "length (c_env (secured m i)) = length (c_env i)
     + (if (\<exists>om. m = Some om \<and> annotation om secure_pv_annotation \<noteq> ''''
          \<and> length (split_on CHR '':'' (annotation om secure_pv_annotation)) = 2) then 1 else 0)"
    by (cases m) (auto simp: secured_def add_cryptsetup_config_def split: list.split)
  then show ?thesis by (simp add: configured_def)
qed

lemma configured_twice: "configured m (configured m i) = configured m i \<longleftrightarrow> configured m i = i"
proof
  let ?k = "(if (\<exists>om. m = Some om \<and> annotation om secure_pv_annotation \<noteq> ''''
          \<and> length (split_on CHR '':'' (annotation om secure_pv_annotation)) = 2) then 1 else 0)
     + (if needs_service_mesh m then 0 else 1) :: nat"
  assume "configured m (configured m i) = configured m i"
  then have "length (c_env (configured m (configured m i))) = length (c_env (configured m i))" by simp
  then have k: "?k = 0" unfolding configured_grows [of m "configured m i"] by linarith
  then have "secured m i = i" by (auto simp: secured_def split: option.split list.split if_split_asm)
  with k show "configured m i = i" by (simp add: configured_def split: if_split_asm)
qed simp

lemma secure_pv_ok:
  assumes "secure_pv r m s i = Inr (s', i')"
  shows "\<exists>vs. s' = s\<lparr>volumes := volumes s @ vs\<rparr> \<and> i' = secured m i"
proof -
  have "s\<lparr>volumes := volumes s @ []\<rparr> = s" by simp
  then show ?thesis using assms
    by (auto simp: secure_pv_def secured_def split: option.splits if_splits list.splits sum.splits dest!: ensure_volume_ok
        intro: exI [of _ "[]"])
qed

text \<open>The pod after the injection, written out once.\<close>

lemma initializer_pod_ok:
  assumes "initializer_pod r i0 m (Some s0) = Inr (so, i)" and "\<not> skips_initializer m" and "is_contrast_pod (Some s0)"
  shows "\<exists>s1 s2 vm vms vn. secure_pv r m s0 i0 = Inr (s1, secured m i0) \<and> i = configured m i0
    \<and> c_mounts i = vm # vms \<and> vm_name vm = Some vn \<and> ensure_volume_exists vn s1 = Inr s2
    \<and> so = Some (s2\<lparr>containers := map (add_or_replace_volume_mount (vm\<lparr>vm_read_only := Some True\<rparr>)) (containers s2),
         init_containers := i # map (add_or_replace_volume_mount (vm\<lparr>vm_read_only := Some True\<rparr>))
           (without_named i (init_containers s2))\<rparr>)"
proof -
  obtain s1 i1 where sp0: "secure_pv r m s0 i0 = Inr (s1, i1)"
    using assms by (auto simp: initializer_pod_def skips_initializer_def split: sum.splits prod.splits)
  then have i1: "i1 = secured m i0" using secure_pv_ok by blast
  with sp0 have sp: "secure_pv r m s0 i0 = Inr (s1, secured m i0)" by simp
  define i' where "i' = configured m i0"
  have i'': "(if \<not> needs_service_mesh m
                 then (secured m i0)\<lparr>c_env := c_env (secured m i0) @ [new_env_var ''CONTRAST_SERVICE_MESH_DISABLED'' ''true'']\<rparr>
                 else secured m i0) = i'"
    by (simp add: i'_def configured_def)
  from assms(2) have nskip: "\<not> (case m of None \<Rightarrow> False | Some om \<Rightarrow> annotation om skip_initializer_annotation = ''true'')"
    by (simp add: skips_initializer_def)
  from assms(1) obtain vm vms vn s2 where "c_mounts i' = vm # vms" "vm_name vm = Some vn" "ensure_volume_exists vn s1 = Inr s2"
    "i = i'" "so = Some (s2\<lparr>containers := map (add_or_replace_volume_mount (vm\<lparr>vm_read_only := Some True\<rparr>)) (containers s2),
         init_containers := i' # map (add_or_replace_volume_mount (vm\<lparr>vm_read_only := Some True\<rparr>))
           (without_named i' (init_containers s2))\<rparr>)"
    unfolding initializer_pod_def using assms(3) nskip
    by (simp only: if_False not_True_eq_False option.case sp sum.case prod.case Let_def i'')
      (auto split: list.splits option.splits sum.splits)
  then show ?thesis using sp unfolding i'_def by blast
qed

text \<open>
  Every container but the initializer sees the shared volume once, read-only and where the
  initializer has it; the initializer is the first one that starts.
\<close>

definition sees_read_only :: "volume_mount \<Rightarrow> container \<Rightarrow> bool" where
  "sees_read_only vm c \<longleftrightarrow> filter (\<lambda>v. vm_name v = vm_name vm) (c_mounts c) = [vm\<lparr>vm_read_only := Some True\<rparr>]"

lemma add_initializer_pod:
  assumes "add_initializer r i0 = Inr (r', i)" and "pod_of r = Some (m, s)"
  shows "\<exists>so. initializer_pod r i0 m s = Inr (so, i) \<and> pod_of r' = Some (m, so)"
proof -
  obtain m' so where so: "(case initializer_pod r i0 m s of Inl e \<Rightarrow> Inl e | Inr (s', i') \<Rightarrow> Inr (m, s')) = Inr (m', so)"
    and r': "pod_of r' = Some (m', so)"
    using map_with_errors_pod [OF assms(2)] assms(1) unfolding add_initializer_def by (fastforce split: sum.splits)
  have "i = initializer_after r i0" using assms(1) by (auto simp: add_initializer_def split: sum.splits)
  then show ?thesis using so r' assms(2) by (auto simp: initializer_after_def split: sum.splits)
qed

lemma add_initializer_ok:
  assumes "add_initializer r i0 = Inr (r', i)" and "pod_of r = Some (m, Some s)" and "is_contrast_pod (Some s)"
    and "\<not> skips_initializer m" and "c_mounts i0 = vm # vms"
  shows "i = configured m i0
    \<and> (\<exists>s' rest. pod_of r' = Some (m, Some s') \<and> init_containers s' = i # rest
        \<and> (\<forall>c \<in> set (containers s') \<union> set rest. sees_read_only vm c)
        \<and> map c_name (containers s') = map c_name (containers s)
        \<and> map c_name rest = map c_name (without_named i0 (init_containers s)))"
proof -
  obtain so where ip: "initializer_pod r i0 m (Some s) = Inr (so, i)" "pod_of r' = Some (m, so)"
    using add_initializer_pod [OF assms(1,2)] by blast
  obtain s1 s2 vm' vms' vn where f: "secure_pv r m s i0 = Inr (s1, secured m i0)" "i = configured m i0"
    "c_mounts i = vm' # vms'" "vm_name vm' = Some vn" "ensure_volume_exists vn s1 = Inr s2"
    "so = Some (s2\<lparr>containers := map (add_or_replace_volume_mount (vm'\<lparr>vm_read_only := Some True\<rparr>)) (containers s2),
         init_containers := i # map (add_or_replace_volume_mount (vm'\<lparr>vm_read_only := Some True\<rparr>))
           (without_named i (init_containers s2))\<rparr>)"
    using initializer_pod_ok [OF ip(1) assms(4,3)] by blast
  have sp: "c_name i = c_name i0" "vm' = vm"
    using secured_keeps(1) [of m i0] secured_keeps(2) [of i0 m] f(2,3) assms(5) by (auto simp: configured_keeps)
  have "init_containers s2 = init_containers s" "containers s2 = containers s"
    using secure_pv_ok [OF f(1)] ensure_volume_ok [OF f(5)] by auto
  moreover have "without_named i cs = without_named i0 cs" for cs by (simp add: without_named_def sp)
  moreover have "sees_read_only vm (add_or_replace_volume_mount (vm\<lparr>vm_read_only := Some True\<rparr>) c)" for c
    using add_or_replace_mounts [of "vm\<lparr>vm_read_only := Some True\<rparr>" c] f(4) by (simp add: sees_read_only_def sp)
  ultimately show ?thesis using ip(2) sp f(2) by (auto simp: f(6) o_def)
qed

text \<open>
  A second injection, with an initializer of the same name and the same first mount, only exchanges the
  initializer for the newly configured one, when the secure volume's device is named unlike the volumes
  that the first one may have created. With the initializer that the first injection was given
  nothing changes; with the object as the first injection left it, its configuration is doubled.
\<close>

definition device_apart :: "object_meta option \<Rightarrow> container \<Rightarrow> bool" where
  "device_apart m i \<longleftrightarrow> (\<forall>om d n. m = Some om \<longrightarrow> split_on CHR '':'' (annotation om secure_pv_annotation) = [d, n]
     \<longrightarrow> d \<noteq> n \<and> (c_mounts i \<noteq> [] \<longrightarrow> vm_name (List.hd (c_mounts i)) \<noteq> Some d))"

lemma secure_pv_stable:
  assumes "secure_pv r m s i = Inr (s1, i1)" and "volumes t = volumes s1 @ vs"
    and "\<forall>v\<in>set vs. v_name v = vn" and "device_apart m i" and "c_mounts i \<noteq> []" "vn = vm_name (List.hd (c_mounts i))"
    and "\<And>w. r = Workload w \<Longrightarrow> \<exists>w'. r' = Workload w' \<and> kind w' = kind w \<and> claim_templates w' = claim_templates w"
  shows "secure_pv r' m t j = Inr (t, secured m j)"
proof (cases "\<exists>om. m = Some om \<and> annotation om secure_pv_annotation \<noteq> ''''")
  case False
  then show ?thesis by (auto simp: secure_pv_def secured_def split: option.splits)
next
  case True
  then obtain om where om: "m = Some om" "annotation om secure_pv_annotation \<noteq> ''''" by blast
  from assms(1) obtain d n where dn: "split_on CHR '':'' (annotation om secure_pv_annotation) = [d, n]"
    "check_if_device_exists r s d = None" "ensure_volume_exists n s = Inr s1"
    unfolding secure_pv_def by (auto simp: om split: list.splits option.splits sum.splits)
  have ap: "d \<noteq> n" "vn \<noteq> Some d" using assms(4-6) om dn(1) by (auto simp: device_apart_def)
  obtain us where us: "volumes s1 = volumes s @ us" "\<forall>v\<in>set us. v_name v = Some n"
    using ensure_volume_ok [OF dn(3)] by auto
  have "check_if_device_exists r' t d = None"
    by (rule device_check_stable [OF dn(2) _ _ assms(7), of t "us @ vs"]) (use assms(2,3) us ap in auto)
  then show ?thesis using ensure_volume_stable [OF dn(3) assms(2)] om dn(1) by (simp add: secure_pv_def secured_def)
qed

lemma initializer_pod_again:
  assumes ip: "initializer_pod r i0 m (Some s0) = Inr (so, i)"
    and run: "\<not> skips_initializer m" "is_contrast_pod (Some s0)"
    and named: "c_name i0 \<noteq> None" and mounts: "c_mounts i0 \<noteq> []" and apart: "device_apart m i0"
    and shape: "\<And>w. r = Workload w \<Longrightarrow> \<exists>w'. r' = Workload w' \<and> kind w' = kind w \<and> claim_templates w' = claim_templates w"
    and j: "c_name j = c_name i0" "c_mounts j \<noteq> []" "List.hd (c_mounts j) = List.hd (c_mounts i0)"
  shows "\<exists>s' rest. so = Some s' \<and> init_containers s' = i # rest
    \<and> initializer_pod r' j m so = Inr (Some (s'\<lparr>init_containers := configured m j # rest\<rparr>), configured m j)"
proof -
  obtain s1 s2 vm vms vn where f: "secure_pv r m s0 i0 = Inr (s1, secured m i0)" "i = configured m i0"
    "c_mounts i = vm # vms" "vm_name vm = Some vn" "ensure_volume_exists vn s1 = Inr s2"
    "so = Some (s2\<lparr>containers := map (add_or_replace_volume_mount (vm\<lparr>vm_read_only := Some True\<rparr>)) (containers s2),
       init_containers := i # map (add_or_replace_volume_mount (vm\<lparr>vm_read_only := Some True\<rparr>))
         (without_named i (init_containers s2))\<rparr>)"
    using initializer_pod_ok [OF ip run] by blast
  define ro where "ro = vm\<lparr>vm_read_only := Some True\<rparr>"
  define rest where "rest = map (add_or_replace_volume_mount ro) (without_named i (init_containers s2))"
  define s3 where "s3 = s2\<lparr>containers := map (add_or_replace_volume_mount ro) (containers s2), init_containers := i # rest\<rparr>"
  have so: "so = Some s3" using f(6) by (simp add: s3_def ro_def rest_def)
  obtain vs where vs: "s2 = s1\<lparr>volumes := volumes s1 @ vs\<rparr>" "\<forall>v\<in>set vs. v_name v = Some vn"
    using ensure_volume_ok [OF f(5)] by blast
  have i: "c_name i = c_name i0" "vm = List.hd (c_mounts i0)"
    using secured_keeps(1) [of m i0] secured_keeps(2) [of i0 m] f(2,3) mounts by (auto simp: configured_keeps)
  obtain js where cj: "c_name (configured m j) = c_name i" "c_mounts (configured m j) = vm # js"
    using secured_keeps(1) [of m j] secured_keeps(2) [of j m] j i by (cases "c_mounts (configured m j)") (auto simp: configured_keeps)
  have v3: "volumes s3 = volumes s1 @ vs" by (simp add: s3_def vs(1))
  have sp: "secure_pv r' m s3 j = Inr (s3, secured m j)"
    by (rule secure_pv_stable [OF f(1) v3 vs(2) apart mounts _ shape]) (simp_all add: i(2) [symmetric] f(4))
  have ev: "ensure_volume_exists vn s3 = Inr s3"
    by (rule ensure_volume_stable [OF f(5), of s3 "[]"]) (simp add: v3 vs(1))
  have cp: "is_contrast_pod (Some s3)"
    using run(2) ensure_volume_ok [OF f(5)] secure_pv_ok [OF f(1)] by (auto simp: is_contrast_pod_def s3_def)
  have conf: "(if \<not> needs_service_mesh m
        then (secured m j)\<lparr>c_env := c_env (secured m j) @ [new_env_var ''CONTRAST_SERVICE_MESH_DISABLED'' ''true'']\<rparr>
        else secured m j) = configured m j"
    by (simp add: configured_def)
  have named': "c_name (configured m j) = c_name i" "c_name i \<noteq> None" using cj(1) i(1) named by simp_all
  then have "without_named (configured m j) cs = without_named i cs" for cs by (simp add: without_named_def)
  then have "s3\<lparr>containers := map (add_or_replace_volume_mount ro) (containers s3),
       init_containers := configured m j # map (add_or_replace_volume_mount ro) (without_named (configured m j) (init_containers s3))\<rparr>
      = s3\<lparr>init_containers := configured m j # rest\<rparr>"
    using named'(2)
    by (simp add: s3_def rest_def without_named_self without_named_map o_def add_or_replace_idem ro_def f(4))
  moreover have "\<not> (case m of None \<Rightarrow> False | Some om \<Rightarrow> annotation om skip_initializer_annotation = ''true'')"
    using run(1) by (simp add: skips_initializer_def)
  ultimately have "initializer_pod r' j m (Some s3) = Inr (Some (s3\<lparr>init_containers := configured m j # rest\<rparr>), configured m j)"
    unfolding initializer_pod_def
    using cp by (simp only: if_False not_True_eq_False option.case sp sum.case prod.case Let_def conf)
      (simp add: cj(2) f(4) ev ro_def [symmetric])
  then show ?thesis using so by (intro exI [of _ s3] exI [of _ rest]) (simp add: s3_def)
qed

lemma add_initializer_again:
  assumes "add_initializer r i0 = Inr (r', i)" and "pod_of r = Some (m, Some s)" and "is_contrast_pod (Some s)"
    and "\<not> skips_initializer m" and "c_name i0 \<noteq> None" "c_mounts i0 \<noteq> []" "device_apart m i0"
    and j: "c_name j = c_name i0" "c_mounts j \<noteq> []" "List.hd (c_mounts j) = List.hd (c_mounts i0)"
  shows "\<exists>s' rest r''. pod_of r' = Some (m, Some s') \<and> init_containers s' = i # rest
    \<and> add_initializer r' j = Inr (r'', configured m j)
    \<and> pod_of r'' = Some (m, Some (s'\<lparr>init_containers := configured m j # rest\<rparr>))"
proof -
  obtain so where ip: "initializer_pod r i0 m (Some s) = Inr (so, i)" and r': "pod_of r' = Some (m, so)"
    using add_initializer_pod [OF assms(1,2)] by blast
  have shape: "\<exists>w'. r' = Workload w' \<and> kind w' = kind w \<and> claim_templates w' = claim_templates w" if "r = Workload w" for w
    using assms(1) that by (auto simp: add_initializer_def split: option.splits sum.splits)
  obtain s' rest where s': "so = Some s'" "init_containers s' = i # rest"
    "initializer_pod r' j m so = Inr (Some (s'\<lparr>init_containers := configured m j # rest\<rparr>), configured m j)"
    using initializer_pod_again [OF ip assms(4,3,5-7) shape j] by blast
  then obtain r'' where r'': "add_initializer r' j = Inr (r'', configured m j)"
    using r' map_with_errors_error [of r'] by (fastforce simp: add_initializer_def initializer_after_def split: sum.splits)
  then have "pod_of r'' = Some (m, Some (s'\<lparr>init_containers := configured m j # rest\<rparr>))"
    using add_initializer_pod [OF r''] r' s'(1,3) by fastforce
  with r' s' r'' show ?thesis by blast
qed

lemma add_initializer_idem:
  assumes "add_initializer r i0 = Inr (r', i)" and "pod_of r = Some (m, Some s)" and "is_contrast_pod (Some s)"
    and "\<not> skips_initializer m" and "c_name i0 \<noteq> None" "c_mounts i0 \<noteq> []" "device_apart m i0"
  shows "add_initializer r' i0 = Inr (r', i)"
proof -
  obtain s' rest r'' where a: "pod_of r' = Some (m, Some s')" "init_containers s' = i # rest"
    "add_initializer r' i0 = Inr (r'', configured m i0)"
    "pod_of r'' = Some (m, Some (s'\<lparr>init_containers := configured m i0 # rest\<rparr>))"
    using add_initializer_again [OF assms refl assms(6) refl] by blast
  have i: "i = configured m i0"
    using add_initializer_ok [OF assms(1-4), of "List.hd (c_mounts i0)" "tl (c_mounts i0)"] assms(6) by simp
  then have "s'\<lparr>init_containers := configured m i0 # rest\<rparr> = s'" using a(2) by simp
  then have "initializer_pod r' i0 m (Some s') = Inr (Some s', i)"
    using add_initializer_pod [OF a(3,1)] a(4) i by auto
  then show ?thesis using map_with_errors_fixed [OF a(1)] a(1)
    by (simp add: add_initializer_def initializer_after_def)
qed

text \<open>The same object once more: its environment only grows, and the pod gets the doubled initializer.\<close>

lemma add_initializer_twice:
  assumes "add_initializer r i0 = Inr (r', i)" and "pod_of r = Some (m, Some s)" and "is_contrast_pod (Some s)"
    and "\<not> skips_initializer m" and "c_name i0 \<noteq> None" "c_mounts i0 \<noteq> []" "device_apart m i0"
  shows "\<exists>s' rest r''. pod_of r' = Some (m, Some s') \<and> init_containers s' = i # rest
    \<and> add_initializer r' i = Inr (r'', configured m i)
    \<and> pod_of r'' = Some (m, Some (s'\<lparr>init_containers := configured m i # rest\<rparr>))"
proof -
  have i: "i = configured m i0"
    using add_initializer_ok [OF assms(1-4), of "List.hd (c_mounts i0)" "tl (c_mounts i0)"] assms(6) by simp
  show ?thesis
    by (rule add_initializer_again [OF assms]) (use secured_keeps(2) [OF assms(6), of m] secured_keeps(1) [of m i0] in \<open>simp_all add: i configured_keeps\<close>)
qed

end
