(* ===== verification/Generate.thy ===== *)
theory Generate
  imports MutatorsFacts ReportValidators Base64 "HOL-Library.Signed_Division"
begin

text \<open>
  What \<open>contrast generate\<close> does to one workload before its policy is generated, \<open>patchTargets\<close> of
  \<open>cli/cmd/generate.go\<close>: the injected containers, images and runtime class, and the SNP ID blocks,
  computed for the number of virtual CPUs of the pod from the reference values of the manifest.
\<close>

section \<open>Workloads\<close>

definition is_contrast_workload :: "resource \<Rightarrow> bool" where
  "is_contrast_workload r = (case pod_of r of None \<Rightarrow> False | Some (m, s) \<Rightarrow> is_contrast_pod s)"

definition is_coordinator :: "resource \<Rightarrow> bool" where
  "is_coordinator r = (case r of OtherResource \<Rightarrow> False | Workload w \<Rightarrow>
     kind w = StatefulSet \<and> (case template w of None \<Rightarrow> False | Some t \<Rightarrow>
       (case t_meta t of None \<Rightarrow> False | Some m \<Rightarrow> label m contrast_role_label = role_coordinator)))"

definition inject_initializer :: "resource \<Rightarrow> string \<Rightarrow> string \<Rightarrow> memory_profile \<Rightarrow> resource result" where
  "inject_initializer r namespace url p =
     (if is_coordinator r then Inr r else
      let host = ''coordinator-ready.'' @ (if namespace = '''' then ''default'' else namespace);
          i = new_initializer host p;
          i' = (if url \<noteq> '''' then i\<lparr>c_env := c_env i @ [new_env_var ''CONTRAST_COLLATERAL_PROXY'' url]\<rparr> else i)
      in map_sum (\<lambda>e. e) fst (add_initializer r i'))"

definition inject_service_mesh :: "(string \<Rightarrow> int result) \<Rightarrow> resource \<Rightarrow> memory_profile \<Rightarrow> resource result" where
  "inject_service_mesh atoi r p =
     (if is_coordinator r then Inr r else add_service_mesh atoi r (service_mesh_proxy p))"

text \<open>The handlers are the runtime handler names compiled into the binary.\<close>

definition patch_runtime_class_name :: "string list result \<Rightarrow> string \<Rightarrow> pod_spec option \<Rightarrow> pod_spec option result" where
  "patch_runtime_class_name handlers default_handler so = (case so of None \<Rightarrow> Inr so | Some s \<Rightarrow>
     (case runtime_class_name s of None \<Rightarrow> Inr so | Some n \<Rightarrow>
       (if n = ''kata-cc-isolation'' \<or> n = ''contrast-cc'' then
          (if pod_spec_requires_gpu so then
             (case from_runtime_class_string default_handler of
                Inl e \<Rightarrow> Inl (Wrap (''could not determine platform for runtime class '' @ quoted default_handler) e)
              | Inr p \<Rightarrow> (case runtime_handler handlers (with_gpu p) of
                  Inl e \<Rightarrow> Inl (Wrap ''could not get runtime handler for GPU variant'' e)
                | Inr h \<Rightarrow> Inr (Some (s\<lparr>runtime_class_name := Some h\<rparr>))))
           else Inr (Some (s\<lparr>runtime_class_name := Some default_handler\<rparr>)))
        else if \<not> has_prefix ''contrast-cc-'' n then Inr so
        else (case from_runtime_class_string n of
            Inl e \<Rightarrow> Inl (Wrap (''could not determine platform for runtime class '' @ quoted n) e)
          | Inr p \<Rightarrow> (case runtime_handler handlers p of
              Inl e \<Rightarrow> Inl (Wrap ''could not get runtime handler for platform'' e)
            | Inr h \<Rightarrow> Inr (Some (s\<lparr>runtime_class_name := Some h\<rparr>)))))))"

section \<open>Virtual CPUs\<close>

text \<open>
  The number of virtual CPUs of a pod is computed twice, by \<open>patchIDBlockAnnotation\<close> and by
  \<open>GetPodCPUCount\<close>, from the CPU limits in thousandths; division truncates towards zero.
\<close>

definition cpu_of :: "container \<Rightarrow> int" where
  "cpu_of c = get_cpu_count (c_resources c)"

definition regular_cpus :: "pod_spec \<Rightarrow> int" where
  "regular_cpus s = sum_list (map cpu_of (containers s)) + sum_list (map cpu_of (filter is_sidecar (init_containers s)))"

definition id_block_cpu_count :: "pod_spec \<Rightarrow> int" where
  "id_block_cpu_count s =
     (max (max (regular_cpus s) (sum_list (map cpu_of (init_containers s)))) (get_cpu_count (pod_resources s)) + 999) sdiv 1000 + 1"

definition max_init_cpu :: "container list \<Rightarrow> int" where
  "max_init_cpu cs = foldl (\<lambda>m c. if is_sidecar c then m else if cpu_of c > m then cpu_of c else m) 0 cs"

definition get_pod_cpu_count :: "pod_spec \<Rightarrow> int" where
  "get_pod_cpu_count s =
     (max (regular_cpus s) (max_init_cpu (init_containers s)) + get_cpu_count (pod_resources s) + 999) sdiv 1000 + 1"

section \<open>ID blocks\<close>

definition snp_values_for_product :: "snp_reference_values list \<Rightarrow> platform \<Rightarrow> string \<Rightarrow> snp_reference_values option" where
  "snp_values_for_product rs p product = find (\<lambda>r. snp_platform r = platform_string p \<and> product_name r = product) rs"

definition snp_guest_policy_for_product :: "snp_reference_values list \<Rightarrow> platform \<Rightarrow> string \<Rightarrow> snp_guest_policy option" where
  "snp_guest_policy_for_product rs p product = map_option guest_policy (snp_values_for_product rs p product)"

definition snp_seed_and_apeip_for_product ::
  "snp_reference_values list \<Rightarrow> platform \<Rightarrow> string \<Rightarrow> (hexstring \<times> hexstring) option" where
  "snp_seed_and_apeip_for_product rs p product =
     map_option (\<lambda>r. (trusted_measurement r, apeip r)) (snp_values_for_product rs p product)"

text \<open>
  The count goes through its decimal text and back, which fails exactly for negative numbers. Slices
  that are too short for an array or a 32-bit number panic.
\<close>

definition compute_and_annotate_id_blocks ::
  "('prod, 'root, 'crl, 'pt, 'key) snplib \<Rightarrow> platform \<Rightarrow> int \<Rightarrow> string \<Rightarrow> manifest
   \<Rightarrow> (string \<Rightarrow> string option) \<Rightarrow> (string \<Rightarrow> string option) result" where
  "compute_and_annotate_id_blocks L p cpus product m ann =
     (if cpus < 0 then Inl (Wrap ''parse CPU count'' (Msg ''invalid syntax'')) else
      case snp_guest_policy_for_product (snp (refvals m)) p product of
        None \<Rightarrow> Inl (Msg ''no SNP reference values with product found in manifest'')
      | Some pol \<Rightarrow>
     (case snp_seed_and_apeip_for_product (snp (refvals m)) p product of
        None \<Rightarrow> Inl (Msg ''no SNP reference values with APEIP'')
      | Some (sd, eip) \<Rightarrow>
      if eip = '''' then Inl (Msg ''no SNP reference values with APEIP'') else
     (case hex_bytes sd of Inl e \<Rightarrow> Inl (Wrap ''decode TrustedMeasurement'' e)
      | Inr seed_raw \<Rightarrow>
     (case hex_bytes eip of Inl e \<Rightarrow> Inl (Wrap ''decode APEIP'' e)
      | Inr eip_raw \<Rightarrow>
     (case cpu_sig_for_product product of Inl e \<Rightarrow> Inl (Wrap ''lookup CPU signature'' e)
      | Inr sig \<Rightarrow>
      if length seed_raw < 48 \<or> length eip_raw < 4 then Inl (Panic ''slice too short'') else
     (case extend_snp_launch_digest (sha384_fun L) (take 48 seed_raw) cpus
             (of_nat (le_value (rev (take 4 eip_raw)))) sig of
        Inl e \<Rightarrow> Inl (Wrap ''derive launch digest'' e)
      | Inr ld \<Rightarrow>
     (case id_blocks_from_launch_digest (p384_lib L) (sha384_fun L) (policy_to_bytes L) ld pol of
        Inl e \<Rightarrow> Inl (Wrap ''compute ID blocks'' e)
      | Inr (blk, auth) \<Rightarrow>
          Inr (ann(id_block_annotation @ product \<mapsto> base64_encode (marshal_id_block blk),
                   id_auth_annotation @ product \<mapsto> base64_encode (marshal_id_authentication auth),
                   guest_policy_annotation @ product \<mapsto> dec_string (unat (policy_to_bytes L pol)))))))))))"

text \<open>Both products are tried; it is enough that one of them is in the manifest.\<close>

fun annotate_products ::
  "('prod, 'root, 'crl, 'pt, 'key) snplib \<Rightarrow> platform \<Rightarrow> int \<Rightarrow> manifest \<Rightarrow> string list
   \<Rightarrow> (string \<Rightarrow> string option) \<Rightarrow> goerr list \<Rightarrow> bool \<Rightarrow> (goerr list \<times> bool) \<times> (string \<Rightarrow> string option)" where
  "annotate_products L p cpus m [] ann errs found = ((errs, found), ann)"
| "annotate_products L p cpus m (q # qs) ann errs found = (case compute_and_annotate_id_blocks L p cpus q m ann of
     Inl e \<Rightarrow> annotate_products L p cpus m qs ann (errs @ [e]) found
   | Inr ann' \<Rightarrow> annotate_products L p cpus m qs ann' errs True)"

definition id_block_mapper :: "('prod, 'root, 'crl, 'pt, 'key) snplib \<Rightarrow> manifest \<Rightarrow> pod_mapper" where
  "id_block_mapper L m mo so = (case so of None \<Rightarrow> Inr (mo, so) | Some s \<Rightarrow>
     (case runtime_class_name s of None \<Rightarrow> Inr (mo, so) | Some n \<Rightarrow>
     (case from_runtime_class_string n of
        Inl e \<Rightarrow> Inl (Wrap (''could not determine platform for runtime class '' @ quoted n) e)
      | Inr p \<Rightarrow>
       (if \<not> is_snp p then Inr (mo, so) else
        let meta = (case mo of None \<Rightarrow> empty_meta | Some om \<Rightarrow> om) in
        case annotate_products L p (id_block_cpu_count s) m [''Genoa'', ''Milan''] (annotations meta) [] False of
          ((errs, found), ann) \<Rightarrow>
            (if \<not> found then Inl (Wrap ''could not compute ID block for any product'' (Joined errs))
             else Inr (Some (meta\<lparr>annotations := ann\<rparr>), so))))))"

definition patch_id_block_annotation ::
  "('prod, 'root, 'crl, 'pt, 'key) snplib \<Rightarrow> manifest \<Rightarrow> resource \<Rightarrow> resource result" where
  "patch_id_block_annotation L m r = map_pod_spec_with_meta_and_errors r (id_block_mapper L m)"

section \<open>One target\<close>

record generate_flags =
  collateral_proxy_url :: string
  insecure_enable_debug_shell :: bool
  skip_initializer :: bool
  skip_service_mesh :: bool
  inject_image_store :: bool
  calculate_pod_memory :: bool

definition patch_target ::
  "('prod, 'root, 'crl, 'pt, 'key) snplib \<Rightarrow> string list result \<Rightarrow> (string \<Rightarrow> int result) \<Rightarrow> (string \<Rightarrow> bool)
   \<Rightarrow> (string \<Rightarrow> string option) \<Rightarrow> string \<Rightarrow> string \<Rightarrow> generate_flags \<Rightarrow> manifest \<Rightarrow> resource \<Rightarrow> resource result" where
  "patch_target L handlers atoi size_ok reps default_handler namespace f m r0 =
     (let r1 = (if collateral_proxy_url f \<noteq> '''' \<and> is_coordinator r0
                then set_collateral_proxy_env (collateral_proxy_url f) r0 else r0);
          prof = memory_profile_of (calculate_pod_memory f);
          r2 = (if insecure_enable_debug_shell f then add_debug_shell r1 (debug_shell prof) else r1) in
      case (if skip_initializer f then Inr r2 else inject_initializer r2 namespace (collateral_proxy_url f) prof) of
        Inl e \<Rightarrow> Inl (Wrap ''injecting Initializer'' e)
      | Inr r3 \<Rightarrow>
     (case (if skip_service_mesh f then Inr r3 else inject_service_mesh atoi r3 prof) of
        Inl e \<Rightarrow> Inl (Wrap ''injecting Service Mesh'' e)
      | Inr r4 \<Rightarrow>
     (case (if inject_image_store f then add_image_store size_ok r4 else Inr r4) of
        Inl e \<Rightarrow> Inl e
      | Inr r5 \<Rightarrow>
     (case map_pod_spec_with_errors (patch_images reps r5) (patch_runtime_class_name handlers default_handler) of
        Inl e \<Rightarrow> Inl e
      | Inr r6 \<Rightarrow>
     (case patch_id_block_annotation L m r6 of
        Inl e \<Rightarrow> Inl (Wrap ''injecting ID block annotations'' e)
      | Inr r7 \<Rightarrow> Inr r7)))))"

end
