(* ===== verification/GenerateFacts.thy ===== *)
theory GenerateFacts
  imports Generate ManifestValidatorFacts
begin

text \<open>
  The ID blocks that are put on a workload are those the Coordinator's validator looks for: for up
  to 220 virtual CPUs the measurement is found, and the trusted key is the one of the annotated
  authentication block. And: when the two counts of virtual CPUs agree.
\<close>

section \<open>ID blocks and the validator\<close>

definition sees_annotations ::
  "(string \<Rightarrow> string option) \<Rightarrow> string \<Rightarrow> id_block \<Rightarrow> id_authentication \<Rightarrow> 64 word \<Rightarrow> bool" where
  "sees_annotations ann product blk auth pol \<longleftrightarrow>
     ann (id_block_annotation @ product) = Some (base64_encode (marshal_id_block blk))
     \<and> ann (id_auth_annotation @ product) = Some (base64_encode (marshal_id_authentication auth))
     \<and> ann (guest_policy_annotation @ product) = Some (dec_string (unat pol))"

lemma annotation_keys_apart:
  "id_block_annotation \<noteq> id_auth_annotation" "id_block_annotation \<noteq> guest_policy_annotation"
  "id_auth_annotation \<noteq> guest_policy_annotation"
  by (simp_all add: id_block_annotation_def id_auth_annotation_def guest_policy_annotation_def kata_annotation_prefix_def)

lemma snp_values_for_product_ok:
  "snp_values_for_product rs p product = Some r \<Longrightarrow>
     r \<in> set rs \<and> snp_platform r = platform_string p \<and> product_name r = product"
  by (auto simp: snp_values_for_product_def find_Some_iff)

lemma compute_id_blocks_ok:
  assumes "compute_and_annotate_id_blocks L p cpus product m ann = Inr ann'"
  shows "\<exists>r sd eip sig ld blk auth. snp_values_for_product (snp (refvals m)) p product = Some r
    \<and> apeip r \<noteq> '''' \<and> hex_bytes (trusted_measurement r) = Inr sd \<and> hex_bytes (apeip r) = Inr eip
    \<and> cpu_sig_for_product product = Inr sig \<and> 48 \<le> length sd \<and> 4 \<le> length eip
    \<and> extend_snp_launch_digest (sha384_fun L) (take 48 sd) cpus (of_nat (le_value (rev (take 4 eip)))) sig = Inr ld
    \<and> id_blocks_from_launch_digest (p384_lib L) (sha384_fun L) (policy_to_bytes L) ld (guest_policy r) = Inr (blk, auth)
    \<and> sees_annotations ann' product blk auth (policy_to_bytes L (guest_policy r))"
  using assms
  by (auto simp: compute_and_annotate_id_blocks_def snp_guest_policy_for_product_def snp_seed_and_apeip_for_product_def
      sees_annotations_def annotation_keys_apart annotation_keys_apart [symmetric] not_less
      split: if_splits option.splits sum.splits prod.splits)

text \<open>The search of the validator finds the digest of every guest with up to 220 virtual CPUs.\<close>

lemma extension_is_found:
  assumes "extend_snp_launch_digest H sd (int n) ap sig = Inr ld" and "1 \<le> n" and "n \<le> 220"
  shows "\<exists>w \<le> n. search_vcpus H (build_vmsa_save_area ap 1 sig) ld max_vcpus 1 (new_gctx_with_seed sd) = Some (w, ld)"
proof -
  let ?P = "\<lambda>w. 1 \<le> w \<and> extend_snp_launch_digest H sd (int w) ap sig = Inr ld"
  define w where "w = (LEAST w. ?P w)"
  have P: "?P n" using assms by simp
  have w: "?P w" "w \<le> n" unfolding w_def using LeastI [of ?P, OF P] Least_le [of ?P, OF P] by auto
  have "\<forall>u. 1 \<le> u \<and> u < w \<longrightarrow> extend_snp_launch_digest H sd (int u) ap sig \<noteq> Inr ld"
    using not_less_Least [of _ ?P] unfolding w_def by blast
  then have "search_vcpus H (build_vmsa_save_area ap 1 sig) ld max_vcpus 1 (new_gctx_with_seed sd) = Some (w, ld)"
    unfolding search_vcpus_first_extension using w assms(3) by simp
  with w(2) show ?thesis by blast
qed

text \<open>
  A guest that was launched with the annotated blocks, on the platform of the reference value that
  they were computed from, is accepted by the validator of that reference value, as far as its chip is
  allowed and the library finds the report's claims to meet the options that follow from the blocks.
\<close>

lemma annotated_guest_accepted:
  assumes ann: "compute_and_annotate_id_blocks L p (int n) product m ann = Inr ann'"
    and n: "1 \<le> n" "n \<le> 220"
    and r: "snp_values_for_product (snp (refvals m)) p product = Some r" "snp_complete r"
    and opt: "snp_options_for P L r = Inr opt"
  shows "\<exists>blk auth. sees_annotations ann' product blk auth (policy_to_bytes L (guest_policy r))
    \<and> (\<forall>doc rd att rep vo i oi. snp_verified L (sv_verify opt) doc = (Inr (att, rep), vo)
        \<longrightarrow> sr_measurement rep = ib_ld blk
        \<longrightarrow> allowed_chip_ids r = [] \<or> (\<exists>c\<in>set (allowed_chip_ids r). hex_bytes c = Inr (sr_chip_id rep))
        \<longrightarrow> check_claims L att ((sv_validate opt)\<lparr>so_measurement := ib_ld blk,
              so_trusted_id_key_hashes := [sha384_fun L (marshal_public_key (ia_id_key auth))], so_report_data := rd\<rparr>) = None
        \<longrightarrow> validate (snp_validator_for P L i opt) oi doc rd = (None, [snp_report_of (sev_abi L) (snp_asn1 L) rep]))"
proof -
  obtain sd eip sig ld blk auth where c: "apeip r \<noteq> ''''" "hex_bytes (trusted_measurement r) = Inr sd" "hex_bytes (apeip r) = Inr eip"
    "cpu_sig_for_product product = Inr sig" "48 \<le> length sd" "4 \<le> length eip"
    "extend_snp_launch_digest (sha384_fun L) (take 48 sd) (int n) (of_nat (le_value (rev (take 4 eip)))) sig = Inr ld"
    "id_blocks_from_launch_digest (p384_lib L) (sha384_fun L) (policy_to_bytes L) ld (guest_policy r) = Inr (blk, auth)"
    "sees_annotations ann' product blk auth (policy_to_bytes L (guest_policy r))"
    using compute_id_blocks_ok [OF ann] r(1) by auto
  have prod: "product_name r = product" using snp_values_for_product_ok [OF r(1)] by simp
  have "hex_of_size 48 (trusted_measurement r)" "hex_of_size 4 (apeip r)" using r(2) c(1) by (auto simp: snp_complete_def)
  then have len: "length sd = 48" "length eip = 4" using c(2,3) by (auto simp: hex_of_size_def hex_bytes_def dest: hex_decode_length)
  note mt = snp_options_ok [OF opt]
  have o': "sv_apeip opt = eip" "so_measurement (sv_validate opt) = sd" "sv_vcpu_sig opt = sig"
    "so_guest_policy (sv_validate opt) = guest_policy r"
    using mt c(1-4) prod by (auto simp: snp_options_match_def)
  have chips: "chip_id_allowed (sv_allowed_chip_ids opt) rep = None"
    if "allowed_chip_ids r = [] \<or> (\<exists>c\<in>set (allowed_chip_ids r). hex_bytes c = Inr (sr_chip_id rep))" for rep
    using that mt hex_list_set hex_list_Nil by (auto simp: snp_options_match_def chip_id_allowed_def)
  have ld: "ib_ld blk = ld" using c(8) by (auto simp: id_blocks_from_launch_digest_def Let_def id_block_of_def split: sum.splits list.splits)
  have key: "id_key_hash L ld (guest_policy r) = Inr (sha384_fun L (marshal_public_key (ia_id_key auth)))"
    using c(8) by (simp add: id_key_hash_def)
  obtain w where w: "search_vcpus (sha384_fun L) (build_vmsa_save_area (of_nat (le_value (rev eip))) 1 sig) ld max_vcpus 1
      (new_gctx_with_seed sd) = Some (w, ld)" using extension_is_found [OF c(7) n] len by auto
  have "validate (snp_validator_for P L i opt) oi doc rd = (None, [snp_report_of (sev_abi L) (snp_asn1 L) rep])"
    if "snp_verified L (sv_verify opt) doc = (Inr (att, rep), vo)" "sr_measurement rep = ib_ld blk"
      "allowed_chip_ids r = [] \<or> (\<exists>c\<in>set (allowed_chip_ids r). hex_bytes c = Inr (sr_chip_id rep))"
      "check_claims L att ((sv_validate opt)\<lparr>so_measurement := ib_ld blk,
         so_trusted_id_key_hashes := [sha384_fun L (marshal_public_key (ia_id_key auth))], so_report_data := rd\<rparr>) = None"
    for doc rd att rep vo i oi
    using that(1,2,4) w key chips [OF that(3)]
    by (simp add: snp_validator_for_def with_fixed_oid_def Let_def o' len iterative_validator_step_def ld)
  with c(9) show ?thesis by blast
qed

text \<open>The computation succeeds for every complete reference value with a reset address.\<close>

lemma extension_total:
  assumes "1 \<le> n" and "n \<le> 65535" and "length sd = 48" and "\<And>b. length (H b) = 48"
  shows "\<exists>ld. extend_snp_launch_digest H sd (int n) ap sig = Inr ld \<and> length ld = 48"
proof -
  have "length ((update_vmsa_page H pages ^^ k) sd) = 48" for pages k
    using assms(3,4) by (cases k) (simp_all add: update_vmsa_page_def gctx_update_def Let_def)
  then show ?thesis using assms(1-3)
    by (auto simp: extend_snp_launch_digest_def gctx_launch_digest_def new_gctx_with_seed_def Let_def)
qed

lemma compute_id_blocks_total:
  assumes lib: "opts_library_ok P L" "\<And>b. length (sha384_fun L b) = 48"
    and r: "snp_values_for_product (snp (refvals m)) p product = Some r" "snp_complete r" "apeip r \<noteq> ''''"
    and n: "1 \<le> n" "n \<le> 65535"
  shows "\<exists>ann'. compute_and_annotate_id_blocks L p (int n) product m ann = Inr ann'"
proof -
  have "product = milan \<or> product = genoa" using r(2) snp_values_for_product_ok [OF r(1)] by (auto simp: snp_complete_def)
  then obtain sig where sig: "cpu_sig_for_product product = Inr sig" using cpu_sig_for_product_ok by blast
  obtain sd eip where b: "hex_bytes (trusted_measurement r) = Inr sd" "length sd = 48" "hex_bytes (apeip r) = Inr eip" "length eip = 4"
    using r(2,3) by (auto simp: snp_complete_def hex_of_size_bytes)
  obtain ld where ld: "extend_snp_launch_digest (sha384_fun L) sd (int n) (of_nat (le_value (rev eip))) sig = Inr ld" "length ld = 48"
    using extension_total [where H = "sha384_fun L", OF n b(2) lib(2)] by blast
  obtain h where "id_key_hash L ld (guest_policy r) = Inr h" using lib(1) ld(2) by (auto simp: opts_library_ok_def)
  then obtain blk auth where "id_blocks_from_launch_digest (p384_lib L) (sha384_fun L) (policy_to_bytes L) ld (guest_policy r)
      = Inr (blk, auth)" by (auto simp: id_key_hash_def split: sum.splits)
  then show ?thesis using r b sig ld n
    by (simp add: compute_and_annotate_id_blocks_def snp_guest_policy_for_product_def snp_seed_and_apeip_for_product_def)
qed

text \<open>What one product's computation leaves of another's annotations.\<close>

lemma compute_id_blocks_keeps:
  assumes "compute_and_annotate_id_blocks L p cpus ''Milan'' m ann = Inr ann'"
    and "sees_annotations ann ''Genoa'' blk auth pol"
  shows "sees_annotations ann' ''Genoa'' blk auth pol"
proof -
  have k: "id_block_annotation @ ''Genoa'' \<noteq> k @ ''Milan''" "id_auth_annotation @ ''Genoa'' \<noteq> k @ ''Milan''"
    "guest_policy_annotation @ ''Genoa'' \<noteq> k @ ''Milan''" for k by simp_all
  have "ann' (k @ ''Genoa'') = ann (k @ ''Genoa'')" for k
    using assms(1) by (auto simp: compute_and_annotate_id_blocks_def split: if_splits option.splits sum.splits prod.splits)
  then show ?thesis using assms(2) by (simp add: sees_annotations_def)
qed

section \<open>Counting virtual CPUs\<close>

text \<open>
  Both counts agree when only the containers ask for CPUs. Otherwise they may not: the ID block is
  made for the sum of all init containers, the check looks at the largest one, and adds what the pod
  asks for where the ID block takes the maximum.
\<close>

lemma cpu_counts_agree:
  assumes "\<forall>c\<in>set (init_containers s). cpu_of c = 0" and "get_cpu_count (pod_resources s) = 0"
  shows "id_block_cpu_count s = get_pod_cpu_count s"
proof -
  have "sum_list (map cpu_of cs) = 0 \<and> foldl (\<lambda>m c. if is_sidecar c then m else if cpu_of c > m then cpu_of c else m) 0 cs = 0"
    if "\<forall>c\<in>set cs. cpu_of c = 0" for cs using that by (induction cs) auto
  then show ?thesis using assms by (simp add: id_block_cpu_count_def get_pod_cpu_count_def max_init_cpu_def)
qed

definition cpu_container :: "int \<Rightarrow> container" where
  "cpu_container q = new_container\<lparr>c_resources := Some \<lparr>limits = [(''cpu'', q)], requests = []\<rparr>\<rparr>"

definition two_init_pod :: pod_spec where
  "two_init_pod = \<lparr>runtime_class_name = None, init_containers = [cpu_container 1000, cpu_container 1000],
     containers = [cpu_container 500], volumes = [], pod_resources = None\<rparr>"

lemma cpu_counts_differ: "id_block_cpu_count two_init_pod = 3 \<and> get_pod_cpu_count two_init_pod = 2"
  by code_simp

end
