(* ===== verification/Policies.thy ===== *)
theory Policies
  imports Generate Initdata "HOL-Library.Char_ord"
begin

text \<open>
  From deployments to a manifest: \<open>cli/cmd/policies.go\<close>, and the part of \<open>runGenerate\<close> in
  \<open>cli/cmd/generate.go\<close> that makes the manifest. The policy of a workload is the initdata document
  in its annotation; the manifest has the digest of each with the names it may use.
\<close>

section \<open>Targets\<close>

text \<open>
  The objects of the resource files, in the order in which they are visited. A name, namespace,
  group, version and kind are read from the object itself; \<open>tg_resource\<close> is the typed resource, or
  the error of the conversion, which makes the object be left out.
\<close>

record target =
  tg_name :: string
  tg_namespace :: string
  tg_group :: string
  tg_version :: string
  tg_kind :: string
  tg_resource :: "resource result"

text \<open>
  The loop stops at the first error; a changed resource replaces the old one. Converting it back to
  an object is left out.
\<close>

fun map_contrast_workloads :: "(target \<Rightarrow> resource \<Rightarrow> resource result) \<Rightarrow> target list \<Rightarrow> target list result" where
  "map_contrast_workloads f [] = Inr []"
| "map_contrast_workloads f (t # ts) =
     (case (case tg_resource t of Inl e \<Rightarrow> Inr t
            | Inr r \<Rightarrow> if \<not> is_contrast_workload r then Inr t
                       else (case f t r of Inl e \<Rightarrow> Inl e | Inr r' \<Rightarrow> Inr (t\<lparr>tg_resource := Inr r'\<rparr>))) of
        Inl e \<Rightarrow> Inl e
      | Inr t' \<Rightarrow> (case map_contrast_workloads f ts of Inl e \<Rightarrow> Inl e | Inr ts' \<Rightarrow> Inr (t' # ts')))"

section \<open>Editing the documents\<close>

fun run_manipulators :: "(initdata \<Rightarrow> initdata result) list \<Rightarrow> initdata \<Rightarrow> initdata result" where
  "run_manipulators [] i = Inr i"
| "run_manipulators (f # fs) i = (case f i of Inl e \<Rightarrow> Inl e | Inr i' \<Rightarrow> run_manipulators fs i')"

definition manipulated_annotation :: "initlib \<Rightarrow> (initdata \<Rightarrow> initdata result) list \<Rightarrow> string \<Rightarrow> string result" where
  "manipulated_annotation L fs a =
     (if a = '''' then Inl (Msg ''missing initdata annotation'') else
      case decode_kata_annotation L a of Inl e \<Rightarrow> Inl (Wrap ''decoding initdata annotation'' e)
      | Inr raw \<Rightarrow>
     (case initdata_parse L raw of Inl e \<Rightarrow> Inl (Wrap ''parsing initdata'' e)
      | Inr i \<Rightarrow>
     (case run_manipulators fs i of Inl e \<Rightarrow> Inl (Wrap ''manipulating initdata'' e)
      | Inr i' \<Rightarrow>
     (case initdata_encode L i' of Inl e \<Rightarrow> Inl (Wrap ''serializing initdata'' e)
      | Inr raw' \<Rightarrow>
     (case encode_kata_annotation L raw' of Inl e \<Rightarrow> Inl (Wrap ''encoding initdata annotation'' e)
      | Inr a' \<Rightarrow> Inr a')))))"

definition manipulate_initdata ::
  "initlib \<Rightarrow> (initdata \<Rightarrow> initdata result) list \<Rightarrow> target list \<Rightarrow> target list result" where
  "manipulate_initdata L fs ts = map_contrast_workloads (\<lambda>t r. map_pod_spec_with_meta_and_errors r (\<lambda>m s.
     case m of None \<Rightarrow> Inr (m, s) | Some om \<Rightarrow>
       (case manipulated_annotation L fs (annotation om initdata_annotation) of
          Inl e \<Rightarrow> Inl e
        | Inr a \<Rightarrow> Inr (Some (om\<lparr>annotations := (annotations om)(initdata_annotation \<mapsto> a)\<rparr>), s)))) ts"

text \<open>The one manipulation there is: the debug shell needs a debug configuration of the agent.\<close>

definition set_entry :: "string \<Rightarrow> string \<Rightarrow> (string \<times> string) list \<Rightarrow> (string \<times> string) list" where
  "set_entry k v es = filter (\<lambda>(k', v'). k' \<noteq> k) es @ [(k, v)]"

definition debug_manipulator :: "initdata \<Rightarrow> initdata result" where
  "debug_manipulator i = Inr (i\<lparr>init_data := set_entry ''agent.toml''
       (''log_level = '' @ quoted ''debug'' @ [CHR 0x0A] @ ''debug_console = true'' @ [CHR 0x0A] @ ''debug_console_vport = 1026'')
     (set_entry ''contrast.insecure-debug'' ''true'' (init_data i))\<rparr>)"

section \<open>Deployments\<close>

record deployment =
  dp_name :: string
  dp_initdata :: bytes
  dp_role :: string
  dp_workload_secret_id :: string

definition deployment_dns_names :: "deployment \<Rightarrow> string list" where
  "deployment_dns_names d = [dp_name d, ''*'']"

definition or_default :: "string \<Rightarrow> string \<Rightarrow> string" where
  "or_default s d = (if s = '''' then d else s)"

definition deployment_of :: "initlib \<Rightarrow> target \<Rightarrow> object_meta option \<Rightarrow> deployment result" where
  "deployment_of L t m =
     (let a = (case m of None \<Rightarrow> '''' | Some om \<Rightarrow> annotation om initdata_annotation);
          rl = (case m of None \<Rightarrow> '''' | Some om \<Rightarrow> label om contrast_role_label);
          sid = (case m of None \<Rightarrow> '''' | Some om \<Rightarrow> annotation om workload_secret_id_annotation);
          sid' = (if sid = '''' then join_with ''/'' [or_default (tg_group t) ''core'', tg_version t, tg_kind t,
                    or_default (tg_namespace t) ''default'', tg_name t] else sid) in
      if a = '''' then Inl (Msg ''missing initdata annotation'')
      else if tg_name t = '''' then Inl (Msg ''name is required but empty'')
      else (case decode_kata_annotation L a of
          Inl e \<Rightarrow> Inl (Wrap ''failed to parse initdata'' e)
        | Inr raw \<Rightarrow> (case validate_role rl of
            Some e \<Rightarrow> Inl (Wrap ''invalid role'' e)
          | None \<Rightarrow> Inr \<lparr>dp_name = tg_name t, dp_initdata = raw, dp_role = rl, dp_workload_secret_id = sid'\<rparr>)))"

fun policies_from_kube_resources :: "initlib \<Rightarrow> target list \<Rightarrow> deployment list result" where
  "policies_from_kube_resources L [] = Inr []"
| "policies_from_kube_resources L (t # ts) =
     (case (case tg_resource t of Inl e \<Rightarrow> Inr []
            | Inr r \<Rightarrow> if \<not> is_contrast_workload r then Inr []
                       else (case pod_of r of None \<Rightarrow> Inr []
                         | Some (m, s) \<Rightarrow> (case deployment_of L t m of Inl e \<Rightarrow> Inl e | Inr d \<Rightarrow> Inr [d]))) of
        Inl e \<Rightarrow> Inl e
      | Inr ds \<Rightarrow> (case policies_from_kube_resources L ts of Inl e \<Rightarrow> Inl e | Inr ds' \<Rightarrow> Inr (ds @ ds')))"

section \<open>The policies of the manifest\<close>

definition entry_of :: "deployment \<Rightarrow> policy_entry" where
  "entry_of d = \<lparr>sans = deployment_dns_names d, workload_secret_id = dp_workload_secret_id d, role = dp_role d\<rparr>"

text \<open>The map under construction is an association list with distinct keys.\<close>

fun policy_map_loop :: "initlib \<Rightarrow> deployment list \<Rightarrow> (hexstring \<times> policy_entry) list
  \<Rightarrow> (hexstring \<times> policy_entry) list result" where
  "policy_map_loop L [] acc = Inr acc"
| "policy_map_loop L (d # ds) acc = (case initdata_digest L (dp_initdata d) of
     Inl e \<Rightarrow> Inl (Wrap ''digesting initdata'' e)
   | Inr h \<Rightarrow> (case map_of acc (new_hex_string h) of
       Some entry \<Rightarrow>
         (if sans entry = deployment_dns_names d then Inl (Msg ''policy hash collision'') else policy_map_loop L ds acc)
     | None \<Rightarrow> policy_map_loop L ds (acc @ [(new_hex_string h, entry_of d)])))"

definition manifest_policy_map_from_policies ::
  "initlib \<Rightarrow> deployment list \<Rightarrow> (hexstring \<times> policy_entry) list result" where
  "manifest_policy_map_from_policies L ds = policy_map_loop L ds []"

fun check_deployments :: "initlib \<Rightarrow> (hexstring \<times> policy_entry) list \<Rightarrow> deployment list \<Rightarrow> goerr option" where
  "check_deployments L ps [] = None"
| "check_deployments L ps (d # ds) = (case initdata_digest L (dp_initdata d) of
     Inl e \<Rightarrow> Some (Wrap ''digesting initdata'' e)
   | Inr h \<Rightarrow> (case map_of ps (new_hex_string h) of
       None \<Rightarrow> Some (Msg ''policy not found in manifest'')
     | Some entry \<Rightarrow> check_deployments L ps ds))"

definition check_policies_match_manifest ::
  "initlib \<Rightarrow> deployment list \<Rightarrow> (hexstring \<times> policy_entry) list \<Rightarrow> goerr option" where
  "check_policies_match_manifest L ds ps =
     (if length ds \<noteq> length ps then Some (Msg ''policy count mismatch'') else check_deployments L ps ds)"

section \<open>The manifest\<close>

text \<open>
  The manifest to start from: the existing one, which must be valid, or a default for the platforms
  in use, patched and purged. \<open>existing\<close> is \<open>None\<close> when there is no file, and otherwise the decoded
  JSON or its error.
\<close>

definition start_manifest ::
  "('ec, 'rsa, 'ecsk, 'rsask) keylib \<Rightarrow> 'p patchlib \<Rightarrow> (string \<times> reference_values) list result \<Rightarrow> platform list
   \<Rightarrow> bytes list option \<Rightarrow> bool \<Rightarrow> manifest result option \<Rightarrow> manifest result" where
  "start_manifest K L emb ps patches purge existing = (case existing of
     None \<Rightarrow> (case default_manifest emb ps of
         Inl e \<Rightarrow> Inl (Wrap ''create default manifest'' e)
       | Inr m \<Rightarrow> (case patches of None \<Rightarrow> Inr m
         | Some raws \<Rightarrow> (case patch_reference_values L raws (refvals m) of
             (Some e, r) \<Rightarrow> Inl (Wrap ''patching reference values'' e)
           | (None, r) \<Rightarrow> Inr (m\<lparr>refvals := (if purge then purge_empty r else r)\<rparr>))))
   | Some (Inl e) \<Rightarrow> Inl (Wrap ''unmarshal existing manifest'' e)
   | Some (Inr m) \<Rightarrow> (case manifest_validate K m of
       Some e \<Rightarrow> Inl (Wrap ''validate existing manifest'' e)
     | None \<Rightarrow> Inr m))"

text \<open>The reset address of the firmware that was built in, in every SNP reference value.\<close>

definition inject_apeip :: "32 word option \<Rightarrow> manifest \<Rightarrow> manifest" where
  "inject_apeip eip m = (case eip of None \<Rightarrow> m | Some a \<Rightarrow>
     m\<lparr>refvals := (refvals m)\<lparr>snp := map (\<lambda>r. r\<lparr>apeip := new_hex_string (rev (le_bytes 4 a))\<rparr>) (snp (refvals m))\<rparr>\<rparr>)"

text \<open>The keys, from the contents of their files or the errors of reading them.\<close>

definition add_workload_owner_key ::
  "('ec, 'rsa, 'ecsk, 'rsask) keylib \<Rightarrow> bytes result \<Rightarrow> manifest \<Rightarrow> manifest result" where
  "add_workload_owner_key K file m = (case file of
     Inl e \<Rightarrow> Inl (Wrap ''reading workload owner key'' e)
   | Inr raw \<Rightarrow> (case extract_workload_owner_public_key K raw of
       Inl e \<Rightarrow> Inl (Wrap ''reading workload owner key'' e)
     | Inr b \<Rightarrow>
         (let h = new_hex_string b in
          if h \<in> set (workload_owner_pub_keys m) then Inr m
          else Inr (m\<lparr>workload_owner_pub_keys := workload_owner_pub_keys m @ [h]\<rparr>))))"

definition add_seedshare_owner_key ::
  "('ec, 'rsa, 'ecsk, 'rsask) keylib \<Rightarrow> bytes result \<Rightarrow> manifest \<Rightarrow> manifest result" where
  "add_seedshare_owner_key K file m = (case file of
     Inl e \<Rightarrow> Inl (Wrap ''reading seedshare owner key'' e)
   | Inr raw \<Rightarrow> (case extract_seedshare_owner_public_key K raw of
       Inl e \<Rightarrow> Inl (Wrap ''extracting seed share public key'' e)
     | Inr h \<Rightarrow>
         (if h \<in> set (seedshare_owner_pub_keys m) then Inr m
          else Inr (m\<lparr>seedshare_owner_pub_keys := seedshare_owner_pub_keys m @ [h]\<rparr>))))"

fun add_keys :: "('f \<Rightarrow> manifest \<Rightarrow> manifest result) \<Rightarrow> 'f list \<Rightarrow> manifest \<Rightarrow> manifest result" where
  "add_keys add [] m = Inr m"
| "add_keys add (f # fs) m = (case add f m of Inl e \<Rightarrow> Inl e | Inr m' \<Rightarrow> add_keys add fs m')"

text \<open>
  Validation comes before the owner keys are added; a manifest that only lacks expected reference
  values is written nevertheless.
\<close>

definition finish_keys ::
  "('ec, 'rsa, 'ecsk, 'rsask) keylib \<Rightarrow> bool \<Rightarrow> bytes result list \<Rightarrow> bytes result list \<Rightarrow> manifest \<Rightarrow> manifest result" where
  "finish_keys K disable_updates owner_files share_files m =
     (case (if disable_updates then Inr (m\<lparr>workload_owner_pub_keys := []\<rparr>)
            else add_keys (add_workload_owner_key K) owner_files m) of
        Inl e \<Rightarrow> Inl (Wrap ''adding workload owner key to manifest'' e)
      | Inr m1 \<Rightarrow> (case add_keys (add_seedshare_owner_key K) share_files
            (m1\<lparr>workload_owner_pub_keys := sort (workload_owner_pub_keys m1)\<rparr>) of
          Inl e \<Rightarrow> Inl (Wrap ''adding seedshare owner key to manifest'' e)
        | Inr m2 \<Rightarrow> Inr (m2\<lparr>seedshare_owner_pub_keys := sort (seedshare_owner_pub_keys m2)\<rparr>)))"

definition finish_manifest ::
  "('ec, 'rsa, 'ecsk, 'rsask) keylib \<Rightarrow> (hexstring \<times> policy_entry) list \<Rightarrow> bool \<Rightarrow> bytes result list \<Rightarrow> bytes result list
   \<Rightarrow> manifest \<Rightarrow> manifest result" where
  "finish_manifest K ps disable_updates owner_files share_files m0 =
     (let m = m0\<lparr>policies := ps\<rparr> in
      case manifest_validate K m of
        Some e \<Rightarrow> (if err_is e err_missing_coordinator \<or> \<not> only_missing (Some e) then Inl e
                   else finish_keys K disable_updates owner_files share_files m)
      | None \<Rightarrow> finish_keys K disable_updates owner_files share_files m)"

definition generate_manifest ::
  "('ec, 'rsa, 'ecsk, 'rsask) keylib \<Rightarrow> 'p patchlib \<Rightarrow> initlib \<Rightarrow> (string \<times> reference_values) list result \<Rightarrow> platform list
   \<Rightarrow> bytes list option \<Rightarrow> bool \<Rightarrow> manifest result option \<Rightarrow> 32 word option \<Rightarrow> target list
   \<Rightarrow> bool \<Rightarrow> bytes result list \<Rightarrow> bytes result list \<Rightarrow> manifest result" where
  "generate_manifest K L I emb ps patches purge existing eip targets disable_updates owner_files share_files =
     (case start_manifest K L emb ps patches purge existing of
        Inl e \<Rightarrow> Inl e
      | Inr m0 \<Rightarrow>
     (case policies_from_kube_resources I targets of
        Inl e \<Rightarrow> Inl (Wrap ''find kube resources with policy'' e)
      | Inr ds \<Rightarrow>
     (case manifest_policy_map_from_policies I ds of
        Inl e \<Rightarrow> Inl (Wrap ''create policy map'' e)
      | Inr pm \<Rightarrow> finish_manifest K pm disable_updates owner_files share_files (inject_apeip eip m0))))"

end
