(* ===== verification/PoliciesFacts.thy ===== *)
theory PoliciesFacts
  imports Policies InitdataFacts
begin

text \<open>
  What the policies of a generated manifest are: one entry for every document that is deployed, for
  the first deployment that has it; and that the document a guest runs is one of them. A second
  deployment with the same document under another name is left out without an error.
\<close>

section \<open>Deployments\<close>

lemma policies_from_resources_ok:
  "policies_from_kube_resources L ts = Inr ds \<Longrightarrow> d \<in> set ds \<longleftrightarrow>
     (\<exists>t\<in>set ts. \<exists>r m s. tg_resource t = Inr r \<and> is_contrast_workload r \<and> pod_of r = Some (m, s) \<and> deployment_of L t m = Inr d)"
proof (induction ts arbitrary: ds)
  case (Cons t ts)
  show ?case
  proof (cases "\<exists>r m s. tg_resource t = Inr r \<and> is_contrast_workload r \<and> pod_of r = Some (m, s)")
    case True
    then obtain r m s where r: "tg_resource t = Inr r" "is_contrast_workload r" "pod_of r = Some (m, s)" by blast
    then obtain d0 ds' where d0: "deployment_of L t m = Inr d0" "policies_from_kube_resources L ts = Inr ds'" "ds = d0 # ds'"
      using Cons.prems by (auto split: sum.splits)
    then show ?thesis using Cons.IH [OF d0(2)] r by auto
  next
    case False
    then have x: "policies_from_kube_resources L ts = Inr ds"
      using Cons.prems by (auto simp: is_contrast_workload_def split: sum.splits option.splits if_splits prod.splits)
    show ?thesis unfolding Cons.IH [OF x] using False by (simp only: list.set bex_simps(5)) blast
  qed
qed simp

text \<open>A deployment's entry names its object; its role is one the manifest knows.\<close>

lemma deployment_of_ok:
  assumes "deployment_of L t m = Inr d"
  shows "dp_name d = tg_name t \<and> tg_name t \<noteq> '''' \<and> validate_role (dp_role d) = None
    \<and> (\<exists>om. m = Some om \<and> annotation om initdata_annotation \<noteq> ''''
        \<and> decode_kata_annotation L (annotation om initdata_annotation) = Inr (dp_initdata d)
        \<and> dp_role d = label om contrast_role_label)"
  using assms by (auto simp: deployment_of_def Let_def split: if_splits option.splits sum.splits)

section \<open>The map of policies\<close>

lemma policy_map_loop_ok:
  assumes "policy_map_loop L ds acc = Inr pm" and "distinct (map fst acc)"
  shows "\<exists>new. pm = acc @ new \<and> distinct (map fst pm)
    \<and> (\<forall>k e. (k, e) \<in> set new \<longrightarrow> (\<exists>d\<in>set ds. \<exists>h. initdata_digest L (dp_initdata d) = Inr h \<and> k = new_hex_string h \<and> e = entry_of d))
    \<and> (\<forall>d\<in>set ds. \<exists>h. initdata_digest L (dp_initdata d) = Inr h \<and> new_hex_string h \<in> fst ` set pm)"
  using assms
proof (induction ds arbitrary: acc)
  case (Cons d ds)
  obtain h where h: "initdata_digest L (dp_initdata d) = Inr h" using Cons.prems by (auto split: sum.splits)
  show ?case
  proof (cases "map_of acc (new_hex_string h)")
    case None
    then have "policy_map_loop L ds (acc @ [(new_hex_string h, entry_of d)]) = Inr pm" using Cons.prems h by simp
    moreover have "distinct (map fst (acc @ [(new_hex_string h, entry_of d)]))"
      using Cons.prems(2) None by (auto simp: map_of_eq_None_iff)
    ultimately obtain new where new: "pm = (acc @ [(new_hex_string h, entry_of d)]) @ new" "distinct (map fst pm)"
      "\<forall>k e. (k, e) \<in> set new \<longrightarrow> (\<exists>d\<in>set ds. \<exists>h. initdata_digest L (dp_initdata d) = Inr h \<and> k = new_hex_string h \<and> e = entry_of d)"
      "\<forall>d\<in>set ds. \<exists>h. initdata_digest L (dp_initdata d) = Inr h \<and> new_hex_string h \<in> fst ` set pm"
      using Cons.IH by blast
    have "new_hex_string h \<in> fst ` set pm" unfolding new(1) by simp
    with h new show ?thesis by (intro exI [of _ "(new_hex_string h, entry_of d) # new"]) auto
  next
    case (Some entry)
    then have "policy_map_loop L ds acc = Inr pm" using Cons.prems h by (simp split: if_splits)
    then obtain new where new: "pm = acc @ new" "distinct (map fst pm)"
      "\<forall>k e. (k, e) \<in> set new \<longrightarrow> (\<exists>d\<in>set ds. \<exists>h. initdata_digest L (dp_initdata d) = Inr h \<and> k = new_hex_string h \<and> e = entry_of d)"
      "\<forall>d\<in>set ds. \<exists>h. initdata_digest L (dp_initdata d) = Inr h \<and> new_hex_string h \<in> fst ` set pm"
      using Cons.IH Cons.prems(2) by blast
    have "(new_hex_string h, entry) \<in> set pm" using Some new(1) by (auto dest: map_of_SomeD)
    then have "new_hex_string h \<in> fst ` set pm" by force
    with h new show ?thesis by (intro exI [of _ new]) auto
  qed
qed simp

lemma policy_map_ok:
  assumes "manifest_policy_map_from_policies L ds = Inr pm"
  shows "distinct (map fst pm)
    \<and> (\<forall>k e. (k, e) \<in> set pm \<longrightarrow> (\<exists>d\<in>set ds. \<exists>h. initdata_digest L (dp_initdata d) = Inr h \<and> k = new_hex_string h \<and> e = entry_of d))
    \<and> (\<forall>d\<in>set ds. \<exists>h e. initdata_digest L (dp_initdata d) = Inr h \<and> (new_hex_string h, e) \<in> set pm)"
  using policy_map_loop_ok [OF assms [unfolded manifest_policy_map_from_policies_def]] by fastforce

text \<open>
  Two deployments of one document: an error when they have one name, and otherwise the second one is
  dropped. It is then given the first one's names, role and workload secret, and the check of the
  same deployments against the manifest fails on their number.
\<close>

lemma shared_document:
  assumes "initdata_digest L (dp_initdata d) = Inr h" and "dp_initdata d' = dp_initdata d"
  shows "manifest_policy_map_from_policies L [d, d'] =
      (if dp_name d = dp_name d' then Inl (Msg ''policy hash collision'') else Inr [(new_hex_string h, entry_of d)])"
    and "check_policies_match_manifest L [d, d'] [(new_hex_string h, entry_of d)] = Some (Msg ''policy count mismatch'')"
  using assms by (simp_all add: manifest_policy_map_from_policies_def check_policies_match_manifest_def
      entry_of_def deployment_dns_names_def)

text \<open>When every document is deployed once, the deployments match the manifest made from them.\<close>

lemma policy_map_length:
  assumes "policy_map_loop L ds acc = Inr pm" and "\<And>d. d \<in> set ds \<Longrightarrow> initdata_digest L (dp_initdata d) = Inr (dg d)"
    and "distinct (map dg ds)" and "\<forall>d\<in>set ds. new_hex_string (dg d) \<notin> fst ` set acc"
  shows "length pm = length acc + length ds"
  using assms
proof (induction ds arbitrary: acc)
  case (Cons d ds)
  have n: "map_of acc (new_hex_string (dg d)) = None" using Cons.prems(4) by (simp add: map_of_eq_None_iff)
  have "policy_map_loop L ds (acc @ [(new_hex_string (dg d), entry_of d)]) = Inr pm"
    using Cons.prems(1) Cons.prems(2) [of d] n by simp
  moreover have "\<forall>e\<in>set ds. new_hex_string (dg e) \<notin> fst ` set (acc @ [(new_hex_string (dg d), entry_of d)])"
    using Cons.prems(3,4) by (auto simp: new_hex_string_def image_iff)
  ultimately show ?case using Cons.IH [of "acc @ [(new_hex_string (dg d), entry_of d)]"] Cons.prems(2,3) by simp
qed simp

lemma check_deployments_None:
  "check_deployments L ps ds = None \<longleftrightarrow>
     (\<forall>d\<in>set ds. \<exists>h e. initdata_digest L (dp_initdata d) = Inr h \<and> map_of ps (new_hex_string h) = Some e)"
  by (induction ds) (auto split: sum.splits option.splits)

lemma generated_policies_match:
  assumes "manifest_policy_map_from_policies L ds = Inr pm"
    and "\<And>d. d \<in> set ds \<Longrightarrow> initdata_digest L (dp_initdata d) = Inr (dg d)" and "distinct (map dg ds)"
  shows "check_policies_match_manifest L ds pm = None"
proof -
  have "length pm = length ds"
    using policy_map_length [OF assms(1) [unfolded manifest_policy_map_from_policies_def] assms(2,3)] by simp
  moreover have "\<exists>h e. initdata_digest L (dp_initdata d) = Inr h \<and> map_of pm (new_hex_string h) = Some e" if "d \<in> set ds" for d
    using policy_map_ok [OF assms(1)] that by (metis map_of_is_SomeI)
  ultimately show ?thesis by (simp add: check_policies_match_manifest_def check_deployments_None)
qed

section \<open>The manifest\<close>

lemma add_keys_ok:
  assumes "add_keys add fs m = Inr m'"
    and "\<And>f m m'. add f m = Inr m' \<Longrightarrow> P m m'" and "\<And>m. P m m" and "\<And>a b c. P a b \<Longrightarrow> P b c \<Longrightarrow> P a c"
  shows "P m m'"
  using assms(1)
proof (induction fs arbitrary: m)
  case (Cons f fs)
  then obtain m1 where "add f m = Inr m1" "add_keys add fs m1 = Inr m'" by (auto split: sum.splits)
  with Cons.IH assms(2,4) show ?case by blast
qed (simp add: assms(3))

lemma finish_keys_ok:
  assumes "finish_keys K no_updates fs gs m = Inr m'"
  shows "policies m' = policies m \<and> refvals m' = refvals m \<and> (no_updates \<longrightarrow> workload_owner_pub_keys m' = [])
    \<and> sorted (workload_owner_pub_keys m') \<and> sorted (seedshare_owner_pub_keys m')
    \<and> set (seedshare_owner_pub_keys m) \<subseteq> set (seedshare_owner_pub_keys m')
    \<and> (\<not> no_updates \<longrightarrow> set (workload_owner_pub_keys m) \<subseteq> set (workload_owner_pub_keys m'))"
proof -
  let ?P = "\<lambda>m m'. policies m' = policies m \<and> refvals m' = refvals m
    \<and> set (workload_owner_pub_keys m) \<subseteq> set (workload_owner_pub_keys m') \<and> seedshare_owner_pub_keys m' = seedshare_owner_pub_keys m"
  let ?Q = "\<lambda>m m'. policies m' = policies m \<and> refvals m' = refvals m
    \<and> set (seedshare_owner_pub_keys m) \<subseteq> set (seedshare_owner_pub_keys m') \<and> workload_owner_pub_keys m' = workload_owner_pub_keys m"
  have P: "?P a b" if "add_keys (add_workload_owner_key K) l a = Inr b" for l a b
    by (rule add_keys_ok [OF that]) (auto simp: add_workload_owner_key_def Let_def split: sum.splits if_splits)
  have Q: "?Q a b" if "add_keys (add_seedshare_owner_key K) l a = Inr b" for l a b
    by (rule add_keys_ok [OF that]) (auto simp: add_seedshare_owner_key_def Let_def split: sum.splits if_splits)
  obtain m1 m2 where m1: "(if no_updates then Inr (m\<lparr>workload_owner_pub_keys := []\<rparr>) else add_keys (add_workload_owner_key K) fs m) = Inr m1"
    and m2: "add_keys (add_seedshare_owner_key K) gs (m1\<lparr>workload_owner_pub_keys := sort (workload_owner_pub_keys m1)\<rparr>) = Inr m2"
    and m': "m' = m2\<lparr>seedshare_owner_pub_keys := sort (seedshare_owner_pub_keys m2)\<rparr>"
    using assms by (auto simp: finish_keys_def split: sum.splits)
  show ?thesis using Q [OF m2] m1 P [of fs m m1] by (auto simp: m' split: if_splits)
qed

text \<open>
  A generated manifest has exactly the policies of the deployments and a Coordinator among them, and
  validation finds nothing in it, or nothing but missing values first, before the keys are added.
\<close>

lemma generate_manifest_ok:
  assumes "generate_manifest K L I emb ps patches purge existing eip targets no_updates fs gs = Inr m"
  shows "\<exists>ds m0. policies_from_kube_resources I targets = Inr ds
    \<and> manifest_policy_map_from_policies I ds = Inr (policies m)
    \<and> start_manifest K L emb ps patches purge existing = Inr m0
    \<and> (let m1 = (inject_apeip eip m0)\<lparr>policies := policies m\<rparr> in
        refvals m = refvals m1 \<and> (manifest_validate K m1 = None \<or> only_missing (manifest_validate K m1))
        \<and> (\<exists>hs. coordinator_policy_hashes m1 = Inr hs))
    \<and> (no_updates \<longrightarrow> workload_owner_pub_keys m = [])"
proof -
  obtain m0 ds pm where m0: "start_manifest K L emb ps patches purge existing = Inr m0"
    and ds: "policies_from_kube_resources I targets = Inr ds"
    and pm: "manifest_policy_map_from_policies I ds = Inr pm"
    and fin: "finish_manifest K pm no_updates fs gs (inject_apeip eip m0) = Inr m"
    using assms by (auto simp: generate_manifest_def split: sum.splits)
  let ?m1 = "(inject_apeip eip m0)\<lparr>policies := pm\<rparr>"
  have fk: "finish_keys K no_updates fs gs ?m1 = Inr m"
    and v: "manifest_validate K ?m1 = None \<or> only_missing (manifest_validate K ?m1)"
    and c: "\<not> (\<exists>e. manifest_validate K ?m1 = Some e \<and> err_is e err_missing_coordinator)"
    using fin by (auto simp: finish_manifest_def Let_def split: option.splits if_splits)
  have "coordinator_policy_hashes ?m1 \<noteq> Inl e" for e
  proof
    assume i: "coordinator_policy_hashes ?m1 = Inl e"
    then have "e = err_missing_coordinator" by (auto simp: coordinator_policy_hashes_def Let_def split: if_splits)
    moreover have "manifest_validate K ?m1 = Some e" using i by (simp add: manifest_validate_def)
    ultimately show False using c by (auto simp: err_missing_coordinator_def)
  qed
  then have "\<exists>hs. coordinator_policy_hashes ?m1 = Inr hs" by (cases "coordinator_policy_hashes ?m1") auto
  with finish_keys_ok [OF fk] v m0 ds pm show ?thesis unfolding Let_def by auto
qed

text \<open>The manifest that was validated is the generated one but for the owner keys.\<close>

lemma generate_manifest_before_keys:
  assumes "generate_manifest K L I emb ps patches purge existing eip targets no_updates fs gs = Inr m"
  shows "\<exists>ds ws ss hs. policies_from_kube_resources I targets = Inr ds
    \<and> manifest_policy_map_from_policies I ds = Inr (policies m) \<and> (no_updates \<longrightarrow> workload_owner_pub_keys m = [])
    \<and> (manifest_validate K (m\<lparr>workload_owner_pub_keys := ws, seedshare_owner_pub_keys := ss\<rparr>) = None
       \<or> only_missing (manifest_validate K (m\<lparr>workload_owner_pub_keys := ws, seedshare_owner_pub_keys := ss\<rparr>)))
    \<and> coordinator_policy_hashes (m\<lparr>workload_owner_pub_keys := ws, seedshare_owner_pub_keys := ss\<rparr>) = Inr hs"
proof -
  obtain ds m0 m1 where ds: "policies_from_kube_resources I targets = Inr ds"
    "manifest_policy_map_from_policies I ds = Inr (policies m)" "no_updates \<longrightarrow> workload_owner_pub_keys m = []"
    and m1: "m1 = (inject_apeip eip m0)\<lparr>policies := policies m\<rparr>" "refvals m = refvals m1"
      "manifest_validate K m1 = None \<or> only_missing (manifest_validate K m1)" "\<exists>hs. coordinator_policy_hashes m1 = Inr hs"
    using generate_manifest_ok [OF assms] unfolding Let_def by blast
  have "m1 = m\<lparr>workload_owner_pub_keys := workload_owner_pub_keys m1, seedshare_owner_pub_keys := seedshare_owner_pub_keys m1\<rparr>"
    using m1(1,2) by simp
  then show ?thesis using ds m1(3,4) by metis
qed

section \<open>The document a guest runs\<close>

text \<open>
  An entry of the manifest that the host data of a guest's report selects belongs to a deployment
  whose document the guest runs, or the documents make the hashes collide on their first 32 bytes.
\<close>

definition documents_collide :: "initlib \<Rightarrow> bytes \<Rightarrow> bytes \<Rightarrow> bool" where
  "documents_collide L a b \<longleftrightarrow> a \<noteq> b \<and> (\<exists>h h'. {h, h'} \<subseteq> {sha256_sum L, sha384_sum L, sha512_sum L} \<and> take 32 (h a) = h' b)"

lemma running_document_deployed:
  assumes att: "config_attested E w w'" and platform: "has_platform (guest_lib E)"
    and want: "report_digest (guest_lib E) = Inr want"
    and e: "(new_hex_string (take 32 want), e) \<in> set (policies m)"
    and pm: "manifest_policy_map_from_policies (guest_initlib E) ds = Inr (policies m)"
  shows "\<exists>d\<in>set ds. e = entry_of d \<and> (\<exists>doc i. initdata_parse (guest_initlib E) doc = Inr i
    \<and> (\<forall>p. p \<noteq> imagepuller_config \<longrightarrow> files w' p = written (init_data i) (files w) p)
    \<and> (doc = dp_initdata d \<or> documents_collide (guest_initlib E) doc (dp_initdata d)))"
proof -
  let ?L = "guest_initlib E"
  obtain doc i dg where doc: "initdata_parse ?L doc = Inr i" "initdata_digest ?L doc = Inr dg"
    "compare_digests want dg = None" "\<forall>p. p \<noteq> imagepuller_config \<longrightarrow> files w' p = written (init_data i) (files w) p"
    using att want platform unfolding config_attested_def by auto
  obtain d h where d: "d \<in> set ds" "initdata_digest ?L (dp_initdata d) = Inr h" "new_hex_string (take 32 want) = new_hex_string h"
    "e = entry_of d" using policy_map_ok [OF pm] e by blast
  have eq: "take 32 dg = h" using compare_digests_prefix [OF doc(3)] d(3) by (simp add: new_hex_string_def)
  have hashes: "\<exists>f \<in> {sha256_sum ?L, sha384_sum ?L, sha512_sum ?L}. x = f raw" if "initdata_digest ?L raw = Inr x" for raw x
    using that by (auto simp: initdata_digest_ok hash_algorithms_def split: if_splits)
  have "doc = dp_initdata d \<or> documents_collide ?L doc (dp_initdata d)"
    using hashes [OF doc(2)] hashes [OF d(2)] eq unfolding documents_collide_def by blast
  with d doc show ?thesis by blast
qed

end
