(* ===== verification/Verifiers.thy ===== *)
theory Verifiers
  imports PoliciesFacts GenerateFacts
begin

text \<open>
  The checks of workloads before and after generation, \<open>cli/verifier\<close> and \<open>runVerifiers\<close> of
  \<open>cli/cmd/generate.go\<close>. A check returns its findings joined; the nesting of \<open>errors.Join\<close> is flat
  here. The parsers of image references are parameters.
\<close>

record verifier_env =
  parse_image_digest :: "string \<Rightarrow> goerr option"
  parse_image_tag :: "string \<Rightarrow> string result"
  cli_version :: string
  default_runtime_class :: string

section \<open>The checks\<close>

text \<open>The pod that a check looks at; a resource without one passes.\<close>

definition on_pod :: "(object_meta option \<Rightarrow> pod_spec option \<Rightarrow> goerr option) \<Rightarrow> resource \<Rightarrow> goerr option" where
  "on_pod f r = (case pod_of r of None \<Rightarrow> None | Some (m, s) \<Rightarrow> f m s)"

definition cpu_count_valid :: "resource \<Rightarrow> goerr option" where
  "cpu_count_valid = on_pod (\<lambda>m so. case so of None \<Rightarrow> None | Some s \<Rightarrow>
     if \<not> is_contrast_pod so then None else
     if get_pod_cpu_count s < 1 \<or> get_pod_cpu_count s > 220
     then Some (Msg ''pod failed verification: currently only 1-220 vCPUs are supported'') else None)"

definition image_finding :: "verifier_env \<Rightarrow> bool \<Rightarrow> container \<Rightarrow> goerr option" where
  "image_finding V exclude_contrast c = (case c_image c of
     None \<Rightarrow> Some (Msg ''the container failed verification. It has no image specified'')
   | Some img \<Rightarrow>
       (if img = '''' then Some (Msg ''the container failed verification. It has no image specified'')
        else if exclude_contrast \<and> has_prefix ''ghcr.io/edgelesssys/contrast'' img then None
        else (case parse_image_digest V img of None \<Rightarrow> None
          | Some e \<Rightarrow> Some (Msg ''the image reference failed verification''))))"

definition image_ref_valid :: "verifier_env \<Rightarrow> bool \<Rightarrow> resource \<Rightarrow> goerr option" where
  "image_ref_valid V exclude_contrast = on_pod (\<lambda>m so. case so of None \<Rightarrow> None | Some s \<Rightarrow>
     if \<not> is_contrast_pod so then None else errors_join (map (image_finding V exclude_contrast) (containers s)))"

fun is_supported_volume :: "volume_source \<Rightarrow> bool" where
  "is_supported_volume ConfigMapVolume = True"
| "is_supported_volume DownwardApi = True"
| "is_supported_volume (EmptyDir m) = (m = Some ''Memory'')"
| "is_supported_volume (Ephemeral t) = (t = Some (Some ''Block''))"
| "is_supported_volume Projected = True"
| "is_supported_volume SecretVolume = True"
| "is_supported_volume _ = False"

definition mount_findings :: "volume list \<Rightarrow> volume_mount \<Rightarrow> goerr option list" where
  "mount_findings vs mnt =
     (let named = filter (\<lambda>v. v_name v = vm_name mnt) vs in
      if named = [] then [Some (Msg ''unsupported mount: volume claim template'')]
      else map (\<lambda>v. if is_supported_volume (v_source v) then None else Some (Msg ''unsupported mount: volume type'')) named)"

definition no_shared_fs_mount :: "resource \<Rightarrow> goerr option" where
  "no_shared_fs_mount = on_pod (\<lambda>m so. case so of None \<Rightarrow> None | Some s \<Rightarrow>
     if \<not> is_contrast_pod so then None
     else errors_join (concat (map (mount_findings (volumes s)) (concat (map c_mounts (containers s))))))"

definition runtime_classes_exist :: "verifier_env \<Rightarrow> resource \<Rightarrow> goerr option" where
  "runtime_classes_exist V = on_pod (\<lambda>m so. case so of None \<Rightarrow> None | Some s \<Rightarrow>
     (case runtime_class_name s of None \<Rightarrow> None | Some n \<Rightarrow>
       (if default_runtime_class V = '''' \<and> n = ''contrast-cc''
        then Some (Wrap (quoted n @ '' is not a valid runtime class name'')
               (Msg ''no default platform was specified using --reference-values''))
        else if \<not> has_prefix ''contrast-cc-'' n then None
        else (case from_runtime_class_string n of Inr p \<Rightarrow> None
          | Inl e \<Rightarrow> Some (Wrap (quoted n @ '' is not a valid runtime class name'') e)))))"

definition service_mesh_egress_not_empty :: "resource \<Rightarrow> goerr option" where
  "service_mesh_egress_not_empty = on_pod (\<lambda>m so. case m of None \<Rightarrow> None | Some om \<Rightarrow>
     if annotations om sm_egress_annotation = Some '''' then Some (Msg ''empty annotation content'') else None)"

definition needs_image_version_check :: "string option \<Rightarrow> string \<Rightarrow> bool" where
  "needs_image_version_check n pod_role \<longleftrightarrow>
     n = Some ''contrast-initializer'' \<or> n = Some ''contrast-service-mesh''
     \<or> (n = Some ''coordinator'' \<and> pod_role = role_coordinator)"

definition version_finding :: "verifier_env \<Rightarrow> string \<Rightarrow> container \<Rightarrow> goerr option" where
  "version_finding V pod_role c =
     (if \<not> needs_image_version_check (c_name c) pod_role then None else
      case c_image c of None \<Rightarrow> None | Some img \<Rightarrow>
        if img = '''' then None else
       (case parse_image_tag V img of Inl e \<Rightarrow> Some (Wrap ''could not parse image reference'' e)
        | Inr tag \<Rightarrow> if tag = '''' \<or> tag = cli_version V then None else Some (Msg ''version mismatch'')))"

definition versions_match :: "verifier_env \<Rightarrow> resource \<Rightarrow> goerr option" where
  "versions_match V r =
     (if contains ''dev'' (cli_version V) \<or> contains ''pre'' (cli_version V) then None
      else on_pod (\<lambda>m so. case so of None \<Rightarrow> None | Some s \<Rightarrow>
        if \<not> is_contrast_pod so then None
        else errors_join (map (version_finding V (case m of None \<Rightarrow> '''' | Some om \<Rightarrow> label om contrast_role_label))
               (containers s))) r)"

definition verifiers_before_generate :: "verifier_env \<Rightarrow> (resource \<Rightarrow> goerr option) list" where
  "verifiers_before_generate V =
     [image_ref_valid V True, service_mesh_egress_not_empty, runtime_classes_exist V, cpu_count_valid]"

definition verifiers_after_generate :: "verifier_env \<Rightarrow> (resource \<Rightarrow> goerr option) list" where
  "verifiers_after_generate V = [no_shared_fs_mount, image_ref_valid V False, versions_match V]"

text \<open>Every check sees every workload; the findings of all of them are joined.\<close>

definition target_findings :: "(resource \<Rightarrow> goerr option) \<Rightarrow> target \<Rightarrow> goerr option" where
  "target_findings v t = (case tg_resource t of Inl e \<Rightarrow> None | Inr r \<Rightarrow>
     if \<not> is_contrast_workload r then None
     else (case v r of None \<Rightarrow> None | Some e \<Rightarrow> Some (Wrap ''failed to verify resource'' e)))"

definition run_verifiers :: "(resource \<Rightarrow> goerr option) list \<Rightarrow> target list \<Rightarrow> goerr option" where
  "run_verifiers vs ts = errors_join (concat (map (\<lambda>v. map (target_findings v) ts) vs))"

section \<open>Facts\<close>

lemma run_verifiers_None:
  "run_verifiers vs ts = None \<longleftrightarrow>
     (\<forall>v\<in>set vs. \<forall>t\<in>set ts. \<forall>r. tg_resource t = Inr r \<longrightarrow> is_contrast_workload r \<longrightarrow> v r = None)"
proof -
  have "target_findings v t = None \<longleftrightarrow> (\<forall>r. tg_resource t = Inr r \<longrightarrow> is_contrast_workload r \<longrightarrow> v r = None)" for v t
    by (cases "tg_resource t") (auto simp: target_findings_def split: option.splits)
  then show ?thesis by (simp add: run_verifiers_def errors_join_None)
qed

lemma contrast_workload_pod:
  "is_contrast_workload r \<longleftrightarrow> (\<exists>m s. pod_of r = Some (m, Some s) \<and> is_contrast_pod (Some s))"
  by (auto simp: is_contrast_workload_def is_contrast_pod_def split: option.splits)

lemma cpu_count_valid_None:
  assumes "pod_of r = Some (m, Some s)" and "is_contrast_pod (Some s)"
  shows "cpu_count_valid r = None \<longleftrightarrow> 1 \<le> get_pod_cpu_count s \<and> get_pod_cpu_count s \<le> 220"
  using assms by (auto simp: cpu_count_valid_def on_pod_def)

lemma no_shared_fs_None:
  assumes "pod_of r = Some (m, Some s)" and "is_contrast_pod (Some s)"
  shows "no_shared_fs_mount r = None \<longleftrightarrow>
     (\<forall>c\<in>set (containers s). \<forall>mnt\<in>set (c_mounts c). (\<exists>v\<in>set (volumes s). v_name v = vm_name mnt)
       \<and> (\<forall>v\<in>set (volumes s). v_name v = vm_name mnt \<longrightarrow> is_supported_volume (v_source v)))"
proof -
  have "(\<forall>e\<in>set (mount_findings vs mnt). e = None) \<longleftrightarrow> (\<exists>v\<in>set vs. v_name v = vm_name mnt)
      \<and> (\<forall>v\<in>set vs. v_name v = vm_name mnt \<longrightarrow> is_supported_volume (v_source v))" for vs mnt
    by (simp add: mount_findings_def Let_def filter_empty_conv) blast
  then show ?thesis using assms by (simp add: no_shared_fs_mount_def on_pod_def errors_join_None)
qed

text \<open>
  The image and the mount checks look at the containers of a pod only, not at its init containers:
  whatever these are, the findings are the same.
\<close>

lemma init_containers_unchecked:
  assumes "pod_of r = Some (m, Some s)" and "pod_of r' = Some (m, Some (s\<lparr>init_containers := cs\<rparr>))"
  shows "image_ref_valid V x r' = image_ref_valid V x r" and "no_shared_fs_mount r' = no_shared_fs_mount r"
    and "versions_match V r' = versions_match V r"
  using assms by (simp_all add: image_ref_valid_def no_shared_fs_mount_def versions_match_def on_pod_def is_contrast_pod_def)

text \<open>
  A pod in which only containers ask for CPUs and that passed the check gets an ID block for a
  number of virtual CPUs that the validator's search covers.
\<close>

lemma checked_pod_id_block_count:
  assumes "cpu_count_valid r = None" and "pod_of r = Some (m, Some s)" and "is_contrast_pod (Some s)"
    and "\<forall>c\<in>set (init_containers s). cpu_of c = 0" and "get_cpu_count (pod_resources s) = 0"
  shows "\<exists>n. id_block_cpu_count s = int n \<and> 1 \<le> n \<and> n \<le> 220"
proof -
  have "1 \<le> id_block_cpu_count s \<and> id_block_cpu_count s \<le> 220"
    using assms cpu_count_valid_None [OF assms(2,3)] cpu_counts_agree [OF assms(4,5)] by simp
  then show ?thesis by (intro exI [of _ "nat (id_block_cpu_count s)"]) auto
qed

section \<open>Patched workloads are accepted\<close>

text \<open>
  For a product whose complete reference value the manifest has for the platform of a workload, the
  annotations are computed, whatever becomes of the other product, and a guest that is launched
  with them is accepted by the validator of that reference value.
\<close>

definition launched_guest_accepted ::
  "('prod, 'root, 'pool) optslib \<Rightarrow> ('prod, 'root, 'crl, 'pt, 'key) snplib \<Rightarrow> snp_reference_values
   \<Rightarrow> ('prod, 'root, 'crl) snp_validator_options \<Rightarrow> id_block \<Rightarrow> id_authentication \<Rightarrow> bool" where
  "launched_guest_accepted P L rv opt blk auth \<longleftrightarrow> (\<forall>doc rd att rep vo i oi.
     snp_verified L (sv_verify opt) doc = (Inr (att, rep), vo) \<longrightarrow> sr_measurement rep = ib_ld blk
     \<longrightarrow> allowed_chip_ids rv = [] \<or> (\<exists>c\<in>set (allowed_chip_ids rv). hex_bytes c = Inr (sr_chip_id rep))
     \<longrightarrow> check_claims L att ((sv_validate opt)\<lparr>so_measurement := ib_ld blk,
           so_trusted_id_key_hashes := [sha384_fun L (marshal_public_key (ia_id_key auth))], so_report_data := rd\<rparr>) = None
     \<longrightarrow> validate (snp_validator_for P L i opt) oi doc rd = (None, [snp_report_of (sev_abi L) (snp_asn1 L) rep]))"

lemma annotate_products_sees:
  assumes lib: "opts_library_ok P L" "\<And>b. length (sha384_fun L b) = 48" and n: "1 \<le> n" "n \<le> 220"
    and r: "snp_values_for_product (snp (refvals m)) p product = Some rv" "snp_complete rv" "apeip rv \<noteq> ''''"
    and opt: "snp_options_for P L rv = Inr opt"
  shows "\<exists>errs ann' blk auth. annotate_products L p (int n) m [''Genoa'', ''Milan''] ann [] False = ((errs, True), ann')
    \<and> sees_annotations ann' product blk auth (policy_to_bytes L (guest_policy rv)) \<and> launched_guest_accepted P L rv opt blk auth"
proof -
  note total = compute_id_blocks_total [OF lib r(1-3) n(1)]
  have acc: "\<exists>blk auth. sees_annotations b product blk auth (policy_to_bytes L (guest_policy rv)) \<and> launched_guest_accepted P L rv opt blk auth"
    if "compute_and_annotate_id_blocks L p (int n) product m a = Inr b" for a b
    using annotated_guest_accepted [OF that n r(1,2) opt] unfolding launched_guest_accepted_def .
  have "product = ''Genoa'' \<or> product = ''Milan''"
    using r(2) snp_values_for_product_ok [OF r(1)] by (auto simp: snp_complete_def milan_def genoa_def)
  then show ?thesis
  proof
    assume g: "product = ''Genoa''"
    obtain a where a: "compute_and_annotate_id_blocks L p (int n) ''Genoa'' m ann = Inr a" using total n(2) g by fastforce
    obtain blk auth where s: "sees_annotations a ''Genoa'' blk auth (policy_to_bytes L (guest_policy rv))" "launched_guest_accepted P L rv opt blk auth"
      using acc [of ann a] a g by blast
    show ?thesis
    proof (cases "compute_and_annotate_id_blocks L p (int n) ''Milan'' m a")
      case (Inr b)
      then show ?thesis using compute_id_blocks_keeps [OF Inr s(1)] s(2) g a by auto
    qed (use a g s in auto)
  next
    assume g: "product = ''Milan''"
    define a where "a = (case compute_and_annotate_id_blocks L p (int n) ''Genoa'' m ann of Inl e \<Rightarrow> ann | Inr a \<Rightarrow> a)"
    obtain b where b: "compute_and_annotate_id_blocks L p (int n) ''Milan'' m a = Inr b" using total n(2) g by fastforce
    then have "\<exists>errs. annotate_products L p (int n) m [''Genoa'', ''Milan''] ann [] False = ((errs, True), b)"
      by (cases "compute_and_annotate_id_blocks L p (int n) ''Genoa'' m ann") (auto simp: a_def)
    then show ?thesis using acc [of a b] b g by blast
  qed
qed

lemma patched_workload_accepted:
  assumes lib: "opts_library_ok P L" "\<And>b. length (sha384_fun L b) = 48"
    and pod: "pod_of r = Some (mo, Some s)" "runtime_class_name s = Some cls" "from_runtime_class_string cls = Inr p" "is_snp p"
    and n: "id_block_cpu_count s = int n" "1 \<le> n" "n \<le> 220"
    and rv: "snp_values_for_product (snp (refvals m)) p product = Some rv" "snp_complete rv" "apeip rv \<noteq> ''''"
  shows "\<exists>r' om opt blk auth. patch_id_block_annotation L m r = Inr r' \<and> pod_of r' = Some (Some om, Some s)
    \<and> sees_annotations (annotations om) product blk auth (policy_to_bytes L (guest_policy rv))
    \<and> snp_options_for P L rv = Inr opt \<and> launched_guest_accepted P L rv opt blk auth"
proof -
  obtain opt where opt: "snp_options_for P L rv = Inr opt" using snp_options_total [OF lib(1) rv(2)] by blast
  define meta where "meta = (case mo of None \<Rightarrow> empty_meta | Some om \<Rightarrow> om)"
  obtain errs ann' blk auth where a: "annotate_products L p (int n) m [''Genoa'', ''Milan''] (annotations meta) [] False = ((errs, True), ann')"
    "sees_annotations ann' product blk auth (policy_to_bytes L (guest_policy rv))" "launched_guest_accepted P L rv opt blk auth"
    using annotate_products_sees [OF lib n(2,3) rv opt] by blast
  have m: "id_block_mapper L m mo (Some s) = Inr (Some (meta\<lparr>annotations := ann'\<rparr>), Some s)"
    using pod n(1) a(1) by (simp add: id_block_mapper_def meta_def [symmetric] del: annotate_products.simps)
  obtain r' where r': "patch_id_block_annotation L m r = Inr r'"
    using map_with_errors_error [of r "id_block_mapper L m"] pod(1) m unfolding patch_id_block_annotation_def
    by (cases "map_pod_spec_with_meta_and_errors r (id_block_mapper L m)") auto
  have "pod_of r' = Some (Some (meta\<lparr>annotations := ann'\<rparr>), Some s)"
    using map_with_errors_pod [OF pod(1) r' [unfolded patch_id_block_annotation_def]] m by simp
  with r' a(2,3) opt show ?thesis by (intro exI [of _ r'] exI [of _ "meta\<lparr>annotations := ann'\<rparr>"] exI [of _ opt]) auto
qed

end
