(* ===== verification/PodDemo.thy ===== *)
theory PodDemo
  imports Verifiers AttestDemo
begin

text \<open>
  A concrete guest and a concrete workload: documents in a plain encoding, a device that holds one, a
  guest whose report has its digest, and the deployment from which a manifest with that digest is
  generated. They show that the hypotheses about documents, guests and deployments hold together.
\<close>

section \<open>Documents\<close>

text \<open>
  The fields of a document with NUL bytes between them; a document with a NUL byte in a field is an
  error. Compression is the identity, and a digest the front of the reversed document, padded.
\<close>

definition nul :: char where "nul = CHR 0x00"

fun pair_up :: "string list \<Rightarrow> (string \<times> string) list option" where
  "pair_up [] = Some []"
| "pair_up [s] = None"
| "pair_up (n # c # ss) = map_option ((#) (n, c)) (pair_up ss)"

definition document_fields :: "initdata \<Rightarrow> string list" where
  "document_fields i = init_version i # init_algorithm i # concat (map (\<lambda>(n, c). [n, c]) (init_data i))"

definition plain_decode :: "bytes \<Rightarrow> initdata result" where
  "plain_decode b = (case split_on nul (string_of_bytes b) of
     v # a # ss \<Rightarrow> (case pair_up ss of None \<Rightarrow> Inl (Msg ''toml'')
        | Some d \<Rightarrow> Inr \<lparr>init_version = v, init_algorithm = a, init_data = d\<rparr>)
   | _ \<Rightarrow> Inl (Msg ''toml''))"

definition plain_encode :: "initdata \<Rightarrow> bytes result" where
  "plain_encode i = (if list_all (\<lambda>s. nul \<notin> set s) (document_fields i)
     then Inr (bytes_of_string (join_with [nul] (document_fields i))) else Inl (Msg ''toml''))"

definition plain_sum :: "nat \<Rightarrow> bytes \<Rightarrow> bytes" where
  "plain_sum n b = take n (rev b @ replicate n 1)"

definition plain_initlib :: initlib where
  "plain_initlib = \<lparr>sha256_sum = plain_sum 32, sha384_sum = plain_sum 48, sha512_sum = plain_sum 64,
     toml_decode = plain_decode, toml_encode = plain_encode, gunzip = Inr, gzip = Inr\<rparr>"

lemma length_plain_sum [simp]: "length (plain_sum n b) = n"
  by (simp add: plain_sum_def)

lemma pair_up_concat: "pair_up (concat (map (\<lambda>(n, c). [n, c]) d)) = Some d"
  by (induction d) auto

lemma plain_decode_encode: "plain_encode i = Inr b \<Longrightarrow> plain_decode b = Inr i"
  by (auto simp: plain_encode_def plain_decode_def document_fields_def pair_up_concat split_on_join list_all_iff
      simp del: join_with.simps split_on.simps split: if_splits)

interpretation plain_documents: initdata_codec plain_initlib
  by unfold_locales (auto simp: plain_initlib_def dest: plain_decode_encode)

section \<open>A guest\<close>

definition demo_initdata :: initdata where
  "demo_initdata = \<lparr>init_version = ''0.1.0'', init_algorithm = ''sha256'', init_data = [(''policy.rego'', ''allow'')]\<rparr>"

definition demo_document :: bytes where
  "demo_document = bytes_of_string (join_with [nul] (document_fields demo_initdata))"

definition demo_device :: bytes where
  "demo_device = bytes_of_string ''initdata'' @ le_bytes 8 (of_nat (length demo_document) :: 64 word) @ demo_document"

definition demo_guest :: guest where
  "demo_guest = \<lparr>
     guest_lib = \<lparr>snp_quote_provider = Inr (\<lambda>rd. Inr (plain_sum 32 demo_document)), tdx_quote_provider = Inl (Msg ''tdx''),
       tdx_is_supported = None, snp_report_to_proto = Inr, tdx_quote_to_proto = (\<lambda>q. Inr None)\<rparr>,
     guest_initlib = plain_initlib, deny_with_message_policy = bytes_of_string ''default AllowRequestsFailingPolicy := false'',
     json_string = bytes_of_string, mkdir_all = (\<lambda>p. None), read_dev_dir = Inr [],
     stat_dev = (\<lambda>p. Inr \<lparr>dev_block = True, dev_sys = Some 8\<rparr>), probe_dev = (\<lambda>p. Inr demo_device),
     open_dev = (\<lambda>p. Inr demo_device), kernel_cmdline = Inr [''quiet''], write_err = (\<lambda>p b. None),
     create_temp = Inr ''/tmp/policy.rego'', copy_temp_err = None, rename_err = None, notify_ok = True\<rparr>"

definition booting :: guest_world where
  "booting = \<lparr>files = (\<lambda>p. None), ready = False, serving = None\<rparr>"

lemma demo_document_encoded: "initdata_encode plain_initlib demo_initdata = Inr demo_document"
  by (simp add: initdata_encode_def initdata_validate_def demo_initdata_def initdata_version_def plain_initlib_def
      plain_encode_def document_fields_def demo_document_def nul_def)

lemmas demo_document_parsed = plain_documents.encode_parse [OF demo_document_encoded]

lemma demo_document_digest: "initdata_digest plain_initlib demo_document = Inr (plain_sum 32 demo_document)"
  by (simp add: initdata_digest_ok demo_document_parsed hash_algorithms_def demo_initdata_def) (simp add: plain_initlib_def)

lemma demo_document_read:
  "from_device plain_initlib (\<lambda>p. Inr demo_device) p ''initdata'' = Inr demo_document"
  using plain_documents.device_round_trip [of demo_document demo_document "''initdata''" "[]" p]
  by (simp add: demo_device_def plain_initlib_def max_initdata_size_def) (simp add: demo_document_def demo_initdata_def document_fields_def)

lemma demo_devices:
  "check_device_availability demo_guest ''initdata'' (bytes_of_string ''initdata'') = Inr ''/dev/disk/by-id/virtio-initdata''"
  "\<exists>e. check_device_availability demo_guest ''imagepuller'' (bytes_of_string ''imgpullr'') = Inl e"
  by (simp_all add: check_device_availability_def demo_guest_def demo_device_def disk_major_def read_at_def)

lemma demo_handled:
  "handle_initdata demo_guest demo_document booting
     = (Inr (plain_sum 32 demo_document, False), booting\<lparr>files := [config_file ''policy.rego'' \<mapsto> bytes_of_string ''allow'']\<rparr>)"
proof -
  have "check_platform demo_guest (plain_sum 32 demo_document) False = None"
    by (simp add: check_platform_def new_digest_validator_def demo_guest_def validate_digest_def compare_digests_def)
  moreover have "guest_initlib demo_guest = plain_initlib" "kernel_cmdline demo_guest = Inr [''quiet'']" "write_err demo_guest p b = None"
    for p b by (simp_all add: demo_guest_def)
  ultimately show ?thesis
    by (simp add: handle_initdata_def demo_document_digest demo_document_parsed allow_insecure_attestation_def
        write_file_def demo_initdata_def booting_def)
qed

lemma demo_guest_starts:
  "initdata_main demo_guest booting
     = \<lparr>files = [config_file ''policy.rego'' \<mapsto> bytes_of_string ''allow''], ready = True, serving = None\<rparr>"
proof -
  have g: "mkdir_all demo_guest p = None" "guest_initlib demo_guest = plain_initlib" "notify_ok demo_guest"
    "open_dev demo_guest = (\<lambda>p. Inr demo_device)" for p by (simp_all add: demo_guest_def)
  obtain e where "check_device_availability demo_guest ''imagepuller'' (bytes_of_string ''imgpullr'') = Inl e"
    using demo_devices(2) by blast
  then show ?thesis unfolding initdata_main_def
    by (simp add: g demo_devices(1) demo_document_read demo_handled imagepuller_part_def sd_notify_ready_def)
      (simp add: booting_def)
qed

lemma demo_guest_not_denied:
  "files (initdata_main demo_guest booting) policy_rego \<noteq> Some (deny_with_message demo_guest msg)"
proof
  assume a: "files (initdata_main demo_guest booting) policy_rego = Some (deny_with_message demo_guest msg)"
  have "length (deny_with_message demo_guest msg) > length (bytes_of_string ''allow'')"
    by (simp add: deny_with_message_def demo_guest_def)
  with a show False unfolding demo_guest_starts by (auto dest!: arg_cong [of _ _ length] split: if_splits)
qed

lemma demo_guest_report: "report_digest (guest_lib demo_guest) = Inr (plain_sum 32 demo_document)"
  by (simp add: report_digest_def new_digest_validator_def demo_guest_def)

section \<open>Its deployment\<close>

definition demo_pod_meta :: object_meta where
  "demo_pod_meta = \<lparr>labels = [contrast_role_label \<mapsto> role_coordinator],
     annotations = [initdata_annotation \<mapsto> base64_encode demo_document]\<rparr>"

definition demo_pod :: pod_spec where
  "demo_pod = \<lparr>runtime_class_name = Some ''contrast-cc'', init_containers = [],
     containers = [new_container\<lparr>c_name := Some ''web'', c_image := Some ''web''\<rparr>], volumes = [], pod_resources = None\<rparr>"

definition demo_workload :: resource where
  "demo_workload = Workload \<lparr>kind = StatefulSet, template = Some \<lparr>t_meta = Some demo_pod_meta, t_spec = Some demo_pod\<rparr>,
     claim_templates = []\<rparr>"

definition demo_target :: target where
  "demo_target = \<lparr>tg_name = ''coordinator'', tg_namespace = '''', tg_group = ''apps'', tg_version = ''v1'',
     tg_kind = ''StatefulSet'', tg_resource = Inr demo_workload\<rparr>"

definition demo_deployment :: deployment where
  "demo_deployment = \<lparr>dp_name = ''coordinator'', dp_initdata = demo_document, dp_role = role_coordinator,
     dp_workload_secret_id = ''apps/v1/StatefulSet/default/coordinator''\<rparr>"

definition generated :: manifest where
  "generated = attest_manifest\<lparr>policies := [(new_hex_string (plain_sum 32 demo_document), entry_of demo_deployment)]\<rparr>"

definition plain_patchlib :: "unit patchlib" where
  "plain_patchlib = \<lparr>decode_patch = (\<lambda>b. Inl (Msg ''patch'')), patch_paths = (\<lambda>p. []), patch_apply = (\<lambda>p b. Inr b),
     err_test_failed = Sentinel ''test failed'', json_refvals = (\<lambda>v. Inr []), json_snp = (\<lambda>v. Inr []), json_tdx = (\<lambda>v. Inr []),
     unjson_refvals = (\<lambda>b v. (None, v)), unjson_snp = (\<lambda>b v. (None, v)), unjson_tdx = (\<lambda>b v. (None, v))\<rparr>"

lemma demo_annotation: "annotation demo_pod_meta initdata_annotation = base64_encode demo_document"
  "label demo_pod_meta contrast_role_label = role_coordinator" "annotation demo_pod_meta workload_secret_id_annotation = ''''"
  by (simp_all add: annotation_def label_def map_entry_def demo_pod_meta_def initdata_annotation_def kata_annotation_prefix_def
      workload_secret_id_annotation_def annotation_prefix_def)

lemma demo_annotation_decoded:
  "decode_kata_annotation plain_initlib (base64_encode demo_document) = Inr demo_document"
  by (rule plain_documents.annotation_round_trip) (simp add: encode_kata_annotation_def plain_initlib_def)

lemma demo_annotation_there: "base64_encode demo_document \<noteq> ''''"
  using demo_annotation_decoded by (auto simp: decode_kata_annotation_def plain_initlib_def demo_document_def
      document_fields_def demo_initdata_def bytes_of_string_def split: sum.splits)

lemma demo_deployment_of: "deployment_of plain_initlib demo_target (Some demo_pod_meta) = Inr demo_deployment"
  by (simp add: deployment_of_def demo_annotation demo_annotation_decoded demo_annotation_there demo_target_def
      demo_deployment_def validate_role_def or_default_def)

lemma demo_workload_facts: "is_contrast_workload demo_workload" "pod_of demo_workload = Some (Some demo_pod_meta, Some demo_pod)"
  by (simp_all add: is_contrast_workload_def pod_of_def demo_workload_def is_contrast_pod_def demo_pod_def has_prefix_def)

lemma demo_policies: "policies_from_kube_resources plain_initlib [demo_target] = Inr [demo_deployment]"
  using demo_deployment_of demo_workload_facts by (simp add: demo_target_def)

lemma demo_policy_map: "manifest_policy_map_from_policies plain_initlib [demo_deployment] = Inr (policies generated)"
  by (simp add: manifest_policy_map_from_policies_def demo_deployment_def demo_document_digest generated_def)

lemma generated_valid: "manifest_validate plain_keylib (attest_manifest\<lparr>policies := policies generated\<rparr>) = None"
proof -
  have "manifest_ok plain_keylib attest_manifest" using attest_manifest_valid by (simp add: manifest_validate_None)
  moreover have "hex_of_size 32 (new_hex_string (plain_sum 32 demo_document))"
    by (simp add: hex_of_size_bytes new_hex_string_def hex_bytes_encode)
  moreover have "\<not> has_insecure_platforms (attest_manifest\<lparr>policies := ps\<rparr>)" for ps
    using attest_manifest_facts(3) by (simp add: has_insecure_platforms_def any_reference_value_def)
  ultimately show ?thesis
    by (simp add: manifest_validate_None manifest_ok_def generated_def entry_of_def demo_deployment_def attest_manifest_facts
        demo_entry_def)
qed

lemma demo_generated:
  "generate_manifest plain_keylib plain_patchlib plain_initlib (Inr []) [] None False (Some (Inr attest_manifest)) None
     [demo_target] False [] [] = Inr generated"
proof -
  have "generated\<lparr>workload_owner_pub_keys := sort (workload_owner_pub_keys generated),
      seedshare_owner_pub_keys := sort (seedshare_owner_pub_keys generated)\<rparr> = generated"
    by (simp add: generated_def attest_manifest_def demo_manifest_def)
  moreover have "attest_manifest\<lparr>policies := policies generated\<rparr> = generated" by (simp add: generated_def)
  ultimately show ?thesis
    using generated_valid
    by (simp add: generate_manifest_def start_manifest_def attest_manifest_valid demo_policies demo_policy_map finish_manifest_def
        inject_apeip_def finish_keys_def del: policies_from_kube_resources.simps)
qed

section \<open>Reference values and ID blocks\<close>

text \<open>The opaque parts of an SNP reference value are arguments.\<close>

definition snp_reference :: "snp_guest_policy \<Rightarrow> snp_platform_info \<Rightarrow> snp_reference_values" where
  "snp_reference pol info = \<lparr>snp_platform = ''Metal-QEMU-SNP'', product_name = ''Milan'',
     trusted_measurement = hex_encode (replicate 48 1), apeip = hex_encode [0xff, 0xff, 0xff, 0xf0],
     minimum_tcb = \<lparr>bootloader_version = Some 1, tee_version = Some 1, snp_version = Some 1, microcode_version = Some 1\<rparr>,
     guest_policy = pol, platform_info = info, minimum_mitigation_vector = 0, allowed_chip_ids = []\<rparr>"

definition snp_manifest :: "snp_guest_policy \<Rightarrow> snp_platform_info \<Rightarrow> manifest" where
  "snp_manifest pol info = attest_manifest\<lparr>refvals := \<lparr>snp = [snp_reference pol info], tdx = []\<rparr>\<rparr>"

definition snp_pod :: pod_spec where
  "snp_pod = demo_pod\<lparr>runtime_class_name := Some ''contrast-cc-metal-qemu-snp-0123abcd''\<rparr>"

definition snp_workload :: resource where
  "snp_workload = Workload \<lparr>kind = Deployment, template = Some \<lparr>t_meta = None, t_spec = Some snp_pod\<rparr>, claim_templates = []\<rparr>"

lemma snp_reference_complete: "snp_complete (snp_reference pol info)"
proof -
  have "hex_of_size 4 (hex_encode [0xff, 0xff, 0xff, 0xf0])" by (simp add: hex_of_size_bytes hex_bytes_encode del: hex_encode_simps)
  then show ?thesis by (simp add: snp_complete_def snp_reference_def tcb_complete_def milan_def hex_of_size_bytes hex_bytes_encode
      del: hex_encode_simps)
qed

lemma snp_workload_facts:
  "pod_of snp_workload = Some (None, Some snp_pod)" "is_contrast_pod (Some snp_pod)"
  "runtime_class_name snp_pod = Some ''contrast-cc-metal-qemu-snp-0123abcd''"
  "from_runtime_class_string ''contrast-cc-metal-qemu-snp-0123abcd'' = Inr MetalQEMUSNP" "is_snp MetalQEMUSNP"
  "init_containers snp_pod = []" "get_cpu_count (pod_resources snp_pod) = 0"
proof -
  show "from_runtime_class_string ''contrast-cc-metal-qemu-snp-0123abcd'' = Inr MetalQEMUSNP" by code_simp
qed (simp_all add: pod_of_def snp_workload_def snp_pod_def demo_pod_def is_contrast_pod_def has_prefix_def
    get_cpu_count_def milli_limit_def)

lemma snp_workload_checked: "cpu_count_valid snp_workload = None"
proof -
  have "get_pod_cpu_count snp_pod = 1" by code_simp
  then show ?thesis by (simp add: cpu_count_valid_None [OF snp_workload_facts(1,2)])
qed

lemma snp_manifest_values:
  "snp_values_for_product (snp (refvals (snp_manifest pol info))) MetalQEMUSNP ''Milan'' = Some (snp_reference pol info)"
  "apeip (snp_reference pol info) \<noteq> ''''" "allowed_chip_ids (snp_reference pol info) = []"
  by (simp_all add: snp_values_for_product_def snp_manifest_def snp_reference_def)

section \<open>An initializer\<close>

lemma demo_initializer:
  "\<exists>r' i. add_initializer snp_workload (new_initializer ''coordinator-ready.default'' MemoryProfileFull) = Inr (r', i)"
  by (simp add: add_initializer_def snp_workload_def initializer_pod_def snp_pod_def demo_pod_def is_contrast_pod_def
      has_prefix_def secure_pv_def new_initializer_def secrets_mount_def ensure_volume_exists_def Let_def)

end
