(* ===== verification/Gostd.thy ===== *)
theory Gostd
  imports Prelude
begin

text \<open>
  What Go does with slices and text: slicing up to the capacity with its panics, \<open>copy\<close>, the
  conversion of a string into runes and \<open>utf16.Encode\<close>.
\<close>

section \<open>Slices\<close>

text \<open>
  A slice is its length and the memory from its first element up to its capacity. \<open>s[a:]\<close> needs
  \<open>a \<le> len(s)\<close>, but \<open>s[:n]\<close> only \<open>n \<le> cap(s)\<close>: it may grow again.
\<close>

record goslice =
  sl_len :: nat
  sl_mem :: bytes

definition slice_ok :: "goslice \<Rightarrow> bool" where
  "slice_ok s \<longleftrightarrow> sl_len s \<le> length (sl_mem s)"

definition slice_bytes :: "goslice \<Rightarrow> bytes" where
  "slice_bytes s = take (sl_len s) (sl_mem s)"

definition whole_slice :: "bytes \<Rightarrow> goslice" where
  "whole_slice b = \<lparr>sl_len = length b, sl_mem = b\<rparr>"

definition slice_panic :: goerr where
  "slice_panic = Panic ''slice bounds out of range''"

definition slice_from :: "goslice \<Rightarrow> int \<Rightarrow> goslice result" where
  "slice_from s a = (if a < 0 \<or> a > int (sl_len s) then Inl slice_panic
     else Inr \<lparr>sl_len = sl_len s - nat a, sl_mem = drop (nat a) (sl_mem s)\<rparr>)"

definition slice_to :: "goslice \<Rightarrow> nat \<Rightarrow> goslice result" where
  "slice_to s n = (if n > length (sl_mem s) then Inl slice_panic else Inr \<lparr>sl_len = n, sl_mem = sl_mem s\<rparr>)"

text \<open>\<open>fmt.Errorf\<close> around a call: a panic in the call passes it by.\<close>

definition wrap_err :: "string \<Rightarrow> goerr \<Rightarrow> goerr" where
  "wrap_err ctx e = (case e of Panic m \<Rightarrow> e | _ \<Rightarrow> Wrap ctx e)"

text \<open>\<open>s[a:][:n]\<close>, as a slice and as its bytes.\<close>

definition subslice :: "goslice \<Rightarrow> int \<Rightarrow> nat \<Rightarrow> goslice result" where
  "subslice s a n = (case slice_from s a of Inl e \<Rightarrow> Inl e | Inr t \<Rightarrow> slice_to t n)"

definition read_slice :: "goslice \<Rightarrow> int \<Rightarrow> nat \<Rightarrow> bytes result" where
  "read_slice s a n = (case subslice s a n of Inl e \<Rightarrow> Inl e | Inr t \<Rightarrow> Inr (slice_bytes t))"

lemma subslice_ok:
  "subslice s a n = Inr t \<longleftrightarrow> 0 \<le> a \<and> nat a \<le> sl_len s \<and> n \<le> length (sl_mem s) - nat a
     \<and> t = \<lparr>sl_len = n, sl_mem = drop (nat a) (sl_mem s)\<rparr>"
  by (auto simp: subslice_def slice_from_def slice_to_def)

lemma read_slice_ok:
  "read_slice s a n = Inr b \<longleftrightarrow> 0 \<le> a \<and> nat a \<le> sl_len s \<and> n \<le> length (sl_mem s) - nat a
     \<and> b = take n (drop (nat a) (sl_mem s))"
  by (auto simp: read_slice_def slice_bytes_def subslice_ok split: sum.splits)
    (auto simp: subslice_def slice_from_def slice_to_def split: if_splits)

lemma read_slice_length: "read_slice s a n = Inr b \<Longrightarrow> length b = n"
  by (auto simp: read_slice_ok)

text \<open>\<open>copy(dst, src)\<close> overwrites a prefix of its destination.\<close>

definition go_copy :: "bytes \<Rightarrow> bytes \<Rightarrow> bytes" where
  "go_copy dst src = take (length dst) src @ drop (length src) dst"

lemma length_go_copy [simp]: "length (go_copy dst src) = length dst"
  by (simp add: go_copy_def)

lemma go_copy_full: "length src = length dst \<Longrightarrow> go_copy dst src = src"
  by (simp add: go_copy_def)

section \<open>Text\<close>

text \<open>
  The runes of a string: UTF-8 without overlong forms and surrogates; a byte that starts no
  well-formed sequence is the replacement character. \<open>decode_rune\<close> returns the number of further
  bytes that it takes.
\<close>

definition within :: "nat \<Rightarrow> nat \<Rightarrow> nat \<Rightarrow> bool" where
  "within lo hi x \<longleftrightarrow> lo \<le> x \<and> x \<le> hi"

definition rune_error :: nat where "rune_error = 0xFFFD"

text \<open>The range of the second byte for a leading byte of a sequence of three or four.\<close>

definition second_low :: "nat \<Rightarrow> nat" where
  "second_low b = (if b = 0xE0 then 0xA0 else if b = 0xF0 then 0x90 else 0x80)"

definition second_high :: "nat \<Rightarrow> nat" where
  "second_high b = (if b = 0xED then 0x9F else if b = 0xF4 then 0x8F else 0xBF)"

definition decode_rune :: "nat \<Rightarrow> nat list \<Rightarrow> nat \<times> nat" where
  "decode_rune b bs =
     (if b < 0x80 then (b, 0)
      else if within 0xC2 0xDF b then
        (case bs of c # _ \<Rightarrow> if within 0x80 0xBF c then ((b - 0xC0) * 64 + (c - 0x80), 1) else (rune_error, 0)
         | _ \<Rightarrow> (rune_error, 0))
      else if within 0xE0 0xEF b then
        (case bs of c # d # _ \<Rightarrow>
            if within (second_low b) (second_high b) c \<and> within 0x80 0xBF d
            then ((b - 0xE0) * 4096 + (c - 0x80) * 64 + (d - 0x80), 2) else (rune_error, 0)
         | _ \<Rightarrow> (rune_error, 0))
      else if within 0xF0 0xF4 b then
        (case bs of c # d # e # _ \<Rightarrow>
            if within (second_low b) (second_high b) c \<and> within 0x80 0xBF d \<and> within 0x80 0xBF e
            then ((b - 0xF0) * 262144 + (c - 0x80) * 4096 + (d - 0x80) * 64 + (e - 0x80), 3) else (rune_error, 0)
         | _ \<Rightarrow> (rune_error, 0))
      else (rune_error, 0))"

fun runes_of :: "nat list \<Rightarrow> nat list" where
  "runes_of [] = []"
| "runes_of (b # bs) = fst (decode_rune b bs) # runes_of (drop (snd (decode_rune b bs)) bs)"

definition runes :: "string \<Rightarrow> nat list" where
  "runes s = runes_of (map of_char s)"

text \<open>The UTF-16 code units of a rune.\<close>

definition utf16_units :: "nat \<Rightarrow> 16 word list" where
  "utf16_units r =
     (if r < 0xD800 \<or> within 0xE000 0xFFFF r then [of_nat r]
      else if within 0x10000 0x10FFFF r
      then [of_nat (0xD800 + (r - 0x10000) div 1024 mod 1024), of_nat (0xDC00 + (r - 0x10000) mod 1024)]
      else [0xFFFD])"

definition utf16_encode :: "nat list \<Rightarrow> 16 word list" where
  "utf16_encode rs = concat (map utf16_units rs)"

definition ascii :: "string \<Rightarrow> bool" where
  "ascii s \<longleftrightarrow> (\<forall>c\<in>set s. (of_char c :: nat) < 128)"

lemma utf16_ascii: "ascii s \<Longrightarrow> utf16_encode (runes s) = map (\<lambda>c. of_nat (of_char c)) s"
  by (induction s) (auto simp: utf16_encode_def runes_def ascii_def decode_rune_def utf16_units_def)

lemma utf16_ascii_inject:
  assumes "ascii s" and "ascii t" and "utf16_encode (runes s) = utf16_encode (runes t)"
  shows "s = t"
proof -
  have "map (\<lambda>c. of_char c :: nat) s = map (\<lambda>c. of_char c) t"
  proof -
    have k: "map (unat \<circ> (\<lambda>c. of_nat (of_char c) :: 16 word)) u = map of_char u" if "ascii u" for u
      using that by (induction u) (auto simp: ascii_def unat_of_nat take_bit_eq_mod)
    have "map (\<lambda>c. of_nat (of_char c) :: 16 word) s = map (\<lambda>c. of_nat (of_char c)) t"
      using assms(3) by (simp only: utf16_ascii [OF assms(1)] utf16_ascii [OF assms(2)])
    then have "map unat (map (\<lambda>c. of_nat (of_char c) :: 16 word) s) = map unat (map (\<lambda>c. of_nat (of_char c) :: 16 word) t)"
      by (rule arg_cong)
    then show ?thesis unfolding map_map k [OF assms(1)] k [OF assms(2)] .
  qed
  then show ?thesis by (metis (no_types, lifting) char_of_char list.map_comp list.map_ident_strong comp_apply map_map)
qed

section \<open>Numbers and words\<close>

text \<open>\<open>strconv.Atoi\<close>: an optional sign and decimal digits, within 64 bits.\<close>

definition digit_value :: "char \<Rightarrow> nat option" where
  "digit_value c = (let n = of_char c :: nat in if 48 \<le> n \<and> n \<le> 57 then Some (n - 48) else None)"

fun digits_value :: "nat \<Rightarrow> string \<Rightarrow> nat option" where
  "digits_value acc [] = Some acc"
| "digits_value acc (c # s) = (case digit_value c of None \<Rightarrow> None | Some d \<Rightarrow> digits_value (10 * acc + d) s)"

definition go_atoi :: "string \<Rightarrow> int result" where
  "go_atoi s =
     (let (neg, ds) = (case s of c # s' \<Rightarrow> if c = CHR ''-'' then (True, s') else if c = CHR ''+'' then (False, s') else (False, s)
                       | [] \<Rightarrow> (False, s)) in
      if ds = '''' then Inl (Sentinel ''invalid syntax'') else
      case digits_value 0 ds of
        None \<Rightarrow> Inl (Sentinel ''invalid syntax'')
      | Some n \<Rightarrow> (let v = (if neg then - int n else int n) in
          if v < - (2 ^ 63) \<or> v \<ge> 2 ^ 63 then Inl (Sentinel ''value out of range'') else Inr v))"

text \<open>\<open>strconv.ParseBool\<close>.\<close>

definition go_parse_bool :: "string \<Rightarrow> bool result" where
  "go_parse_bool s =
     (if s \<in> {''1'', ''t'', ''T'', ''true'', ''TRUE'', ''True''} then Inr True
      else if s \<in> {''0'', ''f'', ''F'', ''false'', ''FALSE'', ''False''} then Inr False
      else Inl (Sentinel ''invalid syntax''))"

text \<open>\<open>strings.Split(s, "##")\<close>, for any separator of two equal characters.\<close>

fun split_double :: "char \<Rightarrow> string \<Rightarrow> string list" where
  "split_double sep [] = [[]]"
| "split_double sep [c] = [[c]]"
| "split_double sep (c # d # s) =
     (if c = sep \<and> d = sep then [] # split_double sep s
      else (case split_double sep (d # s) of [] \<Rightarrow> [[c]] | w # ws \<Rightarrow> (c # w) # ws))"

end
