(* ===== verification/Tdxmeasure.thy ===== *)
theory Tdxmeasure
  imports Gostd Platforms
begin

text \<open>
  The launch measurements of a TDX guest, \<open>tools/tdx-measure\<close>: MRTD from the sections of the firmware
  (\<open>tdvf/tdvf.go\<close>, \<open>mrtd/mrtd.go\<close>, \<open>eventlog\<close>) and RTMR 0 to 2 from the firmware, the kernel, its
  command line and its initrd (\<open>rtmr/rtmr.go\<close>). SHA-384 and the Authenticode parser are parameters.
  The walk through the firmware's table follows lengths in the file and may not end.
\<close>

section \<open>Locating the metadata\<close>

definition table_footer_guid :: bytes where
  "table_footer_guid = [0xde, 0x82, 0xb5, 0x96, 0xb2, 0x1f, 0xf7, 0x45, 0xba, 0xea, 0xa3, 0x66, 0xc5, 0x5a, 0x08, 0x2d]"

definition tdx_metadata_offset_guid :: bytes where
  "tdx_metadata_offset_guid =
     [0x35, 0x65, 0x7a, 0xe4, 0x4a, 0x98, 0x98, 0x47, 0x86, 0x5e, 0x46, 0x85, 0xa7, 0xbf, 0x8e, 0xc2]"

definition metadata_signature :: string where "metadata_signature = ''TDVF''"

text \<open>The entries lie one before the other; an entry ends with its length and its GUID.\<close>

partial_function (option) find_entry :: "goslice \<Rightarrow> int \<Rightarrow> int \<Rightarrow> nat result option" where
  "find_entry fw end_offset offset =
     (if end_offset < offset then
       (case read_slice fw (offset - 16) 16 of Inl e \<Rightarrow> Some (Inl e)
        | Inr guid \<Rightarrow>
       (case read_slice fw (offset - 18) 2 of Inl e \<Rightarrow> Some (Inl e)
        | Inr len \<Rightarrow>
        if guid = tdx_metadata_offset_guid then
          (case read_slice fw (offset - 22) 4 of Inl e \<Rightarrow> Some (Inl e) | Inr b \<Rightarrow> Some (Inr (le_value b)))
        else find_entry fw end_offset (offset - int (le_value len))))
      else Some (Inl (Msg ''can't find TDX metadata offset block entry'')))"

definition find_tdvf_metadata_offset :: "goslice \<Rightarrow> nat result option" where
  "find_tdvf_metadata_offset fw =
     (let n = int (sl_len fw) in
      case read_slice fw (n - 48) 16 of Inl e \<Rightarrow> Some (Inl e)
      | Inr guid \<Rightarrow>
      if guid \<noteq> table_footer_guid then Some (Inl (Msg ''can't find table footer GUID'')) else
     (case read_slice fw (n - 50) 2 of Inl e \<Rightarrow> Some (Inl e)
      | Inr b \<Rightarrow> find_entry fw (n - 32 - int (le_value b)) (n - 50)))"

section \<open>Sections\<close>

record tdvf_section =
  data_offset :: nat
  raw_data_size :: nat
  memory_address :: "64 word"
  memory_data_size :: nat
  section_type :: nat
  section_attributes :: "32 word"

definition cfv_section :: nat where "cfv_section = 1"

definition section_of :: "bytes \<Rightarrow> tdvf_section" where
  "section_of b = \<lparr>data_offset = le_value (take 4 b), raw_data_size = le_value (take 4 (drop 4 b)),
     memory_address = of_nat (le_value (take 8 (drop 8 b))), memory_data_size = le_value (take 8 (drop 16 b)),
     section_type = le_value (take 4 (drop 24 b)), section_attributes = of_nat (le_value (take 4 (drop 28 b)))\<rparr>"

text \<open>The position of an entry is computed in 32 bits.\<close>

fun read_sections :: "goslice \<Rightarrow> nat list \<Rightarrow> tdvf_section list result" where
  "read_sections d [] = Inr []"
| "read_sections d (i # is) = (case read_slice d (uint (of_nat i * 32 :: 32 word)) 32 of
     Inl e \<Rightarrow> Inl e
   | Inr b \<Rightarrow> (case read_sections d is of Inl e \<Rightarrow> Inl e | Inr ss \<Rightarrow> Inr (section_of b # ss)))"

definition sections_at :: "goslice \<Rightarrow> nat \<Rightarrow> tdvf_section list result" where
  "sections_at fw offset =
     (case slice_from fw (int (sl_len fw) - int offset) of Inl e \<Rightarrow> Inl e
      | Inr metadata \<Rightarrow>
     (case slice_to metadata 16 of Inl e \<Rightarrow> Inl e
      | Inr hdr \<Rightarrow>
      let h = slice_bytes hdr in
      if take 4 h \<noteq> bytes_of_string metadata_signature then Inl (Msg ''unexpected signature'')
      else if le_value (take 4 (drop 8 h)) \<noteq> 1 then Inl (Msg ''unexpected version'')
      else
     (case slice_from metadata 16 of Inl e \<Rightarrow> Inl e
      | Inr d \<Rightarrow> read_sections d [0..<le_value (take 4 (drop 12 h))])))"

definition parse_tdvf_sections :: "goslice \<Rightarrow> tdvf_section list result option" where
  "parse_tdvf_sections fw = (case find_tdvf_metadata_offset fw of
     None \<Rightarrow> None
   | Some (Inl e) \<Rightarrow> Some (Inl (wrap_err ''can't locate TDX firmware metadata offset'' e))
   | Some (Inr offset) \<Rightarrow> Some (sections_at fw offset))"

section \<open>MRTD\<close>

text \<open>
  The state of a launch is what was written to its hash, and the text of its event log. Where the
  log cannot be saved is a parameter.
\<close>

record launch_context =
  mr_td_hash :: bytes
  event_log :: string

fun hex_text :: "nat \<Rightarrow> string" where
  "hex_text n = (if n < 16 then [hex_digit n] else hex_text (n div 16) @ [hex_digit (n mod 16)])"

definition log_line :: "string \<Rightarrow> 64 word \<Rightarrow> string" where
  "log_line name gpa = name @ '' gpa=0x'' @ hex_text (unat gpa) @ [CHR 0x0A]"

definition new_launch_context :: launch_context where
  "new_launch_context = \<lparr>mr_td_hash = [], event_log = ''TDH_MNG_INIT'' @ [CHR 0x0A]\<rparr>"

text \<open>128 bytes: the name of the call, padded to 16, the address, and zeros.\<close>

definition call_record :: "string \<Rightarrow> 64 word \<Rightarrow> bytes" where
  "call_record name gpa = go_copy (replicate 16 0) (bytes_of_string name) @ le_bytes 8 gpa @ replicate 104 0"

definition mem_page_add :: "64 word \<Rightarrow> launch_context \<Rightarrow> launch_context" where
  "mem_page_add gpa l = l\<lparr>mr_td_hash := mr_td_hash l @ call_record ''MEM.PAGE.ADD'' gpa,
     event_log := event_log l @ log_line ''TDH_MEM_PAGE_ADD'' gpa\<rparr>"

definition mr_extend :: "64 word \<Rightarrow> bytes \<Rightarrow> launch_context \<Rightarrow> launch_context" where
  "mr_extend gpa content l = l\<lparr>mr_td_hash := mr_td_hash l @ call_record ''MR.EXTEND'' gpa @ content,
     event_log := event_log l @ log_line ''TDH_MR_EXTEND'' gpa\<rparr>"

definition finalize_launch :: "(bytes \<Rightarrow> bytes) \<Rightarrow> goerr option \<Rightarrow> launch_context \<Rightarrow> bytes result" where
  "finalize_launch sha384 save_err l = (case save_err of
     Some e \<Rightarrow> Inl (Wrap ''saving mrtd eventlog to file'' e)
   | None \<Rightarrow> Inr (go_copy (replicate 48 0) (sha384 (mr_td_hash l))))"

text \<open>A region: pages of 4096 bytes, each in chunks of 256.\<close>

fun write_chunks :: "64 word \<Rightarrow> goslice \<Rightarrow> nat \<Rightarrow> nat list \<Rightarrow> launch_context \<Rightarrow> launch_context result" where
  "write_chunks page_address data page_offset [] l = Inr l"
| "write_chunks page_address data page_offset (j # js) l =
     (case read_slice data (int (page_offset + j * 256)) 256 of
        Inl e \<Rightarrow> Inl e
      | Inr chunk \<Rightarrow> write_chunks page_address data page_offset js (mr_extend (page_address + of_nat (j * 256)) chunk l))"

fun write_pages :: "64 word \<Rightarrow> goslice \<Rightarrow> bool \<Rightarrow> nat list \<Rightarrow> launch_context \<Rightarrow> launch_context result" where
  "write_pages gpa data ext [] l = Inr l"
| "write_pages gpa data ext (i # is) l =
     (let page_address = gpa + of_nat (i * 4096); l1 = mem_page_add page_address l in
      if \<not> ext then write_pages gpa data ext is l1 else
      case write_chunks page_address data (i * 4096) [0..<16] l1 of
        Inl e \<Rightarrow> Inl e
      | Inr l2 \<Rightarrow> write_pages gpa data ext is l2)"

definition write_region :: "64 word \<Rightarrow> goslice \<Rightarrow> nat \<Rightarrow> bool \<Rightarrow> launch_context \<Rightarrow> launch_context result" where
  "write_region gpa data data_len ext l =
     (if data_len mod 4096 \<noteq> 0 then Inl (Msg ''data length is not a multiple of page size'')
      else write_pages gpa data ext [0..<data_len div 4096] l)"

fun write_sections :: "goslice \<Rightarrow> tdvf_section list \<Rightarrow> launch_context \<Rightarrow> launch_context result" where
  "write_sections fw [] l = Inr l"
| "write_sections fw (s # ss) l = (case subslice fw (int (data_offset s)) (raw_data_size s) of
     Inl e \<Rightarrow> Inl e
   | Inr data \<Rightarrow>
     (case write_region (memory_address s) data (memory_data_size s) (bit (section_attributes s) 0) l of
        Inl e \<Rightarrow> Inl (wrap_err ''can't add region'' e)
      | Inr l' \<Rightarrow> write_sections fw ss l'))"

definition calculate_mrtd :: "(bytes \<Rightarrow> bytes) \<Rightarrow> goerr option \<Rightarrow> goslice \<Rightarrow> bytes result option" where
  "calculate_mrtd sha384 save_err fw = (case parse_tdvf_sections fw of
     None \<Rightarrow> None
   | Some (Inl e) \<Rightarrow> Some (Inl (wrap_err ''can't parse TDVF sections'' e))
   | Some (Inr ss) \<Rightarrow> Some (case write_sections fw ss new_launch_context of
       Inl e \<Rightarrow> Inl e
     | Inr l \<Rightarrow> (case finalize_launch sha384 save_err l of
         Inl e \<Rightarrow> Inl (Wrap ''can't finalize launch context'' e)
       | Inr d \<Rightarrow> Inr d)))"

fun cfv_of :: "goslice \<Rightarrow> tdvf_section list \<Rightarrow> bytes result" where
  "cfv_of fw [] = Inl (Msg ''can't find CFV section'')"
| "cfv_of fw (s # ss) = (if section_type s = cfv_section
     then read_slice fw (int (data_offset s)) (raw_data_size s) else cfv_of fw ss)"

definition find_cfv :: "goslice \<Rightarrow> bytes result option" where
  "find_cfv fw = (case parse_tdvf_sections fw of
     None \<Rightarrow> None
   | Some (Inl e) \<Rightarrow> Some (Inl (wrap_err ''can't parse TDVF sections'' e))
   | Some (Inr ss) \<Rightarrow> Some (cfv_of fw ss))"

section \<open>RTMRs\<close>

datatype gpu_model = GPUModelNone | GPUModelH100 | GPUModelB200 | GPUModelB300

definition gpu_model_from_string :: "string \<Rightarrow> gpu_model result" where
  "gpu_model_from_string s =
     (let l = to_lower s in
      if l = ''none'' then Inr GPUModelNone else if l = ''h100'' then Inr GPUModelH100
      else if l = ''b200'' then Inr GPUModelB200 else if l = ''b300'' then Inr GPUModelB300
      else Inl (Msg (''unknown GPU model: '' @ s)))"

text \<open>A register starts as 48 zero bytes.\<close>

definition empty_rtmr :: bytes where "empty_rtmr = replicate 48 0"

definition rtmr_extend :: "(bytes \<Rightarrow> bytes) \<Rightarrow> bytes \<Rightarrow> bytes \<Rightarrow> bytes" where
  "rtmr_extend sha384 r d = go_copy r (sha384 (r @ d))"

definition hash_and_extend :: "(bytes \<Rightarrow> bytes) \<Rightarrow> bytes \<Rightarrow> bytes \<Rightarrow> bytes" where
  "hash_and_extend sha384 r b = rtmr_extend sha384 r (sha384 b)"

definition le_units :: "16 word list \<Rightarrow> bytes" where
  "le_units us = concat (map (le_bytes 2) us)"

definition variable_log :: "bytes \<Rightarrow> string \<Rightarrow> bytes \<Rightarrow> bytes" where
  "variable_log uuid name data =
     (let unicode_name = utf16_encode (runes name) in
      go_copy (replicate 16 0) uuid @ le_bytes 8 (of_nat (length unicode_name) :: 64 word)
        @ le_bytes 8 (of_nat (length data) :: 64 word) @ le_units unicode_name @ data)"

definition extend_variable :: "(bytes \<Rightarrow> bytes) \<Rightarrow> bytes \<Rightarrow> bytes \<Rightarrow> string \<Rightarrow> bytes \<Rightarrow> bytes" where
  "extend_variable sha384 r uuid name data = hash_and_extend sha384 r (variable_log uuid name data)"

definition extend_variable_value :: "(bytes \<Rightarrow> bytes) \<Rightarrow> bytes \<Rightarrow> bytes \<Rightarrow> bytes" where
  "extend_variable_value = hash_and_extend"

definition extend_separator :: "(bytes \<Rightarrow> bytes) \<Rightarrow> bytes \<Rightarrow> bytes" where
  "extend_separator sha384 r = hash_and_extend sha384 r [0, 0, 0, 0]"

definition efi_global_variable :: bytes where
  "efi_global_variable =
     [0x61, 0xdf, 0xe4, 0x8b, 0xca, 0x93, 0xd2, 0x11, 0xaa, 0x0d, 0x00, 0xe0, 0x98, 0x03, 0x2b, 0x8c]"

definition efi_image_security_database_guid :: bytes where
  "efi_image_security_database_guid =
     [0xcb, 0xb2, 0x19, 0xd7, 0x3a, 0x3d, 0x96, 0x45, 0xa3, 0xbc, 0xda, 0xd0, 0x0e, 0x67, 0x65, 0x6f]"

text \<open>The hashes of the ACPI tables of the two virtual machine topologies.\<close>

definition acpi_hashes :: "string list" where
  "acpi_hashes =
     [''a98ebc08f45482c21c329b93a51b926a299c4c366d4e79d6ba586e4a8c92a66e9d593b176ffdf32476f0dd81bb68f95b'',
      ''6cd5eb8fa5c659b3ac4172a1c678aa1bba3118e107dcc5cdea0deec83b50e152703822396ef3422fd020bbf0ffdc3491'',
      ''764a603f33825a43eff061cf6154516d8304eb420a08c06b7e3d7a956932b82efa591701b1854a1fb75a8deb54b2aefc'']"

definition legacy_serial_acpi_hashes :: "string list" where
  "legacy_serial_acpi_hashes =
     [''1714c92f524640a6763417944c2c0e59b81b8560c94e8f8cb3e0b30c895c2eb90b6fd380dce3e4b89b8356766c7eacee'',
      ''0d00216b9fcdff6a6dfb7bb92b8ccf35b6804d5d195f2b9dd34fbecd0585433cf567a520f3cefb45a792469f859430b2'',
      ''05e27a7651b031e69216a487d39aba403766b546bba04b2bebfdc5bc160275a75249cfe147a753b799b5023a17124da4'']"

definition config_hashes :: "gpu_model \<Rightarrow> bool \<Rightarrow> string list" where
  "config_hashes gpu legacy_serial =
     (if gpu = GPUModelNone then (if legacy_serial then legacy_serial_acpi_hashes else acpi_hashes) else [])"

fun extend_hashes :: "(bytes \<Rightarrow> bytes) \<Rightarrow> string list \<Rightarrow> bytes \<Rightarrow> bytes result" where
  "extend_hashes sha384 [] r = Inr r"
| "extend_hashes sha384 (h # hs) r = (case hex_decode h of
     Inl e \<Rightarrow> Inl (Wrap (''can't decode config hash '' @ h) e)
   | Inr b \<Rightarrow> extend_hashes sha384 hs (rtmr_extend sha384 r (go_copy (replicate 48 0) b)))"

definition boot_order :: bytes where
  "boot_order = bytes_of_string (''/rom@genroms/linuxboot_dma.bin'' @ [CHR 0x00])"

definition calc_rtmr0 :: "(bytes \<Rightarrow> bytes) \<Rightarrow> goslice \<Rightarrow> gpu_model \<Rightarrow> bool \<Rightarrow> bytes result option" where
  "calc_rtmr0 sha384 fw gpu legacy_serial = (case find_cfv fw of
     None \<Rightarrow> None
   | Some (Inl e) \<Rightarrow> Some (Inl (wrap_err ''can't find CFV section in firmware'' e))
   | Some (Inr cfv) \<Rightarrow>
       (let r1 = hash_and_extend sha384 empty_rtmr cfv;
            r2 = extend_variable_value sha384 r1 [0, 0];
            r3 = extend_variable_value sha384 r2 boot_order;
            r4 = extend_variable sha384 r3 efi_global_variable ''SecureBoot'' [];
            r5 = extend_variable sha384 r4 efi_global_variable ''PK'' [];
            r6 = extend_variable sha384 r5 efi_global_variable ''KEK'' [];
            r7 = extend_variable sha384 r6 efi_image_security_database_guid ''db'' [];
            r8 = extend_variable sha384 r7 efi_image_security_database_guid ''dbx'' [];
            r9 = extend_separator sha384 r8
        in Some (extend_hashes sha384 (config_hashes gpu legacy_serial) r9)))"

text \<open>\<open>authenticode\<close> parses the kernel and returns its SHA-384 Authenticode hash.\<close>

definition calc_rtmr1 :: "(bytes \<Rightarrow> bytes) \<Rightarrow> (bytes \<Rightarrow> bytes result) \<Rightarrow> bytes \<Rightarrow> bytes result" where
  "calc_rtmr1 sha384 authenticode kernel_file = (case authenticode kernel_file of
     Inl e \<Rightarrow> Inl (Wrap ''can't parse kernel'' e)
   | Inr h \<Rightarrow>
       if length h \<noteq> 48 then Inl (Msg ''kernel hash has unexpected length'') else
       (let r1 = rtmr_extend sha384 empty_rtmr h;
            r2 = hash_and_extend sha384 r1 (bytes_of_string ''Calling EFI Application from Boot Option'');
            r3 = extend_separator sha384 r2;
            r4 = hash_and_extend sha384 r3 (bytes_of_string ''Exit Boot Services Invocation'')
        in Inr (hash_and_extend sha384 r4 (bytes_of_string ''Exit Boot Services Returned with Success''))))"

text \<open>The command line is measured in UTF-16 with a terminating zero.\<close>

definition cmdline_bytes :: "string \<Rightarrow> bytes" where
  "cmdline_bytes cmd_line = le_units (utf16_encode (runes (''initrd=initrd '' @ cmd_line))) @ [0, 0]"

definition calc_rtmr2 :: "(bytes \<Rightarrow> bytes) \<Rightarrow> string \<Rightarrow> bytes \<Rightarrow> bytes" where
  "calc_rtmr2 sha384 cmd_line initrd =
     hash_and_extend sha384 (hash_and_extend sha384 empty_rtmr (cmdline_bytes cmd_line)) initrd"

text \<open>
  \<open>tdx-measure mrtd\<close>: the firmware file, and what making the directory of the event log and saving
  the log return.
\<close>

definition run_mrtd ::
  "(bytes \<Rightarrow> bytes) \<Rightarrow> goerr option \<Rightarrow> goerr option \<Rightarrow> goslice result \<Rightarrow> string result option" where
  "run_mrtd sha384 dir_err save_err file =
     (case file of Inl e \<Rightarrow> Some (Inl (Wrap ''can't read firmware file'' e))
      | Inr fw \<Rightarrow>
     (case dir_err of Some e \<Rightarrow> Some (Inl (Wrap ''can't ensure eventlog dir'' e))
      | None \<Rightarrow>
     (case calculate_mrtd sha384 save_err fw of None \<Rightarrow> None
      | Some (Inl e) \<Rightarrow> Some (Inl (wrap_err ''can't calculate MRTD for firmware'' e))
      | Some (Inr d) \<Rightarrow> Some (Inr (hex_encode d)))))"

text \<open>\<open>tdx-measure rtmr\<close> over its flags and the contents of the files they name.\<close>

record rtmr_inputs =
  firmware_file :: "goslice result"
  gpu_model_flag :: string
  legacy_serial_flag :: bool
  kernel_contents :: "bytes result"
  cmdline_flag :: string
  initrd_contents :: "bytes result"

definition run_rtmr ::
  "(bytes \<Rightarrow> bytes) \<Rightarrow> (bytes \<Rightarrow> bytes result) \<Rightarrow> string \<Rightarrow> rtmr_inputs \<Rightarrow> string result option" where
  "run_rtmr sha384 authenticode arg inp =
     map_option (\<lambda>r. case r of Inl e \<Rightarrow> Inl e | Inr d \<Rightarrow> Inr (hex_encode d))
       (if arg = ''0'' then
          (case firmware_file inp of Inl e \<Rightarrow> Some (Inl (Wrap ''can't read firmware file'' e))
           | Inr fw \<Rightarrow> (case gpu_model_from_string (gpu_model_flag inp) of
               Inl e \<Rightarrow> Some (Inl (Wrap ''invalid gpu model'' e))
             | Inr gpu \<Rightarrow> (case calc_rtmr0 sha384 fw gpu (legacy_serial_flag inp) of
                 None \<Rightarrow> None
               | Some (Inl e) \<Rightarrow> Some (Inl (wrap_err ''can't calculate RTMR 0'' e))
               | Some (Inr d) \<Rightarrow> Some (Inr d))))
        else if arg = ''1'' then
          (case kernel_contents inp of Inl e \<Rightarrow> Some (Inl (Wrap ''can't read kernel file'' e))
           | Inr k \<Rightarrow> (case calc_rtmr1 sha384 authenticode k of
               Inl e \<Rightarrow> Some (Inl (Wrap ''can't calculate RTMR 1'' e)) | Inr d \<Rightarrow> Some (Inr d)))
        else if arg = ''2'' then
          (case initrd_contents inp of Inl e \<Rightarrow> Some (Inl (Wrap ''can't read initrd file'' e))
           | Inr i \<Rightarrow> Some (Inr (calc_rtmr2 sha384 (cmdline_flag inp) i)))
        else Some (Inr (replicate 48 0)))"

end
