(* ===== verification/TdxmeasureFacts.thy ===== *)
theory TdxmeasureFacts
  imports Tdxmeasure
begin

text \<open>
  The walk through the firmware's table returns when no entry on its way has length zero, and runs
  forever at one that has; the MRTD commits to the sequence of pages and contents that were added;
  RTMR 2 commits to the command line and the initrd.
\<close>

section \<open>The walk through the table\<close>

lemma find_entry_returns:
  assumes "\<And>o' len. endo < o' \<Longrightarrow> o' \<le> off \<Longrightarrow> read_slice fw (o' - 18) 2 = Inr len \<Longrightarrow> le_value len \<noteq> 0"
  shows "\<exists>r. find_entry fw endo off = Some r"
  using assms
proof (induction "nat (off - endo)" arbitrary: off rule: less_induct)
  case less
  show ?case
  proof (cases "endo < off")
    case False
    then show ?thesis by (subst find_entry.simps) simp
  next
    case True
    show ?thesis
    proof (cases "read_slice fw (off - 18) 2")
      case (Inl e)
      then show ?thesis using True by (subst find_entry.simps) (auto split: sum.splits)
    next
      case (Inr len)
      have pos: "0 < le_value len" using less.prems [OF True _ Inr] by simp
      have "le_value l \<noteq> 0" if "endo < q" "q \<le> off - int (le_value len)" "read_slice fw (q - 18) 2 = Inr l" for q l
        by (rule less.prems [OF that(1) _ that(3)]) (use that(2) pos in simp)
      then have "\<exists>r. find_entry fw endo (off - int (le_value len)) = Some r"
        using less.hyps [of "off - int (le_value len)"] True pos by simp
      then show ?thesis using True Inr by (subst find_entry.simps) (auto split: sum.splits)
    qed
  qed
qed

text \<open>At an entry with another GUID and length zero the walk stands still.\<close>

definition stuck_at :: "goslice \<Rightarrow> int \<Rightarrow> bool" where
  "stuck_at fw off \<longleftrightarrow> (\<exists>guid len. read_slice fw (off - 16) 16 = Inr guid \<and> guid \<noteq> tdx_metadata_offset_guid
     \<and> read_slice fw (off - 18) 2 = Inr len \<and> le_value len = 0)"

lemma find_entry_stuck:
  assumes "endo < off" and "stuck_at fw off"
  shows "find_entry fw endo off = None"
proof (cases "find_entry fw endo off")
  case (Some y)
  have "endo < off \<longrightarrow> stuck_at fw off \<longrightarrow> False"
  proof (rule find_entry.raw_induct [OF _ Some])
    fix f :: "goslice \<Rightarrow> int \<Rightarrow> int \<Rightarrow> nat result option" and fw endo off y
    assume ih: "\<And>fw endo off y. f fw endo off = Some y \<Longrightarrow> endo < off \<longrightarrow> stuck_at fw off \<longrightarrow> False"
    assume body: "(if endo < off then
       (case read_slice fw (off - 16) 16 of Inl e \<Rightarrow> Some (Inl e)
        | Inr guid \<Rightarrow>
       (case read_slice fw (off - 18) 2 of Inl e \<Rightarrow> Some (Inl e)
        | Inr len \<Rightarrow>
        if guid = tdx_metadata_offset_guid then
          (case read_slice fw (off - 22) 4 of Inl e \<Rightarrow> Some (Inl e) | Inr b \<Rightarrow> Some (Inr (le_value b)))
        else f fw endo (off - int (le_value len))))
      else Some (Inl (Msg ''can't find TDX metadata offset block entry''))) = Some y"
    show "endo < off \<longrightarrow> stuck_at fw off \<longrightarrow> False"
    proof (intro impI)
      assume lt: "endo < off" and st: "stuck_at fw off"
      then obtain guid len where "read_slice fw (off - 16) 16 = Inr guid" "guid \<noteq> tdx_metadata_offset_guid"
        "read_slice fw (off - 18) 2 = Inr len" "le_value len = 0" unfolding stuck_at_def by blast
      then have "f fw endo off = Some y" using body lt by simp
      then show False using ih lt st by blast
    qed
  qed
  with assms show ?thesis by simp
qed

text \<open>The entries that the walk looks at.\<close>

inductive table_walk :: "goslice \<Rightarrow> int \<Rightarrow> int \<Rightarrow> int \<Rightarrow> bool" for fw endo where
  here: "table_walk fw endo off off"
| step: "endo < off \<Longrightarrow> read_slice fw (off - 16) 16 = Inr guid \<Longrightarrow> guid \<noteq> tdx_metadata_offset_guid \<Longrightarrow>
    read_slice fw (off - 18) 2 = Inr len \<Longrightarrow> table_walk fw endo (off - int (le_value len)) q \<Longrightarrow> table_walk fw endo off q"

lemma find_entry_none_iff:
  "find_entry fw endo off = None \<longleftrightarrow> (\<exists>q>endo. table_walk fw endo off q \<and> stuck_at fw q)"
proof
  assume "find_entry fw endo off = None"
  then show "\<exists>q>endo. table_walk fw endo off q \<and> stuck_at fw q"
  proof (induction "nat (off - endo)" arbitrary: off rule: less_induct)
    case less
    note unf = less.prems [unfolded find_entry.simps [of fw endo off]]
    have lt: "endo < off" using unf by (auto split: if_splits)
    obtain guid len where r: "read_slice fw (off - 16) 16 = Inr guid" "guid \<noteq> tdx_metadata_offset_guid"
      "read_slice fw (off - 18) 2 = Inr len" and rec: "find_entry fw endo (off - int (le_value len)) = None"
      using unf lt by (auto split: sum.splits if_splits)
    show ?case
    proof (cases "le_value len = 0")
      case True
      then show ?thesis using lt r table_walk.here unfolding stuck_at_def by blast
    next
      case False
      then obtain q where "endo < q" "table_walk fw endo (off - int (le_value len)) q" "stuck_at fw q"
        using less.hyps [OF _ rec] lt by auto
      then show ?thesis using table_walk.step [OF lt r] by blast
    qed
  qed
next
  assume "\<exists>q>endo. table_walk fw endo off q \<and> stuck_at fw q"
  then obtain q where "table_walk fw endo off q" "endo < q" "stuck_at fw q" by blast
  then show "find_entry fw endo off = None"
  proof induction
    case (step off guid len q)
    then show ?case by (subst find_entry.simps) simp
  qed (rule find_entry_stuck)
qed

lemma metadata_search_none_iff:
  "find_tdvf_metadata_offset fw = None \<longleftrightarrow>
     (\<exists>b q. read_slice fw (int (sl_len fw) - 48) 16 = Inr table_footer_guid
        \<and> read_slice fw (int (sl_len fw) - 50) 2 = Inr b \<and> int (sl_len fw) - 32 - int (le_value b) < q
        \<and> table_walk fw (int (sl_len fw) - 32 - int (le_value b)) (int (sl_len fw) - 50) q \<and> stuck_at fw q)"
  unfolding find_tdvf_metadata_offset_def Let_def
  by (auto simp: find_entry_none_iff split: sum.splits if_splits)

lemma calculate_mrtd_none_iff: "calculate_mrtd H e fw = None \<longleftrightarrow> find_tdvf_metadata_offset fw = None"
  by (auto simp: calculate_mrtd_def parse_tdvf_sections_def split: option.splits sum.splits)

lemma calc_rtmr0_none_iff: "calc_rtmr0 H fw gpu legacy = None \<longleftrightarrow> find_tdvf_metadata_offset fw = None"
  by (auto simp: calc_rtmr0_def find_cfv_def parse_tdvf_sections_def Let_def split: option.splits sum.splits)

lemma metadata_search_stuck:
  assumes "read_slice fw (int (sl_len fw) - 48) 16 = Inr table_footer_guid"
    and "read_slice fw (int (sl_len fw) - 50) 2 = Inr b" and "18 < le_value b"
    and "stuck_at fw (int (sl_len fw) - 50)"
  shows "find_tdvf_metadata_offset fw = None" and "calculate_mrtd H e fw = None"
    and "calc_rtmr0 H fw gpu legacy = None"
proof -
  show f: "find_tdvf_metadata_offset fw = None"
    using assms find_entry_stuck by (simp add: find_tdvf_metadata_offset_def Let_def)
  then show "calculate_mrtd H e fw = None" "calc_rtmr0 H fw gpu legacy = None"
    by (simp_all add: calculate_mrtd_def parse_tdvf_sections_def calc_rtmr0_def find_cfv_def)
qed

section \<open>What MRTD commits to\<close>

text \<open>The calls that build the guest, and their encoding in the stream that is hashed.\<close>

datatype td_call = PageAdd "64 word" | MrExtend "64 word" bytes

fun encode_call :: "td_call \<Rightarrow> bytes" where
  "encode_call (PageAdd gpa) = call_record ''MEM.PAGE.ADD'' gpa"
| "encode_call (MrExtend gpa content) = call_record ''MR.EXTEND'' gpa @ content"

fun call_ok :: "td_call \<Rightarrow> bool" where
  "call_ok (PageAdd gpa) = True"
| "call_ok (MrExtend gpa content) = (length content = 256)"

definition page_calls :: "64 word \<Rightarrow> bytes \<Rightarrow> bool \<Rightarrow> nat \<Rightarrow> td_call list" where
  "page_calls gpa mem ext i =
     PageAdd (gpa + of_nat (i * 4096)) #
     (if ext then map (\<lambda>j. MrExtend (gpa + of_nat (i * 4096) + of_nat (j * 256)) (take 256 (drop (i * 4096 + j * 256) mem))) [0..<16]
      else [])"

definition region_calls :: "64 word \<Rightarrow> bytes \<Rightarrow> nat \<Rightarrow> bool \<Rightarrow> td_call list" where
  "region_calls gpa mem n ext = concat (map (page_calls gpa mem ext) [0..<n div 4096])"

definition section_calls :: "goslice \<Rightarrow> tdvf_section \<Rightarrow> td_call list" where
  "section_calls fw s = region_calls (memory_address s) (drop (data_offset s) (sl_mem fw)) (memory_data_size s)
     (bit (section_attributes s) 0)"

definition build_calls :: "goslice \<Rightarrow> tdvf_section list \<Rightarrow> td_call list" where
  "build_calls fw ss = concat (map (section_calls fw) ss)"

definition call_stream :: "td_call list \<Rightarrow> bytes" where
  "call_stream cs = concat (map encode_call cs)"

lemma call_stream_simps [simp]:
  "call_stream [] = []" "call_stream (c # cs) = encode_call c @ call_stream cs"
  "call_stream (cs @ ds) = call_stream cs @ call_stream ds"
  by (simp_all add: call_stream_def)

lemma length_call_record [simp]: "length (call_record name gpa) = 128"
  by (simp add: call_record_def)

lemma le_bytes_8_inject: "le_bytes 8 (a :: 64 word) = le_bytes 8 b \<Longrightarrow> a = b"
proof -
  assume "le_bytes 8 a = le_bytes 8 b"
  then have "le_value (le_bytes 8 a) = le_value (le_bytes 8 b)" by simp
  then have "unat a mod 2 ^ 64 = unat b mod 2 ^ 64" by (simp add: le_value_le_bytes)
  moreover have "unat x < 2 ^ 64" for x :: "64 word"
  proof -
    have "unat x < 2 ^ LENGTH(64)" by (rule unsigned_less)
    then show ?thesis by simp
  qed
  ultimately show "a = b" by (metis mod_less word_unat_eq_iff)
qed

lemma call_record_inject:
  "call_record ''MEM.PAGE.ADD'' a = call_record ''MEM.PAGE.ADD'' b \<longleftrightarrow> a = b"
  "call_record ''MR.EXTEND'' a = call_record ''MR.EXTEND'' b \<longleftrightarrow> a = b"
  by (auto simp: call_record_def dest: le_bytes_8_inject)

lemma call_record_differ: "call_record ''MEM.PAGE.ADD'' a \<noteq> call_record ''MR.EXTEND'' b"
proof -
  have "call_record ''MEM.PAGE.ADD'' a ! 1 \<noteq> call_record ''MR.EXTEND'' b ! 1"
    by (simp add: call_record_def go_copy_def bytes_of_string_def nth_append)
  then show ?thesis by metis
qed

lemma encode_call_prefix:
  assumes "call_ok c" and "call_ok d" and "encode_call c @ u = encode_call d @ v"
  shows "c = d \<and> u = v"
  using assms by (cases c; cases d) (auto simp: call_record_inject call_record_differ call_record_differ [symmetric])

lemma encode_call_nonempty [simp]: "encode_call c \<noteq> []"
proof -
  have "length (encode_call c) \<noteq> 0" by (cases c) simp_all
  then show ?thesis by fastforce
qed

lemma call_stream_inject:
  assumes "list_all call_ok cs" and "list_all call_ok ds" and "call_stream cs = call_stream ds"
  shows "cs = ds"
  using assms
proof (induction cs arbitrary: ds)
  case Nil
  then show ?case by (cases ds) auto
next
  case (Cons c cs)
  obtain d ds' where ds: "ds = d # ds'" using Cons.prems(3) by (cases ds) auto
  have "c = d \<and> call_stream cs = call_stream ds'"
    by (rule encode_call_prefix) (use Cons.prems ds in auto)
  then show ?case using Cons.IH [of ds'] Cons.prems(1,2) ds by simp
qed

text \<open>A launch that succeeds has hashed the calls of all sections, one after the other.\<close>

lemma write_chunks_stream:
  assumes "write_chunks a data off js l = Inr l'"
  shows "mr_td_hash l' = mr_td_hash l @ call_stream (map (\<lambda>j. MrExtend (a + of_nat (j * 256)) (take 256 (drop (off + j * 256) (sl_mem data)))) js)
    \<and> (\<forall>j\<in>set js. length (take 256 (drop (off + j * 256) (sl_mem data))) = 256)"
  using assms
proof (induction js arbitrary: l)
  case (Cons j js)
  obtain chunk where c: "read_slice data (int (off + j * 256)) 256 = Inr chunk"
    and w: "write_chunks a data off js (mr_extend (a + of_nat (j * 256)) chunk l) = Inr l'"
    using Cons.prems by (auto split: sum.splits)
  have "chunk = take 256 (drop (off + j * 256) (sl_mem data))" "length chunk = 256"
    using c read_slice_length [OF c] by (auto simp: read_slice_ok nat_add_distrib nat_mult_distrib)
  then show ?case using Cons.IH [OF w] by (simp add: mr_extend_def)
qed simp

lemma write_pages_stream:
  assumes "write_pages gpa data ext is l = Inr l'"
  shows "mr_td_hash l' = mr_td_hash l @ call_stream (concat (map (page_calls gpa (sl_mem data) ext) is))
    \<and> list_all call_ok (concat (map (page_calls gpa (sl_mem data) ext) is))"
  using assms
proof (induction "is" arbitrary: l)
  case (Cons i "is")
  let ?a = "gpa + of_nat (i * 4096)"
  show ?case
  proof (cases ext)
    case False
    then show ?thesis using Cons.IH [of "mem_page_add ?a l"] Cons.prems by (simp add: Let_def mem_page_add_def page_calls_def)
  next
    case True
    then obtain l2 where c: "write_chunks ?a data (i * 4096) [0..<16] (mem_page_add ?a l) = Inr l2"
      and w: "write_pages gpa data ext is l2 = Inr l'"
      using Cons.prems by (auto simp: Let_def split: sum.splits)
    show ?thesis using Cons.IH [OF w] write_chunks_stream [OF c] True
      by (auto simp: page_calls_def mem_page_add_def list_all_iff simp del: upt_rec_numeral)
  qed
qed simp

lemma write_region_stream:
  assumes "write_region gpa data n ext l = Inr l'"
  shows "mr_td_hash l' = mr_td_hash l @ call_stream (region_calls gpa (sl_mem data) n ext) \<and> list_all call_ok (region_calls gpa (sl_mem data) n ext)"
  using assms write_pages_stream by (simp add: write_region_def region_calls_def split: if_splits)

lemma write_sections_stream:
  assumes "write_sections fw ss l = Inr l'"
  shows "mr_td_hash l' = mr_td_hash l @ call_stream (build_calls fw ss) \<and> list_all call_ok (build_calls fw ss)"
  using assms
proof (induction ss arbitrary: l)
  case (Cons s ss)
  obtain data l1 where d: "subslice fw (int (data_offset s)) (raw_data_size s) = Inr data"
    and r: "write_region (memory_address s) data (memory_data_size s) (bit (section_attributes s) 0) l = Inr l1"
    and w: "write_sections fw ss l1 = Inr l'"
    using Cons.prems by (auto split: sum.splits)
  have "sl_mem data = drop (data_offset s) (sl_mem fw)" using d by (simp add: subslice_ok)
  then show ?case using Cons.IH [OF w] write_region_stream [OF r] by (simp add: build_calls_def section_calls_def)
qed (simp add: build_calls_def)

lemma calculate_mrtd_ok:
  assumes "calculate_mrtd H se fw = Some (Inr d)"
  shows "\<exists>ss. parse_tdvf_sections fw = Some (Inr ss) \<and> list_all call_ok (build_calls fw ss)
    \<and> d = go_copy (replicate 48 0) (H (call_stream (build_calls fw ss)))"
proof -
  obtain ss l where ss: "parse_tdvf_sections fw = Some (Inr ss)" and l: "write_sections fw ss new_launch_context = Inr l"
    and d: "finalize_launch H se l = Inr d"
    using assms by (auto simp: calculate_mrtd_def split: option.splits sum.splits)
  have "mr_td_hash l = call_stream (build_calls fw ss)" using write_sections_stream [OF l] by (simp add: new_launch_context_def)
  with ss d write_sections_stream [OF l] show ?thesis by (auto simp: finalize_launch_def split: option.splits)
qed

lemma mrtd_commits:
  assumes "calculate_mrtd H se fw = Some (Inr d)" and "calculate_mrtd H se' fw' = Some (Inr d)"
    and "\<And>b. length (H b) = 48"
  shows "\<exists>ss ss'. parse_tdvf_sections fw = Some (Inr ss) \<and> parse_tdvf_sections fw' = Some (Inr ss')
    \<and> (build_calls fw ss = build_calls fw' ss'
       \<or> call_stream (build_calls fw ss) \<noteq> call_stream (build_calls fw' ss')
         \<and> H (call_stream (build_calls fw ss)) = H (call_stream (build_calls fw' ss')))"
proof -
  obtain ss where ss: "parse_tdvf_sections fw = Some (Inr ss)" "list_all call_ok (build_calls fw ss)"
    "d = go_copy (replicate 48 0) (H (call_stream (build_calls fw ss)))" using calculate_mrtd_ok [OF assms(1)] by blast
  obtain ss' where ss': "parse_tdvf_sections fw' = Some (Inr ss')" "list_all call_ok (build_calls fw' ss')"
    "d = go_copy (replicate 48 0) (H (call_stream (build_calls fw' ss')))" using calculate_mrtd_ok [OF assms(2)] by blast
  have "H (call_stream (build_calls fw ss)) = H (call_stream (build_calls fw' ss'))"
    using ss(3) ss'(3) by (simp add: go_copy_full assms(3))
  then show ?thesis using ss ss' call_stream_inject [OF ss(2) ss'(2)] by blast
qed

section \<open>What RTMR 2 commits to\<close>

lemma le_units_inject: "le_units us = le_units vs \<Longrightarrow> us = vs"
proof (induction us arbitrary: vs)
  case Nil
  then show ?case by (cases vs) (auto simp: le_units_def le_bytes_def)
next
  case (Cons u us)
  obtain v vs' where vs: "vs = v # vs'" using Cons.prems by (cases vs) (auto simp: le_units_def le_bytes_def)
  have e: "le_bytes 2 u = le_bytes 2 v" "le_units us = le_units vs'" using Cons.prems by (simp_all add: vs le_units_def)
  have "unat u mod 2 ^ 16 = unat v mod 2 ^ 16" using arg_cong [OF e(1), of le_value] by (simp add: le_value_le_bytes)
  moreover have "unat x < 2 ^ 16" for x :: "16 word"
  proof -
    have "unat x < 2 ^ LENGTH(16)" by (rule unsigned_less)
    then show ?thesis by simp
  qed
  ultimately have "u = v" by (metis mod_less word_unat_eq_iff)
  with Cons.IH [OF e(2)] vs show ?case by simp
qed

lemma cmdline_bytes_inject:
  assumes "ascii c" and "ascii c'" and "cmdline_bytes c = cmdline_bytes c'"
  shows "c = c'"
proof -
  have "utf16_encode (runes (''initrd=initrd '' @ c)) = utf16_encode (runes (''initrd=initrd '' @ c'))"
    using assms(3) le_units_inject by (simp add: cmdline_bytes_def)
  moreover have "ascii (''initrd=initrd '' @ x)" if "ascii x" for x using that by (auto simp: ascii_def)
  ultimately show ?thesis using utf16_ascii_inject [of "''initrd=initrd '' @ c" "''initrd=initrd '' @ c'"] assms(1,2) by simp
qed

text \<open>Equal registers mean equal inputs, or two of the hashed byte strings collide.\<close>

definition hash_collision :: "(bytes \<Rightarrow> bytes) \<Rightarrow> bytes \<Rightarrow> bytes \<Rightarrow> bool" where
  "hash_collision H a b \<longleftrightarrow> a \<noteq> b \<and> H a = H b"

lemma hash_and_extend_inject:
  assumes "\<And>b. length (H b) = 48" and "length r = 48" and "length r' = 48"
    and "hash_and_extend H r b = hash_and_extend H r' b'"
  shows "r = r' \<and> b = b' \<or> hash_collision H b b' \<or> hash_collision H (r @ H b) (r' @ H b')"
proof -
  have "H (r @ H b) = H (r' @ H b')"
    using assms by (simp add: hash_and_extend_def rtmr_extend_def go_copy_full)
  then show ?thesis using assms(2,3) by (auto simp: hash_collision_def)
qed

lemma rtmr2_commits:
  assumes H: "\<And>b. length (H b) = 48" and eq: "calc_rtmr2 H c i = calc_rtmr2 H c' i'" and "ascii c" and "ascii c'"
  shows "c = c' \<and> i = i' \<or> hash_collision H i i' \<or> hash_collision H (cmdline_bytes c) (cmdline_bytes c')
    \<or> hash_collision H (hash_and_extend H empty_rtmr (cmdline_bytes c) @ H i) (hash_and_extend H empty_rtmr (cmdline_bytes c') @ H i')
    \<or> hash_collision H (empty_rtmr @ H (cmdline_bytes c)) (empty_rtmr @ H (cmdline_bytes c'))"
proof -
  have l: "length (hash_and_extend H empty_rtmr b) = 48" "length empty_rtmr = 48" for b
    by (simp_all add: hash_and_extend_def rtmr_extend_def empty_rtmr_def)
  have "hash_and_extend H empty_rtmr (cmdline_bytes c) = hash_and_extend H empty_rtmr (cmdline_bytes c') \<and> i = i'
      \<or> hash_collision H i i'
      \<or> hash_collision H (hash_and_extend H empty_rtmr (cmdline_bytes c) @ H i) (hash_and_extend H empty_rtmr (cmdline_bytes c') @ H i')"
    by (rule hash_and_extend_inject [OF H l(1) l(1) eq [unfolded calc_rtmr2_def]])
  moreover have "c = c' \<or> hash_collision H (cmdline_bytes c) (cmdline_bytes c')
      \<or> hash_collision H (empty_rtmr @ H (cmdline_bytes c)) (empty_rtmr @ H (cmdline_bytes c'))"
    if "hash_and_extend H empty_rtmr (cmdline_bytes c) = hash_and_extend H empty_rtmr (cmdline_bytes c')"
    using hash_and_extend_inject [OF H l(2) l(2) that] cmdline_bytes_inject assms(3,4) by blast
  ultimately show ?thesis by blast
qed

section \<open>Two firmware images\<close>

text \<open>Metadata with one section of one page, a table with one entry, the footer and the reset vector.\<close>

definition demo_firmware :: "byte \<Rightarrow> byte \<Rightarrow> goslice" where
  "demo_firmware entry_len last_byte = whole_slice (bytes_of_string ''TDVF'' @ [48, 0, 0, 0, 1, 0, 0, 0, 1, 0, 0, 0]
     @ replicate 9 0 @ [8] @ replicate 7 0 @ [16] @ replicate 14 0
     @ [120, 0, 0, 0, entry_len, 0] @ take 15 tdx_metadata_offset_guid @ [last_byte]
     @ [40, 0] @ table_footer_guid @ replicate 32 0)"

lemma demo_firmware_sections:
  "parse_tdvf_sections (demo_firmware n 0xc2) = Some (Inr [\<lparr>data_offset = 0, raw_data_size = 0, memory_address = 2048,
     memory_data_size = 4096, section_type = 0, section_attributes = 0\<rparr>])"
proof -
  have o: "find_tdvf_metadata_offset (demo_firmware n 0xc2) = Some (Inr 120)"
  proof -
    have "read_slice (demo_firmware n 0xc2) 72 16 = Inr table_footer_guid" by code_simp
    moreover have "read_slice (demo_firmware n 0xc2) 70 2 = Inr [40, 0]" by code_simp
    moreover have "read_slice (demo_firmware n 0xc2) 54 16 = Inr tdx_metadata_offset_guid" by code_simp
    moreover have "read_slice (demo_firmware n 0xc2) 52 2 = Inr [n, 0]" by code_simp
    moreover have "read_slice (demo_firmware n 0xc2) 48 4 = Inr [120, 0, 0, 0]" by code_simp
    moreover have "sl_len (demo_firmware n 0xc2) = 120" by code_simp
    ultimately show ?thesis
      by (simp add: find_tdvf_metadata_offset_def Let_def) (subst find_entry.simps, simp)
  qed
  have "sections_at (demo_firmware n 0xc2) 120 = Inr [\<lparr>data_offset = 0, raw_data_size = 0, memory_address = 2048,
     memory_data_size = 4096, section_type = 0, section_attributes = 0\<rparr>]" by code_simp
  with o show ?thesis by (simp add: parse_tdvf_sections_def)
qed

lemma demo_firmware_mrtd:
  "calculate_mrtd H None (demo_firmware n 0xc2) = Some (Inr (go_copy (replicate 48 0) (H (call_record ''MEM.PAGE.ADD'' 2048))))"
proof -
  have "subslice (demo_firmware n 0xc2) 0 0 = Inr \<lparr>sl_len = 0, sl_mem = sl_mem (demo_firmware n 0xc2)\<rparr>"
    by (simp add: subslice_ok)
  then show ?thesis
    by (simp add: calculate_mrtd_def demo_firmware_sections write_region_def mem_page_add_def new_launch_context_def finalize_launch_def Let_def)
qed

text \<open>An entry of another kind and of length zero.\<close>

lemma demo_firmware_stuck: "find_tdvf_metadata_offset (demo_firmware 0 0) = None"
proof -
  have "read_slice (demo_firmware 0 0) 72 16 = Inr table_footer_guid" by code_simp
  moreover have "read_slice (demo_firmware 0 0) 70 2 = Inr [40, 0]" by code_simp
  moreover have "read_slice (demo_firmware 0 0) 54 16 = Inr (take 15 tdx_metadata_offset_guid @ [0])" by code_simp
  moreover have "read_slice (demo_firmware 0 0) 52 2 = Inr [0, 0]" by code_simp
  moreover have "sl_len (demo_firmware 0 0) = 120" by code_simp
  moreover have "take 15 tdx_metadata_offset_guid @ [0] \<noteq> tdx_metadata_offset_guid" by code_simp
  ultimately have "stuck_at (demo_firmware 0 0) 70" by (simp add: stuck_at_def)
  then show ?thesis
    using metadata_search_stuck(1) [of "demo_firmware 0 0" "[40, 0]"]
      \<open>read_slice (demo_firmware 0 0) 72 16 = Inr table_footer_guid\<close> \<open>read_slice (demo_firmware 0 0) 70 2 = Inr [40, 0]\<close>
      \<open>sl_len (demo_firmware 0 0) = 120\<close> by simp
qed


end
