(* ===== verification/Qgs.thy ===== *)
theory Qgs
  imports Gostd ReportValidators
begin

text \<open>
  Collateral for TDX quotes: the messages of Intel's Quote Generation Service and the client that
  exchanges them over a socket (\<open>internal/attestation/tdx/qgs\<close>), the extension that carries the
  answer in the quote (\<open>internal/attestation/tdx/quote\<close>), and the issuer that attaches it
  (\<open>internal/attestation/tdx/issuer\<close>). The socket, PEM, X.509 and JSON are parameters.
\<close>

section \<open>Headers and requests\<close>

definition be_bytes :: "nat \<Rightarrow> 'a::len word \<Rightarrow> bytes" where
  "be_bytes n x = rev (le_bytes n x)"

definition message_type_get_collateral_request :: "32 word" where "message_type_get_collateral_request = 2"
definition message_type_get_collateral_response :: "32 word" where "message_type_get_collateral_response = 3"

record qgs_header =
  qh_major :: "16 word"
  qh_minor :: "16 word"
  qh_type :: "32 word"
  qh_size :: "32 word"
  qh_code :: "32 word"

definition len_header :: nat where "len_header = 16"
definition len_fmspc :: nat where "len_fmspc = 6"

definition marshal_header :: "qgs_header \<Rightarrow> bytes" where
  "marshal_header h = le_bytes 2 (qh_major h) @ le_bytes 2 (qh_minor h) @ le_bytes 4 (qh_type h)
     @ le_bytes 4 (qh_size h) @ le_bytes 4 (qh_code h)"

definition unmarshal_header :: "bytes \<Rightarrow> qgs_header result" where
  "unmarshal_header d =
     (if length d \<noteq> len_header then Inl (Msg ''wrong header size'')
      else Inr \<lparr>qh_major = of_nat (le_value (take 2 d)), qh_minor = of_nat (le_value (take 2 (drop 2 d))),
        qh_type = of_nat (le_value (take 4 (drop 4 d))), qh_size = of_nat (le_value (take 4 (drop 8 d))),
        qh_code = of_nat (le_value (take 4 (drop 12 d)))\<rparr>)"

text \<open>The FMSPC is an array of six bytes; the CA type is a string.\<close>

record collateral_request =
  rq_fmspc :: bytes
  rq_ca_type :: string

definition ca_type_platform :: string where "ca_type_platform = ''platform''"
definition ca_type_processor :: string where "ca_type_processor = ''processor''"

definition marshal_request :: "collateral_request \<Rightarrow> bytes" where
  "marshal_request r =
     le_bytes 4 (of_nat (length (rq_fmspc r)) :: 32 word) @ le_bytes 4 (of_nat (length (rq_ca_type r) + 1) :: 32 word)
       @ rq_fmspc r @ bytes_of_string (rq_ca_type r) @ [0]"

section \<open>Responses\<close>

record collateral_response =
  cr_major :: "16 word"
  cr_minor :: "16 word"
  cr_pck_crl_issuer_chain :: bytes
  cr_root_ca_crl :: bytes
  cr_pck_crl :: bytes
  cr_tcb_info_issuer_chain :: bytes
  cr_tcb_info :: bytes
  cr_qe_identity_issuer_chain :: bytes
  cr_qe_identity :: bytes

text \<open>\<open>s[lo:hi]\<close>: the bounds must be in order and within the capacity.\<close>

definition slice_range :: "goslice \<Rightarrow> nat \<Rightarrow> nat \<Rightarrow> bytes result" where
  "slice_range s lo hi = (if lo \<le> hi \<and> hi \<le> length (sl_mem s) then Inr (take (hi - lo) (drop lo (sl_mem s))) else Inl slice_panic)"

text \<open>The items: sizes of four bytes from position 4 on, contents from the offset on, in 32 bits.\<close>

fun read_items :: "goslice \<Rightarrow> nat list \<Rightarrow> 32 word \<Rightarrow> (bytes list \<times> 32 word) result" where
  "read_items d [] offset = Inr ([], offset)"
| "read_items d (i # is) offset =
     (let size = of_nat (le_value (take 4 (drop ((i + 1) * 4) (slice_bytes d)))) in
      case slice_range d (unat offset) (unat (offset + size)) of Inl e \<Rightarrow> Inl e
      | Inr b \<Rightarrow> (case read_items d is (offset + size) of Inl e \<Rightarrow> Inl e
        | Inr (bs, o') \<Rightarrow> Inr (b # bs, o')))"

definition trim_null :: "bytes \<Rightarrow> bytes" where
  "trim_null b = (if b \<noteq> [] \<and> List.last b = 0 then butlast b else b)"

definition response_of :: "16 word \<Rightarrow> 16 word \<Rightarrow> bytes list \<Rightarrow> collateral_response" where
  "response_of major minor bs = \<lparr>cr_major = major, cr_minor = minor,
     cr_pck_crl_issuer_chain = bs ! 0, cr_root_ca_crl = trim_null (bs ! 1), cr_pck_crl = trim_null (bs ! 2),
     cr_tcb_info_issuer_chain = bs ! 3, cr_tcb_info = trim_null (bs ! 4),
     cr_qe_identity_issuer_chain = bs ! 5, cr_qe_identity = trim_null (bs ! 6)\<rparr>"

definition unmarshal_response :: "goslice \<Rightarrow> collateral_response result" where
  "unmarshal_response d =
     (if sl_len d < 32 then Inl (Msg ''body too short'') else
      case read_items d [0..<7] 32 of Inl e \<Rightarrow> Inl e
      | Inr (bs, offset) \<Rightarrow>
        if offset \<noteq> of_nat (sl_len d) then Inl (Msg ''found trailing bytes'')
        else Inr (response_of (of_nat (le_value (take 2 (slice_bytes d))))
               (of_nat (le_value (take 2 (drop 2 (slice_bytes d))))) bs))"

section \<open>The client\<close>

text \<open>
  What happens on the connection: whether the context ends before the request is written or the
  response read, whether writing fails, and the bytes that arrive before the reading error.
\<close>

record qgs_conn =
  qc_write_cancelled :: "goerr option"
  qc_write_error :: "goerr option"
  qc_incoming :: bytes
  qc_read_error :: goerr
  qc_read_cancelled :: "goerr option"

definition request_message :: "collateral_request \<Rightarrow> bytes" where
  "request_message req =
     (let body = marshal_request req;
          h = \<lparr>qh_major = 1, qh_minor = 1, qh_type = message_type_get_collateral_request,
            qh_size = of_nat (length body + len_header), qh_code = 0\<rparr> in
      be_bytes 4 (qh_size h) @ marshal_header h @ body)"

definition read_message :: "qgs_conn \<Rightarrow> bytes result" where
  "read_message c =
     (if length (qc_incoming c) < 4 then Inl (Wrap ''reading response length'' (qc_read_error c)) else
      let n = le_value (rev (take 4 (qc_incoming c))) in
      if length (qc_incoming c) < 4 + n then Inl (Wrap ''reading response'' (qc_read_error c))
      else Inr (take n (drop 4 (qc_incoming c))))"

definition accept_message :: "bytes \<Rightarrow> collateral_response result" where
  "accept_message resp =
     (if length resp < len_header then Inl (Msg ''response too short for header'') else
      case unmarshal_header (take len_header resp) of Inl e \<Rightarrow> Inl (Wrap ''unmarshallinnng header'' e)
      | Inr h \<Rightarrow>
        if qh_major h \<noteq> 1 \<or> qh_minor h \<noteq> 1 then Inl (Msg ''unsupported QGS protocol version'')
        else if qh_code h \<noteq> 0 then Inl (Msg ''QGS returned an error response'')
        else if qh_type h \<noteq> message_type_get_collateral_response then Inl (Msg ''unexpected message type'')
        else (case unmarshal_response (whole_slice (drop len_header resp)) of
            Inl e \<Rightarrow> Inl (wrap_err ''unmarshalling response'' e)
          | Inr r \<Rightarrow> Inr r))"

text \<open>Closing the client forgets its connection, also when that cannot be closed.\<close>

definition close_client :: "('c \<Rightarrow> goerr option) \<Rightarrow> 'c option \<Rightarrow> goerr option \<times> 'c option" where
  "close_client close_conn conn = (case conn of None \<Rightarrow> (None, None) | Some c \<Rightarrow> (close_conn c, None))"

text \<open>The bytes that the connection is given, and the outcome.\<close>

definition get_collateral :: "qgs_conn \<Rightarrow> collateral_request \<Rightarrow> bytes \<times> collateral_response result" where
  "get_collateral c req =
     (request_message req,
      case qc_write_cancelled c of Some e \<Rightarrow> Inl (Wrap ''context expired while writing request'' e)
      | None \<Rightarrow>
     (case qc_write_error c of Some e \<Rightarrow> Inl (Wrap ''writing request'' (Wrap ''writing request'' e))
      | None \<Rightarrow>
     (case qc_read_cancelled c of Some e \<Rightarrow> Inl (Wrap ''context expired while reading response'' e)
      | None \<Rightarrow>
     (case read_message c of Inl e \<Rightarrow> Inl (Wrap ''reading response'' e)
      | Inr resp \<Rightarrow> accept_message resp))))"

section \<open>Collateral for the verifier\<close>

text \<open>
  \<open>pem_list\<close> are the blocks that repeated \<open>pem.Decode\<close> finds. The JSON document of the TCB
  information is read twice: into its structure, and for its signed part.
\<close>

record ('cert, 'crl, 'json) collateral_lib =
  pem_list :: "bytes \<Rightarrow> bytes list"
  parse_x509 :: "bytes \<Rightarrow> 'cert result"
  cert_signed_by :: "'cert \<Rightarrow> 'cert \<Rightarrow> bool"
  parse_revocation_list :: "bytes \<Rightarrow> 'crl result"
  tcb_info_json :: "bytes \<Rightarrow> 'json result"
  qe_identity_json :: "bytes \<Rightarrow> 'json result"
  json_members :: "bytes \<Rightarrow> (string \<rightharpoonup> bytes) result"

record ('cert, 'crl, 'json) collateral =
  co_pck_crl_root :: 'cert
  co_pck_crl_intermediate :: 'cert
  co_pck_crl :: "'crl option"
  co_tcb_root :: 'cert
  co_tcb_intermediate :: 'cert
  co_tcb_info :: 'json
  co_tcb_info_body :: "bytes option"
  co_qe_root :: 'cert
  co_qe_intermediate :: 'cert
  co_qe_identity :: 'json
  co_enclave_identity_body :: "bytes option"
  co_root_ca_crl :: "'crl option"

fun parse_blocks :: "('cert, 'crl, 'json) collateral_lib \<Rightarrow> bytes list \<Rightarrow> 'cert list result" where
  "parse_blocks L [] = Inr []"
| "parse_blocks L (b # bs) = (case parse_x509 L b of Inl e \<Rightarrow> Inl (Wrap ''parsing certificate'' e)
     | Inr c \<Rightarrow> (case parse_blocks L bs of Inl e \<Rightarrow> Inl e | Inr cs \<Rightarrow> Inr (c # cs)))"

text \<open>The root comes first unless it did not sign the other.\<close>

definition parse_certificate_chain :: "('cert, 'crl, 'json) collateral_lib \<Rightarrow> bytes \<Rightarrow> ('cert \<times> 'cert) result" where
  "parse_certificate_chain L chain = (case parse_blocks L (pem_list L chain) of Inl e \<Rightarrow> Inl e
     | Inr [a, b] \<Rightarrow> Inr (if cert_signed_by L b a then (a, b) else (b, a))
     | Inr _ \<Rightarrow> Inl (Msg ''unexpected certificate chain length, want 2''))"

definition parse_hex_crl :: "('cert, 'crl, 'json) collateral_lib \<Rightarrow> bytes \<Rightarrow> 'crl option result" where
  "parse_hex_crl L hex_crl = (if hex_crl = [] then Inr None else
     case hex_decode (string_of_bytes hex_crl) of Inl e \<Rightarrow> Inl (Wrap ''hex-decoding CRL'' e)
     | Inr x \<Rightarrow> (case parse_revocation_list L x of Inl e \<Rightarrow> Inl (Wrap ''parsing CRL'' e) | Inr c \<Rightarrow> Inr (Some c)))"

definition to_tdx_guest ::
  "('cert, 'crl, 'json) collateral_lib \<Rightarrow> collateral_response \<Rightarrow> ('cert, 'crl, 'json) collateral result" where
  "to_tdx_guest L r =
     (case parse_certificate_chain L (cr_pck_crl_issuer_chain r) of Inl e \<Rightarrow> Inl (Wrap ''parsing PCK CRL issuer chain'' e)
      | Inr (pck_root, pck_int) \<Rightarrow>
     (case parse_hex_crl L (cr_pck_crl r) of Inl e \<Rightarrow> Inl (Wrap ''parsing PCK CRL'' e)
      | Inr pck_crl \<Rightarrow>
     (case parse_certificate_chain L (cr_tcb_info_issuer_chain r) of Inl e \<Rightarrow> Inl (Wrap ''parsing TCBInfo issuer chain'' e)
      | Inr (tcb_root, tcb_int) \<Rightarrow>
     (case tcb_info_json L (cr_tcb_info r) of Inl e \<Rightarrow> Inl (Wrap ''parsing TCBInfo'' e)
      | Inr tcb \<Rightarrow>
     (case json_members L (cr_tcb_info r) of Inl e \<Rightarrow> Inl (Wrap ''parsing unstructured TCBInfo'' e)
      | Inr tcb_m \<Rightarrow>
     (case parse_certificate_chain L (cr_qe_identity_issuer_chain r) of Inl e \<Rightarrow> Inl (Wrap ''parsing QEIdentity issuer chain'' e)
      | Inr (qe_root, qe_int) \<Rightarrow>
     (case qe_identity_json L (cr_qe_identity r) of Inl e \<Rightarrow> Inl (Wrap ''parsing QEIdentity'' e)
      | Inr qe \<Rightarrow>
     (case json_members L (cr_qe_identity r) of Inl e \<Rightarrow> Inl (Wrap ''parsing unstructured QEIdentity'' e)
      | Inr qe_m \<Rightarrow>
     (case parse_hex_crl L (cr_root_ca_crl r) of Inl e \<Rightarrow> Inl (Wrap ''parsing root CA CRL'' e)
      | Inr root_crl \<Rightarrow>
        Inr \<lparr>co_pck_crl_root = pck_root, co_pck_crl_intermediate = pck_int, co_pck_crl = pck_crl,
          co_tcb_root = tcb_root, co_tcb_intermediate = tcb_int, co_tcb_info = tcb, co_tcb_info_body = tcb_m ''tcbInfo'',
          co_qe_root = qe_root, co_qe_intermediate = qe_int, co_qe_identity = qe,
          co_enclave_identity_body = qe_m ''enclaveIdentity'', co_root_ca_crl = root_crl\<rparr>)))))))))"

section \<open>Extensions of a quote\<close>

text \<open>
  \<open>T\<close> is the library of the quotes with \<open>pck_cert\<close> giving the FMSPC of a certificate.
  \<open>None\<close> is the null collateral.
\<close>

record 'pool issuer_lib =
  il_tdx :: "'pool tdxlib"
  il_json_text :: "collateral_response option \<Rightarrow> bytes result"
  il_json_parse :: "bytes \<Rightarrow> collateral_response option result"
  il_marshal_quote :: "tdx_quote \<Rightarrow> bytes result"

text \<open>What the issuer's host does: the socket, and the guest's quote in its stages.\<close>

record issuer_host =
  ih_dial :: "qgs_conn result"
  ih_provider :: "goerr option"
  ih_raw_quote :: "bytes \<Rightarrow> bytes result"
  ih_quote_proto :: "bytes \<Rightarrow> tdx_quote option result"

definition add_extensions :: "'pool issuer_lib \<Rightarrow> qgs_conn result \<Rightarrow> tdx_quote \<Rightarrow> tdx_quote result" where
  "add_extensions I dial q =
     (case get_pck_certificate (il_tdx I) q of Inl e \<Rightarrow> Inl (Wrap ''extracting PCK certificate'' e)
      | Inr (Inl e) \<Rightarrow> Inl (Wrap ''extracting PCK certificate extensions'' e)
      | Inr (Inr fmspc_hex) \<Rightarrow>
     (case dial of Inl e \<Rightarrow> Inl (Wrap ''dialing QGS vsock'' e)
      | Inr c \<Rightarrow>
     (case hex_decode fmspc_hex of Inl e \<Rightarrow> Inl (Wrap ''decoding FMSPC'' e)
      | Inr fmspc \<Rightarrow>
     (case snd (get_collateral c \<lparr>rq_fmspc = go_copy (replicate len_fmspc 0) fmspc, rq_ca_type = ca_type_platform\<rparr>) of
        Inl e \<Rightarrow> Inl (wrap_err ''getting collateral from QGS'' e)
      | Inr resp \<Rightarrow>
     (case il_json_text I (Some resp) of Inl e \<Rightarrow> Inl (Wrap ''marshalling extensions'' e)
      | Inr extra \<Rightarrow> Inr (q\<lparr>tq_extra_bytes := extra\<rparr>))))))"

definition err_no_extensions :: goerr where
  "err_no_extensions = Sentinel ''no extensions found in qoute.ExtraBytes''"

definition get_extensions :: "'pool issuer_lib \<Rightarrow> tdx_quote \<Rightarrow> collateral_response option result" where
  "get_extensions I q =
     (if list_all (\<lambda>b. b = 0) (tq_extra_bytes q) then Inl err_no_extensions else
      case il_json_parse I (tq_extra_bytes q) of Inl e \<Rightarrow> Inl (Wrap ''unmarshalling extensions'' e)
      | Inr x \<Rightarrow> Inr x)"

text \<open>The issuer: an error in attaching the extensions is logged only, but a panic is not caught.\<close>

definition tdx_issue :: "'pool issuer_lib \<Rightarrow> issuer_host \<Rightarrow> bytes \<Rightarrow> bytes result" where
  "tdx_issue I h report_data =
     (case ih_provider h of Some e \<Rightarrow> Inl (Wrap ''issuer: getting quote provider'' e)
      | None \<Rightarrow>
     (case ih_raw_quote h report_data of Inl e \<Rightarrow> Inl (Wrap ''issuer: getting raw quote'' e)
      | Inr raw \<Rightarrow>
     (case ih_quote_proto h raw of Inl e \<Rightarrow> Inl (Wrap ''issuer: parsing quote'' e)
      | Inr None \<Rightarrow> Inl (Msg ''issuer: unexpected quote type'')
      | Inr (Some q) \<Rightarrow>
      (case add_extensions I (ih_dial h) q of
         Inl (Panic m) \<Rightarrow> Inl (Panic m)
       | r \<Rightarrow>
         (let q' = (case r of Inl e \<Rightarrow> q | Inr x \<Rightarrow> x) in
          case il_marshal_quote I q' of Inl e \<Rightarrow> Inl (Wrap ''issuer: marshaling quote'' e)
          | Inr b \<Rightarrow> Inr b)))))"

end
