(* ===== verification/QgsFacts.thy ===== *)
theory QgsFacts
  imports Qgs
begin

text \<open>
  The messages of the Quote Generation Service: what the client sends is well formed and read back
  as it was, what it accepts is cut exactly as the sizes say, and when sizes that exceed the message
  end the process that issues a quote.
\<close>

section \<open>Sizes\<close>

lemma unat_bound32: "unat (x :: 32 word) < 4294967296"
proof -
  have "unat x < 2 ^ LENGTH(32)" by (rule unsigned_less)
  then show ?thesis by simp
qed

lemma unat_bound16: "unat (x :: 16 word) < 65536"
proof -
  have "unat x < 2 ^ LENGTH(16)" by (rule unsigned_less)
  then show ?thesis by simp
qed

lemma le_value_4_bound: "le_value (take 4 b) < 4294967296"
proof -
  have "le_value (take 4 b) < 256 ^ length (take 4 b)" by (rule le_value_bound)
  also have "\<dots> \<le> 256 ^ 4" by (rule power_increasing) auto
  finally show ?thesis by simp
qed

lemma of_nat_le_value_2: "of_nat (le_value (le_bytes 2 w)) = (w :: 16 word)"
  using unat_bound16 [of w] by (simp add: le_value_le_bytes)

lemma of_nat_le_value_4: "of_nat (le_value (le_bytes 4 w)) = (w :: 32 word)"
  using unat_bound32 [of w] by (simp add: le_value_le_bytes)

section \<open>Headers\<close>

lemma header_round_trip: "unmarshal_header (marshal_header h) = Inr h"
  by (cases h) (simp add: unmarshal_header_def marshal_header_def len_header_def of_nat_le_value_2 of_nat_le_value_4)

lemma length_marshal_header [simp]: "length (marshal_header h) = 16"
  by (simp add: marshal_header_def)

section \<open>Requests\<close>

text \<open>A server's reading of a message: the length, the header, and the two sized fields of the body.\<close>

definition well_formed_request :: "bytes \<Rightarrow> collateral_request \<Rightarrow> bool" where
  "well_formed_request m r \<longleftrightarrow>
     (\<exists>h body. m = be_bytes 4 (of_nat (16 + length body) :: 32 word) @ marshal_header h @ body
        \<and> unmarshal_header (take 16 (drop 4 m)) = Inr h
        \<and> unat (qh_size h) = 16 + length body \<and> qh_type h = message_type_get_collateral_request
        \<and> qh_major h = 1 \<and> qh_minor h = 1 \<and> qh_code h = 0
        \<and> (let n = le_value (take 4 body); k = le_value (take 4 (drop 4 body)) in
             length body = 8 + n + k \<and> take n (drop 8 body) = rq_fmspc r
             \<and> drop (8 + n) body = bytes_of_string (rq_ca_type r) @ [0]))"

lemma request_message_well_formed:
  assumes "length (rq_fmspc r) = 6" and "length (rq_ca_type r) < 2 ^ 31"
  shows "well_formed_request (request_message r) r"
proof -
  let ?body = "marshal_request r"
  let ?h = "\<lparr>qh_major = 1, qh_minor = 1, qh_type = message_type_get_collateral_request,
            qh_size = of_nat (length ?body + len_header), qh_code = 0\<rparr>"
  have lb: "length ?body = 15 + length (rq_ca_type r)"
    using assms by (simp add: marshal_request_def bytes_of_string_def)
  have msg: "request_message r = be_bytes 4 (of_nat (16 + length ?body) :: 32 word) @ marshal_header ?h @ ?body"
    by (simp add: request_message_def Let_def len_header_def add.commute)
  have n: "le_value (le_bytes 4 (6 :: 32 word)) = 6" by (simp add: le_value_le_bytes)
  have small: "length (rq_ca_type r) + 1 < 4294967296" using assms(2) by simp
  have uk: "unat (of_nat (Suc (length (rq_ca_type r))) :: 32 word) = length (rq_ca_type r) + 1"
    using small by (simp only: unat_of_nat take_bit_eq_mod) simp
  have k: "le_value (le_bytes 4 (of_nat (Suc (length (rq_ca_type r))) :: 32 word)) = length (rq_ca_type r) + 1"
    using small by (simp only: le_value_le_bytes uk) simp
  have fields: "take 4 ?body = le_bytes 4 (6 :: 32 word)"
    "take 4 (drop 4 ?body) = le_bytes 4 (of_nat (Suc (length (rq_ca_type r))) :: 32 word)"
    "drop 8 ?body = rq_fmspc r @ bytes_of_string (rq_ca_type r) @ [0]"
    using assms(1) by (simp_all add: marshal_request_def del: of_nat_Suc)
  have d14: "drop 14 ?body = drop 6 (drop 8 ?body)" by simp
  have sz: "unat (of_nat (length ?body + len_header) :: 32 word) = 16 + length ?body"
    using lb assms(2) by (simp only: unat_of_nat take_bit_eq_mod len_header_def) simp
  have h: "unmarshal_header (take 16 (drop 4 (request_message r))) = Inr ?h"
    unfolding msg using header_round_trip [of ?h] by (simp add: be_bytes_def)
  show ?thesis
    unfolding well_formed_request_def
    by (rule exI [of _ ?h], rule exI [of _ ?body])
      (use msg h sz lb fields d14 n k assms(1) in \<open>simp add: Let_def del: of_nat_add of_nat_Suc\<close>)
qed

section \<open>Responses\<close>

fun cut_items :: "bytes \<Rightarrow> nat list \<Rightarrow> bytes list" where
  "cut_items d [] = []"
| "cut_items d (n # ns) = take n d # cut_items (drop n d) ns"

definition item_size :: "bytes \<Rightarrow> nat \<Rightarrow> nat" where
  "item_size d i = le_value (take 4 (drop ((i + 1) * 4) d))"

lemma slice_range_sized:
  assumes "length d < 4294967296" and "unat (offset :: 32 word) \<le> length d" and "n < 4294967296"
  shows "slice_range (whole_slice d) (unat offset) (unat (offset + of_nat n)) =
    (if unat offset + n \<le> length d then Inr (take n (drop (unat offset) d)) else Inl slice_panic)"
proof -
  have n: "unat (of_nat n :: 32 word) = n" using assms(3) by (simp add: unat_of_nat take_bit_eq_mod)
  have s: "unat (offset + of_nat n) = (unat offset + n) mod 4294967296"
    by (simp add: unat_word_ariths(1) n)
  show ?thesis
  proof (cases "unat offset + n < 4294967296")
    case True
    then show ?thesis using s by (simp add: slice_range_def whole_slice_def)
  next
    case False
    then have "(unat offset + n) mod 4294967296 = unat offset + n - 4294967296"
      using unat_bound32 [of offset] assms(3) by (simp add: mod_if)
    then have "unat (offset + of_nat n) < unat offset" using s assms(3) False by linarith
    moreover have "\<not> unat offset + n \<le> length d" using False assms(1) by linarith
    ultimately show ?thesis by (simp add: slice_range_def)
  qed
qed

lemma read_items_sized:
  assumes "length d < 4294967296" and "unat (offset :: 32 word) \<le> length d"
  shows "read_items (whole_slice d) is offset =
    (if unat offset + sum_list (map (item_size d) is) \<le> length d
     then Inr (cut_items (drop (unat offset) d) (map (item_size d) is), offset + of_nat (sum_list (map (item_size d) is)))
     else Inl slice_panic)"
  using assms(2)
proof (induction "is" arbitrary: offset)
  case (Cons i "is")
  let ?n = "item_size d i"
  have nb: "?n < 4294967296" unfolding item_size_def by (rule le_value_4_bound)
  have size: "le_value (take 4 (drop ((i + 1) * 4) (slice_bytes (whole_slice d)))) = ?n"
    by (simp add: item_size_def slice_bytes_def whole_slice_def)
  note range = slice_range_sized [OF assms(1) Cons.prems nb]
  have unf: "read_items (whole_slice d) (i # is) offset =
    (case slice_range (whole_slice d) (unat offset) (unat (offset + of_nat ?n)) of Inl e \<Rightarrow> Inl e
      | Inr b \<Rightarrow> (case read_items (whole_slice d) is (offset + of_nat ?n) of Inl e \<Rightarrow> Inl e
        | Inr (bs, o') \<Rightarrow> Inr (b # bs, o')))"
    by (simp only: read_items.simps Let_def size)
  show ?case
  proof (cases "unat offset + ?n \<le> length d")
    case True
    have u: "unat (offset + of_nat ?n) = unat offset + ?n"
      using True assms(1) nb by (simp add: unat_word_ariths(1) unat_of_nat take_bit_eq_mod)
    have ih: "read_items (whole_slice d) is (offset + of_nat ?n) =
      (if unat offset + ?n + sum_list (map (item_size d) is) \<le> length d
       then Inr (cut_items (drop (unat offset + ?n) d) (map (item_size d) is), offset + of_nat ?n + of_nat (sum_list (map (item_size d) is)))
       else Inl slice_panic)"
      using Cons.IH [of "offset + of_nat ?n"] True u by simp
    show ?thesis
      unfolding unf range ih using True by (simp add: ac_simps)
  next
    case False
    then show ?thesis unfolding unf range by simp
  qed
qed simp

text \<open>All there is to the reading of a response: the sizes and the length decide.\<close>

lemma unmarshal_response_cases:
  assumes "length d < 4294967296" and "32 \<le> length d"
  defines "needed \<equiv> 32 + sum_list (map (item_size d) [0..<7])"
  shows "length d < needed \<Longrightarrow> unmarshal_response (whole_slice d) = Inl slice_panic"
    and "needed < length d \<Longrightarrow> unmarshal_response (whole_slice d) = Inl (Msg ''found trailing bytes'')"
    and "needed = length d \<Longrightarrow> unmarshal_response (whole_slice d) = Inr (response_of (of_nat (le_value (take 2 d)))
           (of_nat (le_value (take 2 (drop 2 d)))) (cut_items (drop 32 d) (map (item_size d) [0..<7])))"
proof -
  let ?is = "[0..<7]" let ?n = "sum_list (map (item_size d) ?is)"
  have ri: "read_items (whole_slice d) ?is 32 =
    (if 32 + ?n \<le> length d then Inr (cut_items (drop 32 d) (map (item_size d) ?is), 32 + of_nat ?n) else Inl slice_panic)"
    using read_items_sized [OF assms(1), of 32 ?is] assms(2) by simp
  have l: "sl_len (whole_slice d) = length d" "slice_bytes (whole_slice d) = d"
    by (simp_all add: whole_slice_def slice_bytes_def)
  have eq: "32 + of_nat ?n = (of_nat (length d) :: 32 word) \<longleftrightarrow> 32 + ?n = length d" if "32 + ?n \<le> length d"
  proof
    assume "32 + of_nat ?n = (of_nat (length d) :: 32 word)"
    then have "(of_nat (32 + ?n) :: 32 word) = of_nat (length d)" by simp
    then have "unat (of_nat (32 + ?n) :: 32 word) = unat (of_nat (length d) :: 32 word)" by (rule arg_cong)
    then show "32 + ?n = length d" using that assms(1) by (simp only: unat_of_nat take_bit_eq_mod) simp
  next
    assume "32 + ?n = length d"
    then have "(of_nat (32 + ?n) :: 32 word) = of_nat (length d)" by simp
    then show "32 + of_nat ?n = (of_nat (length d) :: 32 word)" by simp
  qed
  have unf: "unmarshal_response (whole_slice d) = (case read_items (whole_slice d) ?is 32 of Inl e \<Rightarrow> Inl e
      | Inr (bs, offset) \<Rightarrow> if offset \<noteq> of_nat (length d) then Inl (Msg ''found trailing bytes'')
        else Inr (response_of (of_nat (le_value (take 2 d))) (of_nat (le_value (take 2 (drop 2 d)))) bs))"
    unfolding unmarshal_response_def l using assms(2) by (simp add: case_prod_unfold split: sum.splits)
  show "length d < needed \<Longrightarrow> unmarshal_response (whole_slice d) = Inl slice_panic"
    unfolding unf ri needed_def by (simp del: upt_rec_numeral)
  show "needed < length d \<Longrightarrow> unmarshal_response (whole_slice d) = Inl (Msg ''found trailing bytes'')"
    unfolding unf ri needed_def using eq by (simp del: upt_rec_numeral)
  show "needed = length d \<Longrightarrow> unmarshal_response (whole_slice d) = Inr (response_of (of_nat (le_value (take 2 d)))
           (of_nat (le_value (take 2 (drop 2 d)))) (cut_items (drop 32 d) (map (item_size d) [0..<7])))"
    unfolding unf ri needed_def using eq by (simp del: upt_rec_numeral)
qed

section \<open>The exchange\<close>

lemma fmspc_request_well_formed:
  assumes "ca = ca_type_platform \<or> ca = ca_type_processor"
  shows "well_formed_request (fst (get_collateral c \<lparr>rq_fmspc = go_copy (replicate len_fmspc 0) fmspc, rq_ca_type = ca\<rparr>))
    \<lparr>rq_fmspc = go_copy (replicate len_fmspc 0) fmspc, rq_ca_type = ca\<rparr>"
  unfolding get_collateral_def fst_conv
  by (rule request_message_well_formed) (use assms in \<open>auto simp: len_fmspc_def ca_type_platform_def ca_type_processor_def\<close>)

text \<open>A message whose sizes promise more than it holds.\<close>

definition oversized :: "bytes \<Rightarrow> bool" where
  "oversized resp \<longleftrightarrow> (let d = drop len_header resp in
     32 \<le> length d \<and> length d < 32 + sum_list (map (item_size d) [0..<7]))"

lemma read_message_short: "read_message c = Inr m \<Longrightarrow> length m < 4294967296"
proof -
  assume "read_message c = Inr m"
  then have "length m \<le> le_value (rev (take 4 (qc_incoming c)))" by (auto simp: read_message_def Let_def split: if_splits)
  also have "\<dots> < 256 ^ length (rev (take 4 (qc_incoming c)))" by (rule le_value_bound)
  also have "\<dots> \<le> 256 ^ 4" by (rule power_increasing) auto
  finally show ?thesis by simp
qed

lemma unmarshal_response_error:
  assumes "unmarshal_response (whole_slice d) = Inl e" and "length d < 4294967296"
  shows "e \<in> {Msg ''body too short'', Msg ''found trailing bytes''}
    \<or> e = slice_panic \<and> 32 \<le> length d \<and> length d < 32 + sum_list (map (item_size d) [0..<7])"
proof (cases "32 \<le> length d")
  case True
  from unmarshal_response_cases [OF assms(2) True] assms(1) True show ?thesis
    by (metis Inl_Inr_False insertI1 insertI2 linorder_neqE_nat sum.inject(1))
qed (use assms(1) in \<open>simp add: unmarshal_response_def whole_slice_def\<close>)

lemma accept_message_panics:
  assumes "accept_message m = Inl (Panic t)" and "length m < 4294967296"
  shows "Panic t = slice_panic \<and> oversized m"
proof -
  have "unmarshal_response (whole_slice (drop len_header m)) = Inl (Panic t)"
    using assms(1) by (auto simp: accept_message_def wrap_err_def split: if_splits sum.splits goerr.splits)
  from unmarshal_response_error [OF this] assms(2) show ?thesis by (auto simp: oversized_def Let_def)
qed

lemma get_collateral_panics:
  assumes "snd (get_collateral c req) = Inl (Panic t)"
  shows "Panic t = slice_panic \<and> (\<exists>m. read_message c = Inr m \<and> oversized m)"
proof -
  obtain m where m: "read_message c = Inr m" "accept_message m = Inl (Panic t)"
    using assms by (auto simp: get_collateral_def split: option.splits sum.splits)
  with accept_message_panics [OF m(2) read_message_short [OF m(1)]] show ?thesis by blast
qed

lemma add_extensions_panics:
  assumes "add_extensions I dial q = Inl (Panic t)"
  shows "Panic t = slice_panic \<and> (\<exists>c m. dial = Inr c \<and> read_message c = Inr m \<and> oversized m)"
proof -
  obtain c req where "dial = Inr c" "snd (get_collateral c req) = Inl (Panic t)"
    using assms by (auto simp: add_extensions_def wrap_err_def split: sum.splits goerr.splits)
  then show ?thesis using get_collateral_panics by blast
qed

lemma add_extensions_quote: "add_extensions I dial q = Inr q' \<Longrightarrow> \<exists>x. q' = q\<lparr>tq_extra_bytes := x\<rparr>"
  by (auto simp: add_extensions_def split: sum.splits)

text \<open>Nothing that goes wrong with the collateral keeps the quote from being issued, but for sizes beyond the message.\<close>

lemma issue_despite_collateral:
  assumes "ih_provider h = None" and "ih_raw_quote h rd = Inr raw" and "ih_quote_proto h raw = Inr (Some q)"
    and marshal: "\<And>x. \<exists>b. il_marshal_quote I (q\<lparr>tq_extra_bytes := x\<rparr>) = Inr b"
  shows "(\<exists>x b. tdx_issue I h rd = Inr b \<and> il_marshal_quote I (q\<lparr>tq_extra_bytes := x\<rparr>) = Inr b)
    \<or> tdx_issue I h rd = Inl slice_panic \<and> (\<exists>c m. ih_dial h = Inr c \<and> read_message c = Inr m \<and> oversized m)"
proof (cases "\<exists>t. add_extensions I (ih_dial h) q = Inl (Panic t)")
  case True
  then obtain t where t: "add_extensions I (ih_dial h) q = Inl (Panic t)" by blast
  then have "tdx_issue I h rd = Inl (Panic t)" using assms(1-3) by (simp add: tdx_issue_def)
  with add_extensions_panics [OF t] show ?thesis by metis
next
  case False
  obtain q' x where q': "q' = q\<lparr>tq_extra_bytes := x\<rparr>"
    "(case add_extensions I (ih_dial h) q of Inl e \<Rightarrow> q | Inr y \<Rightarrow> y) = q'"
  proof (cases "add_extensions I (ih_dial h) q")
    case (Inl e)
    then show ?thesis using that [of q "tq_extra_bytes q"] by simp
  next
    case (Inr y)
    then show ?thesis using that add_extensions_quote [OF Inr] by auto
  qed
  obtain b where b: "il_marshal_quote I q' = Inr b" using marshal [of x] q' by blast
  have "tdx_issue I h rd = Inr b"
  proof (cases "add_extensions I (ih_dial h) q")
    case (Inl e)
    then show ?thesis using assms(1-3) False q'(2) b by (cases e) (simp_all add: tdx_issue_def Let_def)
  next
    case (Inr y)
    then show ?thesis using assms(1-3) q'(2) b by (simp add: tdx_issue_def Let_def)
  qed
  with b q' show ?thesis by blast
qed

text \<open>What was attached is what the validator reads.\<close>

lemma attached_extensions_are_read:
  assumes "add_extensions I dial q = Inr q'"
    and json: "\<And>v t. il_json_text I v = Inr t \<Longrightarrow> il_json_parse I t = Inr v \<and> \<not> list_all (\<lambda>b. b = 0) t"
  shows "\<exists>c req resp. dial = Inr c \<and> snd (get_collateral c req) = Inr resp \<and> get_extensions I q' = Inr (Some resp)"
proof -
  obtain c req resp t where "dial = Inr c" "snd (get_collateral c req) = Inr resp"
    "il_json_text I (Some resp) = Inr t" "q' = q\<lparr>tq_extra_bytes := t\<rparr>"
    using assms(1) by (auto simp: add_extensions_def split: sum.splits)
  then show ?thesis using json by (auto simp: get_extensions_def)
qed


section \<open>A small host\<close>

definition demo_fmspc_lib :: "unit tdxlib" where
  "demo_fmspc_lib = \<lparr>unmarshal_quote = (\<lambda>doc. Inl (Msg ''proto'')), verify_quote = (\<lambda>q vo. None), check_quote = (\<lambda>q opts. None),
     pem_blocks = (\<lambda>b. [b]), pck_cert = (\<lambda>b. Inr (''Intel SGX PCK Certificate'', Inr ''00906ed50000'')),
     tdx_asn1 = \<lparr>asn1_int = (\<lambda>i. Inr [of_int i]), asn1_bytes = Inr, asn1_bool = (\<lambda>b. Inr [if b then 255 else 0])\<rparr>\<rparr>"

definition demo_issuer :: "unit issuer_lib" where
  "demo_issuer = \<lparr>il_tdx = demo_fmspc_lib, il_json_text = (\<lambda>r. Inr (case r of None \<Rightarrow> [110] | Some x \<Rightarrow> 123 # cr_tcb_info x)),
     il_json_parse = (\<lambda>b. Inl (Msg ''json'')), il_marshal_quote = (\<lambda>q. Inr (tq_extra_bytes q))\<rparr>"

text \<open>An answer of 48 bytes: the header, the versions, the sizes, and no contents.\<close>

definition demo_answer :: "byte \<Rightarrow> bytes" where
  "demo_answer n = [0, 0, 0, 48, 1, 0, 1, 0, 3, 0, 0, 0, 48, 0, 0, 0, 0, 0, 0, 0, 1, 0, 0, 0, n, 0, 0, 0] @ replicate 24 0"

definition demo_host :: "byte \<Rightarrow> tdx_quote \<Rightarrow> issuer_host" where
  "demo_host n q = \<lparr>ih_dial = Inr \<lparr>qc_write_cancelled = None, qc_write_error = None, qc_incoming = demo_answer n,
       qc_read_error = Msg ''EOF'', qc_read_cancelled = None\<rparr>,
     ih_provider = None, ih_raw_quote = Inr, ih_quote_proto = (\<lambda>raw. Inr (Some q))\<rparr>"

text \<open>The same answer with all sizes zero is accepted; with a first size of 255 it ends the process.\<close>

lemma demo_accept:
  "accept_message (drop 4 (demo_answer 255)) = Inl slice_panic"
  "accept_message (drop 4 (demo_answer 0)) = Inr (response_of 1 0 (replicate 7 []))"
  by code_simp+

lemma demo_read:
  "read_message \<lparr>qc_write_cancelled = None, qc_write_error = None, qc_incoming = demo_answer n,
     qc_read_error = Msg ''EOF'', qc_read_cancelled = None\<rparr> = Inr (drop 4 (demo_answer n))"
  by (simp add: read_message_def demo_answer_def)

lemma demo_issue:
  "tdx_issue demo_issuer (demo_host 255 q) rd = Inl slice_panic"
  "tdx_issue demo_issuer (demo_host 0 q) rd = Inr [123]"
proof -
  have hex: "hex_decode ''00906ed50000'' = Inr [0, 144, 110, 213, 0, 0]" by code_simp
  show "tdx_issue demo_issuer (demo_host 255 q) rd = Inl slice_panic"
    by (simp add: tdx_issue_def demo_host_def add_extensions_def get_pck_certificate_def demo_issuer_def demo_fmspc_lib_def hex
        get_collateral_def demo_read demo_accept wrap_err_def slice_panic_def del: hex_decode.simps)
  show "tdx_issue demo_issuer (demo_host 0 q) rd = Inr [123]"
    by (simp add: tdx_issue_def demo_host_def add_extensions_def get_pck_certificate_def demo_issuer_def demo_fmspc_lib_def hex
        get_collateral_def demo_read demo_accept response_of_def trim_null_def del: hex_decode.simps)
qed


end
