(* ===== verification/Certcache.thy ===== *)
theory Certcache
  imports Prelude
begin

text \<open>
  Fetching vendor certificates, revocation lists and collateral: the interval retrier
  (\<open>internal/retry\<close>), the HTTP getter that retries, and the caching getter with its proxy
  (\<open>internal/attestation/certcache\<close>), over the stores \<open>internal/memstore\<close> and
  \<open>internal/fsstore\<close>. What the network answers, when a context ends and what the clock says are inputs
  of a call; URL parsing, JSON, SHA-256 and the filesystem are parameters.
\<close>

section \<open>Retrying\<close>

text \<open>
  Attempt \<open>k\<close> of the call, whether the context is done after it, and whether it ends while waiting
  for the next turn. Without an end of the context the loop may run forever.
\<close>

partial_function (option) do_retry ::
  "('e \<Rightarrow> bool) \<Rightarrow> (goerr \<Rightarrow> 'e \<Rightarrow> 'e) \<Rightarrow> (nat \<Rightarrow> 'e + 'a) \<Rightarrow> (nat \<Rightarrow> goerr option) \<Rightarrow> (nat \<Rightarrow> goerr option)
   \<Rightarrow> nat \<Rightarrow> 'e option \<Rightarrow> ('e + 'a) option" where
  "do_retry retriable give_up attempt expired ended k last_err =
     (case attempt k of
        Inr x \<Rightarrow> Some (Inr x)
      | Inl e \<Rightarrow>
        if \<not> retriable e then Some (Inl e) else
        (case expired k of
           Some c \<Rightarrow> Some (Inl (give_up c (case last_err of None \<Rightarrow> e | Some l \<Rightarrow> l)))
         | None \<Rightarrow>
        (case ended k of
           Some c \<Rightarrow> Some (Inl (give_up c e))
         | None \<Rightarrow> do_retry retriable give_up attempt expired ended (Suc k) (Some e))))"

section \<open>One request\<close>

type_synonym headers = "(string \<times> string list) list"
type_synonym answer = "headers \<times> bytes"

datatype web_reply = NoReply goerr | BodyError goerr | Reply int headers bytes

datatype fetch_error = FetchErr goerr | HttpErr int | RetriesFailed goerr fetch_error

text \<open>\<open>errors.As(err, &httpErr)\<close> and its code.\<close>

fun http_code :: "fetch_error \<Rightarrow> int option" where
  "http_code (FetchErr e) = None"
| "http_code (HttpErr c) = Some c"
| "http_code (RetriesFailed c e) = http_code e"

definition should_retry :: "fetch_error \<Rightarrow> bool" where
  "should_retry e = (case http_code e of None \<Rightarrow> True | Some c \<Rightarrow> c \<ge> 500)"

fun fetch_once :: "web_reply \<Rightarrow> fetch_error + answer" where
  "fetch_once (NoReply e) = Inl (FetchErr (Wrap ''requesting URL'' e))"
| "fetch_once (BodyError e) = Inl (FetchErr (Wrap ''reading HTTP response'' e))"
| "fetch_once (Reply code hs body) = (if code \<noteq> 200 \<and> code \<noteq> 203 then Inl (HttpErr code) else Inr (hs, body))"

text \<open>The replies to the attempts of one call, and its context.\<close>

record exchange =
  ex_reply :: "nat \<Rightarrow> web_reply"
  ex_expired :: "nat \<Rightarrow> goerr option"
  ex_ended :: "nat \<Rightarrow> goerr option"

definition retry_get :: "exchange \<Rightarrow> (fetch_error + answer) option" where
  "retry_get x = do_retry should_retry RetriesFailed (\<lambda>k. fetch_once (ex_reply x k)) (ex_expired x) (ex_ended x) 0 None"

section \<open>The caching getter\<close>

definition retry_interval :: int where "retry_interval = 5000000000"
definition retry_attempts_proxy :: int where "retry_attempts_proxy = 5"
definition proxy_retry_cooldown :: int where "proxy_retry_cooldown = 120000000000"

record 's certstore =
  cs_get :: "'s \<Rightarrow> string \<Rightarrow> bytes option"
  cs_set :: "'s \<Rightarrow> string \<Rightarrow> bytes \<Rightarrow> 's"
  cs_clear :: "'s \<Rightarrow> 's"

text \<open>\<open>url_parts\<close> is the path and the raw query of a URL; \<open>entry_text\<close> and \<open>entry_parse\<close> are JSON.\<close>

record urllib =
  url_parts :: "string \<Rightarrow> (string \<times> string) option"
  entry_text :: "answer \<Rightarrow> bytes result"
  entry_parse :: "bytes \<Rightarrow> answer result"

record 's getter =
  ge_cache :: 's
  ge_retry_after :: int
  ge_proxy_base :: string

text \<open>
  The inputs of a call: a tick of the collector, the clock where it is read, the deadline of the
  context, and the exchange for a time budget (none: the caller's context) and a URL.
\<close>

record round_inputs =
  ri_tick :: bool
  ri_check_time :: int
  ri_budget_time :: int
  ri_store_time :: int
  ri_deadline :: "int option"
  ri_web :: "int option \<Rightarrow> string \<Rightarrow> exchange"

definition letter :: "char \<Rightarrow> bool" where
  "letter c = (let n = of_char c :: nat in (65 \<le> n \<and> n \<le> 90) \<or> (97 \<le> n \<and> n \<le> 122))"

definition snp_crl_path :: "string \<Rightarrow> bool" where
  "snp_crl_path p = (case cut_prefix ''/vcek/v1/'' p of None \<Rightarrow> False
     | Some r \<Rightarrow> 4 \<le> length r \<and> drop (length r - 4) r = ''/crl'' \<and> list_all letter (take (length r - 4) r))"

definition tdx_root_crl_path :: "string \<Rightarrow> bool" where
  "tdx_root_crl_path p = (p = ''/IntelSGXRootCA.der'')"

definition tdx_base_path :: "string \<Rightarrow> bool" where
  "tdx_base_path p = (has_prefix ''/sgx/certification/v4'' p \<or> has_prefix ''/tdx/certification/v4'' p)"

definition always_revalidate :: "urllib \<Rightarrow> string \<Rightarrow> bool" where
  "always_revalidate U url = (case url_parts U url of None \<Rightarrow> False
     | Some (path, query) \<Rightarrow> snp_crl_path path \<or> tdx_root_crl_path path \<or> tdx_base_path path)"

definition trim_right :: "char \<Rightarrow> string \<Rightarrow> string" where
  "trim_right c s = rev (dropWhile (\<lambda>x. x = c) (rev s))"

definition new_cached_getter :: "'s \<Rightarrow> string \<Rightarrow> 's getter" where
  "new_cached_getter s proxy = \<lparr>ge_cache = s, ge_retry_after = 0, ge_proxy_base = trim_right CHR ''/'' proxy\<rparr>"

definition redirect_to_proxy :: "urllib \<Rightarrow> string \<Rightarrow> string \<Rightarrow> string" where
  "redirect_to_proxy U base url =
     (if base = '''' then url else
      case url_parts U url of None \<Rightarrow> url
      | Some (path, query) \<Rightarrow> base @ path @ (if query \<noteq> '''' then ''?'' @ query else ''''))"

definition proxy_in_cooldown :: "int \<Rightarrow> int \<Rightarrow> bool" where
  "proxy_in_cooldown retry_after now \<longleftrightarrow> retry_after \<noteq> 0 \<and> now < retry_after"

text \<open>Half of the time left, towards zero.\<close>

definition proxy_budget :: "round_inputs \<Rightarrow> int" where
  "proxy_budget r =
     (let budget = retry_attempts_proxy * retry_interval in
      case ri_deadline r of None \<Rightarrow> budget
      | Some d \<Rightarrow> (let left = d - ri_budget_time r in
          min budget (if left < 0 then - ((- left) div 2) else left div 2)))"

definition transient_status :: "int \<Rightarrow> bool" where
  "transient_status code \<longleftrightarrow> code \<ge> 500 \<or> code = 429"

text \<open>The answer and when the proxy may be used again.\<close>

definition fetch :: "urllib \<Rightarrow> 's getter \<Rightarrow> round_inputs \<Rightarrow> string \<Rightarrow> ((fetch_error + answer) \<times> int) option" where
  "fetch U g r url =
     (let after = ge_retry_after g; direct = (\<lambda>a. map_option (\<lambda>x. (x, a)) (retry_get (ri_web r None url))) in
      if ge_proxy_base g = '''' \<or> proxy_in_cooldown after (ri_check_time r) then direct after else
      case retry_get (ri_web r (Some (proxy_budget r)) (redirect_to_proxy U (ge_proxy_base g) url)) of
        None \<Rightarrow> None
      | Some (Inr a) \<Rightarrow> Some (Inr a, 0)
      | Some (Inl e) \<Rightarrow>
          (case http_code e of
             Some c \<Rightarrow> if \<not> transient_status c then Some (Inl e, after) else direct (ri_store_time r + proxy_retry_cooldown)
           | None \<Rightarrow> direct (ri_store_time r + proxy_retry_cooldown)))"

definition store_answer :: "urllib \<Rightarrow> 's certstore \<Rightarrow> string \<Rightarrow> answer \<Rightarrow> 's \<Rightarrow> 's" where
  "store_answer U C url a s = (case entry_text U a of Inl e \<Rightarrow> s | Inr d \<Rightarrow> cs_set C s url d)"

definition cached_answer :: "urllib \<Rightarrow> 's certstore \<Rightarrow> string \<Rightarrow> 's \<Rightarrow> answer option" where
  "cached_answer U C url s = (case cs_get C s url of None \<Rightarrow> None
     | Some d \<Rightarrow> (case entry_parse U d of Inl e \<Rightarrow> None | Inr a \<Rightarrow> Some a))"

definition get_context ::
  "urllib \<Rightarrow> 's certstore \<Rightarrow> round_inputs \<Rightarrow> string \<Rightarrow> 's getter \<Rightarrow> ((fetch_error + answer) \<times> 's getter) option" where
  "get_context U C r url g =
     (let s = (if ri_tick r then cs_clear C (ge_cache g) else ge_cache g); g1 = g\<lparr>ge_cache := s\<rparr> in
      if always_revalidate U url then
        (case fetch U g1 r url of None \<Rightarrow> None
         | Some (Inr a, after) \<Rightarrow> Some (Inr a, g1\<lparr>ge_retry_after := after, ge_cache := store_answer U C url a s\<rparr>)
         | Some (Inl e, after) \<Rightarrow>
            Some ((case cached_answer U C url s of Some a \<Rightarrow> Inr a | None \<Rightarrow> Inl e), g1\<lparr>ge_retry_after := after\<rparr>))
      else
        (case cached_answer U C url s of Some a \<Rightarrow> Some (Inr a, g1)
         | None \<Rightarrow>
           (case fetch U g1 r url of None \<Rightarrow> None
            | Some (Inl e, after) \<Rightarrow> Some (Inl e, g1\<lparr>ge_retry_after := after\<rparr>)
            | Some (Inr a, after) \<Rightarrow> Some (Inr a, g1\<lparr>ge_retry_after := after, ge_cache := store_answer U C url a s\<rparr>))))"

text \<open>The getter of the SNP library drops the headers, its body being nil with an error.\<close>

definition get_context_snp ::
  "urllib \<Rightarrow> 's certstore \<Rightarrow> round_inputs \<Rightarrow> string \<Rightarrow> 's getter \<Rightarrow> ((fetch_error + bytes) \<times> 's getter) option" where
  "get_context_snp U C r url g = map_option (\<lambda>(x, g'). ((case x of Inl e \<Rightarrow> Inl e | Inr (hs, b) \<Rightarrow> Inr b), g')) (get_context U C r url g)"

section \<open>The stores\<close>

type_synonym ('k, 'v) memstore = "'k \<rightharpoonup> 'v"

definition memstore_new :: "('k, 'v) memstore" where "memstore_new = Map.empty"
definition memstore_get :: "('k, 'v) memstore \<Rightarrow> 'k \<Rightarrow> 'v option" where "memstore_get s k = s k"
definition memstore_set :: "('k, 'v) memstore \<Rightarrow> 'k \<Rightarrow> 'v \<Rightarrow> ('k, 'v) memstore" where "memstore_set s k v = s(k \<mapsto> v)"
definition memstore_clear :: "('k, 'v) memstore \<Rightarrow> ('k, 'v) memstore" where "memstore_clear s = Map.empty"

definition mem_certstore :: "(string, bytes) memstore certstore" where
  "mem_certstore = \<lparr>cs_get = memstore_get, cs_set = memstore_set, cs_clear = memstore_clear\<rparr>"

record 'f cachefs =
  cf_read :: "'f \<Rightarrow> string \<Rightarrow> bytes result"
  cf_mkdir :: "'f \<Rightarrow> goerr option \<times> 'f"
  cf_write :: "'f \<Rightarrow> string \<Rightarrow> bytes \<Rightarrow> goerr option \<times> 'f"
  cf_remove_all :: "'f \<Rightarrow> goerr option \<times> 'f"

definition key_to_filename :: "(bytes \<Rightarrow> bytes) \<Rightarrow> string \<Rightarrow> string" where
  "key_to_filename sha256 key = ''sha256-'' @ hex_encode (sha256 (bytes_of_string key))"

definition fsstore_get :: "(bytes \<Rightarrow> bytes) \<Rightarrow> 'f cachefs \<Rightarrow> 'f \<Rightarrow> string \<Rightarrow> bytes option" where
  "fsstore_get sha256 F s key = (case cf_read F s (key_to_filename sha256 key) of Inl e \<Rightarrow> None | Inr v \<Rightarrow> Some v)"

definition fsstore_set :: "(bytes \<Rightarrow> bytes) \<Rightarrow> 'f cachefs \<Rightarrow> 'f \<Rightarrow> string \<Rightarrow> bytes \<Rightarrow> 'f" where
  "fsstore_set sha256 F s key v = (case cf_mkdir F s of (Some e, s') \<Rightarrow> s'
     | (None, s') \<Rightarrow> snd (cf_write F s' (key_to_filename sha256 key) v))"

definition fsstore_clear :: "'f cachefs \<Rightarrow> 'f \<Rightarrow> 'f" where
  "fsstore_clear F s = snd (cf_remove_all F s)"

definition fs_certstore :: "(bytes \<Rightarrow> bytes) \<Rightarrow> 'f cachefs \<Rightarrow> 'f certstore" where
  "fs_certstore sha256 F = \<lparr>cs_get = fsstore_get sha256 F, cs_set = fsstore_set sha256 F, cs_clear = fsstore_clear F\<rparr>"

end
