(* ===== verification/CertcacheFacts.thy ===== *)
theory CertcacheFacts
  imports Certcache
begin

text \<open>
  The retrier returns exactly when an attempt is not to be retried or the context ends; what the
  caching getter answers was given by the network for the same URL, now or earlier, and stays fresh
  where it has to be.
\<close>

section \<open>Retrying\<close>

text \<open>An attempt after which another one follows.\<close>

definition goes_on :: "('e \<Rightarrow> bool) \<Rightarrow> (nat \<Rightarrow> 'e + 'a) \<Rightarrow> (nat \<Rightarrow> goerr option) \<Rightarrow> (nat \<Rightarrow> goerr option) \<Rightarrow> nat \<Rightarrow> bool" where
  "goes_on retriable attempt expired ended k \<longleftrightarrow>
     (\<exists>e. attempt k = Inl e \<and> retriable e) \<and> expired k = None \<and> ended k = None"

lemma do_retry_goes_on:
  assumes "goes_on p a x d k"
  obtains e where "a k = Inl e" and "do_retry p g a x d k l = do_retry p g a x d (Suc k) (Some e)"
proof -
  obtain e where "a k = Inl e" "p e" "x k = None" "d k = None" using assms by (auto simp: goes_on_def)
  then show ?thesis using that by (subst (asm) do_retry.simps [of _ _ _ _ _ k]) simp
qed

lemma do_retry_stops: "\<not> goes_on p a x d k \<Longrightarrow> \<exists>r. do_retry p g a x d k l = Some r"
  by (subst do_retry.simps) (auto simp: goes_on_def split: sum.splits option.splits)

lemma do_retry_returns:
  assumes "\<not> goes_on p a x d n" and "k \<le> n"
  shows "\<exists>r. do_retry p g a x d k l = Some r"
  using assms(2)
proof (induction "n - k" arbitrary: k l)
  case 0
  then show ?case using assms(1) do_retry_stops by (metis diff_is_0_eq le_antisym)
next
  case (Suc m)
  show ?case
  proof (cases "goes_on p a x d k")
    case True
    obtain e where "do_retry p g a x d k l = do_retry p g a x d (Suc k) (Some e)" by (rule do_retry_goes_on [OF True])
    moreover have "\<exists>r. do_retry p g a x d (Suc k) (Some e) = Some r" for e
      by (rule Suc.hyps(1)) (use Suc.hyps(2) in auto)
    ultimately show ?thesis by simp
  qed (rule do_retry_stops)
qed

lemma do_retry_runs_forever:
  fixes p :: "'e \<Rightarrow> bool" and a :: "nat \<Rightarrow> 'e + 'a"
  assumes "\<And>j. goes_on p a x d j"
  shows "do_retry p g a x d k l = None"
proof (cases "do_retry p g a x d k l")
  case (Some y)
  have "(\<forall>j. goes_on p a x d j) \<longrightarrow> False"
  proof (rule do_retry.raw_induct [OF _ Some])
    fix f :: "('e \<Rightarrow> bool) \<Rightarrow> (goerr \<Rightarrow> 'e \<Rightarrow> 'e) \<Rightarrow> (nat \<Rightarrow> 'e + 'a) \<Rightarrow> (nat \<Rightarrow> goerr option) \<Rightarrow> (nat \<Rightarrow> goerr option)
       \<Rightarrow> nat \<Rightarrow> 'e option \<Rightarrow> ('e + 'a) option"
      and p :: "'e \<Rightarrow> bool" and g a x d k l y
    assume ih: "\<And>p g a x d k l y. f p g a x d k l = Some y \<Longrightarrow> (\<forall>j. goes_on p a x d j) \<longrightarrow> False"
    assume body: "(case a k of
        Inr v \<Rightarrow> Some (Inr v)
      | Inl e \<Rightarrow>
        if \<not> p e then Some (Inl e) else
        (case x k of
           Some c \<Rightarrow> Some (Inl (g c (case l of None \<Rightarrow> e | Some l \<Rightarrow> l)))
         | None \<Rightarrow>
        (case d k of
           Some c \<Rightarrow> Some (Inl (g c e))
         | None \<Rightarrow> f p g a x d (Suc k) (Some e)))) = Some y"
    show "(\<forall>j. goes_on p a x d j) \<longrightarrow> False"
    proof
      assume all: "\<forall>j. goes_on p a x d j"
      then obtain e where "a k = Inl e" "p e" "x k = None" "d k = None" by (auto simp: goes_on_def)
      then have "f p g a x d (Suc k) (Some e) = Some y" using body by simp
      then show False using ih all by blast
    qed
  qed
  with assms show ?thesis by blast
qed

lemma do_retry_none_iff: "do_retry p g a x d 0 None = None \<longleftrightarrow> (\<forall>j. goes_on p a x d j)"
  using do_retry_returns [of p a x d _ 0 g None] do_retry_runs_forever [of p a x d g 0 None] by (metis le0 option.distinct(1))

lemma do_retry_answer:
  fixes p :: "'e \<Rightarrow> bool" and a :: "nat \<Rightarrow> 'e + 'a"
  assumes "do_retry p g a x d k l = Some (Inr v)"
  shows "\<exists>n\<ge>k. a n = Inr v"
proof -
  have "\<forall>v. y = Inr v \<longrightarrow> (\<exists>n\<ge>k. a n = Inr v)" if "do_retry p g a x d k l = Some y" for y
  proof (rule do_retry.raw_induct [OF _ that])
    fix f :: "('e \<Rightarrow> bool) \<Rightarrow> (goerr \<Rightarrow> 'e \<Rightarrow> 'e) \<Rightarrow> (nat \<Rightarrow> 'e + 'a) \<Rightarrow> (nat \<Rightarrow> goerr option) \<Rightarrow> (nat \<Rightarrow> goerr option)
       \<Rightarrow> nat \<Rightarrow> 'e option \<Rightarrow> ('e + 'a) option"
      and p :: "'e \<Rightarrow> bool" and g a x d k l y
    assume ih: "\<And>p g a x d k l y. f p g a x d k l = Some y \<Longrightarrow> \<forall>v. y = Inr v \<longrightarrow> (\<exists>n\<ge>k. a n = Inr v)"
    assume body: "(case a k of
        Inr v \<Rightarrow> Some (Inr v)
      | Inl e \<Rightarrow>
        if \<not> p e then Some (Inl e) else
        (case x k of
           Some c \<Rightarrow> Some (Inl (g c (case l of None \<Rightarrow> e | Some l \<Rightarrow> l)))
         | None \<Rightarrow>
        (case d k of
           Some c \<Rightarrow> Some (Inl (g c e))
         | None \<Rightarrow> f p g a x d (Suc k) (Some e)))) = Some y"
    show "\<forall>v. y = Inr v \<longrightarrow> (\<exists>n\<ge>k. a n = Inr v)"
    proof (intro allI impI)
      fix v assume v: "y = Inr v"
      show "\<exists>n\<ge>k. a n = Inr v"
      proof (cases "a k")
        case (Inl e)
        then have "f p g a x d (Suc k) (Some e) = Some y" using body v by (auto split: option.splits if_splits)
        then obtain n where "Suc k \<le> n" "a n = Inr v" using ih v by blast
        then show ?thesis by (metis Suc_leD)
      next
        case (Inr w)
        then show ?thesis using body v by auto
      qed
    qed
  qed
  with assms show ?thesis by blast
qed

section \<open>Fetching\<close>

text \<open>A context that ends at some point, or a reply that is not to be retried.\<close>

definition exchange_ends :: "exchange \<Rightarrow> bool" where
  "exchange_ends x \<longleftrightarrow> (\<exists>n. \<not> goes_on should_retry (\<lambda>k. fetch_once (ex_reply x k)) (ex_expired x) (ex_ended x) n)"

lemma retry_get_none_iff: "retry_get x = None \<longleftrightarrow> \<not> exchange_ends x"
  by (simp add: retry_get_def do_retry_none_iff exchange_ends_def)

lemma retry_get_answer:
  assumes "retry_get x = Some (Inr (hs, b))"
  shows "\<exists>k code. code \<in> {200, 203} \<and> ex_reply x k = Reply code hs b"
proof -
  obtain k where "fetch_once (ex_reply x k) = Inr (hs, b)" using do_retry_answer [OF assms [unfolded retry_get_def]] by blast
  then show ?thesis by (cases "ex_reply x k") (auto split: if_splits)
qed

lemma fetch_returns:
  assumes "\<And>b u. exchange_ends (ri_web r b u)"
  shows "\<exists>y. fetch U g r url = Some y"
proof -
  have "\<exists>y. retry_get (ri_web r b u) = Some y" for b u using assms retry_get_none_iff by (metis not_None_eq)
  then obtain F where F: "\<And>b u. retry_get (ri_web r b u) = Some (F b u)" by metis
  show ?thesis by (simp add: fetch_def Let_def F split: sum.splits option.splits)
qed

lemma get_context_returns:
  fixes g :: "'s getter"
  assumes "\<And>b u. exchange_ends (ri_web r b u)"
  shows "\<exists>y. get_context U C r url g = Some y"
proof -
  obtain F where F: "\<And>g :: 's getter. fetch U g r url = Some (F g)"
    using choice [of "\<lambda>(g :: 's getter) y. fetch U g r url = Some y"] fetch_returns [OF assms] by blast
  show ?thesis by (auto simp: get_context_def Let_def F split: sum.splits option.splits prod.splits)
qed

text \<open>The bodies that the network gave for a URL, from the origin or from the proxy.\<close>

definition answered :: "urllib \<Rightarrow> string \<Rightarrow> round_inputs \<Rightarrow> string \<Rightarrow> bytes \<Rightarrow> bool" where
  "answered U base r url b \<longleftrightarrow> (\<exists>budget u k code hs. u \<in> {url, redirect_to_proxy U base url} \<and> code \<in> {200, 203}
     \<and> ex_reply (ri_web r budget u) k = Reply code hs b)"

lemma fetch_answered:
  assumes "fetch U g r url = Some (Inr a, t)"
  shows "answered U (ge_proxy_base g) r url (snd a)"
proof -
  obtain budget u where u: "u \<in> {url, redirect_to_proxy U (ge_proxy_base g) url}" and x: "retry_get (ri_web r budget u) = Some (Inr a)"
    using assms by (auto simp: fetch_def Let_def split: if_splits option.splits sum.splits)
  obtain hs b where a: "a = (hs, b)" by fastforce
  have "answered U (ge_proxy_base g) r url b"
    using retry_get_answer [OF x [unfolded a]] u unfolding answered_def by blast
  then show ?thesis by (simp add: a)
qed

text \<open>A proxy in trouble is left alone for the cooldown, and its trouble does not show in the answer.\<close>

lemma fetch_falls_back:
  assumes "ge_proxy_base g \<noteq> ''''" and "\<not> proxy_in_cooldown (ge_retry_after g) (ri_check_time r)"
    and "retry_get (ri_web r (Some (proxy_budget r)) (redirect_to_proxy U (ge_proxy_base g) url)) = Some (Inl e)"
    and "\<And>c. http_code e = Some c \<Longrightarrow> transient_status c"
    and "retry_get (ri_web r None url) = Some y"
  shows "fetch U g r url = Some (y, ri_store_time r + proxy_retry_cooldown)"
  using assms by (auto simp: fetch_def Let_def split: option.splits)

lemma cooldown_uses_origin:
  assumes "proxy_in_cooldown (ge_retry_after g) (ri_check_time r)"
  shows "fetch U g r url = map_option (\<lambda>y. (y, ge_retry_after g)) (retry_get (ri_web r None url))"
  using assms by (simp add: fetch_def Let_def)

section \<open>The cache\<close>

text \<open>What a store promises: it returns nothing for a key but what was set for it.\<close>

locale cert_cache =
  fixes C :: "'s certstore" and U :: urllib
  assumes set_sound: "cs_get C (cs_set C s k v) k' = Some w \<Longrightarrow> k' = k \<and> w = v \<or> cs_get C s k' = Some w"
    and clear_sound: "cs_get C (cs_clear C s) k = Some w \<Longrightarrow> cs_get C s k = Some w"
    and entry_bodies: "entry_text U a = Inr d \<Longrightarrow> entry_parse U d = Inr a' \<Longrightarrow> snd a' = snd a"
begin

definition cache_sound :: "(string \<Rightarrow> bytes set) \<Rightarrow> 's \<Rightarrow> bool" where
  "cache_sound K s \<longleftrightarrow> (\<forall>url a. cached_answer U C url s = Some a \<longrightarrow> snd a \<in> K url)"

lemma cache_soundD: "cache_sound K s \<Longrightarrow> cached_answer U C url s = Some a \<Longrightarrow> snd a \<in> K url"
  unfolding cache_sound_def by blast

lemma cache_sound_mono: "cache_sound K s \<Longrightarrow> (\<And>url. K url \<subseteq> K' url) \<Longrightarrow> cache_sound K' s"
  unfolding cache_sound_def by blast

lemma cache_sound_clear: "cache_sound K s \<Longrightarrow> cache_sound K (cs_clear C s)"
  unfolding cache_sound_def cached_answer_def
  by (fastforce split: option.splits dest: clear_sound)

lemma cache_sound_store:
  assumes "cache_sound K s" and "snd a \<in> K url"
  shows "cache_sound K (store_answer U C url a s)"
  unfolding cache_sound_def
proof (intro allI impI)
  fix url' a' assume c: "cached_answer U C url' (store_answer U C url a s) = Some a'"
  show "snd a' \<in> K url'"
  proof (cases "entry_text U a")
    case (Inl e)
    then show ?thesis using c cache_soundD [OF assms(1)] by (simp add: store_answer_def)
  next
    case (Inr d)
    obtain w where w: "cs_get C (cs_set C s url d) url' = Some w" "entry_parse U w = Inr a'"
      using c Inr by (auto simp: store_answer_def cached_answer_def split: option.splits sum.splits)
    from set_sound [OF w(1)] show ?thesis
    proof
      assume "url' = url \<and> w = d"
      then show ?thesis using entry_bodies [OF Inr] w(2) assms(2) by auto
    next
      assume "cs_get C s url' = Some w"
      then have "cached_answer U C url' s = Some a'" using w(2) by (simp add: cached_answer_def)
      then show ?thesis by (rule cache_soundD [OF assms(1)])
    qed
  qed
qed

lemma get_context_sound:
  assumes "get_context U C r url g = Some (x, g')" and "cache_sound K (ge_cache g)"
    and "\<And>b. answered U (ge_proxy_base g) r url b \<Longrightarrow> b \<in> K url"
  shows "cache_sound K (ge_cache g') \<and> ge_proxy_base g' = ge_proxy_base g \<and> (\<forall>a. x = Inr a \<longrightarrow> snd a \<in> K url)"
proof -
  let ?s = "if ri_tick r then cs_clear C (ge_cache g) else ge_cache g"
  let ?g1 = "g\<lparr>ge_cache := ?s\<rparr>"
  have s: "cache_sound K ?s" using assms(2) cache_sound_clear by simp
  have hit: "snd a \<in> K url" if "cached_answer U C url ?s = Some a" for a
    using that by (rule cache_soundD [OF s])
  have net: "snd a \<in> K url" if "fetch U ?g1 r url = Some (Inr a, t)" for a t
    using fetch_answered [OF that] assms(3) by simp
  show ?thesis
  proof (cases "fetch U ?g1 r url")
    case None
    then show ?thesis using assms(1) s hit by (auto simp: get_context_def Let_def split: if_splits option.splits)
  next
    case (Some y)
    obtain z t where y: "y = (z, t)" by fastforce
    show ?thesis
    proof (cases z)
      case (Inl e)
      then show ?thesis using assms(1) s hit Some y
        by (auto simp: get_context_def Let_def split: if_splits option.splits)
    next
      case (Inr a)
      have k: "snd a \<in> K url" using net Some y Inr by simp
      have "cache_sound K (store_answer U C url a ?s)" by (rule cache_sound_store [OF s k])
      then show ?thesis using assms(1) s hit k Some y Inr
        by (auto simp: get_context_def Let_def split: if_splits option.splits)
    qed
  qed
qed

end

text \<open>A sequence of calls.\<close>

fun run_gets :: "urllib \<Rightarrow> 's certstore \<Rightarrow> (string \<times> round_inputs) list \<Rightarrow> 's getter
    \<Rightarrow> ((fetch_error + answer) list \<times> 's getter) option" where
  "run_gets U C [] g = Some ([], g)"
| "run_gets U C ((url, r) # cs) g = (case get_context U C r url g of None \<Rightarrow> None
     | Some (x, g1) \<Rightarrow> (case run_gets U C cs g1 of None \<Rightarrow> None | Some (xs, g2) \<Rightarrow> Some (x # xs, g2)))"

context cert_cache begin

lemma run_gets_sound:
  assumes "run_gets U C cs g = Some (xs, g')" and "cache_sound K (ge_cache g)" and "ge_proxy_base g = base"
    and "i < length cs" and "xs ! i = Inr a"
  shows "snd a \<in> K (fst (cs ! i)) \<or> (\<exists>j\<le>i. fst (cs ! j) = fst (cs ! i) \<and> answered U base (snd (cs ! j)) (fst (cs ! i)) (snd a))"
  using assms
proof (induction cs arbitrary: g xs i K)
  case (Cons c cs)
  obtain url r where c: "c = (url, r)" by fastforce
  obtain x g1 ys where x: "get_context U C r url g = Some (x, g1)" and ys: "run_gets U C cs g1 = Some (ys, g')" and xs: "xs = x # ys"
    using Cons.prems(1) c by (auto split: option.splits)
  let ?K = "K(url := K url \<union> {b. answered U base r url b})"
  have "cache_sound ?K (ge_cache g)" using Cons.prems(2) by (rule cache_sound_mono) auto
  from get_context_sound [OF x this] Cons.prems(3)
  have s: "cache_sound ?K (ge_cache g1)" "ge_proxy_base g1 = base" "\<And>a. x = Inr a \<Longrightarrow> snd a \<in> ?K url" by auto
  show ?case
  proof (cases i)
    case 0
    then show ?thesis using s(3) [of a] Cons.prems(5) xs c by auto
  next
    case (Suc n)
    have "snd a \<in> ?K (fst (cs ! n)) \<or> (\<exists>j\<le>n. fst (cs ! j) = fst (cs ! n) \<and> answered U base (snd (cs ! j)) (fst (cs ! n)) (snd a))"
      by (rule Cons.IH [OF ys s(1,2)]) (use Cons.prems(4,5) xs Suc in auto)
    then show ?thesis
    proof
      assume k: "snd a \<in> ?K (fst (cs ! n))"
      show ?thesis
      proof (cases "snd a \<in> K (fst (cs ! n))")
        case True
        then show ?thesis using Suc by simp
      next
        case False
        then have "fst (cs ! n) = url" "answered U base r url (snd a)" using k by (auto split: if_splits)
        then show ?thesis using Suc c by (intro disjI2 exI [of _ 0]) simp
      qed
    next
      assume "\<exists>j\<le>n. fst (cs ! j) = fst (cs ! n) \<and> answered U base (snd (cs ! j)) (fst (cs ! n)) (snd a)"
      then obtain j where "j \<le> n" "fst (cs ! j) = fst (cs ! n)" "answered U base (snd (cs ! j)) (fst (cs ! n)) (snd a)" by blast
      then show ?thesis using Suc by (intro disjI2 exI [of _ "Suc j"]) simp
    qed
  qed
qed simp

lemma get_context_fresh:
  assumes "always_revalidate U url"
    and "fetch U (g\<lparr>ge_cache := (if ri_tick r then cs_clear C (ge_cache g) else ge_cache g)\<rparr>) r url = Some (Inr a, t)"
  shows "\<exists>g'. get_context U C r url g = Some (Inr a, g')"
  using assms by (simp add: get_context_def Let_def)

end

section \<open>The two stores\<close>

locale entry_json =
  fixes U :: urllib
  assumes bodies: "entry_text U a = Inr d \<Longrightarrow> entry_parse U d = Inr a' \<Longrightarrow> snd a' = snd a"

sublocale entry_json \<subseteq> mem: cert_cache mem_certstore U
proof unfold_locales
  fix s k v k' w
  show "cs_get mem_certstore (cs_set mem_certstore s k v) k' = Some w \<Longrightarrow> k' = k \<and> w = v \<or> cs_get mem_certstore s k' = Some w"
    by (simp add: mem_certstore_def memstore_get_def memstore_set_def split: if_splits)
  show "cs_get mem_certstore (cs_clear mem_certstore s) k = Some w \<Longrightarrow> cs_get mem_certstore s k = Some w"
    by (simp add: mem_certstore_def memstore_get_def memstore_clear_def)
qed (rule bodies)

text \<open>
  A filesystem under which a write changes no other file and leaves nothing else in its own, with
  names that do not collide.
\<close>

locale cache_files = entry_json U for U +
  fixes F :: "'f cachefs" and sha256 :: "bytes \<Rightarrow> bytes"
  assumes no_collision: "inj sha256"
    and mkdir_keeps: "cf_read F (snd (cf_mkdir F s)) n = cf_read F s n"
    and write_sound: "cf_read F (snd (cf_write F s n v)) n' = Inr w \<Longrightarrow> n' = n \<and> w = v \<or> cf_read F s n' = Inr w"
    and remove_sound: "cf_read F (snd (cf_remove_all F s)) n = Inr w \<Longrightarrow> cf_read F s n = Inr w"

lemma key_to_filename_inject: "inj sha256 \<Longrightarrow> key_to_filename sha256 k = key_to_filename sha256 k' \<longleftrightarrow> k = k'"
  unfolding key_to_filename_def same_append_eq hex_encode_inject by (metis injD bytes_of_string_inject)

sublocale cache_files \<subseteq> files: cert_cache "fs_certstore sha256 F" U
proof unfold_locales
  fix s k v k' w
  assume "cs_get (fs_certstore sha256 F) (cs_set (fs_certstore sha256 F) s k v) k' = Some w"
  then have r: "cf_read F (fsstore_set sha256 F s k v) (key_to_filename sha256 k') = Inr w"
    by (simp add: fs_certstore_def fsstore_get_def split: sum.splits)
  obtain e s1 where m: "cf_mkdir F s = (e, s1)" by fastforce
  have keep: "cf_read F s1 n = cf_read F s n" for n using mkdir_keeps [of s n] m by simp
  have "k' = k \<and> w = v \<or> cf_read F s (key_to_filename sha256 k') = Inr w"
  proof (cases e)
    case None
    then have "cf_read F (snd (cf_write F s1 (key_to_filename sha256 k) v)) (key_to_filename sha256 k') = Inr w"
      using r m by (simp add: fsstore_set_def)
    from write_sound [OF this] show ?thesis using keep key_to_filename_inject [OF no_collision] by simp
  qed (use r m keep in \<open>simp add: fsstore_set_def\<close>)
  then show "k' = k \<and> w = v \<or> cs_get (fs_certstore sha256 F) s k' = Some w"
    by (auto simp: fs_certstore_def fsstore_get_def)
next
  fix s k w
  assume "cs_get (fs_certstore sha256 F) (cs_clear (fs_certstore sha256 F) s) k = Some w"
  then have "cf_read F (snd (cf_remove_all F s)) (key_to_filename sha256 k) = Inr w"
    by (simp add: fs_certstore_def fsstore_get_def fsstore_clear_def split: sum.splits)
  from remove_sound [OF this] show "cs_get (fs_certstore sha256 F) s k = Some w"
    by (simp add: fs_certstore_def fsstore_get_def)
qed (rule bodies)


lemma memstore_new_empty: "cached_answer U mem_certstore url memstore_new = None"
  by (simp add: cached_answer_def mem_certstore_def memstore_get_def memstore_new_def)

context entry_json begin

lemma mem_answers_are_given:
  assumes "run_gets U mem_certstore cs (new_cached_getter memstore_new proxy) = Some (xs, g')"
    and "i < length cs" and "xs ! i = Inr a"
  shows "\<exists>j\<le>i. fst (cs ! j) = fst (cs ! i) \<and> answered U (trim_right CHR ''/'' proxy) (snd (cs ! j)) (fst (cs ! i)) (snd a)"
proof -
  have "mem.cache_sound (\<lambda>url. {}) (ge_cache (new_cached_getter memstore_new proxy))"
    by (simp add: mem.cache_sound_def new_cached_getter_def memstore_new_empty)
  from mem.run_gets_sound [OF assms(1) this _ assms(2,3)] show ?thesis
    by (simp add: new_cached_getter_def)
qed

end

section \<open>A small getter\<close>

text \<open>Entries without headers, and URLs whose path starts at the first slash.\<close>

definition demo_urllib :: urllib where
  "demo_urllib = \<lparr>url_parts = (\<lambda>s. Some (dropWhile (\<lambda>c. c \<noteq> CHR ''/'') s, '''')),
     entry_text = (\<lambda>a. Inr (snd a)), entry_parse = (\<lambda>d. Inr ([], d))\<rparr>"

interpretation demo_json: entry_json demo_urllib
  by unfold_locales (auto simp: demo_urllib_def)

definition demo_cachefs :: "(string \<rightharpoonup> bytes) cachefs" where
  "demo_cachefs = \<lparr>cf_read = (\<lambda>s n. case s n of None \<Rightarrow> Inl (Sentinel ''file does not exist'') | Some v \<Rightarrow> Inr v),
     cf_mkdir = (\<lambda>s. (None, s)), cf_write = (\<lambda>s n v. (None, s(n \<mapsto> v))), cf_remove_all = (\<lambda>s. (None, Map.empty))\<rparr>"

interpretation demo_files: cache_files demo_urllib demo_cachefs "\<lambda>b. b"
proof unfold_locales
  show "inj (\<lambda>b :: bytes. b)" by simp
  fix s n v n' w
  show "cf_read demo_cachefs (snd (cf_mkdir demo_cachefs s)) n = cf_read demo_cachefs s n"
    by (simp add: demo_cachefs_def)
  show "cf_read demo_cachefs (snd (cf_write demo_cachefs s n v)) n' = Inr w \<Longrightarrow> n' = n \<and> w = v \<or> cf_read demo_cachefs s n' = Inr w"
    by (simp add: demo_cachefs_def split: if_splits)
  show "cf_read demo_cachefs (snd (cf_remove_all demo_cachefs s)) n = Inr w \<Longrightarrow> cf_read demo_cachefs s n = Inr w"
    by (simp add: demo_cachefs_def)
qed

text \<open>One call that is answered, and one while nothing answers: the cached answer is used.\<close>

definition demo_exchange :: "web_reply \<Rightarrow> exchange" where
  "demo_exchange r = \<lparr>ex_reply = (\<lambda>k. r), ex_expired = (\<lambda>k. Some (Msg ''deadline exceeded'')), ex_ended = (\<lambda>k. None)\<rparr>"

definition demo_round :: "web_reply \<Rightarrow> round_inputs" where
  "demo_round r = \<lparr>ri_tick = False, ri_check_time = 0, ri_budget_time = 0, ri_store_time = 0, ri_deadline = None,
     ri_web = (\<lambda>b u. demo_exchange r)\<rparr>"

definition demo_crl_url :: string where "demo_crl_url = ''kds/vcek/v1/Milan/crl''"

definition demo_calls :: "(string \<times> round_inputs) list" where
  "demo_calls = [(demo_crl_url, demo_round (Reply 200 [] [7])), (demo_crl_url, demo_round (NoReply (Msg ''no route'')))]"

lemma demo_retry:
  "retry_get (demo_exchange (Reply 200 [] [7])) = Some (Inr ([], [7]))"
  "retry_get (demo_exchange (NoReply (Msg ''no route''))) = Some (Inl (RetriesFailed (Msg ''deadline exceeded'')
     (FetchErr (Wrap ''requesting URL'' (Msg ''no route'')))))"
  unfolding retry_get_def demo_exchange_def by (subst do_retry.simps, simp add: should_retry_def)+

lemma demo_revalidate: "always_revalidate demo_urllib demo_crl_url"
  by code_simp

lemma demo_run_gets:
  "\<exists>g. run_gets demo_urllib mem_certstore demo_calls (new_cached_getter memstore_new '''') = Some ([Inr ([], [7]), Inr ([], [7])], g)"
  by (simp add: demo_calls_def get_context_def Let_def demo_revalidate fetch_def new_cached_getter_def trim_right_def demo_round_def
      demo_retry store_answer_def cached_answer_def)
    (simp add: demo_urllib_def mem_certstore_def memstore_get_def memstore_set_def)


end
