(* ===== verification/Servicemesh.thy ===== *)
theory Servicemesh
  imports Gostd
begin

text \<open>
  The service mesh sidecar, \<open>service-mesh\<close>: the proxy configuration that the annotations of a pod
  describe, the Envoy configuration made from it (\<open>config.go\<close>), and the iptables rules that redirect
  inbound connections to Envoy (\<open>iptables.go\<close>), before the default deny rule is removed
  (\<open>internal/defaultdeny\<close>). Parsing of addresses, Envoy's own validation and the outcome of iptables
  calls are parameters.
\<close>

definition envoy_ingress_port :: "16 word" where "envoy_ingress_port = 15006"
definition envoy_ingress_port_no_client_cert :: "16 word" where "envoy_ingress_port_no_client_cert = 15007"
definition black_hole_cluster_name :: string where "black_hole_cluster_name = ''BlackHoleCluster''"
definition ingress_cluster_name :: string where "ingress_cluster_name = ''IngressCluster''"

section \<open>The proxy configuration\<close>

record 'addr egress_entry =
  eg_name :: string
  eg_cluster_name :: string
  eg_listen_addr :: 'addr
  eg_listen_port :: "16 word"
  eg_remote_domain :: string
  eg_remote_port :: "16 word"

record ingress_entry =
  in_name :: string
  in_listen_port :: "16 word"
  in_disable_tls :: bool

record 'addr proxy_config =
  pc_egress :: "'addr egress_entry list"
  pc_ingress :: "ingress_entry list"
  pc_admin_port :: "32 word"
  pc_ingress_disabled :: bool

record 'addr netlib =
  parse_addr_port :: "string \<Rightarrow> ('addr \<times> 16 word) result"
  in_loopback :: "'addr \<Rightarrow> bool"
  addr_text :: "'addr \<Rightarrow> string"
  any_address :: 'addr
  split_host_port :: "string \<Rightarrow> (string \<times> string) result"

definition empty_proxy_config :: "'addr proxy_config" where
  "empty_proxy_config = \<lparr>pc_egress = [], pc_ingress = [], pc_admin_port = 0, pc_ingress_disabled = False\<rparr>"

text \<open>Ports go through \<open>Atoi\<close> and then keep their low 16 bits.\<close>

definition parse_egress_entry :: "'addr netlib \<Rightarrow> string \<Rightarrow> 'addr egress_entry result" where
  "parse_egress_entry N entry = (case split_on CHR ''#'' entry of
     [name, listen, remote] \<Rightarrow>
       (case parse_addr_port N listen of Inl e \<Rightarrow> Inl (Msg (''invalid listen address: '' @ listen))
        | Inr (addr, port) \<Rightarrow>
        if \<not> in_loopback N addr then Inl (Msg ''listen address is not in local CIDR'') else
       (case split_host_port N remote of Inl e \<Rightarrow> Inl (Msg ''invalid remote domain'')
        | Inr (domain, rport) \<Rightarrow>
       (case go_atoi rport of Inl e \<Rightarrow> Inl (Msg (''invalid remote port: '' @ rport))
        | Inr p \<Rightarrow> Inr \<lparr>eg_name = name, eg_cluster_name = name, eg_listen_addr = addr, eg_listen_port = port,
            eg_remote_domain = domain, eg_remote_port = word_of_int p\<rparr>)))
   | _ \<Rightarrow> Inl (Msg (''invalid entry: '' @ entry)))"

definition parse_ingress_entry :: "string \<Rightarrow> ingress_entry result" where
  "parse_ingress_entry entry = (case split_on CHR ''#'' entry of
     [name, port, tls] \<Rightarrow>
       (case go_atoi port of Inl e \<Rightarrow> Inl (Msg (''invalid listen port: '' @ port))
        | Inr p \<Rightarrow>
       (case go_parse_bool tls of Inl e \<Rightarrow> Inl (Msg (''invalid disable TLS: '' @ tls))
        | Inr d \<Rightarrow> Inr \<lparr>in_name = name, in_listen_port = word_of_int p, in_disable_tls = d\<rparr>))
   | _ \<Rightarrow> Inl (Msg (''invalid entry: '' @ entry)))"

fun parse_entries :: "(string \<Rightarrow> 'e result) \<Rightarrow> string list \<Rightarrow> 'e list result" where
  "parse_entries f [] = Inr []"
| "parse_entries f (s # ss) = (if s = '''' then parse_entries f ss else
     case f s of Inl e \<Rightarrow> Inl e
     | Inr x \<Rightarrow> (case parse_entries f ss of Inl e \<Rightarrow> Inl e | Inr xs \<Rightarrow> Inr (x # xs)))"

definition parse_proxy_config :: "'addr netlib \<Rightarrow> string \<Rightarrow> string \<Rightarrow> string \<Rightarrow> 'addr proxy_config result" where
  "parse_proxy_config N ingress_config egress_config admin_port =
     (if ingress_config = '''' \<and> egress_config = '''' \<and> admin_port = '''' then Inr empty_proxy_config else
      case parse_entries (parse_egress_entry N) (split_double CHR ''#'' egress_config) of Inl e \<Rightarrow> Inl e
      | Inr egress \<Rightarrow>
     (case (if admin_port = '''' then Inr 0 else go_atoi admin_port) of
        Inl e \<Rightarrow> Inl (Msg (''invalid admin port: '' @ admin_port))
      | Inr a \<Rightarrow>
      let cfg = empty_proxy_config\<lparr>pc_egress := egress, pc_admin_port := word_of_int a\<rparr> in
      if ingress_config = ''DISABLED'' then Inr (cfg\<lparr>pc_ingress_disabled := True\<rparr>) else
     (case parse_entries parse_ingress_entry (split_double CHR ''#'' ingress_config) of Inl e \<Rightarrow> Inl e
      | Inr ingress \<Rightarrow> Inr (cfg\<lparr>pc_ingress := ingress\<rparr>))))"

section \<open>The Envoy configuration\<close>

text \<open>
  The fields that the source sets. A TLS context without \<open>tls_require_client\<close> is one for outgoing
  connections. \<open>proxy_any\<close> is the outcome of packing a TCP proxy message, \<open>validate_all\<close> that of
  Envoy's validation and \<open>proto_json\<close> its printing.
\<close>

record tls_context =
  tls_private_key :: string
  tls_chain :: string
  tls_trusted_ca :: string
  tls_require_client :: "bool option"

record filter_chain =
  fc_name :: string
  fc_filter :: string
  fc_stat_prefix :: string
  fc_cluster :: string
  fc_tls :: "tls_context option"

record chain_matcher =
  cm_port :: int
  cm_on_match :: string
  cm_on_no_match :: string

record listener =
  ln_name :: string
  ln_address :: string
  ln_port :: "16 word"
  ln_transparent :: bool
  ln_original_dst :: bool
  ln_chains :: "filter_chain list"
  ln_matcher :: "chain_matcher option"

datatype cluster_kind = LogicalDns string "16 word" | OriginalDst | StaticEmpty

record cluster =
  cl_name :: string
  cl_kind :: cluster_kind
  cl_tls :: "tls_context option"

record bootstrap =
  bs_admin :: "32 word option"
  bs_listeners :: "listener list"
  bs_clusters :: "cluster list"

record envoylib =
  proxy_any :: "string \<Rightarrow> string \<Rightarrow> goerr option"
  validate_all :: "bootstrap \<Rightarrow> goerr option"
  proto_json :: "bootstrap \<Rightarrow> bytes result"

definition mesh_tls :: "bool option \<Rightarrow> tls_context" where
  "mesh_tls req = \<lparr>tls_private_key = ''/contrast/tls-config/key.pem'', tls_chain = ''/contrast/tls-config/certChain.pem'',
     tls_trusted_ca = ''/contrast/tls-config/mesh-ca.pem'', tls_require_client = req\<rparr>"

definition upstream_tls_transport_socket :: tls_context where
  "upstream_tls_transport_socket = mesh_tls None"

definition downstream_tls_transport_socket :: "bool \<Rightarrow> tls_context" where
  "downstream_tls_transport_socket req = mesh_tls (Some req)"

definition listener_of :: "'addr netlib \<Rightarrow> envoylib \<Rightarrow> 'addr egress_entry \<Rightarrow> listener result" where
  "listener_of N V e = (case proxy_any V (eg_name e) (eg_cluster_name e) of Some err \<Rightarrow> Inl err
   | None \<Rightarrow> Inr \<lparr>ln_name = eg_name e, ln_address = addr_text N (eg_listen_addr e), ln_port = eg_listen_port e,
       ln_transparent = False, ln_original_dst = False,
       ln_chains = [\<lparr>fc_name = eg_name e, fc_filter = ''ingress'', fc_stat_prefix = eg_name e, fc_cluster = eg_cluster_name e, fc_tls = None\<rparr>],
       ln_matcher = None\<rparr>)"

definition cluster_of :: "'addr egress_entry \<Rightarrow> cluster" where
  "cluster_of e = \<lparr>cl_name = eg_name e, cl_kind = LogicalDns (eg_remote_domain e) (eg_remote_port e),
     cl_tls = Some upstream_tls_transport_socket\<rparr>"

definition ingress_listener :: "'addr netlib \<Rightarrow> envoylib \<Rightarrow> string \<Rightarrow> 16 word \<Rightarrow> bool \<Rightarrow> listener result" where
  "ingress_listener N V name port req =
     (case listener_of N V \<lparr>eg_name = name, eg_cluster_name = ingress_cluster_name, eg_listen_addr = any_address N,
             eg_listen_port = port, eg_remote_domain = '''', eg_remote_port = 0\<rparr> of
        Inl e \<Rightarrow> Inl e
      | Inr l \<Rightarrow> Inr (l\<lparr>ln_transparent := True, ln_original_dst := True,
          ln_chains := map (\<lambda>c. c\<lparr>fc_tls := Some (downstream_tls_transport_socket req)\<rparr>) (ln_chains l)\<rparr>))"

definition ingress_cluster :: cluster where
  "ingress_cluster = \<lparr>cl_name = ingress_cluster_name, cl_kind = OriginalDst, cl_tls = None\<rparr>"

definition black_hole_cluster :: cluster where
  "black_hole_cluster = \<lparr>cl_name = black_hole_cluster_name, cl_kind = StaticEmpty, cl_tls = None\<rparr>"

definition black_hole_filter :: "envoylib \<Rightarrow> filter_chain result" where
  "black_hole_filter V = (case proxy_any V black_hole_cluster_name black_hole_cluster_name of Some e \<Rightarrow> Inl e
   | None \<Rightarrow> Inr \<lparr>fc_name = ''BlackHoleFilter'', fc_filter = ''BlackHoleFilter'', fc_stat_prefix = black_hole_cluster_name,
       fc_cluster = black_hole_cluster_name, fc_tls = None\<rparr>)"

definition filter_chain_matcher :: "int \<Rightarrow> string \<Rightarrow> chain_matcher" where
  "filter_chain_matcher port default_filter =
     \<lparr>cm_port = port, cm_on_match = ''BlackHoleFilter'', cm_on_no_match = default_filter\<rparr>"

text \<open>Every listener is looked at, those of the egress too, when the ports are compared.\<close>

definition add_black_hole :: "envoylib \<Rightarrow> 16 word list \<Rightarrow> listener \<Rightarrow> listener result" where
  "add_black_hole V ports l =
     (if ln_matcher l \<noteq> None then Inl (Msg ''listener already has a filterChainMatcher'')
      else if ln_port l = 0 then Inl (Msg ''listener listens on port 0'')
      else if ln_port l \<notin> set ports then Inr l
      else (case ln_chains l of
          [c] \<Rightarrow> (case black_hole_filter V of Inl e \<Rightarrow> Inl e
            | Inr bh \<Rightarrow> Inr (l\<lparr>ln_matcher := Some (filter_chain_matcher (uint (ln_port l)) (fc_name c)), ln_chains := [c, bh]\<rparr>))
        | _ \<Rightarrow> Inl (Msg ''listener does not have exactly one filter chain'')))"

fun each_result :: "('a \<Rightarrow> 'b result) \<Rightarrow> 'a list \<Rightarrow> 'b list result" where
  "each_result f [] = Inr []"
| "each_result f (x # xs) = (case f x of Inl e \<Rightarrow> Inl e
     | Inr y \<Rightarrow> (case each_result f xs of Inl e \<Rightarrow> Inl e | Inr ys \<Rightarrow> Inr (y # ys)))"

definition add_black_hole_to_config :: "envoylib \<Rightarrow> 16 word list \<Rightarrow> bootstrap \<Rightarrow> bootstrap result" where
  "add_black_hole_to_config V ports b = (case each_result (add_black_hole V ports) (bs_listeners b) of
     Inl e \<Rightarrow> Inl e
   | Inr ls \<Rightarrow> Inr (b\<lparr>bs_listeners := ls, bs_clusters := bs_clusters b @ [black_hole_cluster]\<rparr>))"

definition envoy_bootstrap :: "'addr netlib \<Rightarrow> envoylib \<Rightarrow> 'addr proxy_config \<Rightarrow> bootstrap result" where
  "envoy_bootstrap N V c =
     (let admin = (if pc_admin_port c \<noteq> 0 then Some (pc_admin_port c) else None) in
      case each_result (listener_of N V) (pc_egress c) of Inl e \<Rightarrow> Inl e
      | Inr ls \<Rightarrow>
      let cs = map cluster_of (pc_egress c) in
      if pc_ingress_disabled c then Inr \<lparr>bs_admin = admin, bs_listeners = ls, bs_clusters = cs\<rparr> else
     (case ingress_listener N V ''ingress'' envoy_ingress_port True of Inl e \<Rightarrow> Inl e
      | Inr l1 \<Rightarrow>
     (case ingress_listener N V ''ingressWithoutClientAuth'' envoy_ingress_port_no_client_cert False of Inl e \<Rightarrow> Inl e
      | Inr l2 \<Rightarrow> add_black_hole_to_config V [envoy_ingress_port, envoy_ingress_port_no_client_cert]
          \<lparr>bs_admin = admin, bs_listeners = ls @ [l1, l2], bs_clusters = cs @ [ingress_cluster]\<rparr>)))"

definition to_envoy_config :: "'addr netlib \<Rightarrow> envoylib \<Rightarrow> 'addr proxy_config \<Rightarrow> bytes result" where
  "to_envoy_config N V c = (case envoy_bootstrap N V c of Inl e \<Rightarrow> Inl e
   | Inr b \<Rightarrow> (case validate_all V b of Some e \<Rightarrow> Inl e | None \<Rightarrow> proto_json V b))"


section \<open>Rules and tables\<close>

text \<open>
  A rule carries the matches that the source uses (protocol TCP, input interface, connection state, destination port)
  and its target. The library's client is a record of operations on a state \<open>'s\<close>; \<open>chain_rules\<close> reads
  the rules of a chain, and is used in statements only.
\<close>

datatype rule_target = Jump string | Return | Drop | Tproxy "16 word"

datatype ct_match = AnyState | Established | NotEstablished

record ipt_rule =
  ru_tcp :: bool
  ru_lo :: bool
  ru_state :: ct_match
  ru_dport :: "16 word option"
  ru_target :: rule_target

record 's ipt =
  ipt_new :: "'s \<Rightarrow> goerr option"
  new_chain :: "string \<times> string \<Rightarrow> 's \<Rightarrow> goerr option \<times> 's"
  append_unique :: "string \<times> string \<Rightarrow> ipt_rule \<Rightarrow> 's \<Rightarrow> goerr option \<times> 's"
  rule_exists :: "string \<times> string \<Rightarrow> ipt_rule \<Rightarrow> 's \<Rightarrow> bool result"
  rule_delete :: "string \<times> string \<Rightarrow> ipt_rule \<Rightarrow> 's \<Rightarrow> goerr option \<times> 's"
  chain_rules :: "'s \<Rightarrow> string \<times> string \<Rightarrow> ipt_rule list"

definition tcp_rule :: "rule_target \<Rightarrow> ipt_rule" where
  "tcp_rule t = \<lparr>ru_tcp = True, ru_lo = False, ru_state = AnyState, ru_dport = None, ru_target = t\<rparr>"

definition inbound_chain :: "string \<times> string" where
  "inbound_chain = (''mangle'', ''CONTRAST_INBOUND'')"

definition redirect_chain :: "string \<times> string" where
  "redirect_chain = (''mangle'', ''CONTRAST_IN_REDIRECT'')"

definition entry_rule :: "ingress_entry \<Rightarrow> ipt_rule" where
  "entry_rule e = tcp_rule (if in_disable_tls e then Return else Tproxy envoy_ingress_port_no_client_cert)
     \<lparr>ru_dport := Some (in_listen_port e)\<rparr>"

definition inbound_rules :: "((string \<times> string) \<times> ipt_rule) list" where
  "inbound_rules =
     [((''mangle'', ''PREROUTING''), tcp_rule (Jump ''CONTRAST_INBOUND'')),
      (inbound_chain, tcp_rule Return\<lparr>ru_lo := True\<rparr>),
      (inbound_chain, tcp_rule Return\<lparr>ru_state := Established\<rparr>),
      (inbound_chain, tcp_rule (Jump ''CONTRAST_IN_REDIRECT''))]"

fun append_all :: "'s ipt \<Rightarrow> ((string \<times> string) \<times> ipt_rule) list \<Rightarrow> 's \<Rightarrow> goerr option \<times> 's" where
  "append_all P [] s = (None, s)"
| "append_all P ((c, r) # rs) s = (case append_unique P c r s of
     (Some e, s') \<Rightarrow> (Some (Wrap ''failed to append'' e), s')
   | (None, s') \<Rightarrow> append_all P rs s')"

text \<open>The two chains may exist already: the outcome of creating them is not looked at.\<close>

definition ingress_ip_table_rules :: "'s ipt \<Rightarrow> ingress_entry list \<Rightarrow> 's \<Rightarrow> goerr option \<times> 's" where
  "ingress_ip_table_rules P entries s = (case ipt_new P s of
     Some e \<Rightarrow> (Some (Wrap ''failed to create iptables client'' e), s)
   | None \<Rightarrow>
      let s1 = snd (new_chain P inbound_chain s);
          s2 = snd (new_chain P redirect_chain s1) in
      append_all P (inbound_rules @ map (\<lambda>e. (redirect_chain, entry_rule e)) entries @
        [(redirect_chain, tcp_rule (Tproxy envoy_ingress_port))]) s2)"

definition deny_chain :: "string \<times> string" where "deny_chain = (''filter'', ''INPUT'')"

definition default_deny_rule :: ipt_rule where
  "default_deny_rule =
     \<lparr>ru_tcp = False, ru_lo = False, ru_state = NotEstablished, ru_dport = None, ru_target = Drop\<rparr>"

definition remove_default_deny_rule :: "'s ipt \<Rightarrow> 's \<Rightarrow> goerr option \<times> 's" where
  "remove_default_deny_rule P s = (case ipt_new P s of
     Some e \<Rightarrow> (Some (Wrap ''failed to create iptables client'' e), s)
   | None \<Rightarrow>
     (case rule_exists P deny_chain default_deny_rule s of
        Inl e \<Rightarrow> (Some (Wrap ''failed to check for default deny rule'' e), s)
      | Inr ex \<Rightarrow> if \<not> ex then (None, s) else
     (case rule_delete P deny_chain default_deny_rule s of
        (Some e, s') \<Rightarrow> (Some (Wrap ''failed to delete default deny rule'' e), s')
      | (None, s') \<Rightarrow> (None, s'))))"

section \<open>The sidecar's main function\<close>

record 's sys =
  sys_write_file :: "string \<Rightarrow> bytes \<Rightarrow> 's \<Rightarrow> goerr option \<times> 's"
  look_path :: "string \<Rightarrow> 's \<Rightarrow> string result"
  exec_process :: "string \<Rightarrow> string list \<Rightarrow> 's \<Rightarrow> goerr option \<times> 's"

record mesh_env =
  me_egress :: string
  me_ingress :: string
  me_admin :: string
  me_args :: "string list"

definition envoy_config_file :: string where "envoy_config_file = ''/envoy-config.yml''"

definition run_service_mesh ::
  "'addr netlib \<Rightarrow> envoylib \<Rightarrow> 's sys \<Rightarrow> 's ipt \<Rightarrow> mesh_env \<Rightarrow> 's \<Rightarrow> goerr option \<times> 's" where
  "run_service_mesh N V Y P env s =
     (case parse_proxy_config N (me_ingress env) (me_egress env) (me_admin env) of Inl e \<Rightarrow> (Some e, s)
      | Inr cfg \<Rightarrow>
     (case to_envoy_config N V cfg of Inl e \<Rightarrow> (Some e, s)
      | Inr text \<Rightarrow>
     (case sys_write_file Y envoy_config_file text s of (Some e, s1) \<Rightarrow> (Some e, s1)
      | (None, s1) \<Rightarrow>
     (case (if pc_ingress_disabled cfg then (None, s1) else ingress_ip_table_rules P (pc_ingress cfg) s1) of
        (Some e, s2) \<Rightarrow> (Some (Wrap ''failed to set up iptables rules'' e), s2)
      | (None, s2) \<Rightarrow>
     (case remove_default_deny_rule P s2 of (Some e, s3) \<Rightarrow> (Some (Wrap ''removing default deny rule'' e), s3)
      | (None, s3) \<Rightarrow>
     (case sys_write_file Y ''/ready'' [] s3 of (Some e, s4) \<Rightarrow> (Some e, s4)
      | (None, s4) \<Rightarrow>
     (case look_path Y ''envoy'' s4 of Inl e \<Rightarrow> (Some e, s4)
      | Inr bin \<Rightarrow> exec_process Y bin ([''envoy'', ''-c'', envoy_config_file] @ List.tl (me_args env)) s4)))))))"


end
