(* ===== verification/ServicemeshFacts.thy ===== *)
theory ServicemeshFacts
  imports Servicemesh
begin

text \<open>
  What the sidecar's rules and its Envoy configuration do to a connection: the verdict of the mangle
  table on an inbound packet, the listeners of the configuration, and the order in which rules are set
  and the default deny rule is removed.
\<close>

section \<open>Verdicts\<close>

text \<open>
  How netfilter reads the rules: the first rule that matches decides, RETURN and the end of a chain go
  back to the caller. The depth bounds the nesting of chains; here it is two.
\<close>

record packet =
  pk_tcp :: bool
  pk_lo :: bool
  pk_established :: bool
  pk_dport :: "16 word"

datatype verdict = ToProxy "16 word" | Dropped

fun rule_matches :: "ipt_rule \<Rightarrow> packet \<Rightarrow> bool" where
  "rule_matches r p \<longleftrightarrow> (ru_tcp r \<longrightarrow> pk_tcp p) \<and> (ru_lo r \<longrightarrow> pk_lo p) \<and>
     (ru_state r = Established \<longrightarrow> pk_established p) \<and> (ru_state r = NotEstablished \<longrightarrow> \<not> pk_established p) \<and>
     (case ru_dport r of None \<Rightarrow> True | Some d \<Rightarrow> d = pk_dport p)"

fun walk :: "nat \<Rightarrow> (string \<Rightarrow> ipt_rule list) \<Rightarrow> packet \<Rightarrow> ipt_rule list \<Rightarrow> verdict option" where
  "walk n R p [] = None"
| "walk n R p (r # rs) =
     (if \<not> rule_matches r p then walk n R p rs else
      case ru_target r of
        Return \<Rightarrow> None
      | Drop \<Rightarrow> Some Dropped
      | Tproxy d \<Rightarrow> Some (ToProxy d)
      | Jump c \<Rightarrow> (case n of 0 \<Rightarrow> None | Suc m \<Rightarrow>
          (case walk m R p (R c) of Some v \<Rightarrow> Some v | None \<Rightarrow> walk n R p rs)))"

definition inbound_verdict :: "'s ipt \<Rightarrow> 's \<Rightarrow> packet \<Rightarrow> verdict option" where
  "inbound_verdict P s p =
     walk 2 (\<lambda>c. chain_rules P s (''mangle'', c)) p (chain_rules P s (''mangle'', ''PREROUTING''))"

text \<open>What the annotations ask for.\<close>

definition asked_verdict :: "ingress_entry list \<Rightarrow> packet \<Rightarrow> verdict option" where
  "asked_verdict entries p =
     (if \<not> pk_tcp p \<or> pk_lo p \<or> pk_established p then None else
      case find (\<lambda>e. in_listen_port e = pk_dport p) entries of
        None \<Rightarrow> Some (ToProxy envoy_ingress_port)
      | Some e \<Rightarrow> if in_disable_tls e then None else Some (ToProxy envoy_ingress_port_no_client_cert))"

section \<open>What the library promises\<close>

definition insert_rule :: "ipt_rule list \<Rightarrow> ipt_rule \<Rightarrow> ipt_rule list" where
  "insert_rule rs r = (if r \<in> set rs then rs else rs @ [r])"

definition ipt_laws :: "'s ipt \<Rightarrow> bool" where
  "ipt_laws P \<longleftrightarrow>
     (\<forall>c s. chain_rules P (snd (new_chain P c s)) = chain_rules P s) \<and>
     (\<forall>c r s c'. c' \<noteq> c \<longrightarrow> chain_rules P (snd (append_unique P c r s)) c' = chain_rules P s c') \<and>
     (\<forall>c r s s'. append_unique P c r s = (None, s') \<longrightarrow>
        chain_rules P s' c = insert_rule (chain_rules P s c) r) \<and>
     (\<forall>c r s c'. c' \<noteq> c \<longrightarrow> chain_rules P (snd (rule_delete P c r s)) c' = chain_rules P s c')"

definition sys_laws :: "'s ipt \<Rightarrow> 's sys \<Rightarrow> bool" where
  "sys_laws P Y \<longleftrightarrow>
     (\<forall>f b s. chain_rules P (snd (sys_write_file Y f b s)) = chain_rules P s) \<and>
     (\<forall>b a s. chain_rules P (snd (exec_process Y b a s)) = chain_rules P s)"

definition rules_for :: "string \<times> string \<Rightarrow> ((string \<times> string) \<times> ipt_rule) list \<Rightarrow> ipt_rule list" where
  "rules_for c rs = map snd (filter (\<lambda>x. fst x = c) rs)"

lemma ipt_lawsD:
  assumes "ipt_laws P"
  shows "chain_rules P (snd (new_chain P c s)) = chain_rules P s"
    and "c' \<noteq> c \<Longrightarrow> chain_rules P (snd (append_unique P c r s)) c' = chain_rules P s c'"
    and "append_unique P c r s = (None, s') \<Longrightarrow> chain_rules P s' c = insert_rule (chain_rules P s c) r"
    and "c' \<noteq> c \<Longrightarrow> chain_rules P (snd (rule_delete P c r s)) c' = chain_rules P s c'"
  using assms unfolding ipt_laws_def by blast+

lemma append_all_other:
  assumes "ipt_laws P" and "append_all P rs s = (e, s')" and "c \<notin> fst ` set rs"
  shows "chain_rules P s' c = chain_rules P s c"
  using assms
proof (induction P rs s rule: append_all.induct)
  case (2 P c1 r rs s)
  obtain e1 s1 where a: "append_unique P c1 r s = (e1, s1)" by fastforce
  have s1: "chain_rules P s1 c = chain_rules P s c"
    using ipt_lawsD(2) [OF "2.prems"(1), of c c1 r s] "2.prems"(3) a by auto
  show ?case
  proof (cases e1)
    case None
    then show ?thesis using 2 a s1 by auto
  qed (use "2.prems" a s1 in auto)
qed simp

lemma append_all_ok:
  assumes "ipt_laws P" and "append_all P rs s = (None, s')"
  shows "chain_rules P s' c = foldl insert_rule (chain_rules P s c) (rules_for c rs)"
  using assms
proof (induction P rs s rule: append_all.induct)
  case (2 P c1 r rs s)
  obtain s1 where a: "append_unique P c1 r s = (None, s1)" and rest: "append_all P rs s1 = (None, s')"
    using "2.prems"(2) by (auto split: prod.splits option.splits)
  have ih: "chain_rules P s' c = foldl insert_rule (chain_rules P s1 c) (rules_for c rs)"
    using "2.IH" a rest "2.prems"(1) by auto
  show ?case
  proof (cases "c = c1")
    case True
    then show ?thesis using ih ipt_lawsD(3) [OF "2.prems"(1) a] by (simp add: rules_for_def)
  next
    case False
    then show ?thesis using ih ipt_lawsD(2) [OF "2.prems"(1), of c c1 r s] a by (simp add: rules_for_def)
  qed
qed (simp add: rules_for_def)

lemma rules_for_simps [simp]:
  "rules_for c [] = []"
  "rules_for c ((d, r) # rs) = (if d = c then r # rules_for c rs else rules_for c rs)"
  "rules_for c (xs @ ys) = rules_for c xs @ rules_for c ys"
  "rules_for c (map (\<lambda>e. (d, f e)) es) = (if d = c then map f es else [])"
  by (auto simp: rules_for_def filter_map o_def)

section \<open>The verdict of the rules\<close>

text \<open>Rules that only return or redirect: appending one that is already there changes no verdict.\<close>

definition leaf_rule :: "ipt_rule \<Rightarrow> bool" where
  "leaf_rule r \<longleftrightarrow> (\<forall>c. ru_target r \<noteq> Jump c)"

fun leaf_verdict :: "packet \<Rightarrow> ipt_rule list \<Rightarrow> verdict option option" where
  "leaf_verdict p [] = None"
| "leaf_verdict p (r # rs) = (if rule_matches r p
     then Some (case ru_target r of Drop \<Rightarrow> Some Dropped | Tproxy d \<Rightarrow> Some (ToProxy d) | _ \<Rightarrow> None)
     else leaf_verdict p rs)"

lemma walk_leaf:
  assumes "\<forall>r\<in>set rs. leaf_rule r"
  shows "walk n R p rs = Option.bind (leaf_verdict p rs) (\<lambda>v. v)"
  using assms by (induction rs) (auto simp: leaf_rule_def split: rule_target.splits simp del: rule_matches.simps)

lemma leaf_verdict_append:
  "leaf_verdict p (xs @ ys) = (case leaf_verdict p xs of Some v \<Rightarrow> Some v | None \<Rightarrow> leaf_verdict p ys)"
  by (induction xs) (auto simp del: rule_matches.simps)

lemma leaf_verdict_none: "leaf_verdict p xs = None \<longleftrightarrow> (\<forall>r\<in>set xs. \<not> rule_matches r p)"
  by (induction xs) (auto simp del: rule_matches.simps)

lemma leaf_verdict_insert: "leaf_verdict p (foldl insert_rule xs ys) = leaf_verdict p (xs @ ys)"
proof (induction ys arbitrary: xs)
  case (Cons y ys)
  have "leaf_verdict p (insert_rule xs y) = leaf_verdict p (xs @ [y])"
    using leaf_verdict_none [of p xs]
    by (auto simp: leaf_verdict_append insert_rule_def simp del: rule_matches.simps split: option.splits)
  then have "leaf_verdict p (insert_rule xs y @ ys) = leaf_verdict p ((xs @ [y]) @ ys)"
    by (simp only: leaf_verdict_append)
  then show ?case using Cons.IH [of "insert_rule xs y"] by simp
qed simp

lemma set_insert_rules: "set (foldl insert_rule xs ys) = set xs \<union> set ys"
  by (induction ys arbitrary: xs) (auto simp: insert_rule_def)

lemma redirect_verdict:
  assumes "pk_tcp p" and "\<not> pk_lo p" and "\<not> pk_established p"
  shows "Option.bind (leaf_verdict p (map entry_rule es @ [tcp_rule (Tproxy envoy_ingress_port)])) (\<lambda>v. v) = asked_verdict es p"
  using assms by (induction es) (auto simp: entry_rule_def tcp_rule_def asked_verdict_def)


lemma entry_rules_leaf: "\<forall>r\<in>set (map entry_rule es @ [tcp_rule (Tproxy envoy_ingress_port)]). leaf_rule r"
  by (auto simp: leaf_rule_def entry_rule_def tcp_rule_def)

text \<open>What the three chains hold after a successful set-up of fresh tables.\<close>

lemma ingress_rules_set:
  assumes laws: "ipt_laws P" and fresh: "\<forall>c. chain_rules P s (''mangle'', c) = []"
    and run: "ingress_ip_table_rules P es s = (None, s')"
  shows "chain_rules P s' (''mangle'', ''PREROUTING'') = [tcp_rule (Jump ''CONTRAST_INBOUND'')]"
    and "chain_rules P s' inbound_chain = [tcp_rule Return\<lparr>ru_lo := True\<rparr>,
           tcp_rule Return\<lparr>ru_state := Established\<rparr>, tcp_rule (Jump ''CONTRAST_IN_REDIRECT'')]"
    and "chain_rules P s' redirect_chain =
           foldl insert_rule [] (map entry_rule es @ [tcp_rule (Tproxy envoy_ingress_port)])"
proof -
  let ?s2 = "snd (new_chain P redirect_chain (snd (new_chain P inbound_chain s)))"
  have same: "chain_rules P ?s2 = chain_rules P s" using ipt_lawsD(1) [OF laws] by simp
  have app: "append_all P (inbound_rules @ map (\<lambda>e. (redirect_chain, entry_rule e)) es @
       [(redirect_chain, tcp_rule (Tproxy envoy_ingress_port))]) ?s2 = (None, s')"
    using run by (simp add: ingress_ip_table_rules_def Let_def split: option.splits)
  note chains = append_all_ok [OF laws app, unfolded same]
  show "chain_rules P s' (''mangle'', ''PREROUTING'') = [tcp_rule (Jump ''CONTRAST_INBOUND'')]"
    using chains [of "(''mangle'', ''PREROUTING'')"] fresh
    by (simp add: inbound_rules_def inbound_chain_def redirect_chain_def insert_rule_def)
  show "chain_rules P s' inbound_chain = [tcp_rule Return\<lparr>ru_lo := True\<rparr>,
       tcp_rule Return\<lparr>ru_state := Established\<rparr>, tcp_rule (Jump ''CONTRAST_IN_REDIRECT'')]"
    using chains [of inbound_chain] fresh
    by (simp add: inbound_rules_def inbound_chain_def redirect_chain_def insert_rule_def tcp_rule_def)
  show "chain_rules P s' redirect_chain =
       foldl insert_rule [] (map entry_rule es @ [tcp_rule (Tproxy envoy_ingress_port)])"
    using chains [of redirect_chain] fresh
    by (simp add: inbound_rules_def inbound_chain_def redirect_chain_def)
qed

lemma ingress_rules_verdict:
  assumes laws: "ipt_laws P" and fresh: "\<forall>c. chain_rules P s (''mangle'', c) = []"
    and run: "ingress_ip_table_rules P es s = (None, s')"
  shows "inbound_verdict P s' p = asked_verdict es p"
proof -
  note rules = ingress_rules_set [OF laws fresh run]
  let ?R = "\<lambda>c. chain_rules P s' (''mangle'', c)"
  let ?es = "map entry_rule es @ [tcp_rule (Tproxy envoy_ingress_port)]"
  have redirect: "walk 0 ?R p (?R ''CONTRAST_IN_REDIRECT'') = asked_verdict es p" if "pk_tcp p" "\<not> pk_lo p" "\<not> pk_established p"
  proof -
    have eq: "?R ''CONTRAST_IN_REDIRECT'' = foldl insert_rule [] ?es"
      using rules(3) by (simp add: redirect_chain_def)
    have "\<forall>r\<in>set (foldl insert_rule [] ?es). leaf_rule r"
      unfolding set_insert_rules using entry_rules_leaf [of es] by simp
    then have "walk 0 ?R p (foldl insert_rule [] ?es) = Option.bind (leaf_verdict p (foldl insert_rule [] ?es)) (\<lambda>v. v)"
      by (rule walk_leaf)
    also have "\<dots> = asked_verdict es p"
      unfolding leaf_verdict_insert append_Nil by (rule redirect_verdict [OF that])
    finally show ?thesis unfolding eq .
  qed
  have inbound: "walk 1 ?R p (?R ''CONTRAST_INBOUND'') = asked_verdict es p"
    using rules(2) redirect
    by (simp add: inbound_chain_def tcp_rule_def asked_verdict_def split: option.splits)
  show ?thesis
    using inbound unfolding inbound_verdict_def rules(1)
    by (auto simp: tcp_rule_def numeral_2_eq_2 asked_verdict_def split: option.splits)
qed

section \<open>The listeners\<close>

lemma each_result_length: "each_result f xs = Inr ys \<Longrightarrow> length ys = length xs"
  by (induction xs arbitrary: ys) (auto split: sum.splits)

lemma each_result_nth: "each_result f xs = Inr ys \<Longrightarrow> i < length xs \<Longrightarrow> f (xs ! i) = Inr (ys ! i)"
  by (induction xs arbitrary: ys i) (auto split: sum.splits simp: nth_Cons')

lemma each_result_mem: "each_result f xs = Inr ys \<Longrightarrow> x \<in> set xs \<Longrightarrow> \<exists>y\<in>set ys. f x = Inr y"
  by (induction xs arbitrary: ys) (auto split: sum.splits)

text \<open>
  A listener for inbound connections: transparent, with the original destination restored, its first
  filter chain terminating TLS with the given demand for a client certificate, and used for every
  destination but the proxy itself.
\<close>

definition terminates_tls :: "16 word \<Rightarrow> bool \<Rightarrow> listener \<Rightarrow> bool" where
  "terminates_tls port req l \<longleftrightarrow> ln_port l = port \<and> ln_transparent l \<and> ln_original_dst l \<and>
     (\<exists>c bh m. ln_chains l = [c, bh] \<and> fc_cluster c = ingress_cluster_name \<and>
        fc_tls c = Some (downstream_tls_transport_socket req) \<and>
        fc_name bh = cm_on_match m \<and> fc_cluster bh = black_hole_cluster_name \<and>
        ln_matcher l = Some m \<and> cm_port m = uint port \<and> cm_on_no_match m = fc_name c)"

lemma ingress_listener_black_hole:
  assumes "ingress_listener N V name port req = Inr l" and "port \<in> set ports" and "port \<noteq> 0"
    and "add_black_hole V ports l = Inr l'"
  shows "terminates_tls port req l'"
  using assms
  by (auto simp: ingress_listener_def listener_of_def add_black_hole_def black_hole_filter_def terminates_tls_def
      filter_chain_matcher_def split: option.splits if_splits sum.splits)

lemma envoy_bootstrap_terminates_tls:
  assumes "envoy_bootstrap N V c = Inr b" and "\<not> pc_ingress_disabled c"
  shows "(\<exists>l\<in>set (bs_listeners b). terminates_tls envoy_ingress_port True l) \<and>
    (\<exists>l\<in>set (bs_listeners b). terminates_tls envoy_ingress_port_no_client_cert False l)"
proof -
  let ?ports = "[envoy_ingress_port, envoy_ingress_port_no_client_cert]"
  obtain ls l1 l2 ls' where l1: "ingress_listener N V ''ingress'' envoy_ingress_port True = Inr l1"
    and l2: "ingress_listener N V ''ingressWithoutClientAuth'' envoy_ingress_port_no_client_cert False = Inr l2"
    and bh: "each_result (add_black_hole V ?ports) (ls @ [l1, l2]) = Inr ls'" and b: "bs_listeners b = ls'"
    using assms by (auto simp: envoy_bootstrap_def add_black_hole_to_config_def Let_def split: sum.splits)
  obtain l1' where "l1' \<in> set ls'" "add_black_hole V ?ports l1 = Inr l1'"
    using each_result_mem [OF bh, of l1] by auto
  moreover obtain l2' where "l2' \<in> set ls'" "add_black_hole V ?ports l2 = Inr l2'"
    using each_result_mem [OF bh, of l2] by auto
  ultimately show ?thesis
    using ingress_listener_black_hole [OF l1, of ?ports l1'] ingress_listener_black_hole [OF l2, of ?ports l2'] b
    by (auto simp: envoy_ingress_port_def envoy_ingress_port_no_client_cert_def)
qed

section \<open>The order of the set-up\<close>

lemma remove_deny_mangle:
  assumes "ipt_laws P" and "remove_default_deny_rule P s = (e, s')"
  shows "chain_rules P s' (''mangle'', c) = chain_rules P s (''mangle'', c)"
  using assms(2) ipt_lawsD(4) [OF assms(1), of "(''mangle'', c)" deny_chain default_deny_rule s]
  by (auto simp: remove_default_deny_rule_def deny_chain_def split: option.splits sum.splits if_splits prod.splits)

lemma ingress_rules_keep_deny:
  assumes "ipt_laws P" and "ingress_ip_table_rules P es s = (e, s')"
  shows "chain_rules P s' deny_chain = chain_rules P s deny_chain"
proof (cases "ipt_new P s")
  case None
  let ?s2 = "snd (new_chain P redirect_chain (snd (new_chain P inbound_chain s)))"
  have "append_all P (inbound_rules @ map (\<lambda>e. (redirect_chain, entry_rule e)) es @
       [(redirect_chain, tcp_rule (Tproxy envoy_ingress_port))]) ?s2 = (e, s')"
    using assms(2) None by (simp add: ingress_ip_table_rules_def Let_def)
  moreover have "deny_chain \<notin> fst ` set (inbound_rules @ map (\<lambda>e. (redirect_chain, entry_rule e)) es @
       [(redirect_chain, tcp_rule (Tproxy envoy_ingress_port))])"
    by (auto simp: inbound_rules_def deny_chain_def inbound_chain_def redirect_chain_def)
  ultimately show ?thesis
    using append_all_other [OF assms(1)] ipt_lawsD(1) [OF assms(1)] by metis
qed (use assms(2) in \<open>simp add: ingress_ip_table_rules_def\<close>)

lemma inbound_verdict_cong:
  assumes "\<And>c. chain_rules P s (''mangle'', c) = chain_rules P s' (''mangle'', c)"
  shows "inbound_verdict P s p = inbound_verdict P s' p"
  unfolding inbound_verdict_def assms ..

text \<open>While the default deny rule is in place the run may have failed anywhere; once it is gone, the rules are those asked for.\<close>

lemma deny_removed_after_rules:
  assumes laws: "ipt_laws P" "sys_laws P Y" and fresh: "\<forall>c. chain_rules P s (''mangle'', c) = []"
    and present: "default_deny_rule \<in> set (chain_rules P s deny_chain)"
    and run: "run_service_mesh N V Y P env s = (e, s')"
    and gone: "default_deny_rule \<notin> set (chain_rules P s' deny_chain)"
  obtains cfg b where "parse_proxy_config N (me_ingress env) (me_egress env) (me_admin env) = Inr cfg"
    and "envoy_bootstrap N V cfg = Inr b"
    and "\<not> pc_ingress_disabled cfg \<Longrightarrow> inbound_verdict P s' p = asked_verdict (pc_ingress cfg) p"
proof -
  note W = laws(2) [unfolded sys_laws_def, THEN conjunct1, rule_format]
  note X = laws(2) [unfolded sys_laws_def, THEN conjunct2, rule_format]
  obtain cfg where cfg: "parse_proxy_config N (me_ingress env) (me_egress env) (me_admin env) = Inr cfg"
    using run gone present by (auto simp: run_service_mesh_def split: sum.splits)
  obtain conf where conf: "to_envoy_config N V cfg = Inr conf"
    using run gone present cfg by (auto simp: run_service_mesh_def split: sum.splits)
  obtain b where b: "envoy_bootstrap N V cfg = Inr b"
    using conf by (auto simp: to_envoy_config_def split: sum.splits)
  obtain e1 s1 where s1: "sys_write_file Y envoy_config_file conf s = (e1, s1)" by fastforce
  have c1: "chain_rules P s1 = chain_rules P s" using W [of envoy_config_file conf s] s1 by simp
  have e1: "e1 = None" using run gone present cfg conf s1 c1 by (auto simp: run_service_mesh_def split: option.splits)
  let ?rules = "if pc_ingress_disabled cfg then (None, s1) else ingress_ip_table_rules P (pc_ingress cfg) s1"
  obtain e2 s2 where s2: "?rules = (e2, s2)" by fastforce
  have d2: "chain_rules P s2 deny_chain = chain_rules P s deny_chain"
    using s2 ingress_rules_keep_deny [OF laws(1)] c1 by (auto split: if_splits)
  have e2: "e2 = None"
    using run gone present cfg conf s1 e1 s2 d2 by (cases e2) (simp_all add: run_service_mesh_def)
  obtain e3 s3 where s3: "remove_default_deny_rule P s2 = (e3, s3)" by fastforce
  have rest: "chain_rules P s' = chain_rules P s3"
    using run cfg conf s1 e1 s2 e2 s3 W [of "''/ready''" "[]" s3]
      X [of _ "[''envoy'', ''-c'', envoy_config_file] @ List.tl (me_args env)"]
    by (auto simp: run_service_mesh_def split: option.splits prod.splits sum.splits) (metis snd_conv)+
  have m: "chain_rules P s' (''mangle'', c) = chain_rules P s2 (''mangle'', c)" for c
    using rest remove_deny_mangle [OF laws(1) s3] by simp
  have "inbound_verdict P s' p = asked_verdict (pc_ingress cfg) p" if "\<not> pc_ingress_disabled cfg"
    using ingress_rules_verdict [OF laws(1), of s1 "pc_ingress cfg" s2] that s2 e2 fresh c1
      inbound_verdict_cong [of P s' s2, OF m] by simp
  then show ?thesis using that cfg b by blast
qed


section \<open>A small host\<close>

text \<open>An executable table of rules, for concrete runs.\<close>

type_synonym tables = "string \<times> string \<Rightarrow> ipt_rule list"

definition demo_ipt :: "tables ipt" where
  "demo_ipt = \<lparr>ipt_new = (\<lambda>s. None), new_chain = (\<lambda>c s. (None, s)),
     append_unique = (\<lambda>c r s. (None, s(c := insert_rule (s c) r))),
     rule_exists = (\<lambda>c r s. Inr (r \<in> set (s c))),
     rule_delete = (\<lambda>c r s. (None, s(c := remove1 r (s c)))), chain_rules = (\<lambda>s. s)\<rparr>"

definition demo_sys :: "tables sys" where
  "demo_sys = \<lparr>sys_write_file = (\<lambda>f b s. (None, s)), look_path = (\<lambda>b s. Inr ''/usr/bin/envoy''),
     exec_process = (\<lambda>b a s. (None, s))\<rparr>"

definition demo_tables :: tables where
  "demo_tables = (\<lambda>c. if c = deny_chain then [default_deny_rule] else [])"

definition demo_net :: "string netlib" where
  "demo_net = \<lparr>parse_addr_port = (\<lambda>s. Inr (''127.0.0.1'', 8081)), in_loopback = (\<lambda>a. True), addr_text = (\<lambda>a. a),
     any_address = ''0.0.0.0'', split_host_port = (\<lambda>s. Inr (s, ''8080''))\<rparr>"

definition demo_envoy :: envoylib where
  "demo_envoy = \<lparr>proxy_any = (\<lambda>n c. None), validate_all = (\<lambda>b. None), proto_json = (\<lambda>b. Inr [123])\<rparr>"

definition demo_mesh_env :: mesh_env where
  "demo_mesh_env = \<lparr>me_egress = '''', me_ingress = ''web#8080#true##api#9090#false'', me_admin = '''', me_args = [''service-mesh'']\<rparr>"

lemma demo_ipt_laws: "ipt_laws demo_ipt"
  by (simp add: ipt_laws_def demo_ipt_def)

lemma demo_sys_laws: "sys_laws demo_ipt demo_sys"
  by (simp add: sys_laws_def demo_ipt_def demo_sys_def)

lemma demo_parse:
  "parse_proxy_config demo_net ''web#8080#true##api#9090#false'' '''' '''' =
     Inr \<lparr>pc_egress = [], pc_ingress = [\<lparr>in_name = ''web'', in_listen_port = 8080, in_disable_tls = True\<rparr>,
       \<lparr>in_name = ''api'', in_listen_port = 9090, in_disable_tls = False\<rparr>], pc_admin_port = 0, pc_ingress_disabled = False\<rparr>"
  by code_simp

lemma demo_bootstrap:
  "pc_egress c = [] \<Longrightarrow> pc_ingress_disabled c = False \<Longrightarrow> \<exists>b. envoy_bootstrap demo_net demo_envoy c = Inr b"
  by (simp add: envoy_bootstrap_def ingress_listener_def listener_of_def demo_envoy_def demo_net_def Let_def
      add_black_hole_to_config_def add_black_hole_def black_hole_filter_def envoy_ingress_port_def
      envoy_ingress_port_no_client_cert_def)

lemma demo_config:
  "pc_egress c = [] \<Longrightarrow> pc_ingress_disabled c = False \<Longrightarrow> to_envoy_config demo_net demo_envoy c = Inr [123]"
  using demo_bootstrap [of c] by (auto simp: to_envoy_config_def) (simp_all add: demo_envoy_def)

lemma demo_sel:
  "ipt_new demo_ipt s = None" "new_chain demo_ipt c s = (None, s)"
  "append_unique demo_ipt c r s = (None, s(c := insert_rule (s c) r))"
  "rule_exists demo_ipt c r s = Inr (r \<in> set (s c))"
  "rule_delete demo_ipt c r s = (None, s(c := remove1 r (s c)))" "chain_rules demo_ipt s = s"
  "sys_write_file demo_sys f t s = (None, s)" "look_path demo_sys f s = Inr ''/usr/bin/envoy''"
  "exec_process demo_sys f a s = (None, s)"
  by (simp_all add: demo_ipt_def demo_sys_def)

lemma demo_append_all: "fst (append_all demo_ipt rs s) = None"
  by (induction rs arbitrary: s) (auto simp: demo_sel)

lemma demo_deny_removed:
  "default_deny_rule \<notin> set (chain_rules demo_ipt (snd (run_service_mesh demo_net demo_envoy demo_sys demo_ipt demo_mesh_env demo_tables)) deny_chain)"
proof -
  let ?es = "[\<lparr>in_name = ''web'', in_listen_port = 8080, in_disable_tls = True\<rparr>,
       \<lparr>in_name = ''api'', in_listen_port = 9090, in_disable_tls = False\<rparr>]"
  obtain s where s: "ingress_ip_table_rules demo_ipt ?es demo_tables = (None, s)"
    using demo_append_all by (auto simp: ingress_ip_table_rules_def demo_sel Let_def prod_eq_iff)
  have d: "s deny_chain = [default_deny_rule]"
    using ingress_rules_keep_deny [OF demo_ipt_laws s] by (simp add: demo_sel demo_tables_def)
  have "remove_default_deny_rule demo_ipt s = (None, s(deny_chain := []))"
    by (simp add: remove_default_deny_rule_def demo_sel d)
  then show ?thesis
    by (simp add: run_service_mesh_def demo_mesh_env_def demo_parse demo_config demo_sel s)
qed

text \<open>A port is cut to 16 bits: 65616 names port 80.\<close>

lemma ingress_port_wraps:
  "parse_ingress_entry ''web#65616#true'' = Inr \<lparr>in_name = ''web'', in_listen_port = 80, in_disable_tls = True\<rparr>"
proof -
  have "split_on CHR ''#'' ''web#65616#true'' = [''web'', ''65616'', ''true'']" by code_simp
  moreover have "go_atoi ''65616'' = Inr 65616" by (simp add: go_atoi_def digit_value_def)
  moreover have "(word_of_int 65616 :: 16 word) = 80" by simp
  ultimately show ?thesis by (simp add: parse_ingress_entry_def go_parse_bool_def)
qed


end
