(* ===== verification/Spec2Isabelle.thy ===== *)
theory Spec2Isabelle
  imports Prelude Platforms History Chain StoreSpec AferoStore ConfigMapStore ConfigMapStoreFacts SwapSystem SwapDemo
    StoreRecovery ManifestErrors OwnerKeys Manifest ManifestFacts Seedengine Ca Stateguard StateguardFacts
    GuardSystem Demo Userapi UserapiFacts Validators Apitypes Meshapi Peerrecovery Restart Composition Scenario
    Base64 Transitengine TransitengineFacts Claims Snpmeasure Ovmf SnpmeasureFacts Idblock ReportValidators
    ManifestValidator ManifestValidatorFacts Atls ValidatorObjects Connection AttestDemo
    Initdata InitdataProcessor InitdataFacts Pods Mutators MutatorsFacts Generate GenerateFacts Policies PoliciesFacts
    Verifiers PodDemo Gostd Tdxmeasure TdxmeasureFacts Qgs QgsFacts Certcache CertcacheFacts Servicemesh
    ServicemeshFacts
begin

text \<open>
  A verification development of Contrast, a confidential computing runtime for Kubernetes. The
  Coordinator is the service every other part trusts: users attest it over aTLS and give it a
  manifest, the list of workloads that may join and of the reference values that their
  attestation reports must meet; workloads attest themselves to the Coordinator and are issued
  certificates of a mesh CA and secrets derived from a seed. The development models the
  Coordinator, the attestation it performs, the libraries under it and the verifying client; paths
  are those under \<open>src/\<close>.

  How the parts interact. The user API (\<open>userapi.go\<close>) sets manifests and recovers a Coordinator; it
  and the mesh API (\<open>meshapi.go\<close>) work on the states that the state guard (\<open>stateguard.go\<close>) hands
  out. A state holds the manifest in force, the seed engine (\<open>seedengine.go\<close>), the certificate
  authority (\<open>ca.go\<close>) and the newest transition. The guard persists each state as objects and a
  signed latest transition of the history (\<open>history.go\<close>), over a store that is a directory
  (\<open>aferostore.go\<close>) or Kubernetes config maps (\<open>configmapstore.go\<close>). Peers recover from one another
  (\<open>recovery.go\<close>) over connections that the aTLS credentials (\<open>atls.go\<close>, \<open>credentials.go\<close>) accept only
  with a validator of the manifest (\<open>manifest/validators.go\<close>); the transit engine
  (\<open>transitengineapi\<close>) encrypts for holders of mesh certificates; the client of the attestation
  endpoint (\<open>sdk/verify.go\<close>) learns the history from a signed document. Before all that,
  \<open>contrast generate\<close> (\<open>cli/cmd/generate.go\<close>) injects containers into workloads and makes the
  manifest from the initdata documents in their annotations, and in a guest the initdata processor
  (\<open>initdata-processor/main.go\<close>) compares the document with the guest's own report before the
  agent starts on its files. Beside it run the sidecar that sets up the proxy of a workload
  (\<open>service-mesh/main.go\<close>); reports reach their verifiers with certificates and collateral that a
  caching getter (\<open>certcache/cached_client.go\<close>) or the issuer (\<open>tdx/issuer/issuer.go\<close>) fetches; and the
  reference values of a TDX guest are computed from its firmware, kernel and command line
  (\<open>tools/tdx-measure\<close>).

  Theories, in the order in which they build on one another.
  \<^item> \<open>Prelude\<close>: byte strings, Go error values with \<open>errors.Is\<close>, error sums, hexadecimal text,
    little-endian numbers, and the named collections of simp rules.
  \<^item> \<open>Platforms\<close>: \<open>platforms.go\<close> and \<open>runtimehandler.go\<close>.
  \<^item> \<open>History\<close>, \<open>Chain\<close>: \<open>history.go\<close>; the state is the record of store, hash, cache and key
    algorithm; walks over chains, and what a hash commits to.
  \<^item> \<open>StoreSpec\<close>: the contract \<open>history.Store\<close> as the locales \<open>kv_store\<close> and \<open>reliable_store\<close>.
    \<open>AferoStore\<close>, \<open>ConfigMapStore\<close>, \<open>ConfigMapStoreFacts\<close>: both stores, over a filesystem and a
    Kubernetes API that are parameters, as sublocales of the contract; \<open>StoreRecovery\<close>: the config
    maps that \<open>RecoverConfigMaps\<close> emits.
  \<^item> \<open>ManifestErrors\<close>, \<open>OwnerKeys\<close>, \<open>Manifest\<close>, \<open>ManifestFacts\<close>: \<open>manifest.go\<close>,
    \<open>referencevalues.go\<close>, \<open>crypto.go\<close>: the manifest as records, validation as trees of errors,
    and the declarative specification that validation decides.
  \<^item> \<open>Seedengine\<close>, \<open>Ca\<close>: key derivation over HKDF, and X.509 issuance over a certificate library.
  \<^item> \<open>Stateguard\<close>, \<open>StateguardFacts\<close>, \<open>GuardSystem\<close>: the guard; updates and resets are split into
    the part that prepares a state and the part that swaps it in, calls interleave in the step
    relation \<open>guard_step\<close>, and the invariant is proved by induction over it.
  \<^item> \<open>Userapi\<close>, \<open>UserapiFacts\<close>, \<open>Meshapi\<close>, \<open>Peerrecovery\<close>, \<open>Restart\<close>: the handlers, and what they
    enforce; \<open>Composition\<close>: theorems that span them.
  \<^item> \<open>Validators\<close>, \<open>Apitypes\<close>: the validator combinators, the report data and both ends of the
    attestation endpoint.
  \<^item> \<open>Claims\<close>, \<open>ReportValidators\<close>, \<open>Idblock\<close>: the validators of SNP reports and TDX quotes and the
    claims of an accepted report. \<open>ManifestValidator\<close>, \<open>ManifestValidatorFacts\<close>,
    \<open>ValidatorObjects\<close>: the validator of a manifest, as a function of one document and as objects
    that change from one use to the next.
  \<^item> \<open>Atls\<close>, \<open>Connection\<close>: the attested handshake, and what a connection to the Coordinator implies
    for the operations behind it.
  \<^item> \<open>Snpmeasure\<close>, \<open>Ovmf\<close>, \<open>SnpmeasureFacts\<close>: the launch digest of an SEV-SNP guest.
  \<^item> \<open>Base64\<close>, \<open>Transitengine\<close>, \<open>TransitengineFacts\<close>: the transit engine.
  \<^item> \<open>Initdata\<close>, \<open>InitdataProcessor\<close>, \<open>InitdataFacts\<close>: \<open>initdata.go\<close> and the process that checks a
    guest's document before its agent starts (\<open>initdata-processor/\<close>).
  \<^item> \<open>Pods\<close>, \<open>Mutators\<close>, \<open>MutatorsFacts\<close>: workloads and what is injected into them (\<open>wrappers.go\<close>,
    \<open>mutators.go\<close>, \<open>parts.go\<close>). \<open>Generate\<close>, \<open>GenerateFacts\<close>, \<open>Policies\<close>, \<open>PoliciesFacts\<close>, \<open>Verifiers\<close>:
    \<open>contrast generate\<close>, the ID blocks and the manifest that it makes (\<open>generate.go\<close>, \<open>policies.go\<close>),
    and its checks (\<open>cli/verifier/\<close>). \<open>PodDemo\<close>: a guest and a workload for the witnesses.
  \<^item> \<open>Gostd\<close>: slices with their panics, runes and UTF-16. \<open>Tdxmeasure\<close>, \<open>TdxmeasureFacts\<close>: the launch
    measurements of a TDX guest (\<open>tools/tdx-measure/\<close>).
  \<^item> \<open>Qgs\<close>, \<open>QgsFacts\<close>: collateral for TDX quotes and the TDX issuer (\<open>tdx/qgs/\<close>, \<open>tdx/quote/\<close>,
    \<open>tdx/issuer/\<close>). \<open>Certcache\<close>, \<open>CertcacheFacts\<close>: \<open>retry.go\<close>, \<open>certcache/\<close> and its stores;
    the locale \<open>cert_cache\<close> is what the getter asks of a store.
  \<^item> \<open>SwapSystem\<close>, \<open>SwapDemo\<close>: \<open>SetLatest\<close> in its two API requests (\<open>history.go\<close>,
    \<open>configmapstore.go\<close>), interleaved between Coordinators; the locale \<open>kube_revisions\<close> adds to
    \<open>kube_api\<close> that resource versions are never used twice.
  \<^item> \<open>Servicemesh\<close>, \<open>ServicemeshFacts\<close>: the sidecar (\<open>service-mesh/\<close>, \<open>defaultdeny.go\<close>).
  \<^item> \<open>Demo\<close>, \<open>Scenario\<close>, \<open>AttestDemo\<close>: concrete environments at which theorems with hypotheses are
    applied. They stand for no deployment; a hash whose digests begin with a one, keys that are
    byte strings and certificates that carry their contents in the clear make every hypothesis
    hold together and every operation run to its end.

  Correspondence. A Go struct is a record with the source's field names, an interface is a record
  of functions, a pointer into shared memory is an index into a list of states, \<open>(T, error)\<close> is
  \<open>error + T\<close>, \<open>error\<close> alone is \<open>error option\<close>, and a panic is the error value \<open>Panic\<close>; a method
  that changes its receiver returns it, and a function that changes the object behind an argument, as
  \<open>AddInitializer\<close> does, returns that object too. Bytes are 8-bit words; fixed-width integers are words of
  that width, but for counts that stay far below the width: the sums of CPU requests of a pod
  (\<open>id_block_cpu_count\<close>, \<open>get_pod_cpu_count\<close>), the generation, lengths and indices are unbounded
  integers where the source adds \<open>int64\<close> or \<open>int\<close>. Error values keep their kind and the wrapping that \<open>errors.Is\<close> and \<open>errors.As\<close> look
  at; most message texts are shortened. Logging, metrics other than the manifest generation,
  timeouts and locks are left out: the steps of the guard are the stretches of code that hold its
  lock or write through one pointer.

  Parameters. What the repository does not contain is an argument of the definitions that use it:
  SHA-2, HKDF, ECDSA, AES-GCM, X.509, JSON, the TLS stack, the filesystem, the Kubernetes API, the
  AMD and Intel libraries that check signatures on reports. The laws that theorems rely on are
  documented behaviour of those: \<open>sigs_correct\<close> (a signature verifies), \<open>root_free\<close> (no digest is the
  32 zero bytes that stand for the empty history), \<open>hkdf_stream\<close>, \<open>aead\<close>, \<open>json_strings\<close>,
  \<open>x509_laws\<close>, \<open>x509_self_signed\<close>, \<open>key_codec\<close>, \<open>filesystem\<close>, \<open>kube_api\<close>, \<open>kube_revisions\<close>, \<open>ipt_laws\<close> and
  \<open>sys_laws\<close> (a call on one chain of rules, or on a file, leaves the other chains as they are),
  \<open>entry_json\<close>, \<open>cache_files\<close>. Collision freedom is never
  assumed: where it matters, the theorem names the collision among the data at hand.

  Interleaving. Calls of the guard interleave in \<open>guard_step\<close>, and the two API requests of each \<open>SetLatest\<close> on
  config maps in \<open>cluster_step\<close>. The operations of a store, \<open>cm_cas\<close> among them, are one step in
  \<open>History\<close> and the theories above it; that the config map store may be used so is what the theorem on \<open>cluster_step\<close> says.

  Termination and bounds. The walk along stored transitions follows hashes that an adversary
  controls and may not end, so it is a \<open>partial_function (option)\<close>; that it returns on a chain that
  was persisted is the theorem on termination. The walk through the table of a TDX firmware image
  and the retrier are of the same kind: the theorems say exactly when they return
  (\<open>metadata_search_none_iff\<close>, \<open>do_retry_none_iff\<close>). Every other loop is structural or has a measure.
  The search for the number of virtual CPUs stops at 220, the bound of the source; sizes in
  the firmware table are 16 bits, and a launch digest is defined for at most 65535 processors.

  Groups of theorems below: the state under interleaving and the user API; attested connections
  from the certificate to the secret that is handed out; workloads, their documents and the manifest
  made from them; the network of a workload; collateral and certificates; the
  measurements of TDX guests; the transit engine; the launch measurement of SNP guests; the guard's steps; recovery and restart; the attestation client; the persisted
  history; manifests; keys and certificates.

  Not modelled.
  \<^item> manifest (partly): Data, validation, defaults, patches, purging, owner keys and the
    conversion into SNP and TDX validation options. The JSON form of SVNs, reading embedded values
    and patch files, and the formatting of validation errors are not modelled.
  \<^item> attestation API (partly): Report data, the attestation endpoint and the verification of
    its response. The HTTP client GetAttestation and the error texts of
    UnmarshalAttestationResponse are not modelled.
  \<^item> attestation reports (partly): The SNP, iterative SNP, TDX and insecure validators and
    the claims of their reports. The kernel command line check is not modelled.
  \<^item> command line tool (partly): Of contrast generate: the checks, the patching of a
    workload, its ID blocks and the manifest. Flags, reading and writing files and terminal
    output, the other commands around the calls to the modelled APIs, the memory computation from
    image layers and the driver of the external genpolicy binary are not.
  \<^item> Kubernetes resources (partly): What contrast generate does to a workload: access to the
    pod of a resource, the injected containers and volumes, images, runtime classes and CPU
    counts. The other builders are constant data in the types of k8s.io/client-go; the mutators
    that only development deployments use, the parser and the printer of YAML are not modelled.
  \<^item> issuers (partly): The TDX issuer with the collateral it attaches. The SNP issuer and
    the choice of the issuer are calls to the guest devices through the AMD and Intel libraries;
    the issuer is a parameter of the aTLS model.
  \<^item> Coordinator process (not modelled): Wiring of servers, listeners and metrics; no
    decision of its own beyond those of the modelled parts.
  \<^item> gRPC plumbing (not modelled): Adapters from the aTLS configurations to the interfaces
    of the gRPC library, and generated code.
  \<^item> initializer and disk encryption (not modelled): Calls of external programs (cryptsetup,
    mkfs, mount, iptables) and of libcryptsetup.
  \<^item> image puller and image store (not modelled): Registry access and overlay mounts through
    containers/storage and go-containerregistry.
  \<^item> node installer (not modelled): Copies files to a node and edits the configuration of
    containerd; not part of what is attested.
  \<^item> tools (not modelled): Build and test tools outside the running system.
  \<^item> support packages (not modelled): Logging, terminal output, embedded binaries, test
    keys.
\<close>

section \<open>The Coordinator's state\<close>

text \<open>
  C1. Whatever the store does and however calls interleave, every state the guard ever hands out
  enforces the manifest its newest transition commits to: that transition heads a chain of
  exactly \<open>generation\<close> linked transitions down to the root, it carries the hash of the
  manifest bytes, the manifest in force is what those bytes parse to, and the transition is
  signed with the key of the state's own seed engine.
\<close>

theorem reachable_states_enforced:
  assumes "guard_steps E (new_guard (new_with_store s), []) (g, ps)"
    and "root_free (hash_fun E)" and "sigs_correct (sig_scheme E)" and "st \<in> set (states g)"
  shows "\<exists>t ts. linked (hash_fun E) (chain_hash st) (t # ts)
      \<and> manifest_hash t = digest (hash_fun E) (manifest_bytes st) \<and> generation st = int (length (t # ts))
      \<and> parse_manifest E (manifest_bytes st) = Inr (manifest_of st)
      \<and> verify_asn1 (sig_scheme E) (signing_pub E (seed_engine_of st)) (chain_hash st) (signature (latest_of st))"
proof -
  have "guard_ok E (g, ps)" using guard_steps_ok [OF assms(1) guard_ok_start assms(2,3)] .
  then have "state_ok E st" using assms(4) by (simp add: guard_ok_def)
  then show ?thesis unfolding state_ok_def by blast
qed

theorem reachable_states_enforced_witness:
  "\<exists>g ps st. guard_steps demo_env (demo_guard, []) (g, ps) \<and> st \<in> set (states g)
      \<and> parse_manifest demo_env (manifest_bytes st) = Inr (manifest_of st) \<and> generation st \<ge> 1"
proof -
  obtain g ps st where r: "guard_steps demo_env (demo_guard, []) (g, ps)" and st: "st \<in> set (states g)"
    using demo_run by blast
  from reachable_states_enforced [OF r [unfolded demo_guard_def] _ _ st] st r show ?thesis
    by (force simp: demo_root_free demo_sigs_correct)
qed

section \<open>Who changes the manifest\<close>

text \<open>
  C2. A manifest replaces another only with the consent of the old manifest's workload owners: the
  caller signed the next transition's hash with one of their keys, or is connected with one; the
  seed share owners stay the same, a demanded previous transition is the current one, and the
  platforms fit the Coordinator's mode. The new state then enforces exactly the manifest that was
  sent, under the old engine and one generation later.
\<close>

theorem manifest_replaced_by_owner:
  assumes "set_manifest srv r p req g = (Inr resp, g')" and "current g = Some i"
  shows "\<exists>m. json_manifest (server_env srv) (req_manifest req) = Inr (Some m)
    \<and> \<not> stale (states g ! i) \<and> may_replace srv p req (states g ! i) m
    \<and> check_manifest_security (allow_insecure srv) m = None \<and> seed_shares_doc resp = None
    \<and> current g' = Some (length (states g))
    \<and> manifest_of (states g' ! length (states g)) = m
    \<and> manifest_bytes (states g' ! length (states g)) = req_manifest req
    \<and> seed_engine_of (states g' ! length (states g)) = seed_engine_of (states g ! i)
    \<and> generation (states g' ! length (states g)) = generation (states g ! i) + 1"
proof -
  from set_manifest_replaces [OF assms] obtain m j where m: "json_manifest (server_env srv) (req_manifest req) = Inr (Some m)"
    "\<not> stale (states g ! i)" "may_replace srv p req (states g ! i) m"
    "check_manifest_security (allow_insecure srv) m = None" "seed_shares_doc resp = None"
    and u: "update_state (server_env srv) (update_rnd r) (current g) (seed_engine_of (states g ! i))
        (req_manifest req) (req_policies req) g = (Inr j, g')" by (auto simp: assms(2))
  note new = update_state_publishes [OF u m(1)]
  then have "j = length (states g)" by simp
  with new m show ?thesis by (auto simp: assms(2) deref_def prev_generation_def)
qed

theorem manifest_replaced_by_owner_witness:
  "\<exists>resp g'. demo_set_second = (Inr resp, g') \<and> current g' = Some 1
     \<and> may_replace demo_server demo_owner demo_request (states (snd demo_set_first) ! 0) demo_manifest"
proof -
  obtain resp g' where s: "demo_set_second = (Inr resp, g')" "current g' = Some 1"
    using demo_set_second_ok by blast
  have c: "current (snd demo_set_first) = Some 0" using demo_set_first_ok by (metis snd_conv)
  have j: "json_manifest demo_env demo_json = Inr (Some demo_manifest)" by (simp add: demo_env_def)
  from manifest_replaced_by_owner [OF s(1) [unfolded demo_set_second_def] c] j s show ?thesis
    by (auto simp: demo_server_def demo_request_def)
qed

text \<open>
  C3. The first manifest: the engine of the new state can be made again from what each seed share
  owner decrypts with the own key and the salt in the response. What the key library promises is
  the hypothesis \<open>key_codec\<close>.
\<close>

theorem seed_share_owners_hold_engine:
  assumes "key_codec (server_keys srv)"
    and "set_manifest srv r p req g = (Inr resp, g')" and "current g = None"
    and "json_manifest (server_env srv) (req_manifest req) = Inr (Some m)"
    and "i < length (seedshare_owner_pub_keys m)"
    and "parse_seedshare_owner_key (server_keys srv) (seedshare_owner_pub_keys m ! i)
      = Inr (lib_rsa_public (server_keys srv) sk)"
  shows "\<exists>doc sd. seed_shares_doc resp = Some doc
     \<and> decrypt_seed_share (server_keys srv) sk (doc_shares doc ! i) = Inr sd
     \<and> new_seed_engine (kdf_lib (server_env srv)) sd (doc_salt doc)
         = Inr (seed_engine_of (states g' ! length (states g)))"
  by (rule first_manifest_shares_engine [OF assms])

theorem seed_share_owners_hold_engine_witness:
  "\<exists>resp g' doc sd. demo_set_first = (Inr resp, g') \<and> seed_shares_doc resp = Some doc
     \<and> decrypt_seed_share plain_keylib [3] (doc_shares doc ! 0) = Inr sd
     \<and> new_seed_engine plain_kdf sd (doc_salt doc) = Inr (seed_engine_of (states g' ! 0))"
proof -
  obtain resp g' where s: "demo_set_first = (Inr resp, g')" using demo_set_first_ok by blast
  have sv: "server_keys demo_server = plain_keylib" "server_env demo_server = demo_env" by (simp_all add: demo_server_def)
  have k: "parse_seedshare_owner_key plain_keylib ''3003'' = Inr [3]" by code_simp
  have 1: "key_codec (server_keys demo_server)" unfolding sv by (rule plain_keys.key_codec_axioms)
  have 2: "current demo_guard = None" "states demo_guard = []" by (simp_all add: demo_guard_def new_guard_def)
  have 3: "json_manifest (server_env demo_server) (req_manifest demo_request) = Inr (Some demo_manifest)"
    by (simp add: sv demo_env_def demo_request_def)
  have 4: "0 < length (seedshare_owner_pub_keys demo_manifest)" by (simp add: demo_manifest_def)
  have 5: "parse_seedshare_owner_key (server_keys demo_server) (seedshare_owner_pub_keys demo_manifest ! 0)
      = Inr (lib_rsa_public (server_keys demo_server) [3])"
    by (simp add: sv demo_manifest_def k) (simp add: plain_keylib_def)
  from seed_share_owners_hold_engine [OF 1 s [unfolded demo_set_first_def] 2(1) 3 4 5] s show ?thesis
    unfolding sv 2 list.size demo_env_simps by blast
qed

text \<open>C4. A SetManifest that fails leaves every state, the current one and the gauge as they were.\<close>

theorem failed_set_manifest_keeps_states:
  assumes "set_manifest srv r p req g = (Inl e, g')"
  shows "states g' = states g \<and> current g' = current g \<and> manifest_generation g' = manifest_generation g"
  using set_manifest_error_keeps [OF assms] by simp

theorem failed_set_manifest_keeps_states_witness:
  "\<exists>e g'. set_manifest demo_server demo_user_rnd NoPeer (demo_request\<lparr>req_manifest := []\<rparr>) demo_guard = (Inl e, g')
     \<and> current g' = None"
proof -
  let ?run = "set_manifest demo_server demo_user_rnd NoPeer (demo_request\<lparr>req_manifest := []\<rparr>) demo_guard"
  have "case ?run of (Inl e, g) \<Rightarrow> True | _ \<Rightarrow> False" by code_simp
  then obtain e g' where r: "?run = (Inl e, g')" by (auto split: prod.splits sum.splits)
  from failed_set_manifest_keeps_states [OF r] r show ?thesis
    by (simp add: demo_guard_def new_guard_def)
qed

section \<open>Attested connections\<close>



text \<open>
  C6. From the mesh API to the transit engine: the leaf certificate that an attested peer is issued
  carries the key of its connection, and authorizes it for the workload secret of its measured
  policy and for no other name; without a workload secret, for none.
\<close>

theorem mesh_certificate_authorizes_own_secret:
  assumes "coordinator_handshake E K A P L T J nonce raw g = (Inr ai, g')"
    and "new_mesh_cert M rnd now (MeshPeer ai host) = Inr resp" and "x509_laws (mesh_certs M) signed_by"
    and "\<And>b v. asn1_bytes (mesh_asn1 M) b = Inr v \<Longrightarrow> asn1_read_bytes TL v = Inr b"
  shows "\<exists>i entry pem cert. current g = Some i
    \<and> (new_hex_string (host_data (auth_report ai)), entry) \<in> set (policies (manifest_of (states g ! i)))
    \<and> mc_cert_chain resp = pem @ interm_ca_pem (ca_of (states g ! i))
    \<and> certifies (mesh_certs M) signed_by pem cert (key_public (mesh_certs M) (interm_priv_key (ca_of (states g ! i))))
    \<and> (\<exists>b pub. marshal_pkix M (hd (auth_peer_keys ai)) = Inr b \<and> parse_pkix M b = Inr pub \<and> cert_public_key cert = Some pub)
    \<and> (\<forall>r rest wid. tls_certs r = Some (extra_extensions cert # rest) \<longrightarrow>
         (authorize_workload_secret TL wid r = None \<longleftrightarrow> workload_secret_id entry \<noteq> '''' \<and> wid = workload_secret_id entry))"
proof -
  from coordinator_handshake_ok [OF assms(1)] obtain i xf doc rd where i: "current g = Some i" "auth_state ai = states g ! i"
    and acc: "document_accepted P L T J xf (manifest_of (states g ! i)) doc rd (auth_report ai)" by blast
  from mesh_cert_authorizes [OF assms(3,4) acc assms(2)] show ?thesis unfolding i(2) using i(1) by blast
qed

theorem mesh_certificate_authorizes_own_secret_witness:
  "\<exists>ai resp cert. attest_handshake = (Inr ai, attest_guard)
     \<and> new_mesh_cert attest_meshlib ([], []) 0 (MeshPeer ai None) = Inr resp
     \<and> (\<forall>r wid. tls_certs r = Some [extra_extensions (cert :: (bytes, pkix_extension, bytes, bytes) certificate)]
         \<longrightarrow> (authorize_workload_secret plain_transit wid r = None \<longleftrightarrow> wid = ''apps/demo''))"
proof -
  define ai :: "(bytes, bytes, bytes, bytes) auth_info" where "ai = \<lparr>auth_state = attest_state,
     auth_report = tdx_report_of plain_asn1 (plain_quote (good_xfam @ [7, 9, 9])), auth_peer_keys = [[7]]\<rparr>"
  have h: "attest_handshake = (Inr ai, attest_guard)" by (simp add: attest_handshake_ok ai_def)
  obtain resp where r: "new_mesh_cert attest_meshlib ([], []) 0 (MeshPeer ai None) = Inr resp"
    unfolding ai_def using attest_peer_certified by blast
  have x: "x509_laws (mesh_certs attest_meshlib) (plain_signed TYPE(pkix_extension))"
    unfolding attest_meshlib_def meshlib.simps by (rule plain_x509.x509_laws_axioms)
  have a: "asn1_bytes (mesh_asn1 attest_meshlib) b = Inr v \<Longrightarrow> asn1_read_bytes plain_transit v = Inr b" for b v
    by (simp add: attest_meshlib_def plain_asn1_def plain_transit_def)
  from mesh_certificate_authorizes_own_secret [OF h [unfolded attest_handshake_def] r x a]
  obtain entry cert where e: "(new_hex_string (host_data (auth_report ai)), entry) \<in> set (policies attest_manifest)"
    and c: "\<forall>r rest wid. tls_certs r = Some (extra_extensions (cert :: (bytes, pkix_extension, bytes, bytes) certificate) # rest)
      \<longrightarrow> (authorize_workload_secret plain_transit wid r = None \<longleftrightarrow> workload_secret_id entry \<noteq> '''' \<and> wid = workload_secret_id entry)"
    by (auto simp: attest_guard_def attest_state_def)
  from e have w: "workload_secret_id entry = ''apps/demo''" by (simp add: attest_manifest_facts demo_entry_def)
  have "\<forall>q wid. tls_certs q = Some [extra_extensions cert]
      \<longrightarrow> (authorize_workload_secret plain_transit wid q = None \<longleftrightarrow> wid = ''apps/demo'')"
    using c unfolding w by simp
  with h r show ?thesis by blast
qed

text \<open>
  C7. The validator of a manifest is sound: a document it accepts, for given report data, meets one of
  the manifest's reference values, and the report it sets last is that document's.
\<close>

theorem accepted_document_meets_manifest:
  assumes "manifest_validator K P L T J m = Inr v" and "validate v oi doc rd = (None, reps)"
  shows "\<exists>pre report. reps = pre @ [report] \<and> document_accepted P L T J True m doc rd report"
  by (rule manifest_validator_sound [OF assms])

theorem accepted_document_meets_manifest_witness:
  "\<exists>v reps. manifest_validator plain_keylib plain_opts plain_snp plain_tdx plain_json attest_manifest = Inr v
     \<and> validate v raw_tdx_report (good_xfam @ [7]) [7] = (None, reps)
     \<and> (\<exists>report. document_accepted plain_opts plain_snp plain_tdx plain_json True attest_manifest (good_xfam @ [7]) [7] report)"
proof -
  obtain v reps where v: "manifest_validator plain_keylib plain_opts plain_snp plain_tdx plain_json attest_manifest = Inr v"
    "validate v raw_tdx_report (good_xfam @ [7]) [7] = (None, reps)" using attest_validator_accepts by blast
  from accepted_document_meets_manifest [OF v] v show ?thesis by blast
qed

text \<open>
  C8. The reference XFAM of a TDX validator is compared once per handshake: when the first document of
  the peer's certificate fails after that comparison, the next one is accepted whatever XFAM it
  has.
\<close>

theorem xfam_unchecked_behind_another_document:
  assumes "process_certificate A raw = Inr (cert, pub)"
    and "attestation_extensions (cert_extensions A cert) = [x, y]"
    and "unmarshal_quote T (ext_value x) = Inr q" "verify_quote T q (tvo_verify opt) = None"
      "\<forall>ref. to_xfam (tvo_validate opt) = Some ref \<longrightarrow> validate_xfam_ignoring_cet (tq_xfam q) ref = None"
      "check_quote T q ((tvo_validate opt)\<lparr>to_report_data := sha512 A (pub @ nonce), to_xfam := None\<rparr>) = Some e"
    and "unmarshal_quote T (ext_value y) = Inr q'" "verify_quote T q' (tvo_verify opt) = None"
      "check_quote T q' ((tvo_validate opt)\<lparr>to_report_data := sha512 A (pub @ nonce), to_xfam := None\<rparr>) = None"
      "tvo_allowed_piids opt = []"
  shows "fst (connection_verify A (manifest_vobject P L T J [TdxObject i opt]) [TdxObject i opt] nonce raw)
    = Inr (cert, [tdx_report_of (tdx_asn1 T) q'])"
  by (rule xfam_skipped [OF assms(1) refl assms(2-9)]) (simp add: assms(10))

theorem xfam_unchecked_behind_another_document_witness:
  "\<exists>cert. fst (connection_verify two_documents (manifest_vobject plain_opts plain_snp plain_tdx plain_json
        [TdxObject 0 attest_options]) [TdxObject 0 attest_options] [9, 9] peer_raw)
      = Inr (cert, [tdx_report_of plain_asn1 (plain_quote (bad_xfam @ [7, 9, 9]))])
    \<and> validate_xfam_ignoring_cet (tq_xfam (plain_quote (bad_xfam @ [7, 9, 9]))) good_xfam \<noteq> None"
proof -
  let ?c = "(\<lparr>ext_id = raw_tdx_report, ext_value = good_xfam @ [7, 9, 9]\<rparr>, [7 :: byte])"
  have t: "unmarshal_quote plain_tdx d = Inr (plain_quote d)" "verify_quote plain_tdx q vo = None"
    "tdx_asn1 plain_tdx = plain_asn1" for d q vo by (simp_all add: plain_tdx_def)
  have x: "attestation_extensions (cert_extensions two_documents ?c) = [\<lparr>ext_id = raw_snp_report, ext_value = good_xfam\<rparr>,
      \<lparr>ext_id = raw_tdx_report, ext_value = bad_xfam @ [7, 9, 9]\<rparr>]"
    by (simp add: two_documents_facts is_attestation_document_extension_def)
  have bad: "tq_xfam (plain_quote (bad_xfam @ [7, 9, 9])) = bad_xfam" by (simp add: plain_quote_def bad_xfam_def)
  have "fst (connection_verify two_documents (manifest_vobject plain_opts plain_snp plain_tdx plain_json
        [TdxObject 0 attest_options]) [TdxObject 0 attest_options] [9, 9] peer_raw)
      = Inr (?c, [tdx_report_of (tdx_asn1 plain_tdx) (plain_quote (bad_xfam @ [7, 9, 9]))])"
    by (rule xfam_unchecked_behind_another_document [OF two_documents_facts(1) x,
          where q = "plain_quote good_xfam" and e = "Msg ''quote mismatch''"])
      (simp_all add: t two_documents_facts attest_options_def plain_quote_def plain_tdx_def validate_xfam_ok
        length_good_xfam bad_xfam_def)
  then show ?thesis using bad_xfam_differs by (auto simp: t bad)
qed

text \<open>
  C9. Completeness of the handshake: a certificate that a peer makes for this side's nonce is accepted
  by every validator that accepts what the peer's issuer issues, and it is for the peer's key.
\<close>

theorem made_certificate_is_accepted:
  assumes "x509_self_signed A"
    and "atls_get_certificate A rnd now (Some iss) priv (public_of A priv) nonce = Inr raw"
    and "is_attestation_document_extension (issuer_oid iss)"
    and "\<And>rd doc. issue iss rd = Inr doc \<Longrightarrow> \<exists>rs st'. object_step v st (issuer_oid iss) doc rd = ((None, rs), st')"
  shows "\<exists>cert reps st'. connection_verify A v st nonce raw = (Inr (cert, reps), st') \<and> cert_key A cert = public_of A priv"
  by (rule x509_self_signed.made_certificate_verifies [OF assms])

theorem made_certificate_is_accepted_witness:
  "\<exists>raw cert reps. server_get_certificate plain_atls ([], []) 0 (Some quote_issuer) [7] (client_protos [9, 9]) '''' = Inr raw
     \<and> fst (connection_verify plain_atls (manifest_vobject plain_opts plain_snp plain_tdx plain_json
        [TdxObject 0 attest_options]) [TdxObject 0 attest_options] [9, 9] raw) = Inr (cert, reps)"
proof -
  obtain raw where r: "server_get_certificate plain_atls ([], []) 0 (Some quote_issuer) [7] (client_protos [9, 9]) '''' = Inr raw"
    "atls_get_certificate plain_atls ([], []) 0 (Some quote_issuer) [7] (public_of plain_atls [7]) [9, 9] = Inr raw"
    using quote_issuer_certificate by blast
  have o: "is_attestation_document_extension (issuer_oid quote_issuer)"
    by (simp add: quote_issuer_def is_attestation_document_extension_def)
  from made_certificate_is_accepted [OF plain_atls.x509_self_signed_axioms r(2) o quote_issuer_accepted] r(1)
  show ?thesis by (metis fst_conv)
qed

section \<open>Workloads and their documents\<close>

text \<open>
  C10. From a deployment to what runs: when the Coordinator finds a policy entry of a generated manifest
  for the digest in a guest's report, and the guest's agent was released without a denying policy,
  then the entry is that of a deployed workload, and the files the agent was released on are those
  of the document in that workload's annotation, unless two documents collide on 32 bytes.
\<close>

theorem admitted_guest_runs_deployed_document:
  assumes "\<not> ready w" and "ready (initdata_main E w)"
    and "\<And>msg. files (initdata_main E w) policy_rego \<noteq> Some (deny_with_message E msg)"
    and "report_digest (guest_lib E) = Inr want"
    and "generate_manifest K L (guest_initlib E) emb ps patches purge existing eip targets no_updates owners shares = Inr m"
    and "lookup_policy m (take 32 want) = Some e"
  shows "\<exists>t\<in>set targets. \<exists>r om s d doc i. tg_resource t = Inr r \<and> pod_of r = Some (om, s)
    \<and> deployment_of (guest_initlib E) t om = Inr d \<and> e = entry_of d \<and> initdata_parse (guest_initlib E) doc = Inr i
    \<and> (\<forall>p. p \<noteq> imagepuller_config \<longrightarrow> files (initdata_main E w) p = written (init_data i) (files w) p)
    \<and> (doc = dp_initdata d \<or> documents_collide (guest_initlib E) doc (dp_initdata d))"
proof -
  have att: "config_attested E w (initdata_main E w)" using initdata_main_ok [OF assms(1,2)] assms(3) by blast
  have hp: "has_platform (guest_lib E)"
    using assms(4) by (auto simp: report_digest_def has_platform_def split: sum.splits)
  obtain ds where ds: "policies_from_kube_resources (guest_initlib E) targets = Inr ds"
    "manifest_policy_map_from_policies (guest_initlib E) ds = Inr (policies m)"
    using generate_manifest_ok [OF assms(5)] by blast
  obtain d where d: "d \<in> set ds" "e = entry_of d" "\<exists>doc i. initdata_parse (guest_initlib E) doc = Inr i
      \<and> (\<forall>p. p \<noteq> imagepuller_config \<longrightarrow> files (initdata_main E w) p = written (init_data i) (files w) p)
      \<and> (doc = dp_initdata d \<or> documents_collide (guest_initlib E) doc (dp_initdata d))"
    using running_document_deployed [OF att hp assms(4) lookup_policy_entry [OF assms(6)] ds(2)] by blast
  then show ?thesis using policies_from_resources_ok [OF ds(1), of d] by blast
qed

theorem admitted_guest_runs_deployed_document_witness:
  "\<exists>doc i. initdata_parse plain_initlib doc = Inr i
     \<and> files (initdata_main demo_guest booting) policy_rego = written (init_data i) (files booting) policy_rego"
proof -
  have g: "\<not> ready booting" "ready (initdata_main demo_guest booting)" "guest_initlib demo_guest = plain_initlib"
    by (simp_all add: demo_guest_starts) (simp_all add: booting_def demo_guest_def)
  have l: "lookup_policy generated (take 32 (plain_sum 32 demo_document)) = Some (entry_of demo_deployment)"
    by (simp add: lookup_policy_def generated_def)
  have p: "policy_rego \<noteq> imagepuller_config" by code_simp
  from admitted_guest_runs_deployed_document [OF g(1,2) demo_guest_not_denied demo_guest_report
      demo_generated [folded g(3)] l] p show ?thesis unfolding g(3) by blast
qed

text \<open>
  C11. Whatever fails on the way, the agent of a guest starts in one of two situations only: over a policy
  that denies every request, or over the files of a document that parses and whose digest equals the
  one in the guest's own report; without a report, only where the kernel command line allows it.
\<close>

theorem agent_starts_attested_or_denied:
  assumes "\<not> ready w" and "ready (initdata_main E w)"
  shows "(\<exists>msg. files (initdata_main E w) policy_rego = Some (deny_with_message E msg))
    \<or> (\<exists>doc i d allow. initdata_parse (guest_initlib E) doc = Inr i \<and> initdata_digest (guest_initlib E) doc = Inr d
        \<and> allow_insecure_attestation E = Inr allow
        \<and> ((\<exists>want. report_digest (guest_lib E) = Inr want \<and> take 32 want = take 32 d) \<or> \<not> has_platform (guest_lib E) \<and> allow)
        \<and> (\<forall>p. p \<noteq> imagepuller_config \<longrightarrow> files (initdata_main E w) p = written (init_data i) (files w) p))"
  using initdata_main_ok [OF assms] compare_digests_prefix unfolding config_attested_def by blast

theorem agent_starts_attested_or_denied_witness:
  "\<exists>doc d. initdata_digest plain_initlib doc = Inr d \<and> plain_sum 32 demo_document = take 32 d"
proof -
  have g: "\<not> ready booting" "ready (initdata_main demo_guest booting)" "guest_initlib demo_guest = plain_initlib"
    "has_platform (guest_lib demo_guest)"
    by (simp_all add: demo_guest_starts) (simp_all add: booting_def demo_guest_def has_platform_def new_digest_validator_def)
  from agent_starts_attested_or_denied [OF g(1,2)] demo_guest_not_denied demo_guest_report g(3,4) show ?thesis by auto
qed

text \<open>
  C12. A generated manifest has one policy for every document that is deployed, each under the document's
  digest and with the names, role and secret of a deployment that has it; it names a Coordinator, and with
  updates disabled nobody owns it. The manifest with the owner keys it had before generate added
  its own passed the test that generate makes: Validate accepted it, or its error counts as only expected
  values missing. That test does not look at all errors; what it leaves is that the policies are well formed,
  there is a reference value, and every reference value is one for an insecure platform, or complete, or
  one whose first error is a missing one: an SNP value without its whole TCB, whatever else is wrong with it, or
  a TDX value with an MrTd and without an MrSeam.
\<close>

theorem generated_manifest_lists_deployments:
  assumes "generate_manifest K L I emb ps patches purge existing eip targets no_updates owners shares = Inr m"
  shows "\<exists>ds. policies_from_kube_resources I targets = Inr ds \<and> distinct (map fst (policies m))
    \<and> (\<forall>k e. (k, e) \<in> set (policies m)
         \<longrightarrow> (\<exists>d\<in>set ds. \<exists>h. initdata_digest I (dp_initdata d) = Inr h \<and> k = new_hex_string h \<and> e = entry_of d))
    \<and> (\<forall>d\<in>set ds. \<exists>h e. initdata_digest I (dp_initdata d) = Inr h \<and> (new_hex_string h, e) \<in> set (policies m))
    \<and> (\<exists>hs. coordinator_policy_hashes m = Inr hs)
    \<and> (\<exists>ws ss. let m1 = m\<lparr>workload_owner_pub_keys := ws, seedshare_owner_pub_keys := ss\<rparr>
         in manifest_validate K m1 = None \<or> only_missing (manifest_validate K m1))
    \<and> (\<forall>(h, e)\<in>set (policies m). hex_of_size 32 h \<and> (role e = role_none \<or> role e = role_coordinator))
    \<and> (snp (refvals m) \<noteq> [] \<or> tdx (refvals m) \<noteq> [])
    \<and> (\<forall>v\<in>set (snp (refvals m)). names_insecure (snp_platform v) \<or> snp_complete v \<or> \<not> tcb_complete (minimum_tcb v))
    \<and> (\<forall>v\<in>set (tdx (refvals m)). names_insecure (tdx_platform v) \<or> tdx_complete v
         \<or> hex_of_size 48 (mr_td v) \<and> \<not> hex_of_size 48 (mr_seam v))
    \<and> (no_updates \<longrightarrow> workload_owner_pub_keys m = [])"
proof -
  obtain ds ws ss hs where ds: "policies_from_kube_resources I targets = Inr ds"
    "manifest_policy_map_from_policies I ds = Inr (policies m)" "no_updates \<longrightarrow> workload_owner_pub_keys m = []"
    and v: "manifest_validate K (m\<lparr>workload_owner_pub_keys := ws, seedshare_owner_pub_keys := ss\<rparr>) = None
        \<or> only_missing (manifest_validate K (m\<lparr>workload_owner_pub_keys := ws, seedshare_owner_pub_keys := ss\<rparr>))"
    and hs: "coordinator_policy_hashes (m\<lparr>workload_owner_pub_keys := ws, seedshare_owner_pub_keys := ss\<rparr>) = Inr hs"
    using generate_manifest_before_keys [OF assms] by blast
  have "coordinator_policy_hashes m = Inr hs" using hs by (simp add: coordinator_policy_hashes_def)
  then show ?thesis
    using ds(1,3) policy_map_ok [OF ds(2)] v manifest_only_missing [OF v hs] unfolding Let_def
    by (intro exI [of _ ds]) auto
qed

theorem generated_manifest_lists_deployments_witness:
  "\<exists>e. (new_hex_string (plain_sum 32 demo_document), e) \<in> set (policies generated)"
  using generated_manifest_lists_deployments [OF demo_generated]
  by (auto simp: demo_policies demo_deployment_def demo_document_digest simp del: policies_from_kube_resources.simps)

text \<open>
  C13. Two deployments of one document cannot both be represented: with one name they are an error, and
  under different names the second is dropped without an error, so that it runs under the names,
  role and workload secret of the first; checking the deployments against that manifest then fails.
\<close>

theorem shared_document_is_dropped:
  assumes "initdata_digest L (dp_initdata d) = Inr h" and "dp_initdata d' = dp_initdata d"
  shows "manifest_policy_map_from_policies L [d, d'] =
      (if dp_name d = dp_name d' then Inl (Msg ''policy hash collision'') else Inr [(new_hex_string h, entry_of d)])
    \<and> check_policies_match_manifest L [d, d'] [(new_hex_string h, entry_of d)] = Some (Msg ''policy count mismatch'')"
  using shared_document [OF assms] by simp

theorem shared_document_is_dropped_witness:
  "manifest_policy_map_from_policies plain_initlib [demo_deployment, demo_deployment\<lparr>dp_name := ''web''\<rparr>]
     = Inr [(new_hex_string (plain_sum 32 demo_document), entry_of demo_deployment)]"
proof -
  have "initdata_digest plain_initlib (dp_initdata demo_deployment) = Inr (plain_sum 32 demo_document)"
    by (simp add: demo_deployment_def demo_document_digest)
  from shared_document_is_dropped [OF this, of "demo_deployment\<lparr>dp_name := ''web''\<rparr>"] show ?thesis
    by (simp add: demo_deployment_def)
qed

text \<open>
  C14. An SNP workload that passes the check of its CPUs and in which only the ordinary containers ask for
  CPUs (for other requests the check and the patch count differently, and the claim does not hold) gets
  an ID block for each product of which the manifest has, for the workload's platform, a complete reference value
  with a reset address; the containers are left as they are. A guest that is launched with that block, so that
  its verified report has the block's launch digest, on a chip that the reference value allows, is accepted by
  the validator of that reference value as soon as the library finds the report's claims to meet the options.
\<close>

theorem patched_workload_is_accepted:
  assumes "opts_library_ok P L" and "\<And>b. length (sha384_fun L b) = 48"
    and "pod_of r = Some (mo, Some s)" and "is_contrast_pod (Some s)" and "runtime_class_name s = Some cls"
    and "from_runtime_class_string cls = Inr p" and "is_snp p" and "cpu_count_valid r = None"
    and "\<forall>c\<in>set (init_containers s). cpu_of c = 0" and "get_cpu_count (pod_resources s) = 0"
    and "snp_values_for_product (snp (refvals m)) p product = Some rv" and "snp_complete rv" and "apeip rv \<noteq> ''''"
  shows "\<exists>r' om opt blk auth. patch_id_block_annotation L m r = Inr r' \<and> pod_of r' = Some (Some om, Some s)
    \<and> sees_annotations (annotations om) product blk auth (policy_to_bytes L (guest_policy rv))
    \<and> snp_options_for P L rv = Inr opt \<and> launched_guest_accepted P L rv opt blk auth"
proof -
  obtain n where "id_block_cpu_count s = int n" "1 \<le> n" "n \<le> 220"
    using checked_pod_id_block_count [OF assms(8,3,4,9,10)] by blast
  then show ?thesis by (rule patched_workload_accepted [OF assms(1-3,5-7) _ _ _ assms(11-13)])
qed

theorem patched_workload_is_accepted_witness:
  "\<forall>pol info. \<exists>r' om opt blk auth. patch_id_block_annotation plain_snp (snp_manifest pol info) snp_workload = Inr r'
     \<and> pod_of r' = Some (Some om, Some snp_pod)
     \<and> launched_guest_accepted plain_opts plain_snp (snp_reference pol info) opt blk auth"
proof (intro allI)
  fix pol info
  have "length (sha384_fun plain_snp b) = 48" for b by (simp add: plain_snp_def)
  from patched_workload_is_accepted [OF plain_opts_ok this snp_workload_facts(1-5) snp_workload_checked _
      snp_workload_facts(7) snp_manifest_values(1) snp_reference_complete snp_manifest_values(2), of pol info]
  show "\<exists>r' om opt blk auth. patch_id_block_annotation plain_snp (snp_manifest pol info) snp_workload = Inr r'
     \<and> pod_of r' = Some (Some om, Some snp_pod)
     \<and> launched_guest_accepted plain_opts plain_snp (snp_reference pol info) opt blk auth"
    unfolding snp_workload_facts(6) by auto
qed

text \<open>
  C15. On a Contrast workload that does not opt out, and with an initializer that has a name and a first mount for the
  secrets, \<open>AddInitializer\<close> works on the object its caller's pointer refers to: it is left with the
  configuration of the secure volume and the variable that turns the service mesh off appended, as the pod's annotations
  ask for, and it is this object that starts before every other container; all others see the shared secrets
  once, read-only and where the initializer has them, and no other container is lost. When the device of a
  secure volume is named unlike the volumes the first injection may create, a second injection with a fresh copy of the
  initializer changes nothing, while one with the same object, which succeeds as well, exchanges the pod's
  initializer for one that is configured twice, different from the first when there was anything to configure.
\<close>

theorem initializer_is_first_and_idempotent:
  assumes "add_initializer r i0 = Inr (r', i)" and "pod_of r = Some (m, Some s)" and "is_contrast_pod (Some s)"
    and "\<not> skips_initializer m" and "c_mounts i0 = vm # vms" and "c_name i0 \<noteq> None"
  shows "i = configured m i0
    \<and> (\<exists>s' rest. pod_of r' = Some (m, Some s') \<and> init_containers s' = i # rest
      \<and> (\<forall>c \<in> set (containers s') \<union> set rest. sees_read_only vm c)
      \<and> map c_name (containers s') = map c_name (containers s)
      \<and> map c_name rest = map c_name (without_named i0 (init_containers s)))
    \<and> (device_apart m i0 \<longrightarrow> add_initializer r' i0 = Inr (r', i))
    \<and> (device_apart m i0 \<longrightarrow> (\<exists>s' rest r''. pod_of r' = Some (m, Some s') \<and> init_containers s' = i # rest
         \<and> add_initializer r' i = Inr (r'', configured m i)
         \<and> pod_of r'' = Some (m, Some (s'\<lparr>init_containers := configured m i # rest\<rparr>))))
    \<and> (configured m i = i \<longleftrightarrow> configured m i0 = i0)"
proof (intro conjI impI)
  have m: "c_mounts i0 \<noteq> []" using assms(5) by simp
  show i: "i = configured m i0" using add_initializer_ok [OF assms(1-5)] by blast
  show "add_initializer r' i0 = Inr (r', i)" if "device_apart m i0"
    by (rule add_initializer_idem [OF assms(1-4,6) m that])
  show "\<exists>s' rest r''. pod_of r' = Some (m, Some s') \<and> init_containers s' = i # rest
         \<and> add_initializer r' i = Inr (r'', configured m i)
         \<and> pod_of r'' = Some (m, Some (s'\<lparr>init_containers := configured m i # rest\<rparr>))" if "device_apart m i0"
    by (rule add_initializer_twice [OF assms(1-4,6) m that])
  show "configured m i = i \<longleftrightarrow> configured m i0 = i0" unfolding i by (rule configured_twice)
qed (use add_initializer_ok [OF assms(1-5)] in blast)

theorem initializer_is_first_and_idempotent_witness:
  "\<exists>r' i. add_initializer snp_workload (new_initializer ''coordinator-ready.default'' MemoryProfileFull) = Inr (r', i)
     \<and> add_initializer r' (new_initializer ''coordinator-ready.default'' MemoryProfileFull) = Inr (r', i)
     \<and> (\<exists>r''. add_initializer r' i = Inr (r'', configured None i)) \<and> configured None i \<noteq> i"
proof -
  let ?i = "new_initializer ''coordinator-ready.default'' MemoryProfileFull"
  obtain r' i' where r': "add_initializer snp_workload ?i = Inr (r', i')" using demo_initializer by blast
  have i: "c_mounts ?i = [secrets_mount]" "c_name ?i \<noteq> None" "device_apart None ?i" "\<not> skips_initializer None"
    by (simp_all add: new_initializer_def device_apart_def skips_initializer_def)
  have "length (c_env (configured None ?i)) \<noteq> length (c_env ?i)"
    unfolding configured_grows by (simp add: needs_service_mesh_def)
  then have "configured None ?i \<noteq> ?i" by force
  with initializer_is_first_and_idempotent [OF r' snp_workload_facts(1,2) i(4,1,2)] r' i(3) show ?thesis by blast
qed

section \<open>The network of a workload\<close>

text \<open>
  C16. The sidecar removes the default deny rule of its guest only when its proxy is in place. Started
  with fresh tables and the rule present, whatever fails on the way, once the rule is gone the
  annotations were parsed and an Envoy configuration was made from them; unless inbound traffic is
  disabled in the annotations, every packet gets the verdict they ask for: a new TCP connection from
  outside goes to the port of the proxy that demands a client certificate, or, if the first entry
  for its port says so, to the one without, or past the proxy; and both listeners of the
  configuration terminate TLS with the guest's certificate, the one for clients with a
  certificate verifying it against the mesh CA.
\<close>

theorem default_deny_gone_only_behind_proxy:
  assumes "ipt_laws P" and "sys_laws P Y" and "\<forall>c. chain_rules P s (''mangle'', c) = []"
    and "default_deny_rule \<in> set (chain_rules P s deny_chain)"
    and "run_service_mesh N V Y P env s = (e, s')"
    and "default_deny_rule \<notin> set (chain_rules P s' deny_chain)"
  shows "\<exists>cfg b. parse_proxy_config N (me_ingress env) (me_egress env) (me_admin env) = Inr cfg
    \<and> envoy_bootstrap N V cfg = Inr b
    \<and> (pc_ingress_disabled cfg \<or>
        (\<forall>p. inbound_verdict P s' p = asked_verdict (pc_ingress cfg) p)
        \<and> (\<exists>l\<in>set (bs_listeners b). terminates_tls envoy_ingress_port True l)
        \<and> (\<exists>l\<in>set (bs_listeners b). terminates_tls envoy_ingress_port_no_client_cert False l))"
proof -
  obtain cfg b where c: "parse_proxy_config N (me_ingress env) (me_egress env) (me_admin env) = Inr cfg"
    and b: "envoy_bootstrap N V cfg = Inr b"
    using deny_removed_after_rules [OF assms] by blast
  have v: "inbound_verdict P s' p = asked_verdict (pc_ingress cfg) p" if "\<not> pc_ingress_disabled cfg" for p
    using deny_removed_after_rules [OF assms, of p] that c by (metis sum.inject(2))
  show ?thesis using c b v envoy_bootstrap_terminates_tls [OF b] by blast
qed

theorem default_deny_gone_only_behind_proxy_witness:
  "\<exists>cfg b. parse_proxy_config demo_net ''web#8080#true##api#9090#false'' '''' '''' = Inr cfg
    \<and> envoy_bootstrap demo_net demo_envoy cfg = Inr b \<and> \<not> pc_ingress_disabled cfg
    \<and> (\<exists>l\<in>set (bs_listeners b). terminates_tls envoy_ingress_port True l)"
proof -
  obtain e s' where r: "run_service_mesh demo_net demo_envoy demo_sys demo_ipt demo_mesh_env demo_tables = (e, s')" by fastforce
  have gone: "default_deny_rule \<notin> set (chain_rules demo_ipt s' deny_chain)" using demo_deny_removed r by simp
  have fresh: "\<forall>c. chain_rules demo_ipt demo_tables (''mangle'', c) = []" by (simp add: demo_sel demo_tables_def deny_chain_def)
  have present: "default_deny_rule \<in> set (chain_rules demo_ipt demo_tables deny_chain)" by (simp add: demo_sel demo_tables_def)
  from default_deny_gone_only_behind_proxy [OF demo_ipt_laws demo_sys_laws fresh present r gone] show ?thesis
    by (auto simp: demo_mesh_env_def demo_parse)
qed

section \<open>Collateral and certificates\<close>

text \<open>
  C17. Every request for collateral that a client sends is a well-formed message of the Quote Generation
  Service, whatever bytes the certificate names as the FMSPC: the length before it and the size in its
  header are those of the message, header and version are those of a collateral request, and the
  sizes in the body delimit the six bytes of the FMSPC and the name of the CA with its final zero.
\<close>

theorem collateral_request_is_well_formed:
  "(let r = \<lparr>rq_fmspc = go_copy (replicate len_fmspc 0) fmspc, rq_ca_type = ca_type_platform\<rparr>
    in well_formed_request (fst (get_collateral c r)) r)
   \<and> (let r = \<lparr>rq_fmspc = go_copy (replicate len_fmspc 0) fmspc, rq_ca_type = ca_type_processor\<rparr>
    in well_formed_request (fst (get_collateral c r)) r)"
  unfolding Let_def by (intro conjI fmspc_request_well_formed) simp_all

text \<open>
  C18. The sizes in a collateral response and the length of the message decide how it is read. If the
  seven sizes and the fixed part add up to the length, the response holds exactly the items that the
  sizes cut out; if they fall short, the rest is reported; if they exceed it, also where the sum of
  32 bits would wrap around, the process panics.
\<close>

theorem collateral_response_is_cut_by_sizes:
  assumes "length d < 4294967296" and "32 \<le> length d"
  shows "unmarshal_response (whole_slice d) =
    (if length d < 32 + sum_list (map (item_size d) [0..<7]) then Inl slice_panic
     else if 32 + sum_list (map (item_size d) [0..<7]) < length d then Inl (Msg ''found trailing bytes'')
     else Inr (response_of (of_nat (le_value (take 2 d))) (of_nat (le_value (take 2 (drop 2 d))))
            (cut_items (drop 32 d) (map (item_size d) [0..<7]))))"
  using unmarshal_response_cases [OF assms] by (simp del: upt_rec_numeral)

theorem collateral_response_is_cut_by_sizes_witness:
  "unmarshal_response (whole_slice ([1, 0, 1, 0, 255, 255, 255, 255] @ replicate 24 0)) = Inl slice_panic"
proof -
  let ?d = "[1, 0, 1, 0, 255, 255, 255, 255] @ replicate 24 (0 :: byte)"
  have "0 < item_size ?d 0" by (simp add: item_size_def)
  then have "\<exists>n\<in>{0..<7}. 0 < item_size ?d n" by (intro bexI [of _ 0]) simp_all
  then have "sum_list (map (item_size ?d) [0..<7]) \<noteq> 0" by (simp only: sum_list_eq_0_iff set_map set_upt) auto
  then have pos: "0 < sum_list (map (item_size ?d) [0..<7])" by (simp only: neq0_conv)
  have len: "length ?d = 32" by simp
  have lt: "length ?d < 32 + sum_list (map (item_size ?d) [0..<7])"
    unfolding len by (rule less_add_same_cancel1 [THEN iffD2, OF pos])
  have "unmarshal_response (whole_slice ?d) = Inl slice_panic"
    by (rule trans [OF collateral_response_is_cut_by_sizes if_P [OF lt]]) simp_all
  then show ?thesis .
qed

text \<open>
  C19. A guest that has a quote issues it whatever becomes of the collateral: no certificate, no service,
  no answer, a late or a malformed one lead to a document with the quote and other extra bytes at
  most. The only exception is a message of the service whose sizes exceed it, on which the issuer
  panics.
\<close>

theorem issue_survives_missing_collateral:
  assumes "ih_provider h = None" and "ih_raw_quote h rd = Inr raw" and "ih_quote_proto h raw = Inr (Some q)"
    and "\<And>x. \<exists>b. il_marshal_quote I (q\<lparr>tq_extra_bytes := x\<rparr>) = Inr b"
  shows "(\<exists>x b. tdx_issue I h rd = Inr b \<and> il_marshal_quote I (q\<lparr>tq_extra_bytes := x\<rparr>) = Inr b)
    \<or> tdx_issue I h rd = Inl slice_panic \<and> (\<exists>c m. ih_dial h = Inr c \<and> read_message c = Inr m \<and> oversized m)"
  by (rule issue_despite_collateral [OF assms])

theorem issue_survives_missing_collateral_witness:
  "\<exists>c m. ih_dial (demo_host 255 (plain_quote [])) = Inr c \<and> read_message c = Inr m \<and> oversized m"
proof -
  let ?h = "demo_host 255 (plain_quote [])"
  have h: "ih_provider ?h = None" "ih_raw_quote ?h [7] = Inr [7]" "ih_quote_proto ?h [7] = Inr (Some (plain_quote []))"
    by (simp_all add: demo_host_def)
  have m: "\<And>x. \<exists>b. il_marshal_quote demo_issuer ((plain_quote [])\<lparr>tq_extra_bytes := x\<rparr>) = Inr b"
    by (simp add: demo_issuer_def)
  from issue_survives_missing_collateral [OF h m] show ?thesis
    by (simp add: demo_issue)
qed

text \<open>
  C20. Over any sequence of calls, beginning with an empty store, every body that the caching getter
  answers for a URL was given by the network for that very URL, directly or through the configured
  proxy, in the same call or an earlier one: neither the cache, nor the collector, nor the fallback
  for lists that cannot be refreshed, nor the proxy mixes up URLs or makes up an answer.
\<close>

theorem cached_answers_were_given:
  assumes "\<And>a d a'. entry_text U a = Inr d \<Longrightarrow> entry_parse U d = Inr a' \<Longrightarrow> snd a' = snd a"
    and "run_gets U mem_certstore cs (new_cached_getter memstore_new proxy) = Some (xs, g')"
    and "i < length cs" and "xs ! i = Inr a"
  shows "\<exists>j\<le>i. fst (cs ! j) = fst (cs ! i) \<and> answered U (trim_right CHR ''/'' proxy) (snd (cs ! j)) (fst (cs ! i)) (snd a)"
  by (rule entry_json.mem_answers_are_given [OF entry_json.intro, OF assms])

theorem cached_answers_were_given_witness:
  "\<exists>j\<le>1. answered demo_urllib '''' (snd (demo_calls ! j)) demo_crl_url [7]"
proof -
  obtain g where g: "run_gets demo_urllib mem_certstore demo_calls (new_cached_getter memstore_new '''') = Some ([Inr ([], [7]), Inr ([], [7])], g)"
    using demo_run_gets by blast
  have "\<exists>j\<le>1. fst (demo_calls ! j) = fst (demo_calls ! 1)
      \<and> answered demo_urllib (trim_right CHR ''/'' '''') (snd (demo_calls ! j)) (fst (demo_calls ! 1)) (snd ([] :: headers, [7 :: byte]))"
    by (rule cached_answers_were_given [OF _ g]) (auto simp: demo_urllib_def demo_calls_def)
  then show ?thesis by (auto simp: demo_calls_def trim_right_def)
qed

section \<open>Measurements of TDX guests\<close>

text \<open>
  C21. MRTD commits to the memory that a guest starts with: two firmware images with the same MRTD lead to
  the same sequence of calls that add pages and measure their contents, at the same addresses and in the
  same order, or the byte strings that are hashed for them are a collision of SHA-384.
\<close>

theorem mrtd_commits_to_memory:
  assumes "calculate_mrtd H se fw = Some (Inr d)" and "calculate_mrtd H se' fw' = Some (Inr d)"
    and "\<And>b. length (H b) = 48"
  shows "\<exists>ss ss'. parse_tdvf_sections fw = Some (Inr ss) \<and> parse_tdvf_sections fw' = Some (Inr ss')
    \<and> (build_calls fw ss = build_calls fw' ss'
       \<or> call_stream (build_calls fw ss) \<noteq> call_stream (build_calls fw' ss')
         \<and> H (call_stream (build_calls fw ss)) = H (call_stream (build_calls fw' ss')))"
  by (rule mrtd_commits [OF assms])

theorem mrtd_commits_to_memory_witness:
  "\<exists>ss ss'. parse_tdvf_sections (demo_firmware 22 0xc2) = Some (Inr ss) \<and> parse_tdvf_sections (demo_firmware 24 0xc2) = Some (Inr ss')
    \<and> build_calls (demo_firmware 22 0xc2) ss = build_calls (demo_firmware 24 0xc2) ss'"
proof -
  let ?H = "\<lambda>b :: bytes. take 48 (drop 16 b) @ replicate (48 - length (take 48 (drop 16 b))) 0"
  have l: "length (?H b) = 48" for b by simp
  from mrtd_commits_to_memory [OF demo_firmware_mrtd [where H = ?H and n = 22] demo_firmware_mrtd [where n = 24] l] show ?thesis
    by (auto simp: demo_firmware_sections build_calls_def section_calls_def region_calls_def page_calls_def)
qed

text \<open>
  C22. The search for the metadata in a firmware image ends unless the walk through the table arrives at
  an entry of another kind whose length is zero; there it never ends, and neither do the computations
  of MRTD and of RTMR 0.
\<close>

theorem firmware_search_stops_unless_stuck:
  "(find_tdvf_metadata_offset fw = None \<longleftrightarrow>
     (\<exists>b q. read_slice fw (int (sl_len fw) - 48) 16 = Inr table_footer_guid
        \<and> read_slice fw (int (sl_len fw) - 50) 2 = Inr b \<and> int (sl_len fw) - 32 - int (le_value b) < q
        \<and> table_walk fw (int (sl_len fw) - 32 - int (le_value b)) (int (sl_len fw) - 50) q \<and> stuck_at fw q))
   \<and> (calculate_mrtd H e fw = None \<longleftrightarrow> find_tdvf_metadata_offset fw = None)
   \<and> (calc_rtmr0 H fw gpu legacy = None \<longleftrightarrow> find_tdvf_metadata_offset fw = None)"
  by (intro conjI metadata_search_none_iff calculate_mrtd_none_iff calc_rtmr0_none_iff)

section \<open>The transit engine\<close>

text \<open>
  C23. What one Coordinator encrypts for a workload, any Coordinator whose current state has the same
  seed engine decrypts for the same workload, given the ciphertext and the associated data, and
  no state is changed by it.
\<close>

theorem transit_decrypts_on_any_replica:
  assumes "transit_crypto T" and "transit_serve E T rnd EncryptRoute r g = (resp, g')" and "status_code resp = 200"
    and "\<And>n b. rnd n = Inr b \<Longrightarrow> length b = n"
    and "encryption_json T (request_body r) = Inr req" and "response_body resp = EncryptedData raw"
    and "serves_engine g se" "serves_engine h se" and "kdf_lib F = kdf_lib E"
    and "decryption_json T (request_body q) = Inr (Some raw, er_associated_data req)"
    and "path_name q = path_name r" "tls_certs q = tls_certs r" "validate_content_type q = None"
  shows "transit_serve F T rnd' DecryptRoute q h = (\<lparr>status_code = 200, response_body = PlainData (er_plaintext req)\<rparr>, h)"
  by (rule transit_crypto.transit_round_trip [OF assms])

theorem transit_decrypts_on_any_replica_witness:
  "\<exists>raw g'. transit_serve attest_env plain_transit (\<lambda>n. Inr (replicate n 5)) EncryptRoute transit_request attest_guard
       = (\<lparr>status_code = 200, response_body = EncryptedData raw\<rparr>, g')
     \<and> transit_serve attest_env plain_transit (\<lambda>n. Inr []) DecryptRoute (transit_request\<lparr>request_body := raw\<rparr>) attest_guard
       = (\<lparr>status_code = 200, response_body = PlainData [1, 2, 3]\<rparr>, attest_guard)"
proof -
  obtain raw g' where e: "transit_serve attest_env plain_transit (\<lambda>n. Inr (replicate n 5)) EncryptRoute transit_request attest_guard
       = (\<lparr>status_code = 200, response_body = EncryptedData raw\<rparr>, g')" using transit_encrypts by blast
  have s: "serves_engine attest_guard demo_engine"
    by (simp add: serves_engine_def attest_guard_def attest_state_def)
  have j: "encryption_json plain_transit (request_body transit_request)
      = Inr \<lparr>er_plaintext = [1, 2, 3], er_key_version = 1, er_associated_data = []\<rparr>"
    by (simp add: plain_transit_def transit_request_def)
  have d: "decryption_json plain_transit (request_body (transit_request\<lparr>request_body := raw\<rparr>)) = Inr (Some raw, [])"
    by (simp add: plain_transit_def)
  have c: "validate_content_type (transit_request\<lparr>request_body := raw\<rparr>) = None"
    by (simp add: validate_content_type_def transit_request_def has_prefix_def)
  from transit_decrypts_on_any_replica [OF plain_transit.transit_crypto_axioms e _ _ j _ s s refl _ _ _ c, of raw "\<lambda>n. Inr []"] d e
  show ?thesis by simp
qed

section \<open>The launch measurement\<close>

text \<open>
  C24. The search for the number of virtual CPUs, which adds one page per count to a running digest,
  finds the least count from 1 to 220 whose launch digest, extended anew from the seed, is the
  report's measurement, and finds one whenever there is one.
\<close>

theorem vcpu_search_finds_least_count:
  "search_vcpus H (build_vmsa_save_area ap 1 sig) actual max_vcpus 1 (new_gctx_with_seed sd) = Some (w, d) \<longleftrightarrow>
     1 \<le> w \<and> w \<le> 220 \<and> d = actual \<and> extend_snp_launch_digest H sd (int w) ap sig = Inr actual
     \<and> (\<forall>u. 1 \<le> u \<and> u < w \<longrightarrow> extend_snp_launch_digest H sd (int u) ap sig \<noteq> Inr actual)"
  by (rule search_vcpus_first_extension)

theorem vcpu_search_finds_least_count_witness:
  "search_vcpus (\<lambda>b. replicate 48 1) (build_vmsa_save_area 0x80b004 1 0) (replicate 48 1) max_vcpus 1
     (new_gctx_with_seed (replicate 48 0)) = Some (2, replicate 48 1)"
proof -
  have one: "extend_snp_launch_digest (\<lambda>b. replicate 48 1) (replicate 48 0) (int 1) 0x80b004 0 = Inr (replicate 48 0)"
    by (subst extend_digest_power) simp_all
  have two: "extend_snp_launch_digest (\<lambda>b. replicate 48 1) (replicate 48 0) (int 2) 0x80b004 0 = Inr (replicate 48 1)"
    by (subst extend_digest_power) (simp_all add: update_vmsa_page_def gctx_update_def copy_into_def)
  have "(replicate 48 (0 :: byte) = replicate 48 1) = False" by (simp add: replicate_eq_replicate)
  then have least: "\<forall>u. 1 \<le> u \<and> u < 2 \<longrightarrow>
      extend_snp_launch_digest (\<lambda>b. replicate 48 1) (replicate 48 0) (int u) 0x80b004 0 \<noteq> Inr (replicate 48 1)"
    using one by (metis One_nat_def Suc_1 le_less_Suc_eq sum.inject(2))
  show ?thesis
    by (rule vcpu_search_finds_least_count [THEN iffD2]) (use two least in simp)
qed

text \<open>
  C25. The table at the end of a firmware image is read back as it was laid out: every entry under its
  GUID with its data, whatever precedes the table.
\<close>

theorem footer_table_is_read_back:
  assumes "\<forall>e\<in>set es. footer_ok e" and "length (concat (map footer_entry es)) + entry_header_size < 2 ^ 16"
    and "length vector = 32"
  shows "parse_footer_table (footer_image body es vector) = Inr (foldr add_entry es (\<lambda>_. None))"
  by (rule parse_footer_table_layout [OF assms])

theorem footer_table_is_read_back_witness:
  "parse_footer_table (footer_image [] [reset_entry] (replicate 32 0))
     = Inr [sev_es_reset_block_guid \<mapsto> le_bytes 4 (0x80b004 :: 32 word)]"
proof -
  have "\<forall>e\<in>set [reset_entry]. footer_ok e"
    "length (concat (map footer_entry [reset_entry])) + entry_header_size < 2 ^ 16" "length (replicate 32 (0 :: byte)) = 32"
    by (simp_all add: reset_entry_ok entry_header_size_def)
  from footer_table_is_read_back [OF this, of "[]"] show ?thesis by (simp add: add_entry_def reset_entry_def reset_guid)
qed

text \<open>
  C26. When the library knows both AMD products, a manifest that passes validation has a validator exactly
  if every allowed platform id of its TDX reference values for secure platforms is hexadecimal (those of values for
  insecure platforms are not used); validation does not look at these, and a malformed one leaves no validator.
\<close>

theorem valid_manifest_has_validator:
  assumes "opts_library_ok P L" and "manifest_validate K m = None"
  shows "(\<exists>v. manifest_validator K P L T J m = Inr v) \<longleftrightarrow>
     (\<forall>r\<in>set (tdx (refvals m)). \<not> names_insecure (tdx_platform r)
        \<longrightarrow> (\<forall>c\<in>set (allowed_piids r). \<exists>b. hex_bytes c = Inr b))"
proof
  assume v: "\<exists>v. manifest_validator K P L T J m = Inr v"
  show "\<forall>r\<in>set (tdx (refvals m)). \<not> names_insecure (tdx_platform r)
      \<longrightarrow> (\<forall>c\<in>set (allowed_piids r). \<exists>b. hex_bytes c = Inr b)"
  proof (intro ballI impI)
    fix r c assume r: "r \<in> set (tdx (refvals m))" "c \<in> set (allowed_piids r)" and s: "\<not> names_insecure (tdx_platform r)"
    show "\<exists>b. hex_bytes c = Inr b"
    proof (cases "hex_bytes c")
      case (Inl e)
      obtain e' where "manifest_validator K P L T J m = Inl e'"
        using malformed_piid_leaves_no_validator [OF r(1) s r(2) Inl] by blast
      with v show ?thesis by simp
    qed simp
  qed
qed (rule manifest_validator_total [OF assms(1,2)])

theorem valid_manifest_has_validator_witness:
  "\<exists>v. manifest_validator plain_keylib plain_opts plain_snp plain_tdx plain_json attest_manifest = Inr v"
proof -
  have t: "tdx (refvals attest_manifest) = [attest_reference]" "allowed_piids attest_reference = []"
    by (simp_all add: attest_manifest_facts attest_reference_def)
  from valid_manifest_has_validator [OF plain_opts_ok attest_manifest_valid] show ?thesis
    by (simp add: t attest_manifest_facts)
qed

section \<open>The guard\<close>

text \<open>
  C27. An update that takes the place of the current state, however it interleaved with other calls,
  extends exactly the state it displaces: its transition points to that state's transition and
  its generation is one higher. No accepted manifest is lost between two states.
\<close>

theorem swapped_state_extends_current:
  assumes "guard_steps E (new_guard (new_with_store s), []) (g, ps)"
    and "root_free (hash_fun E)" and "sigs_correct (sig_scheme E)"
    and "p \<in> set ps" and "is_update p"
    and "publish_update (from_ptr p) (prepared p) g = (i, g')" and "current g' \<noteq> current g"
  shows "extends E (deref g (current g)) (states g' ! i) \<and> current g' = Some i"
  by (rule swap_extends_current [OF guard_steps_ok [OF assms(1) guard_ok_start assms(2,3)] assms(4-7)])

theorem swapped_state_extends_current_witness:
  "\<exists>g p i g'. guard_steps demo_env (demo_guard, []) (g, [p])
     \<and> publish_update (from_ptr p) (prepared p) g = (i, g') \<and> current g' = Some i
     \<and> extends demo_env None (states g' ! i)"
proof -
  obtain g p i g' where r: "guard_steps demo_env (demo_guard, []) (g, [p])" "is_update p" "current g = None"
    "publish_update (from_ptr p) (prepared p) g = (i, g')" "current g' = Some i" by (rule demo_pending)
  from swapped_state_extends_current [OF r(1) [unfolded demo_guard_def] _ _ _ r(2,4)] r(3,5)
  have "extends demo_env None (states g' ! i)" by (simp add: demo_root_free demo_sigs_correct deref_def)
  with r show ?thesis by blast
qed

text \<open>
  C28. A published state never changes but for one thing: it can go stale, and then it stays stale.
  States are not forgotten, so a handler that holds one keeps what it was given.
\<close>

theorem states_only_go_stale:
  assumes "guard_steps E (g, ps) (g', ps')" and "i < length (states g)"
  shows "i < length (states g') \<and> (states g' ! i = states g ! i \<or> states g' ! i = (states g ! i)\<lparr>stale := True\<rparr>)
     \<and> (stale (states g ! i) \<longrightarrow> stale (states g' ! i))"
  using guard_steps_grow [OF assms(1)] assms(2) by (auto simp: states_grow_def)

theorem states_only_go_stale_witness:
  "\<exists>g' ps'. guard_steps demo_env (demo_current, []) (g', ps') \<and> 0 < length (states g')"
proof -
  have r: "guard_steps demo_env (demo_current, []) (snd (get_state demo_env demo_current), [])"
    by (rule r_into_rtranclp, rule guard_step.call_get_state [OF prod.collapse [symmetric]])
  have "0 < length (states demo_current)" by (simp add: demo_current_facts)
  from states_only_go_stale [OF r this] r show ?thesis by blast
qed

text \<open>
  C29. A handled notification has walked the chain of the current state. When the walk succeeds, the chain
  walked is the state's own history, whatever the store answers, and the notification marks the state stale
  exactly when the notified transition is not in it. When the walk fails, because an object of the chain
  cannot be read, the notification is dropped: no state is marked, not even if the transition is foreign.
\<close>

theorem notification_marks_foreign:
  assumes "watch_notify E t g = Some g'" and "cache_ok (hash_fun E) (hist_of g)"
    and "current g = Some i" and "i < length (states g)"
  shows "\<exists>r b h. walk_transitions (hash_fun E) (hist_store E) (seen_hash (transition_hash t))
      (chain_hash (states g ! i)) False (hist_of g) = Some (r, b, h)
    \<and> (case r of
         Inl e \<Rightarrow> states g' = states g
       | Inr _ \<Rightarrow> (\<exists>ts. linked (hash_fun E) (chain_hash (states g ! i)) ts
           \<and> (stale (states g' ! i) \<longleftrightarrow> stale (states g ! i)
                \<or> transition_hash t \<notin> transition_digest (hash_fun E) ` set ts)))"
  by (rule watch_notify_walks [OF assms])

theorem notification_marks_foreign_witness:
  "\<exists>g'. watch_notify demo_env \<lparr>transition_hash = replicate 32 9, signature = [1]\<rparr> demo_current = Some g'
     \<and> (\<exists>ts. linked demo_hash (chain_hash (states demo_current ! 0)) ts
        \<and> (replicate 32 9 \<notin> transition_digest demo_hash ` set ts \<longrightarrow> stale (states g' ! 0)))"
proof -
  let ?t = "\<lparr>transition_hash = replicate 32 9, signature = [1]\<rparr>"
  obtain u h where w: "walk_transitions demo_hash (afero_store mem_fs) (seen_hash (replicate 32 9))
      (chain_hash (states demo_current ! 0)) False (hist_of demo_current) = Some (Inr u, False, h)"
    using demo_walk_foreign by blast
  then have "\<exists>g'. watch_notify demo_env ?t demo_current = Some g'"
    by (simp add: watch_notify_def demo_current_facts(2))
  then obtain g' where n: "watch_notify demo_env ?t demo_current = Some g'" by blast
  from notification_marks_foreign [OF n _ demo_current_facts(2)] w n
    demo_current_cache demo_current_facts(3) show ?thesis by auto
qed

text \<open>
  C30. GetHistory of a reachable guard returns the manifests that the current transition commits to:
  building the transition chain over them again ends in the current transition's hash, and each
  policy it returns hashes to the reference under which it is returned.
\<close>

theorem history_is_authentic:
  assumes "guard_steps E (new_guard (new_with_store s), []) (g, ps)"
    and "root_free (hash_fun E)" and "sigs_correct (sig_scheme E)"
    and "get_history E g = Some (Inr (ms, pols), g')"
  shows "\<exists>i. current g = Some i \<and> \<not> stale (states g ! i)
      \<and> chain_tip (hash_fun E) ms = chain_hash (states g ! i) \<and> policies_ok (hash_fun E) pols"
proof -
  have "cache_ok (hash_fun E) (hist_of g)"
    using guard_steps_ok [OF assms(1) guard_ok_start assms(2,3)] by (simp add: guard_ok_def)
  from get_history_facts [OF assms(4) this] obtain i ts where i: "current g = Some i" "\<not> stale (states g ! i)"
    "linked (hash_fun E) (chain_hash (states g ! i)) ts"
    "map (digest (hash_fun E)) ms = rev (map manifest_hash ts)" "policies_ok (hash_fun E) pols" by blast
  from linked_rebuild [OF i(3,4)] i show ?thesis by simp
qed

theorem history_is_authentic_witness:
  "\<exists>g ms pols g'. get_history demo_env g = Some (Inr (ms, pols), g')
     \<and> (\<exists>i. current g = Some i \<and> chain_tip demo_hash ms = chain_hash (states g ! i))"
proof -
  obtain ms pols g' where r: "get_history demo_env demo_current = Some (Inr (ms, pols), g')"
    using demo_history by blast
  from history_is_authentic [OF demo_current_facts(1) [unfolded demo_guard_def] _ _ r] r show ?thesis
    by (auto simp: demo_root_free demo_sigs_correct)
qed

section \<open>Recovery\<close>

text \<open>
  C31. Liveness of recovery: when UpdateState has prepared a state on top of a persisted history and the
  Coordinator then loses everything but its store, a seed share owner's Recover with the seed of
  the state's engine succeeds and brings back that state: manifest, transition, signature,
  generation and engine; only the certificates of the authority are new. The store is any
  provider of \<open>reliable_store\<close>; no two of the hashed byte strings may collide.
\<close>

theorem update_survives_restart:
  fixes srv :: "('s, 'sk, 'pk, 'e, 'i, 'u, 'rsa, 'rsask) server"
  assumes "reliable_store (hist_store (server_env srv)) view key_ok"
    and "sigs_correct (sig_scheme (server_env srv))" and "root_free (hash_fun (server_env srv))"
    and "cache_ok (hash_fun (server_env srv)) h"
    and "persisted view (hash_fun (server_env srv)) (h_store h) (prev_hash old) ts"
    and "prev_generation old = int (length ts)"
    and "prepare_update (server_env srv) r old se mb pols h = (Inr st, h')" and "signature (latest_of st) \<noteq> []"
    and "\<not> collision_in (hash_fun (server_env srv)) (insert mb (marshalled
       (\<lparr>manifest_hash = digest (hash_fun (server_env srv)) mb, previous_transition_hash = prev_hash old\<rparr> # ts)))"
    and "validate_peer (server_keys srv) q (seedshare_owner_pub_keys (manifest_of st)) = None"
    and "check_manifest_security (allow_insecure srv) (manifest_of st) = None"
    and "new_seed_engine (kdf_lib (server_env srv)) (rec_seed req) (rec_salt req) = Inr se"
    and "generate_mesh_ca_key (kdf_lib (server_env srv)) (mesh_key_rnd r') = Inr k"
    and "new_ca (cert_lib (server_env srv)) (cert_rnds r') (now_sec r') (root_ca_key se) k = Inr authority"
    and "rec_force req \<or> peers = Inr []"
  shows "\<exists>g. recover srv r' q peers req (new_guard (new_with_store (h_store h'))) = Some (Inr (), g)
     \<and> current g = Some 0 \<and> states g = [st\<lparr>ca_of := authority\<rparr>]"
  by (rule update_then_recover [OF assms])

theorem update_survives_restart_witness:
  "\<exists>st h g c. demo_prepared = (Inr st, h) \<and> states g = [st\<lparr>ca_of := c\<rparr>]
     \<and> recover demo_server demo_rnd demo_holder (Inr []) demo_recover (new_guard (new_with_store (h_store h)))
         = Some (Inr (), g)"
proof -
  obtain st h where p: "demo_prepared = (Inr st, h)" "signature (latest_of st) \<noteq> []"
    using demo_prepared_signed by blast
  obtain c where c: "new_ca demo_certlib (cert_rnds demo_rnd) 0 (root_ca_key demo_engine) [2, 3] = Inr c"
    using demo_ca_ok by blast
  have m: "manifest_of st = demo_manifest" by (rule demo_prepared_manifest [OF p(1)])
  have store: "reliable_store (hist_store (server_env demo_server)) (\<lambda>s. s) key_re"
    using memfs.astore.reliable_store_axioms by (simp add: demo_server_def)
  have peer: "validate_peer plain_keylib demo_holder (seedshare_owner_pub_keys demo_manifest) = None" by code_simp
  have sec: "check_manifest_security True demo_manifest = None" by code_simp
  have "\<exists>g. recover demo_server demo_rnd demo_holder (Inr []) demo_recover (new_guard (new_with_store (h_store h)))
         = Some (Inr (), g) \<and> current g = Some 0 \<and> states g = [st\<lparr>ca_of := c\<rparr>]"
    by (rule update_survives_restart [OF store, where h = "hist_of demo_guard" and old = None and ts = "[]"
        and r = demo_rnd and se = demo_engine and mb = demo_json and pols = "[demo_policy]" and k = "[2, 3]"])
      (use p c m peer sec demo_engine_made demo_no_collision in \<open>simp_all add: demo_server_def demo_sigs_correct
        demo_root_free demo_guard_def new_guard_def persisted_def prev_hash_def prev_generation_def
        demo_prepared_def demo_recover_def generate_mesh_ca_key_def plain_kdf_def demo_rnd_def\<close>)
  with p(1) show ?thesis by blast
qed

text \<open>
  C32. A Recover that succeeds installs a state of the persisted history that was authorized by its own
  manifest: the caller is connected with a seed share owner's key of that manifest, the platforms
  fit the mode, and the engine is made from the seed and the salt of the request.
\<close>

theorem recovered_state_is_authorized:
  assumes "recover srv r p peers req g = Some (Inr u, g')"
    and "cache_ok (hash_fun (server_env srv)) (hist_of g)" and "root_free (hash_fun (server_env srv))"
  shows "\<exists>i. current g' = Some i \<and> i < length (states g') \<and> state_ok (server_env srv) (states g' ! i)
    \<and> owner_connected (server_keys srv) p (seedshare_owner_pub_keys (manifest_of (states g' ! i)))
    \<and> check_manifest_security (allow_insecure srv) (manifest_of (states g' ! i)) = None
    \<and> new_seed_engine (kdf_lib (server_env srv)) (rec_seed req) (rec_salt req)
        = Inr (seed_engine_of (states g' ! i))"
  by (rule recover_sound [OF assms])

theorem recovered_state_is_authorized_witness:
  "\<exists>g'. demo_restarted = Some (Inr (), g') \<and> (\<exists>i. current g' = Some i \<and> state_ok demo_env (states g' ! i))"
proof -
  obtain u g' where r: "demo_restarted = Some (Inr u, g')"
    using demo_restarts by (auto split: option.splits prod.splits sum.splits)
  from recovered_state_is_authorized [OF r [unfolded demo_restarted_def]] r show ?thesis
    by (auto simp: demo_server_def demo_root_free new_guard_def)
qed

section \<open>Attestation\<close>

text \<open>
  C33. Agreement: when the client accepts a document that a Coordinator issued, the client holds the
  nonce the Coordinator answered, the Coordinator's whole manifest history and its CA
  certificates, whatever happened to the response on the way. The issuer puts the given report
  data into the document and the validator accepts a document for no other; no other call
  swapped the state between the endpoint's two reads, and no two hashed byte strings collide.
\<close>

theorem client_learns_history:
  assumes "get_response h order others n g = Some ((code, Inr sent), g')"
    and "current (others g) = current g"
    and "\<And>i. current g = Some i \<Longrightarrow> chain_hash (states (others g) ! i) = chain_hash (states g ! i)"
    and "cache_ok (hash_fun (ah_env h)) (hist_of (others g))"
    and "validate_attestation (hash_fun (ah_env h)) K json val n' (Inr recv) = Inr st"
    and "raw_attestation_doc recv = raw_attestation_doc sent"
    and "\<And>m v oi rd rd' d. val m = Inr v \<Longrightarrow> accepts v oi d rd \<Longrightarrow> ah_issue h rd' = Inr d \<Longrightarrow> rd = rd'"
    and "length n = 32" and "root_free (hash_fun (ah_env h))"
    and "\<not> collision_in (hash_fun (ah_env h)) (set (hashed_bytes (hash_fun (ah_env h)) n (coordinator_state sent)
        @ hashed_bytes (hash_fun (ah_env h)) n' (coordinator_state recv)))"
  shows "n' = n \<and> sdk_manifests st = cs_manifests (coordinator_state sent)
     \<and> sdk_root_ca st = cs_root_ca (coordinator_state sent) \<and> sdk_mesh_ca st = cs_mesh_ca (coordinator_state sent)"
  by (rule client_agrees [where val = val, OF assms])

theorem client_learns_history_witness:
  "\<exists>c resp g' st. demo_response = Some ((c, Inr resp), g') \<and> demo_verify resp = Inr st
     \<and> sdk_manifests st = cs_manifests (coordinator_state resp)"
proof -
  obtain c resp g' where r: "demo_response = Some ((c, Inr resp), g')" and v: "succeeds (demo_verify resp)"
    and d: "distinct (map (digest demo_hash) (remdups (hashed_bytes demo_hash demo_nonce (coordinator_state resp))))"
    using demo_attests by (auto simp: Let_def split: option.splits prod.splits sum.splits)
  obtain st where st: "demo_verify resp = Inr st" using v by (rule succeedsE)
  let ?bs = "hashed_bytes demo_hash demo_nonce (coordinator_state resp)"
  have nc: "\<not> collision_in demo_hash (set (?bs @ ?bs))"
    using d by (auto simp: collision_in_def distinct_map inj_on_def)
  have e: "ah_env demo_handler = demo_env" "\<And>rd. ah_issue demo_handler rd = Inr rd" by (simp_all add: demo_handler_def)
  have b: "\<And>m v oi rd rd' d. Inr demo_validator = Inr v \<Longrightarrow> accepts v oi d rd \<Longrightarrow>
      ah_issue demo_handler rd' = Inr d \<Longrightarrow> rd = rd'"
    by (auto simp: e demo_validator_def accepts_def validator_func_def split: if_splits)
  have c': "cache_ok (hash_fun (ah_env demo_handler)) (hist_of (snd demo_set_first))"
    using demo_set_first_cache by (simp add: e)
  have "sdk_manifests st = cs_manifests (coordinator_state resp)"
    using client_learns_history [where val = "\<lambda>m. Inr demo_validator", OF r [unfolded demo_response_def] refl refl c' _ refl b,
        of plain_keylib "parse_manifest demo_env" demo_nonce st] st nc
    by (simp add: e demo_verify_def demo_root_free demo_nonce_def)
  with r st show ?thesis by blast
qed

text \<open>
  C34. Report data binds what went into it: equal report data for nonces and transition hashes of 32
  bytes means the same nonce, the same transition and the same CA certificates.
\<close>

theorem report_data_is_binding:
  assumes "construct_report_data H n t cs = construct_report_data H n' t' cs'"
    and "length n = 32" and "length n' = 32" and "length t = 32" and "length t' = 32"
    and "\<not> collision_in H {report_input H n t cs, report_input H n' t' cs',
        cs_root_ca cs, cs_root_ca cs', cs_mesh_ca cs, cs_mesh_ca cs'}"
  shows "n = n' \<and> t = t' \<and> cs_root_ca cs = cs_root_ca cs' \<and> cs_mesh_ca cs = cs_mesh_ca cs'"
  by (rule report_data_binds [OF assms])

theorem report_data_is_binding_witness:
  "construct_report_data demo_hash (replicate 32 4) (replicate 32 6)
      \<lparr>cs_manifests = [], cs_policies = [], cs_root_ca = [1], cs_mesh_ca = [2]\<rparr>
   = construct_report_data demo_hash (replicate 32 4) (replicate 32 6)
      \<lparr>cs_manifests = [[9]], cs_policies = [], cs_root_ca = [1], cs_mesh_ca = [2]\<rparr>
   \<and> replicate 32 4 = (replicate 32 4 :: bytes)"
proof -
  have nc: "\<not> collision_in demo_hash {report_input demo_hash (replicate 32 4) (replicate 32 6)
      \<lparr>cs_manifests = [], cs_policies = [], cs_root_ca = [1], cs_mesh_ca = [2]\<rparr>,
      report_input demo_hash (replicate 32 4) (replicate 32 6)
      \<lparr>cs_manifests = [[9]], cs_policies = [], cs_root_ca = [1], cs_mesh_ca = [2]\<rparr>, [1], [1], [2], [2]}"
    by code_simp
  have eq: "construct_report_data demo_hash (replicate 32 4) (replicate 32 6)
      \<lparr>cs_manifests = [], cs_policies = [], cs_root_ca = [1], cs_mesh_ca = [2]\<rparr>
   = construct_report_data demo_hash (replicate 32 4) (replicate 32 6)
      \<lparr>cs_manifests = [[9]], cs_policies = [], cs_root_ca = [1], cs_mesh_ca = [2]\<rparr>"
    by (simp add: construct_report_data_def)
  from report_data_is_binding [OF eq] nc eq show ?thesis by simp
qed

text \<open>
  C35. The hash of the newest transition commits to the list of all manifests: histories that build
  chains with the same end are equal.
\<close>

theorem newest_transition_commits_to_history:
  assumes "chain_tip H ms = chain_tip H ns" and "root_free H"
    and "\<not> collision_in H (set ms \<union> set ns
      \<union> marshalled (build_transition_chain H ms) \<union> marshalled (build_transition_chain H ns))"
  shows "ms = ns"
  by (rule chain_tip_binds [OF assms(1) root_free_rooted [OF assms(2)] root_free_rooted [OF assms(2)] assms(3)])

theorem newest_transition_commits_to_history_witness:
  "chain_tip demo_hash [[1, 2]] = chain_tip demo_hash [[1, 2]] \<and> [[1, 2 :: byte]] = [[1, 2]]"
proof -
  have "\<not> collision_in demo_hash (set [[1, 2]] \<union> set [[1, 2]]
      \<union> marshalled (build_transition_chain demo_hash [[1, 2]])
      \<union> marshalled (build_transition_chain demo_hash [[1, 2]]))" by code_simp
  from newest_transition_commits_to_history [OF refl demo_root_free this] show ?thesis by simp
qed

section \<open>The persisted history\<close>

text \<open>
  C36. Against any store: what a content-addressed read returns hashes to the key it was asked for, and
  the cache stays correct whether the read succeeds or not.
\<close>

theorem stored_objects_are_authentic:
  assumes "cache_ok H h" and "get_contentaddressed H S obj_kind k h = (r, h')"
  shows "cache_ok H h' \<and> (\<forall>d. r = Inr d \<longrightarrow> digest H d = k)"
  using get_contentaddressed_cache_ok [OF assms] get_contentaddressed_digest [OF assms(1)] assms(2) by blast

theorem stored_objects_are_authentic_witness:
  "\<exists>r h'. get_contentaddressed demo_hash (afero_store mem_fs) ''policies'' (replicate 32 3) (hist_of demo_current) = (r, h')
     \<and> cache_ok demo_hash h'"
proof -
  obtain r h' where g: "get_contentaddressed demo_hash (afero_store mem_fs) ''policies'' (replicate 32 3)
      (hist_of demo_current) = (r, h')" by fastforce
  from stored_objects_are_authentic [OF demo_current_cache g] g show ?thesis by blast
qed

text \<open>
  C37. On Kubernetes config maps SetLatest is a compare-and-swap of the latest transition, although it is two requests
  to the API server, a read and a conditional write, one after the other. Any number of Coordinators call it, their requests interleave, with
  each other and with anything else that happens at the API server and leaves the content of the latest transition alone.
  Then a second request either swaps: the latest transition is what the call expected at the moment of the write, and nothing
  but that key changes; or the call fails and changes nothing. A successful call has swapped. And the swaps
  form a chain from the first value to the current one: no call overwrites a transition it has not read.
  (\<open>kube_revisions\<close> are the API's laws: an update with a resource version needs the current one, versions are not
  used twice, and a failed write took effect or did nothing.)
\<close>

theorem set_latest_is_compare_and_swap:
  assumes "kube_revisions K cms used"
    and "cluster_steps C K cf cms used (fresh_cluster s0) a"
  shows "(\<forall>c old l w r s. calls a c = Some (old, l, w) \<longrightarrow> set_latest_write K (api a) l w = (r, s) \<longrightarrow>
       ((expected (cm_view cms cf (api a) latest_key) (marshal_latest old)
           \<and> cm_view cms cf s = (cm_view cms cf (api a))(latest_key \<mapsto> marshal_latest (Some l)))
        \<or> (\<exists>e. r = Inl e) \<and> cm_view cms cf s = cm_view cms cf (api a))
       \<and> (\<forall>l'. r = Inr l' \<longrightarrow> l' = l))
    \<and> swap_chain (cm_view cms cf s0 latest_key) (swaps a)
    \<and> cm_view cms cf (api a) latest_key = value_after (cm_view cms cf s0 latest_key) (swaps a)
    \<and> (\<forall>old new key rnd h. set_latest C (configmap_store K cf) old new key rnd h =
         (case set_latest_read C K cf old new key rnd (h_store h) of
            (Inl e, s) \<Rightarrow> (Inl e, h\<lparr>h_store := s\<rparr>)
          | (Inr (l, w), s) \<Rightarrow> (case set_latest_write K s l w of (r, s') \<Rightarrow> (r, h\<lparr>h_store := s'\<rparr>))))"
proof -
  have "\<forall>old new key rnd h. set_latest C (configmap_store K cf) old new key rnd h =
         (case set_latest_read C K cf old new key rnd (h_store h) of
            (Inl e, s) \<Rightarrow> (Inl e, h\<lparr>h_store := s\<rparr>)
          | (Inr (l, w), s) \<Rightarrow> (case set_latest_write K s l w of (r, s') \<Rightarrow> (r, h\<lparr>h_store := s'\<rparr>)))"
    by (intro allI) (rule set_latest_calls)
  moreover note kube_revisions.cluster_steps_chain [OF assms]
  moreover note kube_revisions.cluster_writes_swap [OF assms, unfolded swapped_def]
  ultimately show ?thesis by (intro conjI allI impI) (elim conjE, assumption | blast)+
qed

theorem set_latest_is_compare_and_swap_witness:
  "\<exists>a l1 l2 w2 e s. cluster_steps demo_sigs mem_kube demo_cmconf mk_found mk_used (fresh_cluster demo_shared) a
     \<and> calls a 2 = Some (Some (demo_latest 1), l2, w2) \<and> set_latest_write mem_kube (api a) l2 w2 = (Inl e, s)
     \<and> cm_view mk_found demo_cmconf (api a) latest_key = Some (marshal_latest (Some l1))
     \<and> cm_view mk_found demo_cmconf s latest_key = Some (marshal_latest (Some l1))"
proof -
  obtain a l1 l2 w2 e s where r: "cluster_steps demo_sigs mem_kube demo_cmconf mk_found mk_used (fresh_cluster demo_shared) a"
    "swaps a = [(Some (demo_latest 1), l1)]" "calls a 2 = Some (Some (demo_latest 1), l2, w2)"
    "set_latest_write mem_kube (api a) l2 w2 = (Inl e, s)" "s = api a" using demo_race_runs by blast
  have "cm_view mk_found demo_cmconf (api a) latest_key = Some (marshal_latest (Some l1))"
    using set_latest_is_compare_and_swap [OF memrev.kube_revisions_axioms r(1)] by (simp add: r(2) del: marshal_latest.simps)
  with r(1,3,4,5) show ?thesis by metis
qed

text \<open>
  C38. Termination: over a chain that a reliable store holds, the walk of a fresh history returns, after exactly as many
  steps as the chain has transitions, whatever the length.
\<close>

theorem walk_over_persisted_chain_returns:
  assumes "reliable_store S view key_ok" and "persisted view H s th ts"
  shows "\<exists>h. walk_transitions H S count_transition th 0 (new_with_store s) = Some (Inr (), int (length ts), h)"
proof -
  have "linked H th ts" "chain_available H view ts (new_with_store s)"
    using assms(2) by (simp_all add: persisted_def chain_available_fresh)
  from reliable_store.count_available [OF assms(1) this subset_refl, of 0] show ?thesis by simp
qed

theorem walk_over_persisted_chain_returns_witness:
  "\<exists>h. walk_transitions (\<lambda>x. x) (afero_store mem_fs) count_transition demo_chain_tip 0 (new_with_store demo_chain_store)
     = Some (Inr (), 3, h)"
  using walk_over_persisted_chain_returns [OF memfs.astore.reliable_store_axioms demo_chain_persisted]
  by (simp add: demo_chain_length)

section \<open>Manifests and reference values\<close>

text \<open>
  C39. \<open>Manifest.Validate\<close> accepts exactly the manifests with a Coordinator policy, policy
  hashes of 32 bytes, known roles, at least one reference value, complete values for every secure
  platform, no mix of secure and insecure platforms, and owner keys that parse.
\<close>

theorem manifest_validate_accepts:
  "manifest_validate K m = None \<longleftrightarrow> manifest_ok K m"
  by (rule manifest_validate_None)

text \<open>
  C40. The error of a reference value counts as ``only expected values are missing'' by its first part
  alone: an SNP value whose TCB is incomplete, whatever else is wrong with it, and a TDX value with
  a well-formed MrTd and a MrSeam that is not, be it missing or malformed. This is not what the comment of
  \<open>OnlyExpectedMissingReferenceValues\<close> says, that all nested validation errors stem from missing
  values: there is a value that counts as only missing although one of its errors is of another kind.
\<close>

theorem expected_missing_is_decided_by_first_error:
  "(only_missing (snp_validate r) \<longleftrightarrow> \<not> names_insecure (snp_platform r) \<and> \<not> tcb_complete (minimum_tcb r))
   \<and> (only_missing (tdx_validate q) \<longleftrightarrow>
        \<not> names_insecure (tdx_platform q) \<and> hex_of_size 48 (mr_td q) \<and> \<not> hex_of_size 48 (mr_seam q))
   \<and> (\<exists>r es x. only_missing (snp_validate r) \<and> snp_validate r = Some (Joined es)
        \<and> x \<in> set es \<and> as_expected_missing x = None)"
  using snp_only_missing [of r] tdx_only_missing [of q] snp_missing_hides by blast

section \<open>Keys and certificates\<close>

section \<open>Further results\<close>

text \<open>
  The Recover call of the mesh API gives seed, salt and mesh CA key only to a peer whose attested
  policy hash is an entry with the Coordinator role in the manifest of the handshake's state.
\<close>

theorem mesh_recover_only_for_coordinators:
  assumes "mesh_recover K peer = Inr resp"
  shows "\<exists>ai host e. peer = MeshPeer ai host
    \<and> (new_hex_string (host_data (auth_report ai)), e) \<in> set (policies (manifest_of (auth_state ai)))
    \<and> role e = role_coordinator \<and> mr_seed resp = seed (seed_engine_of (auth_state ai))
    \<and> mr_latest_manifest resp = manifest_bytes (auth_state ai)"
  by (rule mesh_recover_ok [OF assms]) blast

theorem mesh_recover_only_for_coordinators_witness:
  "\<exists>resp. mesh_recover plain_keylib demo_mesh_peer = Inr resp \<and> mr_seed resp = seed demo_engine"
proof -
  obtain resp where r: "mesh_recover plain_keylib demo_mesh_peer = Inr resp"
    using demo_mesh_recovers by blast
  from mesh_recover_only_for_coordinators [OF r] r show ?thesis
    by (auto simp: demo_mesh_peer_def demo_auth_def)
qed

text \<open>
  A combination of validators accepts exactly when one of them does, in whatever order they stand
  and whatever the others report.
\<close>

theorem any_validator_accepts:
  "accepts (any_of vs) oi doc rd \<longleftrightarrow> (\<exists>v\<in>set vs. accepts v oi doc rd)"
  by (rule any_of_accepts)

text \<open>
  A Coordinator started for insecure platforms takes all-insecure manifests only, any other
  Coordinator takes manifests without an insecure platform only.
\<close>

theorem security_mode_is_enforced:
  "check_manifest_security allow m = None \<longleftrightarrow>
     (if allow then has_insecure_platforms m \<and> \<not> has_secure_platforms m else \<not> has_insecure_platforms m)"
  by (rule check_manifest_security_None)

text \<open>
  \<open>PurgeEmpty\<close> keeps exactly the reference values that do not lack the fields a user is
  expected to fill in, and a second purge changes nothing.
\<close>

theorem purge_empty_keeps_filled_values:
  "(v \<in> set (snp (purge_empty r)) \<longleftrightarrow>
      v \<in> set (snp r) \<and> (names_insecure (snp_platform v) \<or> tcb_complete (minimum_tcb v)))
   \<and> (w \<in> set (tdx (purge_empty r)) \<longleftrightarrow>
      w \<in> set (tdx r) \<and> \<not> (\<not> names_insecure (tdx_platform w) \<and> hex_of_size 48 (mr_td w)
        \<and> \<not> hex_of_size 48 (mr_seam w)))
   \<and> purge_empty (purge_empty r) = purge_empty r"
  by (auto simp: purge_empty_snp purge_empty_tdx purge_empty_idem)

text \<open>
  A runtime handler name that is composed for a platform, with any hash without a dash, is parsed
  back to that platform.
\<close>

theorem handler_name_parses_back:
  assumes "p \<noteq> Unknown" and "CHR ''-'' \<notin> set hash"
  shows "platform_from_handler (handler_name p hash) = Inr p"
  by (rule platform_from_handler_name [OF assms])

theorem handler_name_parses_back_witness:
  "platform_from_handler (handler_name MetalQEMUTDXGPU ''1a2b3c4d'') = Inr MetalQEMUTDXGPU"
proof -
  have "CHR ''-'' \<notin> set ''1a2b3c4d''" by simp
  from handler_name_parses_back [OF _ this, of MetalQEMUTDXGPU] show ?thesis by simp
qed

text \<open>The readiness probe reports ready exactly when there is a current state that is not stale.\<close>

theorem readiness_means_fresh_state:
  "fst (readiness_status E g) = 200 \<longleftrightarrow> (\<exists>i. current g = Some i \<and> \<not> stale (states g ! i))"
  by (rule readiness_200)

text \<open>
  Secrets derived from a seed engine are as long as the seed, at least 32 bytes, when the HKDF
  reader fills what it is asked for.
\<close>

theorem derived_secrets_are_seed_sized:
  assumes "hkdf_stream K" and "new_seed_engine K secret slt = Inr se" and "derive_workload_secret K se wid = Inr b"
    and "derive_transit_engine_key K se v name = Inr c"
  shows "length b = length secret \<and> length c = length secret \<and> 32 \<le> length secret"
  using hkdf_stream.workload_secret_size [OF assms(1-3)] hkdf_stream.transit_key_size [OF assms(1,2,4)]
    new_seed_engine_inputs [OF assms(2)] by simp

theorem derived_secrets_are_seed_sized_witness:
  "\<exists>b c. derive_workload_secret plain_kdf demo_engine ''apps/demo'' = Inr b
     \<and> derive_transit_engine_key plain_kdf demo_engine 1 ''vault'' = Inr c \<and> length b = 32 \<and> length c = 32"
proof -
  obtain b c where d: "derive_workload_secret plain_kdf demo_engine ''apps/demo'' = Inr b"
    "derive_transit_engine_key plain_kdf demo_engine 1 ''vault'' = Inr c"
    by (simp add: derive_workload_secret_def derive_transit_engine_key_def hkdf_derive_def plain_kdf_def)
  from derived_secrets_are_seed_sized [OF plain_hkdf.hkdf_stream_axioms demo_engine_made d] d show ?thesis by simp
qed

text \<open>
  A manifest without workload owner keys is final: as long as it is in force no request, however
  signed and from whatever peer, replaces it.
\<close>

theorem manifest_without_owners_is_final:
  assumes "current g = Some i" and "workload_owner_pub_keys (manifest_of (states g ! i)) = []"
  shows "\<exists>e. fst (set_manifest srv r p req g) = Inl e \<and> current (snd (set_manifest srv r p req g)) = Some i"
proof (cases "fst (set_manifest srv r p req g)")
  case (Inl e)
  then have s: "set_manifest srv r p req g = (Inl e, snd (set_manifest srv r p req g))"
    by (metis prod.collapse)
  show ?thesis using Inl set_manifest_error_keeps(2) [OF s] assms(1) by simp
next
  case (Inr resp)
  then have s: "set_manifest srv r p req g = (Inr resp, snd (set_manifest srv r p req g))"
    by (metis prod.collapse)
  from set_manifest_replaces [OF s assms(1)] assms(2) show ?thesis
    by (auto simp: may_replace_def owner_signed_def owner_connected_def)
qed

theorem manifest_without_owners_is_final_witness:
  "\<exists>e. fst (set_manifest demo_server demo_user_rnd demo_owner demo_request (demo_guard\<lparr>current := Some 0,
      states := [\<lparr>seed_engine_of = demo_engine, manifest_of = demo_manifest\<lparr>workload_owner_pub_keys := []\<rparr>,
        manifest_bytes = [], ca_of = undefined, latest_of = \<lparr>transition_hash = [], signature = []\<rparr>,
        generation = 1, stale = False\<rparr>]\<rparr>)) = Inl e"
proof -
  let ?g = "demo_guard\<lparr>current := Some 0,
      states := [\<lparr>seed_engine_of = demo_engine, manifest_of = demo_manifest\<lparr>workload_owner_pub_keys := []\<rparr>,
        manifest_bytes = [], ca_of = undefined, latest_of = \<lparr>transition_hash = [], signature = []\<rparr>,
        generation = 1, stale = False\<rparr>]\<rparr>"
  have "current ?g = Some 0" "workload_owner_pub_keys (manifest_of (states ?g ! 0)) = []" by simp_all
  from manifest_without_owners_is_final [OF this] show ?thesis by blast
qed

text \<open>
  Issuing a leaf certificate panics exactly when no name is a DNS name: a policy whose SANs are IP
  addresses and URIs only, with a peer address that is an IP address, cannot get a certificate.
\<close>

theorem leaf_certificate_panics_without_dns_name:
  "new_attested_mesh_cert X rnd now c names exts pub = Inl (Panic msg) \<longleftrightarrow>
     msg = ''index out of range [0] with length 0'' \<and> filter (is_dns X) names = []"
  by (simp add: mesh_cert_panics filter_empty_conv)

text \<open>
  Without anything in between its two requests, SetLatest on config maps is one compare-and-swap step of the store contract.
\<close>

theorem set_latest_refines_swap:
  assumes "kube_api K cms"
    and "set_latest C (configmap_store K cf) old l key rnd h = (Inr l', h')"
  shows "expected (cm_view cms cf (h_store h) latest_key) (marshal_latest old)
    \<and> cm_view cms cf (h_store h') = (cm_view cms cf (h_store h))(latest_key \<mapsto> marshal_latest (Some l'))"
  using kv_store.set_latest_cas [OF kube_api.is_kv_store [OF assms(1)] assms(2)] by simp

theorem set_latest_refines_swap_witness:
  "\<exists>l' h'. set_latest demo_sigs (configmap_store mem_kube demo_cmconf) None
      \<lparr>transition_hash = replicate 32 1, signature = []\<rparr> [6] [] (new_with_store demo_kube) = (Inr l', h')
     \<and> cm_view mk_found demo_cmconf (h_store h') latest_key = Some (marshal_latest (Some l'))"
proof -
  let ?run = "set_latest demo_sigs (configmap_store mem_kube demo_cmconf) None
      \<lparr>transition_hash = replicate 32 1, signature = []\<rparr> [6] [] (new_with_store demo_kube)"
  have "case ?run of (Inl _, _) \<Rightarrow> False | (Inr _, _) \<Rightarrow> True" by code_simp
  then obtain l' h' where r: "?run = (Inr l', h')" by (auto split: prod.splits sum.splits)
  from set_latest_refines_swap [OF memkube.kube_api_axioms r] r show ?thesis by auto
qed

text \<open>
  The config map store's compare-and-swap is atomic although it is two API calls: whatever happens
  between its read and its write, a write that succeeds found the expected value in place at that
  moment, as long as no resource version is used twice for different objects.
\<close>

theorem config_map_swap_is_atomic:
  assumes "kube_api K cms" and "store_key k" and "cm_cas_read K cf s k old new = (Inr w, s1)"
    and "\<And>c1 c2. cms s1 (cf_namespace cf) (name_of k) = Some c1 \<Longrightarrow>
      cms s2 (cf_namespace cf) (name_of k) = Some c2 \<Longrightarrow> cm_version c1 = cm_version c2 \<Longrightarrow> c1 = c2"
    and "cm_cas_write K s2 w = (Inr u, s3)"
  shows "expected (cm_view cms cf s2 k) old \<and> cm_view cms cf s3 = (cm_view cms cf s2)(k \<mapsto> new)"
  by (rule kube_api.cm_cas_atomic [OF assms(1), OF assms(2-5)])

theorem config_map_swap_is_atomic_witness:
  "\<exists>w s3. cm_cas_read mem_kube demo_cmconf demo_kube latest_key [] [7] = (Inr w, demo_kube)
     \<and> cm_cas_write mem_kube demo_kube w = (Inr (), s3) \<and> cm_view mk_found demo_cmconf s3 latest_key = Some [7]"
proof -
  obtain w s3 where w: "cm_cas_read mem_kube demo_cmconf demo_kube latest_key [] [7] = (Inr w, demo_kube)"
    "cm_cas_write mem_kube demo_kube w = (Inr (), s3)" using demo_kube_swap by blast
  from config_map_swap_is_atomic [OF memkube.kube_api_axioms latest_store_key w(1) _ w(2)] w show ?thesis
    by (auto simp: demo_kube_def)
qed

text \<open>
  Recovery from a peer transfers its secrets: when the peer's Coordinator answered from the state
  of the handshake, the asking Coordinator's authorizer ends with the same seed engine and the
  same mesh CA key, so certificates issued by either chain to the same mesh CA key.
\<close>

theorem peer_recovery_transfers_secrets:
  assumes "key_codec K" and "mesh_recover K (MeshPeer ai host) = Inr resp"
    and "new_seed_engine D secret slt = Inr (seed_engine_of (auth_state ai))"
    and "val m = Inr v" and "rpc v = Inr resp"
  shows "peer_authorizer D K val rpc m
     = Inr (seed_engine_of (auth_state ai), interm_priv_key (ca_of (auth_state ai)))"
  by (rule key_codec.peer_recovery_transfers [where val = val and m = m and rpc = rpc and v = v, OF assms])

theorem peer_recovery_transfers_secrets_witness:
  "\<exists>resp. mesh_recover plain_keylib demo_mesh_peer = Inr resp
     \<and> peer_authorizer plain_kdf plain_keylib (\<lambda>m. Inr ()) (\<lambda>v. Inr resp) demo_manifest = Inr (demo_engine, [9])"
proof -
  obtain resp where r: "mesh_recover plain_keylib demo_mesh_peer = Inr resp"
    using demo_mesh_recovers by blast
  have "new_seed_engine plain_kdf (replicate 32 7) (replicate 32 8) = Inr (seed_engine_of (auth_state demo_auth))"
    by (simp add: demo_auth_def demo_engine_made)
  from peer_recovery_transfers_secrets [OF plain_keys.key_codec_axioms r [unfolded demo_mesh_peer_def] this,
      where val = "\<lambda>m. Inr ()" and rpc = "\<lambda>v. Inr resp"] r show ?thesis
    by (auto simp: demo_auth_def demo_ca_def)
qed

text \<open>
  The Coordinator validator of a manifest accepts only a document that the manifest's own validator
  accepts and whose host data is the policy hash of an entry with the Coordinator role.
\<close>

theorem coordinator_validator_checks_policy:
  assumes "manifest_coordinator_validator factory m = Inr v" and "accepts v oi doc rd"
  shows "\<exists>w rs r. factory m 1 = Inr w \<and> validate w oi doc rd = (None, rs @ [r])
      \<and> (\<exists>h e. (h, e) \<in> set (policies m) \<and> role e = role_coordinator \<and> hex_decode h = Inr (host_data r))"
  by (rule coordinator_validator_accepts [OF assms])

theorem coordinator_validator_checks_policy_witness:
  "\<exists>v. manifest_coordinator_validator (\<lambda>m i. Inr (demo_reporting :: unit report validator)) demo_manifest = Inr v
     \<and> accepts v raw_insecure_report [] [] \<and> (\<exists>h e. (h, e) \<in> set (policies demo_manifest) \<and> role e = role_coordinator)"
proof -
  obtain v where v: "manifest_coordinator_validator (\<lambda>m i. Inr (demo_reporting :: unit report validator)) demo_manifest = Inr v"
    "accepts v raw_insecure_report [] []" using demo_coordinator_accepted by blast
  from coordinator_validator_checks_policy [OF v] v show ?thesis by blast
qed

text \<open>
  The launch digest of a guest with n virtual CPUs is the digest of the same guest with one,
  extended by n - 1 pages of further processors: measuring once and extending gives what
  measuring anew gives.
\<close>

theorem launch_digest_extends:
  assumes "calc_snp_launch_digest H H' rf path 1 sig k i c 1 = Inr sd"
    and "new_ovmf rf path four_gb = Inr o'" and "sev_es_reset_eip o' = Inr ap" and "1 \<le> n" and "n \<le> 65535"
  shows "calc_snp_launch_digest H H' rf path n sig k i c 1 = extend_snp_launch_digest H sd (int n) ap sig"
  by (rule calc_extends [OF assms])

theorem launch_digest_extends_witness:
  "\<exists>d. calc_snp_launch_digest (\<lambda>b. b) (\<lambda>b. b) (\<lambda>f. Inr small_image) ''OVMF.fd'' 1 0xa00f11 '''' '''' '''' 1 = Inr d
     \<and> calc_snp_launch_digest (\<lambda>b. b) (\<lambda>b. b) (\<lambda>f. Inr small_image) ''OVMF.fd'' 3 0xa00f11 '''' '''' '''' 1
        = extend_snp_launch_digest (\<lambda>b. b) d 3 0x80b004 0xa00f11"
proof -
  obtain d where d: "calc_snp_launch_digest (\<lambda>b. b) (\<lambda>b. b) (\<lambda>f. Inr small_image) ''OVMF.fd'' 1 0xa00f11 '''' '''' '''' 1 = Inr d"
    using small_image_measured by blast
  obtain o' where o': "new_ovmf (\<lambda>f. Inr small_image) ''OVMF.fd'' four_gb = Inr o'" "sev_es_reset_eip o' = Inr 0x80b004"
    using small_image_ovmf by blast
  from launch_digest_extends [OF d o', of 3] d show ?thesis by simp
qed

text \<open>
  Domain separation: two derivations for workload secrets or transit keys use the same info string
  only for the same identifier, or the same version and name; the decimal version cannot run into
  the name.
\<close>

theorem derivation_infos_are_separate:
  "(workload_secret_info a = workload_secret_info b \<longleftrightarrow> a = b)
   \<and> (transit_key_info v x = transit_key_info w y \<longleftrightarrow> v = w \<and> x = y)
   \<and> workload_secret_info a \<noteq> transit_key_info v x"
  using workload_secret_info_inject transit_key_info_inject
  by (simp add: workload_secret_info_def transit_key_info_def)

text \<open>
  The authority's certificates chain: the root certifies itself and the intermediate certificate,
  the mesh certificate certifies itself with the same name and key as the intermediate one, so a
  leaf verifies against either root, and the pool holds just the mesh certificate.
\<close>

theorem authority_certificates_chain:
  assumes "x509_laws X signed_by" and "new_ca X rnd now root_priv interm_priv = Inr c"
  shows "\<exists>root interm. certifies X signed_by (root_ca_pem c) root (key_public X root_priv)
      \<and> cert_public_key root = Some (key_public X root_priv)
      \<and> certifies X signed_by (interm_ca_pem c) interm (key_public X root_priv)
      \<and> issuer_cn interm = subject_cn root
      \<and> certifies X signed_by (mesh_ca_pem c) (mesh_ca_cert c) (key_public X interm_priv)
      \<and> subject_cn interm = subject_cn (mesh_ca_cert c)
      \<and> cert_public_key interm = Some (key_public X interm_priv)
      \<and> cert_public_key (mesh_ca_cert c) = Some (key_public X interm_priv)
      \<and> mesh_ca_cert_pool c = [mesh_ca_cert c]"
proof -
  note pool = x509_laws.new_ca_chains(2) [OF assms]
  from x509_laws.new_ca_chains(1) [OF assms] obtain root interm where
    "certifies X signed_by (root_ca_pem c) root (key_public X root_priv)"
    "cert_public_key root = Some (key_public X root_priv)"
    "certifies X signed_by (interm_ca_pem c) interm (key_public X root_priv)" "issuer_cn interm = subject_cn root"
    "certifies X signed_by (mesh_ca_pem c) (mesh_ca_cert c) (key_public X interm_priv)"
    "subject_cn interm = subject_cn (mesh_ca_cert c)"
    "cert_public_key interm = cert_public_key (mesh_ca_cert c)"
    "cert_public_key (mesh_ca_cert c) = Some (key_public X interm_priv)" by blast
  with pool show ?thesis by (intro exI [of _ root] exI [of _ interm]) simp
qed

theorem authority_certificates_chain_witness:
  "\<exists>c. new_ca (plain_certlib :: (bytes, bytes, bytes, bytes, bytes) certlib) (\<lambda>i. ([], [])) 0 [1] [2] = Inr c \<and> mesh_ca_cert_pool c = [mesh_ca_cert c]"
proof -
  obtain c where c: "new_ca (plain_certlib :: (bytes, bytes, bytes, bytes, bytes) certlib) (\<lambda>i. ([], [])) 0 [1] [2] = Inr c"
    by (simp add: new_ca_def create_self_signed_def create_cert_def generate_certificate_serial_number_def
        ca_template_def plain_certlib_def Let_def)
  from authority_certificates_chain [OF plain_x509.x509_laws_axioms c] c show ?thesis by blast
qed

text \<open>
  A leaf certificate carries the requested key, extensions and DNS names, is issued under the name
  and key of the mesh CA, and is no CA itself.
\<close>

theorem leaf_certificate_is_bound:
  assumes "x509_laws X signed_by" and "new_attested_mesh_cert X rnd now c names exts pub = Inr pem"
  shows "\<exists>cert. certifies X signed_by pem cert (key_public X (interm_priv_key c))
      \<and> issuer_cn cert = subject_cn (mesh_ca_cert c) \<and> cert_public_key cert = Some pub
      \<and> \<not> is_ca cert \<and> extra_extensions cert = exts
      \<and> dns_names cert = filter (is_dns X) names \<and> subject_cn cert = hd (dns_names cert)"
  by (rule x509_laws.mesh_cert_certified [OF assms])

theorem leaf_certificate_is_bound_witness:
  "\<exists>c pem. new_attested_mesh_cert (plain_certlib :: (bytes, bytes, bytes, bytes, bytes) certlib) ([], []) 0 c [''db'', ''10.0.0.1''] [] [7] = Inr pem"
proof -
  obtain c where c: "new_ca (plain_certlib :: (bytes, bytes, bytes, bytes, bytes) certlib) (\<lambda>i. ([], [])) 0 [1] [2] = Inr c"
    by (simp add: new_ca_def create_self_signed_def create_cert_def generate_certificate_serial_number_def
        ca_template_def plain_certlib_def Let_def)
  obtain pem where p: "new_attested_mesh_cert (plain_certlib :: (bytes, bytes, bytes, bytes, bytes) certlib) ([], []) 0 c [''db'', ''10.0.0.1''] [] [7] = Inr pem"
    by (simp add: new_attested_mesh_cert_def create_cert_def generate_certificate_serial_number_def
        plain_certlib_def has_prefix_def Let_def)
  from leaf_certificate_is_bound [OF plain_x509.x509_laws_axioms p] p show ?thesis by blast
qed

text \<open>
  Transitions and their 64 bytes determine each other: what was marshalled is parsed back, and what
  parses is the marshalled form of its result.
\<close>

theorem transition_bytes_round_trip:
  assumes "wf_transition t"
  shows "unmarshal_transition (marshal_transition t) = Inr t
    \<and> (unmarshal_transition d = Inr t \<longleftrightarrow> d = marshal_transition t)"
  using unmarshal_marshal_transition [OF assms] marshal_unmarshal_transition by blast

theorem transition_bytes_round_trip_witness:
  "unmarshal_transition (marshal_transition \<lparr>manifest_hash = replicate 32 1, previous_transition_hash = zero_hash\<rparr>)
     = Inr \<lparr>manifest_hash = replicate 32 1, previous_transition_hash = zero_hash\<rparr>"
proof -
  have "wf_transition \<lparr>manifest_hash = replicate 32 1, previous_transition_hash = zero_hash\<rparr>" by code_simp
  from transition_bytes_round_trip [OF this] show ?thesis by blast
qed

text \<open>
  The config maps that \<open>RecoverConfigMaps\<close> emits hold, where the store looks for
  them, every manifest, policy and transition of the history and the latest transition.
\<close>

theorem recovered_config_maps_hold_history:
  assumes "recover_config_maps H version ms ps lh sig = Inr out"
    and "m \<in> set ms" and "q \<in> set ps" and "t \<in> set (build_transition_chain H ms)"
  shows "holds_object out (content_path ''manifests'' (digest H m)) m
    \<and> holds_object out (content_path ''policies'' (digest H q)) q
    \<and> holds_object out (content_path ''transitions'' (transition_digest H t)) (marshal_transition t)
    \<and> holds_object out latest_key (marshal_latest (Some \<lparr>transition_hash = take 32 lh, signature = sig\<rparr>))"
  using recover_config_maps_ok [OF assms(1)] assms(2-4) by blast

theorem recovered_config_maps_hold_history_witness:
  "\<exists>out. recover_config_maps demo_hash ''v1'' [[1, 2]] [demo_policy] (replicate 32 3) [4] = Inr out
     \<and> holds_object out (content_path ''manifests'' (digest demo_hash [1, 2])) [1, 2]"
proof -
  have "case recover_config_maps demo_hash ''v1'' [[1, 2]] [demo_policy] (replicate 32 3) [4] of
      Inl _ \<Rightarrow> False | Inr _ \<Rightarrow> True" by code_simp
  then obtain out where o: "recover_config_maps demo_hash ''v1'' [[1, 2]] [demo_policy] (replicate 32 3) [4] = Inr out"
    by (auto split: sum.splits)
  obtain t where t: "t \<in> set (build_transition_chain demo_hash [[1, 2]])"
    by (simp add: build_transition_chain_def Let_def)
  from recovered_config_maps_hold_history [OF o _ _ t, of "[1, 2]" demo_policy] o show ?thesis by auto
qed

text \<open>
  Round trip over a restart: on a filesystem that keeps what was written, a fresh history reads
  back what a history has set, under the hash that setting it returned.
\<close>

theorem set_object_is_read_after_restart:
  assumes "filesystem F view" and "obj_kind \<in> set history_kinds"
    and "set_contentaddressed H (afero_store F) obj_kind d h = (Inr k, h')"
  shows "\<exists>h''. get_contentaddressed H (afero_store F) obj_kind k (new_with_store (h_store h')) = (Inr d, h'')"
  by (rule reliable_store.set_get_after_restart [OF filesystem.is_reliable [OF assms(1)] assms(2,3)])

theorem set_object_is_read_after_restart_witness:
  "\<exists>h' h''. set_contentaddressed demo_hash (afero_store mem_fs) ''policies'' demo_policy (hist_of demo_guard)
      = (Inr (digest demo_hash demo_policy), h')
     \<and> get_contentaddressed demo_hash (afero_store mem_fs) ''policies'' (digest demo_hash demo_policy)
        (new_with_store (h_store h')) = (Inr demo_policy, h'')"
proof -
  have "case set_contentaddressed demo_hash (afero_store mem_fs) ''policies'' demo_policy (hist_of demo_guard) of
      (Inl _, _) \<Rightarrow> False | (Inr k, _) \<Rightarrow> True" by code_simp
  then obtain k h' where s: "set_contentaddressed demo_hash (afero_store mem_fs) ''policies'' demo_policy
      (hist_of demo_guard) = (Inr k, h')" by (auto split: prod.splits sum.splits)
  have k: "k = digest demo_hash demo_policy" using set_contentaddressed_result [OF s] by simp
  from set_object_is_read_after_restart [OF memfs.filesystem_axioms history_kinds_mem(2) s] s k show ?thesis by blast
qed

end
